(* ===== verification/Strings.thy ===== *)
theory Strings
  imports Prelude
begin

text \<open>
  The operations of Rust's \<open>str\<close> and of its integer formatting and parsing that the sources call,
  over UTF-8 byte lists, and the ordered map \<open>BTreeMap\<close>.
\<close>

section \<open>Bytes and characters\<close>

definition byte_of :: "char \<Rightarrow> nat" where
  "byte_of c = of_char c"

definition is_ascii_digit :: "char \<Rightarrow> bool" where
  "is_ascii_digit c \<longleftrightarrow> 48 \<le> byte_of c \<and> byte_of c \<le> 57"

definition is_ascii_upper :: "char \<Rightarrow> bool" where
  "is_ascii_upper c \<longleftrightarrow> 65 \<le> byte_of c \<and> byte_of c \<le> 90"

definition is_ascii_lower :: "char \<Rightarrow> bool" where
  "is_ascii_lower c \<longleftrightarrow> 97 \<le> byte_of c \<and> byte_of c \<le> 122"

definition is_ascii_alphanumeric :: "char \<Rightarrow> bool" where
  "is_ascii_alphanumeric c \<longleftrightarrow> is_ascii_digit c \<or> is_ascii_upper c \<or> is_ascii_lower c"

definition is_lower_hex :: "char \<Rightarrow> bool" where
  "is_lower_hex c \<longleftrightarrow> is_ascii_digit c \<or> 97 \<le> byte_of c \<and> byte_of c \<le> 102"

definition is_ascii_hexdigit :: "char \<Rightarrow> bool" where
  "is_ascii_hexdigit c \<longleftrightarrow> is_lower_hex c \<or> 65 \<le> byte_of c \<and> byte_of c \<le> 70"

definition ascii_lower :: "char \<Rightarrow> char" where
  "ascii_lower c = (if is_ascii_upper c then char_of (byte_of c + 32) else c)"

definition to_ascii_lowercase :: "string \<Rightarrow> string" where
  "to_ascii_lowercase s = map ascii_lower s"

lemma length_to_ascii_lowercase [simp]: "length (to_ascii_lowercase s) = length s"
  by (simp add: to_ascii_lowercase_def)

lemma byte_of_less [simp]: "byte_of c < 256"
  by (simp add: byte_of_def)

lemma ascii_lower_idem [simp]: "ascii_lower (ascii_lower c) = ascii_lower c"
  by (auto simp: ascii_lower_def is_ascii_upper_def byte_of_def)

lemma to_ascii_lowercase_idem [simp]:
  "to_ascii_lowercase (to_ascii_lowercase s) = to_ascii_lowercase s"
  by (simp add: to_ascii_lowercase_def)

lemma lower_hex_not_upper: "is_lower_hex c \<Longrightarrow> \<not> is_ascii_upper c"
  by (auto simp: is_lower_hex_def is_ascii_digit_def is_ascii_upper_def)

lemma to_ascii_lowercase_hex: "list_all is_lower_hex s \<Longrightarrow> to_ascii_lowercase s = s"
  by (induction s) (auto simp: to_ascii_lowercase_def ascii_lower_def dest: lower_hex_not_upper)

section \<open>Whitespace\<close>

text \<open>
  \<open>char::is_whitespace\<close> is the Unicode property White_Space. \<open>ws_len\<close> reads a UTF-8 byte list and
  gives the number of bytes of a leading white-space character, or 0 when there is none;
  \<open>ws_len_rev\<close> does the same for a trailing one, on the reversed list.
\<close>

fun ws_len :: "nat list \<Rightarrow> nat" where
  "ws_len [] = 0"
| "ws_len (a # as) =
     (if (9 \<le> a \<and> a \<le> 13) \<or> a = 32 then 1
      else case as of
        [] \<Rightarrow> 0
      | b # bs \<Rightarrow>
          if a = 194 \<and> (b = 133 \<or> b = 160) then 2
          else case bs of
            [] \<Rightarrow> 0
          | c # _ \<Rightarrow>
              if a = 225 \<and> b = 154 \<and> c = 128
                \<or> a = 226 \<and> b = 128 \<and> (128 \<le> c \<and> c \<le> 138 \<or> c = 168 \<or> c = 169 \<or> c = 175)
                \<or> a = 226 \<and> b = 129 \<and> c = 159
                \<or> a = 227 \<and> b = 128 \<and> c = 128
              then 3 else 0)"

fun ws_len_rev :: "nat list \<Rightarrow> nat" where
  "ws_len_rev [] = 0"
| "ws_len_rev (a # as) =
     (if (9 \<le> a \<and> a \<le> 13) \<or> a = 32 then 1
      else case as of
        [] \<Rightarrow> 0
      | b # bs \<Rightarrow>
          if 0 < ws_len [b, a] \<and> b = 194 then 2
          else case bs of
            [] \<Rightarrow> 0
          | c # _ \<Rightarrow> if ws_len [c, b, a] = 3 then 3 else 0)"

lemma ws_len_pos_nonempty: "0 < ws_len bs \<Longrightarrow> bs \<noteq> []"
  by auto

function trim_by :: "(nat list \<Rightarrow> nat) \<Rightarrow> string \<Rightarrow> string" where
  "trim_by len s =
     (if s = [] \<or> len (map byte_of s) = 0 then s else trim_by len (drop (len (map byte_of s)) s))"
  by pat_completeness auto
termination
  by (relation "measure (\<lambda>(len, s). length s)") auto

declare trim_by.simps [simp del]

definition trim_start :: "string \<Rightarrow> string" where
  "trim_start s = trim_by ws_len s"

definition trim_end :: "string \<Rightarrow> string" where
  "trim_end s = rev (trim_by ws_len_rev (rev s))"

definition trim :: "string \<Rightarrow> string" where
  "trim s = trim_end (trim_start s)"

text \<open>\<open>value.trim().is_empty()\<close>, the test every label and configuration entry goes through.\<close>

definition blank :: "string \<Rightarrow> bool" where
  "blank s \<longleftrightarrow> trim s = []"

lemma trim_by_Nil [simp]: "trim_by len [] = []"
  by (simp add: trim_by.simps)

lemma trim_Nil [simp]: "trim [] = []"
  by (simp add: trim_def trim_start_def trim_end_def)

lemma blank_Nil [simp]: "blank []"
  by (simp add: blank_def)

lemma trim_by_stop: "len (map byte_of s) = 0 \<Longrightarrow> trim_by len s = s"
  by (simp add: trim_by.simps)

text \<open>A byte that no white-space character starts or ends with: printable ASCII.\<close>

definition is_ascii_graphic :: "char \<Rightarrow> bool" where
  "is_ascii_graphic c \<longleftrightarrow> 33 \<le> byte_of c \<and> byte_of c \<le> 126"

lemma ws_len_graphic: "33 \<le> a \<Longrightarrow> a \<le> 126 \<Longrightarrow> ws_len (a # as) = 0"
  by (auto split: list.splits)

lemma ws_len_rev_graphic: "33 \<le> a \<Longrightarrow> a \<le> 126 \<Longrightarrow> ws_len_rev (a # as) = 0"
  by (auto split: list.splits)

lemma trim_start_graphic: "is_ascii_graphic c \<Longrightarrow> trim_start (c # s) = c # s"
  unfolding trim_start_def is_ascii_graphic_def
  by (rule trim_by_stop) (simp add: ws_len_graphic del: ws_len.simps)

lemma trim_end_graphic: "is_ascii_graphic c \<Longrightarrow> trim_end (s @ [c]) = s @ [c]"
  unfolding trim_end_def is_ascii_graphic_def
  by (subst trim_by_stop) (simp_all add: ws_len_rev_graphic del: ws_len_rev.simps)

lemma trim_graphic:
  assumes "s \<noteq> []" and "list_all is_ascii_graphic s"
  shows "trim s = s"
proof -
  obtain c t where ct: "s = c # t" using assms(1) by (cases s) auto
  obtain u d where ud: "s = u @ [d]" using assms(1) by (cases s rule: rev_cases) auto
  have "trim_start s = s" using ct assms(2) by (simp add: trim_start_graphic)
  moreover have "trim_end s = s" using ud assms(2) by (simp add: trim_end_graphic)
  ultimately show ?thesis by (simp add: trim_def)
qed

lemma not_blank_graphic: "s \<noteq> [] \<Longrightarrow> list_all is_ascii_graphic s \<Longrightarrow> \<not> blank s"
  by (simp add: blank_def trim_graphic)

text \<open>A string that begins with a graphic character is never blank.\<close>

lemma trim_by_keeps_last:
  assumes "\<forall>as. length as \<le> length s \<longrightarrow> len (map byte_of (as @ [c])) \<le> length as" 
  shows "\<exists>t. trim_by len (s @ [c]) = t @ [c]"
  using assms
proof (induction "length s" arbitrary: s rule: less_induct)
  case less
  let ?n = "len (map byte_of (s @ [c]))"
  show ?case
  proof (cases "?n = 0")
    case True
    then show ?thesis by (simp add: trim_by_stop)
  next
    case False
    have n: "?n \<le> length s" using less.prems by blast
    then have d: "drop ?n (s @ [c]) = drop ?n s @ [c]" by simp
    have "length (drop ?n s) < length s" using False n by simp
    then have "\<exists>t. trim_by len (drop ?n s @ [c]) = t @ [c]"
      using less.hyps less.prems by (metis (no_types, lifting) order_le_less_trans less_imp_le)
    then show ?thesis using False d by (subst trim_by.simps) simp
  qed
qed

lemma ws_len_rev_bound:
  "33 \<le> c \<Longrightarrow> c \<le> 126 \<Longrightarrow> ws_len_rev (as @ [c]) \<le> length as"
  by (cases as; cases "tl as"; cases "tl (tl as)") (auto split: list.splits)

lemma not_blank_graphic_hd:
  assumes "is_ascii_graphic c"
  shows "\<not> blank (c # s)"
proof -
  have c: "33 \<le> byte_of c" "byte_of c \<le> 126" using assms by (auto simp: is_ascii_graphic_def)
  have "\<exists>t. trim_by ws_len_rev (rev s @ [c]) = t @ [c]"
  proof (rule trim_by_keeps_last, intro allI impI)
    fix as :: string
    assume "length as \<le> length (rev s)"
    show "ws_len_rev (map byte_of (as @ [c])) \<le> length as"
      using ws_len_rev_bound [OF c, of "map byte_of as"] by simp
  qed
  then obtain t where "trim_by ws_len_rev (rev s @ [c]) = t @ [c]" by blast
  then have "trim_end (c # s) \<noteq> []" by (simp add: trim_end_def)
  then show ?thesis by (simp add: blank_def trim_def trim_start_graphic assms)
qed

section \<open>Splitting and joining\<close>

text \<open>\<open>str::split(char)\<close>: always at least one piece.\<close>

fun split_on :: "char \<Rightarrow> string \<Rightarrow> string list" where
  "split_on c [] = [[]]"
| "split_on c (x # xs) =
     (if x = c then [] # split_on c xs
      else case split_on c xs of [] \<Rightarrow> [[x]] | p # ps \<Rightarrow> (x # p) # ps)"

lemma split_on_nonempty [simp]: "split_on c s \<noteq> []"
  by (induction s) (auto split: list.splits)

lemma split_on_no_sep: "c \<notin> set s \<Longrightarrow> split_on c s = [s]"
  by (induction s) auto

lemma split_on_append: "c \<notin> set p \<Longrightarrow> split_on c (p @ c # s) = p # split_on c s"
  by (induction p) auto

lemma split_on_pieces: "p \<in> set (split_on c s) \<Longrightarrow> c \<notin> set p"
  by (induction s arbitrary: p) (fastforce split: if_splits list.splits)+

text \<open>\<open>[String]::join\<close>.\<close>

fun join :: "string \<Rightarrow> string list \<Rightarrow> string" where
  "join sep [] = []"
| "join sep [x] = x"
| "join sep (x # y # ys) = x @ sep @ join sep (y # ys)"

lemma split_on_join:
  "xs \<noteq> [] \<Longrightarrow> \<forall>x \<in> set xs. c \<notin> set x \<Longrightarrow> split_on c (join [c] xs) = xs"
proof (induction "[c]" xs rule: join.induct)
  case (2 x)
  then show ?case by (simp add: split_on_no_sep)
next
  case (3 x y ys)
  then show ?case by (simp add: split_on_append)
qed simp

text \<open>\<open>str::split_once(char)\<close> and \<open>str::rsplit_once(char)\<close>.\<close>

fun split_once :: "char \<Rightarrow> string \<Rightarrow> (string \<times> string) option" where
  "split_once c [] = None"
| "split_once c (x # xs) =
     (if x = c then Some ([], xs)
      else map_option (\<lambda>(a, b). (x # a, b)) (split_once c xs))"

definition rsplit_once :: "char \<Rightarrow> string \<Rightarrow> (string \<times> string) option" where
  "rsplit_once c s = map_option (\<lambda>(a, b). (rev b, rev a)) (split_once c (rev s))"

lemma split_once_append: "c \<notin> set p \<Longrightarrow> split_once c (p @ c # s) = Some (p, s)"
  by (induction p) auto

lemma split_once_None: "split_once c s = None \<longleftrightarrow> c \<notin> set s"
  by (induction s) auto

lemma split_once_Some:
  "split_once c s = Some (a, b) \<Longrightarrow> s = a @ c # b \<and> c \<notin> set a"
  by (induction s arbitrary: a b) (auto split: if_splits)

lemma rsplit_once_append:
  assumes "c \<notin> set q"
  shows "rsplit_once c (p @ c # q) = Some (p, q)"
  using split_once_append [of c "rev q" "rev p"] assms by (simp add: rsplit_once_def)

lemma rsplit_once_Some:
  assumes "rsplit_once c s = Some (p, q)"
  shows "s = p @ c # q \<and> c \<notin> set q"
proof -
  from assms have "split_once c (rev s) = Some (rev q, rev p)"
    by (auto simp: rsplit_once_def)
  then have "rev s = rev q @ c # rev p \<and> c \<notin> set (rev q)" by (rule split_once_Some)
  then have "rev (rev s) = rev (rev q @ c # rev p)" and "c \<notin> set q" by simp_all
  then show ?thesis by simp
qed

text \<open>\<open>starts_with\<close>, \<open>ends_with\<close>, \<open>strip_prefix\<close> and \<open>strip_suffix\<close>.\<close>

definition starts_with :: "string \<Rightarrow> string \<Rightarrow> bool" where
  "starts_with s p \<longleftrightarrow> take (length p) s = p"

definition ends_with :: "string \<Rightarrow> string \<Rightarrow> bool" where
  "ends_with s p \<longleftrightarrow> starts_with (rev s) (rev p)"

definition strip_prefix :: "string \<Rightarrow> string \<Rightarrow> string option" where
  "strip_prefix p s = (if starts_with s p then Some (drop (length p) s) else None)"

definition strip_suffix :: "string \<Rightarrow> string \<Rightarrow> string option" where
  "strip_suffix p s = (if ends_with s p then Some (take (length s - length p) s) else None)"

lemma starts_with_iff: "starts_with s p \<longleftrightarrow> (\<exists>t. s = p @ t)"
  by (auto simp: starts_with_def) (metis append_take_drop_id)

lemma starts_with_append [simp]: "starts_with (p @ t) p"
  by (simp add: starts_with_def)

lemma ends_with_iff: "ends_with s p \<longleftrightarrow> (\<exists>t. s = t @ p)"
  by (auto simp: ends_with_def starts_with_iff) (metis rev_append rev_rev_ident)

lemma ends_with_append [simp]: "ends_with (t @ p) p"
  by (auto simp: ends_with_iff)

lemma strip_prefix_append [simp]: "strip_prefix p (p @ t) = Some t"
  by (simp add: strip_prefix_def)

lemma strip_prefix_Some: "strip_prefix p s = Some t \<longleftrightarrow> s = p @ t"
  by (auto simp: strip_prefix_def starts_with_iff)

lemma strip_suffix_append [simp]: "strip_suffix p (t @ p) = Some t"
  by (simp add: strip_suffix_def)

lemma strip_suffix_Some: "strip_suffix p s = Some t \<longleftrightarrow> s = t @ p"
  by (auto simp: strip_suffix_def ends_with_iff)

end
