(* ===== verification/Containers.thy ===== *)
theory Containers
  imports Strings
begin

text \<open>
  \<open>BTreeMap\<close>: a key-sorted association list. The interface \<open>ordered_map\<close> states what its clients
  rely on (a lookup after an insertion, iteration in strictly increasing key order), with the
  client lemmas about bulk insertion proved once inside; the interpretation \<open>bt\<close> discharges it
  on the model's own operations. \<open>Vec\<close>'s \<open>sort\<close> and \<open>dedup\<close> are \<^const>\<open>sort\<close> and
  \<^const>\<open>remdups_adj\<close>.
\<close>

type_synonym ('k, 'v) btree = "('k \<times> 'v) list"

fun bt_insert :: "'k::linorder \<Rightarrow> 'v \<Rightarrow> ('k, 'v) btree \<Rightarrow> ('k, 'v) btree" where
  "bt_insert k v [] = [(k, v)]"
| "bt_insert k v ((a, b) # m) =
     (if k < a then (k, v) # (a, b) # m
      else if k = a then (k, v) # m
      else (a, b) # bt_insert k v m)"

definition bt_get :: "('k, 'v) btree \<Rightarrow> 'k \<Rightarrow> 'v option" where
  "bt_get m k = map_of m k"

definition bt_wf :: "('k::linorder, 'v) btree \<Rightarrow> bool" where
  "bt_wf m \<longleftrightarrow> sorted_wrt (<) (map fst m)"

text \<open>\<open>entry(k).or_insert_with(v)\<close> and \<open>entry(k).or_default().push(v)\<close>.\<close>

definition bt_or_insert :: "'k::linorder \<Rightarrow> 'v \<Rightarrow> ('k, 'v) btree \<Rightarrow> ('k, 'v) btree" where
  "bt_or_insert k v m = (case bt_get m k of None \<Rightarrow> bt_insert k v m | Some _ \<Rightarrow> m)"

definition bt_push :: "'k::linorder \<Rightarrow> 'v \<Rightarrow> ('k, 'v list) btree \<Rightarrow> ('k, 'v list) btree" where
  "bt_push k v m = bt_insert k (unwrap_or (bt_get m k) [] @ [v]) m"

definition bt_incr :: "'k::linorder \<Rightarrow> ('k, nat) btree \<Rightarrow> ('k, nat) btree" where
  "bt_incr k m = bt_insert k (Suc (unwrap_or (bt_get m k) 0)) m"

text \<open>\<open>BTreeMap::from\<close> and \<open>extend\<close>: insert one after the other, later entries win.\<close>

fun bt_extend :: "('k::linorder, 'v) btree \<Rightarrow> ('k \<times> 'v) list \<Rightarrow> ('k, 'v) btree" where
  "bt_extend m [] = m"
| "bt_extend m ((k, v) # kvs) = bt_extend (bt_insert k v m) kvs"

definition bt_from :: "('k::linorder \<times> 'v) list \<Rightarrow> ('k, 'v) btree" where
  "bt_from kvs = bt_extend [] kvs"

lemma bt_get_Nil [simp, btree_simps]: "bt_get [] k = None"
  by (simp add: bt_get_def)

lemma bt_get_insert [btree_simps]:
  "bt_get (bt_insert k v m) j = (if j = k then Some v else bt_get m j)"
  by (induction k v m rule: bt_insert.induct) (auto simp: bt_get_def)

lemma set_keys_insert: "set (map fst (bt_insert k v m)) = insert k (set (map fst m))"
  by (induction k v m rule: bt_insert.induct) auto

lemma bt_wf_Nil [simp]: "bt_wf []"
  by (simp add: bt_wf_def)

lemma bt_wf_insert [btree_simps]: "bt_wf m \<Longrightarrow> bt_wf (bt_insert k v m)"
proof (induction k v m rule: bt_insert.induct)
  case (2 k v a b m)
  then show ?case
    using set_keys_insert [of k v m] by (auto simp: bt_wf_def)
qed (simp add: bt_wf_def)

text \<open>The interface of an ordered map, as its clients see it.\<close>

locale ordered_map =
  fixes empty :: "'m"
    and insert :: "'k::linorder \<Rightarrow> 'v \<Rightarrow> 'm \<Rightarrow> 'm"
    and get :: "'m \<Rightarrow> 'k \<Rightarrow> 'v option"
    and entries :: "'m \<Rightarrow> ('k \<times> 'v) list"
    and wf :: "'m \<Rightarrow> bool"
  assumes get_empty: "get empty k = None"
    and get_insert: "get (insert k v m) j = (if j = k then Some v else get m j)"
    and wf_empty: "wf empty"
    and wf_insert: "wf m \<Longrightarrow> wf (insert k v m)"
    and entries_sorted: "wf m \<Longrightarrow> sorted_wrt (<) (map fst (entries m))"
    and entries_get: "wf m \<Longrightarrow> (k, v) \<in> set (entries m) \<longleftrightarrow> get m k = Some v"
begin

lemma wf_fold: "wf m \<Longrightarrow> wf (foldl (\<lambda>m (k, v). insert k v m) m kvs)"
  by (induction kvs arbitrary: m) (auto simp: wf_insert)

lemma get_fold:
  "get (foldl (\<lambda>m (k, v). insert k v m) m kvs) j =
     (case map_of (rev kvs) j of None \<Rightarrow> get m j | Some v \<Rightarrow> Some v)"
proof (induction kvs arbitrary: m)
  case (Cons kv kvs)
  then show ?case
    by (cases kv) (auto simp: get_insert map_add_def split: option.splits)
qed simp

lemma entries_distinct: "wf m \<Longrightarrow> distinct (map fst (entries m))"
  using entries_sorted strict_sorted_iff by auto

lemma entries_unique:
  "wf m \<Longrightarrow> (k, v) \<in> set (entries m) \<Longrightarrow> (k, w) \<in> set (entries m) \<Longrightarrow> v = w"
  by (simp add: entries_get)

end

lemma bt_wf_distinct: "bt_wf m \<Longrightarrow> distinct (map fst m)"
  using strict_sorted_iff bt_wf_def by auto

lemma bt_entries_get: "bt_wf m \<Longrightarrow> (k, v) \<in> set m \<longleftrightarrow> bt_get m k = Some v"
  by (auto simp: bt_get_def dest: map_of_SomeD intro: map_of_is_SomeI bt_wf_distinct)

interpretation bt: ordered_map "[]" bt_insert bt_get "\<lambda>m. m" bt_wf
  by unfold_locales
    (simp_all add: bt_get_insert bt_wf_insert bt_entries_get, simp add: bt_wf_def)

lemma bt_extend_fold: "bt_extend m kvs = foldl (\<lambda>m (k, v). bt_insert k v m) m kvs"
  by (induction m kvs rule: bt_extend.induct) auto

lemma bt_get_extend [btree_simps]:
  "bt_get (bt_extend m kvs) j = (case map_of (rev kvs) j of None \<Rightarrow> bt_get m j | Some v \<Rightarrow> Some v)"
  unfolding bt_extend_fold by (rule bt.get_fold)

lemma bt_wf_extend [btree_simps]: "bt_wf m \<Longrightarrow> bt_wf (bt_extend m kvs)"
  unfolding bt_extend_fold by (rule bt.wf_fold)

lemma bt_wf_from [simp]: "bt_wf (bt_from kvs)"
  by (simp add: bt_from_def bt_wf_extend)

lemma bt_get_from_distinct:
  assumes "distinct (map fst kvs)"
  shows "bt_get (bt_from kvs) k = map_of kvs k"
proof -
  have "distinct (map fst (rev kvs))" using assms by (simp add: rev_map [symmetric])
  then have "map_of (rev kvs) = map_of kvs"
    using assms map_of_inject_set [of "rev kvs" kvs] by simp
  then show ?thesis by (simp add: bt_from_def bt_get_extend split: option.splits)
qed

lemma bt_get_or_insert [btree_simps]:
  "bt_get (bt_or_insert k v m) j =
     (if j = k then Some (unwrap_or (bt_get m k) v) else bt_get m j)"
  by (auto simp: bt_or_insert_def bt_get_insert split: option.splits)

lemma bt_get_push [btree_simps]:
  "bt_get (bt_push k v m) j =
     (if j = k then Some (unwrap_or (bt_get m k) [] @ [v]) else bt_get m j)"
  by (simp add: bt_push_def bt_get_insert)

lemma bt_get_incr [btree_simps]:
  "bt_get (bt_incr k m) j =
     (if j = k then Some (Suc (unwrap_or (bt_get m k) 0)) else bt_get m j)"
  by (simp add: bt_incr_def bt_get_insert)

lemma bt_wf_push [btree_simps]: "bt_wf m \<Longrightarrow> bt_wf (bt_push k v m)"
  by (simp add: bt_push_def bt_wf_insert)

section \<open>Sorting and deduplicating a vector\<close>

definition sort_dedup :: "'a::linorder list \<Rightarrow> 'a list" where
  "sort_dedup xs = remdups_adj (sort xs)"

lemma set_sort_dedup [simp]: "set (sort_dedup xs) = set xs"
  by (simp add: sort_dedup_def)

lemma sorted_sort_dedup: "sorted (sort_dedup xs)"
  by (simp add: sort_dedup_def sorted_remdups_adj)

lemma distinct_sort_dedup: "distinct (sort_dedup xs)"
  unfolding sort_dedup_def
proof -
  have "sorted ys \<Longrightarrow> distinct (remdups_adj ys)" for ys :: "'a list"
    by (induction ys rule: remdups_adj.induct) auto
  then show "distinct (remdups_adj (sort xs))" by simp
qed

lemma sort_dedup_eq_Nil [simp]: "sort_dedup xs = [] \<longleftrightarrow> xs = []"
  by (metis set_empty set_sort_dedup)

section \<open>Vectors without duplicates\<close>

text \<open>Keeping the first of equal elements: a vector filled under a \<open>HashSet\<close> of what it holds.\<close>

definition push_unique :: "'a \<Rightarrow> 'a list \<Rightarrow> 'a list" where
  "push_unique x xs = (if x \<in> set xs then xs else xs @ [x])"

definition first_occurrences :: "'a list \<Rightarrow> 'a list" where
  "first_occurrences xs = fold push_unique xs []"

lemma set_push_unique [simp]: "set (push_unique x xs) = insert x (set xs)"
  by (auto simp: push_unique_def)

lemma distinct_push_unique: "distinct xs \<Longrightarrow> distinct (push_unique x xs)"
  by (simp add: push_unique_def)

lemma fold_push_unique:
  "set (fold push_unique xs acc) = set acc \<union> set xs" "distinct acc \<Longrightarrow> distinct (fold push_unique xs acc)"
  by (induction xs arbitrary: acc) (simp_all add: distinct_push_unique)

lemma first_occurrences_laws [simp]: "set (first_occurrences xs) = set xs" "distinct (first_occurrences xs)"
  by (simp_all add: first_occurrences_def fold_push_unique)

lemma bt_extend_append: "bt_extend m (xs @ ys) = bt_extend (bt_extend m xs) ys"
  by (induction m xs rule: bt_extend.induct) simp_all

end
