(* ===== verification/Paths.thy ===== *)
theory Paths
  imports Containers
begin

text \<open>
  \<open>Utf8Path\<close>: a path is its byte string, but \<open>==\<close>, \<open>Ord\<close> and \<open>starts_with\<close> of Rust paths work
  on its components (\<open>std::path::Components\<close> on Unix: repeated and trailing slashes and inner
  \<open>.\<close> are dropped, \<open>..\<close> is kept). Models \<open>src/paths.rs\<close>.
\<close>

type_synonym path = string

datatype component = RootDir | CurDir | ParentDir | Normal string

text \<open>The derived order of \<open>Component\<close>: by constructor, then by name.\<close>

fun component_rank :: "component \<Rightarrow> nat \<times> string" where
  "component_rank RootDir = (0, [])"
| "component_rank CurDir = (1, [])"
| "component_rank ParentDir = (2, [])"
| "component_rank (Normal s) = (3, s)"

lemma component_rank_inj: "component_rank a = component_rank b \<Longrightarrow> a = b"
  by (cases a; cases b) auto

instantiation component :: linorder
begin

definition less_eq_component :: "component \<Rightarrow> component \<Rightarrow> bool" where
  "less_eq_component a b \<longleftrightarrow> component_rank a \<le> component_rank b"

definition less_component :: "component \<Rightarrow> component \<Rightarrow> bool" where
  "less_component a b \<longleftrightarrow> component_rank a < component_rank b"

instance
  by standard
    (auto simp: less_eq_component_def less_component_def dest: component_rank_inj)

end

fun component_of :: "string \<Rightarrow> component" where
  "component_of s = (if s = ''..'' then ParentDir else Normal s)"

definition normal_components :: "string list \<Rightarrow> component list" where
  "normal_components ps = map component_of (filter (\<lambda>s. s \<noteq> [] \<and> s \<noteq> ''.'') ps)"

definition is_absolute :: "path \<Rightarrow> bool" where
  "is_absolute p \<longleftrightarrow> starts_with p ''/''"

definition components :: "path \<Rightarrow> component list" where
  "components p =
     (if is_absolute p then RootDir # normal_components (split_on CHR ''/'' p)
      else case split_on CHR ''/'' p of
        [] \<Rightarrow> []
      | q # qs \<Rightarrow> (if q = ''.'' then CurDir # normal_components qs else normal_components (q # qs)))"

definition path_eq :: "path \<Rightarrow> path \<Rightarrow> bool" where
  "path_eq a b \<longleftrightarrow> components a = components b"

definition path_starts_with :: "path \<Rightarrow> path \<Rightarrow> bool" where
  "path_starts_with p base \<longleftrightarrow> take (length (components base)) (components p) = components base"

text \<open>\<open>Utf8Path::join\<close>: an absolute argument replaces the path.\<close>

definition path_join :: "path \<Rightarrow> path \<Rightarrow> path" where
  "path_join a b =
     (if is_absolute b then b
      else if a = [] then b
      else if ends_with a ''/'' then a @ b
      else a @ ''/'' @ b)"

section \<open>The functions of \<open>src/paths.rs\<close>\<close>

text \<open>\<open>absolute_utf8_path\<close>, with the current directory as a parameter.\<close>

definition absolute_utf8_path :: "path \<Rightarrow> path \<Rightarrow> path" where
  "absolute_utf8_path cwd p = (if is_absolute p then p else path_join cwd p)"

definition path_is_or_descendant :: "path \<Rightarrow> path \<Rightarrow> bool" where
  "path_is_or_descendant p root \<longleftrightarrow> path_eq p root \<or> path_starts_with p root"

lemma path_starts_with_iff:
  "path_starts_with p base \<longleftrightarrow> (\<exists>cs. components p = components base @ cs)"
  by (auto simp: path_starts_with_def) (metis append_take_drop_id)

lemma path_is_or_descendant_iff:
  "path_is_or_descendant p root \<longleftrightarrow> (\<exists>cs. components p = components root @ cs)"
  by (auto simp: path_is_or_descendant_def path_starts_with_iff path_eq_def)

lemma path_is_or_descendant_refl [simp]: "path_is_or_descendant p p"
  by (simp add: path_is_or_descendant_def path_eq_def)

lemma path_is_or_descendant_trans:
  "path_is_or_descendant p q \<Longrightarrow> path_is_or_descendant q r \<Longrightarrow> path_is_or_descendant p r"
  by (auto simp: path_is_or_descendant_iff)

lemma path_eq_refl [simp]: "path_eq p p"
  by (simp add: path_eq_def)

lemma path_eq_sym: "path_eq a b \<Longrightarrow> path_eq b a"
  by (simp add: path_eq_def)

lemma path_eq_trans: "path_eq a b \<Longrightarrow> path_eq b c \<Longrightarrow> path_eq a c"
  by (simp add: path_eq_def)

lemma is_absolute_Cons: "is_absolute p \<longleftrightarrow> (\<exists>q. p = CHR ''/'' # q)"
  by (auto simp: is_absolute_def starts_with_iff)

lemma is_absolute_not_blank: "is_absolute p \<Longrightarrow> \<not> blank p"
  by (auto simp: is_absolute_Cons is_ascii_graphic_def byte_of_def intro!: not_blank_graphic_hd)

lemma is_absolute_path_join: "is_absolute cwd \<Longrightarrow> is_absolute (path_join cwd p)"
  by (auto simp: path_join_def is_absolute_Cons)

lemma is_absolute_absolute_utf8_path:
  "is_absolute cwd \<Longrightarrow> is_absolute (absolute_utf8_path cwd p)"
  by (simp add: absolute_utf8_path_def is_absolute_path_join)

lemma normal_components_Cons:
  "q \<noteq> [] \<Longrightarrow> q \<noteq> ''.'' \<Longrightarrow> normal_components (q # qs) = component_of q # normal_components qs"
  by (simp add: normal_components_def)

lemma split_on_slash_append:
  "split_on c (p @ c # s) = split_on c p @ split_on c s"
  by (induction p) (auto split: list.splits)

text \<open>A child of an absolute directory is below it, whatever its name.\<close>

lemma components_append_slash:
  assumes "is_absolute root"
  shows "components (root @ CHR ''/'' # name) =
    components root @ normal_components (split_on CHR ''/'' name)"
  using assms
  by (simp add: components_def is_absolute_Cons split_on_slash_append normal_components_def)
     (auto simp: is_absolute_Cons)

lemma child_is_descendant:
  "is_absolute root \<Longrightarrow> path_is_or_descendant (root @ CHR ''/'' # name) root"
  by (simp add: path_is_or_descendant_iff components_append_slash)

end
