(* ===== verification/Numbers.thy ===== *)
theory Numbers
  imports Strings
begin

text \<open>
  Unsigned integers at their width (\<open>u8\<close>, \<open>u16\<close>), their decimal \<open>to_string\<close> and their
  \<open>FromStr::parse\<close>: an optional leading \<open>+\<close>, at least one ASCII digit, no overflow.
\<close>

type_synonym u8 = "8 word"
type_synonym u16 = "16 word"

definition digit_char :: "nat \<Rightarrow> char" where
  "digit_char d = char_of (48 + d)"

definition digit_val :: "char \<Rightarrow> nat" where
  "digit_val c = byte_of c - 48"

fun show_nat :: "nat \<Rightarrow> string" where
  "show_nat n = (if n < 10 then [digit_char n] else show_nat (n div 10) @ [digit_char (n mod 10)])"

declare show_nat.simps [simp del]

definition digits_val :: "string \<Rightarrow> nat" where
  "digits_val s = foldl (\<lambda>acc c. 10 * acc + digit_val c) 0 s"

definition parse_nat :: "string \<Rightarrow> nat option" where
  "parse_nat s =
     (let t = (case s of [] \<Rightarrow> s | c # r \<Rightarrow> if c = CHR ''+'' then r else s)
      in if t \<noteq> [] \<and> list_all is_ascii_digit t then Some (digits_val t) else None)"

text \<open>\<open>parse::<T>\<close> for an unsigned type with the given maximum.\<close>

definition parse_bounded :: "nat \<Rightarrow> string \<Rightarrow> nat option" where
  "parse_bounded bound s =
     (case parse_nat s of None \<Rightarrow> None | Some n \<Rightarrow> if n < bound then Some n else None)"

definition parse_u16 :: "string \<Rightarrow> u16 option" where
  "parse_u16 s = map_option of_nat (parse_bounded 65536 s)"

text \<open>The largest \<open>usize\<close> on the 64-bit targets the project builds for.\<close>

definition usize_max :: nat where
  "usize_max = 2 ^ 64 - 1"

definition parse_usize :: "string \<Rightarrow> nat option" where
  "parse_usize s = parse_bounded (Suc usize_max) s"

definition checked_add_usize :: "nat \<Rightarrow> nat \<Rightarrow> nat option" where
  "checked_add_usize a b = (if a + b \<le> usize_max then Some (a + b) else None)"

definition show_u16 :: "u16 \<Rightarrow> string" where
  "show_u16 w = show_nat (unat w)"

lemma digit_val_char [simp]: "d < 10 \<Longrightarrow> digit_val (digit_char d) = d"
  by (simp add: digit_val_def digit_char_def byte_of_def)

lemma is_digit_digit_char [simp]: "d < 10 \<Longrightarrow> is_ascii_digit (digit_char d)"
  by (simp add: is_ascii_digit_def digit_char_def byte_of_def)

lemma digit_graphic: "is_ascii_digit c \<Longrightarrow> is_ascii_graphic c"
  by (auto simp: is_ascii_digit_def is_ascii_graphic_def)

lemma show_nat_nonempty [simp]: "show_nat n \<noteq> []"
  by (subst show_nat.simps) simp

lemma show_nat_digits [simp]: "list_all is_ascii_digit (show_nat n)"
proof (induction n rule: show_nat.induct)
  case (1 n)
  then show ?case by (subst show_nat.simps) auto
qed

lemma digits_val_snoc: "digits_val (s @ [c]) = 10 * digits_val s + digit_val c"
  by (simp add: digits_val_def)

lemma digits_val_show_nat [simp]: "digits_val (show_nat n) = n"
proof (induction n rule: show_nat.induct)
  case (1 n)
  show ?case
  proof (cases "n < 10")
    case True
    then show ?thesis by (subst show_nat.simps) (simp add: digits_val_def)
  next
    case False
    then show ?thesis using 1 by (subst show_nat.simps) (simp add: digits_val_snoc)
  qed
qed

lemma show_nat_inject: "show_nat m = show_nat n \<longleftrightarrow> m = n"
  by (metis digits_val_show_nat)

lemma plus_not_digit: "\<not> is_ascii_digit CHR ''+''"
  by (simp add: is_ascii_digit_def byte_of_def)

lemma parse_nat_digits:
  "s \<noteq> [] \<Longrightarrow> list_all is_ascii_digit s \<Longrightarrow> parse_nat s = Some (digits_val s)"
  by (cases s) (auto simp: parse_nat_def plus_not_digit)

lemma parse_nat_show_nat [simp]: "parse_nat (show_nat n) = Some n"
  by (simp add: parse_nat_digits)

lemma parse_bounded_bound: "parse_bounded bound s = Some n \<Longrightarrow> n < bound"
  by (auto simp: parse_bounded_def split: option.splits if_splits)

lemma parse_u16_show_u16 [simp]: "parse_u16 (show_u16 w) = Some w"
proof -
  have "unat w < 2 ^ LENGTH(16)" by (rule unsigned_less)
  then show ?thesis by (simp add: parse_u16_def parse_bounded_def show_u16_def)
qed

lemma show_u16_not_blank [simp]: "\<not> blank (show_u16 w)"
proof -
  have "list_all is_ascii_graphic (show_u16 w)"
    using show_nat_digits [of "unat w"] unfolding show_u16_def
    by (auto simp: list_all_iff intro: digit_graphic)
  then show ?thesis by (intro not_blank_graphic) (simp_all add: show_u16_def)
qed

lemma parse_u16_unat: "parse_u16 s = Some w \<Longrightarrow> parse_nat s = Some (unat w)"
  by (auto simp: parse_u16_def parse_bounded_def unat_of_nat split: option.splits if_splits)

text \<open>
  The rendering of \<open>ParseIntError\<close>: the digits are read from the left, and the first one that is not
  a digit or that overflows decides.
\<close>

fun digits_error :: "nat \<Rightarrow> nat \<Rightarrow> string \<Rightarrow> string" where
  "digits_error bound acc [] = []"
| "digits_error bound acc (c # cs) =
     (if \<not> is_ascii_digit c then ''invalid digit found in string''
      else if bound \<le> 10 * acc + digit_val c then ''number too large to fit in target type''
      else digits_error bound (10 * acc + digit_val c) cs)"

definition parse_int_error :: "nat \<Rightarrow> string \<Rightarrow> string" where
  "parse_int_error bound s =
     (case s of
        [] \<Rightarrow> ''cannot parse integer from empty string''
      | c # r \<Rightarrow>
          if c = CHR ''+'' then (if r = [] then ''invalid digit found in string''
                                 else digits_error bound 0 r)
          else digits_error bound 0 s)"

lemma digits_val_fold_ge:
  "acc \<le> foldl (\<lambda>acc c. 10 * acc + digit_val c) acc s"
proof (induction s arbitrary: acc)
  case (Cons c s)
  have "acc \<le> 10 * acc + digit_val c" by simp
  also have "\<dots> \<le> foldl (\<lambda>acc c. 10 * acc + digit_val c) (10 * acc + digit_val c) s"
    by (rule Cons.IH)
  finally show ?case by simp
qed simp

lemma digits_error_Nil_iff:
  "acc < bound \<Longrightarrow> digits_error bound acc s = [] \<longleftrightarrow>
     list_all is_ascii_digit s \<and> foldl (\<lambda>acc c. 10 * acc + digit_val c) acc s < bound"
proof (induction s arbitrary: acc)
  case (Cons c s)
  show ?case
  proof (cases "bound \<le> 10 * acc + digit_val c")
    case True
    then have "\<not> foldl (\<lambda>acc c. 10 * acc + digit_val c) (10 * acc + digit_val c) s < bound"
      using digits_val_fold_ge [of "10 * acc + digit_val c" s] by linarith
    then show ?thesis using True by simp
  next
    case False
    then show ?thesis using Cons.IH [of "10 * acc + digit_val c"] by simp
  qed
qed simp

text \<open>The error text is there exactly when the parse fails.\<close>

lemma parse_int_error_Nil_iff:
  assumes "0 < bound"
  shows "parse_int_error bound s = [] \<longleftrightarrow> parse_bounded bound s \<noteq> None"
proof (cases s)
  case Nil
  then show ?thesis by (simp add: parse_int_error_def parse_bounded_def parse_nat_def)
next
  case (Cons c r)
  then show ?thesis
    using digits_error_Nil_iff [OF assms, of r] digits_error_Nil_iff [OF assms, of s]
    by (auto simp: parse_int_error_def parse_bounded_def parse_nat_def digits_val_def
        plus_not_digit simp del: digits_error.simps split: if_splits)
qed

end
