(* ===== verification/Errors.thy ===== *)
theory Errors
  imports Paths Numbers
begin

text \<open>
  The crate's error type (\<open>src/error.rs\<close>) and its message builders, and the two kinds of agentbox
  containers, which some messages name. As in the source an application error is its rendered
  message: \<open>format!\<close> is a concatenation of its pieces, with \<open>tick\<close> for the back-quoted ones. The
  wrapped errors of other crates (clap, I/O, JSON, UTF-8) keep only their rendering.
\<close>

text \<open>\<open>src/metadata/mod.rs\<close>, \<open>AgentboxContainerKind\<close>.\<close>

datatype container_kind = Managed | Run

fun output_type :: "container_kind \<Rightarrow> string" where
  "output_type Managed = ''managed''"
| "output_type Run = ''run''"

datatype error =
    Cli string
  | ExitCode u8
  | ExitCodeWithMessage u8 string
  | Message string
  | Io string
  | Json string
  | Utf8 string

type_synonym 'a res = "error + 'a"

fun error_text :: "error \<Rightarrow> string" where
  "error_text (Cli m) = m"
| "error_text (ExitCode code) = ''process exited with code '' @ show_nat (unat code)"
| "error_text (ExitCodeWithMessage code m) = m"
| "error_text (Message m) = m"
| "error_text (Io m) = m"
| "error_text (Json m) = m"
| "error_text (Utf8 m) = m"

definition tick :: "string \<Rightarrow> string" where
  "tick s = ''`'' @ s @ ''`''"

abbreviation format :: "string list \<Rightarrow> string" where
  "format \<equiv> concat"

definition msg :: "string list \<Rightarrow> error" where
  "msg parts = Message (format parts)"

definition non_git_target :: "path \<Rightarrow> error" where
  "non_git_target target = msg [tick target,
     '' is not inside a git repository; choose a directory within a git worktree or initialize one with '',
     tick ''git init'']"

definition escaped_git_target :: "path \<Rightarrow> path \<Rightarrow> error" where
  "escaped_git_target target git_root = msg [''requested directory '', tick target,
     '' resolves outside the git root '', tick git_root, ''; choose a path within '', tick git_root]"

definition agentbox_container_requires_action ::
  "container_kind \<Rightarrow> path \<Rightarrow> string \<Rightarrow> string \<Rightarrow> string \<Rightarrow> error" where
  "agentbox_container_requires_action kind git_root container_name detail next_step =
     (let resource = (case kind of Managed \<Rightarrow> ''managed session'' | Run \<Rightarrow> ''transient run container'')
      in msg [resource, '' '', tick container_name, '' for '', tick git_root, '' '', detail, ''; '',
           next_step])"

definition managed_session_requires_action ::
  "path \<Rightarrow> string \<Rightarrow> string \<Rightarrow> string \<Rightarrow> error" where
  "managed_session_requires_action git_root container_name detail next_step =
     agentbox_container_requires_action Managed git_root container_name detail next_step"

definition duplicate_managed_sessions :: "path \<Rightarrow> error" where
  "duplicate_managed_sessions git_root = msg [''duplicate managed sessions exist for '', tick git_root,
     ''; remove extras before retrying'']"

definition duplicate_agentbox_containers :: "path \<Rightarrow> error" where
  "duplicate_agentbox_containers git_root = msg [''duplicate agentbox containers exist for '',
     tick git_root, ''; remove extras before retrying'']"

definition orphaned_managed_session :: "path \<Rightarrow> string \<Rightarrow> error" where
  "orphaned_managed_session git_root container_name = msg [''managed session '', tick container_name,
     '' for '', tick git_root,
     '' is orphaned after the repository moved; remove or recreate it before retrying'']"

definition failed_managed_session :: "path \<Rightarrow> string \<Rightarrow> error" where
  "failed_managed_session git_root container_name = msg [''managed session '', tick container_name,
     '' for '', tick git_root,
     '' is in a failed state; clean up or recreate it before retrying'']"

definition runtime_command_failed :: "path \<Rightarrow> string \<Rightarrow> string \<Rightarrow> string \<Rightarrow> error" where
  "runtime_command_failed git_root container_name action detail = msg [''failed to '', action,
     '' for managed session '', tick container_name, '' in '', tick git_root, '': '', detail,
     ''. Verify the runtime image still provides '', tick ''/entrypoint'',
     '' and the expected runtime tools, then retry or recreate the session.'']"

lemma msg_ne_ExitCode [simp]: "msg parts \<noteq> ExitCode c" "msg parts \<noteq> ExitCodeWithMessage c m"
  by (simp_all add: msg_def)

text \<open>
  The process exit code that \<open>main\<close> derives from an error is the code it carries, and 1 for every
  other error.
\<close>

fun carried_code :: "error \<Rightarrow> u8 option" where
  "carried_code (ExitCode code) = Some code"
| "carried_code (ExitCodeWithMessage code m) = Some code"
| "carried_code _ = None"

lemma carried_code_msg [simp]: "carried_code (msg parts) = None"
  by (simp add: msg_def)

end
