(* ===== verification/Identity.thy ===== *)
theory Identity
  imports Errors
begin

text \<open>
  Workspace identity: \<open>src/digest.rs\<close> and \<open>src/workspace.rs\<close>. SHA-256 (crate \<open>sha2\<close>) is a parameter
  \<open>sha\<close> that gives the 256-bit digest of a byte string; the file system's \<open>canonicalize\<close> and
  \<open>git rev-parse --show-toplevel\<close> are parameters of the resolver.
\<close>

type_synonym digest = "256 word"

section \<open>\<open>src/digest.rs\<close>\<close>

text \<open>The \<open>[u8; 32]\<close> of a digest, most significant byte first.\<close>

definition digest_bytes :: "digest \<Rightarrow> u8 list" where
  "digest_bytes d = map (\<lambda>i. ucast (drop_bit (8 * (31 - i)) d)) [0..<32]"

definition hex_table :: string where
  "hex_table = ''0123456789abcdef''"

definition hex_byte :: "u8 \<Rightarrow> string" where
  "hex_byte b = [hex_table ! unat (drop_bit 4 b), hex_table ! unat (b AND 15)]"

definition hex_lower :: "u8 list \<Rightarrow> string" where
  "hex_lower bs = concat (map hex_byte bs)"

definition hex_prefix :: "u8 list \<Rightarrow> nat \<Rightarrow> string" where
  "hex_prefix bs len = take len (hex_lower bs)"

definition sha256_bytes :: "(string \<Rightarrow> digest) \<Rightarrow> string \<Rightarrow> u8 list" where
  "sha256_bytes sha bs = digest_bytes (sha bs)"

definition sha256_hex :: "(string \<Rightarrow> digest) \<Rightarrow> string \<Rightarrow> string" where
  "sha256_hex sha bs = hex_lower (sha256_bytes sha bs)"

lemma length_digest_bytes [simp]: "length (digest_bytes d) = 32"
  by (simp add: digest_bytes_def)

lemma length_hex_lower [simp]: "length (hex_lower bs) = 2 * length bs"
  by (induction bs) (auto simp: hex_lower_def hex_byte_def)

lemma hex_table_lower_hex: "i < 16 \<Longrightarrow> is_lower_hex (hex_table ! i)"
proof -
  assume "i < 16"
  moreover have "list_all is_lower_hex hex_table"
    by (simp add: hex_table_def is_lower_hex_def is_ascii_digit_def byte_of_def)
  ultimately show ?thesis by (simp add: list_all_length hex_table_def)
qed

lemma nibble_bounds: "unat (drop_bit 4 (b :: u8)) < 16" "unat (b AND (15 :: u8)) < 16"
proof -
  have "unat b < 2 ^ LENGTH(8)" by (rule unsigned_less)
  then show "unat (drop_bit 4 b) < 16"
    by (simp add: drop_bit_eq_div unat_div less_mult_imp_div_less)
  have "unat (b AND 15) \<le> unat (15 :: u8)"
    using word_and_le1 word_le_nat_alt by blast
  then show "unat (b AND (15 :: u8)) < 16" by simp
qed

lemma hex_byte_lower_hex: "list_all is_lower_hex (hex_byte b)"
  using nibble_bounds [of b] by (simp add: hex_byte_def hex_table_lower_hex)

lemma hex_lower_lower_hex [simp]: "list_all is_lower_hex (hex_lower bs)"
  by (induction bs) (auto simp: hex_lower_def hex_byte_lower_hex)

lemma hex_prefix_lower_hex [simp]: "list_all is_lower_hex (hex_prefix bs n)"
proof -
  have "list_all is_lower_hex (hex_lower bs)" by simp
  then show ?thesis by (auto simp: hex_prefix_def list_all_iff dest: in_set_takeD)
qed

lemma lower_hex_graphic: "is_lower_hex c \<Longrightarrow> is_ascii_graphic c"
  by (auto simp: is_lower_hex_def is_ascii_digit_def is_ascii_graphic_def)

lemma lower_hex_not_dash: "is_lower_hex c \<Longrightarrow> c \<noteq> CHR ''-''"
  by (auto simp: is_lower_hex_def is_ascii_digit_def byte_of_def)

section \<open>\<open>src/workspace.rs\<close>\<close>

definition CONTAINER_PREFIX :: string where "CONTAINER_PREFIX = ''agentbox-''"
definition GIT_ROOT_HASH_LEN :: nat where "GIT_ROOT_HASH_LEN = 12"
definition MAX_CONTAINER_NAME_LEN :: nat where "MAX_CONTAINER_NAME_LEN = 63"

record workspace_identity =
  requested_target :: path
  absolute_target :: path
  canonical_target :: path
  canonical_git_root :: path
  digest64 :: string
  hash12 :: string
  container_name :: string

definition git_root_digest :: "(string \<Rightarrow> digest) \<Rightarrow> path \<Rightarrow> u8 list" where
  "git_root_digest sha root = sha256_bytes sha root"

definition git_root_digest64 :: "(string \<Rightarrow> digest) \<Rightarrow> path \<Rightarrow> string" where
  "git_root_digest64 sha root = sha256_hex sha root"

definition git_root_hash12 :: "(string \<Rightarrow> digest) \<Rightarrow> path \<Rightarrow> string" where
  "git_root_hash12 sha root = hex_prefix (git_root_digest sha root) GIT_ROOT_HASH_LEN"

text \<open>
  \<open>escape_root\<close> maps characters, not bytes: a character outside ASCII becomes one dash. On the
  UTF-8 bytes that is a dash for its lead byte and nothing for its continuation bytes.
\<close>

definition escape_char :: "char \<Rightarrow> string" where
  "escape_char c =
     (if c = CHR ''/'' then ''_''
      else if is_ascii_alphanumeric c \<or> c \<in> {CHR ''.'', CHR ''_'', CHR ''-''} then [c]
      else if 128 \<le> byte_of c \<and> byte_of c < 192 then []
      else ''-'')"

definition escape_root :: "path \<Rightarrow> string" where
  "escape_root p = concat (map escape_char p)"

definition container_name_from_canonical_root_and_hash :: "path \<Rightarrow> string \<Rightarrow> string" where
  "container_name_from_canonical_root_and_hash root hash =
     (let escaped = escape_root root;
          separator_len = 1 + length hash;
          max_suffix_len = MAX_CONTAINER_NAME_LEN - length CONTAINER_PREFIX - separator_len;
          suf = (if length escaped \<le> max_suffix_len then escaped
                 else drop (length escaped - max_suffix_len) escaped)
      in CONTAINER_PREFIX @ suf @ ''-'' @ hash)"

definition container_name_from_canonical_root :: "(string \<Rightarrow> digest) \<Rightarrow> path \<Rightarrow> string" where
  "container_name_from_canonical_root sha root =
     container_name_from_canonical_root_and_hash root (git_root_hash12 sha root)"

definition is_agentbox_workspace_resource_name :: "string \<Rightarrow> bool" where
  "is_agentbox_workspace_resource_name name =
     (case rsplit_once CHR ''-'' name of
        None \<Rightarrow> False
      | Some (pre, suf) \<Rightarrow>
          starts_with pre CONTAINER_PREFIX \<and> length CONTAINER_PREFIX < length pre
          \<and> length suf = GIT_ROOT_HASH_LEN \<and> list_all is_ascii_hexdigit suf)"

text \<open>\<open>resolve_workspace_identity_with_git\<close>: the host is given by its current directory,
  \<open>canonicalize\<close> and git's top-level lookup, each of which may fail.\<close>

record host_fs =
  current_dir :: path
  canonicalize :: "path \<Rightarrow> path res"
  git_toplevel :: "path \<Rightarrow> path res"

definition resolve_workspace_identity ::
  "(string \<Rightarrow> digest) \<Rightarrow> host_fs \<Rightarrow> path \<Rightarrow> workspace_identity res" where
  "resolve_workspace_identity sha host directory =
     (let requested = absolute_utf8_path (current_dir host) directory
      in and_then (git_toplevel host requested) (\<lambda>git_root.
         and_then (canonicalize host git_root) (\<lambda>canonical_root.
         and_then (canonicalize host requested) (\<lambda>canonical_tgt.
           if \<not> path_is_or_descendant canonical_tgt canonical_root
           then Err (escaped_git_target requested canonical_root)
           else
             let digest = git_root_digest sha canonical_root;
                 hash = hex_prefix digest GIT_ROOT_HASH_LEN
             in Ok \<lparr>requested_target = requested, absolute_target = requested,
                    canonical_target = canonical_tgt, canonical_git_root = canonical_root,
                    digest64 = hex_lower digest, hash12 = hash,
                    container_name =
                      container_name_from_canonical_root_and_hash canonical_root hash\<rparr>))))"

lemma length_git_root_hash12 [simp]: "length (git_root_hash12 sha root) = 12"
  by (simp add: git_root_hash12_def hex_prefix_def git_root_digest_def sha256_bytes_def
      GIT_ROOT_HASH_LEN_def)

lemma git_root_hash12_lower_hex [simp]: "list_all is_lower_hex (git_root_hash12 sha root)"
  by (simp add: git_root_hash12_def)

lemma git_root_hash12_not_blank [simp]: "\<not> blank (git_root_hash12 sha root)"
proof (rule not_blank_graphic)
  show "git_root_hash12 sha root \<noteq> []"
    by (metis length_git_root_hash12 list.size(3) zero_neq_numeral)
  show "list_all is_ascii_graphic (git_root_hash12 sha root)"
    using git_root_hash12_lower_hex [of sha root] by (auto simp: list_all_iff lower_hex_graphic)
qed

lemma git_root_digest64_shape:
  "length (git_root_digest64 sha root) = 64 \<and> list_all is_lower_hex (git_root_digest64 sha root)"
  by (simp add: git_root_digest64_def sha256_hex_def sha256_bytes_def)

lemma length_container_name:
  assumes "length hash = 12"
  shows "length (container_name_from_canonical_root_and_hash root hash) =
    22 + min (length (escape_root root)) 41"
  using assms
  by (simp add: container_name_from_canonical_root_and_hash_def Let_def CONTAINER_PREFIX_def
      MAX_CONTAINER_NAME_LEN_def)

text \<open>The shape of a container name: prefix, the tail of the escaped root, and the hash.\<close>

lemma container_name_shape:
  assumes "length hash = 12"
  shows "container_name_from_canonical_root_and_hash root hash =
    CONTAINER_PREFIX @ drop (length (escape_root root) - 41) (escape_root root) @ ''-'' @ hash"
  using assms
  by (simp add: container_name_from_canonical_root_and_hash_def Let_def CONTAINER_PREFIX_def
      MAX_CONTAINER_NAME_LEN_def)

lemma lower_hex_is_hexdigit: "list_all is_lower_hex s \<Longrightarrow> list_all is_ascii_hexdigit s"
  by (auto simp: list_all_iff is_ascii_hexdigit_def)

lemma resource_name_of_shape:
  assumes "tail \<noteq> []" and "length hash = 12" and "list_all is_lower_hex hash"
  shows "is_agentbox_workspace_resource_name (CONTAINER_PREFIX @ tail @ ''-'' @ hash)"
proof -
  have "CHR ''-'' \<notin> set hash"
    using assms(3) by (auto simp: list_all_iff dest: lower_hex_not_dash)
  then have "rsplit_once CHR ''-'' ((CONTAINER_PREFIX @ tail) @ CHR ''-'' # hash) =
      Some (CONTAINER_PREFIX @ tail, hash)"
    by (rule rsplit_once_append)
  then show ?thesis using assms
    by (simp add: is_agentbox_workspace_resource_name_def GIT_ROOT_HASH_LEN_def
        lower_hex_is_hexdigit)
qed

lemma escape_root_absolute: "is_absolute root \<Longrightarrow> escape_root root \<noteq> []"
  by (auto simp: is_absolute_Cons escape_root_def escape_char_def)

lemma resource_name_container_name:
  assumes "is_absolute root"
  shows "is_agentbox_workspace_resource_name (container_name_from_canonical_root sha root)"
proof -
  have "drop (length (escape_root root) - 41) (escape_root root) \<noteq> []"
  proof -
    have "0 < length (escape_root root)" using escape_root_absolute [OF assms] by simp
    then have "length (escape_root root) - 41 < length (escape_root root)" by arith
    then show ?thesis by (simp only: drop_eq_Nil not_le)
  qed
  then show ?thesis
    unfolding container_name_from_canonical_root_def
    by (subst container_name_shape) (simp_all add: resource_name_of_shape del: append.simps)
qed

lemma resolve_workspace_identity_Ok:
  assumes "resolve_workspace_identity sha host directory = Ok w"
  shows "path_is_or_descendant (canonical_target w) (canonical_git_root w)"
    and "digest64 w = git_root_digest64 sha (canonical_git_root w)"
    and "hash12 w = git_root_hash12 sha (canonical_git_root w)"
    and "container_name w = container_name_from_canonical_root sha (canonical_git_root w)"
    and "requested_target w = absolute_utf8_path (current_dir host) directory"
    and "canonicalize host (requested_target w) = Ok (canonical_target w)"
  using assms
  by (auto simp: resolve_workspace_identity_def Let_def result_simps git_root_digest64_def
      sha256_hex_def git_root_digest_def git_root_hash12_def
      container_name_from_canonical_root_def split: if_splits)

end
