(* ===== verification/Catalog.thy ===== *)
theory Catalog
  imports Identity
begin

text \<open>
  The runtime catalog: \<open>src/runtime/kind.rs\<close>, \<open>src/runtime/profile\<close>, \<open>src/runtime/command.rs\<close>,
  the attach contract of \<open>src/runtime/spec.rs\<close> and the naming of default images in
  \<open>src/runtime/default_image.rs\<close>. Host-state mounts are left to the host integration, which is not
  modelled here.
\<close>

datatype runtime_kind = Opencode | Codex

definition runtime_variants :: "runtime_kind list" where
  "runtime_variants = [Opencode, Codex]"

record attach_spec =
  as_scheme :: string
  container_listen_ip :: string
  container_port :: u16

record attach_endpoint =
  scheme :: string
  host_ip :: string
  host_port :: u16

datatype health_response_policy = HttpOk | JsonHealthyFlag

record package_spec =
  package_name :: string
  install_source :: string
  build_arg :: string

section \<open>Command templates\<close>

datatype server_command_arg =
  SLiteral string | ContainerListenIp | ContainerPort | ContainerListenEndpoint

datatype host_client_command_arg = CLiteral string | ClientEndpoint

definition attach_endpoint_text :: "attach_endpoint \<Rightarrow> string" where
  "attach_endpoint_text e = format [scheme e, ''://'', host_ip e, '':'', show_u16 (host_port e)]"

definition container_listen_endpoint :: "attach_spec \<Rightarrow> string" where
  "container_listen_endpoint a =
     format [as_scheme a, ''://'', container_listen_ip a, '':'', show_u16 (container_port a)]"

definition tcp_port_key :: "attach_spec \<Rightarrow> string" where
  "tcp_port_key a = format [show_u16 (container_port a), ''/tcp'']"

definition published_port :: "attach_spec \<Rightarrow> string \<Rightarrow> string" where
  "published_port a ip = format [ip, ''::'', show_u16 (container_port a)]"

fun render_server_arg :: "attach_spec \<Rightarrow> server_command_arg \<Rightarrow> string" where
  "render_server_arg a (SLiteral v) = v"
| "render_server_arg a ContainerListenIp = container_listen_ip a"
| "render_server_arg a ContainerPort = show_u16 (container_port a)"
| "render_server_arg a ContainerListenEndpoint = container_listen_endpoint a"

fun render_client_arg :: "attach_endpoint \<Rightarrow> host_client_command_arg \<Rightarrow> string" where
  "render_client_arg e (CLiteral v) = v"
| "render_client_arg e ClientEndpoint = attach_endpoint_text e"

section \<open>Profiles\<close>

record runtime_profile =
  profile_kind :: runtime_kind
  profile_name :: string
  package :: package_spec
  attach :: attach_spec
  health_path :: string
  response_policy :: health_response_policy
  profile_default_env :: "(string \<times> string) list"
  server_template :: "server_command_arg list"
  client_template :: "host_client_command_arg list"
  foreground_template :: "string list"

definition YOLO_FLAG :: string where
  "YOLO_FLAG = ''--dangerously-bypass-approvals-and-sandbox''"

definition CODEX_REMOTE_TOKEN_ENV :: string where
  "CODEX_REMOTE_TOKEN_ENV = ''AGENTBOX_CODEX_REMOTE_TOKEN''"

definition opencode_profile :: runtime_profile where
  "opencode_profile =
     \<lparr>profile_kind = Opencode, profile_name = ''opencode'',
      package = \<lparr>package_name = ''opencode-ai'', install_source = ''npm'',
                 build_arg = ''OPENCODE_NPM_VERSION''\<rparr>,
      attach = \<lparr>as_scheme = ''http'', container_listen_ip = ''0.0.0.0'', container_port = 4096\<rparr>,
      health_path = ''/global/health'', response_policy = JsonHealthyFlag,
      profile_default_env =
        [(''OPENCODE_CONFIG_CONTENT'', ''{\"autoupdate\":false}''),
         (''OPENCODE_PERMISSION'', ''{\"*\":\"allow\"}'')],
      server_template =
        [SLiteral ''opencode'', SLiteral ''serve'', SLiteral ''--hostname'', ContainerListenIp,
         SLiteral ''--port'', ContainerPort],
      client_template = [CLiteral ''opencode'', CLiteral ''attach'', ClientEndpoint],
      foreground_template = [''opencode'']\<rparr>"

definition codex_profile :: runtime_profile where
  "codex_profile =
     \<lparr>profile_kind = Codex, profile_name = ''codex'',
      package = \<lparr>package_name = ''@openai/codex'', install_source = ''npm'',
                 build_arg = ''CODEX_NPM_VERSION''\<rparr>,
      attach = \<lparr>as_scheme = ''ws'', container_listen_ip = ''0.0.0.0'', container_port = 1455\<rparr>,
      health_path = ''/readyz'', response_policy = HttpOk,
      profile_default_env = [],
      server_template =
        [SLiteral ''codex'', SLiteral YOLO_FLAG, SLiteral ''app-server'', SLiteral ''--listen'',
         ContainerListenEndpoint],
      client_template =
        [CLiteral ''codex'', CLiteral YOLO_FLAG, CLiteral ''--remote'', ClientEndpoint,
         CLiteral ''--remote-auth-token-env'', CLiteral CODEX_REMOTE_TOKEN_ENV],
      foreground_template = [''codex'', YOLO_FLAG]\<rparr>"

definition RUNTIME_PROFILES :: "runtime_profile list" where
  "RUNTIME_PROFILES = [opencode_profile, codex_profile]"

text \<open>\<open>runtime_profile\<close> panics when the table has no entry; \<open>find_profile_total\<close> below shows it
  never does, so the lookup is written with the table's two entries.\<close>

definition find_profile :: "runtime_kind \<Rightarrow> runtime_profile option" where
  "find_profile kind = find (\<lambda>p. profile_kind p = kind) RUNTIME_PROFILES"

definition profile :: "runtime_kind \<Rightarrow> runtime_profile" where
  "profile kind = unwrap_or (find_profile kind) opencode_profile"

definition runtime_kind_from_name :: "string \<Rightarrow> runtime_kind option" where
  "runtime_kind_from_name value =
     map_option profile_kind (find (\<lambda>p. profile_name p = value) RUNTIME_PROFILES)"

definition runtime_str :: "runtime_kind \<Rightarrow> string" where
  "runtime_str kind = profile_name (profile kind)"

definition runtime_names :: "string list" where
  "runtime_names = map profile_name RUNTIME_PROFILES"

definition supported_runtime_names :: string where
  "supported_runtime_names = join '' and '' (map tick runtime_names)"

definition supported_runtime_placeholder :: string where
  "supported_runtime_placeholder = format [''<'', join ''|'' runtime_names, ''>'']"

text \<open>\<open>FromStr for RuntimeKind\<close>.\<close>

definition parse_runtime_kind :: "string \<Rightarrow> runtime_kind res" where
  "parse_runtime_kind value =
     (if blank value
      then Err (msg [''malformed runtime label: '', tick ''io.agentbox.runtime'', '' is empty''])
      else ok_or (runtime_kind_from_name value)
             (msg [''unsupported runtime '', tick value, ''; supported runtimes are '',
                   supported_runtime_names]))"

definition runtime_attach_spec :: "runtime_kind \<Rightarrow> attach_spec" where
  "runtime_attach_spec kind = attach (profile kind)"

definition server_command :: "runtime_kind \<Rightarrow> string list" where
  "server_command kind = map (render_server_arg (attach (profile kind))) (server_template (profile kind))"

definition host_client_command :: "runtime_kind \<Rightarrow> attach_endpoint \<Rightarrow> string list" where
  "host_client_command kind e = map (render_client_arg e) (client_template (profile kind))"

definition foreground_command :: "runtime_kind \<Rightarrow> string list" where
  "foreground_command kind = foreground_template (profile kind)"

lemma find_profile_total: "find_profile kind = Some (profile kind) \<and> profile_kind (profile kind) = kind"
  by (cases kind)
    (auto simp: find_profile_def profile_def RUNTIME_PROFILES_def opencode_profile_def
      codex_profile_def)

lemma profile_simps [simp]: "profile Opencode = opencode_profile" "profile Codex = codex_profile"
  by (simp_all add: find_profile_def profile_def RUNTIME_PROFILES_def opencode_profile_def
      codex_profile_def)

lemma runtime_str_simps [simp]: "runtime_str Opencode = ''opencode''" "runtime_str Codex = ''codex''"
  by (simp_all add: runtime_str_def opencode_profile_def codex_profile_def)

lemma runtime_kind_from_name_iff: "runtime_kind_from_name s = Some k \<longleftrightarrow> s = runtime_str k"
  by (cases k)
    (auto simp: runtime_kind_from_name_def RUNTIME_PROFILES_def opencode_profile_def
      codex_profile_def)

lemma runtime_str_not_blank [simp]: "\<not> blank (runtime_str k)"
  by (cases k) (auto intro!: not_blank_graphic_hd simp: is_ascii_graphic_def byte_of_def)

lemma parse_runtime_kind_iff: "parse_runtime_kind s = Ok k \<longleftrightarrow> s = runtime_str k"
  by (auto simp: parse_runtime_kind_def result_simps runtime_kind_from_name_iff)

section \<open>Default images\<close>

record embedded_file =
  relative_path :: string
  contents :: string

text \<open>What the build fixes: the digest function and the files embedded in the binary.\<close>

record build =
  sha256 :: "string \<Rightarrow> digest"
  image_files :: "embedded_file list"

definition IMAGE_CONTEXT_HASH_LEN :: nat where "IMAGE_CONTEXT_HASH_LEN = 16"
definition IMAGE_CONTEXT_HASH_TAG_PREFIX :: string where "IMAGE_CONTEXT_HASH_TAG_PREFIX = ''ctx-''"

definition hasher_input :: "embedded_file list \<Rightarrow> string" where
  "hasher_input files = concat (map (\<lambda>f. relative_path f @ [CHR 0x00]
     @ show_nat (length (contents f)) @ [CHR 0x00] @ contents f @ [CHR 0x00]) files)"

definition image_context_hash :: "build \<Rightarrow> string" where
  "image_context_hash b =
     hex_prefix (sha256_bytes (sha256 b) (hasher_input (image_files b))) IMAGE_CONTEXT_HASH_LEN"

definition default_image_prefix :: "runtime_kind \<Rightarrow> string" where
  "default_image_prefix kind =
     format [''localhost/agentbox-'', runtime_str kind, '':'', IMAGE_CONTEXT_HASH_TAG_PREFIX]"

definition default_image :: "build \<Rightarrow> runtime_kind \<Rightarrow> string" where
  "default_image b kind = default_image_prefix kind @ image_context_hash b"

definition is_default_image_context_hash :: "string \<Rightarrow> bool" where
  "is_default_image_context_hash v \<longleftrightarrow>
     length v = IMAGE_CONTEXT_HASH_LEN \<and> list_all is_ascii_hexdigit v"

definition is_content_hash_default_image_ref :: "runtime_kind \<Rightarrow> string \<Rightarrow> bool" where
  "is_content_hash_default_image_ref kind img =
     (case strip_prefix (default_image_prefix kind) img of
        None \<Rightarrow> False
      | Some rest \<Rightarrow> is_default_image_context_hash rest)"

lemma image_context_hash_valid [simp]: "is_default_image_context_hash (image_context_hash b)"
  by (simp add: is_default_image_context_hash_def image_context_hash_def hex_prefix_def
      IMAGE_CONTEXT_HASH_LEN_def sha256_bytes_def lower_hex_is_hexdigit
      hex_prefix_lower_hex [unfolded hex_prefix_def])

lemma default_image_is_ref [simp]: "is_content_hash_default_image_ref kind (default_image b kind)"
  by (simp add: is_content_hash_default_image_ref_def default_image_def)

text \<open>A reference belongs to one runtime only: the two prefixes differ within their common length.\<close>

lemma content_hash_ref_runtime_unique:
  assumes "is_content_hash_default_image_ref j img"
    and "is_content_hash_default_image_ref k img"
  shows "j = k"
  using assms
  by (cases j; cases k)
    (auto simp: is_content_hash_default_image_ref_def strip_prefix_Some default_image_prefix_def
      split: option.splits)

end
