(* ===== verification/Metadata.thy ===== *)
theory Metadata
  imports Catalog
begin

text \<open>
  Container and image labels: \<open>src/metadata/mod.rs\<close>, \<open>src/metadata/session.rs\<close> and
  \<open>src/metadata/default_image.rs\<close>. A label set is the \<open>BTreeMap<String, String>\<close> that Podman stores.
  JSON encoding of the server arguments (\<open>serde_json\<close>) is the parameter \<open>to_json\<close>.
\<close>

type_synonym labels = "(string, string) btree"

definition LABEL_MANAGED :: string where "LABEL_MANAGED = ''io.agentbox.managed''"
definition LABEL_CONTAINER_KIND :: string where "LABEL_CONTAINER_KIND = ''io.agentbox.container_kind''"
definition LABEL_SCHEMA :: string where "LABEL_SCHEMA = ''io.agentbox.schema''"
definition LABEL_GIT_ROOT :: string where "LABEL_GIT_ROOT = ''io.agentbox.git_root''"
definition LABEL_GIT_ROOT_HASH :: string where "LABEL_GIT_ROOT_HASH = ''io.agentbox.git_root_hash''"
definition LABEL_RUNTIME :: string where "LABEL_RUNTIME = ''io.agentbox.runtime''"
definition LABEL_IMAGE :: string where "LABEL_IMAGE = ''io.agentbox.image''"
definition LABEL_LAUNCH_DIRECTORY :: string where "LABEL_LAUNCH_DIRECTORY = ''io.agentbox.launch_directory''"
definition LABEL_LOGICAL_NAME :: string where "LABEL_LOGICAL_NAME = ''io.agentbox.logical_name''"
definition LABEL_ATTACH_SCHEME :: string where "LABEL_ATTACH_SCHEME = ''io.agentbox.attach_scheme''"
definition LABEL_CONTAINER_PORT :: string where "LABEL_CONTAINER_PORT = ''io.agentbox.container_port''"
definition LABEL_CONTAINER_LISTEN_IP :: string where "LABEL_CONTAINER_LISTEN_IP = ''io.agentbox.container_listen_ip''"
definition LABEL_SERVER_ARGS :: string where "LABEL_SERVER_ARGS = ''io.agentbox.server_args''"
definition LABEL_RESOURCE_LIMIT_CPUS :: string where "LABEL_RESOURCE_LIMIT_CPUS = ''io.agentbox.resource_limits.cpus''"
definition LABEL_RESOURCE_LIMIT_MEMORY :: string where "LABEL_RESOURCE_LIMIT_MEMORY = ''io.agentbox.resource_limits.memory''"
definition LABEL_DEFAULT_RUNTIME_IMAGE :: string where "LABEL_DEFAULT_RUNTIME_IMAGE = ''io.agentbox.default_runtime_image''"
definition LABEL_IMAGE_CONTEXT_HASH :: string where "LABEL_IMAGE_CONTEXT_HASH = ''io.agentbox.image_context_hash''"

definition LABEL_MANAGED_VALUE :: string where "LABEL_MANAGED_VALUE = ''true''"
definition LABEL_CONTAINER_KIND_MANAGED_SESSION_VALUE :: string where
  "LABEL_CONTAINER_KIND_MANAGED_SESSION_VALUE = ''managed-session''"
definition LABEL_CONTAINER_KIND_TRANSIENT_RUN_VALUE :: string where
  "LABEL_CONTAINER_KIND_TRANSIENT_RUN_VALUE = ''transient-run''"
definition LABEL_SCHEMA_VALUE :: string where "LABEL_SCHEMA_VALUE = ''1''"
definition LABEL_DEFAULT_RUNTIME_IMAGE_VALUE :: string where "LABEL_DEFAULT_RUNTIME_IMAGE_VALUE = ''true''"

definition REQUIRED_SESSION_WORKSPACE_IDENTITY_LABELS :: "string list" where
  "REQUIRED_SESSION_WORKSPACE_IDENTITY_LABELS = [LABEL_GIT_ROOT, LABEL_GIT_ROOT_HASH]"

definition REQUIRED_SESSION_METADATA_LABELS :: "string list" where
  "REQUIRED_SESSION_METADATA_LABELS = [LABEL_IMAGE, LABEL_LAUNCH_DIRECTORY, LABEL_LOGICAL_NAME]"

lemmas label_names =
  LABEL_MANAGED_def LABEL_CONTAINER_KIND_def LABEL_SCHEMA_def LABEL_GIT_ROOT_def
  LABEL_GIT_ROOT_HASH_def LABEL_RUNTIME_def LABEL_IMAGE_def LABEL_LAUNCH_DIRECTORY_def
  LABEL_LOGICAL_NAME_def LABEL_ATTACH_SCHEME_def LABEL_CONTAINER_PORT_def
  LABEL_CONTAINER_LISTEN_IP_def LABEL_SERVER_ARGS_def LABEL_RESOURCE_LIMIT_CPUS_def
  LABEL_RESOURCE_LIMIT_MEMORY_def LABEL_DEFAULT_RUNTIME_IMAGE_def LABEL_IMAGE_CONTEXT_HASH_def

lemmas label_values =
  LABEL_MANAGED_VALUE_def LABEL_CONTAINER_KIND_MANAGED_SESSION_VALUE_def
  LABEL_CONTAINER_KIND_TRANSIENT_RUN_VALUE_def LABEL_SCHEMA_VALUE_def
  LABEL_DEFAULT_RUNTIME_IMAGE_VALUE_def

lemma label_names_distinct:
  "distinct [LABEL_MANAGED, LABEL_CONTAINER_KIND, LABEL_SCHEMA, LABEL_GIT_ROOT,
    LABEL_GIT_ROOT_HASH, LABEL_RUNTIME, LABEL_IMAGE, LABEL_LAUNCH_DIRECTORY, LABEL_LOGICAL_NAME,
    LABEL_ATTACH_SCHEME, LABEL_CONTAINER_PORT, LABEL_CONTAINER_LISTEN_IP, LABEL_SERVER_ARGS,
    LABEL_RESOURCE_LIMIT_CPUS, LABEL_RESOURCE_LIMIT_MEMORY, LABEL_DEFAULT_RUNTIME_IMAGE,
    LABEL_IMAGE_CONTEXT_HASH]"
  by (simp add: label_names)

lemma label_names_distinct_rev:
  "distinct (rev [LABEL_MANAGED, LABEL_CONTAINER_KIND, LABEL_SCHEMA, LABEL_GIT_ROOT,
    LABEL_GIT_ROOT_HASH, LABEL_RUNTIME, LABEL_IMAGE, LABEL_LAUNCH_DIRECTORY, LABEL_LOGICAL_NAME,
    LABEL_ATTACH_SCHEME, LABEL_CONTAINER_PORT, LABEL_CONTAINER_LISTEN_IP, LABEL_SERVER_ARGS,
    LABEL_RESOURCE_LIMIT_CPUS, LABEL_RESOURCE_LIMIT_MEMORY, LABEL_DEFAULT_RUNTIME_IMAGE,
    LABEL_IMAGE_CONTEXT_HASH])"
  unfolding distinct_rev by (rule label_names_distinct)

lemmas label_names_neq [simp] =
  label_names_distinct [simplified] label_names_distinct_rev [simplified]

section \<open>Reading labels\<close>

text \<open>\<open>required_label_value\<close>: a blank value counts as missing.\<close>

definition required_label_value :: "labels \<Rightarrow> string \<Rightarrow> string option" where
  "required_label_value m name =
     (case bt_get m name of None \<Rightarrow> None | Some v \<Rightarrow> if blank v then None else Some v)"

definition agentbox_container_kind_from_labels :: "labels \<Rightarrow> container_kind option" where
  "agentbox_container_kind_from_labels m =
     (if required_label_value m LABEL_MANAGED = Some LABEL_MANAGED_VALUE then Some Managed
      else if required_label_value m LABEL_CONTAINER_KIND =
        Some LABEL_CONTAINER_KIND_TRANSIENT_RUN_VALUE then Some Run
      else None)"

definition managed_label_filter :: string where
  "managed_label_filter = format [''label='', LABEL_MANAGED, ''='', LABEL_MANAGED_VALUE]"

definition runtime_package_metadata_label :: "runtime_kind \<Rightarrow> string \<Rightarrow> string" where
  "runtime_package_metadata_label kind name = format [''io.agentbox.'', runtime_str kind, ''.'', name]"

definition runtime_package_version_label :: "runtime_kind \<Rightarrow> string" where
  "runtime_package_version_label kind = runtime_package_metadata_label kind ''version''"

lemma required_label_value_insert [label_simps]:
  "required_label_value (bt_insert k v m) name =
     (if name = k then (if blank v then None else Some v) else required_label_value m name)"
  by (simp add: required_label_value_def bt_get_insert)

lemma required_label_value_not_blank: "required_label_value m name = Some v \<Longrightarrow> \<not> blank v"
  by (auto simp: required_label_value_def split: option.splits if_splits)

section \<open>Writing the labels of a container\<close>

record managed_session_label_input =
  in_canonical_git_root :: string
  in_git_root_hash :: string
  in_runtime :: runtime_kind
  in_image :: string
  in_launch_directory :: string
  in_logical_name :: string
  in_server_args :: "string list"

definition label_input_from_workspace ::
  "workspace_identity \<Rightarrow> string \<Rightarrow> runtime_kind \<Rightarrow> string list \<Rightarrow> managed_session_label_input" where
  "label_input_from_workspace w img runtime args =
     \<lparr>in_canonical_git_root = canonical_git_root w, in_git_root_hash = hash12 w,
      in_runtime = runtime, in_image = img, in_launch_directory = canonical_target w,
      in_logical_name = container_name w, in_server_args = args\<rparr>"

definition runtime_server_container_labels :: "managed_session_label_input \<Rightarrow> labels" where
  "runtime_server_container_labels i =
     (let a = runtime_attach_spec (in_runtime i)
      in bt_from
        [(LABEL_GIT_ROOT, in_canonical_git_root i),
         (LABEL_GIT_ROOT_HASH, in_git_root_hash i),
         (LABEL_RUNTIME, runtime_str (in_runtime i)),
         (LABEL_IMAGE, in_image i),
         (LABEL_LAUNCH_DIRECTORY, in_launch_directory i),
         (LABEL_LOGICAL_NAME, in_logical_name i),
         (LABEL_ATTACH_SCHEME, as_scheme a),
         (LABEL_CONTAINER_PORT, show_u16 (container_port a)),
         (LABEL_CONTAINER_LISTEN_IP, container_listen_ip a)])"

definition managed_session_labels ::
  "(string list \<Rightarrow> string) \<Rightarrow> managed_session_label_input \<Rightarrow> labels" where
  "managed_session_labels to_json i =
     (let m = runtime_server_container_labels i;
          m = bt_insert LABEL_MANAGED LABEL_MANAGED_VALUE m;
          m = bt_insert LABEL_CONTAINER_KIND LABEL_CONTAINER_KIND_MANAGED_SESSION_VALUE m;
          m = bt_insert LABEL_SCHEMA LABEL_SCHEMA_VALUE m
      in if in_server_args i \<noteq> [] then bt_insert LABEL_SERVER_ARGS (to_json (in_server_args i)) m
         else m)"

definition transient_run_labels :: "managed_session_label_input \<Rightarrow> labels" where
  "transient_run_labels i =
     bt_insert LABEL_CONTAINER_KIND LABEL_CONTAINER_KIND_TRANSIENT_RUN_VALUE
       (runtime_server_container_labels i)"

section \<open>Labels of a default runtime image\<close>

record default_runtime_image_metadata =
  md_runtime :: runtime_kind
  md_image_context_hash :: string

definition default_runtime_image_metadata_from_labels ::
  "labels \<Rightarrow> default_runtime_image_metadata option" where
  "default_runtime_image_metadata_from_labels m =
     (if required_label_value m LABEL_DEFAULT_RUNTIME_IMAGE \<noteq> Some LABEL_DEFAULT_RUNTIME_IMAGE_VALUE
      then None
      else case required_label_value m LABEL_RUNTIME of
        None \<Rightarrow> None
      | Some r \<Rightarrow> (case ok_of (parse_runtime_kind r) of
          None \<Rightarrow> None
        | Some kind \<Rightarrow> (case required_label_value m LABEL_IMAGE_CONTEXT_HASH of
            None \<Rightarrow> None
          | Some h \<Rightarrow> if is_default_image_context_hash h
                      then Some \<lparr>md_runtime = kind, md_image_context_hash = h\<rparr> else None)))"

definition default_runtime_image_labels ::
  "runtime_kind \<Rightarrow> string \<Rightarrow> string \<Rightarrow> string \<Rightarrow> string \<Rightarrow> labels" where
  "default_runtime_image_labels runtime img context_hash version resolved_at =
     (let pkg = package (profile runtime)
      in bt_from
        [(LABEL_DEFAULT_RUNTIME_IMAGE, LABEL_DEFAULT_RUNTIME_IMAGE_VALUE),
         (LABEL_RUNTIME, runtime_str runtime),
         (LABEL_IMAGE, img),
         (LABEL_IMAGE_CONTEXT_HASH, context_hash),
         (runtime_package_metadata_label runtime ''package'', package_name pkg),
         (runtime_package_version_label runtime, version),
         (runtime_package_metadata_label runtime ''install_source'', install_source pkg),
         (runtime_package_metadata_label runtime ''resolved_at'', resolved_at)])"

section \<open>What a written label set reads back as\<close>

lemma get_runtime_server_container_labels [label_simps]:
  "bt_get (runtime_server_container_labels i) name =
     map_of [(LABEL_GIT_ROOT, in_canonical_git_root i),
         (LABEL_GIT_ROOT_HASH, in_git_root_hash i),
         (LABEL_RUNTIME, runtime_str (in_runtime i)),
         (LABEL_IMAGE, in_image i),
         (LABEL_LAUNCH_DIRECTORY, in_launch_directory i),
         (LABEL_LOGICAL_NAME, in_logical_name i),
         (LABEL_ATTACH_SCHEME, as_scheme (runtime_attach_spec (in_runtime i))),
         (LABEL_CONTAINER_PORT, show_u16 (container_port (runtime_attach_spec (in_runtime i)))),
         (LABEL_CONTAINER_LISTEN_IP, container_listen_ip (runtime_attach_spec (in_runtime i)))] name"
  unfolding runtime_server_container_labels_def Let_def by (rule bt_get_from_distinct) simp

lemma constant_label_values_not_blank [simp]:
  "\<not> blank LABEL_MANAGED_VALUE" "\<not> blank LABEL_CONTAINER_KIND_MANAGED_SESSION_VALUE"
  "\<not> blank LABEL_CONTAINER_KIND_TRANSIENT_RUN_VALUE" "\<not> blank LABEL_SCHEMA_VALUE"
  "\<not> blank LABEL_DEFAULT_RUNTIME_IMAGE_VALUE"
  by (auto simp: label_values is_ascii_graphic_def byte_of_def intro!: not_blank_graphic_hd)

lemma kind_label_values_neq [simp]:
  "LABEL_CONTAINER_KIND_MANAGED_SESSION_VALUE \<noteq> LABEL_CONTAINER_KIND_TRANSIENT_RUN_VALUE"
  by (simp add: label_values)

lemma kind_of_managed_session_labels:
  "agentbox_container_kind_from_labels (managed_session_labels to_json i) = Some Managed"
  by (simp add: agentbox_container_kind_from_labels_def managed_session_labels_def Let_def
      label_simps)

lemma kind_of_transient_run_labels:
  "agentbox_container_kind_from_labels (transient_run_labels i) = Some Run"
  by (simp add: agentbox_container_kind_from_labels_def transient_run_labels_def label_simps
      required_label_value_def bt_get_insert)

lemma transient_labels_not_managed:
  "bt_get (transient_run_labels i) LABEL_MANAGED = None"
  by (simp add: transient_run_labels_def bt_get_insert label_simps)

lemma runtime_package_metadata_label_neq:
  "runtime_package_metadata_label k n \<noteq> LABEL_DEFAULT_RUNTIME_IMAGE"
  "runtime_package_metadata_label k n \<noteq> LABEL_RUNTIME"
  "runtime_package_metadata_label k n \<noteq> LABEL_IMAGE"
  "runtime_package_metadata_label k n \<noteq> LABEL_IMAGE_CONTEXT_HASH"
  by (cases k; simp add: runtime_package_metadata_label_def label_names)+

text \<open>Reading back the labels of a default image gives the runtime and the context hash.\<close>

lemma default_runtime_image_labels_roundtrip:
  assumes "is_default_image_context_hash h"
  shows "default_runtime_image_metadata_from_labels (default_runtime_image_labels k img h v t) =
    Some \<lparr>md_runtime = k, md_image_context_hash = h\<rparr>"
proof -
  let ?kvs = "[(LABEL_DEFAULT_RUNTIME_IMAGE, LABEL_DEFAULT_RUNTIME_IMAGE_VALUE),
     (LABEL_RUNTIME, runtime_str k), (LABEL_IMAGE, img), (LABEL_IMAGE_CONTEXT_HASH, h),
     (runtime_package_metadata_label k ''package'', package_name (package (profile k))),
     (runtime_package_version_label k, v),
     (runtime_package_metadata_label k ''install_source'', install_source (package (profile k))),
     (runtime_package_metadata_label k ''resolved_at'', t)]"
  have d: "distinct (map fst ?kvs)"
    using runtime_package_metadata_label_neq [symmetric]
    by (simp add: runtime_package_version_label_def)
      (simp add: runtime_package_metadata_label_def)
  have get: "bt_get (default_runtime_image_labels k img h v t) name = map_of ?kvs name" for name
    unfolding default_runtime_image_labels_def Let_def by (rule bt_get_from_distinct) (rule d)
  have h: "\<not> blank h"
  proof -
    have "list_all is_ascii_graphic h"
      using assms by (auto simp: is_default_image_context_hash_def list_all_iff
          is_ascii_hexdigit_def is_lower_hex_def is_ascii_digit_def is_ascii_graphic_def)
    moreover have "h \<noteq> []"
      using assms by (auto simp: is_default_image_context_hash_def IMAGE_CONTEXT_HASH_LEN_def)
    ultimately show ?thesis by (intro not_blank_graphic)
  qed
  have "parse_runtime_kind (runtime_str k) = Ok k" by (simp add: parse_runtime_kind_iff)
  then show ?thesis
    using assms h
    by (simp add: default_runtime_image_metadata_from_labels_def required_label_value_def get)
qed

end
