(* ===== verification/PodmanModel.thy ===== *)
theory PodmanModel
  imports Metadata
begin

text \<open>
  The parts of Podman's JSON that the rest of the program reads (\<open>src/podman/model\<close>), the published
  attach endpoint (\<open>network.rs\<close>), image references (\<open>image.rs\<close>) and named volumes
  (\<open>container.rs\<close>). Fields nothing reads are left out of the records; deserialisation is serde's.
\<close>

record podman_port_binding =
  pb_host_ip :: "string option"
  pb_host_port :: "string option"

record network_settings =
  ns_ports :: "(string, podman_port_binding list option) btree"

record podman_published_port =
  pp_host_ip :: string
  pp_host_port :: u16

datatype mount_kind = MountBind | MountVolume | MountOther string

record podman_container_mount =
  mount_kind :: mount_kind
  mount_name :: "string option"
  mount_source :: string
  mount_destination :: string

record podman_ps_container =
  ps_id :: string
  ps_names :: "string list option"
  ps_labels :: labels

record podman_container_inspect =
  insp_id :: string
  insp_image_name :: string
  insp_running :: bool
  insp_status :: string
  insp_exit_code :: int
  insp_labels :: labels
  insp_mounts :: "podman_container_mount list"
  insp_network :: network_settings

record podman_image =
  img_repository :: string
  img_tag :: string
  img_names :: "string list option"
  img_labels :: labels

record podman_volume =
  vol_name :: string

fun is_volume :: "mount_kind \<Rightarrow> bool" where
  "is_volume MountVolume = True"
| "is_volume _ = False"

text \<open>\<open>PodmanContainerMountKind\<close>: how the JSON string is read and written.\<close>

definition mount_kind_of :: "string \<Rightarrow> mount_kind" where
  "mount_kind_of s = (if s = ''bind'' then MountBind else if s = ''volume'' then MountVolume
     else MountOther s)"

fun mount_kind_str :: "mount_kind \<Rightarrow> string" where
  "mount_kind_str MountBind = ''bind''"
| "mount_kind_str MountVolume = ''volume''"
| "mount_kind_str (MountOther s) = s"

lemma mount_kind_str_of [simp]: "mount_kind_str (mount_kind_of s) = s"
  by (simp add: mount_kind_of_def)

definition non_empty :: "string option \<Rightarrow> string option" where
  "non_empty v = (case v of Some s \<Rightarrow> if s \<noteq> [] then Some s else None | None \<Rightarrow> None)"

definition named_volume_name :: "podman_container_mount \<Rightarrow> string option" where
  "named_volume_name m =
     (if \<not> is_volume (mount_kind m) then None
      else or_else (non_empty (mount_name m)) (non_empty (Some (mount_source m))))"

text \<open>\<open>src/session/mounts.rs\<close>.\<close>

definition has_volume_mount_destination :: "podman_container_mount list \<Rightarrow> string \<Rightarrow> bool" where
  "has_volume_mount_destination mounts dest \<longleftrightarrow>
     list_ex (\<lambda>m. is_volume (mount_kind m) \<and> mount_destination m = dest) mounts"

text \<open>\<open>PodmanImage::references\<close>.\<close>

definition references :: "podman_image \<Rightarrow> string list" where
  "references i =
     (let refs = unwrap_or (img_names i) [];
          refs = (if img_repository i \<noteq> [] \<and> img_tag i \<noteq> [] \<and> img_repository i \<noteq> ''<none>''
                     \<and> img_tag i \<noteq> ''<none>''
                  then refs @ [format [img_repository i, '':'', img_tag i]] else refs);
          refs = filter (\<lambda>r. r \<noteq> [] \<and> r \<noteq> ''<none>'') refs
      in sort_dedup refs)"

section \<open>\<open>network.rs\<close>\<close>

definition DEFAULT_HOST_ATTACH_IP :: string where
  "DEFAULT_HOST_ATTACH_IP = ''127.0.0.1''"

text \<open>The first binding of the port that has a host port, if any.\<close>

definition usable_binding :: "network_settings \<Rightarrow> string \<Rightarrow> podman_port_binding option" where
  "usable_binding ns port_key =
     (case bt_get (ns_ports ns) port_key of
        None \<Rightarrow> None
      | Some None \<Rightarrow> None
      | Some (Some bindings) \<Rightarrow> find (\<lambda>b. pb_host_port b \<noteq> None) bindings)"

definition binding_host_ip :: "podman_port_binding \<Rightarrow> string" where
  "binding_host_ip b =
     (case pb_host_ip b of
        Some ip \<Rightarrow> if blank ip then DEFAULT_HOST_ATTACH_IP else ip
      | None \<Rightarrow> DEFAULT_HOST_ATTACH_IP)"

definition published_host_port ::
  "network_settings \<Rightarrow> string \<Rightarrow> podman_published_port option res" where
  "published_host_port ns port_key =
     (case usable_binding ns port_key of
        None \<Rightarrow> Ok None
      | Some b \<Rightarrow>
          and_then (ok_or (pb_host_port b) (msg [''missing host port for '', tick port_key])) (\<lambda>text.
          and_then (ok_or (parse_u16 text) (msg [''malformed published host port: '', parse_int_error 65536 text])) (\<lambda>port.
            Ok (Some \<lparr>pp_host_ip = binding_host_ip b, pp_host_port = port\<rparr>))))"

definition published_attach_endpoint ::
  "network_settings \<Rightarrow> attach_spec \<Rightarrow> attach_endpoint option res" where
  "published_attach_endpoint ns a =
     map_ok (map_option (\<lambda>p. \<lparr>scheme = as_scheme a, host_ip = pp_host_ip p, host_port = pp_host_port p\<rparr>))
       (published_host_port ns (tcp_port_key a))"

lemma published_host_port_cases:
  "published_host_port ns key =
     (case usable_binding ns key of
        None \<Rightarrow> Ok None
      | Some b \<Rightarrow> (case parse_u16 (the (pb_host_port b)) of
          None \<Rightarrow> Err (msg [''malformed published host port: '', parse_int_error 65536 (the (pb_host_port b))])
        | Some p \<Rightarrow> Ok (Some \<lparr>pp_host_ip = binding_host_ip b, pp_host_port = p\<rparr>)))"
  by (auto simp: published_host_port_def usable_binding_def find_Some_iff
      split: option.splits)

lemma binding_host_ip_not_blank: "\<not> blank (binding_host_ip b)"
proof -
  have "\<not> blank DEFAULT_HOST_ATTACH_IP"
    by (auto simp: DEFAULT_HOST_ATTACH_IP_def is_ascii_graphic_def byte_of_def
        intro!: not_blank_graphic_hd)
  then show ?thesis by (auto simp: binding_host_ip_def split: option.splits)
qed

lemma published_attach_endpoint_Some:
  assumes "published_attach_endpoint ns a = Ok (Some e)"
  shows "scheme e = as_scheme a \<and> \<not> blank (host_ip e) \<and>
    (\<exists>b. usable_binding ns (tcp_port_key a) = Some b \<and> host_ip e = binding_host_ip b
       \<and> parse_u16 (the (pb_host_port b)) = Some (host_port e))"
  using assms
  by (auto simp: published_attach_endpoint_def published_host_port_cases binding_host_ip_not_blank
      result_simps split: option.splits)

lemma references_clean:
  "r \<in> set (references i) \<Longrightarrow> r \<noteq> [] \<and> r \<noteq> ''<none>''"
  by (auto simp: references_def Let_def split: if_splits)

end
