(* ===== verification/Limits.thy ===== *)
theory Limits
  imports Errors
begin

text \<open>
  \<open>src/config.rs\<close>: resource limits, their text formats, how a limit is chosen, and the loading of the
  user's configuration file. JSON parsing (\<open>serde_json\<close>) is a parameter that gives the raw
  configuration or a reason; reading and renaming files are parameters too.
\<close>

section \<open>CPU limits\<close>

text \<open>
  \<open>f64::from_str\<close> accepts an optional sign and then \<open>inf\<close>, \<open>infinity\<close>, \<open>nan\<close> (in any case) or a
  decimal number with an optional exponent. A decimal is kept exactly, as sign, mantissa and
  exponent of ten.
\<close>

datatype float_text = NotANumber | Infinite bool | Decimal bool nat int

definition span_digits :: "string \<Rightarrow> string \<times> string" where
  "span_digits s = (takeWhile is_ascii_digit s, dropWhile is_ascii_digit s)"

definition parse_exponent :: "string \<Rightarrow> int option" where
  "parse_exponent s =
     (case s of
        [] \<Rightarrow> None
      | c # r \<Rightarrow>
          if c = CHR ''-'' then (if r \<noteq> [] \<and> list_all is_ascii_digit r then Some (- int (digits_val r)) else None)
          else if c = CHR ''+'' then (if r \<noteq> [] \<and> list_all is_ascii_digit r then Some (int (digits_val r)) else None)
          else if list_all is_ascii_digit s then Some (int (digits_val s)) else None)"

definition parse_decimal :: "bool \<Rightarrow> string \<Rightarrow> float_text option" where
  "parse_decimal neg s =
     (let (whole, rest) = span_digits s;
          (frac, rest) = (case rest of
             [] \<Rightarrow> ([], [])
           | c # r \<Rightarrow> if c = CHR ''.'' then span_digits r else ([], rest))
      in if whole = [] \<and> frac = [] then None
         else case rest of
           [] \<Rightarrow> Some (Decimal neg (digits_val (whole @ frac)) (- int (length frac)))
         | c # r \<Rightarrow>
             if c = CHR ''e'' \<or> c = CHR ''E''
             then map_option (\<lambda>e. Decimal neg (digits_val (whole @ frac)) (e - int (length frac)))
                    (parse_exponent r)
             else None)"

definition parse_f64 :: "string \<Rightarrow> float_text option" where
  "parse_f64 s =
     (let (neg, body) = (case s of
            [] \<Rightarrow> (False, [])
          | c # r \<Rightarrow> if c = CHR ''-'' then (True, r) else if c = CHR ''+'' then (False, r) else (False, s));
          low = to_ascii_lowercase body
      in if low = ''nan'' then Some NotANumber
         else if low = ''inf'' \<or> low = ''infinity'' then Some (Infinite neg)
         else parse_decimal neg body)"

text \<open>A decimal rounds to infinity from halfway above the largest finite \<open>f64\<close>.\<close>

definition f64_overflow :: nat where
  "f64_overflow = 2 ^ 1024 - 2 ^ 970"

fun float_is_finite :: "float_text \<Rightarrow> bool" where
  "float_is_finite NotANumber = False"
| "float_is_finite (Infinite neg) = False"
| "float_is_finite (Decimal neg m e) =
     (if 0 \<le> e then m * 10 ^ nat e < f64_overflow else m < f64_overflow * 10 ^ nat (- e))"

text \<open>
  \<open>parsed < 0.0\<close>: a negative decimal that does not round to minus zero; the smallest magnitude that
  does not is above half of \<open>2^-1074\<close>.
\<close>

fun float_below_zero :: "float_text \<Rightarrow> bool" where
  "float_below_zero NotANumber = False"
| "float_below_zero (Infinite neg) = neg"
| "float_below_zero (Decimal neg m e) =
     (neg \<and> (if 0 \<le> e then 0 < m * 10 ^ nat e else 10 ^ nat (- e) < m * 2 ^ 1075))"

datatype cpu_limit = CpuLimit (cpu_text: string)
datatype memory_limit = MemoryLimit (memory_text: string)

definition cpu_error :: string where
  "cpu_error = ''CPU limit must be a non-negative decimal number''"

definition parse_cpu_limit :: "string \<Rightarrow> string + cpu_limit" where
  "parse_cpu_limit value =
     (if trim value \<noteq> value \<or> trim value = [] then Inl cpu_error
      else case parse_f64 (trim value) of
        None \<Rightarrow> Inl cpu_error
      | Some parsed \<Rightarrow>
          if \<not> float_is_finite parsed \<or> float_below_zero parsed then Inl cpu_error
          else Inr (CpuLimit (trim value)))"

definition cpu_is_unlimited :: "cpu_limit \<Rightarrow> bool" where
  "cpu_is_unlimited l \<longleftrightarrow> cpu_text l = ''0''"

section \<open>Memory limits\<close>

definition memory_error :: string where
  "memory_error = ''memory limit must use Podman format <number>[b|k|m|g]''"

definition strip_unit :: "string \<Rightarrow> string" where
  "strip_unit s = (if s \<noteq> [] \<and> last s \<in> {CHR ''b'', CHR ''k'', CHR ''m'', CHR ''g''} then butlast s else s)"

definition parse_memory_limit :: "string \<Rightarrow> string + memory_limit" where
  "parse_memory_limit value =
     (if trim value \<noteq> value \<or> trim value = [] then Inl memory_error
      else
        let number = strip_unit (trim value)
        in if number = [] \<or> \<not> list_all is_ascii_digit number then Inl memory_error
           else Inr (MemoryLimit (trim value)))"

definition memory_is_unlimited :: "memory_limit \<Rightarrow> bool" where
  "memory_is_unlimited l \<longleftrightarrow> memory_text l = ''0''"

section \<open>Choosing limits\<close>

record resource_limits =
  cpus :: "cpu_limit option"
  memory :: "memory_limit option"

definition no_limits :: resource_limits where
  "no_limits = \<lparr>cpus = None, memory = None\<rparr>"

definition overlay :: "resource_limits \<Rightarrow> resource_limits \<Rightarrow> resource_limits" where
  "overlay base overrides =
     \<lparr>cpus = or_else (cpus overrides) (cpus base), memory = or_else (memory overrides) (memory base)\<rparr>"

record stored_resource_limit_labels =
  stored_cpus :: string
  stored_memory :: string

definition stored_or_zero :: "resource_limits \<Rightarrow> stored_resource_limit_labels" where
  "stored_or_zero l =
     \<lparr>stored_cpus = unwrap_or (map_option cpu_text (cpus l)) ''0'',
      stored_memory = unwrap_or (map_option memory_text (memory l)) ''0''\<rparr>"

lemma parse_cpu_limit_text: "parse_cpu_limit s = Inr l \<Longrightarrow> cpu_text l = s \<and> trim s = s \<and> s \<noteq> []"
  by (auto simp: parse_cpu_limit_def split: if_splits option.splits)

lemma parse_memory_limit_text:
  "parse_memory_limit s = Inr l \<Longrightarrow> memory_text l = s \<and> trim s = s \<and> s \<noteq> []"
  by (auto simp: parse_memory_limit_def Let_def split: if_splits)

text \<open>What a stored limit prints as parses back to itself: parsing is idempotent on its results.\<close>

lemma parse_cpu_limit_again: "parse_cpu_limit s = Inr l \<Longrightarrow> parse_cpu_limit (cpu_text l) = Inr l"
  using parse_cpu_limit_text by fastforce

lemma parse_memory_limit_again:
  "parse_memory_limit s = Inr l \<Longrightarrow> parse_memory_limit (memory_text l) = Inr l"
  using parse_memory_limit_text by fastforce

lemma overlay_assoc: "overlay (overlay a b) c = overlay a (overlay b c)"
  by (cases "cpus c"; cases "memory c"; simp add: overlay_def)

lemma overlay_no_limits [simp]: "overlay l no_limits = l" "overlay no_limits l = l"
  by (cases "cpus l"; cases "memory l"; simp add: overlay_def no_limits_def)+

end
