(* ===== verification/Session.thy ===== *)
theory Session
  imports PodmanModel Limits
begin

text \<open>
  The session domain: \<open>src/session/record.rs\<close>, \<open>src/session/status.rs\<close>,
  \<open>src/session/status/failure.rs\<close> and \<open>src/session/collection.rs\<close>. The decoder of the stored
  server arguments (\<open>serde_json\<close>) is the parameter \<open>of_json\<close>.
\<close>

section \<open>Status and failures\<close>

datatype session_failure =
    MissingRequiredLabels
  | DriftedGitRootHash
  | MissingCacheMount
  | NotRunning
  | UnsupportedRuntimeLabel
  | MalformedLaunchDirectory
  | MalformedEndpointLabels
  | MissingPublishedAttachPort

datatype session_status = Running | Orphaned | Duplicate | Failed "session_failure option"

fun status_failure :: "session_status \<Rightarrow> session_failure option" where
  "status_failure (Failed failure) = failure"
| "status_failure _ = None"

fun is_failed :: "session_status \<Rightarrow> bool" where
  "is_failed (Failed _) = True"
| "is_failed _ = False"

fun status_str :: "session_status \<Rightarrow> string" where
  "status_str Running = ''running''"
| "status_str Orphaned = ''orphaned''"
| "status_str Duplicate = ''duplicate''"
| "status_str (Failed _) = ''failed''"

definition NIX_CACHE_DESTINATION :: string where
  "NIX_CACHE_DESTINATION = ''/home/user''"

record failure_action =
  detail :: string
  next_step :: string

fun action_of :: "session_failure \<Rightarrow> failure_action" where
  "action_of MissingRequiredLabels = \<lparr>detail = ''is missing required session labels'',
     next_step = ''clean up or recreate it before retrying''\<rparr>"
| "action_of DriftedGitRootHash = \<lparr>detail = format [''has a drifted '', tick ''io.agentbox.git_root_hash''],
     next_step = ''clean up or recreate it before retrying''\<rparr>"
| "action_of MissingCacheMount = \<lparr>detail = format [''is missing required cache mount '', tick NIX_CACHE_DESTINATION],
     next_step = ''recreate the container before retrying''\<rparr>"
| "action_of NotRunning = \<lparr>detail = ''is not running'',
     next_step = ''stop it or recreate it before retrying''\<rparr>"
| "action_of UnsupportedRuntimeLabel = \<lparr>detail = format [''has an unsupported or malformed '', tick ''io.agentbox.runtime'', '' label''],
     next_step = ''clean up or recreate it before retrying''\<rparr>"
| "action_of MalformedLaunchDirectory = \<lparr>detail = format [''has a missing or malformed '', tick ''io.agentbox.launch_directory'', '' label''],
     next_step = ''clean up or recreate it before retrying''\<rparr>"
| "action_of MalformedEndpointLabels = \<lparr>detail = ''has missing or inconsistent attach endpoint labels'',
     next_step = ''clean up or recreate it before retrying''\<rparr>"
| "action_of MissingPublishedAttachPort = \<lparr>detail = ''has no published attach endpoint port'',
     next_step = ''clean up or recreate it before retrying''\<rparr>"

section \<open>Session metadata: the accessors over a container's labels\<close>

abbreviation label :: "labels \<Rightarrow> string \<Rightarrow> string option" where
  "label \<equiv> required_label_value"

definition md_canonical_git_root :: "labels \<Rightarrow> path option" where
  "md_canonical_git_root m = label m LABEL_GIT_ROOT"

definition md_git_root_hash :: "labels \<Rightarrow> string option" where
  "md_git_root_hash m = label m LABEL_GIT_ROOT_HASH"

definition md_runtime_label :: "labels \<Rightarrow> string option" where
  "md_runtime_label m = label m LABEL_RUNTIME"

definition md_runtime_kind :: "labels \<Rightarrow> runtime_kind option" where
  "md_runtime_kind m = (case md_runtime_label m of None \<Rightarrow> None | Some r \<Rightarrow> ok_of (parse_runtime_kind r))"

definition md_launch_directory :: "labels \<Rightarrow> path option" where
  "md_launch_directory m = label m LABEL_LAUNCH_DIRECTORY"

definition logical_name_or :: "labels \<Rightarrow> string \<Rightarrow> string" where
  "logical_name_or m fallback = unwrap_or (label m LABEL_LOGICAL_NAME) fallback"

definition md_server_args :: "(string \<Rightarrow> string + string list) \<Rightarrow> labels \<Rightarrow> string list res" where
  "md_server_args of_json m =
     (case label m LABEL_SERVER_ARGS of
        None \<Rightarrow> Ok []
      | Some v \<Rightarrow> map_err (\<lambda>e. msg [''malformed '', tick LABEL_SERVER_ARGS, '' label: '', e]) (of_json v))"

definition md_stored_resource_limits :: "labels \<Rightarrow> resource_limits res" where
  "md_stored_resource_limits m =
     and_then (case label m LABEL_RESOURCE_LIMIT_CPUS of
         None \<Rightarrow> Ok None
       | Some v \<Rightarrow> map_err Message (map_ok Some (parse_cpu_limit v))) (\<lambda>c.
     and_then (case label m LABEL_RESOURCE_LIMIT_MEMORY of
         None \<Rightarrow> Ok None
       | Some v \<Rightarrow> map_err Message (map_ok Some (parse_memory_limit v))) (\<lambda>mem.
       Ok \<lparr>cpus = c, memory = mem\<rparr>))"

section \<open>Session records\<close>

record session_record =
  container_id :: string
  sr_container_name :: string
  container_kind :: container_kind
  metadata :: labels
  sr_attach_endpoint :: "attach_endpoint option"
  container_running :: bool
  status :: session_status

definition sr_git_root :: "session_record \<Rightarrow> path option" where
  "sr_git_root s = md_canonical_git_root (metadata s)"

definition stable_id :: "session_record \<Rightarrow> string option" where
  "stable_id s = md_git_root_hash (metadata s)"

definition sr_runtime :: "session_record \<Rightarrow> string option" where
  "sr_runtime s = md_runtime_label (metadata s)"

definition sr_runtime_kind :: "session_record \<Rightarrow> runtime_kind option" where
  "sr_runtime_kind s = md_runtime_kind (metadata s)"

definition sr_launch_directory :: "session_record \<Rightarrow> path option" where
  "sr_launch_directory s = md_launch_directory (metadata s)"

definition is_managed_session :: "session_record \<Rightarrow> bool" where
  "is_managed_session s \<longleftrightarrow> container_kind s = Managed"

definition is_transient_run :: "session_record \<Rightarrow> bool" where
  "is_transient_run s \<longleftrightarrow> container_kind s = Run"

definition is_running :: "session_record \<Rightarrow> bool" where
  "is_running s \<longleftrightarrow> status s = Running"

definition mark_duplicate :: "session_record \<Rightarrow> session_record" where
  "mark_duplicate s = s\<lparr>status := Duplicate\<rparr>"

definition is_connectable_candidate :: "session_record \<Rightarrow> bool" where
  "is_connectable_candidate s \<longleftrightarrow>
     is_managed_session s \<and> is_running s \<and> sr_attach_endpoint s \<noteq> None \<and> sr_git_root s \<noteq> None"

definition is_restartable_candidate :: "session_record \<Rightarrow> bool" where
  "is_restartable_candidate s \<longleftrightarrow>
     is_managed_session s \<and> is_running s \<and> stable_id s \<noteq> None \<and> sr_runtime_kind s \<noteq> None
     \<and> sr_launch_directory s \<noteq> None \<and> sr_git_root s \<noteq> None"

text \<open>\<open>Option<&Utf8Path> == Some(root)\<close>: paths compare by their components.\<close>

definition root_is :: "session_record \<Rightarrow> path \<Rightarrow> bool" where
  "root_is s root \<longleftrightarrow> (case sr_git_root s of None \<Rightarrow> False | Some r \<Rightarrow> path_eq r root)"

lemma mark_duplicate_fields [simp]:
  "metadata (mark_duplicate s) = metadata s" "container_kind (mark_duplicate s) = container_kind s"
  "sr_container_name (mark_duplicate s) = sr_container_name s"
  "container_id (mark_duplicate s) = container_id s"
  "sr_attach_endpoint (mark_duplicate s) = sr_attach_endpoint s"
  "container_running (mark_duplicate s) = container_running s"
  "status (mark_duplicate s) = Duplicate"
  "sr_git_root (mark_duplicate s) = sr_git_root s" "stable_id (mark_duplicate s) = stable_id s"
  by (simp_all add: mark_duplicate_def sr_git_root_def stable_id_def)

section \<open>Requiring action on a failed resource\<close>

definition resource_failure_requires_action_error ::
  "container_kind \<Rightarrow> path \<Rightarrow> string \<Rightarrow> session_failure \<Rightarrow> error" where
  "resource_failure_requires_action_error kind root name failure =
     agentbox_container_requires_action kind root name (detail (action_of failure))
       (next_step (action_of failure))"

definition session_failure_requires_action_error :: "path \<Rightarrow> string \<Rightarrow> session_failure \<Rightarrow> error" where
  "session_failure_requires_action_error root name failure =
     resource_failure_requires_action_error Managed root name failure"

definition failed_session_requires_action_error :: "path \<Rightarrow> session_record \<Rightarrow> error option" where
  "failed_session_requires_action_error root s =
     map_option (resource_failure_requires_action_error (container_kind s) root (sr_container_name s))
       (status_failure (status s))"

section \<open>Collections of sessions\<close>

text \<open>Grouping is by path equality; the \<open>BTreeMap\<close> key is the component list, and the group keeps
  the path of the first session that opened it.\<close>

record session_group =
  grp_root :: path
  grp_sessions :: "session_record list"

definition exact_git_root_matches :: "session_record list \<Rightarrow> path \<Rightarrow> session_record list" where
  "exact_git_root_matches sessions root = filter (\<lambda>s. root_is s root) sessions"

type_synonym group_map = "(component list, path \<times> session_record list) btree"

definition group_push :: "path \<Rightarrow> session_record \<Rightarrow> group_map \<Rightarrow> group_map" where
  "group_push root s m =
     (case bt_get m (components root) of
        None \<Rightarrow> bt_insert (components root) (root, [s]) m
      | Some (r, ss) \<Rightarrow> bt_insert (components root) (r, ss @ [s]) m)"

fun partition_loop :: "session_record list \<Rightarrow> group_map \<Rightarrow> session_record list \<Rightarrow> group_map \<times> session_record list" where
  "partition_loop [] groups unrooted = (groups, unrooted)"
| "partition_loop (s # ss) groups unrooted =
     (case sr_git_root s of
        Some root \<Rightarrow> partition_loop ss (group_push root s groups) unrooted
      | None \<Rightarrow> partition_loop ss groups (unrooted @ [s]))"

record session_root_partition =
  rooted :: "session_group list"
  unrooted :: "session_record list"

definition partition_sessions_by_git_root :: "session_record list \<Rightarrow> session_root_partition" where
  "partition_sessions_by_git_root sessions =
     (let (groups, un) = partition_loop sessions [] []
      in \<lparr>rooted = map (\<lambda>(_, root, ss). \<lparr>grp_root = root, grp_sessions = ss\<rparr>) groups, unrooted = un\<rparr>)"

definition group_sessions_by_git_root :: "session_record list \<Rightarrow> session_group list" where
  "group_sessions_by_git_root sessions = rooted (partition_sessions_by_git_root sessions)"

definition sorted_sessions_by_identity :: "session_record list \<Rightarrow> session_record list" where
  "sorted_sessions_by_identity sessions = sort_key (\<lambda>s. (sr_git_root s, sr_container_name s)) sessions"

end
