(* ===== verification/LabelReport.thy ===== *)
theory LabelReport
  imports Session
begin

text \<open>
  Validation of a container's labels (\<open>src/session/labels.rs\<close>, \<open>labels/identity.rs\<close>,
  \<open>labels/attach.rs\<close>) and its attach endpoint (\<open>src/session/endpoint.rs\<close>).
\<close>

section \<open>\<open>labels.rs\<close>\<close>

type_synonym 'a label_result = "session_failure + 'a"

definition require_session_label :: "labels \<Rightarrow> string \<Rightarrow> string label_result" where
  "require_session_label m name = ok_or (label m name) MissingRequiredLabels"

definition require_session_label_value :: "labels \<Rightarrow> string \<Rightarrow> string \<Rightarrow> unit label_result" where
  "require_session_label_value m name expected =
     (if label m name = Some expected then Inr () else Inl MissingRequiredLabels)"

fun require_session_labels :: "labels \<Rightarrow> string list \<Rightarrow> unit label_result" where
  "require_session_labels m [] = Inr ()"
| "require_session_labels m (name # names) =
     and_then (require_session_label m name) (\<lambda>_. require_session_labels m names)"

lemma require_session_labels_Ok [status_simps]:
  "require_session_labels m names = Inr () \<longleftrightarrow> (\<forall>n \<in> set names. label m n \<noteq> None)"
  by (induction m names rule: require_session_labels.induct)
    (auto simp: result_simps require_session_label_def)

section \<open>\<open>identity.rs\<close>\<close>

record session_identity_labels =
  id_git_root :: path
  id_git_root_hash :: string

record required_session_labels =
  rq_identity :: session_identity_labels
  rq_launch_directory :: path

definition require_agentbox_container_marker :: "labels \<Rightarrow> unit label_result" where
  "require_agentbox_container_marker m =
     (case agentbox_container_kind_from_labels m of
        Some Managed \<Rightarrow>
          and_then (require_session_label_value m LABEL_MANAGED LABEL_MANAGED_VALUE)
            (\<lambda>_. require_session_label_value m LABEL_SCHEMA LABEL_SCHEMA_VALUE)
      | Some Run \<Rightarrow>
          require_session_label_value m LABEL_CONTAINER_KIND LABEL_CONTAINER_KIND_TRANSIENT_RUN_VALUE
      | None \<Rightarrow> Inl MissingRequiredLabels)"

definition identity_from_session_labels :: "labels \<Rightarrow> session_identity_labels label_result" where
  "identity_from_session_labels m =
     and_then (require_agentbox_container_marker m) (\<lambda>_.
     and_then (require_session_labels m REQUIRED_SESSION_WORKSPACE_IDENTITY_LABELS) (\<lambda>_.
     and_then (require_session_label m LABEL_GIT_ROOT) (\<lambda>root.
     and_then (require_session_label m LABEL_GIT_ROOT_HASH) (\<lambda>hash.
       Inr \<lparr>id_git_root = root, id_git_root_hash = hash\<rparr>))))"

definition identity_validated ::
  "(string \<Rightarrow> digest) \<Rightarrow> labels \<Rightarrow> session_identity_labels label_result" where
  "identity_validated sha m =
     and_then (identity_from_session_labels m) (\<lambda>i.
       if id_git_root_hash i = git_root_hash12 sha (id_git_root i) then Inr i
       else Inl DriftedGitRootHash)"

definition launch_directory_is_valid :: "path \<Rightarrow> path \<Rightarrow> bool" where
  "launch_directory_is_valid launch root \<longleftrightarrow>
     is_absolute launch \<and> path_is_or_descendant launch root"

definition required_from_validated_identity ::
  "labels \<Rightarrow> session_identity_labels label_result \<Rightarrow> required_session_labels label_result" where
  "required_from_validated_identity m ident =
     and_then ident (\<lambda>i.
     and_then (require_session_labels m REQUIRED_SESSION_METADATA_LABELS) (\<lambda>_.
     and_then (require_session_label m LABEL_LAUNCH_DIRECTORY) (\<lambda>launch.
       if launch_directory_is_valid launch (id_git_root i)
       then Inr \<lparr>rq_identity = i, rq_launch_directory = launch\<rparr>
       else Inl MalformedLaunchDirectory)))"

section \<open>\<open>attach.rs\<close>\<close>

datatype attach_label_error =
    MissingLabel string
  | RuntimeError error
  | MalformedContainerPort string
  | AttachSchemeMismatch runtime_kind string string
  | ContainerPortMismatch runtime_kind u16 u16
  | ContainerListenIpMismatch runtime_kind string string

fun attach_session_failure :: "attach_label_error \<Rightarrow> session_failure" where
  "attach_session_failure (MissingLabel _) = MissingRequiredLabels"
| "attach_session_failure (RuntimeError _) = UnsupportedRuntimeLabel"
| "attach_session_failure (MalformedContainerPort _) = MalformedEndpointLabels"
| "attach_session_failure (AttachSchemeMismatch _ _ _) = MalformedEndpointLabels"
| "attach_session_failure (ContainerPortMismatch _ _ _) = MalformedEndpointLabels"
| "attach_session_failure (ContainerListenIpMismatch _ _ _) = MalformedEndpointLabels"

fun attach_into_error :: "attach_label_error \<Rightarrow> error" where
  "attach_into_error (MissingLabel name) = msg [''missing required label '', tick name]"
| "attach_into_error (RuntimeError e) = e"
| "attach_into_error (MalformedContainerPort e) =
     msg [''malformed '', tick ''io.agentbox.container_port'', '' label: '', e]"
| "attach_into_error (AttachSchemeMismatch k actual expected) =
     msg [''managed session has attach scheme '', tick actual, '' but runtime '', tick (runtime_str k),
          '' requires '', tick expected]"
| "attach_into_error (ContainerPortMismatch k actual expected) =
     msg [''managed session publishes container port '', tick (show_u16 actual), '' but runtime '',
          tick (runtime_str k), '' requires '', tick (show_u16 expected)]"
| "attach_into_error (ContainerListenIpMismatch k actual expected) =
     msg [''managed session has container listen IP '', tick actual, '' but runtime '',
          tick (runtime_str k), '' requires '', tick expected]"

record attach_labels =
  al_runtime :: runtime_kind
  al_attach :: attach_spec

definition require_attach_label :: "labels \<Rightarrow> string \<Rightarrow> attach_label_error + string" where
  "require_attach_label m name = ok_or (label m name) (MissingLabel name)"

definition require_runtime_kind :: "labels \<Rightarrow> attach_label_error + runtime_kind" where
  "require_runtime_kind m =
     and_then (require_attach_label m LABEL_RUNTIME) (\<lambda>v. map_err RuntimeError (parse_runtime_kind v))"

definition require_matching_attach_label ::
  "labels \<Rightarrow> string \<Rightarrow> string \<Rightarrow> (string \<Rightarrow> attach_label_error) \<Rightarrow> attach_label_error + unit" where
  "require_matching_attach_label m name expected mismatch =
     and_then (require_attach_label m name) (\<lambda>actual.
       if actual = expected then Inr () else Inl (mismatch actual))"

definition require_matching_container_port ::
  "labels \<Rightarrow> runtime_kind \<Rightarrow> u16 \<Rightarrow> attach_label_error + unit" where
  "require_matching_container_port m k expected =
     and_then (require_attach_label m LABEL_CONTAINER_PORT) (\<lambda>text.
     and_then (ok_or (parse_u16 text) (MalformedContainerPort (parse_int_error 65536 text))) (\<lambda>actual.
       if actual = expected then Inr () else Inl (ContainerPortMismatch k actual expected)))"

definition attach_from_session_labels :: "labels \<Rightarrow> attach_label_error + attach_labels" where
  "attach_from_session_labels m =
     and_then (require_runtime_kind m) (\<lambda>k.
     let a = runtime_attach_spec k in
     and_then (require_matching_attach_label m LABEL_ATTACH_SCHEME (as_scheme a)
         (\<lambda>actual. AttachSchemeMismatch k actual (as_scheme a))) (\<lambda>_.
     and_then (require_matching_container_port m k (container_port a)) (\<lambda>_.
     and_then (require_matching_attach_label m LABEL_CONTAINER_LISTEN_IP (container_listen_ip a)
         (\<lambda>actual. ContainerListenIpMismatch k actual (container_listen_ip a))) (\<lambda>_.
       Inr \<lparr>al_runtime = k, al_attach = a\<rparr>))))"

section \<open>The report\<close>

record session_label_report =
  rep_identity :: "session_identity_labels label_result"
  rep_required :: "required_session_labels label_result"
  rep_attach :: "attach_label_error + attach_labels"

definition label_report_from_metadata :: "(string \<Rightarrow> digest) \<Rightarrow> labels \<Rightarrow> session_label_report" where
  "label_report_from_metadata sha m =
     (let ident = identity_validated sha m
      in \<lparr>rep_identity = ident, rep_required = required_from_validated_identity m ident,
          rep_attach = attach_from_session_labels m\<rparr>)"

definition report_attach_labels :: "session_label_report \<Rightarrow> attach_labels label_result" where
  "report_attach_labels r = map_err attach_session_failure (rep_attach r)"

definition required_failure :: "session_label_report \<Rightarrow> session_failure option" where
  "required_failure r = err_of (rep_required r)"

definition attach_failure :: "session_label_report \<Rightarrow> session_failure option" where
  "attach_failure r = err_of (report_attach_labels r)"

section \<open>\<open>src/session/endpoint.rs\<close>\<close>

definition derive_attach_endpoint :: "attach_labels \<Rightarrow> podman_container_inspect \<Rightarrow> attach_endpoint res" where
  "derive_attach_endpoint al inspect =
     and_then (published_attach_endpoint (insp_network inspect) (al_attach al)) (\<lambda>found.
       ok_or found (msg [''managed session has no published attach port for '',
         tick (tcp_port_key (al_attach al))]))"

definition endpoint_report ::
  "session_label_report \<Rightarrow> podman_container_inspect \<Rightarrow> attach_endpoint label_result" where
  "endpoint_report report inspect =
     and_then (report_attach_labels report) (\<lambda>al.
       map_err (\<lambda>_. MissingPublishedAttachPort) (derive_attach_endpoint al inspect))"

definition discover_attach_endpoint_from_inspect :: "podman_container_inspect \<Rightarrow> attach_endpoint res" where
  "discover_attach_endpoint_from_inspect inspect =
     and_then (map_err attach_into_error (attach_from_session_labels (insp_labels inspect))) (\<lambda>al.
       derive_attach_endpoint al inspect)"

lemma attach_from_session_labels_Ok [status_simps]:
  "attach_from_session_labels m = Inr al \<longleftrightarrow>
     (\<exists>k. label m LABEL_RUNTIME = Some (runtime_str k)
        \<and> al = \<lparr>al_runtime = k, al_attach = runtime_attach_spec k\<rparr>
        \<and> label m LABEL_ATTACH_SCHEME = Some (as_scheme (runtime_attach_spec k))
        \<and> (\<exists>t. label m LABEL_CONTAINER_PORT = Some t
             \<and> parse_u16 t = Some (container_port (runtime_attach_spec k)))
        \<and> label m LABEL_CONTAINER_LISTEN_IP = Some (container_listen_ip (runtime_attach_spec k)))"
  by (auto simp: attach_from_session_labels_def Let_def result_simps require_runtime_kind_def
      require_attach_label_def require_matching_attach_label_def parse_runtime_kind_iff
      require_matching_container_port_def split: if_splits)

lemma identity_validated_Ok [status_simps]:
  "identity_validated sha m = Inr i \<longleftrightarrow>
     require_agentbox_container_marker m = Inr ()
     \<and> label m LABEL_GIT_ROOT = Some (id_git_root i)
     \<and> label m LABEL_GIT_ROOT_HASH = Some (id_git_root_hash i)
     \<and> id_git_root_hash i = git_root_hash12 sha (id_git_root i)"
  by (cases i)
    (auto simp: identity_validated_def identity_from_session_labels_def result_simps status_simps
      require_session_label_def REQUIRED_SESSION_WORKSPACE_IDENTITY_LABELS_def split: if_splits)

lemma required_from_validated_identity_Ok [status_simps]:
  "required_from_validated_identity m ident = Inr r \<longleftrightarrow>
     ident = Inr (rq_identity r)
     \<and> label m LABEL_IMAGE \<noteq> None \<and> label m LABEL_LOGICAL_NAME \<noteq> None
     \<and> label m LABEL_LAUNCH_DIRECTORY = Some (rq_launch_directory r)
     \<and> launch_directory_is_valid (rq_launch_directory r) (id_git_root (rq_identity r))"
  by (cases r)
    (auto simp: required_from_validated_identity_def result_simps status_simps
      require_session_label_def REQUIRED_SESSION_METADATA_LABELS_def split: if_splits)

end
