(* ===== verification/Discovery.thy ===== *)
theory Discovery
  imports LabelReport
begin

text \<open>
  Deriving a session's status (\<open>src/session/status.rs\<close>, \<open>status/git_root.rs\<close>), building records from
  inspected containers (\<open>discovery/inspected.rs\<close>) and scoping, collecting and marking them
  (\<open>discovery/scope.rs\<close>, \<open>discovery/mod.rs\<close>). The probe of the host's git roots and the inspection of
  a container are parameters.
\<close>

section \<open>Orphaned roots\<close>

text \<open>The trait \<open>GitRootProbe\<close>.\<close>

record git_root_probe =
  gp_canonicalize :: "path \<Rightarrow> path option"
  gp_is_directory :: "path \<Rightarrow> bool"
  gp_has_git_marker :: "path \<Rightarrow> bool"
  gp_rev_parse_show_toplevel :: "path \<Rightarrow> path option"

definition git_root_is_orphaned :: "git_root_probe \<Rightarrow> path \<Rightarrow> bool" where
  "git_root_is_orphaned probe root =
     (case gp_canonicalize probe root of
        None \<Rightarrow> True
      | Some canonical \<Rightarrow>
          if \<not> path_eq canonical root then True
          else if \<not> gp_is_directory probe canonical then True
          else if gp_has_git_marker probe canonical then False
          else (case gp_rev_parse_show_toplevel probe canonical of
             None \<Rightarrow> True
           | Some resolved \<Rightarrow> (case gp_canonicalize probe resolved of
               None \<Rightarrow> True
             | Some r \<Rightarrow> \<not> path_eq r canonical)))"

section \<open>Status\<close>

definition derive_status ::
  "git_root_probe \<Rightarrow> session_label_report \<Rightarrow> attach_endpoint label_result \<Rightarrow> bool
     \<Rightarrow> podman_container_mount list \<Rightarrow> session_status" where
  "derive_status probe report endpoint running mounts =
     (case rep_required report of
        Inl failure \<Rightarrow> Failed (Some failure)
      | Inr required \<Rightarrow>
          (case err_of endpoint of
             Some failure \<Rightarrow> Failed (Some failure)
           | None \<Rightarrow>
               if \<not> has_volume_mount_destination mounts NIX_CACHE_DESTINATION
               then Failed (Some MissingCacheMount)
               else if \<not> running then Failed (Some NotRunning)
               else if git_root_is_orphaned probe (id_git_root (rq_identity required)) then Orphaned
               else Running))"

section \<open>Records from inspected containers\<close>

definition inspected_container_name :: "podman_ps_container \<Rightarrow> string" where
  "inspected_container_name c =
     (case ps_names c of Some (n # _) \<Rightarrow> n | _ \<Rightarrow> ps_id c)"

definition build_session_record ::
  "(string \<Rightarrow> digest) \<Rightarrow> git_root_probe \<Rightarrow> podman_ps_container \<Rightarrow> podman_container_inspect
     \<Rightarrow> container_kind \<Rightarrow> session_record" where
  "build_session_record sha probe c inspect kind =
     (let m = insp_labels inspect;
          report = label_report_from_metadata sha m;
          endpoint = endpoint_report report inspect;
          st = derive_status probe report endpoint (insp_running inspect) (insp_mounts inspect)
      in \<lparr>container_id = ps_id c, sr_container_name = inspected_container_name c,
          container_kind = kind, metadata = m, sr_attach_endpoint = ok_of endpoint,
          container_running = insp_running inspect, status = st\<rparr>)"

section \<open>Scopes\<close>

datatype container_discovery_scope = ManagedSessions | AgentboxOwned

fun scope_includes :: "container_discovery_scope \<Rightarrow> container_kind \<Rightarrow> bool" where
  "scope_includes ManagedSessions kind = (kind = Managed)"
| "scope_includes AgentboxOwned kind = True"

definition ps_candidate ::
  "container_discovery_scope \<Rightarrow> podman_ps_container \<Rightarrow> (podman_ps_container \<times> container_kind) option" where
  "ps_candidate scope c =
     (case agentbox_container_kind_from_labels (ps_labels c) of
        None \<Rightarrow> None
      | Some kind \<Rightarrow> if scope_includes scope kind then Some (c, kind) else None)"

text \<open>\<open>GitRootDiscoveryScope\<close>: the root and its hash.\<close>

record git_root_scope =
  gs_root :: path
  gs_hash :: string

datatype session_discovery_scope = AllSessions | GitRoot git_root_scope

definition scope_for_git_root :: "(string \<Rightarrow> digest) \<Rightarrow> path \<Rightarrow> session_discovery_scope" where
  "scope_for_git_root sha root = GitRoot \<lparr>gs_root = root, gs_hash = git_root_hash12 sha root\<rparr>"

fun should_inspect_ps_candidate :: "session_discovery_scope \<Rightarrow> podman_ps_container \<Rightarrow> bool" where
  "should_inspect_ps_candidate AllSessions c = True"
| "should_inspect_ps_candidate (GitRoot g) c =
     (case required_label_value (ps_labels c) LABEL_GIT_ROOT_HASH of
        None \<Rightarrow> True
      | Some h \<Rightarrow> h = gs_hash g)"

datatype scoped_session_candidate = Match session_record | Collision string | Ignore

definition classify_session :: "git_root_scope \<Rightarrow> session_record \<Rightarrow> scoped_session_candidate" where
  "classify_session g s =
     (let hash_matches = (stable_id s = Some (gs_hash g))
      in if root_is s (gs_root g) then Match s
         else if \<not> hash_matches then Ignore
         else (case sr_git_root s of Some root \<Rightarrow> Collision root | None \<Rightarrow> Match s))"

section \<open>The collector\<close>

record session_collector =
  sc_scope :: session_discovery_scope
  sc_sessions :: "session_record list"
  sc_mismatched_roots :: "string list"

definition new_collector :: "session_discovery_scope \<Rightarrow> session_collector" where
  "new_collector scope = \<lparr>sc_scope = scope, sc_sessions = [], sc_mismatched_roots = []\<rparr>"

definition collect_session :: "session_record \<Rightarrow> session_collector \<Rightarrow> session_collector" where
  "collect_session s col =
     (case sc_scope col of
        AllSessions \<Rightarrow> col\<lparr>sc_sessions := sc_sessions col @ [s]\<rparr>
      | GitRoot g \<Rightarrow> (case classify_session g s of
          Match r \<Rightarrow> col\<lparr>sc_sessions := sc_sessions col @ [r]\<rparr>
        | Collision root \<Rightarrow> col\<lparr>sc_mismatched_roots := sc_mismatched_roots col @ [root]\<rparr>
        | Ignore \<Rightarrow> col))"

text \<open>\<open>mark_duplicate_sessions\<close>: failed sessions neither count nor are marked.\<close>

definition group_key :: "session_record \<Rightarrow> component list option" where
  "group_key s = (if is_failed (status s) then None else map_option components (sr_git_root s))"

fun count_groups :: "session_record list \<Rightarrow> (component list, nat) btree \<Rightarrow> (component list, nat) btree" where
  "count_groups [] m = m"
| "count_groups (s # ss) m =
     (case group_key s of None \<Rightarrow> count_groups ss m | Some k \<Rightarrow> count_groups ss (bt_incr k m))"

definition mark_if_duplicate :: "(component list, nat) btree \<Rightarrow> session_record \<Rightarrow> session_record" where
  "mark_if_duplicate sizes s =
     (case group_key s of
        None \<Rightarrow> s
      | Some k \<Rightarrow> (case bt_get sizes k of
          None \<Rightarrow> s
        | Some n \<Rightarrow> if 1 < n then mark_duplicate s else s))"

definition mark_duplicate_sessions :: "session_record list \<Rightarrow> session_record list" where
  "mark_duplicate_sessions sessions = map (mark_if_duplicate (count_groups sessions [])) sessions"

definition collision_error :: "git_root_scope \<Rightarrow> string list \<Rightarrow> error" where
  "collision_error g roots = msg [''managed identity collision for '', tick (gs_root g),
     '' matched different full git roots: '', join '', '' roots]"

definition finish_collector :: "session_collector \<Rightarrow> session_record list res" where
  "finish_collector col =
     (let roots = sort_dedup (sc_mismatched_roots col)
      in case sc_scope col of
        GitRoot g \<Rightarrow> if roots \<noteq> [] then Err (collision_error g roots)
                     else Ok (mark_duplicate_sessions (sc_sessions col))
      | AllSessions \<Rightarrow> Ok (mark_duplicate_sessions (sc_sessions col)))"

text \<open>The loop of \<open>discover_sessions_from_ps_with_git_root_probe\<close>; an inspection error ends it.\<close>

fun discover_loop ::
  "(string \<Rightarrow> digest) \<Rightarrow> git_root_probe \<Rightarrow> (string \<Rightarrow> podman_container_inspect res)
     \<Rightarrow> (podman_ps_container \<times> container_kind) list \<Rightarrow> session_collector \<Rightarrow> session_collector res" where
  "discover_loop sha probe inspect [] col = Ok col"
| "discover_loop sha probe inspect ((c, kind) # cs) col =
     (if \<not> should_inspect_ps_candidate (sc_scope col) c
      then discover_loop sha probe inspect cs col
      else and_then (inspect (ps_id c)) (\<lambda>i.
        discover_loop sha probe inspect cs
          (collect_session (build_session_record sha probe c i kind) col)))"

definition discover_sessions ::
  "(string \<Rightarrow> digest) \<Rightarrow> git_root_probe \<Rightarrow> (string \<Rightarrow> podman_container_inspect res)
     \<Rightarrow> session_discovery_scope \<Rightarrow> container_discovery_scope \<Rightarrow> podman_ps_container list
     \<Rightarrow> session_record list res" where
  "discover_sessions sha probe inspect scope cscope containers =
     and_then (discover_loop sha probe inspect (filter_map (ps_candidate cscope) containers)
         (new_collector scope)) finish_collector"

section \<open>Marking duplicates\<close>

lemma unwrap_count_groups:
  "unwrap_or (bt_get (count_groups ss m) k) 0 =
     unwrap_or (bt_get m k) 0 + length (filter (\<lambda>s. group_key s = Some k) ss)"
  by (induction ss m rule: count_groups.induct) (auto simp: bt_get_incr split: option.splits)

lemma mark_if_duplicate_alt:
  "mark_if_duplicate (count_groups ss []) s =
     (if \<exists>k. group_key s = Some k \<and> 1 < length (filter (\<lambda>t. group_key t = Some k) ss)
      then mark_duplicate s else s)"
proof (cases "group_key s")
  case (Some k)
  have "unwrap_or (bt_get (count_groups ss []) k) 0 = length (filter (\<lambda>t. group_key t = Some k) ss)"
    by (simp add: unwrap_count_groups)
  then show ?thesis
    using Some by (cases "bt_get (count_groups ss []) k") (auto simp: mark_if_duplicate_def)
qed (simp add: mark_if_duplicate_def)

lemma two_in_filter:
  assumes "i < length xs" and "P (xs ! i)"
  shows "1 < length (filter P xs) \<longleftrightarrow> (\<exists>j < length xs. j \<noteq> i \<and> P (xs ! j))"
proof -
  let ?A = "{j. j < length xs \<and> P (xs ! j)}"
  have i: "i \<in> ?A" and fin: "finite ?A" using assms by simp_all
  have "card ?A = Suc (card (?A - {i}))" using card_Suc_Diff1 [OF fin i] by simp
  then have "1 < card ?A \<longleftrightarrow> 0 < card (?A - {i})" by simp
  also have "\<dots> \<longleftrightarrow> ?A - {i} \<noteq> {}" using fin by (simp add: card_gt_0_iff)
  finally show ?thesis by (auto simp: length_filter_conv_card)
qed

lemma group_key_eq_Some:
  "group_key s = Some k \<longleftrightarrow>
     \<not> is_failed (status s) \<and> (\<exists>r. sr_git_root s = Some r \<and> components r = k)"
  by (auto simp: group_key_def)

text \<open>Duplicate detection is exact. Marking changes a session only into its duplicate-marked
  copy, and does so precisely when the session has not failed, has a recoverable git root, and
  another non-failed session of the list has the same root.\<close>

lemma duplicates_are_exact:
  assumes "i < length ss"
  shows "mark_duplicate_sessions ss ! i =
    (if \<exists>r j r'. \<not> is_failed (status (ss ! i)) \<and> sr_git_root (ss ! i) = Some r
         \<and> j < length ss \<and> j \<noteq> i \<and> \<not> is_failed (status (ss ! j))
         \<and> sr_git_root (ss ! j) = Some r' \<and> path_eq r' r
     then (ss ! i)\<lparr>status := Duplicate\<rparr> else ss ! i)"
proof -
  have "(\<exists>k. group_key (ss ! i) = Some k \<and> 1 < length (filter (\<lambda>t. group_key t = Some k) ss)) \<longleftrightarrow>
    (\<exists>k. group_key (ss ! i) = Some k \<and> (\<exists>j < length ss. j \<noteq> i \<and> group_key (ss ! j) = Some k))"
    using two_in_filter [OF assms] by meson
  then show ?thesis
    using assms
    by (auto simp: mark_duplicate_sessions_def mark_if_duplicate_alt mark_duplicate_def
        group_key_eq_Some path_eq_def)
qed

end
