(* ===== verification/Selection.thy ===== *)
theory Selection
  imports Discovery
begin

text \<open>
  Choosing sessions by a stable-id prefix (\<open>src/session/selection.rs\<close>) and the targets a command
  may name (\<open>src/session/target_candidate.rs\<close>), with the exact meaning of a prefix selection.
\<close>

section \<open>\<open>selection.rs\<close>\<close>

record stable_id_prefix_selection =
  sel_id :: string
  sel_sessions :: "session_record list"

definition into_single_session :: "stable_id_prefix_selection \<Rightarrow> session_record option" where
  "into_single_session sel = (case sel_sessions sel of [s] \<Rightarrow> Some s | _ \<Rightarrow> None)"

text \<open>The loop over the sessions; \<open>np\<close> is the lower-cased prefix.\<close>

fun prefix_matches ::
  "string \<Rightarrow> session_record list \<Rightarrow> (string, session_record list) btree
     \<Rightarrow> (string, session_record list) btree" where
  "prefix_matches np [] m = m"
| "prefix_matches np (s # ss) m =
     (case stable_id s of
        None \<Rightarrow> prefix_matches np ss m
      | Some sid \<Rightarrow>
          if starts_with (to_ascii_lowercase sid) np then prefix_matches np ss (bt_push sid s m)
          else prefix_matches np ss m)"

definition select_stable_id_prefix_with_noun ::
  "session_record list \<Rightarrow> string \<Rightarrow> string \<Rightarrow> stable_id_prefix_selection res" where
  "select_stable_id_prefix_with_noun sessions pre noun =
     (if pre = [] then Err (msg [''stable id prefix must not be empty''])
      else case prefix_matches (to_ascii_lowercase pre) sessions [] of
        [] \<Rightarrow> Err (msg [''no '', noun, '' id matches prefix '', tick pre])
      | [(sid, ss)] \<Rightarrow> Ok \<lparr>sel_id = sid, sel_sessions = ss\<rparr>
      | m \<Rightarrow> Err (msg [''stable id prefix '', tick pre, '' matches multiple ids ('',
               join '', '' (map fst m), ''); use a longer prefix'']))"

definition select_stable_id_prefix ::
  "session_record list \<Rightarrow> string \<Rightarrow> stable_id_prefix_selection res" where
  "select_stable_id_prefix sessions pre =
     select_stable_id_prefix_with_noun sessions pre ''managed session''"

definition select_agentbox_stable_id_prefix ::
  "session_record list \<Rightarrow> string \<Rightarrow> stable_id_prefix_selection res" where
  "select_agentbox_stable_id_prefix sessions pre =
     select_stable_id_prefix_with_noun sessions pre ''agentbox container''"

definition duplicate_sessions_error :: "workspace_identity \<Rightarrow> error" where
  "duplicate_sessions_error w = duplicate_managed_sessions (canonical_git_root w)"

definition select_single_session ::
  "session_record list \<Rightarrow> workspace_identity \<Rightarrow> session_record option res" where
  "select_single_session sessions w =
     (case sessions of
        [] \<Rightarrow> Ok None
      | [s] \<Rightarrow> Ok (Some s)
      | _ \<Rightarrow> Err (duplicate_sessions_error w))"

definition run_command_hint :: "string option \<Rightarrow> workspace_identity \<Rightarrow> string" where
  "run_command_hint runtime w =
     (let r = (case runtime of
          Some r \<Rightarrow> if ok_of (parse_runtime_kind r) \<noteq> None then r else supported_runtime_placeholder
        | None \<Rightarrow> supported_runtime_placeholder)
      in format [''agentbox start --runtime '', r, '' '', requested_target w])"

section \<open>\<open>target_candidate.rs\<close>\<close>

datatype session_target_kind = ConnectRoot | RestartStableId | StableIdTarget

record session_target_candidate =
  tc_value :: string
  tc_git_root :: "path option"
  tc_runtime :: "string option"
  tc_status :: session_status

fun candidate_value :: "session_target_kind \<Rightarrow> session_record \<Rightarrow> string option" where
  "candidate_value ConnectRoot s = (if is_connectable_candidate s then sr_git_root s else None)"
| "candidate_value RestartStableId s = (if is_restartable_candidate s then stable_id s else None)"
| "candidate_value StableIdTarget s = (if stable_id s \<noteq> None then stable_id s else None)"

definition target_candidate :: "session_target_kind \<Rightarrow> session_record \<Rightarrow> session_target_candidate option" where
  "target_candidate k s =
     map_option (\<lambda>v. \<lparr>tc_value = v, tc_git_root = sr_git_root s, tc_runtime = sr_runtime s,
        tc_status = status s\<rparr>) (candidate_value k s)"

definition target_candidates ::
  "session_target_kind \<Rightarrow> session_record list \<Rightarrow> session_target_candidate list" where
  "target_candidates k sessions = filter_map (target_candidate k) sessions"

definition target_matches :: "session_target_kind \<Rightarrow> session_record \<Rightarrow> bool" where
  "target_matches k s \<longleftrightarrow> target_candidate k s \<noteq> None"

definition git_root_or_unknown :: "session_target_candidate \<Rightarrow> string" where
  "git_root_or_unknown c = unwrap_or (tc_git_root c) ''unknown''"

definition runtime_or_unknown :: "session_target_candidate \<Rightarrow> string" where
  "runtime_or_unknown c = unwrap_or (tc_runtime c) ''unknown''"

section \<open>What a prefix selects\<close>

definition id_matches :: "string \<Rightarrow> session_record \<Rightarrow> bool" where
  "id_matches pre s \<longleftrightarrow>
     (case stable_id s of
        None \<Rightarrow> False
      | Some sid \<Rightarrow> starts_with (to_ascii_lowercase sid) (to_ascii_lowercase pre))"

lemma bt_wf_prefix_matches: "bt_wf m \<Longrightarrow> bt_wf (prefix_matches np ss m)"
  by (induction np ss m rule: prefix_matches.induct) (auto simp: bt_wf_push split: option.splits)

lemma get_prefix_matches:
  "unwrap_or (bt_get (prefix_matches (to_ascii_lowercase pre) ss m) sid) [] =
     unwrap_or (bt_get m sid) [] @ filter (\<lambda>s. stable_id s = Some sid \<and> id_matches pre s) ss"
  by (induction "to_ascii_lowercase pre" ss m rule: prefix_matches.induct)
    (auto simp: bt_get_push id_matches_def split: option.splits)

lemma prefix_matches_no_empty:
  "(\<And>k. bt_get m k \<noteq> Some []) \<Longrightarrow> bt_get (prefix_matches np ss m) sid \<noteq> Some []"
  by (induction np ss m rule: prefix_matches.induct)
    (auto simp: bt_get_push split: option.splits if_splits)

lemma prefix_matches_entry:
  "(sid, gs) \<in> set (prefix_matches (to_ascii_lowercase pre) ss []) \<longleftrightarrow>
     gs \<noteq> [] \<and> gs = filter (\<lambda>s. stable_id s = Some sid \<and> id_matches pre s) ss"
proof -
  let ?m = "prefix_matches (to_ascii_lowercase pre) ss []"
  have "(sid, gs) \<in> set ?m \<longleftrightarrow> bt_get ?m sid = Some gs"
    by (simp add: bt_entries_get bt_wf_prefix_matches)
  then show ?thesis
    using get_prefix_matches [of pre ss "[]" sid] prefix_matches_no_empty [of "[]" "to_ascii_lowercase pre" ss sid]
    by (cases "bt_get ?m sid") auto
qed

lemma single_entry:
  assumes "bt_wf m" shows "m = [(k, v)] \<longleftrightarrow> (\<forall>j w. (j, w) \<in> set m \<longleftrightarrow> j = k \<and> w = v)"
proof
  assume *: "\<forall>j w. (j, w) \<in> set m \<longleftrightarrow> j = k \<and> w = v"
  have d: "distinct m" using bt_wf_distinct [OF assms] by (simp add: distinct_map)
  have e: "set m = {(k, v)}" using * by auto
  then have "length m = 1" using distinct_card [OF d] by simp
  then show "m = [(k, v)]" using e by (cases m) auto
qed auto

lemma select_cases:
  assumes "pre \<noteq> []"
  shows "select_stable_id_prefix_with_noun sessions pre noun = Ok sel \<longleftrightarrow>
    prefix_matches (to_ascii_lowercase pre) sessions [] = [(sel_id sel, sel_sessions sel)]"
  using assms
  by (cases sel; cases "prefix_matches (to_ascii_lowercase pre) sessions []" rule: remdups_adj.cases)
    (auto simp: select_stable_id_prefix_with_noun_def)

lemma unique_group:
  "(\<forall>i gs. (gs \<noteq> [] \<and> gs = f i) = (i = a \<and> gs = b)) \<longleftrightarrow>
     b \<noteq> [] \<and> b = f a \<and> (\<forall>i. i \<noteq> a \<longrightarrow> f i = [])" (is "?L \<longleftrightarrow> ?R")
proof
  assume l: ?L
  then have "b \<noteq> [] \<and> b = f a" by (metis (full_types))
  moreover have "f i = []" if "i \<noteq> a" for i using l that by blast
  ultimately show ?R by blast
next
  assume ?R
  then show ?L by auto
qed

lemma select_Ok_iff:
  "select_stable_id_prefix_with_noun sessions pre noun = Ok sel \<longleftrightarrow>
     pre \<noteq> [] \<and> sel_sessions sel \<noteq> [] \<and> sel_sessions sel = filter (id_matches pre) sessions
     \<and> filter (\<lambda>s. id_matches pre s \<and> stable_id s \<noteq> Some (sel_id sel)) sessions = []"
proof (cases "pre = []")
  case False
  let ?m = "prefix_matches (to_ascii_lowercase pre) sessions []"
  let ?f = "\<lambda>sid. filter (\<lambda>s. stable_id s = Some sid \<and> id_matches pre s) sessions"
  have "select_stable_id_prefix_with_noun sessions pre noun = Ok sel \<longleftrightarrow>
      (\<forall>sid gs. (gs \<noteq> [] \<and> gs = ?f sid) = (sid = sel_id sel \<and> gs = sel_sessions sel))"
    unfolding select_cases [OF False] single_entry [OF bt_wf_prefix_matches [OF bt_wf_Nil]]
      prefix_matches_entry ..
  also have "\<dots> \<longleftrightarrow> sel_sessions sel \<noteq> [] \<and> sel_sessions sel = ?f (sel_id sel)
      \<and> (\<forall>sid. sid \<noteq> sel_id sel \<longrightarrow> ?f sid = [])" by (rule unique_group)
  finally have all: "select_stable_id_prefix_with_noun sessions pre noun = Ok sel \<longleftrightarrow> \<dots>" .
  have others: "(\<forall>sid. sid \<noteq> sel_id sel \<longrightarrow> ?f sid = []) \<longleftrightarrow>
      (\<forall>s \<in> set sessions. id_matches pre s \<longrightarrow> stable_id s = Some (sel_id sel))"
    by (auto simp: filter_empty_conv id_matches_def split: option.splits)
  have "?f (sel_id sel) = filter (id_matches pre) sessions"
    if "\<forall>s \<in> set sessions. id_matches pre s \<longrightarrow> stable_id s = Some (sel_id sel)"
    using that by (intro filter_cong) auto
  then show ?thesis unfolding all others using False by (auto simp: filter_empty_conv)
qed (simp add: select_stable_id_prefix_with_noun_def)

text \<open>A stable-id prefix selects exactly when it is not empty and the sessions whose id it
  matches, ignoring ASCII case, are at least one and all carry one and the same id; what it selects
  is then all of those sessions, in order. Otherwise the selection is an error.\<close>

lemma prefix_selection_exact:
  "select_stable_id_prefix_with_noun sessions pre noun = Ok sel \<longleftrightarrow>
     pre \<noteq> [] \<and> sel_sessions sel \<noteq> [] \<and> sel_sessions sel = filter (id_matches pre) sessions
     \<and> filter (\<lambda>s. id_matches pre s \<and> stable_id s \<noteq> Some (sel_id sel)) sessions = []"
  by (rule select_Ok_iff)

lemma select_agentbox_Ok:
  assumes "select_agentbox_stable_id_prefix sessions pre = Ok sel" and "s \<in> set (sel_sessions sel)"
  shows "s \<in> set sessions \<and> stable_id s = Some (sel_id sel)"
proof -
  have "(sel_id sel, sel_sessions sel) \<in> set (prefix_matches (to_ascii_lowercase pre) sessions [])"
    using assms(1)
    using select_cases [of pre sessions "''agentbox container''" sel]
    by (cases "pre = []")
      (simp_all add: select_agentbox_stable_id_prefix_def select_stable_id_prefix_with_noun_def [of _ "[]"])
  then show ?thesis using assms(2) by (auto simp: prefix_matches_entry)
qed

end
