(* ===== verification/Effects.thy ===== *)
theory Effects
  imports Errors "HOL-Library.State_Monad"
begin

text \<open>
  Effectful functions: a state monad over the state \<open>'w\<close> of everything outside the process, the \<open>?\<close>
  operator, and relations between the states before and after an operation.
\<close>

section \<open>Effects and errors\<close>

type_synonym ('w, 'a) io = "('w, 'a) state"

abbreviation pure :: "'a \<Rightarrow> ('w, 'a) io" where
  "pure \<equiv> State_Monad.return"

text \<open>The \<open>?\<close> operator in an effectful function.\<close>

definition attempt :: "('w, 'a res) io \<Rightarrow> ('a \<Rightarrow> ('w, 'b res) io) \<Rightarrow> ('w, 'b res) io" where
  "attempt m f = do { r \<leftarrow> m; case r of Inl e \<Rightarrow> pure (Err e) | Inr x \<Rightarrow> f x }"

definition io_of :: "'a res \<Rightarrow> ('w, 'a res) io" where
  "io_of r = pure r"

definition map_io :: "('a \<Rightarrow> 'b) \<Rightarrow> ('w, 'a) io \<Rightarrow> ('w, 'b) io" where
  "map_io f m = do { x \<leftarrow> m; pure (f x) }"

lemma run_attempt:
  "run_state (attempt m f) w =
     (case run_state m w of (Inl e, w') \<Rightarrow> (Err e, w') | (Inr x, w') \<Rightarrow> run_state (f x) w')"
  by (auto simp: attempt_def split: prod.splits sum.splits)

lemma run_attempt_Ok [result_simps]:
  "run_state (attempt m f) w = (Inr y, w'') \<longleftrightarrow>
     (\<exists>x w'. run_state m w = (Inr x, w') \<and> run_state (f x) w' = (Inr y, w''))"
  by (auto simp: run_attempt split: prod.splits sum.splits)

lemma run_attempt_pure [simp]: "attempt (pure (Inr x)) f = f x" "attempt (pure (Inl e)) f = pure (Err e)"
  by (auto intro!: state_ext simp: run_attempt)

lemma run_map_io: "run_state (map_io f m) w = (case run_state m w of (x, w') \<Rightarrow> (f x, w'))"
  by (auto simp: map_io_def split: prod.splits)

lemma run_map_io_eq [result_simps]:
  "run_state (map_io f m) w = (y, w') \<longleftrightarrow> (\<exists>x. run_state m w = (x, w') \<and> y = f x)"
  by (auto simp: run_map_io split: prod.splits)

section \<open>Relations between the states before and after\<close>

lemma rel_pure: "reflp R \<Longrightarrow> state_io_rel R (pure x)"
  by (auto intro!: state_io_relI dest: reflpD)

lemma rel_bind:
  assumes "transp R" and "state_io_rel R m" and "\<And>x. state_io_rel R (f x)"
  shows "state_io_rel R (do { x \<leftarrow> m; f x })"
proof (rule state_io_relI)
  fix a s s'
  assume "run_state (do { x \<leftarrow> m; f x }) s = (a, s')"
  then obtain b t where "run_state m s = (b, t)" "run_state (f b) t = (a, s')"
    by (auto split: prod.splits)
  then have "R s t" "R t s'" using assms(2,3) by (auto dest: state_io_relD)
  then show "R s s'" by (rule transpD [OF assms(1)])
qed

lemma rel_attempt:
  "reflp R \<Longrightarrow> transp R \<Longrightarrow> state_io_rel R m \<Longrightarrow> (\<And>x. state_io_rel R (f x)) \<Longrightarrow> state_io_rel R (attempt m f)"
  unfolding attempt_def by (rule rel_bind) (auto simp: rel_pure split: sum.splits)

lemma rel_map_io: "reflp R \<Longrightarrow> transp R \<Longrightarrow> state_io_rel R m \<Longrightarrow> state_io_rel R (map_io f m)"
  unfolding map_io_def by (rule rel_bind) (auto simp: rel_pure)

end
