(* ===== verification/Targets.thy ===== *)
theory Targets
  imports Selection Effects
begin

text \<open>
  From a command's target to the sessions it acts on: \<open>src/session/target/input.rs\<close>,
  \<open>stable_id.rs\<close>, \<open>stop.rs\<close>, \<open>restart.rs\<close> and \<open>health.rs\<close>. The host (existing paths, canonical paths,
  git) is a record read when a target is resolved; a discovery closure is an effectful operation that
  runs only where the code calls it. Paths are UTF-8.
\<close>

section \<open>\<open>input.rs\<close>\<close>

record target_host = host_fs +
  path_exists :: "path \<Rightarrow> bool"

datatype session_target_input = CliTarget path | StableIdInput string

fun target_display :: "session_target_input \<Rightarrow> string" where
  "target_display (CliTarget p) = p"
| "target_display (StableIdInput sid) = sid"

datatype resolved_session_target =
    ResolvedGitRoot path
  | ExactStoredGitRootPath path
  | ResolvedStableId string

definition classify_missing_cli_session_target :: "path \<Rightarrow> resolved_session_target res" where
  "classify_missing_cli_session_target tgt =
     (if is_absolute tgt then Ok (ExactStoredGitRootPath tgt) else Ok (ResolvedStableId tgt))"

definition resolve_cli_session_target ::
  "(string \<Rightarrow> digest) \<Rightarrow> target_host \<Rightarrow> path \<Rightarrow> resolved_session_target res" where
  "resolve_cli_session_target sha host tgt =
     (if path_exists host tgt
      then map_ok (\<lambda>w. ResolvedGitRoot (canonical_git_root w))
             (resolve_workspace_identity sha (host_fs.truncate host) tgt)
      else classify_missing_cli_session_target tgt)"

fun resolve_target ::
  "(string \<Rightarrow> digest) \<Rightarrow> target_host \<Rightarrow> session_target_input \<Rightarrow> resolved_session_target res" where
  "resolve_target sha host (CliTarget p) = resolve_cli_session_target sha host p"
| "resolve_target sha host (StableIdInput pre) = Ok (ResolvedStableId pre)"

section \<open>\<open>stable_id.rs\<close>\<close>

record stable_id_target_selection =
  sts_id :: string
  sts_sessions :: "session_record list"

datatype stable_id_target_action = StopAction | RestartAction

fun verb :: "stable_id_target_action \<Rightarrow> string" where
  "verb StopAction = ''stop''"
| "verb RestartAction = ''restart''"

fun safety_verb :: "stable_id_target_action \<Rightarrow> string" where
  "safety_verb StopAction = ''stopped''"
| "safety_verb RestartAction = ''restarted''"

definition has_duplicate_sessions :: "stable_id_target_selection \<Rightarrow> bool" where
  "has_duplicate_sessions t \<longleftrightarrow> 1 < length (sts_sessions t)"

text \<open>\<open>sort\<close> and \<open>dedup\<close> of paths compare their components; what is kept of equal paths is the
  first one in the stable order.\<close>

fun dedup_paths :: "path list \<Rightarrow> path list" where
  "dedup_paths [] = []"
| "dedup_paths [p] = [p]"
| "dedup_paths (p # q # ps) =
     (if path_eq p q then dedup_paths (p # ps) else p # dedup_paths (q # ps))"

definition recoverable_git_roots :: "session_record list \<Rightarrow> path list" where
  "recoverable_git_roots sessions = dedup_paths (sort_key components (filter_map sr_git_root sessions))"

definition no_recoverable_git_root_error :: "string \<Rightarrow> stable_id_target_action \<Rightarrow> error" where
  "no_recoverable_git_root_error sid action = msg [''agentbox container id '', tick sid,
     '' cannot be '', safety_verb action,
     '' safely because no matched container has a recoverable git-root label'']"

definition single_recoverable_git_root ::
  "stable_id_target_selection \<Rightarrow> stable_id_target_action \<Rightarrow> path res" where
  "single_recoverable_git_root t action =
     (case recoverable_git_roots (sts_sessions t) of
        [] \<Rightarrow> Err (no_recoverable_git_root_error (sts_id t) action)
      | [root] \<Rightarrow> Ok root
      | _ \<Rightarrow> Err (msg [''agentbox container id '', tick (sts_id t),
          '' matches containers with multiple git roots; cannot '', verb action, '' safely'']))"

definition into_all_rooted_sessions ::
  "stable_id_target_selection \<Rightarrow> stable_id_target_action \<Rightarrow> session_record list res" where
  "into_all_rooted_sessions t action =
     (let rooted = filter (\<lambda>s. sr_git_root s \<noteq> None) (sts_sessions t)
      in if rooted = [] then Err (no_recoverable_git_root_error (sts_id t) action)
         else if length rooted \<noteq> length (sts_sessions t)
         then Err (msg [''agentbox container id '', tick (sts_id t),
           '' includes matched containers without a recoverable git-root label; cannot '', verb action,
           '' them safely''])
         else Ok rooted)"

definition select_agentbox_stable_id_target ::
  "session_record list \<Rightarrow> string \<Rightarrow> stable_id_target_selection res" where
  "select_agentbox_stable_id_target sessions pre =
     map_ok (\<lambda>sel. \<lparr>sts_id = sel_id sel, sts_sessions = sel_sessions sel\<rparr>)
       (select_agentbox_stable_id_prefix sessions pre)"

section \<open>\<open>stop.rs\<close>\<close>

datatype stop_exact_mode = Scoped | ExactStoredPath

record stop_exact_git_root_target =
  se_git_root :: path
  se_mode :: stop_exact_mode

record stop_stable_id_target =
  ss_id :: string
  ss_sessions :: "session_record list"
  ss_has_duplicates :: bool

datatype stop_session_target_plan =
    StopExactGitRoot stop_exact_git_root_target
  | StopStableId stop_stable_id_target

definition resolve_stop_plan ::
  "(string \<Rightarrow> digest) \<Rightarrow> ('w, target_host) io \<Rightarrow> session_target_input \<Rightarrow> ('w, session_record list res) io
     \<Rightarrow> ('w, stop_session_target_plan res) io" where
  "resolve_stop_plan sha host tgt discover = do {
     fs \<leftarrow> host;
     attempt (pure (resolve_target sha fs tgt)) (\<lambda>r.
       case r of
         ResolvedGitRoot root \<Rightarrow> pure (Ok (StopExactGitRoot \<lparr>se_git_root = root, se_mode = Scoped\<rparr>))
       | ExactStoredGitRootPath root \<Rightarrow>
           pure (Ok (StopExactGitRoot \<lparr>se_git_root = root, se_mode = ExactStoredPath\<rparr>))
       | ResolvedStableId pre \<Rightarrow>
           attempt discover (\<lambda>sessions. pure
             (and_then (select_agentbox_stable_id_target sessions pre) (\<lambda>sel.
              and_then (into_all_rooted_sessions sel StopAction) (\<lambda>rooted.
                Ok (StopStableId \<lparr>ss_id = sts_id sel, ss_sessions = rooted,
                    ss_has_duplicates = has_duplicate_sessions sel\<rparr>)))))) }"

fun target_ref :: "stop_exact_git_root_target \<Rightarrow> string" where
  "target_ref t = (case se_mode t of
      Scoped \<Rightarrow> tick (se_git_root t)
    | ExactStoredPath \<Rightarrow> format [''exact stored git-root path '', tick (se_git_root t)])"

definition uses_locked_root_scope :: "stop_exact_git_root_target \<Rightarrow> bool" where
  "uses_locked_root_scope t \<longleftrightarrow> se_mode t = Scoped"

definition exact_matches_from ::
  "stop_exact_git_root_target \<Rightarrow> session_record list \<Rightarrow> session_record list" where
  "exact_matches_from t sessions = exact_git_root_matches sessions (se_git_root t)"

definition require_non_empty_matches ::
  "stop_exact_git_root_target \<Rightarrow> session_record list \<Rightarrow> unit res" where
  "require_non_empty_matches t sessions =
     (if sessions = [] then Err (msg [''no agentbox container exists for '', target_ref t]) else Ok ())"

definition require_force_for_duplicate_matches ::
  "bool \<Rightarrow> bool \<Rightarrow> string \<Rightarrow> session_target_input \<Rightarrow> unit res" where
  "require_force_for_duplicate_matches dups force tref tgt =
     (if dups \<and> \<not> force
      then Err (msg [''duplicate agentbox containers exist for '', tref, ''; rerun '',
        tick (''agentbox stop --force '' @ target_display tgt), '' to remove all exact matches''])
      else Ok ())"

definition require_force_for_matches ::
  "stop_exact_git_root_target \<Rightarrow> nat \<Rightarrow> bool \<Rightarrow> session_target_input \<Rightarrow> unit res" where
  "require_force_for_matches t n force tgt =
     require_force_for_duplicate_matches (1 < n) force (target_ref t) tgt"

definition require_force :: "stop_stable_id_target \<Rightarrow> bool \<Rightarrow> session_target_input \<Rightarrow> unit res" where
  "require_force t force tgt =
     require_force_for_duplicate_matches (ss_has_duplicates t) force
       (format [''stable id '', tick (ss_id t)]) tgt"

section \<open>\<open>restart.rs\<close>\<close>

record restart_session_target_plan =
  rp_input :: session_target_input
  rp_lock_git_root :: path

definition restart_lock_git_root_for_stable_id_from_sessions ::
  "session_record list \<Rightarrow> string \<Rightarrow> path res" where
  "restart_lock_git_root_for_stable_id_from_sessions sessions pre =
     and_then (select_agentbox_stable_id_target sessions pre) (\<lambda>sel.
       single_recoverable_git_root sel RestartAction)"

definition resolve_restart_plan ::
  "(string \<Rightarrow> digest) \<Rightarrow> ('w, target_host) io \<Rightarrow> session_target_input \<Rightarrow> ('w, session_record list res) io
     \<Rightarrow> ('w, restart_session_target_plan res) io" where
  "resolve_restart_plan sha host tgt discover = do {
     fs \<leftarrow> host;
     attempt (pure (resolve_target sha fs tgt)) (\<lambda>r.
     attempt (case r of
         ResolvedGitRoot root \<Rightarrow> pure (Ok root)
       | ExactStoredGitRootPath root \<Rightarrow> pure (Ok root)
       | ResolvedStableId pre \<Rightarrow> attempt discover (\<lambda>sessions.
           pure (restart_lock_git_root_for_stable_id_from_sessions sessions pre))) (\<lambda>root.
       pure (Ok \<lparr>rp_input = tgt, rp_lock_git_root = root\<rparr>))) }"

definition require_locked_restart_target_unchanged :: "path \<Rightarrow> path \<Rightarrow> unit res" where
  "require_locked_restart_target_unchanged locked current =
     (if path_eq locked current then Ok ()
      else Err (msg [''restart target changed from '', tick locked, '' to '', tick current,
        '' while waiting for the workspace lock; retry the command'']))"

definition require_stable_id_still_matches_locked_root ::
  "path \<Rightarrow> session_record list \<Rightarrow> unit res" where
  "require_stable_id_still_matches_locked_root locked sessions =
     (if list_ex (\<lambda>s. root_is s locked) sessions then Ok ()
      else Err (msg [''restart target changed away from '', tick locked,
        '' while waiting for the workspace lock; retry the command'']))"

definition require_single_restart_target_match ::
  "session_record list \<Rightarrow> session_target_input \<Rightarrow> session_record res" where
  "require_single_restart_target_match sessions tgt =
     (case sessions of
        [] \<Rightarrow> Err (msg [''no running managed session matches restart target '', tick (target_display tgt)])
      | [s] \<Rightarrow> Ok s
      | _ \<Rightarrow> Err (msg [''restart target '', tick (target_display tgt), '' matches '',
          show_nat (length sessions),
          '' agentbox containers; restart requires exactly one running managed session. Clean up duplicates with '',
          tick (''agentbox stop --force '' @ target_display tgt), '' before retrying.'']))"

definition matching_sessions ::
  "(string \<Rightarrow> digest) \<Rightarrow> ('w, target_host) io \<Rightarrow> restart_session_target_plan \<Rightarrow> path
     \<Rightarrow> ('w, session_record list res) io \<Rightarrow> ('w, session_record list res) io
     \<Rightarrow> ('w, session_record list res) io" where
  "matching_sessions sha host plan locked discover_locked discover_all = do {
     fs \<leftarrow> host;
     attempt (pure (resolve_target sha fs (rp_input plan))) (\<lambda>r.
       case r of
         ResolvedGitRoot root \<Rightarrow>
           attempt (pure (require_locked_restart_target_unchanged locked root)) (\<lambda>_. discover_locked)
       | ExactStoredGitRootPath root \<Rightarrow>
           attempt (pure (require_locked_restart_target_unchanged locked root)) (\<lambda>_.
             map_io (map_ok (\<lambda>ss. exact_git_root_matches ss root)) discover_all)
       | ResolvedStableId pre \<Rightarrow>
           attempt discover_all (\<lambda>ss. pure
             (and_then (select_agentbox_stable_id_target ss pre) (\<lambda>sel.
              and_then (require_stable_id_still_matches_locked_root locked (sts_sessions sel)) (\<lambda>_.
                Ok (sts_sessions sel)))))) }"

definition select_session_candidate ::
  "(string \<Rightarrow> digest) \<Rightarrow> ('w, target_host) io \<Rightarrow> restart_session_target_plan \<Rightarrow> path
     \<Rightarrow> ('w, session_record list res) io \<Rightarrow> ('w, session_record list res) io
     \<Rightarrow> ('w, session_record res) io" where
  "select_session_candidate sha host plan locked discover_locked discover_all =
     attempt (matching_sessions sha host plan locked discover_locked discover_all) (\<lambda>ss.
       pure (require_single_restart_target_match ss (rp_input plan)))"

section \<open>\<open>health.rs\<close>\<close>

datatype health_session_target_plan =
    RunningSessions
  | StableIdPrefix string
  | WorkspaceTarget path

definition health_plan_from_target ::
  "(string \<Rightarrow> digest) \<Rightarrow> target_host \<Rightarrow> string option \<Rightarrow> health_session_target_plan res" where
  "health_plan_from_target sha host tgt =
     (case tgt of
        Some t \<Rightarrow>
          if path_exists host t
          then map_ok (\<lambda>w. WorkspaceTarget (canonical_git_root w))
                 (resolve_workspace_identity sha (host_fs.truncate host) t)
          else Ok (StableIdPrefix t)
      | None \<Rightarrow> Ok RunningSessions)"

definition not_probed_error :: "session_record \<Rightarrow> string \<Rightarrow> error" where
  "not_probed_error s fallback = msg [''managed session '', tick (unwrap_or (stable_id s) fallback),
     '' is '', tick (status_str (status s)), ''; health only probes running sessions'']"

definition single_workspace_match :: "path \<Rightarrow> session_record list \<Rightarrow> session_record option res" where
  "single_workspace_match root matches =
     (case matches of
        [] \<Rightarrow> Ok None
      | [s] \<Rightarrow> Ok (Some s)
      | _ \<Rightarrow> Err (msg [''workspace target '', tick root,
          '' matches multiple managed sessions; health requires a single running session'']))"

definition select_workspace_health_session ::
  "session_record list \<Rightarrow> path \<Rightarrow> session_record list res" where
  "select_workspace_health_session sessions root =
     and_then (single_workspace_match root (filter (\<lambda>s. root_is s root) sessions)) (\<lambda>found.
       case found of
         None \<Rightarrow> Err (msg [''no running managed session matches target '', tick root])
       | Some s \<Rightarrow> if \<not> is_running s then Err (not_probed_error s root) else Ok [s])"

definition select_stable_id_health_session ::
  "session_record list \<Rightarrow> string \<Rightarrow> session_record list res" where
  "select_stable_id_health_session sessions pre =
     and_then (select_stable_id_prefix sessions pre) (\<lambda>sel.
       case into_single_session sel of
         None \<Rightarrow> Err (msg [''stable id '', tick (sel_id sel),
           '' matches multiple managed sessions; health requires a single running session''])
       | Some s \<Rightarrow> if \<not> is_running s then Err (not_probed_error s (sel_id sel)) else Ok [s])"

fun select_health_sessions ::
  "health_session_target_plan \<Rightarrow> session_record list \<Rightarrow> session_record list res" where
  "select_health_sessions RunningSessions sessions = Ok (filter is_running sessions)"
| "select_health_sessions (StableIdPrefix pre) sessions = select_stable_id_health_session sessions pre"
| "select_health_sessions (WorkspaceTarget root) sessions = select_workspace_health_session sessions root"

section \<open>What targets resolve to\<close>

lemma root_is_path_eq: "root_is s a \<Longrightarrow> path_eq b a \<Longrightarrow> root_is s b"
  by (auto simp: root_is_def path_eq_def split: option.splits)

lemma require_single_Ok [result_simps]:
  "require_single_restart_target_match ss tgt = Ok s \<longleftrightarrow> ss = [s]"
  by (auto simp: require_single_restart_target_match_def split: list.splits)

lemma require_locked_Ok [result_simps]:
  "require_locked_restart_target_unchanged a b = Ok u \<longleftrightarrow> path_eq a b"
  by (auto simp: require_locked_restart_target_unchanged_def)

text \<open>Health probes only running sessions, whatever the target, and every one it is asked for
  by name comes from the given list.\<close>

lemma health_probes_running_only:
  assumes "select_health_sessions plan sessions = Ok ss" and "s \<in> set ss"
  shows "is_running s \<and> s \<in> set sessions"
proof (cases plan)
  case (StableIdPrefix pre)
  have single: "into_single_session sel = Some t \<longleftrightarrow> sel_sessions sel = [t]" for sel t
    by (auto simp: into_single_session_def split: list.splits)
  obtain sel where sel: "select_stable_id_prefix sessions pre = Ok sel"
      "sel_sessions sel = [s]" "is_running s"
    using assms StableIdPrefix
    by (auto simp: select_stable_id_health_session_def result_simps single
        split: option.splits if_splits)
  then have "[s] = filter (id_matches pre) sessions"
    by (simp add: select_stable_id_prefix_def select_Ok_iff)
  then have "s \<in> set (filter (id_matches pre) sessions)" by (metis list.set_intros(1))
  then show ?thesis using sel(3) by simp
next
  case (WorkspaceTarget root)
  have one: "single_workspace_match root xs = Ok (Some t) \<longleftrightarrow> xs = [t]" for xs t
    by (auto simp: single_workspace_match_def split: list.splits)
  have "filter (\<lambda>s. root_is s root) sessions = [s]" "is_running s"
    using assms WorkspaceTarget
    by (auto simp: select_workspace_health_session_def result_simps one
        split: option.splits if_splits)
  moreover from this have "s \<in> set sessions"
    by (metis filter_is_subset list.set_intros(1) subsetD)
  ultimately show ?thesis by simp
qed (use assms in auto)

text \<open>Stopping by a stable id acts on all containers that carry one id, each with a
  recoverable git root; unless forced it acts on a single container.\<close>

lemma stop_by_stable_id_safe:
  assumes "run_state (resolve_stop_plan sha host tgt discover) s = (Ok (StopStableId t), s')"
    and "require_force t force tgt = Ok ()"
  shows "\<exists>sessions pre s1. run_state discover s1 = (Ok sessions, s')
     \<and> ss_sessions t \<noteq> [] \<and> ss_sessions t = filter (id_matches pre) sessions
     \<and> filter (\<lambda>s. stable_id s \<noteq> Some (ss_id t) \<or> sr_git_root s = None) (ss_sessions t) = []
     \<and> (length (ss_sessions t) = 1 \<or> force)"
proof -
  obtain fs s1 r where r: "run_state host s = (fs, s1)" "resolve_target sha fs tgt = Ok r"
    using assms(1) by (auto simp: resolve_stop_plan_def run_attempt split: prod.splits sum.splits)
  then obtain pre where "r = ResolvedStableId pre"
    using assms(1) by (cases r) (auto simp: resolve_stop_plan_def)
  then obtain sessions sel where d: "run_state discover s1 = (Ok sessions, s')"
      "select_agentbox_stable_id_prefix sessions pre = Ok sel"
      "ss_id t = sel_id sel" "ss_has_duplicates t = (1 < length (sel_sessions sel))"
      "into_all_rooted_sessions \<lparr>sts_id = sel_id sel, sts_sessions = sel_sessions sel\<rparr> StopAction
         = Ok (ss_sessions t)"
    using assms(1) r
    by (auto simp: resolve_stop_plan_def select_agentbox_stable_id_target_def result_simps
        has_duplicate_sessions_def)
  let ?rooted = "filter (\<lambda>s. sr_git_root s \<noteq> None) (sel_sessions sel)"
  have rooted: "ss_sessions t = ?rooted" "?rooted \<noteq> []" "length ?rooted = length (sel_sessions sel)"
    using d(5) by (auto simp: into_all_rooted_sessions_def Let_def split: if_splits)
  then have same: "?rooted = sel_sessions sel" by (metis filter_True length_filter_less nat_neq_iff)
  have exact: "sel_sessions sel = filter (id_matches pre) sessions"
    using d(2) by (simp add: select_agentbox_stable_id_prefix_def select_Ok_iff)
  have "filter (\<lambda>s. stable_id s \<noteq> Some (ss_id t) \<or> sr_git_root s = None) (sel_sessions sel) = []"
    using select_agentbox_Ok [OF d(2)] d(3) same by (auto simp: filter_empty_conv filter_id_conv)
  moreover have "length (sel_sessions sel) = 1 \<or> force"
    using assms(2) rooted(2) same d(4)
    by (cases "sel_sessions sel") (auto simp: require_force_def require_force_for_duplicate_matches_def
        split: if_splits)
  ultimately show ?thesis using rooted same exact d(1) by (metis (no_types, lifting))
qed

text \<open>A restart's candidate is rooted at the locked root, or the discovery scoped to that root
  returned it.\<close>

lemma candidate_of_locked_root:
  assumes "run_state (select_session_candidate sha host plan locked discover_locked discover_all) s = (Ok c, s')"
  shows "root_is c locked \<or> (\<exists>s1. run_state discover_locked s1 = (Ok [c], s'))"
proof -
  have m: "run_state (matching_sessions sha host plan locked discover_locked discover_all) s = (Ok [c], s')"
    using assms by (auto simp: select_session_candidate_def result_simps)
  then obtain fs s1 r where r: "run_state host s = (fs, s1)" "resolve_target sha fs (rp_input plan) = Ok r"
    by (auto simp: matching_sessions_def run_attempt split: prod.splits sum.splits)
  show ?thesis
  proof (cases r)
    case (ResolvedGitRoot root)
    then have "run_state discover_locked s1 = (Ok [c], s')"
      using m r by (auto simp: matching_sessions_def result_simps)
    then show ?thesis by blast
  next
    case (ExactStoredGitRootPath root)
    then have "path_eq locked root" "\<exists>xs. [c] = exact_git_root_matches xs root"
      using m r by (auto simp: matching_sessions_def result_simps) (metis map_ok_eq_Ok)
    moreover have "[c] = exact_git_root_matches xs root \<Longrightarrow> root_is c root" for xs
      by (metis (no_types, lifting) exact_git_root_matches_def filter_eq_ConsD)
    ultimately show ?thesis using root_is_path_eq by blast
  next
    case (ResolvedStableId pre)
    then show ?thesis
      using m r by (auto simp: matching_sessions_def result_simps
          require_stable_id_still_matches_locked_root_def split: if_splits)
  qed
qed

end
