(* ===== verification/Samples.thy ===== *)
theory Samples
  imports Discovery
begin

text \<open>
  Small concrete hosts, containers and digests, at which the conditional properties of the
  development are instantiated.
\<close>

lemma digest_bytes_zero: "digest_bytes 0 = replicate 32 0"
  by (simp add: digest_bytes_def map_replicate_const)

lemma git_root_hash12_zero [simp]: "git_root_hash12 (\<lambda>_. 0) root = replicate 12 CHR ''0''"
  by (simp add: git_root_hash12_def git_root_digest_def sha256_bytes_def digest_bytes_zero
      hex_prefix_def hex_lower_def hex_byte_def hex_table_def GIT_ROOT_HASH_LEN_def
      numeral_eq_Suc)

lemma zeros_not_blank [simp]: "\<not> blank (replicate 12 CHR ''0'')"
  using git_root_hash12_not_blank [of "\<lambda>_. 0"] unfolding git_root_hash12_zero by simp

definition sample_container :: "labels \<Rightarrow> podman_ps_container" where
  "sample_container m = \<lparr>ps_id = ''c1'', ps_names = None, ps_labels = m\<rparr>"

text \<open>A host where every path is canonical and a git root.\<close>

definition sample_probe :: git_root_probe where
  "sample_probe = \<lparr>gp_canonicalize = Some, gp_is_directory = (\<lambda>_. True),
     gp_has_git_marker = (\<lambda>_. True), gp_rev_parse_show_toplevel = Some\<rparr>"

definition sample_inspect :: "labels \<Rightarrow> podman_container_inspect" where
  "sample_inspect m = \<lparr>insp_id = ''c1'', insp_image_name = ''i'', insp_running = True,
     insp_status = ''running'', insp_exit_code = 0, insp_labels = m, insp_mounts = [],
     insp_network = \<lparr>ns_ports = []\<rparr>\<rparr>"

lemma sample_fields [simp]:
  "ps_labels (sample_container m) = m" "ps_id (sample_container m) = ''c1''"
  "insp_labels (sample_inspect m) = m"
  by (simp_all add: sample_container_def sample_inspect_def)

definition run_marker :: labels where
  "run_marker = [(LABEL_CONTAINER_KIND, LABEL_CONTAINER_KIND_TRANSIENT_RUN_VALUE)]"

definition run_marker_hash :: labels where
  "run_marker_hash = [(LABEL_CONTAINER_KIND, LABEL_CONTAINER_KIND_TRANSIENT_RUN_VALUE),
     (LABEL_GIT_ROOT_HASH, replicate 12 CHR ''0'')]"

definition root_labels :: "path \<Rightarrow> labels" where
  "root_labels root = [(LABEL_GIT_ROOT, root), (LABEL_GIT_ROOT_HASH, replicate 12 CHR ''0'')]"

lemma run_marker_label [simp]: "label run_marker n =
   (if n = LABEL_CONTAINER_KIND then Some LABEL_CONTAINER_KIND_TRANSIENT_RUN_VALUE else None)"
  by (simp add: run_marker_def required_label_value_def bt_get_def)

lemma run_marker_hash_label [simp]: "label run_marker_hash n =
   (if n = LABEL_CONTAINER_KIND then Some LABEL_CONTAINER_KIND_TRANSIENT_RUN_VALUE
    else if n = LABEL_GIT_ROOT_HASH then Some (replicate 12 CHR ''0'') else None)"
  by (auto simp: run_marker_hash_def required_label_value_def bt_get_def)

lemma root_labels_label [simp]: "is_absolute root \<Longrightarrow> label (root_labels root) n =
   (if n = LABEL_GIT_ROOT then Some root
    else if n = LABEL_GIT_ROOT_HASH then Some (replicate 12 CHR ''0'') else None)"
  by (auto simp: root_labels_def required_label_value_def bt_get_def is_absolute_not_blank)

lemma kind_of_run_markers [simp]:
  "agentbox_container_kind_from_labels run_marker = Some Run"
  "agentbox_container_kind_from_labels run_marker_hash = Some Run"
  by (simp_all add: agentbox_container_kind_from_labels_def)

lemma sample_absolute [simp]: "is_absolute (CHR ''/'' # p)"
  by (simp add: is_absolute_Cons)

lemmas sample_query_simps =
  discover_sessions_def ps_candidate_def new_collector_def scope_for_git_root_def
  collect_session_def classify_session_def root_is_def sr_git_root_def md_canonical_git_root_def
  path_eq_def finish_collector_def mark_duplicate_sessions_def sort_dedup_def

lemma sample_query:
  obtains s where "discover_sessions (\<lambda>_. 0) sample_probe
     (\<lambda>_. Ok (sample_inspect (root_labels ''/w''))) (scope_for_git_root (\<lambda>_. 0) ''/w'') AgentboxOwned
     [sample_container run_marker] = Ok [s]"
proof -
  have "metadata (build_session_record sha probe c i kind) = insp_labels i" for sha probe c i kind
    by (simp add: build_session_record_def Let_def)
  then show thesis using that by (simp add: sample_query_simps)
qed

lemma sample_query_all:
  obtains s where "discover_sessions (\<lambda>_. 0) sample_probe
     (\<lambda>_. Ok (sample_inspect (root_labels ''/w''))) AllSessions AgentboxOwned
     [sample_container run_marker] = Ok [s]"
  using that by (simp add: sample_query_simps)

end
