(* ===== verification/DiscoveryLaws.thy ===== *)
theory DiscoveryLaws
  imports Samples
begin

text \<open>
  What the discovery of sessions guarantees: when a container counts as a running session, what a
  query returns and leaves out, when it fails, and that a container created with the labels of
  \<open>managed_session_labels\<close> is found again as a running session.
\<close>

section \<open>Status\<close>

lemma derive_attach_endpoint_Ok [status_simps]:
  "derive_attach_endpoint al i = Inr e \<longleftrightarrow>
     published_attach_endpoint (insp_network i) (al_attach al) = Inr (Some e)"
  by (auto simp: derive_attach_endpoint_def result_simps)

lemma endpoint_report_Ok [status_simps]:
  "endpoint_report (label_report_from_metadata sha m) i = Inr e \<longleftrightarrow>
     (\<exists>al. attach_from_session_labels m = Inr al
        \<and> published_attach_endpoint (insp_network i) (al_attach al) = Inr (Some e))"
  by (auto simp: endpoint_report_def report_attach_labels_def label_report_from_metadata_def Let_def
      result_simps derive_attach_endpoint_Ok)

lemma derive_status_Running:
  "derive_status probe report endpoint running mounts = Running \<longleftrightarrow>
     (\<exists>r e. rep_required report = Inr r \<and> endpoint = Inr e
        \<and> has_volume_mount_destination mounts NIX_CACHE_DESTINATION \<and> running
        \<and> \<not> git_root_is_orphaned probe (id_git_root (rq_identity r)))"
  by (auto simp: derive_status_def result_simps split: sum.splits option.splits)

lemma derive_status_Orphaned:
  "derive_status probe report endpoint running mounts = Orphaned \<longleftrightarrow>
     (\<exists>r e. rep_required report = Inr r \<and> endpoint = Inr e
        \<and> has_volume_mount_destination mounts NIX_CACHE_DESTINATION \<and> running
        \<and> git_root_is_orphaned probe (id_git_root (rq_identity r)))"
  by (auto simp: derive_status_def result_simps split: sum.splits option.splits)

lemma build_session_record_fields [simp]:
  "metadata (build_session_record sha probe c i kind) = insp_labels i"
  "container_kind (build_session_record sha probe c i kind) = kind"
  "container_id (build_session_record sha probe c i kind) = ps_id c"
  "container_running (build_session_record sha probe c i kind) = insp_running i"
  "sr_container_name (build_session_record sha probe c i kind) = inspected_container_name c"
  "sr_attach_endpoint (build_session_record sha probe c i kind) =
     ok_of (endpoint_report (label_report_from_metadata sha (insp_labels i)) i)"
  "status (build_session_record sha probe c i kind) =
     derive_status probe (label_report_from_metadata sha (insp_labels i))
       (endpoint_report (label_report_from_metadata sha (insp_labels i)) i)
       (insp_running i) (insp_mounts i)"
  by (simp_all add: build_session_record_def Let_def)

lemma running_session_facts:
  "status (build_session_record sha probe c i kind) = Running \<longleftrightarrow>
    (\<exists>root launch k port_text e.
       require_agentbox_container_marker (insp_labels i) = Inr ()
     \<and> label (insp_labels i) LABEL_GIT_ROOT = Some root
     \<and> label (insp_labels i) LABEL_GIT_ROOT_HASH = Some (git_root_hash12 sha root)
     \<and> label (insp_labels i) LABEL_IMAGE \<noteq> None
     \<and> label (insp_labels i) LABEL_LOGICAL_NAME \<noteq> None
     \<and> label (insp_labels i) LABEL_LAUNCH_DIRECTORY = Some launch
     \<and> is_absolute launch \<and> path_is_or_descendant launch root
     \<and> label (insp_labels i) LABEL_RUNTIME = Some (runtime_str k)
     \<and> label (insp_labels i) LABEL_ATTACH_SCHEME = Some (as_scheme (runtime_attach_spec k))
     \<and> label (insp_labels i) LABEL_CONTAINER_PORT = Some port_text
     \<and> parse_u16 port_text = Some (container_port (runtime_attach_spec k))
     \<and> label (insp_labels i) LABEL_CONTAINER_LISTEN_IP =
         Some (container_listen_ip (runtime_attach_spec k))
     \<and> published_attach_endpoint (insp_network i) (runtime_attach_spec k) = Ok (Some e)
     \<and> has_volume_mount_destination (insp_mounts i) NIX_CACHE_DESTINATION
     \<and> insp_running i
     \<and> \<not> git_root_is_orphaned probe root)"
proof -
  let ?m = "insp_labels i"
  have required: "rep_required (label_report_from_metadata sha ?m) = Inr r \<longleftrightarrow>
      require_agentbox_container_marker ?m = Inr ()
     \<and> label ?m LABEL_GIT_ROOT = Some (id_git_root (rq_identity r))
     \<and> label ?m LABEL_GIT_ROOT_HASH = Some (id_git_root_hash (rq_identity r))
     \<and> id_git_root_hash (rq_identity r) = git_root_hash12 sha (id_git_root (rq_identity r))
     \<and> label ?m LABEL_IMAGE \<noteq> None \<and> label ?m LABEL_LOGICAL_NAME \<noteq> None
     \<and> label ?m LABEL_LAUNCH_DIRECTORY = Some (rq_launch_directory r)
     \<and> is_absolute (rq_launch_directory r)
     \<and> path_is_or_descendant (rq_launch_directory r) (id_git_root (rq_identity r))" for r
    by (auto simp: label_report_from_metadata_def Let_def status_simps launch_directory_is_valid_def)
  show ?thesis (is "?L \<longleftrightarrow> ?R")
  proof
    assume ?L
    then show ?R
      by (auto simp: derive_status_Running required endpoint_report_Ok attach_from_session_labels_Ok
          simp del: Let_def) blast
  next
    assume ?R
    then obtain root launch k t e where h:
      "require_agentbox_container_marker ?m = Inr ()" "label ?m LABEL_GIT_ROOT = Some root"
      "label ?m LABEL_GIT_ROOT_HASH = Some (git_root_hash12 sha root)"
      "label ?m LABEL_IMAGE \<noteq> None" "label ?m LABEL_LOGICAL_NAME \<noteq> None"
      "label ?m LABEL_LAUNCH_DIRECTORY = Some launch" "is_absolute launch"
      "path_is_or_descendant launch root" "label ?m LABEL_RUNTIME = Some (runtime_str k)"
      "label ?m LABEL_ATTACH_SCHEME = Some (as_scheme (runtime_attach_spec k))"
      "label ?m LABEL_CONTAINER_PORT = Some t"
      "parse_u16 t = Some (container_port (runtime_attach_spec k))"
      "label ?m LABEL_CONTAINER_LISTEN_IP = Some (container_listen_ip (runtime_attach_spec k))"
      "published_attach_endpoint (insp_network i) (runtime_attach_spec k) = Ok (Some e)"
      "has_volume_mount_destination (insp_mounts i) NIX_CACHE_DESTINATION" "insp_running i"
      "\<not> git_root_is_orphaned probe root" by blast
    let ?r = "\<lparr>rq_identity = \<lparr>id_git_root = root, id_git_root_hash = git_root_hash12 sha root\<rparr>,
        rq_launch_directory = launch\<rparr>"
    have "rep_required (label_report_from_metadata sha ?m) = Inr ?r" using h by (simp add: required)
    moreover have "endpoint_report (label_report_from_metadata sha ?m) i = Inr e"
      using h by (auto simp: endpoint_report_Ok attach_from_session_labels_Ok)
    ultimately show ?L using h by (simp add: derive_status_Running)
  qed
qed

text \<open>C1: a container counts as a running session exactly when its labels carry a complete and
  consistent identity (marker, git root, and the hash of that very root), the launch metadata with
  an absolute launch directory inside the root, the attach labels the runtime prescribes, and
  Podman publishes the runtime's attach port, mounts the cache volume and reports it running, and
  the git root still exists on the host.\<close>

theorem running_session_iff:
  "status (build_session_record sha probe c i kind) = Running \<longleftrightarrow>
    (\<exists>root launch k port_text e.
       require_agentbox_container_marker (insp_labels i) = Inr ()
     \<and> label (insp_labels i) LABEL_GIT_ROOT = Some root
     \<and> label (insp_labels i) LABEL_GIT_ROOT_HASH = Some (git_root_hash12 sha root)
     \<and> label (insp_labels i) LABEL_IMAGE \<noteq> None
     \<and> label (insp_labels i) LABEL_LOGICAL_NAME \<noteq> None
     \<and> label (insp_labels i) LABEL_LAUNCH_DIRECTORY = Some launch
     \<and> is_absolute launch \<and> path_is_or_descendant launch root
     \<and> label (insp_labels i) LABEL_RUNTIME = Some (runtime_str k)
     \<and> label (insp_labels i) LABEL_ATTACH_SCHEME = Some (as_scheme (runtime_attach_spec k))
     \<and> label (insp_labels i) LABEL_CONTAINER_PORT = Some port_text
     \<and> parse_u16 port_text = Some (container_port (runtime_attach_spec k))
     \<and> label (insp_labels i) LABEL_CONTAINER_LISTEN_IP =
         Some (container_listen_ip (runtime_attach_spec k))
     \<and> published_attach_endpoint (insp_network i) (runtime_attach_spec k) = Ok (Some e)
     \<and> has_volume_mount_destination (insp_mounts i) NIX_CACHE_DESTINATION
     \<and> insp_running i
     \<and> \<not> git_root_is_orphaned probe root)"
  by (rule running_session_facts)

section \<open>What the loop collects\<close>

definition inspected_as ::
  "(string \<Rightarrow> digest) \<Rightarrow> git_root_probe \<Rightarrow> (string \<Rightarrow> podman_container_inspect res)
     \<Rightarrow> podman_ps_container \<times> container_kind \<Rightarrow> session_record \<Rightarrow> bool" where
  "inspected_as sha probe inspect ck r \<longleftrightarrow>
     (case inspect (ps_id (fst ck)) of
        Inl _ \<Rightarrow> False
      | Inr i \<Rightarrow> r = build_session_record sha probe (fst ck) i (snd ck))"

lemma inspected_as_Pair:
  "inspected_as sha probe inspect (c, kind) r \<longleftrightarrow>
     (\<exists>i. inspect (ps_id c) = Ok i \<and> r = build_session_record sha probe c i kind)"
  by (auto simp: inspected_as_def split: sum.splits)

lemma sc_scope_collect [simp]: "sc_scope (collect_session s col) = sc_scope col"
  by (auto simp: collect_session_def split: session_discovery_scope.splits scoped_session_candidate.splits)

lemma sc_scope_fold [simp]: "sc_scope (fold collect_session rs col) = sc_scope col"
  by (induction rs arbitrary: col) simp_all

lemma discover_loop_Ok:
  "discover_loop sha probe inspect cs col = Ok col' \<Longrightarrow>
     \<exists>rs. col' = fold collect_session rs col
       \<and> list_all2 (inspected_as sha probe inspect)
           (filter (\<lambda>ck. should_inspect_ps_candidate (sc_scope col) (fst ck)) cs) rs"
proof (induction sha probe inspect cs col rule: discover_loop.induct)
  case (2 sha probe inspect c kind cs col)
  show ?case
  proof (cases "should_inspect_ps_candidate (sc_scope col) c")
    case True
    then obtain i where i: "inspect (ps_id c) = Ok i"
        "discover_loop sha probe inspect cs
           (collect_session (build_session_record sha probe c i kind) col) = Ok col'"
      using "2.prems" by (auto simp: result_simps)
    obtain rs where "col' = fold collect_session rs
          (collect_session (build_session_record sha probe c i kind) col)"
        "list_all2 (inspected_as sha probe inspect)
           (filter (\<lambda>ck. should_inspect_ps_candidate (sc_scope col) (fst ck)) cs) rs"
      using "2.IH"(2) [of i] True i by auto
    then show ?thesis
      using True i
      by (intro exI [of _ "build_session_record sha probe c i kind # rs"])
        (simp add: inspected_as_Pair)
  next
    case False
    then show ?thesis using "2.IH"(1) "2.prems" by simp
  qed
qed (rule exI [of _ "[]"], simp)

lemma fold_collect_all:
  "sc_scope col = AllSessions \<Longrightarrow>
     fold collect_session rs col = col\<lparr>sc_sessions := sc_sessions col @ rs\<rparr>"
  by (induction rs arbitrary: col) (auto simp: collect_session_def)

lemma fold_collect_git_root:
  "sc_scope col = GitRoot g \<Longrightarrow>
     sc_sessions (fold collect_session rs col) =
       sc_sessions col @ filter (\<lambda>r. classify_session g r = Match r) rs
   \<and> sc_mismatched_roots (fold collect_session rs col) =
       sc_mismatched_roots col @
         filter_map (\<lambda>r. case classify_session g r of Collision root \<Rightarrow> Some root | _ \<Rightarrow> None) rs"
proof (induction rs arbitrary: col)
  case (Cons r rs)
  have "classify_session g r = Match q \<Longrightarrow> q = r" for q
    by (auto simp: classify_session_def Let_def split: if_splits option.splits)
  then show ?case
    using Cons.IH [of "collect_session r col"] Cons.prems
    by (auto simp: collect_session_def split: scoped_session_candidate.splits)
qed simp

lemma classify_session_Match:
  "classify_session g r = Match r \<longleftrightarrow>
     root_is r (gs_root g) \<or> (sr_git_root r = None \<and> stable_id r = Some (gs_hash g))"
  by (auto simp: classify_session_def Let_def root_is_def split: option.splits)

lemma classify_session_Collision:
  "classify_session g r = Collision root \<longleftrightarrow>
     sr_git_root r = Some root \<and> \<not> path_eq root (gs_root g) \<and> stable_id r = Some (gs_hash g)"
  by (auto simp: classify_session_def Let_def root_is_def split: option.splits)


section \<open>What a query returns\<close>

lemma filter_map_ps_candidate:
  "(c, kind) \<in> set (filter_map (ps_candidate scope) cs) \<longleftrightarrow>
     c \<in> set cs \<and> agentbox_container_kind_from_labels (ps_labels c) = Some kind
       \<and> scope_includes scope kind"
  by (auto simp: set_filter_map ps_candidate_def split: option.splits if_splits)

lemma finish_collector_Ok:
  "finish_collector col = Ok ss \<longleftrightarrow>
     ss = mark_duplicate_sessions (sc_sessions col)
     \<and> (\<forall>g. sc_scope col = GitRoot g \<longrightarrow> sc_mismatched_roots col = [])"
  by (auto simp: finish_collector_def Let_def split: session_discovery_scope.splits)

lemma length_mark_duplicate_sessions [simp]:
  "length (mark_duplicate_sessions ss) = length ss"
  by (simp add: mark_duplicate_sessions_def)

lemma set_mark_duplicate_sessions:
  "t \<in> set (mark_duplicate_sessions ss) \<Longrightarrow> \<exists>s \<in> set ss. t = s \<or> t = mark_duplicate s"
  by (auto simp: mark_duplicate_sessions_def mark_if_duplicate_alt)

lemma discover_sessions_Ok:
  assumes "discover_sessions sha probe inspect scope cscope containers = Ok ss"
  obtains rs where
    "list_all2 (inspected_as sha probe inspect)
       (filter (\<lambda>ck. should_inspect_ps_candidate scope (fst ck))
         (filter_map (ps_candidate cscope) containers)) rs"
    "finish_collector (fold collect_session rs (new_collector scope)) = Ok ss"
proof -
  obtain col where
    "discover_loop sha probe inspect (filter_map (ps_candidate cscope) containers) (new_collector scope)
       = Ok col" "finish_collector col = Ok ss"
    using assms by (auto simp: discover_sessions_def result_simps)
  then show thesis
    using discover_loop_Ok that by (fastforce simp: new_collector_def)
qed

lemma root_is_mark_duplicate [simp]: "root_is (mark_duplicate s) root = root_is s root"
  by (simp add: root_is_def)

lemma collected_for_git_root:
  assumes "finish_collector (fold collect_session rs (new_collector (scope_for_git_root sha root))) = Ok ss"
    and "s \<in> set ss"
  obtains r where "r \<in> set rs" "s = r \<or> s = mark_duplicate r"
    "root_is r root \<or> (sr_git_root r = None \<and> stable_id r = Some (git_root_hash12 sha root))"
proof -
  let ?g = "\<lparr>gs_root = root, gs_hash = git_root_hash12 sha root\<rparr>"
  have "ss = mark_duplicate_sessions (filter (\<lambda>r. classify_session ?g r = Match r) rs)"
    using assms(1) fold_collect_git_root [of "new_collector (scope_for_git_root sha root)" ?g rs]
    by (simp add: finish_collector_Ok new_collector_def scope_for_git_root_def)
  then obtain r where "r \<in> set rs" "classify_session ?g r = Match r" "s = r \<or> s = mark_duplicate r"
    using set_mark_duplicate_sessions assms(2) by force
  then show thesis using that by (auto simp: classify_session_Match)
qed

lemma git_root_query_record:
  assumes "discover_sessions sha probe inspect (scope_for_git_root sha root) cscope containers = Ok ss"
    and "s \<in> set ss"
  obtains c kind i r where "c \<in> set containers"
    "agentbox_container_kind_from_labels (ps_labels c) = Some kind" "scope_includes cscope kind"
    "inspect (ps_id c) = Ok i" "r = build_session_record sha probe c i kind"
    "s = r \<or> s = mark_duplicate r"
    "root_is r root \<or> (sr_git_root r = None \<and> stable_id r = Some (git_root_hash12 sha root))"
proof -
  let ?scope = "scope_for_git_root sha root"
  obtain rs where
    rs: "list_all2 (inspected_as sha probe inspect)
           (filter (\<lambda>ck. should_inspect_ps_candidate ?scope (fst ck))
             (filter_map (ps_candidate cscope) containers)) rs"
    and fin: "finish_collector (fold collect_session rs (new_collector ?scope)) = Ok ss"
    using discover_sessions_Ok [OF assms(1)] by blast
  obtain r where r: "r \<in> set rs" "s = r \<or> s = mark_duplicate r"
      "root_is r root \<or> (sr_git_root r = None \<and> stable_id r = Some (git_root_hash12 sha root))"
    using collected_for_git_root [OF fin assms(2)] by metis
  obtain n where n: "n < length rs" "rs ! n = r" using r(1) by (auto simp: in_set_conv_nth)
  obtain c kind where ck: "(c, kind) \<in> set (filter_map (ps_candidate cscope) containers)"
      "inspected_as sha probe inspect (c, kind) r"
    using list_all2_nthD2 [OF rs n(1)] n(2) list_all2_lengthD [OF rs] n(1)
    by (metis (no_types, lifting) filter_is_subset nth_mem subsetD surj_pair)
  then show thesis
    using that r(2,3) by (auto simp: filter_map_ps_candidate inspected_as_Pair)
qed

lemma git_root_query_Ok:
  assumes "discover_sessions sha probe inspect (scope_for_git_root sha root) cscope containers = Ok ss"
  obtains rs where "list_all2 (inspected_as sha probe inspect)
      (filter (\<lambda>ck. should_inspect_ps_candidate (scope_for_git_root sha root) (fst ck))
        (filter_map (ps_candidate cscope) containers)) rs"
    "ss = mark_duplicate_sessions (filter (\<lambda>r. root_is r root
        \<or> (sr_git_root r = None \<and> stable_id r = Some (git_root_hash12 sha root))) rs)"
    "\<forall>r \<in> set rs. \<forall>other. sr_git_root r = Some other \<and> stable_id r = Some (git_root_hash12 sha root)
        \<longrightarrow> path_eq other root"
proof -
  let ?g = "\<lparr>gs_root = root, gs_hash = git_root_hash12 sha root\<rparr>" and ?scope = "scope_for_git_root sha root"
  obtain rs where rs: "list_all2 (inspected_as sha probe inspect)
      (filter (\<lambda>ck. should_inspect_ps_candidate ?scope (fst ck)) (filter_map (ps_candidate cscope) containers)) rs"
    and fin: "finish_collector (fold collect_session rs (new_collector ?scope)) = Ok ss"
    using discover_sessions_Ok [OF assms] by blast
  have "ss = mark_duplicate_sessions (filter (\<lambda>r. classify_session ?g r = Match r) rs)"
    "filter_map (\<lambda>r. case classify_session ?g r of Collision x \<Rightarrow> Some x | _ \<Rightarrow> None) rs = []"
    using fin fold_collect_git_root [of "new_collector ?scope" ?g rs]
    by (simp_all add: finish_collector_Ok new_collector_def scope_for_git_root_def)
  then show thesis
    using that rs by (fastforce simp: classify_session_Match filter_map_eq_Nil classify_session_Collision
        split: scoped_session_candidate.splits)
qed

lemma candidate_inspected:
  assumes "list_all2 (inspected_as sha probe inspect)
      (filter (\<lambda>ck. should_inspect_ps_candidate scope (fst ck)) (filter_map (ps_candidate cscope) containers)) rs"
    and "c \<in> set containers" "agentbox_container_kind_from_labels (ps_labels c) = Some kind"
    and "scope_includes cscope kind" "should_inspect_ps_candidate scope c" "inspect (ps_id c) = Ok i"
  shows "build_session_record sha probe c i kind \<in> set rs"
proof -
  have "(c, kind) \<in> set (filter (\<lambda>ck. should_inspect_ps_candidate scope (fst ck)) (filter_map (ps_candidate cscope) containers))"
    using assms(2-5) by (simp add: filter_map_ps_candidate)
  then obtain r where "r \<in> set rs" "inspected_as sha probe inspect (c, kind) r"
    using assms(1) by (metis in_set_conv_nth list_all2_conv_all_nth)
  then show ?thesis using assms(6) by (auto simp: inspected_as_Pair)
qed

lemma git_root_query_finds:
  assumes "discover_sessions sha probe inspect (scope_for_git_root sha root) cscope containers = Ok ss"
    and c: "c \<in> set containers" and *: "agentbox_container_kind_from_labels (ps_labels c) = Some kind"
      "scope_includes cscope kind" "label (ps_labels c) LABEL_GIT_ROOT_HASH \<in> {None, Some (git_root_hash12 sha root)}"
      "inspect (ps_id c) = Ok i"
  shows "case label (insp_labels i) LABEL_GIT_ROOT of
      None \<Rightarrow> True
    | Some r \<Rightarrow>
        if path_eq r root
        then \<exists>s \<in> set ss. container_id s = ps_id c \<and> container_kind s = kind \<and> metadata s = insp_labels i
        else label (insp_labels i) LABEL_GIT_ROOT_HASH \<noteq> Some (git_root_hash12 sha root)"
proof -
  obtain rs where rs: "list_all2 (inspected_as sha probe inspect)
      (filter (\<lambda>ck. should_inspect_ps_candidate (scope_for_git_root sha root) (fst ck))
        (filter_map (ps_candidate cscope) containers)) rs"
    "ss = mark_duplicate_sessions (filter (\<lambda>r. root_is r root
        \<or> (sr_git_root r = None \<and> stable_id r = Some (git_root_hash12 sha root))) rs)"
    "\<forall>r \<in> set rs. \<forall>other. sr_git_root r = Some other \<and> stable_id r = Some (git_root_hash12 sha root)
        \<longrightarrow> path_eq other root"
    by (rule git_root_query_Ok [OF assms(1)])
  let ?r = "build_session_record sha probe c i kind"
  have r: "?r \<in> set rs"
    by (rule candidate_inspected [OF rs(1) c]) (use * in \<open>auto simp: scope_for_git_root_def\<close>)
  have labels: "sr_git_root ?r = label (insp_labels i) LABEL_GIT_ROOT" "stable_id ?r = label (insp_labels i) LABEL_GIT_ROOT_HASH"
    by (simp_all add: sr_git_root_def stable_id_def md_canonical_git_root_def md_git_root_hash_def)
  have "\<exists>s \<in> set (mark_duplicate_sessions xs). s = x \<or> s = mark_duplicate x" if "x \<in> set xs" for x xs
  proof (rule bexI)
    show "mark_if_duplicate (count_groups xs []) x \<in> set (mark_duplicate_sessions xs)"
      using that by (simp add: mark_duplicate_sessions_def)
  qed (simp add: mark_if_duplicate_alt)
  then have found: "root_is ?r root \<Longrightarrow> \<exists>s \<in> set ss. s = ?r \<or> s = mark_duplicate ?r"
    using r unfolding rs(2) by simp
  show "case label (insp_labels i) LABEL_GIT_ROOT of
      None \<Rightarrow> True
    | Some r \<Rightarrow>
        if path_eq r root
        then \<exists>s \<in> set ss. container_id s = ps_id c \<and> container_kind s = kind \<and> metadata s = insp_labels i
        else label (insp_labels i) LABEL_GIT_ROOT_HASH \<noteq> Some (git_root_hash12 sha root)"
  proof (cases "label (insp_labels i) LABEL_GIT_ROOT")
    case (Some other)
    show ?thesis
    proof (cases "path_eq other root")
      case True
      then obtain s where "s \<in> set ss" "s = ?r \<or> s = mark_duplicate ?r"
        using found Some labels(1) by (auto simp: root_is_def)
      then show ?thesis using Some True by (auto intro!: bexI [of _ s])
    next
      case False
      then show ?thesis using rs(3) r Some labels by auto
    qed
  qed simp
qed

text \<open>C17: a query for one git root is exact and fails closed. The sessions it returns are containers that Podman
  listed, of an included kind, whose labels name the root, or name none and carry its hash; every listed
  container of an included kind whose labels name the root, and do not carry another hash, is among them;
  and no inspected container carries the hash of the root and names another root.\<close>

theorem git_root_query_exact:
  assumes "discover_sessions sha probe inspect (scope_for_git_root sha root) cscope containers = Ok ss"
  shows "(\<forall>s \<in> set ss. (root_is s root \<or> (sr_git_root s = None \<and> stable_id s = Some (git_root_hash12 sha root)))
      \<and> (\<exists>c \<in> set containers. container_id s = ps_id c
           \<and> agentbox_container_kind_from_labels (ps_labels c) = Some (container_kind s)
           \<and> scope_includes cscope (container_kind s)))
    \<and> (\<forall>c \<in> set containers. \<forall>kind i.
         agentbox_container_kind_from_labels (ps_labels c) = Some kind \<and> scope_includes cscope kind
         \<and> label (ps_labels c) LABEL_GIT_ROOT_HASH \<in> {None, Some (git_root_hash12 sha root)}
         \<and> inspect (ps_id c) = Ok i \<longrightarrow>
           (case label (insp_labels i) LABEL_GIT_ROOT of
              None \<Rightarrow> True
            | Some r \<Rightarrow>
                if path_eq r root
                then \<exists>s \<in> set ss. container_id s = ps_id c \<and> container_kind s = kind \<and> metadata s = insp_labels i
                else label (insp_labels i) LABEL_GIT_ROOT_HASH \<noteq> Some (git_root_hash12 sha root)))"
proof (intro conjI ballI allI impI)
  fix s assume s: "s \<in> set ss"
  show "root_is s root \<or> (sr_git_root s = None \<and> stable_id s = Some (git_root_hash12 sha root))"
    by (rule git_root_query_record [OF assms s]) auto
  show "\<exists>c \<in> set containers. container_id s = ps_id c
      \<and> agentbox_container_kind_from_labels (ps_labels c) = Some (container_kind s)
      \<and> scope_includes cscope (container_kind s)"
    by (rule git_root_query_record [OF assms s]) (auto intro!: bexI)
qed (use git_root_query_finds [OF assms] in blast)

lemma git_root_query_exact_witness:
  "\<exists>ss s. discover_sessions (\<lambda>_. 0) sample_probe (\<lambda>_. Ok (sample_inspect (root_labels ''/w'')))
       (scope_for_git_root (\<lambda>_. 0) ''/w'') AgentboxOwned [sample_container run_marker] = Ok ss
     \<and> s \<in> set ss \<and> container_id s = ''c1''"
proof -
  obtain s where q: "discover_sessions (\<lambda>_. 0) sample_probe
     (\<lambda>_. Ok (sample_inspect (root_labels ''/w''))) (scope_for_git_root (\<lambda>_. 0) ''/w'') AgentboxOwned
     [sample_container run_marker] = Ok [s]"
    by (rule sample_query)
  then show ?thesis using git_root_query_exact [OF q] by auto
qed

text \<open>C18: an unscoped query reports every owned container exactly once, in the order of the
  listing, under its own identifier and kind.\<close>

theorem all_sessions_query_complete:
  assumes "discover_sessions sha probe inspect AllSessions cscope containers = Ok ss"
  shows "map (\<lambda>s. (container_id s, container_kind s)) ss =
    map (\<lambda>(c, kind). (ps_id c, kind)) (filter_map (ps_candidate cscope) containers)"
proof -
  let ?cs = "filter_map (ps_candidate cscope) containers"
  obtain rs where
    rs: "list_all2 (inspected_as sha probe inspect) ?cs rs"
    and fin: "finish_collector (fold collect_session rs (new_collector AllSessions)) = Ok ss"
    using discover_sessions_Ok [OF assms] by auto
  have "ss = mark_duplicate_sessions rs"
    using fin by (simp add: finish_collector_Ok new_collector_def fold_collect_all)
  then have "map (\<lambda>s. (container_id s, container_kind s)) ss =
      map (\<lambda>s. (container_id s, container_kind s)) rs"
    by (simp add: mark_duplicate_sessions_def mark_if_duplicate_alt)
  also have "\<dots> = map (\<lambda>(c, kind). (ps_id c, kind)) ?cs"
    using rs by (induction rule: list_all2_induct) (auto simp: inspected_as_Pair split: prod.splits)
  finally show ?thesis .
qed

lemma all_sessions_query_complete_witness:
  "\<exists>s. discover_sessions (\<lambda>_. 0) sample_probe (\<lambda>_. Ok (sample_inspect (root_labels ''/w'')))
       AllSessions AgentboxOwned [sample_container run_marker] = Ok [s]
     \<and> container_id s = ''c1'' \<and> container_kind s = Run"
proof -
  obtain s where q: "discover_sessions (\<lambda>_. 0) sample_probe
     (\<lambda>_. Ok (sample_inspect (root_labels ''/w''))) AllSessions AgentboxOwned
     [sample_container run_marker] = Ok [s]"
    by (rule sample_query_all)
  then show ?thesis
    using all_sessions_query_complete [OF q] by (auto simp: ps_candidate_def)
qed

end
