(* ===== verification/Eligibility.thy ===== *)
theory Eligibility
  imports Targets DiscoveryLaws
begin

text \<open>
  Which sessions a command may act on (\<open>src/session/connectable.rs\<close>, \<open>restartable.rs\<close>) and how a
  container that already holds the workspace's name is explained (\<open>src/session/conflict.rs\<close>).
\<close>

section \<open>\<open>connectable.rs\<close>\<close>

record connectable_session =
  cs_session :: session_record
  cs_runtime :: runtime_kind
  cs_endpoint :: attach_endpoint
  cs_launch_directory :: path

definition not_running_session_error :: "workspace_identity \<Rightarrow> session_record \<Rightarrow> error" where
  "not_running_session_error w s = msg [''managed session '', tick (sr_container_name s), '' for '',
     tick (canonical_git_root w), '' is not running; rerun '', tick (run_command_hint (sr_runtime s) w),
     '' to start a new session or '', tick (''agentbox stop '' @ requested_target w),
     '' to remove the leftover container'']"

definition session_failure_error ::
  "workspace_identity \<Rightarrow> session_record \<Rightarrow> session_failure \<Rightarrow> error" where
  "session_failure_error w s failure =
     session_failure_requires_action_error (canonical_git_root w) (sr_container_name s) failure"

fun validate_connectable_status :: "workspace_identity \<Rightarrow> session_record \<Rightarrow> unit res" where
  "validate_connectable_status w s =
     (case status s of
        Running \<Rightarrow> Ok ()
      | Orphaned \<Rightarrow> Err (orphaned_managed_session (canonical_git_root w) (sr_container_name s))
      | Failed (Some NotRunning) \<Rightarrow> Err (not_running_session_error w s)
      | Failed (Some failure) \<Rightarrow> Err (session_failure_error w s failure)
      | Failed None \<Rightarrow> Err (failed_managed_session (canonical_git_root w) (sr_container_name s))
      | Duplicate \<Rightarrow> Err (duplicate_sessions_error w))"

definition prepare_connect_session ::
  "workspace_identity \<Rightarrow> session_record \<Rightarrow> connectable_session res" where
  "prepare_connect_session w s =
     and_then (validate_connectable_status w s) (\<lambda>_.
     and_then (ok_or (sr_runtime_kind s) (session_failure_error w s UnsupportedRuntimeLabel)) (\<lambda>runtime.
     and_then (ok_or (sr_attach_endpoint s) (session_failure_error w s MalformedEndpointLabels)) (\<lambda>endpoint.
     and_then (ok_or (sr_launch_directory s) (session_failure_error w s MalformedLaunchDirectory)) (\<lambda>launch.
       Ok \<lparr>cs_session = s, cs_runtime = runtime, cs_endpoint = endpoint,
           cs_launch_directory = launch\<rparr>))))"

section \<open>\<open>restartable.rs\<close>\<close>

record restartable_session =
  rs_session :: session_record
  rs_runtime :: runtime_kind
  rs_launch_directory :: path
  rs_server_args :: "string list"

definition restart_session_git_root :: "session_record \<Rightarrow> path res" where
  "restart_session_git_root s =
     ok_or (sr_git_root s) (msg [''managed session '', tick (sr_container_name s),
       '' cannot be restarted safely because it has no recoverable git-root label''])"

definition validate_restartable_status :: "string \<Rightarrow> session_record \<Rightarrow> unit res" where
  "validate_restartable_status display s =
     (if is_transient_run s
      then Err (msg [''transient run container '', tick (sr_container_name s),
        '' cannot be restarted; stop it with '',
        tick (''agentbox stop '' @ unwrap_or (stable_id s) (sr_container_name s))])
      else if \<not> is_managed_session s
      then Err (msg [''restart target '', tick display, '' is not a managed session''])
      else case status s of
        Running \<Rightarrow> Ok ()
      | Orphaned \<Rightarrow> and_then (restart_session_git_root s) (\<lambda>root.
          Err (orphaned_managed_session root (sr_container_name s)))
      | Duplicate \<Rightarrow> and_then (restart_session_git_root s) (\<lambda>root.
          Err (duplicate_managed_sessions root))
      | Failed (Some failure) \<Rightarrow> and_then (restart_session_git_root s) (\<lambda>root.
          Err (resource_failure_requires_action_error Managed root (sr_container_name s) failure))
      | Failed None \<Rightarrow> and_then (restart_session_git_root s) (\<lambda>root.
          Err (failed_managed_session root (sr_container_name s))))"

definition restart_runtime :: "session_record \<Rightarrow> runtime_kind res" where
  "restart_runtime s = ok_or (sr_runtime_kind s) (msg [''managed session '', tick (sr_container_name s),
     '' cannot be restarted because it has an unsupported or malformed '', tick ''io.agentbox.runtime'',
     '' label''])"

definition restart_launch_directory :: "session_record \<Rightarrow> path res" where
  "restart_launch_directory s =
     ok_or (sr_launch_directory s) (msg [''managed session '', tick (sr_container_name s),
     '' cannot be restarted because it has a missing or malformed '',
     tick ''io.agentbox.launch_directory'', '' label''])"

definition restart_server_args ::
  "(string \<Rightarrow> string + string list) \<Rightarrow> session_record \<Rightarrow> string list res" where
  "restart_server_args of_json s =
     map_err (\<lambda>e. msg [''managed session '', tick (sr_container_name s),
       '' cannot be restarted because it has a malformed '', tick ''io.agentbox.server_args'',
       '' label: '', error_text e]) (md_server_args of_json (metadata s))"

definition prepare_restart_session ::
  "(string \<Rightarrow> string + string list) \<Rightarrow> string \<Rightarrow> session_record \<Rightarrow> restartable_session res" where
  "prepare_restart_session of_json display s =
     and_then (validate_restartable_status display s) (\<lambda>_.
     and_then (restart_runtime s) (\<lambda>runtime.
     and_then (restart_launch_directory s) (\<lambda>launch.
     and_then (restart_server_args of_json s) (\<lambda>args.
       Ok \<lparr>rs_session = s, rs_runtime = runtime, rs_launch_directory = launch,
           rs_server_args = args\<rparr>))))"

section \<open>\<open>conflict.rs\<close>\<close>

definition unmanaged_container_conflict_error :: "workspace_identity \<Rightarrow> error" where
  "unmanaged_container_conflict_error w = msg [''container name '', tick (container_name w),
     '' is already in use by a different container; remove or rename that container before retrying '',
     tick (canonical_git_root w)]"

definition duplicate_agentbox_containers_error :: "workspace_identity \<Rightarrow> error" where
  "duplicate_agentbox_containers_error w = duplicate_agentbox_containers (canonical_git_root w)"

definition running_existing_resource_error :: "workspace_identity \<Rightarrow> session_record \<Rightarrow> error" where
  "running_existing_resource_error w s =
     (case container_kind s of
        Managed \<Rightarrow> msg [''managed session '', tick (sr_container_name s), '' is already running for '',
          tick (canonical_git_root w), ''; use '', tick (''agentbox connect '' @ requested_target w),
          '' to connect to it or '', tick (''agentbox stop '' @ requested_target w), '' to stop it first'']
      | Run \<Rightarrow> msg [''transient run container '', tick (sr_container_name s), '' is already running for '',
          tick (canonical_git_root w), ''; use '',
          tick (''agentbox stop '' @ unwrap_or (stable_id s) (sr_container_name s)),
          '' to stop it first''])"

definition generic_failed_session_error :: "workspace_identity \<Rightarrow> string \<Rightarrow> error" where
  "generic_failed_session_error w name = failed_managed_session (canonical_git_root w) name"

definition failure_conflict_error ::
  "workspace_identity \<Rightarrow> container_kind \<Rightarrow> string \<Rightarrow> session_failure \<Rightarrow> error" where
  "failure_conflict_error w kind name failure =
     resource_failure_requires_action_error kind (canonical_git_root w) name failure"

definition inspect_container_name :: "labels \<Rightarrow> string \<Rightarrow> string" where
  "inspect_container_name m fallback = logical_name_or m fallback"

record managed_container_conflict =
  mc_workspace :: workspace_identity
  mc_container_name :: string
  mc_container_kind :: container_kind
  mc_identity :: session_identity_labels
  mc_same_root_failure :: "session_failure option"
  mc_inspect :: podman_container_inspect

text \<open>Here roots compare as strings (\<open>as_str\<close>), not as paths.\<close>

definition root_matches_workspace :: "managed_container_conflict \<Rightarrow> bool" where
  "root_matches_workspace c \<longleftrightarrow> id_git_root (mc_identity c) = canonical_git_root (mc_workspace c)"

definition hash_matches_workspace :: "managed_container_conflict \<Rightarrow> bool" where
  "hash_matches_workspace c \<longleftrightarrow> id_git_root_hash (mc_identity c) = hash12 (mc_workspace c)"

definition hash_matches_different_root :: "managed_container_conflict \<Rightarrow> bool" where
  "hash_matches_different_root c \<longleftrightarrow>
     id_git_root_hash (mc_identity c) = hash12 (mc_workspace c) \<and> \<not> root_matches_workspace c"

definition hash_collision_error :: "managed_container_conflict \<Rightarrow> error" where
  "hash_collision_error c = msg [''managed container '', tick (mc_container_name c),
     '' collides on git-root hash '', tick (hash12 (mc_workspace c)), '': stored root '',
     tick (id_git_root (mc_identity c)), '' does not match '',
     tick (canonical_git_root (mc_workspace c)),
     ''; remove or recreate the conflicting container before retrying'']"

definition different_root_error :: "managed_container_conflict \<Rightarrow> error" where
  "different_root_error c =
     (let resource = (case mc_container_kind c of Managed \<Rightarrow> ''managed session''
          | Run \<Rightarrow> ''transient run container'')
      in msg [''container name '', tick (container_name (mc_workspace c)), '' is already used by '',
           resource, '' '', tick (mc_container_name c), '' for '', tick (id_git_root (mc_identity c)),
           ''; remove or rename the conflicting container before retrying '',
           tick (canonical_git_root (mc_workspace c))])"

definition same_root_error :: "managed_container_conflict \<Rightarrow> error" where
  "same_root_error c =
     (case mc_same_root_failure c of
        Some failure \<Rightarrow>
          failure_conflict_error (mc_workspace c) (mc_container_kind c) (mc_container_name c) failure
      | None \<Rightarrow>
          if \<not> hash_matches_workspace c
          then failure_conflict_error (mc_workspace c) (mc_container_kind c) (mc_container_name c)
                 DriftedGitRootHash
          else if \<not> has_volume_mount_destination (insp_mounts (mc_inspect c)) NIX_CACHE_DESTINATION
          then failure_conflict_error (mc_workspace c) (mc_container_kind c) (mc_container_name c)
                 MissingCacheMount
          else generic_failed_session_error (mc_workspace c) (mc_container_name c))"

definition classify_conflict :: "managed_container_conflict \<Rightarrow> error" where
  "classify_conflict c =
     (if hash_matches_different_root c then hash_collision_error c
      else if root_matches_workspace c then same_root_error c
      else different_root_error c)"

definition classify_named_container_conflict ::
  "(string \<Rightarrow> digest) \<Rightarrow> workspace_identity \<Rightarrow> string \<Rightarrow> podman_container_inspect \<Rightarrow> error" where
  "classify_named_container_conflict sha w expected_name inspect =
     (let m = insp_labels inspect; name = inspect_container_name m expected_name
      in case agentbox_container_kind_from_labels m of
        None \<Rightarrow> unmanaged_container_conflict_error w
      | Some kind \<Rightarrow>
          (let report = label_report_from_metadata sha m
           in case rep_identity report of
             Inl failure \<Rightarrow> failure_conflict_error w kind name failure
           | Inr ident \<Rightarrow> classify_conflict
               \<lparr>mc_workspace = w, mc_container_name = name, mc_container_kind = kind,
                mc_identity = ident,
                mc_same_root_failure = or_else (required_failure report) (attach_failure report),
                mc_inspect = inspect\<rparr>))"

section \<open>What eligibility guarantees\<close>

lemma validate_connectable_Ok [result_simps]:
  "validate_connectable_status w s = Ok u \<longleftrightarrow> status s = Running"
  by (auto split: session_status.splits option.splits session_failure.splits)

lemma validate_restartable_Ok [result_simps]:
  "validate_restartable_status display s = Ok u \<longleftrightarrow> is_managed_session s \<and> status s = Running"
  by (cases "container_kind s")
    (auto simp: validate_restartable_status_def is_transient_run_def is_managed_session_def
      result_simps split: session_status.splits option.splits)

lemma running_record_data:
  assumes "status (build_session_record sha probe c i kind) = Running"
  shows "\<exists>root k launch e.
      sr_git_root (build_session_record sha probe c i kind) = Some root
    \<and> stable_id (build_session_record sha probe c i kind) = Some (git_root_hash12 sha root)
    \<and> sr_runtime_kind (build_session_record sha probe c i kind) = Some k
    \<and> sr_launch_directory (build_session_record sha probe c i kind) = Some launch
    \<and> path_is_or_descendant launch root
    \<and> sr_attach_endpoint (build_session_record sha probe c i kind) = Some e
    \<and> scheme e = as_scheme (runtime_attach_spec k)"
proof -
  obtain root launch k t e where h:
    "label (insp_labels i) LABEL_GIT_ROOT = Some root"
    "label (insp_labels i) LABEL_GIT_ROOT_HASH = Some (git_root_hash12 sha root)"
    "label (insp_labels i) LABEL_LAUNCH_DIRECTORY = Some launch" "path_is_or_descendant launch root"
    "label (insp_labels i) LABEL_RUNTIME = Some (runtime_str k)"
    "label (insp_labels i) LABEL_ATTACH_SCHEME = Some (as_scheme (runtime_attach_spec k))"
    "label (insp_labels i) LABEL_CONTAINER_PORT = Some t"
    "parse_u16 t = Some (container_port (runtime_attach_spec k))"
    "label (insp_labels i) LABEL_CONTAINER_LISTEN_IP = Some (container_listen_ip (runtime_attach_spec k))"
    "published_attach_endpoint (insp_network i) (runtime_attach_spec k) = Ok (Some e)"
    using assms unfolding running_session_facts by blast
  have "endpoint_report (label_report_from_metadata sha (insp_labels i)) i = Inr e"
    using h by (auto simp: endpoint_report_Ok attach_from_session_labels_Ok)
  moreover have "ok_of (parse_runtime_kind (runtime_str k)) = Some k"
    by (simp add: result_simps parse_runtime_kind_iff)
  ultimately show ?thesis
    using h published_attach_endpoint_Some
    by (auto simp: sr_git_root_def md_canonical_git_root_def stable_id_def md_git_root_hash_def
        sr_runtime_kind_def md_runtime_kind_def md_runtime_label_def sr_launch_directory_def
        md_launch_directory_def result_simps)
qed

text \<open>C19: every discovered running session can be connected to: no required datum is missing, the
  endpoint it yields is the published one with the scheme of the session's runtime, and the launch
  directory lies inside the session's git root.\<close>

theorem running_sessions_connect:
  assumes "status (build_session_record sha probe c i kind) = Running"
  shows "\<exists>cs root. prepare_connect_session w (build_session_record sha probe c i kind) = Ok cs
    \<and> sr_git_root (build_session_record sha probe c i kind) = Some root
    \<and> path_is_or_descendant (cs_launch_directory cs) root
    \<and> sr_runtime_kind (build_session_record sha probe c i kind) = Some (cs_runtime cs)
    \<and> scheme (cs_endpoint cs) = as_scheme (runtime_attach_spec (cs_runtime cs))
    \<and> sr_attach_endpoint (build_session_record sha probe c i kind) = Some (cs_endpoint cs)"
  using running_record_data [OF assms] assms
  by (auto simp: prepare_connect_session_def result_simps simp del: validate_connectable_status.simps)

lemma sr_git_root_build [simp]:
  "sr_git_root (build_session_record sha probe c i kind) = label (insp_labels i) LABEL_GIT_ROOT"
  by (simp add: sr_git_root_def md_canonical_git_root_def)

end
