(* ===== verification/RunSpec.thy ===== *)
theory RunSpec
  imports Eligibility
begin

text \<open>
  What agentbox asks Podman to run: mounts and specifications (\<open>src/runtime/spec.rs\<close>), the wrapped
  runtime commands (\<open>src/dev_env/environment.rs\<close>, \<open>src/commands/runtime_command.rs\<close>) and the argument
  vectors of \<open>podman run\<close> and \<open>podman build\<close> (\<open>src/podman/args.rs\<close>, \<open>run.rs\<close>, \<open>build.rs\<close>).
\<close>

section \<open>Mounts\<close>

datatype runtime_mount_kind = BindMount | VolumeMount

record runtime_mount =
  rm_kind :: runtime_mount_kind
  rm_source :: string
  rm_destination :: string
  rm_read_only :: bool

definition bind_mount :: "string \<Rightarrow> string \<Rightarrow> runtime_mount" where
  "bind_mount src dst = \<lparr>rm_kind = BindMount, rm_source = src, rm_destination = dst, rm_read_only = False\<rparr>"

definition read_only_bind :: "string \<Rightarrow> string \<Rightarrow> runtime_mount" where
  "read_only_bind src dst = \<lparr>rm_kind = BindMount, rm_source = src, rm_destination = dst, rm_read_only = True\<rparr>"

definition volume_mount :: "string \<Rightarrow> string \<Rightarrow> runtime_mount" where
  "volume_mount src dst = \<lparr>rm_kind = VolumeMount, rm_source = src, rm_destination = dst, rm_read_only = False\<rparr>"

definition rm_is_volume :: "runtime_mount \<Rightarrow> bool" where
  "rm_is_volume m \<longleftrightarrow> rm_kind m = VolumeMount"

section \<open>Development environments and commands\<close>

datatype dev_environment =
    NoDevEnv
  | Direnv
  | Devenv path
  | NixDevelop path string

definition path_flake_ref :: "path \<Rightarrow> string" where
  "path_flake_ref p = format [''path:'', p]"

fun wrap_argv :: "dev_environment \<Rightarrow> string list \<Rightarrow> string list" where
  "wrap_argv NoDevEnv argv = argv"
| "wrap_argv Direnv argv = [''direnv'', ''exec'', ''.''] @ argv"
| "wrap_argv (Devenv root) argv = [''devenv'', ''shell'', ''--no-tui'', ''--''] @ argv"
| "wrap_argv (NixDevelop flake_root attr) argv =
     [''nix'', ''develop'', ''--no-write-lock-file'', format [path_flake_ref flake_root, ''#'', attr],
      ''--command''] @ argv"

record runtime_invocation =
  inv_argv :: "string list"
  inv_workdir :: path

text \<open>A Codex attach token: its text and the digest the server gets.\<close>

record codex_attach_token =
  token_value :: string
  token_sha256 :: string

definition server_runtime_command ::
  "runtime_kind \<Rightarrow> path \<Rightarrow> dev_environment \<Rightarrow> codex_attach_token option \<Rightarrow> string list
     \<Rightarrow> runtime_invocation res" where
  "server_runtime_command runtime tgt dev_env token args =
     and_then (if runtime = Codex
         then map_ok (\<lambda>t. server_command runtime @ [''--ws-auth'', ''capability-token'',
                  ''--ws-token-sha256'', token_sha256 t])
                (ok_or token (msg [''missing Codex attach token for runtime server command'']))
         else Ok (server_command runtime)) (\<lambda>argv.
       Ok \<lparr>inv_argv = wrap_argv dev_env (argv @ args), inv_workdir = tgt\<rparr>)"

definition codex_exec_command :: "path \<Rightarrow> dev_environment \<Rightarrow> string list \<Rightarrow> runtime_invocation" where
  "codex_exec_command tgt dev_env codex_args =
     \<lparr>inv_argv = wrap_argv dev_env (foreground_command Codex @ [''exec''] @
        [''--disable'', ''codex_git_commit''] @ codex_args), inv_workdir = tgt\<rparr>"

definition host_client_runtime_command ::
  "runtime_kind \<Rightarrow> attach_endpoint \<Rightarrow> path \<Rightarrow> string list \<Rightarrow> runtime_invocation" where
  "host_client_runtime_command runtime e launch args =
     \<lparr>inv_argv = host_client_command runtime e @ args, inv_workdir = launch\<rparr>"

definition required_codex_client_token ::
  "runtime_kind \<Rightarrow> codex_attach_token option \<Rightarrow> codex_attach_token option res" where
  "required_codex_client_token runtime token =
     (if runtime = Codex
      then map_ok Some (ok_or token (msg [''missing Codex attach token for host client command'']))
      else Ok None)"

section \<open>Specifications\<close>

record runtime_create_spec =
  cr_image :: string
  cr_labels :: labels
  cr_mounts :: "runtime_mount list"
  cr_command :: "string list"
  cr_default_env :: "(string, string) btree"
  cr_network_enabled :: bool
  cr_published_ports :: "string list"
  cr_resource_limits :: resource_limits

record runtime_run_spec =
  rn_create :: runtime_create_spec
  rn_workdir :: path

datatype runtime_run_mode = ManagedSessionMode | TransientServer | Foreground

definition publishes_attach_endpoint :: "runtime_run_mode \<Rightarrow> bool" where
  "publishes_attach_endpoint mode \<longleftrightarrow> mode \<in> {ManagedSessionMode, TransientServer}"

definition logical_name :: "runtime_create_spec \<Rightarrow> string option" where
  "logical_name c = required_label_value (cr_labels c) LABEL_LOGICAL_NAME"

definition insert_create_label :: "string \<Rightarrow> string \<Rightarrow> runtime_run_spec \<Rightarrow> runtime_run_spec" where
  "insert_create_label k v s =
     s\<lparr>rn_create := (rn_create s)\<lparr>cr_labels := bt_insert k v (cr_labels (rn_create s))\<rparr>\<rparr>"

definition add_create_mount :: "runtime_mount \<Rightarrow> runtime_run_spec \<Rightarrow> runtime_run_spec" where
  "add_create_mount m s =
     s\<lparr>rn_create := (rn_create s)\<lparr>cr_mounts := cr_mounts (rn_create s) @ [m]\<rparr>\<rparr>"

definition extend_create_default_env ::
  "(string \<times> string) list \<Rightarrow> runtime_run_spec \<Rightarrow> runtime_run_spec" where
  "extend_create_default_env env s =
     s\<lparr>rn_create := (rn_create s)\<lparr>cr_default_env := bt_extend (cr_default_env (rn_create s)) env\<rparr>\<rparr>"

definition default_env :: "runtime_kind \<Rightarrow> (string, string) btree" where
  "default_env runtime = bt_from (profile_default_env (profile runtime))"

definition runtime_mounts_for_workspace ::
  "workspace_identity \<Rightarrow> runtime_mount list \<Rightarrow> runtime_mount list \<Rightarrow> runtime_mount list" where
  "runtime_mounts_for_workspace w host_nix_mounts runtime_mounts =
     [bind_mount (canonical_git_root w) (canonical_git_root w),
      volume_mount (container_name w) NIX_CACHE_DESTINATION] @ host_nix_mounts @ runtime_mounts"

definition create_spec ::
  "build \<Rightarrow> (string list \<Rightarrow> string) \<Rightarrow> runtime_kind \<Rightarrow> runtime_run_mode \<Rightarrow> workspace_identity
     \<Rightarrow> runtime_mount list \<Rightarrow> runtime_mount list \<Rightarrow> string list \<Rightarrow> string list \<Rightarrow> resource_limits
     \<Rightarrow> runtime_create_spec" where
  "create_spec b to_json runtime mode w host_nix_mounts runtime_mounts command server_args limits =
     (let img = default_image b runtime;
          input = label_input_from_workspace w img runtime server_args
      in \<lparr>cr_image = img,
          cr_labels = (case mode of
              ManagedSessionMode \<Rightarrow> managed_session_labels to_json input
            | TransientServer \<Rightarrow> transient_run_labels input
            | Foreground \<Rightarrow> []),
          cr_mounts = runtime_mounts_for_workspace w host_nix_mounts runtime_mounts,
          cr_command = command,
          cr_default_env = default_env runtime,
          cr_network_enabled = True,
          cr_published_ports =
            (if publishes_attach_endpoint mode
             then [published_port (runtime_attach_spec runtime) DEFAULT_HOST_ATTACH_IP] else []),
          cr_resource_limits = limits\<rparr>)"

definition run_spec ::
  "build \<Rightarrow> (string list \<Rightarrow> string) \<Rightarrow> runtime_kind \<Rightarrow> runtime_run_mode \<Rightarrow> workspace_identity
     \<Rightarrow> runtime_mount list \<Rightarrow> runtime_mount list \<Rightarrow> runtime_invocation \<Rightarrow> string list \<Rightarrow> resource_limits
     \<Rightarrow> runtime_run_spec" where
  "run_spec b to_json runtime mode w host_nix_mounts runtime_mounts invocation server_args limits =
     \<lparr>rn_create = create_spec b to_json runtime mode w host_nix_mounts runtime_mounts (inv_argv invocation)
        server_args limits,
      rn_workdir = inv_workdir invocation\<rparr>"

section \<open>Podman arguments\<close>

definition option_args :: "string \<Rightarrow> string \<Rightarrow> string list" where
  "option_args name v = [name, v]"

definition key_value_option :: "string \<Rightarrow> string \<Rightarrow> string \<Rightarrow> string list" where
  "key_value_option name k v = option_args name (format [k, ''='', v])"

fun podman_mount_type :: "runtime_mount_kind \<Rightarrow> string" where
  "podman_mount_type BindMount = ''bind''"
| "podman_mount_type VolumeMount = ''volume''"

definition render_mount :: "runtime_mount \<Rightarrow> string" where
  "render_mount m = join '',''
     ([format [''type='', podman_mount_type (rm_kind m)],
       format [''src='', rm_source m],
       format [''dst='', rm_destination m]]
      @ (if rm_read_only m then [''ro''] else [])
      @ (if rm_is_volume m then [''U''] else []))"

definition common_run_args :: "string \<Rightarrow> runtime_run_spec \<Rightarrow> nat \<Rightarrow> string list" where
  "common_run_args name s gid =
     (let create = rn_create s; g = show_nat gid
      in option_args ''--name'' name
       @ option_args ''--userns'' (format [''keep-id:uid=1000,gid='', g])
       @ option_args ''--user'' (format [''user:'', g])
       @ option_args ''--group-add'' ''keep-groups''
       @ option_args ''--workdir'' (rn_workdir s)
       @ concat (map (\<lambda>(k, v). key_value_option ''--label'' k v) (cr_labels create))
       @ concat (map (\<lambda>m. option_args ''--mount'' (render_mount m)) (cr_mounts create))
       @ concat (map (\<lambda>(k, v). key_value_option ''--env'' k v) (cr_default_env create))
       @ (case cpus (cr_resource_limits create) of
            None \<Rightarrow> []
          | Some c \<Rightarrow> if cpu_is_unlimited c then [] else option_args ''--cpus'' (cpu_text c))
       @ (case memory (cr_resource_limits create) of
            None \<Rightarrow> []
          | Some m \<Rightarrow> if memory_is_unlimited m then [] else option_args ''--memory'' (memory_text m))
       @ (if cr_network_enabled create then [] else [''--network=none''])
       @ concat (map (option_args ''--publish'') (cr_published_ports create))
       @ [cr_image create] @ cr_command create)"

definition run_detached_args :: "string \<Rightarrow> runtime_run_spec \<Rightarrow> nat \<Rightarrow> string list" where
  "run_detached_args name s gid = [''run'', ''--detach'', ''--rm''] @ common_run_args name s gid"

definition run_foreground_args :: "string \<Rightarrow> runtime_run_spec \<Rightarrow> nat \<Rightarrow> bool \<Rightarrow> string list" where
  "run_foreground_args name s gid use_tty =
     [''run'', ''--rm'', ''--interactive''] @ (if use_tty then [''--tty''] else [])
       @ common_run_args name s gid"

record podman_build_options =
  bo_build_args :: "(string, string) btree"
  bo_labels :: labels

definition build_image_args :: "string \<Rightarrow> path \<Rightarrow> path \<Rightarrow> podman_build_options \<Rightarrow> string list" where
  "build_image_args img containerfile context_dir opts =
     [''build'', ''-t'', img, ''-f'', containerfile]
     @ concat (map (\<lambda>(k, v). key_value_option ''--build-arg'' k v) (bo_build_args opts))
     @ concat (map (\<lambda>(k, v). key_value_option ''--label'' k v) (bo_labels opts))
     @ [context_dir]"

section \<open>Mount options\<close>

definition mount_options :: "runtime_mount \<Rightarrow> string list" where
  "mount_options m =
     [format [''type='', podman_mount_type (rm_kind m)], format [''src='', rm_source m],
      format [''dst='', rm_destination m]]
     @ (if rm_read_only m then [''ro''] else []) @ (if rm_is_volume m then [''U''] else [])"

lemma render_mount_options: "render_mount m = join '','' (mount_options m)"
  by (simp add: render_mount_def mount_options_def)

lemma mount_options_inject:
  assumes "mount_options m = mount_options n" shows "m = n"
proof -
  have "rm_kind m = rm_kind n" "rm_source m = rm_source n" "rm_destination m = rm_destination n"
    using assms by (cases "rm_kind m"; cases "rm_kind n"; auto simp: mount_options_def)+
  moreover have "rm_read_only m = rm_read_only n"
    using assms by (cases "rm_read_only m"; cases "rm_read_only n"; cases "rm_is_volume m";
        cases "rm_is_volume n"; simp add: mount_options_def)
  ultimately show ?thesis by (cases m; cases n) simp
qed

text \<open>When neither the source nor the destination of a mount holds a comma, the rendered
  \<open>--mount\<close> option splits at the commas into exactly the options of that mount, so it denotes no
  other mount.\<close>

lemma mount_option_faithful:
  assumes "CHR '','' \<notin> set (rm_source m)" and "CHR '','' \<notin> set (rm_destination m)"
    and "CHR '','' \<notin> set (rm_source n)" and "CHR '','' \<notin> set (rm_destination n)"
  shows "split_on CHR '','' (render_mount m) = mount_options m
    \<and> (render_mount m = render_mount n \<longrightarrow> m = n)"
proof -
  have split: "split_on CHR '','' (render_mount k) = mount_options k"
    if "CHR '','' \<notin> set (rm_source k)" "CHR '','' \<notin> set (rm_destination k)" for k
  proof -
    have "CHR '','' \<notin> set (podman_mount_type (rm_kind k))" by (cases "rm_kind k") simp_all
    then have "\<forall>x \<in> set (mount_options k). CHR '','' \<notin> set x"
      using that by (auto simp: mount_options_def)
    then show ?thesis
      unfolding render_mount_options by (intro split_on_join) (simp_all add: mount_options_def)
  qed
  then show ?thesis using assms mount_options_inject by metis
qed

text \<open>Nothing escapes a comma: a writable bind mount of a directory whose name ends in \<open>,ro\<close>
  renders to the option of the read-only mount of another directory.\<close>

lemma mount_option_comma_ambiguous:
  "bind_mount ''/w'' ''/w,ro'' \<noteq> read_only_bind ''/w'' ''/w''
   \<and> render_mount (bind_mount ''/w'' ''/w,ro'') = render_mount (read_only_bind ''/w'' ''/w'')"
  by (simp add: bind_mount_def read_only_bind_def render_mount_def rm_is_volume_def)

section \<open>A launched session is found again\<close>

lemma label_managed_session_labels [label_simps]:
  "label (managed_session_labels to_json i) n =
     (if n = LABEL_SERVER_ARGS \<and> in_server_args i \<noteq> []
      then (if blank (to_json (in_server_args i)) then None else Some (to_json (in_server_args i)))
      else if n = LABEL_SCHEMA then Some LABEL_SCHEMA_VALUE
      else if n = LABEL_CONTAINER_KIND then Some LABEL_CONTAINER_KIND_MANAGED_SESSION_VALUE
      else if n = LABEL_MANAGED then Some LABEL_MANAGED_VALUE
      else label (runtime_server_container_labels i) n)"
  by (auto simp: managed_session_labels_def Let_def label_simps)

lemma label_runtime_server_container_labels:
  "label (runtime_server_container_labels i) n =
     (case bt_get (runtime_server_container_labels i) n of
        None \<Rightarrow> None | Some v \<Rightarrow> if blank v then None else Some v)"
  by (simp add: required_label_value_def)

lemma attach_spec_not_blank [simp]:
  "\<not> blank (as_scheme (runtime_attach_spec k))" "\<not> blank (container_listen_ip (runtime_attach_spec k))"
  by (cases k; auto intro!: not_blank_graphic_hd simp: runtime_attach_spec_def opencode_profile_def
      codex_profile_def is_ascii_graphic_def byte_of_def)+

lemma default_image_not_blank [simp]: "\<not> blank (default_image b k)"
  by (auto simp: default_image_def default_image_prefix_def intro!: not_blank_graphic_hd
      simp: is_ascii_graphic_def byte_of_def)

lemma container_name_not_blank [simp]: "\<not> blank (container_name_from_canonical_root sha root)"
  by (auto simp: container_name_from_canonical_root_def Let_def CONTAINER_PREFIX_def
      container_name_from_canonical_root_and_hash_def intro!: not_blank_graphic_hd
      simp: is_ascii_graphic_def byte_of_def)

text \<open>Labels that a later launch step adds do not touch the ones discovery validates.\<close>

definition identity_label_names :: "string list" where
  "identity_label_names = [LABEL_MANAGED, LABEL_CONTAINER_KIND, LABEL_SCHEMA, LABEL_GIT_ROOT,
     LABEL_GIT_ROOT_HASH, LABEL_RUNTIME, LABEL_IMAGE, LABEL_LAUNCH_DIRECTORY, LABEL_LOGICAL_NAME,
     LABEL_ATTACH_SCHEME, LABEL_CONTAINER_PORT, LABEL_CONTAINER_LISTEN_IP]"

lemma managed_labels_running:
  assumes w: "resolve_workspace_identity sha host directory = Ok w"
    and canon: "is_absolute (canonical_target w)" "is_absolute (canonical_git_root w)"
    and labels: "\<forall>n \<in> set identity_label_names. label (insp_labels i) n =
        label (managed_session_labels to_json (label_input_from_workspace w (default_image b k) k args)) n"
    and net: "published_attach_endpoint (insp_network i) (runtime_attach_spec k) = Ok (Some e)"
    and vol: "has_volume_mount_destination (insp_mounts i) NIX_CACHE_DESTINATION"
    and run: "insp_running i" and root: "\<not> git_root_is_orphaned probe (canonical_git_root w)"
  shows "status (build_session_record sha probe c i kind) = Running"
    and "label (insp_labels i) LABEL_GIT_ROOT = Some (canonical_git_root w)"
    and "label (insp_labels i) LABEL_RUNTIME = Some (runtime_str k)"
    and "label (insp_labels i) LABEL_LAUNCH_DIRECTORY = Some (canonical_target w)"
proof -
  note wf = resolve_workspace_identity_Ok [OF w]
  let ?m = "insp_labels i"
  let ?in = "label_input_from_workspace w (default_image b k) k args"
  have l: "label ?m n = label (managed_session_labels to_json ?in) n"
    if "n \<in> set identity_label_names" for n using labels that by blast
  note eval = l identity_label_names_def label_managed_session_labels
    label_runtime_server_container_labels get_runtime_server_container_labels
    label_input_from_workspace_def
  have facts: "label ?m LABEL_MANAGED = Some LABEL_MANAGED_VALUE"
    "label ?m LABEL_SCHEMA = Some LABEL_SCHEMA_VALUE"
    "label ?m LABEL_GIT_ROOT = Some (canonical_git_root w)"
    "label ?m LABEL_GIT_ROOT_HASH = Some (git_root_hash12 sha (canonical_git_root w))"
    "label ?m LABEL_IMAGE = Some (default_image b k)"
    "label ?m LABEL_LOGICAL_NAME = Some (container_name w)"
    "label ?m LABEL_LAUNCH_DIRECTORY = Some (canonical_target w)"
    "label ?m LABEL_RUNTIME = Some (runtime_str k)"
    "label ?m LABEL_ATTACH_SCHEME = Some (as_scheme (runtime_attach_spec k))"
    "label ?m LABEL_CONTAINER_PORT = Some (show_u16 (container_port (runtime_attach_spec k)))"
    "label ?m LABEL_CONTAINER_LISTEN_IP = Some (container_listen_ip (runtime_attach_spec k))"
    using canon wf by (simp_all add: eval is_absolute_not_blank)
  have marker: "require_agentbox_container_marker ?m = Inr ()"
    using facts by (simp add: require_agentbox_container_marker_def
        agentbox_container_kind_from_labels_def require_session_label_value_def)
  show "status (build_session_record sha probe c i kind) = Running"
    unfolding running_session_facts
    using facts marker canon(1) wf(1) net vol run root
    by (intro exI [of _ "canonical_git_root w"] exI [of _ "canonical_target w"] exI [of _ k]
        exI [of _ "show_u16 (container_port (runtime_attach_spec k))"] exI [of _ e]) simp
  show "label ?m LABEL_GIT_ROOT = Some (canonical_git_root w)"
    "label ?m LABEL_RUNTIME = Some (runtime_str k)"
    "label ?m LABEL_LAUNCH_DIRECTORY = Some (canonical_target w)" by (fact facts)+
qed

end
