(* ===== verification/Config.thy ===== *)
theory Config
  imports Limits
begin

text \<open>
  Loading the user configuration (\<open>src/config.rs\<close>, \<open>load_config_with\<close> to \<open>backup_timestamp\<close>). The host
  is a record of what the code asks it: the environment, reading, existence and renaming of files,
  the rendered timestamp, and the JSON decoder. The result is the configuration with the warnings
  in order and the backup that was made.
\<close>

datatype raw_cpu = JsonNumber string | JsonString string | JsonOther

record raw_resource_limits =
  raw_cpus :: "raw_cpu option"
  raw_memory :: "string option"

record raw_agentbox_config =
  raw_known_hosts :: "string list"
  raw_default_resource_limits :: raw_resource_limits

record agentbox_config =
  known_hosts :: "string list"
  default_resource_limits :: resource_limits

definition empty_config :: agentbox_config where
  "empty_config = \<lparr>known_hosts = [], default_resource_limits = no_limits\<rparr>"

datatype read_result = Contents string | NotFound | ReadFailed string

record config_host =
  env_var :: "string \<Rightarrow> string option"
  read_file :: "path \<Rightarrow> read_result"
  file_exists :: "path \<Rightarrow> bool"
  rename_file :: "path \<Rightarrow> path \<Rightarrow> string + unit"
  timestamp :: string
  decode_config :: "string \<Rightarrow> string + raw_agentbox_config"

section \<open>Parsing\<close>

fun parse_cpu_value :: "raw_cpu \<Rightarrow> string + cpu_limit" where
  "parse_cpu_value (JsonNumber text) = parse_cpu_limit text"
| "parse_cpu_value (JsonString text) = parse_cpu_limit text"
| "parse_cpu_value JsonOther = Inl cpu_error"

text \<open>\<open>Option<Result>::transpose\<close>.\<close>

fun transpose_opt :: "('e + 'a) option \<Rightarrow> 'e + 'a option" where
  "transpose_opt None = Inr None"
| "transpose_opt (Some r) = map_ok Some r"

definition parse_resource_limits :: "raw_resource_limits \<Rightarrow> string + resource_limits" where
  "parse_resource_limits raw =
     and_then (transpose_opt (map_option parse_cpu_value (raw_cpus raw))) (\<lambda>c.
     and_then (transpose_opt (map_option parse_memory_limit (raw_memory raw))) (\<lambda>m.
       Inr \<lparr>cpus = c, memory = m\<rparr>))"

fun check_known_hosts :: "string list \<Rightarrow> string + unit" where
  "check_known_hosts [] = Inr ()"
| "check_known_hosts (entry # rest) =
     (if blank entry then Inl ''knownHosts entries must not be blank''
      else if CHR 0x0A \<in> set entry \<or> CHR 0x0D \<in> set entry
      then Inl ''knownHosts entries must be single-line strings''
      else check_known_hosts rest)"

definition parse_config :: "config_host \<Rightarrow> string \<Rightarrow> string + agentbox_config" where
  "parse_config host text =
     and_then (decode_config host text) (\<lambda>raw.
     and_then (check_known_hosts (raw_known_hosts raw)) (\<lambda>_.
     and_then (parse_resource_limits (raw_default_resource_limits raw)) (\<lambda>limits.
       Inr \<lparr>known_hosts = raw_known_hosts raw, default_resource_limits = limits\<rparr>)))"

section \<open>The path and its backup\<close>

definition non_empty_var :: "config_host \<Rightarrow> string \<Rightarrow> string option" where
  "non_empty_var host name =
     (case env_var host name of None \<Rightarrow> None | Some v \<Rightarrow> if v = [] then None else Some v)"

definition config_path :: "config_host \<Rightarrow> path option" where
  "config_path host =
     map_option (\<lambda>home. path_join home ''agentbox/config.json'')
       (or_else (non_empty_var host ''XDG_CONFIG_HOME'')
          (map_option (\<lambda>h. path_join h ''.config'') (non_empty_var host ''HOME'')))"

text \<open>\<open>with_file_name\<close> on the path of the configuration, whose last component is \<open>config.json\<close>.\<close>

definition path_parent :: "path \<Rightarrow> path" where
  "path_parent p = (case rsplit_once CHR ''/'' p of None \<Rightarrow> [] | Some (dir, _) \<Rightarrow> dir)"

definition path_file_name :: "path \<Rightarrow> string" where
  "path_file_name p = (case rsplit_once CHR ''/'' p of None \<Rightarrow> p | Some (_, name) \<Rightarrow> name)"

definition backup_path :: "path \<Rightarrow> string \<Rightarrow> nat option \<Rightarrow> path" where
  "backup_path p stamp suf =
     path_parent p @ ''/'' @
     (case suf of
        Some n \<Rightarrow> format [path_file_name p, ''.bak.'', stamp, ''.'', show_nat n]
      | None \<Rightarrow> format [path_file_name p, ''.bak.'', stamp])"

text \<open>
  The search for a free name: no suffix first, then 1, 2, and so on without an upper bound, so that
  its result is \<^const>\<open>None\<close> where it never returns.
\<close>

partial_function (option) free_suffix :: "(nat option \<Rightarrow> bool) \<Rightarrow> nat option \<Rightarrow> nat option option" where
  "free_suffix taken suf =
     (if taken suf
      then free_suffix taken (Some (case suf of None \<Rightarrow> 1 | Some n \<Rightarrow> Suc n))
      else Some suf)"

definition backup_incompatible_config :: "config_host \<Rightarrow> path \<Rightarrow> (string + path) option" where
  "backup_incompatible_config host p =
     map_option (\<lambda>suf. let backup = backup_path p (timestamp host) suf
                       in map_ok (\<lambda>_. backup) (rename_file host p backup))
       (free_suffix (\<lambda>suf. file_exists host (backup_path p (timestamp host) suf)) None)"

section \<open>Loading\<close>

definition config_path_warning :: string where
  "config_path_warning = ''cannot determine agentbox config path because neither XDG_CONFIG_HOME nor HOME is set; continuing with empty config''"

definition load_config_with :: "config_host \<Rightarrow> (agentbox_config \<times> string list) option" where
  "load_config_with host =
     (case config_path host of
        None \<Rightarrow> Some (empty_config, [config_path_warning])
      | Some p \<Rightarrow>
          (case read_file host p of
             NotFound \<Rightarrow> Some (empty_config, [])
           | ReadFailed error \<Rightarrow> Some (empty_config,
               [format [''failed to read agentbox config '', tick p, '': '', error, ''; continuing with empty config'']])
           | Contents text \<Rightarrow>
               (case parse_config host text of
                  Inr config \<Rightarrow> Some (config, [])
                | Inl reason \<Rightarrow>
                    map_option (\<lambda>backup. (empty_config,
                      [case backup of
                         Inr b \<Rightarrow> format [''agentbox config '', tick p, '' is incompatible ('', reason,
                           ''); backed it up to '', tick b, '' and continuing with empty config'']
                       | Inl error \<Rightarrow> format [''agentbox config '', tick p, '' is incompatible ('', reason,
                           ''); failed to back it up ('', error, '') and continuing with empty config'']]))
                      (backup_incompatible_config host p))))"

text \<open>The search returns as soon as some suffix is free, and what it returns is free.\<close>

lemma free_suffix_from:
  assumes "\<not> taken (Some (n + k))"
  shows "\<exists>m \<ge> n. free_suffix taken (Some n) = Some (Some m) \<and> \<not> taken (Some m)"
  using assms
proof (induction k arbitrary: n)
  case 0
  then show ?case by (subst free_suffix.simps) auto
next
  case (Suc k)
  show ?case
  proof (cases "taken (Some n)")
    case True
    have "\<exists>m \<ge> Suc n. free_suffix taken (Some (Suc n)) = Some (Some m) \<and> \<not> taken (Some m)"
      using Suc.IH [of "Suc n"] Suc.prems by simp
    then obtain m where "Suc n \<le> m" "free_suffix taken (Some (Suc n)) = Some (Some m)" "\<not> taken (Some m)"
      by blast
    then show ?thesis using True by (subst free_suffix.simps) (auto intro: Suc_leD)
  next
    case False
    then show ?thesis by (subst free_suffix.simps) auto
  qed
qed

lemma free_suffix_returns:
  assumes "\<not> taken (Some (Suc k))"
  shows "\<exists>suf. free_suffix taken None = Some suf \<and> \<not> taken suf"
proof (cases "taken None")
  case True
  obtain m where "free_suffix taken (Some 1) = Some (Some m)" "\<not> taken (Some m)"
    using free_suffix_from [of taken 1 k] assms by auto
  then show ?thesis using True by (subst free_suffix.simps) auto
next
  case False
  then show ?thesis by (subst free_suffix.simps) auto
qed

lemma check_known_hosts_Ok:
  "check_known_hosts hs = Inr () \<longleftrightarrow>
     (\<forall>h \<in> set hs. \<not> blank h \<and> CHR 0x0A \<notin> set h \<and> CHR 0x0D \<notin> set h)"
  by (induction hs) auto

end
