(* ===== verification/Http.thy ===== *)
theory Http
  imports Catalog
begin

text \<open>
  The HTTP probe: \<open>src/runtime/http_probe/mod.rs\<close>, \<open>response.rs\<close> and the health verdict of
  \<open>src/runtime/health.rs\<close>. A stream is the list of what its reads deliver; a read hands out at most
  512 bytes of the next piece. The JSON decoder of the health body is a parameter.
\<close>

section \<open>UTF-8 and white space\<close>

text \<open>\<open>std::str::from_utf8\<close>: the well-formed byte sequences of the Unicode standard.\<close>

definition cont :: "nat \<Rightarrow> bool" where
  "cont b \<longleftrightarrow> 128 \<le> b \<and> b \<le> 191"

fun utf8_ok :: "nat list \<Rightarrow> bool" where
  "utf8_ok [] = True"
| "utf8_ok (a # bs) =
     (if a \<le> 127 then utf8_ok bs
      else case bs of
        [] \<Rightarrow> False
      | b # cs \<Rightarrow>
          if 194 \<le> a \<and> a \<le> 223 then cont b \<and> utf8_ok cs
          else case cs of
            [] \<Rightarrow> False
          | c # ds \<Rightarrow>
              if 224 \<le> a \<and> a \<le> 239
              then cont b \<and> (a = 224 \<longrightarrow> 160 \<le> b) \<and> (a = 237 \<longrightarrow> b \<le> 159) \<and> cont c \<and> utf8_ok ds
              else case ds of
                [] \<Rightarrow> False
              | d # es \<Rightarrow>
                  240 \<le> a \<and> a \<le> 244 \<and> cont b \<and> (a = 240 \<longrightarrow> 144 \<le> b) \<and> (a = 244 \<longrightarrow> b \<le> 143)
                  \<and> cont c \<and> cont d \<and> utf8_ok es)"

definition valid_utf8 :: "string \<Rightarrow> bool" where
  "valid_utf8 s = utf8_ok (map byte_of s)"

function split_whitespace_from :: "string \<Rightarrow> string \<Rightarrow> string list" where
  "split_whitespace_from acc s =
     (if s = [] then (if acc = [] then [] else [acc])
      else let n = ws_len (map byte_of s)
           in if 0 < n
              then (if acc = [] then [] else [acc]) @ split_whitespace_from [] (drop n s)
              else split_whitespace_from (acc @ [hd s]) (tl s))"
  by pat_completeness auto
termination
  by (relation "measure (\<lambda>(acc, s). length s)") auto

definition split_whitespace :: "string \<Rightarrow> string list" where
  "split_whitespace s = split_whitespace_from [] s"

fun split_crlf :: "string \<Rightarrow> string list" where
  "split_crlf [] = [[]]"
| "split_crlf [c] = [[c]]"
| "split_crlf (c # d # cs) =
     (if c = CHR 0x0D \<and> d = CHR 0x0A then [] # split_crlf cs
      else case split_crlf (d # cs) of [] \<Rightarrow> [[c]] | p # ps \<Rightarrow> (c # p) # ps)"

section \<open>Requests\<close>

datatype http_probe_error =
    RequestWriteFailed
  | ResponseHeadersUnavailable
  | InvalidResponseHeaders
  | ResponseTooLarge
  | ResponseBodyIncomplete
  | ResponseReadFailed

definition crlf :: string where
  "crlf = [CHR 0x0D, CHR 0x0A]"

definition http_get_request :: "attach_endpoint \<Rightarrow> string \<Rightarrow> string" where
  "http_get_request e path =
     format [''GET '', path, '' HTTP/1.1'', crlf, ''Host: '', host_ip e, '':'', show_u16 (host_port e),
       crlf, ''Connection: close'', crlf, crlf]"

section \<open>Reading a response\<close>

definition MAX_HTTP_RESPONSE_BYTES :: nat where
  "MAX_HTTP_RESPONSE_BYTES = 64 * 1024"

record http_response =
  status_code :: u16
  body :: string

datatype read_event = ReadBytes string | ReadTimedOut | ReadFailed

datatype http_read = HttpData | HttpEnd | HttpTimeout

record http_reader =
  hr_stream :: "read_event list"
  hr_response :: string

text \<open>\<open>stream.read(&mut buffer)\<close> with a buffer of 512 bytes.\<close>

fun stream_read :: "read_event list \<Rightarrow> read_event \<times> read_event list" where
  "stream_read [] = (ReadBytes [], [])"
| "stream_read (ReadBytes bs # es) =
     (ReadBytes (take 512 bs), if length bs \<le> 512 then es else ReadBytes (drop 512 bs) # es)"
| "stream_read (e # es) = (e, es)"

definition read_chunk :: "http_reader \<Rightarrow> (http_probe_error + http_read) \<times> http_reader" where
  "read_chunk r =
     (case stream_read (hr_stream r) of
        (ReadBytes bs, es) \<Rightarrow>
          if bs = [] then (Ok HttpEnd, r\<lparr>hr_stream := es\<rparr>)
          else (case checked_add_usize (length (hr_response r)) (length bs) of
              None \<Rightarrow> (Err ResponseTooLarge, r\<lparr>hr_stream := es\<rparr>)
            | Some next_len \<Rightarrow>
                if MAX_HTTP_RESPONSE_BYTES < next_len
                then (Err ResponseTooLarge, r\<lparr>hr_stream := es\<rparr>)
                else (Ok HttpData, r\<lparr>hr_stream := es, hr_response := hr_response r @ bs\<rparr>))
      | (ReadTimedOut, es) \<Rightarrow> (Ok HttpTimeout, r\<lparr>hr_stream := es\<rparr>)
      | (ReadFailed, es) \<Rightarrow> (Err ResponseReadFailed, r\<lparr>hr_stream := es\<rparr>))"

text \<open>What is left to read; a read that delivers data makes it smaller.\<close>

fun event_size :: "read_event \<Rightarrow> nat" where
  "event_size (ReadBytes bs) = Suc (length bs)"
| "event_size _ = 1"

definition stream_size :: "http_reader \<Rightarrow> nat" where
  "stream_size r = sum_list (map event_size (hr_stream r))"

lemma read_chunk_Data:
  "read_chunk r = (Ok HttpData, r') \<Longrightarrow>
     stream_size r' < stream_size r \<and> length (hr_response r') \<le> MAX_HTTP_RESPONSE_BYTES
     \<and> (\<exists>bs. bs \<noteq> [] \<and> hr_response r' = hr_response r @ bs)"
  by (cases "hr_stream r" rule: stream_read.cases)
    (auto simp: read_chunk_def stream_size_def checked_add_usize_def split: if_splits)

fun http_body_start :: "string \<Rightarrow> nat option" where
  "http_body_start [] = None"
| "http_body_start (c # cs) =
     (if take 4 (c # cs) = crlf @ crlf then Some 4 else map_option Suc (http_body_start cs))"

function read_headers :: "http_reader \<Rightarrow> (http_probe_error + nat) \<times> http_reader" where
  "read_headers r =
     (case http_body_start (hr_response r) of
        Some n \<Rightarrow> (Ok n, r)
      | None \<Rightarrow>
          (case read_chunk r of
             (Inl e, r') \<Rightarrow> (Err e, r')
           | (Inr HttpData, r') \<Rightarrow> read_headers r'
           | (Inr _, r') \<Rightarrow> (Err ResponseHeadersUnavailable, r')))"
  by pat_completeness auto
termination
  by (relation "measure stream_size") (auto dest!: read_chunk_Data [OF sym])

function fill_to :: "nat \<Rightarrow> http_reader \<Rightarrow> (http_probe_error + unit) \<times> http_reader" where
  "fill_to len r =
     (if length (hr_response r) < len
      then (case read_chunk r of
          (Inl e, r') \<Rightarrow> (Err e, r')
        | (Inr HttpData, r') \<Rightarrow> fill_to len r'
        | (Inr _, r') \<Rightarrow> (Err ResponseBodyIncomplete, r'))
      else (Ok (), r))"
  by pat_completeness auto
termination
  by (relation "measure (\<lambda>(len, r). stream_size r)") (auto dest!: read_chunk_Data [OF sym])

definition read_declared_body ::
  "nat \<Rightarrow> nat \<Rightarrow> http_reader \<Rightarrow> (http_probe_error + unit) \<times> http_reader" where
  "read_declared_body body_start content_length r =
     (case checked_add_usize body_start content_length of
        None \<Rightarrow> (Err ResponseTooLarge, r)
      | Some len \<Rightarrow>
          if MAX_HTTP_RESPONSE_BYTES < len then (Err ResponseTooLarge, r)
          else (case fill_to len r of
              (Inl e, r') \<Rightarrow> (Err e, r')
            | (Inr _, r') \<Rightarrow> (Ok (), r'\<lparr>hr_response := take len (hr_response r')\<rparr>)))"

function read_undeclared_body :: "http_reader \<Rightarrow> (http_probe_error + unit) \<times> http_reader" where
  "read_undeclared_body r =
     (case read_chunk r of
        (Inl e, r') \<Rightarrow> (Err e, r')
      | (Inr HttpData, r') \<Rightarrow> read_undeclared_body r'
      | (Inr _, r') \<Rightarrow> (Ok (), r'))"
  by pat_completeness auto
termination
  by (relation "measure stream_size") (auto dest!: read_chunk_Data [OF sym])

declare read_headers.simps [simp del] fill_to.simps [simp del] read_undeclared_body.simps [simp del]

text \<open>The header lines after the status line: the last \<open>Content-Length\<close> counts.\<close>

fun content_length_of :: "string list \<Rightarrow> nat option \<Rightarrow> http_probe_error + nat option" where
  "content_length_of [] acc = Ok acc"
| "content_length_of (line # ls) acc =
     (case split_once CHR '':'' line of
        None \<Rightarrow> content_length_of ls acc
      | Some (name, v) \<Rightarrow>
          if to_ascii_lowercase name = ''content-length''
          then (case parse_usize (trim v) of
              None \<Rightarrow> Err InvalidResponseHeaders
            | Some n \<Rightarrow> content_length_of ls (Some n))
          else content_length_of ls acc)"

definition parse_http_response_headers :: "string \<Rightarrow> http_probe_error + (u16 \<times> nat option)" where
  "parse_http_response_headers headers =
     (if \<not> valid_utf8 headers then Err InvalidResponseHeaders
      else case split_crlf headers of
        [] \<Rightarrow> Err InvalidResponseHeaders
      | status_line # ls \<Rightarrow>
          (case split_whitespace status_line of
             [] \<Rightarrow> Err InvalidResponseHeaders
           | version # parts \<Rightarrow>
               if \<not> starts_with version ''HTTP/1.'' then Err InvalidResponseHeaders
               else (case parts of
                   [] \<Rightarrow> Err InvalidResponseHeaders
                 | code # _ \<Rightarrow>
                     (case parse_u16 code of
                        None \<Rightarrow> Err InvalidResponseHeaders
                      | Some c \<Rightarrow> map_ok (\<lambda>cl. (c, cl)) (content_length_of ls None)))))"

definition read_response :: "read_event list \<Rightarrow> http_probe_error + http_response" where
  "read_response es =
     (case read_headers \<lparr>hr_stream = es, hr_response = []\<rparr> of
        (Inl e, _) \<Rightarrow> Err e
      | (Inr body_start, r) \<Rightarrow>
          (case parse_http_response_headers (take body_start (hr_response r)) of
             Inl e \<Rightarrow> Err e
           | Inr (code, cl) \<Rightarrow>
               (case (case cl of Some n \<Rightarrow> read_declared_body body_start n r
                      | None \<Rightarrow> read_undeclared_body r) of
                  (Inl e, _) \<Rightarrow> Err e
                | (Inr _, r') \<Rightarrow>
                    Ok \<lparr>status_code = code, body = drop body_start (hr_response r')\<rparr>)))"

definition get_response :: "bool \<Rightarrow> read_event list \<Rightarrow> http_probe_error + http_response" where
  "get_response request_written es =
     (if request_written then read_response es else Err RequestWriteFailed)"

section \<open>\<open>health.rs\<close>\<close>

datatype runtime_health = Healthy | Unhealthy string

fun is_healthy :: "runtime_health \<Rightarrow> bool" where
  "is_healthy Healthy = True"
| "is_healthy (Unhealthy reason) = False"

fun health_status_str :: "runtime_health \<Rightarrow> string" where
  "health_status_str Healthy = ''healthy''"
| "health_status_str (Unhealthy reason) = ''unhealthy''"

fun health_reason :: "runtime_health \<Rightarrow> string" where
  "health_reason Healthy = ''ok''"
| "health_reason (Unhealthy reason) = reason"

definition health_response_status ::
  "(string \<Rightarrow> bool option) \<Rightarrow> http_response \<Rightarrow> health_response_policy \<Rightarrow> runtime_health" where
  "health_response_status healthy_flag r policy =
     (if status_code r \<noteq> 200 then Unhealthy (format [''HTTP '', show_u16 (status_code r)])
      else case policy of
        HttpOk \<Rightarrow> Healthy
      | JsonHealthyFlag \<Rightarrow>
          (case healthy_flag (body r) of
             Some True \<Rightarrow> Healthy
           | Some False \<Rightarrow> Unhealthy ''healthy=false''
           | None \<Rightarrow> Unhealthy ''malformed JSON''))"

text \<open>One resolved address: no connection, or whether the request went out and what came back.\<close>

datatype connection = ConnectFailed | Connected bool "read_event list"

definition endpoint_connection_health ::
  "(string \<Rightarrow> bool option) \<Rightarrow> runtime_kind \<Rightarrow> bool \<Rightarrow> read_event list \<Rightarrow> runtime_health" where
  "endpoint_connection_health healthy_flag runtime written es =
     (case get_response written es of
        Inl _ \<Rightarrow> Unhealthy ''unreachable''
      | Inr r \<Rightarrow> health_response_status healthy_flag r (response_policy (profile runtime)))"

fun check_addresses ::
  "(string \<Rightarrow> bool option) \<Rightarrow> runtime_kind \<Rightarrow> connection list \<Rightarrow> runtime_health option \<Rightarrow> runtime_health" where
  "check_addresses hf runtime [] last_unhealthy = unwrap_or last_unhealthy (Unhealthy ''unreachable'')"
| "check_addresses hf runtime (ConnectFailed # cs) last_unhealthy = check_addresses hf runtime cs last_unhealthy"
| "check_addresses hf runtime (Connected written es # cs) last_unhealthy =
     (let health = endpoint_connection_health hf runtime written es
      in if is_healthy health then health else check_addresses hf runtime cs (Some health))"

text \<open>\<open>HostRuntimeHealthProbe::check\<close>; \<^const>\<open>None\<close> stands for addresses that do not resolve.\<close>

definition probe_check ::
  "(string \<Rightarrow> bool option) \<Rightarrow> runtime_kind \<Rightarrow> connection list option \<Rightarrow> runtime_health" where
  "probe_check hf runtime addresses =
     (case addresses of
        None \<Rightarrow> Unhealthy ''unreachable''
      | Some cs \<Rightarrow> check_addresses hf runtime cs None)"

end
