(* ===== verification/World.thy ===== *)
theory World
  imports RunSpec Config Http
begin

text \<open>
  The host the commands act on. \<open>'w\<close> is the state of everything outside the process; a host gives
  what each outside operation does to it. On top of it: processes (\<open>src/process.rs\<close>), the Podman
  executor and client (\<open>src/podman/executor.rs\<close>, \<open>client.rs\<close>), and traces of the commands that ran.
  Diagnostics and progress output are left out. JSON decoders and Rust's debug quoting are
  parameters of the host.
\<close>

section \<open>Processes\<close>

text \<open>\<open>std::process::ExitStatus\<close>: an exit code, or death by a signal.\<close>

datatype exit_status = Exited int | Signaled

fun exit_success :: "exit_status \<Rightarrow> bool" where
  "exit_success (Exited c) = (c = 0)"
| "exit_success Signaled = False"

fun exit_code_of :: "exit_status \<Rightarrow> int option" where
  "exit_code_of (Exited c) = Some c"
| "exit_code_of Signaled = None"

definition show_int :: "int \<Rightarrow> string" where
  "show_int i = (if i < 0 then CHR ''-'' # show_nat (nat (- i)) else show_nat (nat i))"

fun format_status :: "exit_status \<Rightarrow> string" where
  "format_status (Exited c) = ''exit status '' @ show_int c"
| "format_status Signaled = ''signal''"

record process_output =
  po_stdout :: string
  po_stderr :: string

record process_status_output = process_output +
  po_status :: exit_status

text \<open>Why a process gave no status: the program is missing, it could not be run, its output could
  not be read, or it is not UTF-8.\<close>

datatype capture_failure =
    ProgramNotFound
  | SpawnFailed string
  | ReadStreamFailed string string
  | NotUtf8 string

definition output_detail :: "string \<Rightarrow> string \<Rightarrow> string" where
  "output_detail out err =
     unwrap_or (find (\<lambda>d. d \<noteq> []) [trim err, trim out]) ''no output''"

definition stderr_or_status_detail :: "process_status_output \<Rightarrow> string" where
  "stderr_or_status_detail o' =
     (if trim (po_stderr o') = [] then format_status (po_status o') else trim (po_stderr o'))"

definition has_whitespace :: "string \<Rightarrow> bool" where
  "has_whitespace s \<longleftrightarrow> list_ex (\<lambda>i. 0 < ws_len (map byte_of (drop i s))) [0..<length s]"

definition shell_quote :: "(string \<Rightarrow> string) \<Rightarrow> string \<Rightarrow> string" where
  "shell_quote debug text =
     (if text = [] \<or> has_whitespace text \<or> CHR 0x27 \<in> set text \<or> CHR 0x22 \<in> set text
      then debug text else text)"

definition describe_command :: "(string \<Rightarrow> string) \<Rightarrow> string list \<Rightarrow> string" where
  "describe_command debug argv = join '' '' (map (shell_quote debug) argv)"

definition spawn_error :: "(string \<Rightarrow> string) \<Rightarrow> string list \<Rightarrow> capture_failure \<Rightarrow> error" where
  "spawn_error debug argv f =
     (case f of
        ProgramNotFound \<Rightarrow> msg [tick (hd argv), '' was not found on PATH; install '', tick (hd argv),
          '' or add it to PATH'']
      | SpawnFailed e \<Rightarrow> msg [''failed to run '', tick (describe_command debug argv), '': '', e]
      | ReadStreamFailed stream e \<Rightarrow> msg [''failed to read '', stream, '' from '',
          tick (describe_command debug argv), '': '', e]
      | NotUtf8 e \<Rightarrow> Utf8 e)"

definition exit_error :: "(string \<Rightarrow> string) \<Rightarrow> string list \<Rightarrow> process_status_output \<Rightarrow> error" where
  "exit_error debug argv o' =
     msg [tick (describe_command debug argv), '' exited with '', format_status (po_status o'), '': '',
       output_detail (po_stdout o') (po_stderr o')]"

section \<open>The host\<close>

text \<open>What a launch needs from parts that are not modelled: the preflight report, the development
  environment, and the passthrough of Wayland, Git and SSH.\<close>

record preflight_report =
  pf_host_nix_mounts :: "runtime_mount list"
  pf_runtime_mounts :: "runtime_mount list"
  pf_runtime_environment :: "(string \<times> string) list"

datatype git_identity_passthrough = HostIdentity | CodexExecIdentity

record passthrough =
  pt_mounts :: "runtime_mount list"
  pt_env :: "(string \<times> string) list"

record 'w host =
  run_process :: "string list \<Rightarrow> 'w \<Rightarrow> (capture_failure + process_status_output) \<times> 'w"
  run_inherited :: "string list \<Rightarrow> 'w \<Rightarrow> (capture_failure + exit_status) \<times> 'w"
  run_client :: "runtime_invocation \<Rightarrow> codex_attach_token option \<Rightarrow> 'w \<Rightarrow> exit_status res \<times> 'w"
  install_sigint :: "'w \<Rightarrow> unit res \<times> 'w"
  interrupted :: "'w \<Rightarrow> bool \<times> 'w"
  clock_now :: "'w \<Rightarrow> nat \<times> 'w"
  clock_sleep :: "nat \<Rightarrow> 'w \<Rightarrow> unit \<times> 'w"
  connect :: "attach_endpoint \<Rightarrow> string \<Rightarrow> 'w \<Rightarrow> connection list option \<times> 'w"
  random_token :: "'w \<Rightarrow> u8 list res \<times> 'w"
  write_token_file :: "string \<Rightarrow> string \<Rightarrow> 'w \<Rightarrow> unit res \<times> 'w"
  read_token_file :: "string \<Rightarrow> 'w \<Rightarrow> (string option) res \<times> 'w"
  token_file_path :: "string \<Rightarrow> path"
  remove_token_file :: "string \<Rightarrow> 'w \<Rightarrow> unit res \<times> 'w"
  preflight :: "runtime_kind \<Rightarrow> runtime_run_mode \<Rightarrow> 'w \<Rightarrow> preflight_report res \<times> 'w"
  resolve_dev_env :: "path \<Rightarrow> path \<Rightarrow> 'w \<Rightarrow> dev_environment res \<times> 'w"
  find_program :: "string \<Rightarrow> 'w \<Rightarrow> bool \<times> 'w"
  ensure_image :: "runtime_kind \<Rightarrow> path \<Rightarrow> 'w \<Rightarrow> (string option) res \<times> 'w"
  host_passthrough :: "git_identity_passthrough \<Rightarrow> path \<Rightarrow> 'w \<Rightarrow> passthrough \<times> 'w"
  acquire_lock :: "string \<Rightarrow> 'w \<Rightarrow> unit res \<times> 'w"
  release_lock :: "string \<Rightarrow> 'w \<Rightarrow> unit \<times> 'w"
  filesystem :: "'w \<Rightarrow> target_host \<times> 'w"
  root_probe :: "'w \<Rightarrow> git_root_probe \<times> 'w"
  load_config :: "'w \<Rightarrow> agentbox_config \<times> 'w"
  debug_quote :: "string \<Rightarrow> string"
  ps_of_json :: "string \<Rightarrow> string + podman_ps_container list"
  inspect_of_json :: "string \<Rightarrow> string + podman_container_inspect list"
  healthy_flag :: "string \<Rightarrow> bool option"
  args_of_json :: "string \<Rightarrow> string + string list"
  args_to_json :: "string list \<Rightarrow> string"
  primary_gid :: nat
  host_build :: build

section \<open>Podman\<close>

definition podman_argv :: "string list \<Rightarrow> string list" where
  "podman_argv args = ''podman'' # args"

text \<open>\<open>ProcessCommand::capture\<close>: any status but success is an error.\<close>

definition capture :: "'w host \<Rightarrow> string list \<Rightarrow> ('w, process_output res) io" where
  "capture h argv = do {
     r \<leftarrow> State (run_process h argv);
     pure (case r of
         Inl f \<Rightarrow> Err (spawn_error (debug_quote h) argv f)
       | Inr o' \<Rightarrow>
           if exit_success (po_status o')
           then Ok \<lparr>po_stdout = po_stdout o', po_stderr = po_stderr o'\<rparr>
           else Err (exit_error (debug_quote h) argv o')) }"

definition command_status :: "'w host \<Rightarrow> string list \<Rightarrow> ('w, exit_status res) io" where
  "command_status h argv = do {
     r \<leftarrow> State (run_inherited h argv);
     pure (case r of
         Inl f \<Rightarrow> Err (spawn_error (debug_quote h) argv f)
       | Inr st \<Rightarrow> Ok st) }"

definition run_quiet :: "'w host \<Rightarrow> string list \<Rightarrow> ('w, process_output res) io" where
  "run_quiet h args = capture h (podman_argv args)"

definition run_json ::
  "'w host \<Rightarrow> (string \<Rightarrow> string + 'a) \<Rightarrow> string list \<Rightarrow> ('w, 'a res) io" where
  "run_json h of_json args = attempt (run_quiet h args) (\<lambda>o'.
     pure (map_err (\<lambda>e. msg [''failed to parse '',
        tick (describe_command (debug_quote h) (podman_argv args)), '': '', e]) (of_json (po_stdout o'))))"

definition exists_status :: "'w host \<Rightarrow> string list \<Rightarrow> ('w, bool res) io" where
  "exists_status h args = attempt (command_status h (podman_argv args)) (\<lambda>st.
     pure (if exit_code_of st = Some 0 then Ok True
           else if exit_code_of st = Some 1 then Ok False
           else Err (msg [tick (describe_command (debug_quote h) (podman_argv args)),
             '' exited with '', format_status st])))"

definition podman_ps :: "'w host \<Rightarrow> ('w, podman_ps_container list res) io" where
  "podman_ps h = run_json h (ps_of_json h)
     [''ps'', ''--all'', ''--filter'', managed_label_filter, ''--format'', ''json'']"

definition podman_ps_all :: "'w host \<Rightarrow> ('w, podman_ps_container list res) io" where
  "podman_ps_all h = run_json h (ps_of_json h) [''ps'', ''--all'', ''--format'', ''json'']"

definition inspect_one :: "'w host \<Rightarrow> string \<Rightarrow> ('w, podman_container_inspect res) io" where
  "inspect_one h name =
     attempt (run_json h (inspect_of_json h) [''container'', ''inspect'', name]) (\<lambda>is.
       pure (case is of
           [] \<Rightarrow> Err (msg [tick ''podman container inspect'', '' returned no containers for '', tick name])
         | i # _ \<Rightarrow> Ok i))"

definition container_exists :: "'w host \<Rightarrow> string \<Rightarrow> ('w, bool res) io" where
  "container_exists h name = exists_status h [''container'', ''exists'', name]"

definition volume_exists :: "'w host \<Rightarrow> string \<Rightarrow> ('w, bool res) io" where
  "volume_exists h name = exists_status h [''volume'', ''exists'', name]"

definition image_exists :: "'w host \<Rightarrow> string \<Rightarrow> ('w, bool res) io" where
  "image_exists h img = exists_status h [''image'', ''exists'', img]"

definition remove_image :: "'w host \<Rightarrow> string \<Rightarrow> ('w, unit res) io" where
  "remove_image h img = map_io (map_ok (\<lambda>_. ())) (run_quiet h [''image'', ''rm'', img])"

definition remove_volume :: "'w host \<Rightarrow> string \<Rightarrow> ('w, unit res) io" where
  "remove_volume h v = map_io (map_ok (\<lambda>_. ())) (run_quiet h [''volume'', ''rm'', v])"

definition stop_ignore :: "'w host \<Rightarrow> string \<Rightarrow> ('w, unit res) io" where
  "stop_ignore h name = map_io (map_ok (\<lambda>_. ())) (run_quiet h [''stop'', ''--ignore'', name])"

definition logs_tail :: "'w host \<Rightarrow> string \<Rightarrow> nat \<Rightarrow> ('w, string res) io" where
  "logs_tail h name n =
     map_io (map_ok (\<lambda>o'.
         po_stdout o' @
         (if po_stdout o' \<noteq> [] \<and> last (po_stdout o') \<noteq> CHR 0x0A \<and> po_stderr o' \<noteq> [] then [CHR 0x0A] else [])
         @ po_stderr o'))
       (run_quiet h [''logs'', ''--tail'', show_nat n, name])"

definition run_detached :: "'w host \<Rightarrow> string \<Rightarrow> runtime_run_spec \<Rightarrow> ('w, unit res) io" where
  "run_detached h name s =
     map_io (map_ok (\<lambda>_. ())) (run_quiet h (run_detached_args name s (primary_gid h)))"

definition run_foreground ::
  "'w host \<Rightarrow> string \<Rightarrow> runtime_run_spec \<Rightarrow> bool \<Rightarrow> ('w, exit_status res) io" where
  "run_foreground h name s use_tty =
     command_status h (podman_argv (run_foreground_args name s (primary_gid h) use_tty))"

section \<open>Discovery on the host\<close>

fun discover_io_loop ::
  "'w host \<Rightarrow> (podman_ps_container \<times> container_kind) list \<Rightarrow> session_collector
     \<Rightarrow> ('w, session_collector res) io" where
  "discover_io_loop h [] col = pure (Ok col)"
| "discover_io_loop h ((c, kind) # cs) col =
     (if \<not> should_inspect_ps_candidate (sc_scope col) c then discover_io_loop h cs col
      else attempt (inspect_one h (ps_id c)) (\<lambda>i. do {
        probe \<leftarrow> State (root_probe h);
        discover_io_loop h cs
          (collect_session (build_session_record (sha256 (host_build h)) probe c i kind) col) }))"

definition discover_io ::
  "'w host \<Rightarrow> session_discovery_scope \<Rightarrow> container_discovery_scope \<Rightarrow> ('w, session_record list res) io" where
  "discover_io h scope cscope =
     attempt (case cscope of ManagedSessions \<Rightarrow> podman_ps h | AgentboxOwned \<Rightarrow> podman_ps_all h) (\<lambda>containers.
     attempt (discover_io_loop h (filter_map (ps_candidate cscope) containers) (new_collector scope)) (\<lambda>col.
       pure (finish_collector col)))"

definition discover_root ::
  "'w host \<Rightarrow> container_discovery_scope \<Rightarrow> path \<Rightarrow> ('w, session_record list res) io" where
  "discover_root h cscope root = discover_io h (scope_for_git_root (sha256 (host_build h)) root) cscope"

end
