(* ===== verification/Trace.thy ===== *)
theory Trace
  imports World
begin

text \<open>
  Traces: a host that also records what was run and written, and a calculus for which events an
  operation may cause. The ordering properties of the commands are stated over it.
\<close>

datatype event =
    Ran "string list" "exit_status option"
  | ClientRun runtime_invocation
  | TokenWritten string
  | TokenRemoved string
  | Slept nat
  | Locked string
  | Unlocked string
  | FileRemoved path

definition outcome_status :: "capture_failure + process_status_output \<Rightarrow> exit_status option" where
  "outcome_status r = (case r of Inl _ \<Rightarrow> None | Inr o' \<Rightarrow> Some (po_status o'))"

definition record_op ::
  "('w \<Rightarrow> 'a \<times> 'w) \<Rightarrow> ('a \<Rightarrow> event list) \<Rightarrow> 'w \<times> event list \<Rightarrow> 'a \<times> ('w \<times> event list)" where
  "record_op f ev s = (case f (fst s) of (r, w') \<Rightarrow> (r, (w', snd s @ ev r)))"

definition logged :: "'w host \<Rightarrow> ('w \<times> event list) host" where
  "logged h = \<lparr>
     run_process = (\<lambda>argv. record_op (run_process h argv) (\<lambda>r. [Ran argv (outcome_status r)])),
     run_inherited = (\<lambda>argv. record_op (run_inherited h argv) (\<lambda>r. [Ran argv (ok_of r)])),
     run_client = (\<lambda>i t. record_op (run_client h i t) (\<lambda>_. [ClientRun i])),
     install_sigint = record_op (install_sigint h) (\<lambda>_. []),
     interrupted = record_op (interrupted h) (\<lambda>_. []),
     clock_now = record_op (clock_now h) (\<lambda>_. []),
     clock_sleep = (\<lambda>d. record_op (clock_sleep h d) (\<lambda>_. [Slept d])),
     connect = (\<lambda>e p. record_op (connect h e p) (\<lambda>_. [])),
     random_token = record_op (random_token h) (\<lambda>_. []),
     write_token_file = (\<lambda>d v. record_op (write_token_file h d v) (\<lambda>_. [TokenWritten d])),
     read_token_file = (\<lambda>d. record_op (read_token_file h d) (\<lambda>_. [])),
     token_file_path = token_file_path h,
     remove_token_file = (\<lambda>d. record_op (remove_token_file h d) (\<lambda>_. [TokenRemoved d])),
     preflight = (\<lambda>k m. record_op (preflight h k m) (\<lambda>_. [])),
     resolve_dev_env = (\<lambda>a b. record_op (resolve_dev_env h a b) (\<lambda>_. [])),
     find_program = (\<lambda>p. record_op (find_program h p) (\<lambda>_. [])),
     ensure_image = (\<lambda>k p. record_op (ensure_image h k p) (\<lambda>_. [])),
     host_passthrough = (\<lambda>g p. record_op (host_passthrough h g p) (\<lambda>_. [])),
     acquire_lock = (\<lambda>d. record_op (acquire_lock h d) (\<lambda>r. case r of Inr _ \<Rightarrow> [Locked d] | Inl _ \<Rightarrow> [])),
     release_lock = (\<lambda>d. record_op (release_lock h d) (\<lambda>_. [Unlocked d])),
     filesystem = record_op (filesystem h) (\<lambda>_. []),
     root_probe = record_op (root_probe h) (\<lambda>_. []),
     load_config = record_op (load_config h) (\<lambda>_. []),
     debug_quote = debug_quote h, ps_of_json = ps_of_json h, inspect_of_json = inspect_of_json h,
     healthy_flag = healthy_flag h, args_of_json = args_of_json h, args_to_json = args_to_json h,
     primary_gid = primary_gid h, host_build = host_build h\<rparr>"

section \<open>Which events an operation may cause\<close>

definition only :: "(event \<Rightarrow> bool) \<Rightarrow> ('w \<times> event list, 'a) io \<Rightarrow> bool" where
  "only P m \<longleftrightarrow> state_io_rel (\<lambda>s s'. \<exists>es. snd s' = snd s @ es \<and> list_all P es) m"

named_theorems only_intros \<open>events of composed operations\<close>

lemma onlyD:
  "only P m \<Longrightarrow> run_state m s = (a, s') \<Longrightarrow> \<exists>es. snd s' = snd s @ es \<and> list_all P es"
  by (auto simp: only_def)

lemma onlyI:
  "(\<And>s a s'. run_state m s = (a, s') \<Longrightarrow> \<exists>es. snd s' = snd s @ es \<and> list_all P es) \<Longrightarrow> only P m"
  by (auto simp: only_def)

lemma only_mono: "only P m \<Longrightarrow> (\<And>e. P e \<Longrightarrow> Q e) \<Longrightarrow> only Q m"
  by (fastforce intro!: onlyI dest: onlyD simp: list_all_iff)

lemma only_pure [only_intros]: "only P (pure x)"
  by (auto intro!: onlyI)

lemma only_bind [only_intros]:
  assumes "only P m" and "\<And>x. only P (f x)"
  shows "only P (do { x \<leftarrow> m; f x })"
proof (rule onlyI)
  fix s b s'
  assume "run_state (do { x \<leftarrow> m; f x }) s = (b, s')"
  then obtain a t where "run_state m s = (a, t)" "run_state (f a) t = (b, s')"
    by (auto split: prod.splits)
  then obtain es fs where "snd t = snd s @ es" "list_all P es" "snd s' = snd t @ fs" "list_all P fs"
    using assms onlyD by metis
  then show "\<exists>es. snd s' = snd s @ es \<and> list_all P es" by (intro exI [of _ "es @ fs"]) simp
qed

lemma only_attempt [only_intros]:
  "only P m \<Longrightarrow> (\<And>x. only P (f x)) \<Longrightarrow> only P (attempt m f)"
  unfolding attempt_def by (rule only_bind) (auto intro: only_pure split: sum.splits)

lemma only_map_io [only_intros]: "only P m \<Longrightarrow> only P (map_io f m)"
  unfolding map_io_def by (intro only_intros)

lemma only_io_of [only_intros]: "only P (io_of r)"
  unfolding io_of_def by (intro only_intros)

lemma only_if [only_intros]: "only P a \<Longrightarrow> only P b \<Longrightarrow> only P (if c then a else b)"
  by simp

lemma only_case_option [only_intros]:
  "only P a \<Longrightarrow> (\<And>x. only P (b x)) \<Longrightarrow> only P (case v of None \<Rightarrow> a | Some x \<Rightarrow> b x)"
  by (cases v) simp_all

lemma only_case_sum [only_intros]:
  "(\<And>x. only P (a x)) \<Longrightarrow> (\<And>x. only P (b x)) \<Longrightarrow> only P (case v of Inl x \<Rightarrow> a x | Inr x \<Rightarrow> b x)"
  by (cases v) simp_all

lemma only_record: "(\<And>r. list_all P (ev r)) \<Longrightarrow> only P (State (record_op f ev))"
  by (auto intro!: onlyI simp: record_op_def split: prod.splits)

lemma only_ops [only_intros]:
  "(\<And>st. P (Ran argv st)) \<Longrightarrow> only P (State (run_process (logged h) argv))"
  "(\<And>st. P (Ran argv st)) \<Longrightarrow> only P (State (run_inherited (logged h) argv))"
  "P (ClientRun i) \<Longrightarrow> only P (State (run_client (logged h) i t))"
  "only P (State (install_sigint (logged h)))"
  "only P (State (interrupted (logged h)))"
  "only P (State (clock_now (logged h)))"
  "P (Slept d) \<Longrightarrow> only P (State (clock_sleep (logged h) d))"
  "only P (State (connect (logged h) e p))"
  "only P (State (random_token (logged h)))"
  "P (TokenWritten g) \<Longrightarrow> only P (State (write_token_file (logged h) g v))"
  "only P (State (read_token_file (logged h) g))"
  "P (TokenRemoved g) \<Longrightarrow> only P (State (remove_token_file (logged h) g))"
  "only P (State (preflight (logged h) k m))"
  "only P (State (resolve_dev_env (logged h) a b))"
  "only P (State (find_program (logged h) prog))"
  "only P (State (ensure_image (logged h) k root))"
  "only P (State (host_passthrough (logged h) git root))"
  "P (Locked g) \<Longrightarrow> only P (State (acquire_lock (logged h) g))"
  "P (Unlocked g) \<Longrightarrow> only P (State (release_lock (logged h) g))"
  "only P (State (filesystem (logged h)))"
  "only P (State (root_probe (logged h)))"
  "only P (State (load_config (logged h)))"
  by (auto simp: logged_def intro!: only_record split: sum.splits)

section \<open>The Podman client\<close>

lemma only_capture [only_intros]: "(\<And>st. P (Ran argv st)) \<Longrightarrow> only P (capture (logged h) argv)"
  unfolding capture_def by (intro only_intros) simp

lemma only_command_status [only_intros]:
  "(\<And>st. P (Ran argv st)) \<Longrightarrow> only P (command_status (logged h) argv)"
  unfolding command_status_def by (intro only_intros) simp

lemma only_run_quiet [only_intros]:
  "(\<And>st. P (Ran (podman_argv args) st)) \<Longrightarrow> only P (run_quiet (logged h) args)"
  unfolding run_quiet_def by (intro only_intros) simp

lemma only_run_json [only_intros]:
  "(\<And>st. P (Ran (podman_argv args) st)) \<Longrightarrow> only P (run_json (logged h) d args)"
  unfolding run_json_def by (intro only_intros) simp

lemma only_exists_status [only_intros]:
  "(\<And>st. P (Ran (podman_argv args) st)) \<Longrightarrow> only P (exists_status (logged h) args)"
  unfolding exists_status_def by (intro only_intros) simp

text \<open>Commands that only read Podman's state.\<close>

definition reads :: "event \<Rightarrow> bool" where
  "reads e \<longleftrightarrow> (case e of
      Ran argv _ \<Rightarrow> take 2 argv \<in> {[''podman'', ''ps''], [''podman'', ''logs'']}
        \<or> take 3 argv \<in> {[''podman'', ''container'', ''inspect''], [''podman'', ''container'', ''exists''],
             [''podman'', ''volume'', ''exists''], [''podman'', ''image'', ''exists'']}
    | _ \<Rightarrow> False)"

lemma only_reads [only_intros]:
  "only reads (podman_ps (logged h))" "only reads (podman_ps_all (logged h))"
  "only reads (inspect_one (logged h) name)" "only reads (container_exists (logged h) name)"
  "only reads (volume_exists (logged h) name)" "only reads (image_exists (logged h) name)"
  "only reads (logs_tail (logged h) name n)"
  unfolding podman_ps_def podman_ps_all_def inspect_one_def container_exists_def volume_exists_def
    image_exists_def logs_tail_def
  by (intro only_intros; simp add: reads_def podman_argv_def)+

lemma only_discover_io_loop: "only reads (discover_io_loop (logged h) cs col)"
  by (induction "logged h" cs col rule: discover_io_loop.induct)
    (auto intro!: only_intros)

lemma only_discover_io [only_intros]: "only reads (discover_io (logged h) scope cscope)"
  unfolding discover_io_def
  by (cases cscope) (auto intro!: only_intros only_discover_io_loop)

lemma only_discover_root [only_intros]: "only reads (discover_root (logged h) cscope root)"
  unfolding discover_root_def by (rule only_discover_io)

text \<open>What \<open>podman container exists\<close> answered, read off its event.\<close>

lemma container_exists_logged:
  assumes "run_state (container_exists (logged h) name) (w, l) = (r, (w', l'))"
  shows "\<exists>st. l' = l @ [Ran [''podman'', ''container'', ''exists'', name] st]
    \<and> (r = Ok False \<longrightarrow> st = Some (Exited 1)) \<and> (r = Ok True \<longrightarrow> st = Some (Exited 0))"
  using assms
  by (auto simp: container_exists_def exists_status_def command_status_def run_attempt logged_def
      record_op_def podman_argv_def ok_of_eq_Some split: prod.splits sum.splits if_splits
      elim!: exit_code_of.elims)

end
