(* ===== verification/Cleanup.thy ===== *)
theory Cleanup
  imports Trace
begin

text \<open>
  Stopping a container and verifying that it is gone (\<open>src/commands/container_cleanup.rs\<close>), Codex
  attach tokens (\<open>src/commands/codex_attach_auth.rs\<close>) and the exit codes of child processes
  (\<open>src/commands/exit_status.rs\<close>). Token files are named by the digest of the git root.
\<close>

section \<open>\<open>container_cleanup.rs\<close>\<close>

datatype container_cleanup_verification = CleanupRemoved | CleanupStillExists | CleanupFailed string

record managed_container_cleanup =
  stop_error :: "string option"
  verification :: container_cleanup_verification

datatype container_cleanup_issue =
    StopFailed string
  | StillExists
  | VerificationFailed string

record container_cleanup_failure =
  ccf_container_name :: string
  ccf_issues :: "container_cleanup_issue list"

definition stop_and_verify :: "'w host \<Rightarrow> string \<Rightarrow> ('w, managed_container_cleanup) io" where
  "stop_and_verify h name = do {
     stopped \<leftarrow> stop_ignore h name;
     exists \<leftarrow> container_exists h name;
     pure \<lparr>stop_error = map_option error_text (err_of stopped),
           verification = (case exists of
               Inr False \<Rightarrow> CleanupRemoved
             | Inr True \<Rightarrow> CleanupStillExists
             | Inl e \<Rightarrow> CleanupFailed (error_text e))\<rparr> }"

definition container_removed :: "managed_container_cleanup \<Rightarrow> bool" where
  "container_removed c \<longleftrightarrow> verification c = CleanupRemoved"

definition stop_issue :: "managed_container_cleanup \<Rightarrow> container_cleanup_issue option" where
  "stop_issue c = map_option StopFailed (stop_error c)"

definition remaining_container_issue :: "managed_container_cleanup \<Rightarrow> container_cleanup_issue option" where
  "remaining_container_issue c =
     (case verification c of
        CleanupRemoved \<Rightarrow> None
      | CleanupStillExists \<Rightarrow> Some StillExists
      | CleanupFailed e \<Rightarrow> Some (VerificationFailed e))"

definition option_list :: "'a option \<Rightarrow> 'a list" where
  "option_list v = (case v of None \<Rightarrow> [] | Some x \<Rightarrow> [x])"

definition interrupted_issues :: "managed_container_cleanup \<Rightarrow> container_cleanup_issue list" where
  "interrupted_issues c = option_list (stop_issue c) @ option_list (remaining_container_issue c)"

fun interrupted_message :: "container_cleanup_issue \<Rightarrow> string" where
  "interrupted_message (StopFailed e) = format [''container stop failed: '', e]"
| "interrupted_message StillExists = ''container still exists after cleanup''"
| "interrupted_message (VerificationFailed e) = format [''container cleanup verification failed: '', e]"

fun stop_message :: "container_cleanup_issue \<Rightarrow> string" where
  "stop_message (StopFailed e) = format [''stop failed: '', e]"
| "stop_message StillExists = ''container still exists after stop''"
| "stop_message (VerificationFailed e) = format [''follow-up inspect failed: '', e]"

definition interrupted_messages :: "managed_container_cleanup \<Rightarrow> string list" where
  "interrupted_messages c = map interrupted_message (interrupted_issues c)"

definition interrupted_cache_volume_skip_message :: "managed_container_cleanup \<Rightarrow> string option" where
  "interrupted_cache_volume_skip_message c =
     (case verification c of
        CleanupRemoved \<Rightarrow> None
      | CleanupStillExists \<Rightarrow> Some ''cache volume removal skipped because the container still exists''
      | CleanupFailed _ \<Rightarrow>
          Some ''cache volume removal skipped because container cleanup could not be verified'')"

definition remaining_failure ::
  "managed_container_cleanup \<Rightarrow> string \<Rightarrow> container_cleanup_failure option" where
  "remaining_failure c name =
     map_option (\<lambda>issue. \<lparr>ccf_container_name = name, ccf_issues = option_list (stop_issue c) @ [issue]\<rparr>)
       (remaining_container_issue c)"

definition render_stop_message :: "container_cleanup_failure \<Rightarrow> string" where
  "render_stop_message f = format [''container '', tick (ccf_container_name f), '' ('',
     join '', '' (map stop_message (ccf_issues f)), '')'']"

definition combined_error_message :: "error \<Rightarrow> error \<Rightarrow> string" where
  "combined_error_message e cleanup = format [error_text e, ''; additionally, '', error_text cleanup]"

definition combine_error_with_cleanup_result :: "error \<Rightarrow> unit res \<Rightarrow> error" where
  "combine_error_with_cleanup_result e cleanup =
     (case cleanup of Inr _ \<Rightarrow> e | Inl c \<Rightarrow> Message (combined_error_message e c))"

section \<open>\<open>codex_attach_auth.rs\<close>\<close>

definition token_from_value :: "(string \<Rightarrow> digest) \<Rightarrow> string \<Rightarrow> codex_attach_token" where
  "token_from_value sha v = \<lparr>token_value = v, token_sha256 = sha256_hex sha v\<rparr>"

definition generate_token :: "'w host \<Rightarrow> ('w, codex_attach_token res) io" where
  "generate_token h = map_io (map_ok (\<lambda>bytes. token_from_value (sha256 (host_build h)) (hex_lower bytes)))
     (State (random_token h))"

definition create_managed :: "'w host \<Rightarrow> workspace_identity \<Rightarrow> ('w, codex_attach_token res) io" where
  "create_managed h w = attempt (generate_token h) (\<lambda>t.
     map_io (map_ok (\<lambda>_. t)) (State (write_token_file h (digest64 w) (token_value t))))"

definition load_managed :: "'w host \<Rightarrow> workspace_identity \<Rightarrow> ('w, codex_attach_token res) io" where
  "load_managed h w = do {
     r \<leftarrow> State (read_token_file h (digest64 w));
     let path = token_file_path h (digest64 w);
     pure (case r of
         Inl e \<Rightarrow> Err (msg [''failed to read Codex attach token '', tick path, '' for managed session '',
           tick (container_name w), '': '', error_text e])
       | Inr None \<Rightarrow> Err (msg [''missing Codex attach token for managed session '', tick (container_name w),
           '' in '', tick (canonical_git_root w), '' at '', tick path,
           ''; restart or recreate the session before connecting''])
       | Inr (Some v) \<Rightarrow>
           if trim v = [] then Err (msg [''empty Codex attach token '', tick path,
             '' for managed session '', tick (container_name w),
             ''; restart or recreate the session before connecting''])
           else Ok (token_from_value (sha256 (host_build h)) (trim v))) }"

definition prepare_codex_attach_token ::
  "'w host \<Rightarrow> runtime_kind \<Rightarrow> runtime_run_mode \<Rightarrow> workspace_identity
     \<Rightarrow> ('w, codex_attach_token option res) io" where
  "prepare_codex_attach_token h runtime mode w =
     (if runtime \<noteq> Codex then pure (Ok None)
      else case mode of
        ManagedSessionMode \<Rightarrow> map_io (map_ok Some) (create_managed h w)
      | TransientServer \<Rightarrow> map_io (map_ok Some) (generate_token h)
      | Foreground \<Rightarrow> pure (Ok None))"

definition load_codex_attach_token_for_client ::
  "'w host \<Rightarrow> runtime_kind \<Rightarrow> workspace_identity \<Rightarrow> ('w, codex_attach_token option res) io" where
  "load_codex_attach_token_for_client h runtime w =
     (if runtime \<noteq> Codex then pure (Ok None) else map_io (map_ok Some) (load_managed h w))"

definition remove_codex_attach_token_for_session :: "'w host \<Rightarrow> session_record \<Rightarrow> ('w, unit res) io" where
  "remove_codex_attach_token_for_session h s =
     (if sr_runtime_kind s \<noteq> Some Codex then pure (Ok ())
      else case sr_git_root s of
        None \<Rightarrow> pure (Ok ())
      | Some root \<Rightarrow> State (remove_token_file h (git_root_digest64 (sha256 (host_build h)) root)))"

section \<open>Cleaning up sessions\<close>

definition cleanup_managed_container ::
  "'w host \<Rightarrow> session_record \<Rightarrow> ('w, container_cleanup_failure option) io" where
  "cleanup_managed_container h s = do {
     c \<leftarrow> stop_and_verify h (sr_container_name s);
     let failure = remaining_failure c (sr_container_name s);
     (if failure = None
      then do { _ \<leftarrow> remove_codex_attach_token_for_session h s; pure failure }
      else pure failure) }"

fun cleanup_managed_containers ::
  "'w host \<Rightarrow> session_record list \<Rightarrow> ('w, container_cleanup_failure list) io" where
  "cleanup_managed_containers h [] = pure []"
| "cleanup_managed_containers h (s # ss) = do {
     f \<leftarrow> cleanup_managed_container h s;
     fs \<leftarrow> cleanup_managed_containers h ss;
     pure (option_list f @ fs) }"

definition cleanup_transient_container :: "'w host \<Rightarrow> workspace_identity \<Rightarrow> ('w, unit res) io" where
  "cleanup_transient_container h w = do {
     c \<leftarrow> stop_and_verify h (container_name w);
     pure (case remaining_failure c (container_name w) of
         Some f \<Rightarrow> Err (msg [''failed to clean up transient run container '', tick (container_name w),
           '': '', render_stop_message f])
       | None \<Rightarrow> Ok ()) }"

section \<open>\<open>exit_status.rs\<close>\<close>

datatype command_failure_exit = FailureCode u8 | FailureSignal

record command_exit_failure =
  cef_exit :: command_failure_exit
  cef_error :: error

definition exit_code_u8 :: "int \<Rightarrow> u8 option" where
  "exit_code_u8 c = (if 0 \<le> c \<and> c < 256 then Some (of_int c) else None)"

definition failure_exit_from_status :: "exit_status \<Rightarrow> command_failure_exit option" where
  "failure_exit_from_status st =
     (if exit_success st then None
      else case Option.bind (exit_code_of st) exit_code_u8 of
        Some c \<Rightarrow> Some (FailureCode c)
      | None \<Rightarrow> Some FailureSignal)"

definition exit_failure_from_status ::
  "exit_status \<Rightarrow> (exit_status \<Rightarrow> error) \<Rightarrow> command_exit_failure option" where
  "exit_failure_from_status st mk =
     map_option (\<lambda>e. \<lparr>cef_exit = e, cef_error = mk st\<rparr>) (failure_exit_from_status st)"

definition into_direct_error :: "command_exit_failure \<Rightarrow> error" where
  "into_direct_error f =
     (case cef_exit f of FailureCode c \<Rightarrow> ExitCode c | FailureSignal \<Rightarrow> cef_error f)"

definition into_error_with_cleanup_result :: "command_exit_failure \<Rightarrow> unit res \<Rightarrow> error" where
  "into_error_with_cleanup_result f cleanup =
     (case cef_exit f of
        FailureCode c \<Rightarrow> (case cleanup of
            Inr _ \<Rightarrow> ExitCode c
          | Inl ce \<Rightarrow> ExitCodeWithMessage c (combined_error_message (cef_error f) ce))
      | FailureSignal \<Rightarrow> combine_error_with_cleanup_result (cef_error f) cleanup)"

section \<open>What cleanup does and reports\<close>

definition stops :: "event \<Rightarrow> bool" where
  "stops e \<longleftrightarrow> reads e \<or> (case e of Ran argv _ \<Rightarrow> take 2 argv = [''podman'', ''stop''] | _ \<Rightarrow> False)"

lemma only_stop_and_verify [only_intros]: "only stops (stop_and_verify (logged h) name)"
  unfolding stop_and_verify_def stop_ignore_def
  by (intro only_intros only_mono [OF only_reads(4), of stops])
    (simp_all add: stops_def podman_argv_def)

lemma stop_and_verify_logged:
  assumes "run_state (stop_and_verify (logged h) name) (w, l) = (c, (w', l'))"
  shows "\<exists>a b. l' = l @ [Ran [''podman'', ''stop'', ''--ignore'', name] a,
      Ran [''podman'', ''container'', ''exists'', name] b]
    \<and> (container_removed c \<longrightarrow> b = Some (Exited 1))"
proof -
  obtain r w1 l1 where s: "run_state (stop_ignore (logged h) name) (w, l) = (r, (w1, l1))"
    by (metis prod.exhaust_sel)
  obtain e where e: "run_state (container_exists (logged h) name) (w1, l1) = (e, (w', l'))"
      "c = \<lparr>stop_error = map_option error_text (err_of r),
           verification = (case e of Inr False \<Rightarrow> CleanupRemoved | Inr True \<Rightarrow> CleanupStillExists
             | Inl x \<Rightarrow> CleanupFailed (error_text x))\<rparr>"
    using assms s by (auto simp: stop_and_verify_def split: prod.splits)
  obtain a where "l1 = l @ [Ran [''podman'', ''stop'', ''--ignore'', name] a]"
    using s by (auto simp: stop_ignore_def run_quiet_def capture_def map_io_def logged_def
        record_op_def podman_argv_def split: prod.splits)
  moreover obtain b where "l' = l1 @ [Ran [''podman'', ''container'', ''exists'', name] b]"
      "e = Ok False \<longrightarrow> b = Some (Exited 1)"
    using container_exists_logged [OF e(1)] by blast
  moreover have "container_removed c \<Longrightarrow> e = Ok False"
    using e(2) by (auto simp: container_removed_def split: sum.splits bool.splits)
  ultimately show ?thesis by auto
qed

lemma remaining_failure_None: "remaining_failure c name = None \<longleftrightarrow> container_removed c"
  by (auto simp: remaining_failure_def remaining_container_issue_def container_removed_def
      split: container_cleanup_verification.splits)

text \<open>A child's exit code survives the cleanup that follows it. The process exits with the code
  of a child that exited with a non-zero code below 256, whether or not the cleanup succeeded.\<close>

lemma child_exit_code_preserved:
  assumes "exit_failure_from_status st mk = Some f" and "st = Exited c" and "0 \<le> c" and "c < 256"
  shows "c \<noteq> 0 \<and> carried_code (into_error_with_cleanup_result f cleanup) = Some (of_int c)
    \<and> carried_code (into_direct_error f) = Some (of_int c)"
  using assms
  by (auto simp: exit_failure_from_status_def failure_exit_from_status_def exit_code_u8_def
      into_error_with_cleanup_result_def into_direct_error_def split: if_splits sum.splits)

end
