(* ===== verification/Server.thy ===== *)
theory Server
  imports Cleanup
begin

text \<open>
  Starting a runtime server in a detached container and waiting for it: \<open>src/commands/server_readiness\<close>
  (\<open>endpoint.rs\<close>, \<open>waiter.rs\<close>), the log excerpt of a failed launch (\<open>src/commands/launch_policy.rs\<close>)
  and \<open>src/commands/detached_server.rs\<close>. The polling loop carries fuel: \<^const>\<open>None\<close> is a loop that has
  not returned yet, and \<open>readiness_returns\<close> shows how much is enough.
\<close>

section \<open>Operations that may not return\<close>

type_synonym ('w, 'a) loop = "('w, 'a res option) io"

definition attempt_loop :: "('w, 'a) loop \<Rightarrow> ('a \<Rightarrow> ('w, 'b) loop) \<Rightarrow> ('w, 'b) loop" where
  "attempt_loop m f = do {
     r \<leftarrow> m;
     case r of
       None \<Rightarrow> pure None
     | Some (Inl e) \<Rightarrow> pure (Some (Err e))
     | Some (Inr x) \<Rightarrow> f x }"

definition once :: "('w, 'a res) io \<Rightarrow> ('w, 'a) loop" where
  "once m = map_io Some m"

lemma run_attempt_loop:
  "run_state (attempt_loop m f) w =
     (case run_state m w of
        (None, w') \<Rightarrow> (None, w')
      | (Some (Inl e), w') \<Rightarrow> (Some (Err e), w')
      | (Some (Inr x), w') \<Rightarrow> run_state (f x) w')"
  by (auto simp: attempt_loop_def split: prod.splits sum.splits option.splits)

lemma run_once: "run_state (once m) w = (case run_state m w of (r, w') \<Rightarrow> (Some r, w'))"
  by (auto simp: once_def map_io_def split: prod.splits)

lemma only_attempt_loop [only_intros]:
  "only P m \<Longrightarrow> (\<And>x. only P (f x)) \<Longrightarrow> only P (attempt_loop m f)"
  unfolding attempt_loop_def by (rule only_bind) (auto intro: only_pure split: sum.splits option.splits)

lemma only_once [only_intros]: "only P m \<Longrightarrow> only P (once m)"
  unfolding once_def by (intro only_intros)

section \<open>\<open>endpoint.rs\<close>\<close>

datatype server_endpoint_context = ManagedContext | TransientContext

fun context_description :: "server_endpoint_context \<Rightarrow> string" where
  "context_description ManagedContext = ''managed session''"
| "context_description TransientContext = ''transient run container''"

datatype server_endpoint_state = EndpointReady attach_endpoint | EndpointPending string

definition discover_attach_endpoint_from_runtime_inspect ::
  "runtime_kind \<Rightarrow> podman_container_inspect \<Rightarrow> attach_endpoint res" where
  "discover_attach_endpoint_from_runtime_inspect runtime i =
     and_then (published_attach_endpoint (insp_network i) (runtime_attach_spec runtime)) (\<lambda>found.
       ok_or found (msg [''transient run container has no published attach port for '',
         tick (tcp_port_key (runtime_attach_spec runtime))]))"

definition host_probe :: "'w host \<Rightarrow> runtime_kind \<Rightarrow> attach_endpoint \<Rightarrow> ('w, runtime_health) io" where
  "host_probe h runtime e =
     map_io (probe_check (healthy_flag h) runtime) (State (connect h e (health_path (profile runtime))))"

definition inspect_server_endpoint ::
  "'w host \<Rightarrow> workspace_identity \<Rightarrow> runtime_kind \<Rightarrow> server_endpoint_context \<Rightarrow> podman_container_inspect
     \<Rightarrow> ('w, server_endpoint_state res) io" where
  "inspect_server_endpoint h w runtime ctx i =
     (if \<not> insp_running i
      then pure (Err (msg [context_description ctx, '' '', tick (container_name w), '' for '',
        tick (canonical_git_root w), '' exited before the '', tick (runtime_str runtime),
        '' runtime server became reachable; status: '', insp_status i, '', exit code: '',
        show_int (insp_exit_code i)]))
      else case (case ctx of
          ManagedContext \<Rightarrow> discover_attach_endpoint_from_inspect i
        | TransientContext \<Rightarrow> discover_attach_endpoint_from_runtime_inspect runtime i) of
        Inl e \<Rightarrow> pure (Ok (EndpointPending (error_text e)))
      | Inr e \<Rightarrow> do {
          health \<leftarrow> host_probe h runtime e;
          pure (Ok (if is_healthy health then EndpointReady e
            else EndpointPending (format [''endpoint '', tick (attach_endpoint_text e),
              '' is not reachable yet'']))) })"

section \<open>\<open>waiter.rs\<close>\<close>

text \<open>Times are milliseconds.\<close>

definition SERVER_READINESS_TIMEOUT :: nat where "SERVER_READINESS_TIMEOUT = 90000"
definition SERVER_READINESS_POLL_INTERVAL :: nat where "SERVER_READINESS_POLL_INTERVAL = 200"

datatype server_endpoint_wait = WaitReady attach_endpoint | WaitInterrupted

definition not_reachable_error ::
  "workspace_identity \<Rightarrow> server_endpoint_context \<Rightarrow> string option \<Rightarrow> error" where
  "not_reachable_error w ctx last_error =
     msg [''runtime server for '', context_description ctx, '' '', tick (container_name w), '' in '',
       tick (canonical_git_root w), '' did not become reachable: '',
       unwrap_or last_error ''no inspect data was available'']"

fun wait_loop ::
  "nat \<Rightarrow> 'w host \<Rightarrow> workspace_identity \<Rightarrow> runtime_kind \<Rightarrow> server_endpoint_context \<Rightarrow> nat \<Rightarrow> nat
     \<Rightarrow> string option \<Rightarrow> ('w, server_endpoint_wait) loop" where
  "wait_loop 0 h w runtime ctx deadline poll last_error = pure None"
| "wait_loop (Suc fuel) h w runtime ctx deadline poll last_error = do {
     stop \<leftarrow> State (interrupted h);
     if stop then pure (Some (Ok WaitInterrupted))
     else do {
       now \<leftarrow> State (clock_now h);
       if deadline \<le> now then pure (Some (Err (not_reachable_error w ctx last_error)))
       else do {
         i \<leftarrow> inspect_one h (container_name w);
         st \<leftarrow> (case i of
             Inl e \<Rightarrow> pure (Ok (EndpointPending (error_text e)))
           | Inr insp \<Rightarrow> inspect_server_endpoint h w runtime ctx insp);
         case st of
           Inl e \<Rightarrow> pure (Some (Err e))
         | Inr (EndpointReady e) \<Rightarrow> pure (Some (Ok (WaitReady e)))
         | Inr (EndpointPending e) \<Rightarrow> do {
             _ \<leftarrow> State (clock_sleep h poll);
             wait_loop fuel h w runtime ctx deadline poll (Some e) } } } }"

definition wait_for_server_endpoint ::
  "nat \<Rightarrow> 'w host \<Rightarrow> workspace_identity \<Rightarrow> runtime_kind \<Rightarrow> server_endpoint_context
     \<Rightarrow> ('w, server_endpoint_wait) loop" where
  "wait_for_server_endpoint fuel h w runtime ctx = do {
     now \<leftarrow> State (clock_now h);
     wait_loop fuel h w runtime ctx (now + SERVER_READINESS_TIMEOUT) SERVER_READINESS_POLL_INTERVAL None }"

section \<open>\<open>launch_policy.rs\<close>\<close>

definition FAILURE_LOG_TAIL_LINES :: nat where "FAILURE_LOG_TAIL_LINES = 80"

datatype container_log_context = ManagedLog | TransientLog

fun log_description :: "container_log_context \<Rightarrow> string" where
  "log_description ManagedLog = ''container''"
| "log_description TransientLog = ''transient run container''"

definition blank_line :: string where
  "blank_line = [CHR 0x0A, CHR 0x0A]"

definition error_with_container_logs ::
  "'w host \<Rightarrow> workspace_identity \<Rightarrow> container_log_context \<Rightarrow> error \<Rightarrow> ('w, error) io" where
  "error_with_container_logs h w ctx original = do {
     r \<leftarrow> logs_tail h (container_name w) FAILURE_LOG_TAIL_LINES;
     let command = format [''podman logs --tail '', show_nat FAILURE_LOG_TAIL_LINES, '' '', container_name w];
     let what = log_description ctx;
     pure (case r of
         Inr logs \<Rightarrow>
           if trim_end logs = []
           then msg [error_text original, blank_line, what, '' '', tick (container_name w),
             '' produced no logs; inspect it with '', tick command]
           else msg [error_text original, blank_line, what, '' logs ('', tick command, ''):'',
             [CHR 0x0A], trim_end logs]
       | Inl e \<Rightarrow> msg [error_text original, blank_line, ''failed to read '', what, '' logs with '',
           tick command, '': '', error_text e]) }"

section \<open>\<open>detached_server.rs\<close>\<close>

text \<open>The trait \<open>DetachedServerLifecycle\<close>, with its context fixed.\<close>

record 'w lifecycle =
  lc_readiness_context :: server_endpoint_context
  lc_check_interrupted :: "('w, unit res) io"
  lc_run_detached_error :: "error \<Rightarrow> ('w, error) io"
  lc_readiness_error :: "error \<Rightarrow> ('w, error) io"

definition launch_detached_server ::
  "nat \<Rightarrow> 'w host \<Rightarrow> workspace_identity \<Rightarrow> runtime_kind \<Rightarrow> runtime_run_spec \<Rightarrow> 'w lifecycle
     \<Rightarrow> ('w, attach_endpoint) loop" where
  "launch_detached_server fuel h w runtime spec lc =
     attempt_loop (once (State (install_sigint h))) (\<lambda>_. do {
       started \<leftarrow> run_detached h (container_name w) spec;
       case started of
         Inl e \<Rightarrow>
           attempt_loop (once (lc_check_interrupted lc)) (\<lambda>_.
             map_io (\<lambda>e'. Some (Err e')) (lc_run_detached_error lc e))
       | Inr _ \<Rightarrow>
           attempt_loop (once (lc_check_interrupted lc)) (\<lambda>_. do {
             waited \<leftarrow> wait_for_server_endpoint fuel h w runtime (lc_readiness_context lc);
             case waited of
               None \<Rightarrow> pure None
             | Some (Inl e) \<Rightarrow> map_io (\<lambda>e'. Some (Err e')) (lc_readiness_error lc e)
             | Some (Inr WaitInterrupted) \<Rightarrow>
                 attempt_loop (once (lc_check_interrupted lc)) (\<lambda>_.
                   pure (Some (Err (msg [''runtime server readiness wait was interrupted'']))))
             | Some (Inr (WaitReady e)) \<Rightarrow>
                 attempt_loop (once (lc_check_interrupted lc)) (\<lambda>_. pure (Some (Ok e))) }) })"

end
