(* ===== verification/ServerLaws.thy ===== *)
theory ServerLaws
  imports Server
begin

text \<open>
  What waiting for a server guarantees: the wait returns, a ready endpoint is a healthy one of a
  running container, and, for every lifecycle that honours its contract, a launch that succeeds was
  not interrupted.
\<close>

section \<open>The wait returns\<close>

text \<open>A clock: it never goes back, a reading is current, and a sleep lasts at least as long as asked.\<close>

definition clock_advances :: "'w host \<Rightarrow> ('w \<Rightarrow> nat) \<Rightarrow> bool" where
  "clock_advances h clock \<longleftrightarrow>
     (\<forall>s t s'. clock_now h s = (t, s') \<longrightarrow> clock s \<le> t \<and> t \<le> clock s')
   \<and> (\<forall>d s u s'. clock_sleep h d s = (u, s') \<longrightarrow> clock s + d \<le> clock s')
   \<and> (\<forall>s b s'. interrupted h s = (b, s') \<longrightarrow> clock s \<le> clock s')
   \<and> (\<forall>argv s r s'. run_process h argv s = (r, s') \<longrightarrow> clock s \<le> clock s')
   \<and> (\<forall>e p s r s'. connect h e p s = (r, s') \<longrightarrow> clock s \<le> clock s')"

abbreviation later :: "('w \<Rightarrow> nat) \<Rightarrow> 'w \<Rightarrow> 'w \<Rightarrow> bool" where
  "later clock s s' \<equiv> clock s \<le> clock s'"

lemma later_preorder: "reflp (later clock)" "transp (later clock)"
  by (auto intro: reflpI transpI)

lemma later_inspect_one:
  assumes "clock_advances h clock"
  shows "state_io_rel (later clock) (inspect_one h name)"
proof -
  have "state_io_rel (later clock) (State (run_process h argv))" for argv
    using assms by (auto simp: clock_advances_def)
  then show ?thesis
    unfolding inspect_one_def run_json_def run_quiet_def capture_def
    by (intro rel_attempt rel_bind rel_pure later_preorder) auto
qed

lemma later_inspect_server_endpoint:
  assumes "clock_advances h clock"
  shows "state_io_rel (later clock) (inspect_server_endpoint h w runtime ctx i)"
proof -
  have "state_io_rel (later clock) (State (connect h e p))" for e p
    using assms by (auto simp: clock_advances_def)
  then have "state_io_rel (later clock) (host_probe h runtime e)" for e
    unfolding host_probe_def by (intro rel_map_io later_preorder) auto
  then have "state_io_rel (later clock)
      (do { health \<leftarrow> host_probe h runtime e; pure (f health) })" for e and f :: "_ \<Rightarrow> server_endpoint_state res"
    by (intro rel_bind rel_pure later_preorder)
  then show ?thesis
    unfolding inspect_server_endpoint_def
    by (auto simp: rel_pure later_preorder split: sum.splits)
qed

lemma wait_loop_returns:
  assumes "clock_advances h clock" and "deadline \<le> clock s + poll * fuel"
  shows "fst (run_state (wait_loop (Suc fuel) h w runtime ctx deadline poll last_error) s) \<noteq> None"
  using assms(2)
proof (induction fuel arbitrary: s last_error)
  case (0 s)
  obtain b s1 where b: "interrupted h s = (b, s1)" by force
  obtain t s2 where t: "clock_now h s1 = (t, s2)" by force
  have "clock s \<le> clock s1" "clock s1 \<le> t"
    using assms(1) b t by (auto simp: clock_advances_def)
  then have "deadline \<le> t" using 0 by simp
  then show ?case using b t by simp
next
  case (Suc fuel)
  obtain b s1 where b: "interrupted h s = (b, s1)" by force
  obtain t s2 where t: "clock_now h s1 = (t, s2)" by force
  obtain i s3 where i: "run_state (inspect_one h (container_name w)) s2 = (i, s3)" by force
  obtain st s4 where st: "run_state (case i of Inl e \<Rightarrow> pure (Ok (EndpointPending (error_text e)))
      | Inr insp \<Rightarrow> inspect_server_endpoint h w runtime ctx insp) s3 = (st, s4)" by force
  obtain s5 where u: "clock_sleep h poll s4 = ((), s5)" by (metis old.unit.exhaust surj_pair)
  have "clock s3 \<le> clock s4"
  proof (cases i)
    case (Inr insp)
    then show ?thesis
      using st state_io_relD [OF later_inspect_server_endpoint [OF assms(1)]] by simp
  qed (use st in simp)
  moreover have "clock s2 \<le> clock s3"
    using state_io_relD [OF later_inspect_one [OF assms(1)] i] .
  moreover have "clock s \<le> clock s1" "clock s1 \<le> t" "t \<le> clock s2" "clock s4 + poll \<le> clock s5"
    using assms(1) b t u by (auto simp: clock_advances_def)
  ultimately have "deadline \<le> clock s5 + poll * fuel" using Suc.prems by simp
  then have "fst (run_state (wait_loop (Suc fuel) h w runtime ctx deadline poll (Some e)) s5) \<noteq> None" for e
    by (rule Suc.IH)
  then show ?case
    using b t i st u
    by (subst wait_loop.simps)
      (auto simp del: wait_loop.simps split: sum.splits server_endpoint_state.splits)
qed

text \<open>One look at the container of a server.\<close>

definition poll_server ::
  "'w host \<Rightarrow> workspace_identity \<Rightarrow> runtime_kind \<Rightarrow> server_endpoint_context \<Rightarrow> ('w, server_endpoint_state res) io" where
  "poll_server h w runtime ctx = do {
     i \<leftarrow> inspect_one h (container_name w);
     case i of
       Inl e \<Rightarrow> pure (Ok (EndpointPending (error_text e)))
     | Inr insp \<Rightarrow> inspect_server_endpoint h w runtime ctx insp }"

text \<open>A server that comes up while \<open>I\<close> holds of the states: the wait is not interrupted, no look at the container
  fails for good, each step keeps \<open>I\<close> and takes at most \<open>delay\<close>, and the server is ready, at the endpoint \<open>e\<close> only,
  from the time \<open>up\<close> on at the latest.\<close>

definition comes_up ::
  "'w host \<Rightarrow> ('w \<Rightarrow> bool) \<Rightarrow> ('w \<Rightarrow> nat) \<Rightarrow> nat \<Rightarrow> nat \<Rightarrow> workspace_identity \<Rightarrow> runtime_kind
     \<Rightarrow> server_endpoint_context \<Rightarrow> attach_endpoint \<Rightarrow> bool" where
  "comes_up h I clock delay up w runtime ctx e \<longleftrightarrow>
     (\<forall>s b s'. I s \<longrightarrow> interrupted h s = (b, s') \<longrightarrow> \<not> b \<and> I s' \<and> clock s' \<le> clock s + delay)
   \<and> (\<forall>s t s'. I s \<longrightarrow> clock_now h s = (t, s') \<longrightarrow> I s' \<and> clock s' \<le> clock s + delay)
   \<and> (\<forall>d s u s'. I s \<longrightarrow> clock_sleep h d s = (u, s') \<longrightarrow> I s' \<and> clock s' \<le> clock s + d + delay)
   \<and> (\<forall>s r s'. I s \<longrightarrow> run_state (poll_server h w runtime ctx) s = (r, s') \<longrightarrow>
        I s' \<and> clock s' \<le> clock s + delay \<and> (\<exists>st. r = Ok st \<and> (\<forall>e'. st = EndpointReady e' \<longrightarrow> e' = e))
        \<and> (up \<le> clock s \<longrightarrow> r = Ok (EndpointReady e)))"

lemma comes_upD:
  assumes "comes_up h I clock delay up w runtime ctx e" "I s"
  shows "interrupted h s = (b, s') \<Longrightarrow> \<not> b \<and> I s' \<and> clock s' \<le> clock s + delay"
    "clock_now h s = (t, s') \<Longrightarrow> I s' \<and> clock s' \<le> clock s + delay"
    "clock_sleep h d s = (u, s') \<Longrightarrow> I s' \<and> clock s' \<le> clock s + d + delay"
    "run_state (poll_server h w runtime ctx) s = (r, s') \<Longrightarrow>
       I s' \<and> clock s' \<le> clock s + delay \<and> (\<exists>st. r = Ok st \<and> (\<forall>e'. st = EndpointReady e' \<longrightarrow> e' = e))
        \<and> (up \<le> clock s \<longrightarrow> r = Ok (EndpointReady e))"
  using assms unfolding comes_up_def by blast+

lemma run_wait_loop:
  "run_state (wait_loop (Suc fuel) h w runtime ctx deadline poll last_error) s =
     (case interrupted h s of (stop, s1) \<Rightarrow>
        if stop then (Some (Ok WaitInterrupted), s1)
        else case clock_now h s1 of (now, s2) \<Rightarrow>
          if deadline \<le> now then (Some (Err (not_reachable_error w ctx last_error)), s2)
          else case run_state (poll_server h w runtime ctx) s2 of (st, s3) \<Rightarrow>
            (case st of
               Inl e \<Rightarrow> (Some (Err e), s3)
             | Inr (EndpointReady e) \<Rightarrow> (Some (Ok (WaitReady e)), s3)
             | Inr (EndpointPending e) \<Rightarrow> (case clock_sleep h poll s3 of (u, s4) \<Rightarrow>
                 run_state (wait_loop fuel h w runtime ctx deadline poll (Some e)) s4)))"
  by (auto simp: poll_server_def split: prod.splits sum.splits server_endpoint_state.splits)

lemma wait_loop_comes_up:
  assumes "clock_advances h clock" "comes_up h I clock delay up w runtime ctx e"
    and "run_state (wait_loop fuel h w runtime ctx deadline poll last_error) s = (Some r, s')"
    and "I s" "clock s + 2 * delay < deadline" "up + 6 * delay + poll < deadline"
  shows "r = Ok (WaitReady e) \<and> I s'"
  using assms(3-5)
proof (induction fuel arbitrary: s last_error)
  case (Suc fuel)
  note up = comes_upD [OF assms(2)]
  obtain b s1 where s1: "interrupted h s = (b, s1)" by force
  then have i1: "\<not> b" "I s1" "clock s1 \<le> clock s + delay" using up(1) [OF Suc.prems(2)] by blast+
  obtain now s2 where s2: "clock_now h s1 = (now, s2)" by force
  then have i2: "I s2" "clock s2 \<le> clock s1 + delay" using up(2) [OF i1(2)] by blast+
  obtain st s3 where s3: "run_state (poll_server h w runtime ctx) s2 = (Ok st, s3)"
    using up(4) [OF i2(1)] by (metis surj_pair)
  then have i3: "I s3" "clock s3 \<le> clock s2 + delay" using up(4) [OF i2(1)] by blast+
  obtain s4 where s4: "clock_sleep h poll s3 = ((), s4)" by (metis old.unit.exhaust surj_pair)
  then have i4: "I s4" "clock s4 \<le> clock s3 + poll + delay" using up(3) [OF i3(1)] by blast+
  have "now \<le> clock s2" using assms(1) s2 unfolding clock_advances_def by blast
  then have in_time: "now < deadline" using Suc.prems(3) i1(3) i2(2) by simp
  show ?case
  proof (cases st)
    case (EndpointReady e')
    then have "e' = e" using up(4) [OF i2(1) s3] by blast
    with EndpointReady show ?thesis using Suc.prems(1) s1 s2 s3 in_time i1(1) i3(1)
      by (auto simp: run_wait_loop simp del: wait_loop.simps)
  next
    case (EndpointPending t)
    then have "clock s2 < up" using up(4) [OF i2(1) s3] by force
    then have "clock s4 + 2 * delay < deadline" using i3(2) i4(2) assms(6) by simp
    moreover have "run_state (wait_loop fuel h w runtime ctx deadline poll (Some t)) s4 = (Some r, s')"
      using Suc.prems(1) s1 s2 s3 s4 EndpointPending in_time i1(1) by (simp add: run_wait_loop del: wait_loop.simps)
    ultimately show ?thesis using i4(1) Suc.IH by blast
  qed
qed simp

lemma wait_returns:
  assumes "clock_advances h clock" and "451 \<le> fuel"
  obtains r s' where "run_state (wait_for_server_endpoint fuel h w runtime ctx) s = (Some r, s')"
    "\<And>I delay up e. \<lbrakk> comes_up h I clock delay up w runtime ctx e; I s;
       max up (clock s) + 6 * delay + SERVER_READINESS_POLL_INTERVAL < clock s + SERVER_READINESS_TIMEOUT \<rbrakk>
     \<Longrightarrow> r = Ok (WaitReady e) \<and> I s'"
proof -
  obtain n where n: "fuel = Suc n" "450 \<le> n" using assms(2) by (cases fuel) auto
  obtain t s1 where t: "clock_now h s = (t, s1)" by force
  have clock: "t \<le> clock s1" "clock s \<le> t" using assms(1) t by (auto simp: clock_advances_def)
  then have "t + SERVER_READINESS_TIMEOUT \<le> clock s1 + SERVER_READINESS_POLL_INTERVAL * n"
    using n(2) by (simp add: SERVER_READINESS_TIMEOUT_def SERVER_READINESS_POLL_INTERVAL_def)
  from wait_loop_returns [OF assms(1) this] obtain r s'
    where r: "run_state (wait_loop fuel h w runtime ctx (t + SERVER_READINESS_TIMEOUT)
      SERVER_READINESS_POLL_INTERVAL None) s1 = (Some r, s')"
    unfolding n(1) by (metis not_None_eq prod.collapse)
  show thesis
  proof (rule that)
    show "run_state (wait_for_server_endpoint fuel h w runtime ctx) s = (Some r, s')"
      using t r by (simp add: wait_for_server_endpoint_def del: wait_loop.simps)
    fix I delay up e
    assume up: "comes_up h I clock delay up w runtime ctx e" "I s"
      "max up (clock s) + 6 * delay + SERVER_READINESS_POLL_INTERVAL < clock s + SERVER_READINESS_TIMEOUT"
    have m: "clock s \<le> max up (clock s)" "up \<le> max up (clock s)" by simp_all
    show "r = Ok (WaitReady e) \<and> I s'"
    proof (rule wait_loop_comes_up [OF assms(1) up(1) r])
      show "I s1" using comes_upD(2) [OF up(1,2) t] by blast
      show "clock s1 + 2 * delay < t + SERVER_READINESS_TIMEOUT"
        using comes_upD(2) [OF up(1,2) t] up(3) clock(2) m by linarith
      show "up + 6 * delay + SERVER_READINESS_POLL_INTERVAL < t + SERVER_READINESS_TIMEOUT"
        using up(3) clock(2) m by linarith
    qed
  qed
qed

text \<open>C22: the wait for a server always returns, and a server that comes up in time is found. With a clock that
  advances, at most 451 polls happen before the server is ready, the wait was interrupted, or it fails; the timeout
  is 90 seconds and the poll interval 200 milliseconds. When, in the states a condition describes, the wait is not
  interrupted, steps keep the condition and take at most \<open>delay\<close>, and the server is ready from a time on that leaves
  one interval and six delays of the timeout, the wait ends with its endpoint.\<close>

theorem readiness_returns:
  assumes "clock_advances h clock" and "451 \<le> fuel"
  shows "\<exists>r s'. run_state (wait_for_server_endpoint fuel h w runtime ctx) s = (Some r, s')
    \<and> (comes_up h I clock delay up w runtime ctx e \<and> I s
         \<and> max up (clock s) + 6 * delay + SERVER_READINESS_POLL_INTERVAL < clock s + SERVER_READINESS_TIMEOUT
       \<longrightarrow> r = Ok (WaitReady e))"
proof -
  obtain r s' where r: "run_state (wait_for_server_endpoint fuel h w runtime ctx) s = (Some r, s')"
    and up: "\<And>I delay up e. \<lbrakk> comes_up h I clock delay up w runtime ctx e; I s;
       max up (clock s) + 6 * delay + SERVER_READINESS_POLL_INTERVAL < clock s + SERVER_READINESS_TIMEOUT \<rbrakk>
     \<Longrightarrow> r = Ok (WaitReady e) \<and> I s'" by (rule wait_returns [OF assms, where s = s and w = w and runtime = runtime and ctx = ctx]) (rule that, assumption, blast)
  show ?thesis using r up [of I delay up e] by blast
qed

section \<open>What a ready endpoint is\<close>

definition endpoint_in_context ::
  "server_endpoint_context \<Rightarrow> runtime_kind \<Rightarrow> podman_container_inspect \<Rightarrow> attach_endpoint res" where
  "endpoint_in_context ctx runtime i =
     (case ctx of
        ManagedContext \<Rightarrow> discover_attach_endpoint_from_inspect i
      | TransientContext \<Rightarrow> discover_attach_endpoint_from_runtime_inspect runtime i)"

lemma inspect_server_endpoint_Ready:
  "run_state (inspect_server_endpoint h w runtime ctx i) s = (Ok (EndpointReady e), s') \<Longrightarrow>
     insp_running i \<and> endpoint_in_context ctx runtime i = Ok e
     \<and> (\<exists>v. run_state (host_probe h runtime e) s = (v, s') \<and> is_healthy v)"
  by (cases ctx)
    (auto simp: inspect_server_endpoint_def endpoint_in_context_def
      split: if_splits sum.splits prod.splits)

lemma wait_loop_Ready:
  "run_state (wait_loop fuel h w runtime ctx deadline poll last_error) s = (Some (Ok (WaitReady e)), s') \<Longrightarrow>
     \<exists>i s1 s2 v. run_state (inspect_one h (container_name w)) s1 = (Ok i, s2) \<and> insp_running i
       \<and> endpoint_in_context ctx runtime i = Ok e
       \<and> run_state (host_probe h runtime e) s2 = (v, s') \<and> is_healthy v"
proof (induction fuel arbitrary: s last_error)
  case (Suc fuel)
  then show ?case
    by (auto split: prod.splits if_splits sum.splits server_endpoint_state.splits
        dest!: inspect_server_endpoint_Ready)
qed simp

section \<open>Lifecycles\<close>

text \<open>The contract of \<open>DetachedServerLifecycle::check_interrupted\<close>: it fails when the interrupt flag is
  set, and otherwise does nothing but read the flag.\<close>

locale detached_lifecycle =
  fixes h :: "'w host" and lc :: "'w lifecycle"
  assumes not_interrupted:
      "interrupted h s = (False, s') \<Longrightarrow> run_state (lc_check_interrupted lc) s = (Ok (), s')"
    and interrupted_fails:
      "interrupted h s = (True, s') \<Longrightarrow> \<exists>e s''. run_state (lc_check_interrupted lc) s = (Err e, s'')"
begin

lemma check_Ok:
  "run_state (lc_check_interrupted lc) s = (Ok u, s') \<longleftrightarrow> interrupted h s = (False, s')"
proof
  assume ok: "run_state (lc_check_interrupted lc) s = (Ok u, s')"
  obtain b s1 where b: "interrupted h s = (b, s1)" by force
  show "interrupted h s = (False, s')"
  proof (cases b)
    case True
    then show ?thesis using b ok interrupted_fails by fastforce
  next
    case False
    then show ?thesis using b ok not_interrupted by fastforce
  qed
qed (simp add: not_interrupted)

text \<open>A launch succeeds only with a healthy endpoint of a running container, after Podman started it,
  and with no interrupt pending.\<close>

lemma launched:
  assumes "run_state (launch_detached_server fuel h w runtime spec lc) s = (Some (Ok e), s')"
  shows "\<exists>s1 s2 s3 s4 i v s5.
      run_state (run_detached h (container_name w) spec) s1 = (Ok (), s2)
    \<and> run_state (inspect_one h (container_name w)) s3 = (Ok i, s4) \<and> insp_running i
    \<and> endpoint_in_context (lc_readiness_context lc) runtime i = Ok e
    \<and> run_state (host_probe h runtime e) s4 = (v, s5) \<and> is_healthy v
    \<and> interrupted h s5 = (False, s')"
proof -
  obtain u s1 where "install_sigint h s = (Ok u, s1)"
    using assms by (auto simp: launch_detached_server_def run_attempt_loop run_once
        split: prod.splits sum.splits option.splits)
  obtain s2 where d: "run_state (run_detached h (container_name w) spec) s1 = (Ok (), s2)"
    using assms \<open>install_sigint h s = (Ok u, s1)\<close>
    by (auto simp: launch_detached_server_def run_attempt_loop run_once map_io_def
        split: prod.splits sum.splits option.splits)
  obtain s3 where "run_state (lc_check_interrupted lc) s2 = (Ok (), s3)"
    using assms \<open>install_sigint h s = (Ok u, s1)\<close> d
    by (auto simp: launch_detached_server_def run_attempt_loop run_once map_io_def
        split: prod.splits sum.splits option.splits)
  then obtain s5 where w: "run_state (wait_for_server_endpoint fuel h w runtime (lc_readiness_context lc)) s3
        = (Some (Ok (WaitReady e)), s5)" "run_state (lc_check_interrupted lc) s5 = (Ok (), s')"
    using assms \<open>install_sigint h s = (Ok u, s1)\<close> d
    by (auto simp: launch_detached_server_def run_attempt_loop run_once map_io_def
        split: prod.splits sum.splits option.splits server_endpoint_wait.splits)
  obtain i s6 s7 v where "run_state (inspect_one h (container_name w)) s6 = (Ok i, s7)" "insp_running i"
      "endpoint_in_context (lc_readiness_context lc) runtime i = Ok e"
      "run_state (host_probe h runtime e) s7 = (v, s5)" "is_healthy v"
    using w(1) wait_loop_Ready
    by (fastforce simp: wait_for_server_endpoint_def split: prod.splits)
  then show ?thesis using d w(2) check_Ok by blast
qed

end

end
