(* ===== verification/HostDiscovery.thy ===== *)
theory HostDiscovery
  imports Cleanup
begin

text \<open>
  Discovery as the commands run it, on the host: what a scoped query returns, whatever the host
  answers to its inspections.
\<close>

definition built_from :: "(string \<Rightarrow> digest) \<Rightarrow> podman_ps_container \<times> container_kind \<Rightarrow> session_record \<Rightarrow> bool" where
  "built_from sha ck r \<longleftrightarrow> (\<exists>probe i. r = build_session_record sha probe (fst ck) i (snd ck))"

lemma discover_io_loop_Ok:
  "run_state (discover_io_loop h cs col) w = (Ok col', w') \<Longrightarrow>
     \<exists>rs. col' = fold collect_session rs col
       \<and> (\<forall>r \<in> set rs. \<exists>ck \<in> set cs. built_from (sha256 (host_build h)) ck r)"
proof (induction h cs col arbitrary: w rule: discover_io_loop.induct)
  case (1 h col)
  then show ?case by (intro exI [of _ "[]"]) simp
next
  case (2 h c kind cs col)
  show ?case
  proof (cases "should_inspect_ps_candidate (sc_scope col) c")
    case False
    then show ?thesis using "2.IH"(1) "2.prems" by fastforce
  next
    case True
    obtain i w1 where i: "run_state (inspect_one h (ps_id c)) w = (Ok i, w1)"
      using "2.prems" True by (auto simp: result_simps)
    obtain probe w2 where p: "root_probe h w1 = (probe, w2)" by force
    let ?r = "build_session_record (sha256 (host_build h)) probe c i kind"
    have "run_state (discover_io_loop h cs (collect_session ?r col)) w2 = (Ok col', w')"
      using "2.prems" True i p by (simp add: run_attempt)
    then obtain rs where rs: "col' = fold collect_session rs (collect_session ?r col)"
        "\<forall>r \<in> set rs. \<exists>ck \<in> set cs. built_from (sha256 (host_build h)) ck r"
      using "2.IH"(2) [OF _ ] True by blast
    moreover have "built_from (sha256 (host_build h)) (c, kind) ?r"
      by (auto simp: built_from_def)
    ultimately show ?thesis by (intro exI [of _ "?r # rs"]) auto
  qed
qed

lemma discover_root_record:
  assumes "run_state (discover_root h cscope root) w = (Ok ss, w')" and "s \<in> set ss"
  obtains c kind r where "scope_includes cscope kind"
    "agentbox_container_kind_from_labels (ps_labels c) = Some kind"
    "built_from (sha256 (host_build h)) (c, kind) r" "s = r \<or> s = mark_duplicate r"
    "root_is r root \<or> (sr_git_root r = None \<and> stable_id r = Some (git_root_hash12 (sha256 (host_build h)) root))"
proof -
  let ?sha = "sha256 (host_build h)"
  obtain containers w1 col where
    col: "run_state (discover_io_loop h (filter_map (ps_candidate cscope) containers)
        (new_collector (scope_for_git_root ?sha root))) w1 = (Ok col, w')" "finish_collector col = Ok ss"
    using assms(1) by (auto simp: discover_root_def discover_io_def result_simps)
  obtain rs where rs: "col = fold collect_session rs (new_collector (scope_for_git_root ?sha root))"
      "\<forall>r \<in> set rs. \<exists>ck \<in> set (filter_map (ps_candidate cscope) containers). built_from ?sha ck r"
    using discover_io_loop_Ok [OF col(1)] by blast
  obtain r where r: "r \<in> set rs" "s = r \<or> s = mark_duplicate r"
      "root_is r root \<or> (sr_git_root r = None \<and> stable_id r = Some (git_root_hash12 ?sha root))"
    using collected_for_git_root col(2) rs(1) assms(2) by metis
  then obtain c kind where "(c, kind) \<in> set (filter_map (ps_candidate cscope) containers)"
      "built_from ?sha (c, kind) r" using rs(2) by force
  then show thesis using that r by (auto simp: filter_map_ps_candidate)
qed

lemma running_scoped_session_rooted:
  assumes "run_state (discover_root h cscope root) w = (Ok ss, w')"
    and "s \<in> set ss" and "status s = Running"
  shows "root_is s root"
proof -
  obtain c kind r where r: "built_from (sha256 (host_build h)) (c, kind) r" "s = r \<or> s = mark_duplicate r"
      "root_is r root \<or> sr_git_root r = None"
    using discover_root_record [OF assms(1,2)] by metis
  then have "s = r" using assms(3) by auto
  moreover obtain probe i where b: "r = build_session_record (sha256 (host_build h)) probe c i kind"
    using r(1) by (auto simp: built_from_def)
  moreover have "sr_git_root r \<noteq> None"
    using running_record_data assms(3) \<open>s = r\<close> unfolding b by blast
  ultimately show ?thesis using r(3) by auto
qed

end
