(* ===== verification/Launch.thy ===== *)
theory Launch
  imports ServerLaws HostDiscovery
begin

text \<open>
  Preparing and launching containers: \<open>src/commands/container_launch\<close> (policies, the check for existing
  resources, the preparation in its order), \<open>src/session/conflict.rs\<close> on the host, the host client of
  \<open>src/commands/runtime_command.rs\<close> and \<open>src/commands/managed_server.rs\<close>.
\<close>

section \<open>\<open>policy.rs\<close> and \<open>request.rs\<close>\<close>

datatype existing_resource_scope = ManagedSessionsOnly | AgentboxContainers

datatype existing_resource_check = RequireAbsent existing_resource_scope | AllowExisting

record runtime_launch_policy =
  lp_run_mode :: runtime_run_mode
  lp_host_client_required :: bool
  lp_existing_check :: existing_resource_check
  lp_record_image_version :: bool

definition managed_server_policy :: "bool \<Rightarrow> runtime_launch_policy" where
  "managed_server_policy connect_after =
     \<lparr>lp_run_mode = ManagedSessionMode, lp_host_client_required = connect_after,
      lp_existing_check = RequireAbsent AgentboxContainers, lp_record_image_version = True\<rparr>"

definition transient_server_policy :: runtime_launch_policy where
  "transient_server_policy =
     \<lparr>lp_run_mode = TransientServer, lp_host_client_required = True,
      lp_existing_check = RequireAbsent AgentboxContainers, lp_record_image_version = False\<rparr>"

definition foreground_policy :: runtime_launch_policy where
  "foreground_policy =
     \<lparr>lp_run_mode = Foreground, lp_host_client_required = False,
      lp_existing_check = RequireAbsent ManagedSessionsOnly, lp_record_image_version = False\<rparr>"

definition replacement_server_policy :: "bool \<Rightarrow> runtime_launch_policy" where
  "replacement_server_policy connect_after =
     \<lparr>lp_run_mode = ManagedSessionMode, lp_host_client_required = connect_after,
      lp_existing_check = AllowExisting, lp_record_image_version = True\<rparr>"

datatype dev_env_mode = DevAuto | DevNone

datatype runtime_launch_invocation =
    ServerInvocation
  | CustomInvocation "dev_environment \<Rightarrow> runtime_invocation"

record runtime_launch_request =
  rq_workspace :: workspace_identity
  rq_runtime :: runtime_kind
  rq_dev_env_mode :: dev_env_mode
  rq_policy :: runtime_launch_policy
  rq_git_identity :: git_identity_passthrough
  rq_invocation :: runtime_launch_invocation
  rq_server_args :: "string list"
  rq_resource_limits :: resource_limits

definition server_launch_request ::
  "workspace_identity \<Rightarrow> runtime_kind \<Rightarrow> dev_env_mode \<Rightarrow> runtime_launch_policy \<Rightarrow> string list
     \<Rightarrow> resource_limits \<Rightarrow> runtime_launch_request" where
  "server_launch_request w runtime mode policy args limits =
     \<lparr>rq_workspace = w, rq_runtime = runtime, rq_dev_env_mode = mode, rq_policy = policy,
      rq_git_identity = HostIdentity, rq_invocation = ServerInvocation, rq_server_args = args,
      rq_resource_limits = limits\<rparr>"

definition managed_server_launch_request ::
  "workspace_identity \<Rightarrow> runtime_kind \<Rightarrow> dev_env_mode \<Rightarrow> bool \<Rightarrow> string list \<Rightarrow> resource_limits
     \<Rightarrow> runtime_launch_request" where
  "managed_server_launch_request w runtime mode connect_after args limits =
     server_launch_request w runtime mode (managed_server_policy connect_after) args limits"

definition transient_server_launch_request ::
  "workspace_identity \<Rightarrow> runtime_kind \<Rightarrow> dev_env_mode \<Rightarrow> resource_limits \<Rightarrow> runtime_launch_request" where
  "transient_server_launch_request w runtime mode limits =
     server_launch_request w runtime mode transient_server_policy [] limits"

definition foreground_launch_request ::
  "workspace_identity \<Rightarrow> runtime_kind \<Rightarrow> dev_env_mode \<Rightarrow> (dev_environment \<Rightarrow> runtime_invocation)
     \<Rightarrow> runtime_launch_request" where
  "foreground_launch_request w runtime mode invocation =
     \<lparr>rq_workspace = w, rq_runtime = runtime, rq_dev_env_mode = mode, rq_policy = foreground_policy,
      rq_git_identity = CodexExecIdentity, rq_invocation = CustomInvocation invocation,
      rq_server_args = [], rq_resource_limits = no_limits\<rparr>"

definition replacement_server_launch_request ::
  "workspace_identity \<Rightarrow> runtime_kind \<Rightarrow> dev_env_mode \<Rightarrow> bool \<Rightarrow> string list \<Rightarrow> resource_limits
     \<Rightarrow> runtime_launch_request" where
  "replacement_server_launch_request w runtime mode connect_after args limits =
     \<lparr>rq_workspace = w, rq_runtime = runtime, rq_dev_env_mode = mode,
      rq_policy = replacement_server_policy connect_after, rq_git_identity = HostIdentity,
      rq_invocation = ServerInvocation, rq_server_args = args, rq_resource_limits = limits\<rparr>"

definition build_runtime_invocation ::
  "runtime_launch_invocation \<Rightarrow> runtime_kind \<Rightarrow> workspace_identity \<Rightarrow> dev_environment
     \<Rightarrow> codex_attach_token option \<Rightarrow> string list \<Rightarrow> runtime_invocation res" where
  "build_runtime_invocation invocation runtime w dev_env token args =
     (case invocation of
        ServerInvocation \<Rightarrow> server_runtime_command runtime (canonical_target w) dev_env token args
      | CustomInvocation f \<Rightarrow> Ok (f dev_env))"

section \<open>\<open>conflict.rs\<close> on the host\<close>

definition existing_session_error ::
  "'w host \<Rightarrow> workspace_identity \<Rightarrow> session_record \<Rightarrow> ('w, error) io" where
  "existing_session_error h w s =
     (case status s of
        Duplicate \<Rightarrow> pure (duplicate_sessions_error w)
      | Running \<Rightarrow> pure (running_existing_resource_error w s)
      | Orphaned \<Rightarrow> pure (orphaned_managed_session (canonical_git_root w) (sr_container_name s))
      | Failed _ \<Rightarrow>
          (case failed_session_requires_action_error (canonical_git_root w) s of
             Some e \<Rightarrow> pure e
           | None \<Rightarrow> do {
               r \<leftarrow> inspect_one h (sr_container_name s);
               pure (case r of
                   Inr i \<Rightarrow> classify_named_container_conflict (sha256 (host_build h)) w (sr_container_name s) i
                 | Inl _ \<Rightarrow> generic_failed_session_error w (sr_container_name s)) }))"

definition classify_create_error_or_else ::
  "'w host \<Rightarrow> workspace_identity \<Rightarrow> runtime_create_spec \<Rightarrow> error \<Rightarrow> (error \<Rightarrow> ('w, error) io)
     \<Rightarrow> ('w, error) io" where
  "classify_create_error_or_else h w spec original fallback = do {
     r \<leftarrow> inspect_one h (container_name w);
     case r of
       Inr i \<Rightarrow> pure (classify_named_container_conflict (sha256 (host_build h)) w
           (unwrap_or (logical_name spec) (container_name w)) i)
     | Inl _ \<Rightarrow> fallback original }"

section \<open>\<open>existing_resources.rs\<close>\<close>

definition discover_existing_resources ::
  "'w host \<Rightarrow> workspace_identity \<Rightarrow> existing_resource_scope \<Rightarrow> ('w, session_record list res) io" where
  "discover_existing_resources h w scope =
     (case scope of
        ManagedSessionsOnly \<Rightarrow> discover_root h ManagedSessions (canonical_git_root w)
      | AgentboxContainers \<Rightarrow> discover_root h AgentboxOwned (canonical_git_root w))"

definition select_existing_resource ::
  "session_record list \<Rightarrow> workspace_identity \<Rightarrow> existing_resource_scope \<Rightarrow> session_record option res" where
  "select_existing_resource sessions w scope =
     (case sessions of
        [] \<Rightarrow> Ok None
      | [s] \<Rightarrow> Ok (Some s)
      | _ \<Rightarrow> if scope = AgentboxContainers then Err (duplicate_agentbox_containers_error w)
             else select_single_session sessions w)"

definition ensure_required_resources_absent ::
  "'w host \<Rightarrow> workspace_identity \<Rightarrow> existing_resource_check \<Rightarrow> ('w, unit res) io" where
  "ensure_required_resources_absent h w check =
     (case check of
        AllowExisting \<Rightarrow> pure (Ok ())
      | RequireAbsent scope \<Rightarrow>
          attempt (discover_existing_resources h w scope) (\<lambda>sessions.
          attempt (pure (select_existing_resource sessions w scope)) (\<lambda>found.
            case found of
              Some s \<Rightarrow> map_io Err (existing_session_error h w s)
            | None \<Rightarrow> pure (Ok ()))))"

section \<open>\<open>container_launch/mod.rs\<close>\<close>

record container_launch_preparation =
  clp_preflight :: preflight_report
  clp_dev_env :: dev_environment
  clp_image_version :: "string option"

record runtime_launch_preparation =
  rlp_run_spec :: runtime_run_spec
  rlp_token :: "codex_attach_token option"

definition host_client_not_found_message :: "string \<Rightarrow> string" where
  "host_client_not_found_message prog =
     format [tick prog, '' was not found on PATH; install '', tick prog, '' or add it to PATH'']"

definition ensure_host_runtime_client_available :: "'w host \<Rightarrow> runtime_kind \<Rightarrow> ('w, unit res) io" where
  "ensure_host_runtime_client_available h runtime =
     (let a = runtime_attach_spec runtime;
          e = \<lparr>scheme = as_scheme a, host_ip = DEFAULT_HOST_ATTACH_IP, host_port = container_port a\<rparr>
      in case host_client_command runtime e of
        [] \<Rightarrow> pure (Err (msg [''runtime host client command is empty'']))
      | prog # _ \<Rightarrow> map_io (\<lambda>found. if found then Ok ()
            else Err (Message (host_client_not_found_message prog))) (State (find_program h prog)))"

definition prepare_container_launch_for_workspace ::
  "'w host \<Rightarrow> workspace_identity \<Rightarrow> runtime_kind \<Rightarrow> dev_env_mode \<Rightarrow> runtime_launch_policy
     \<Rightarrow> ('w, container_launch_preparation res) io" where
  "prepare_container_launch_for_workspace h w runtime mode policy =
     attempt (State (preflight h runtime (lp_run_mode policy))) (\<lambda>report.
     attempt (ensure_required_resources_absent h w (lp_existing_check policy)) (\<lambda>_.
     attempt (case mode of DevNone \<Rightarrow> pure (Ok NoDevEnv)
         | DevAuto \<Rightarrow> State (resolve_dev_env h (canonical_target w) (canonical_git_root w))) (\<lambda>dev_env.
     attempt (if lp_host_client_required policy then ensure_host_runtime_client_available h runtime
         else pure (Ok ())) (\<lambda>_.
     attempt (State (ensure_image h runtime (canonical_git_root w))) (\<lambda>version.
       pure (Ok \<lparr>clp_preflight = report, clp_dev_env = dev_env, clp_image_version = version\<rparr>))))))"

definition record_runtime_image_version ::
  "runtime_kind \<Rightarrow> string option \<Rightarrow> runtime_launch_policy \<Rightarrow> runtime_run_spec \<Rightarrow> runtime_run_spec" where
  "record_runtime_image_version runtime version policy s =
     (if \<not> lp_record_image_version policy then s
      else case version of
        None \<Rightarrow> s
      | Some v \<Rightarrow> insert_create_label (runtime_package_version_label runtime) v s)"

definition record_managed_resource_limits ::
  "runtime_launch_policy \<Rightarrow> runtime_run_spec \<Rightarrow> runtime_run_spec" where
  "record_managed_resource_limits policy s =
     (if lp_run_mode policy \<noteq> ManagedSessionMode then s
      else let l = stored_or_zero (cr_resource_limits (rn_create s))
           in insert_create_label LABEL_RESOURCE_LIMIT_MEMORY (stored_memory l)
                (insert_create_label LABEL_RESOURCE_LIMIT_CPUS (stored_cpus l) s))"

definition apply_passthrough :: "passthrough \<Rightarrow> runtime_run_spec \<Rightarrow> runtime_run_spec" where
  "apply_passthrough p s = extend_create_default_env (pt_env p) (fold add_create_mount (pt_mounts p) s)"

lemma add_mounts_fold:
  "fold add_create_mount ms s = s\<lparr>rn_create := (rn_create s)\<lparr>cr_mounts := cr_mounts (rn_create s) @ ms\<rparr>\<rparr>"
  by (induction ms arbitrary: s) (simp_all add: add_create_mount_def)

definition prepare_runtime_launch ::
  "'w host \<Rightarrow> runtime_launch_request \<Rightarrow> ('w, runtime_launch_preparation res) io" where
  "prepare_runtime_launch h rq =
     (let w = rq_workspace rq; runtime = rq_runtime rq; policy = rq_policy rq in
      attempt (prepare_container_launch_for_workspace h w runtime (rq_dev_env_mode rq) policy) (\<lambda>prep.
      attempt (prepare_codex_attach_token h runtime (lp_run_mode policy) w) (\<lambda>token.
      attempt (pure (build_runtime_invocation (rq_invocation rq) runtime w (clp_dev_env prep) token
          (rq_server_args rq))) (\<lambda>invocation. do {
        let s = run_spec (host_build h) (args_to_json h) runtime (lp_run_mode policy) w
                  (pf_host_nix_mounts (clp_preflight prep)) (pf_runtime_mounts (clp_preflight prep))
                  invocation (rq_server_args rq) (rq_resource_limits rq);
        let s = extend_create_default_env (pf_runtime_environment (clp_preflight prep)) s;
        extra \<leftarrow> State (host_passthrough h (rq_git_identity rq) (canonical_git_root w));
        let s = apply_passthrough extra s;
        let s = record_runtime_image_version runtime (clp_image_version prep) policy s;
        let s = record_managed_resource_limits policy s;
        pure (Ok \<lparr>rlp_run_spec = s, rlp_token = token\<rparr>) }))))"

section \<open>The host client\<close>

definition host_client_status_error ::
  "runtime_kind \<Rightarrow> attach_endpoint \<Rightarrow> path \<Rightarrow> exit_status \<Rightarrow> string list \<Rightarrow> error" where
  "host_client_status_error runtime e launch st args =
     msg [tick (join '' '' (inv_argv (host_client_runtime_command runtime e launch args))),
       '' exited with '', format_status st]"

definition run_host_runtime_client_status ::
  "'w host \<Rightarrow> runtime_kind \<Rightarrow> attach_endpoint \<Rightarrow> path \<Rightarrow> codex_attach_token option \<Rightarrow> string list
     \<Rightarrow> ('w, exit_status res) io" where
  "run_host_runtime_client_status h runtime e launch token args =
     attempt (pure (required_codex_client_token runtime token)) (\<lambda>t.
       State (run_client h (host_client_runtime_command runtime e launch args) t))"

definition run_host_runtime_client ::
  "'w host \<Rightarrow> runtime_kind \<Rightarrow> attach_endpoint \<Rightarrow> path \<Rightarrow> codex_attach_token option \<Rightarrow> string list
     \<Rightarrow> ('w, unit res) io" where
  "run_host_runtime_client h runtime e launch token args =
     attempt (run_host_runtime_client_status h runtime e launch token args) (\<lambda>st.
       pure (if exit_success st then Ok () else Err (host_client_status_error runtime e launch st args)))"

section \<open>\<open>managed_server.rs\<close>\<close>

text \<open>The trait \<open>ManagedServerLaunchPolicy\<close>.\<close>

record 'w managed_launch_policy =
  mp_create_action :: string
  mp_check_interrupted :: "('w, unit res) io"
  mp_wrap_error :: "error \<Rightarrow> error"

datatype managed_server_completion_kind = CompletionStart | CompletionRestart

record managed_server_completion =
  mc_kind :: managed_server_completion_kind
  mc_connect :: bool
  mc_client_launch_directory :: path
  mc_retry_target :: path

definition classify_managed_server_create_error ::
  "'w host \<Rightarrow> workspace_identity \<Rightarrow> runtime_run_spec \<Rightarrow> string \<Rightarrow> error \<Rightarrow> ('w, error) io" where
  "classify_managed_server_create_error h w s action original =
     classify_create_error_or_else h w (rn_create s)
       (runtime_command_failed (canonical_git_root w) (container_name w) action (error_text original))
       (error_with_container_logs h w ManagedLog)"

definition managed_lifecycle ::
  "'w host \<Rightarrow> workspace_identity \<Rightarrow> runtime_run_spec \<Rightarrow> 'w managed_launch_policy \<Rightarrow> 'w lifecycle" where
  "managed_lifecycle h w s policy =
     \<lparr>lc_readiness_context = ManagedContext,
      lc_check_interrupted = mp_check_interrupted policy,
      lc_run_detached_error = (\<lambda>e. map_io (mp_wrap_error policy)
        (classify_managed_server_create_error h w s (mp_create_action policy) e)),
      lc_readiness_error = (\<lambda>e. map_io (mp_wrap_error policy) (error_with_container_logs h w ManagedLog e))\<rparr>"

definition connect_error_message ::
  "managed_server_completion_kind \<Rightarrow> workspace_identity \<Rightarrow> path \<Rightarrow> error \<Rightarrow> error" where
  "connect_error_message kind w retry e =
     msg [case kind of
         CompletionStart \<Rightarrow> ''failed to connect to newly created managed session ''
       | CompletionRestart \<Rightarrow> ''failed to connect to restarted managed session '',
       tick (container_name w), '' for '', tick (canonical_git_root w), '': '', error_text e,
       ''. The session remains running; retry with '', tick (''agentbox connect '' @ retry),
       '' or stop it with '', tick (''agentbox stop '' @ retry), ''.'']"

definition finish_managed_server_launch ::
  "'w host \<Rightarrow> managed_server_completion \<Rightarrow> workspace_identity \<Rightarrow> runtime_kind \<Rightarrow> attach_endpoint
     \<Rightarrow> codex_attach_token option \<Rightarrow> ('w, unit res) io" where
  "finish_managed_server_launch h completion w runtime e token =
     (if mc_connect completion
      then map_io (map_err (connect_error_message (mc_kind completion) w (mc_retry_target completion)))
        (run_host_runtime_client h runtime e (mc_client_launch_directory completion) token [])
      else pure (Ok ()))"

definition execute_managed_launch ::
  "nat \<Rightarrow> 'w host \<Rightarrow> workspace_identity \<Rightarrow> runtime_kind \<Rightarrow> runtime_run_spec \<Rightarrow> codex_attach_token option
     \<Rightarrow> 'w managed_launch_policy \<Rightarrow> managed_server_completion \<Rightarrow> ('w, unit) loop" where
  "execute_managed_launch fuel h w runtime s token policy completion =
     attempt_loop (launch_detached_server fuel h w runtime s (managed_lifecycle h w s policy)) (\<lambda>e.
       once (finish_managed_server_launch h completion w runtime e token))"

end
