(* ===== verification/ClientEnv.thy ===== *)
theory ClientEnv
  imports Launch
begin

text \<open>
  The process a host client runs in: the rest of \<open>src/commands/runtime_command.rs\<close>. A client of a loopback
  endpoint must not be sent through a proxy, so its \<open>NO_PROXY\<close> is extended. Whether a host is a loopback
  address is decided by the parser of the standard library for IP addresses, which is modelled here.
\<close>

section \<open>IP addresses\<close>

datatype ip_addr = IpV4 "nat list" | IpV6 "nat list"

type_synonym 'a reader = "string \<Rightarrow> ('a \<times> string) option"

definition hex_digit_val :: "char \<Rightarrow> nat" where
  "hex_digit_val c = (if is_ascii_digit c then byte_of c - 48
     else if is_ascii_lower c then byte_of c - 87 else byte_of c - 55)"

text \<open>A number of at most so many digits: it may have a leading zero only if this is allowed, and has to
  fit its type.\<close>

definition read_number :: "nat \<Rightarrow> (char \<Rightarrow> bool) \<Rightarrow> nat \<Rightarrow> bool \<Rightarrow> nat \<Rightarrow> nat reader" where
  "read_number radix is_digit max_digits allow_zero_prefix bound s =
     (let ds = takeWhile is_digit s;
          v = foldl (\<lambda>acc c. radix * acc + hex_digit_val c) 0 ds
      in if ds = [] \<or> max_digits < length ds then None
         else if \<not> allow_zero_prefix \<and> hd ds = CHR ''0'' \<and> 1 < length ds then None
         else if bound \<le> v then None
         else Some (v, dropWhile is_digit s))"

text \<open>All but the first of a sequence are preceded by a separator.\<close>

definition read_separator :: "char \<Rightarrow> bool \<Rightarrow> 'a reader \<Rightarrow> 'a reader" where
  "read_separator sep first inner s =
     (if first then inner s else case s of [] \<Rightarrow> None | c # cs \<Rightarrow> if c = sep then inner cs else None)"

definition read_octet :: "nat reader" where
  "read_octet = read_number 10 is_ascii_digit 3 False 256"

fun read_octets :: "nat \<Rightarrow> bool \<Rightarrow> nat list reader" where
  "read_octets 0 first s = Some ([], s)"
| "read_octets (Suc n) first s =
     (case read_separator CHR ''.'' first read_octet s of
        None \<Rightarrow> None
      | Some (v, r) \<Rightarrow> map_option (\<lambda>(vs, r'). (v # vs, r')) (read_octets n False r))"

definition read_ipv4 :: "nat list reader" where
  "read_ipv4 s = read_octets 4 True s"

definition read_group :: "nat reader" where
  "read_group = read_number 16 is_ascii_hexdigit 4 True 65536"

text \<open>Groups of an IPv6 address, as many as there is room for; the last two may be an IPv4 address.\<close>

fun read_groups :: "nat \<Rightarrow> bool \<Rightarrow> nat list \<Rightarrow> string \<Rightarrow> nat list \<times> bool \<times> string" where
  "read_groups 0 first acc s = (acc, False, s)"
| "read_groups (Suc n) first acc s =
     (case (if n = 0 then None else read_separator CHR '':'' first read_ipv4 s) of
        Some (vs, r) \<Rightarrow> (acc @ [256 * vs ! 0 + vs ! 1, 256 * vs ! 2 + vs ! 3], True, r)
      | None \<Rightarrow> (case read_separator CHR '':'' first read_group s of
          Some (g, r) \<Rightarrow> read_groups n False (acc @ [g]) r
        | None \<Rightarrow> (acc, False, s)))"

definition read_ipv6 :: "nat list reader" where
  "read_ipv6 s =
     (case read_groups 8 True [] s of (head, ipv4, r) \<Rightarrow>
        if length head = 8 then Some (head, r)
        else if ipv4 then None
        else case strip_prefix ''::'' r of
          None \<Rightarrow> None
        | Some r' \<Rightarrow> (case read_groups (8 - (length head + 1)) True [] r' of (tail, _, r'') \<Rightarrow>
            Some (head @ replicate (8 - length head - length tail) 0 @ tail, r'')))"

definition parse_ip_addr :: "string \<Rightarrow> ip_addr option" where
  "parse_ip_addr s =
     (case read_ipv4 s of
        Some (vs, r) \<Rightarrow> if r = [] then Some (IpV4 vs) else None
      | None \<Rightarrow> (case read_ipv6 s of
          Some (gs, r) \<Rightarrow> if r = [] then Some (IpV6 gs) else None
        | None \<Rightarrow> None))"

fun ip_is_loopback :: "ip_addr \<Rightarrow> bool" where
  "ip_is_loopback (IpV4 vs) = (vs ! 0 = 127)"
| "ip_is_loopback (IpV6 gs) = (gs = [0, 0, 0, 0, 0, 0, 0, 1])"

section \<open>\<open>NO_PROXY\<close>\<close>

definition is_loopback_host :: "string \<Rightarrow> bool" where
  "is_loopback_host host =
     (if to_ascii_lowercase host = ''localhost'' then True
      else case parse_ip_addr host of None \<Rightarrow> False | Some a \<Rightarrow> ip_is_loopback a)"

definition no_proxy_entries :: "string \<Rightarrow> string list" where
  "no_proxy_entries v = filter (\<lambda>e. e \<noteq> []) (map trim (split_on CHR '','' v))"

definition loopback_names :: "string \<Rightarrow> string list" where
  "loopback_names endpoint_host = [''127.0.0.1'', ''localhost'', ''::1'', endpoint_host]"

definition merge_loopback_no_proxy :: "string option \<Rightarrow> string option \<Rightarrow> string \<Rightarrow> string option" where
  "merge_loopback_no_proxy upper lower endpoint_host =
     (if \<not> is_loopback_host endpoint_host then None
      else let values = (case upper of Some v \<Rightarrow> [v] | None \<Rightarrow> []) @ (case lower of Some v \<Rightarrow> [v] | None \<Rightarrow> []);
               entries = fold push_unique (concat (map no_proxy_entries values)) []
           in Some (join '','' (fold push_unique (loopback_names endpoint_host) entries)))"

text \<open>\<open>env::var\<close> fails on a variable that is not UTF-8 as on one that is not set.\<close>

definition utf8_var :: "(string \<Rightarrow> string option) \<Rightarrow> string \<Rightarrow> string option" where
  "utf8_var env name = (case env name of None \<Rightarrow> None | Some v \<Rightarrow> if valid_utf8 v then Some v else None)"

definition loopback_no_proxy_value_from_env :: "(string \<Rightarrow> string option) \<Rightarrow> attach_endpoint \<Rightarrow> string option" where
  "loopback_no_proxy_value_from_env env e =
     merge_loopback_no_proxy (utf8_var env ''NO_PROXY'') (utf8_var env ''no_proxy'') (host_ip e)"

section \<open>The process of a host client\<close>

record client_process =
  cp_program :: string
  cp_args :: "string list"
  cp_current_dir :: path
  cp_env :: "(string \<times> string) list"

definition host_client_process ::
  "runtime_invocation \<Rightarrow> codex_attach_token option \<Rightarrow> string option \<Rightarrow> client_process res" where
  "host_client_process client token no_proxy =
     (case inv_argv client of
        [] \<Rightarrow> Err (msg [''runtime host client command is empty''])
      | program # args \<Rightarrow> Ok \<lparr>cp_program = program, cp_args = args, cp_current_dir = inv_workdir client,
          cp_env = (case token of Some t \<Rightarrow> [(CODEX_REMOTE_TOKEN_ENV, token_value t)] | None \<Rightarrow> [])
            @ (case no_proxy of Some v \<Rightarrow> [(''NO_PROXY'', v), (''no_proxy'', v)] | None \<Rightarrow> [])\<rparr>)"

text \<open>The client of an endpoint, as \<open>run_host_runtime_client_status\<close> configures it.\<close>

definition runtime_client_process ::
  "(string \<Rightarrow> string option) \<Rightarrow> runtime_kind \<Rightarrow> attach_endpoint \<Rightarrow> path \<Rightarrow> codex_attach_token option \<Rightarrow> string list
     \<Rightarrow> client_process res" where
  "runtime_client_process env runtime e launch token client_args =
     and_then (required_codex_client_token runtime token) (\<lambda>t.
       host_client_process (host_client_runtime_command runtime e launch client_args) t
         (loopback_no_proxy_value_from_env env e))"

section \<open>Loopback names have no comma\<close>

definition ip_char :: "char \<Rightarrow> bool" where
  "ip_char c \<longleftrightarrow> is_ascii_hexdigit c \<or> c = CHR ''.'' \<or> c = CHR '':''"

definition reads_ip_chars :: "'a reader \<Rightarrow> bool" where
  "reads_ip_chars f \<longleftrightarrow> (\<forall>s v r. f s = Some (v, r) \<longrightarrow> (\<exists>p. s = p @ r \<and> list_all ip_char p))"

lemma reads_ip_charsD: "reads_ip_chars f \<Longrightarrow> f s = Some (v, r) \<Longrightarrow> \<exists>p. s = p @ r \<and> list_all ip_char p"
  by (simp add: reads_ip_chars_def)

lemma reads_number: "(\<And>c. is_digit c \<Longrightarrow> ip_char c) \<Longrightarrow> reads_ip_chars (read_number radix is_digit m z b)"
proof (unfold reads_ip_chars_def, intro allI impI)
  fix s v r
  assume digits: "\<And>c. is_digit c \<Longrightarrow> ip_char c" and "read_number radix is_digit m z b s = Some (v, r)"
  then have "r = dropWhile is_digit s" by (auto simp: read_number_def Let_def split: if_splits)
  then have "s = takeWhile is_digit s @ r" by simp
  moreover have "list_all ip_char (takeWhile is_digit s)" using digits by (auto simp: list_all_iff dest: set_takeWhileD)
  ultimately show "\<exists>p. s = p @ r \<and> list_all ip_char p" by blast
qed

lemma reads_separator: "reads_ip_chars f \<Longrightarrow> ip_char sep \<Longrightarrow> reads_ip_chars (read_separator sep first f)"
  unfolding reads_ip_chars_def read_separator_def
  by (auto split: if_splits list.splits) (metis append_Cons list.pred_inject(2))

lemma reads_octet: "reads_ip_chars read_octet" and reads_group: "reads_ip_chars read_group"
  unfolding read_octet_def read_group_def
  by (rule reads_number; auto simp: ip_char_def is_ascii_hexdigit_def is_lower_hex_def)+

lemma reads_octets: "reads_ip_chars (read_octets n first)"
proof (induction n arbitrary: first)
  case (Suc n)
  have sep: "reads_ip_chars (read_separator CHR ''.'' first read_octet)"
    by (rule reads_separator [OF reads_octet]) (simp add: ip_char_def)
  show ?case
    unfolding reads_ip_chars_def
    by (auto split: option.splits dest!: reads_ip_charsD [OF sep] reads_ip_charsD [OF Suc.IH])
qed (simp add: reads_ip_chars_def)

lemma reads_groups: "read_groups n first acc s = (gs, b, r) \<Longrightarrow> \<exists>p. s = p @ r \<and> list_all ip_char p"
proof (induction n first acc s rule: read_groups.induct)
  case (2 n first acc s)
  have seps: "reads_ip_chars (read_separator CHR '':'' first read_ipv4)"
      "reads_ip_chars (read_separator CHR '':'' first read_group)"
    using reads_separator reads_octets [of 4 True] reads_group by (auto simp: read_ipv4_def [abs_def] ip_char_def)
  show ?case
  proof (cases "if n = 0 then None else read_separator CHR '':'' first read_ipv4 s")
    case (Some x)
    then show ?thesis using "2.prems" reads_ip_charsD [OF seps(1), of s] by (cases x) (auto split: if_splits)
  next
    case None
    show ?thesis
    proof (cases "read_separator CHR '':'' first read_group s")
      case (Some x)
      obtain g r' where x: "x = (g, r')" by force
      obtain p where "s = p @ r'" "list_all ip_char p" using reads_ip_charsD [OF seps(2)] Some x by blast
      moreover obtain q where "r' = q @ r" "list_all ip_char q"
        using "2.IH" [OF None Some x [symmetric]] "2.prems" None Some x by auto
      ultimately show ?thesis by (metis append.assoc list_all_append)
    qed (use "2.prems" None in auto)
  qed
qed auto

lemma parse_ip_addr_chars: "parse_ip_addr s = Some a \<Longrightarrow> list_all ip_char s"
proof -
  have v4: "list_all ip_char s" if "read_ipv4 s = Some (vs, [])" for vs
    using reads_ip_charsD [OF reads_octets, of 4 True s vs "[]"] that by (auto simp: read_ipv4_def)
  have v6: "list_all ip_char s" if v6: "read_ipv6 s = Some (gs, [])" for gs
  proof -
    obtain head ipv4 r where head: "read_groups 8 True [] s = (head, ipv4, r)" by (metis surj_pair)
    obtain p where p: "s = p @ r" "list_all ip_char p" using reads_groups [OF head] by blast
    show ?thesis
    proof (cases "length head = 8")
      case False
      then obtain r' tail b where "strip_prefix ''::'' r = Some r'" "read_groups (7 - length head) True [] r' = (tail, b, [])"
        using v6 head by (auto simp: read_ipv6_def split: if_splits option.splits prod.splits)
      then show ?thesis using p reads_groups by (fastforce simp: strip_prefix_Some ip_char_def)
    qed (use v6 head p in \<open>simp add: read_ipv6_def\<close>)
  qed
  assume "parse_ip_addr s = Some a"
  then show ?thesis using v4 v6 by (auto simp: parse_ip_addr_def split: option.splits if_splits)
qed

lemma four_octets: "read_ipv4 s = read_octets (Suc (Suc (Suc (Suc 0)))) True s"
proof -
  have "(4::nat) = Suc (Suc (Suc (Suc 0)))" by simp
  then show ?thesis unfolding read_ipv4_def by (rule arg_cong [where f = "\<lambda>n. read_octets n True s"])
qed

lemma read_ipv4_Nil: "read_ipv4 [] = None"
  by (simp add: four_octets read_separator_def read_octet_def read_number_def)

lemma read_groups_Nil: "read_groups n True [] [] = ([], False, [])"
  by (cases n) (simp_all add: read_separator_def read_ipv4_Nil read_group_def read_number_def)

lemma parse_ip_addr_Nil: "parse_ip_addr [] = None"
  by (simp add: parse_ip_addr_def read_ipv4_Nil read_ipv6_def read_groups_Nil strip_prefix_def starts_with_def)

lemma ascii_lower_letter: "is_ascii_lower (ascii_lower c) \<Longrightarrow> is_ascii_graphic c \<and> c \<noteq> CHR '',''"
  by (auto simp: ascii_lower_def is_ascii_lower_def is_ascii_upper_def is_ascii_graphic_def byte_of_def split: if_splits)

lemma loopback_host_chars:
  assumes "is_loopback_host h"
  shows "h \<noteq> []" "list_all is_ascii_graphic h" "CHR '','' \<notin> set h"
proof -
  have ip: "is_ascii_graphic c \<and> c \<noteq> CHR '',''" if "ip_char c" for c
    using that by (auto simp: ip_char_def is_ascii_hexdigit_def is_lower_hex_def is_ascii_digit_def
        is_ascii_graphic_def byte_of_def)
  have "h \<noteq> [] \<and> (\<forall>c \<in> set h. is_ascii_graphic c \<and> c \<noteq> CHR '','')"
  proof (cases "to_ascii_lowercase h = ''localhost''")
    case True
    have "\<forall>c \<in> set h. is_ascii_lower (ascii_lower c)"
    proof
      fix c assume "c \<in> set h"
      then have "ascii_lower c \<in> set ''localhost''" using True by (metis image_eqI list.set_map to_ascii_lowercase_def)
      then show "is_ascii_lower (ascii_lower c)" by (auto simp: is_ascii_lower_def byte_of_def)
    qed
    moreover have "h \<noteq> []" using True by (auto simp: to_ascii_lowercase_def)
    ultimately show ?thesis using ascii_lower_letter by blast
  next
    case False
    then obtain a where "parse_ip_addr h = Some a" using assms by (auto simp: is_loopback_host_def split: option.splits)
    then have "list_all ip_char h" "h \<noteq> []" using parse_ip_addr_chars parse_ip_addr_Nil by auto
    then show ?thesis using ip by (auto simp: list_all_iff)
  qed
  then show "h \<noteq> []" "list_all is_ascii_graphic h" "CHR '','' \<notin> set h" by (auto simp: list_all_iff)
qed

section \<open>Merging\<close>

lemma ws_len_append: "ws_len p \<noteq> 0 \<Longrightarrow> ws_len (p @ q) = ws_len p"
proof -
  assume n: "ws_len p \<noteq> 0"
  consider "p = []" | a where "p = [a]" | a b where "p = [a, b]" | a b c r where "p = a # b # c # r"
    by (cases p; cases "tl p"; cases "tl (tl p)") force+
  then show ?thesis
  proof cases
    case 2
    have "9 \<le> a \<and> a \<le> 13 \<or> a = 32" using n unfolding 2 ws_len.simps list.case by presburger
    then show ?thesis unfolding 2 append_Cons ws_len.simps list.case by (simp only: if_True)
  next
    case 3
    have "(9 \<le> a \<and> a \<le> 13 \<or> a = 32) \<or> (a = 194 \<and> (b = 133 \<or> b = 160))"
      using n unfolding 3 ws_len.simps list.case by presburger
    then show ?thesis unfolding 3 append_Cons ws_len.simps list.case by (elim disjE) (simp_all only: if_True simp_thms)
  next
    case 4
    show ?thesis unfolding 4 append_Cons ws_len.simps list.case ..
  qed (use n in simp)
qed

lemma trim_by_idem: "trim_by len (trim_by len s) = trim_by len s"
  by (induction len s rule: trim_by.induct) (metis trim_by.simps)

lemma trim_by_suffix: "\<exists>p. s = p @ trim_by len s"
proof (induction len s rule: trim_by.induct)
  case (1 len s)
  show ?case
  proof (cases "s = [] \<or> len (map byte_of s) = 0")
    case False
    then obtain p where "drop (len (map byte_of s)) s = p @ trim_by len s" using "1.IH" trim_by.simps by metis
    then show ?thesis by (metis append.assoc append_take_drop_id)
  qed (metis append_Nil trim_by.simps)
qed

lemma trim_by_fixed: "trim_by len s = s \<longleftrightarrow> s = [] \<or> len (map byte_of s) = 0"
proof
  assume fixed: "trim_by len s = s"
  show "s = [] \<or> len (map byte_of s) = 0"
  proof (rule ccontr)
    assume n: "\<not> (s = [] \<or> len (map byte_of s) = 0)"
    then have "trim_by len s = trim_by len (drop (len (map byte_of s)) s)" by (metis trim_by.simps)
    moreover have "length (trim_by len (drop (len (map byte_of s)) s)) \<le> length (drop (len (map byte_of s)) s)"
      using trim_by_suffix [of "drop (len (map byte_of s)) s" len] by (metis length_append le_add2)
    ultimately show False using n fixed by (cases s) auto
  qed
qed (metis trim_by.simps)

lemma trim_idem: "trim (trim s) = trim s"
proof -
  let ?t = "trim_start s"
  obtain q where q: "?t = trim_end ?t @ q"
    using trim_by_suffix [of "rev ?t" ws_len_rev] unfolding trim_end_def by (metis rev_append rev_rev_ident)
  have "?t = [] \<or> ws_len (map byte_of ?t) = 0"
    using trim_by_idem [of ws_len s] unfolding trim_start_def by (simp add: trim_by_fixed)
  then have "trim_end ?t = [] \<or> ws_len (map byte_of (trim_end ?t)) = 0"
    using q ws_len_append by (metis append_is_Nil_conv map_append)
  then have "trim_start (trim_end ?t) = trim_end ?t" unfolding trim_start_def by (simp add: trim_by_fixed)
  then show ?thesis by (simp add: trim_def trim_end_def trim_by_idem)
qed

lemma set_trim: "set (trim s) \<subseteq> set s"
proof -
  have "set (trim_by len t) \<subseteq> set t" for len t using trim_by_suffix by (metis set_append Un_upper2)
  then show ?thesis by (metis trim_def trim_start_def trim_end_def set_rev subset_trans)
qed

definition clean_entry :: "string \<Rightarrow> bool" where
  "clean_entry e \<longleftrightarrow> e \<noteq> [] \<and> trim e = e \<and> CHR '','' \<notin> set e"

lemma no_proxy_entries_clean: "e \<in> set (no_proxy_entries v) \<Longrightarrow> clean_entry e"
  using set_trim split_on_pieces by (fastforce simp: no_proxy_entries_def clean_entry_def trim_idem)

lemma no_proxy_entries_join:
  assumes "es \<noteq> []" and "\<forall>e \<in> set es. clean_entry e"
  shows "no_proxy_entries (join '','' es) = es"
proof -
  have "split_on CHR '','' (join '','' es) = es" using assms by (intro split_on_join) (auto simp: clean_entry_def)
  moreover have "map trim es = es" using assms(2) by (intro map_idI) (simp add: clean_entry_def)
  ultimately show ?thesis using assms(2) by (auto simp: no_proxy_entries_def clean_entry_def filter_id_conv)
qed

lemma fold_push_unique_subset: "set xs \<subseteq> set acc \<Longrightarrow> fold push_unique xs acc = acc"
  by (induction xs) (auto simp: push_unique_def)

lemma fold_push_unique_distinct: "distinct xs \<Longrightarrow> fold push_unique xs [] = xs"
proof -
  have "distinct (acc @ xs) \<Longrightarrow> fold push_unique xs acc = acc @ xs" for acc
    by (induction xs arbitrary: acc) (auto simp: push_unique_def)
  then show "distinct xs \<Longrightarrow> fold push_unique xs [] = xs" by simp
qed

text \<open>A client of a loopback endpoint gets every proxy exception the user had, the names of the loopback
  interface and the endpoint's host, each once; what it gets is a fixed point, so that a client started
  by a client sees the same.\<close>

lemma set_loopback_names: "set (loopback_names host) = {''127.0.0.1'', ''localhost'', ''::1'', host}"
  by (simp add: loopback_names_def)

lemma loopback_names_clean: "is_loopback_host host \<Longrightarrow> e \<in> set (loopback_names host) \<Longrightarrow> clean_entry e"
  using loopback_host_chars [of host]
  by (auto simp: loopback_names_def clean_entry_def trim_graphic is_ascii_graphic_def byte_of_def)

lemma merge_loopback_entries:
  assumes "merge_loopback_no_proxy upper lower host = Some v"
  obtains es where "v = join '','' es" "distinct es" "\<forall>e \<in> set es. clean_entry e"
    "set es = set (loopback_names host) \<union> \<Union> (set ` no_proxy_entries ` (set_option upper \<union> set_option lower))"
proof -
  define vals where "vals = (case upper of Some v \<Rightarrow> [v] | None \<Rightarrow> []) @ (case lower of Some v \<Rightarrow> [v] | None \<Rightarrow> [])"
  define es where "es = fold push_unique (loopback_names host) (fold push_unique (concat (map no_proxy_entries vals)) [])"
  have host: "is_loopback_host host" "v = join '','' es"
    using assms by (auto simp: merge_loopback_no_proxy_def Let_def es_def vals_def split: if_splits)
  have vals: "set vals = set_option upper \<union> set_option lower"
    by (cases upper; cases lower) (auto simp: vals_def)
  have set: "set es = set (loopback_names host) \<union> \<Union> (set ` no_proxy_entries ` (set_option upper \<union> set_option lower))"
    unfolding es_def fold_push_unique(1) vals [symmetric] by auto
  have "\<forall>e \<in> set es. clean_entry e"
    using set loopback_names_clean [OF host(1)] no_proxy_entries_clean by auto
  moreover have "distinct es" unfolding es_def by (intro fold_push_unique(2)) simp
  ultimately show thesis using that host(2) set by blast
qed

lemma merge_loopback_stable:
  assumes "merge_loopback_no_proxy upper lower host = Some v"
  shows "merge_loopback_no_proxy (Some v) (Some v) host = Some v"
proof -
  obtain es where es: "v = join '','' es" "distinct es" "\<forall>e \<in> set es. clean_entry e"
      "set (loopback_names host) \<subseteq> set es"
    using merge_loopback_entries [OF assms] by (metis Un_upper1)
  have "es \<noteq> []" using es(4) by (auto simp: loopback_names_def)
  then have entries: "no_proxy_entries v = es" using no_proxy_entries_join es(1,3) by simp
  have "is_loopback_host host" using assms by (auto simp: merge_loopback_no_proxy_def split: if_splits)
  then show ?thesis
    using es(4) by (simp add: merge_loopback_no_proxy_def entries fold_push_unique_distinct [OF es(2)]
        fold_push_unique_subset) (simp add: es(1))
qed

text \<open>Any other endpoint leaves the environment alone.\<close>

lemma merge_loopback_other: "\<not> is_loopback_host host \<Longrightarrow> merge_loopback_no_proxy upper lower host = None"
  by (simp add: merge_loopback_no_proxy_def)

lemma default_host_loopback: "is_loopback_host DEFAULT_HOST_ATTACH_IP"
  by (simp add: is_loopback_host_def DEFAULT_HOST_ATTACH_IP_def parse_ip_addr_def four_octets
      read_separator_def read_octet_def read_number_def is_ascii_digit_def byte_of_def hex_digit_val_def)

end
