(* ===== verification/HttpLaws.thy ===== *)
theory HttpLaws
  imports Http
begin

text \<open>
  What the probe guarantees: a bounded response, a result that depends only on the bytes received
  and not on how reads cut them, and the exact condition for a healthy verdict.
\<close>

section \<open>Bounds\<close>

lemma http_body_start_bounds: "http_body_start s = Some n \<Longrightarrow> 4 \<le> n \<and> n \<le> length s"
proof (induction s arbitrary: n rule: http_body_start.induct)
  case (2 c cs)
  show ?case
  proof (cases "take 4 (c # cs) = crlf @ crlf")
    case True
    then have "length (take 4 (c # cs)) = 4" by (simp add: crlf_def)
    then show ?thesis using True "2.prems" by (simp add: min_def split: if_splits)
  qed (use 2 in \<open>auto simp del: take_Suc_Cons\<close>)
qed simp

lemma http_body_start_append: "http_body_start s = Some n \<Longrightarrow> http_body_start (s @ t) = Some n"
proof (induction s arbitrary: n rule: http_body_start.induct)
  case (2 c cs)
  have step: "http_body_start ((c # cs) @ t) =
      (if take 4 ((c # cs) @ t) = crlf @ crlf then Some 4 else map_option Suc (http_body_start (cs @ t)))"
    by simp
  have pre: "take 4 ((c # cs) @ t) = take 4 (c # cs)"
    using http_body_start_bounds [OF "2.prems"] by (simp only: take_append) auto
  show ?case
  proof (cases "take 4 (c # cs) = crlf @ crlf")
    case False
    then obtain m where "http_body_start cs = Some m" "n = Suc m"
      using "2.prems" by (auto simp del: take_Suc_Cons)
    then show ?thesis unfolding step pre using False "2.IH" [OF False] by simp
  qed (use "2.prems" in \<open>unfold step pre, simp\<close>)
qed simp

lemma read_headers_Ok:
  "read_headers r = (Ok n, r') \<Longrightarrow> length (hr_response r) \<le> MAX_HTTP_RESPONSE_BYTES \<Longrightarrow>
     length (hr_response r') \<le> MAX_HTTP_RESPONSE_BYTES \<and> http_body_start (hr_response r') = Some n"
  by (induction r rule: read_headers.induct)
    (subst (asm) (2) read_headers.simps, auto dest: read_chunk_Data
      split: option.splits prod.splits sum.splits http_read.splits)

lemma fill_to_Ok:
  "fill_to len r = (Ok (), r') \<Longrightarrow> length (hr_response r) \<le> MAX_HTTP_RESPONSE_BYTES \<Longrightarrow>
     length (hr_response r') \<le> MAX_HTTP_RESPONSE_BYTES \<and> len \<le> length (hr_response r')"
  by (induction len r rule: fill_to.induct)
    (subst (asm) (2) fill_to.simps, auto dest: read_chunk_Data
      split: prod.splits sum.splits http_read.splits if_splits)

lemma read_undeclared_body_Ok:
  "read_undeclared_body r = (Ok (), r') \<Longrightarrow> length (hr_response r) \<le> MAX_HTTP_RESPONSE_BYTES \<Longrightarrow>
     length (hr_response r') \<le> MAX_HTTP_RESPONSE_BYTES"
proof (induction r rule: read_undeclared_body.induct)
  case (1 r)
  have keep: "read_chunk r = (Ok x, q) \<Longrightarrow> x \<noteq> HttpData \<Longrightarrow> hr_response q = hr_response r" for x q
    by (auto simp: read_chunk_def split: prod.splits read_event.splits if_splits option.splits)
  show ?case
    using "1.prems" "1.IH"
    by (subst (asm) read_undeclared_body.simps)
      (auto dest: read_chunk_Data keep split: prod.splits sum.splits http_read.splits)
qed


section \<open>Independence of how reads cut the response\<close>

definition data_only :: "read_event list \<Rightarrow> bool" where
  "data_only es \<longleftrightarrow> list_all (\<lambda>e. case e of ReadBytes bs \<Rightarrow> bs \<noteq> [] | _ \<Rightarrow> False) es"

fun bytes_of :: "read_event list \<Rightarrow> string" where
  "bytes_of [] = []"
| "bytes_of (ReadBytes bs # es) = bs @ bytes_of es"
| "bytes_of (_ # es) = bytes_of es"

definition all_bytes :: "http_reader \<Rightarrow> string" where
  "all_bytes r = hr_response r @ bytes_of (hr_stream r)"

definition good :: "http_reader \<Rightarrow> bool" where
  "good r \<longleftrightarrow> data_only (hr_stream r) \<and> length (all_bytes r) \<le> MAX_HTTP_RESPONSE_BYTES"

text \<open>The abstract specification: how the bytes of a whole response are understood.\<close>

definition whole_response :: "string \<Rightarrow> http_probe_error + http_response" where
  "whole_response bs =
     (case http_body_start bs of
        None \<Rightarrow> Err ResponseHeadersUnavailable
      | Some n \<Rightarrow>
          and_then (parse_http_response_headers (take n bs)) (\<lambda>(code, cl).
            case cl of
              None \<Rightarrow> Ok \<lparr>status_code = code, body = drop n bs\<rparr>
            | Some l \<Rightarrow>
                if MAX_HTTP_RESPONSE_BYTES < n + l then Err ResponseTooLarge
                else if length bs < n + l then Err ResponseBodyIncomplete
                else Ok \<lparr>status_code = code, body = take l (drop n bs)\<rparr>))"

lemma read_chunk_good:
  assumes "good r"
  shows "(hr_stream r = [] \<and> read_chunk r = (Ok HttpEnd, r)) \<or>
    (\<exists>r'. read_chunk r = (Ok HttpData, r') \<and> good r' \<and> all_bytes r' = all_bytes r)"
proof (cases "hr_stream r")
  case (Cons e es)
  then obtain bs where e: "e = ReadBytes bs" "bs \<noteq> []" "data_only es"
    using assms by (cases e) (auto simp: good_def data_only_def)
  let ?es = "if length bs \<le> 512 then es else ReadBytes (drop 512 bs) # es"
  let ?r = "r\<lparr>hr_stream := ?es, hr_response := hr_response r @ take 512 bs\<rparr>"
  have t: "all_bytes ?r = all_bytes r"
    using Cons e by (auto simp: all_bytes_def)
  have "length (hr_response r) + length (take 512 bs) \<le> length (all_bytes r)"
    using Cons e by (simp add: all_bytes_def min_def)
  also have "\<dots> \<le> MAX_HTTP_RESPONSE_BYTES" using assms by (simp add: good_def)
  finally have fits: "length (hr_response r) + length (take 512 bs) \<le> MAX_HTTP_RESPONSE_BYTES" .
  moreover have "MAX_HTTP_RESPONSE_BYTES \<le> usize_max"
    by (simp add: MAX_HTTP_RESPONSE_BYTES_def usize_max_def)
  ultimately have "read_chunk r = (Ok HttpData, ?r)"
    using Cons e by (simp add: read_chunk_def checked_add_usize_def)
  moreover have "good ?r" using assms t e by (auto simp: good_def data_only_def)
  ultimately show ?thesis using t by blast
qed (simp add: read_chunk_def)

lemma read_headers_good:
  "good r \<Longrightarrow>
     (case http_body_start (all_bytes r) of
        None \<Rightarrow> (\<exists>r'. read_headers r = (Err ResponseHeadersUnavailable, r'))
      | Some n \<Rightarrow> (\<exists>r'. read_headers r = (Ok n, r') \<and> good r' \<and> all_bytes r' = all_bytes r
          \<and> http_body_start (hr_response r') = Some n))"
proof (induction r rule: read_headers.induct)
  case (1 r)
  show ?case
  proof (cases "http_body_start (hr_response r)")
    case (Some n)
    then have "http_body_start (all_bytes r) = Some n"
      by (simp add: all_bytes_def http_body_start_append)
    moreover have "read_headers r = (Ok n, r)" using Some by (subst read_headers.simps) simp
    ultimately show ?thesis using Some "1.prems" by simp
  next
    case None
    consider "hr_stream r = []" "read_chunk r = (Ok HttpEnd, r)"
      | r' where "read_chunk r = (Ok HttpData, r')" "good r'" "all_bytes r' = all_bytes r"
      using read_chunk_good [OF "1.prems"] by blast
    then show ?thesis
    proof cases
      case 1
      then have "read_headers r = (Err ResponseHeadersUnavailable, r)"
        using None by (subst read_headers.simps) simp
      then show ?thesis using None 1 by (simp add: all_bytes_def)
    next
      case 2
      then have eq: "read_headers r = read_headers r'" using None by (subst read_headers.simps) simp
      show ?thesis using "1.IH" [OF None 2(1) [symmetric] refl refl 2(2)] unfolding 2(3) eq .
    qed
  qed
qed

lemma fill_to_good:
  "good r \<Longrightarrow>
     (if len \<le> length (all_bytes r)
      then \<exists>r'. fill_to len r = (Ok (), r') \<and> all_bytes r' = all_bytes r \<and> len \<le> length (hr_response r')
      else \<exists>r'. fill_to len r = (Err ResponseBodyIncomplete, r'))"
proof (induction len r rule: fill_to.induct)
  case (1 len r)
  show ?case
  proof (cases "length (hr_response r) < len")
    case False
    then have "fill_to len r = (Ok (), r)" by (subst fill_to.simps) simp
    then show ?thesis using False by (auto simp: all_bytes_def)
  next
    case True
    consider "hr_stream r = []" "read_chunk r = (Ok HttpEnd, r)"
      | r' where "read_chunk r = (Ok HttpData, r')" "good r'" "all_bytes r' = all_bytes r"
      using read_chunk_good [OF "1.prems"] by blast
    then show ?thesis
    proof cases
      case 1
      then have "fill_to len r = (Err ResponseBodyIncomplete, r)"
        using True by (subst fill_to.simps) simp
      then show ?thesis using True 1 by (simp add: all_bytes_def)
    next
      case 2
      then have eq: "fill_to len r = fill_to len r'" using True by (subst fill_to.simps) simp
      show ?thesis using "1.IH" [OF True 2(1) [symmetric] refl refl 2(2)] unfolding 2(3) eq .
    qed
  qed
qed

lemma read_undeclared_good:
  "good r \<Longrightarrow> \<exists>r'. read_undeclared_body r = (Ok (), r') \<and> hr_response r' = all_bytes r"
proof (induction r rule: read_undeclared_body.induct)
  case (1 r)
  consider "hr_stream r = []" "read_chunk r = (Ok HttpEnd, r)"
    | r' where "read_chunk r = (Ok HttpData, r')" "good r'" "all_bytes r' = all_bytes r"
    using read_chunk_good [OF "1.prems"] by blast
  then show ?case
  proof cases
    case 1
    then have "read_undeclared_body r = (Ok (), r)" by (subst read_undeclared_body.simps) simp
    then show ?thesis using 1 by (simp add: all_bytes_def)
  next
    case 2
    then have "read_undeclared_body r = read_undeclared_body r'"
      by (subst read_undeclared_body.simps) simp
    then show ?thesis using "1.IH" [OF 2(1) [symmetric] refl refl 2(2)] 2(3) by simp
  qed
qed

lemma read_response_whole:
  assumes "data_only es" and "length (bytes_of es) \<le> MAX_HTTP_RESPONSE_BYTES"
  shows "read_response es = whole_response (bytes_of es)"
proof -
  let ?r = "\<lparr>hr_stream = es, hr_response = []\<rparr>"
  have t: "all_bytes ?r = bytes_of es" by (simp add: all_bytes_def)
  have g: "good ?r" using assms by (simp add: good_def t)
  note h = read_headers_good [OF g, unfolded t]
  show ?thesis
  proof (cases "http_body_start (bytes_of es)")
    case None
    then show ?thesis using h by (auto simp: read_response_def whole_response_def)
  next
    case (Some n)
    then obtain r where r: "read_headers ?r = (Ok n, r)" "good r" "all_bytes r = bytes_of es"
        "http_body_start (hr_response r) = Some n" using h by auto
    have n: "n \<le> length (hr_response r)" using r(4) http_body_start_bounds by blast
    then have head: "take n (hr_response r) = take n (bytes_of es)"
      using r(3) by (metis take_append append_Nil2 diff_is_0_eq take0 all_bytes_def)
    show ?thesis
    proof (cases "parse_http_response_headers (take n (bytes_of es))")
      case (Inl e)
      then show ?thesis using Some r head by (simp add: read_response_def whole_response_def)
    next
      case (Inr p)
      obtain code cl where p: "p = (code, cl)" by force
      show ?thesis
      proof (cases cl)
        case None
        then show ?thesis
          using read_undeclared_good [OF r(2)] Some r head Inr p
          by (auto simp: read_response_def whole_response_def)
      next
        case cl: (Some l)
        have "n + l \<le> usize_max" if "\<not> MAX_HTTP_RESPONSE_BYTES < n + l"
          using that by (simp add: MAX_HTTP_RESPONSE_BYTES_def usize_max_def)
        then have declared: "read_declared_body n l r =
            (if MAX_HTTP_RESPONSE_BYTES < n + l then (Err ResponseTooLarge, r)
             else (case fill_to (n + l) r of
               (Inl e, r') \<Rightarrow> (Err e, r')
             | (Inr _, r') \<Rightarrow> (Ok (), r'\<lparr>hr_response := take (n + l) (hr_response r')\<rparr>)))"
          by (simp add: read_declared_body_def checked_add_usize_def)
        consider (big) "MAX_HTTP_RESPONSE_BYTES < n + l"
          | (short) "n + l \<le> MAX_HTTP_RESPONSE_BYTES" "length (bytes_of es) < n + l"
          | (fits) "n + l \<le> MAX_HTTP_RESPONSE_BYTES" "n + l \<le> length (bytes_of es)" by linarith
        then show ?thesis
        proof cases
          case big
          then show ?thesis
            using declared Some r head Inr p cl by (simp add: read_response_def whole_response_def)
        next
          case short
          then obtain r' where "fill_to (n + l) r = (Err ResponseBodyIncomplete, r')"
            using fill_to_good [OF r(2), of "n + l"] r(3) by auto
          then show ?thesis
            using short declared Some r head Inr p cl
            by (simp add: read_response_def whole_response_def)
        next
          case fits
          then obtain r' where r': "fill_to (n + l) r = (Ok (), r')" "all_bytes r' = bytes_of es"
              "n + l \<le> length (hr_response r')"
            using fill_to_good [OF r(2), of "n + l"] r(3) by auto
          then have "take (n + l) (hr_response r') = take (n + l) (bytes_of es)"
            by (metis take_append append_Nil2 diff_is_0_eq take0 all_bytes_def)
          then have "drop n (take (n + l) (hr_response r')) = take l (drop n (bytes_of es))"
            by (simp add: drop_take)
          then show ?thesis
            using fits r' declared Some r head Inr p cl
            by (simp add: read_response_def whole_response_def)
        qed
      qed
    qed
  qed
qed

text \<open>C20: reading is independent of chunking. When a peer sends at most 64 KiB and neither stalls nor
  breaks the connection, the outcome is the one of parsing the whole byte sequence at once, however
  the bytes were cut into reads: the headers up to the first blank line, then the declared number of
  bytes, or all of them when no length is declared.\<close>

theorem response_refines_whole:
  assumes "data_only es" and "length (bytes_of es) \<le> MAX_HTTP_RESPONSE_BYTES"
  shows "read_response es = whole_response (bytes_of es)"
  using assms by (rule read_response_whole)

definition sample_response :: string where
  "sample_response = concat [''HTTP/1.1 200 OK'', crlf, ''Content-Length: 2'', crlf, crlf, ''ok'']"

lemma whole_sample_response:
  "whole_response sample_response = Ok \<lparr>status_code = 200, body = ''ok''\<rparr>"
proof -
  have "http_body_start sample_response = Some 38"
    by (simp add: sample_response_def crlf_def)
  moreover have "parse_http_response_headers (take 38 sample_response) = Ok (200, Some 2)"
  proof -
    have "split_whitespace ''HTTP/1.1 200 OK'' = [''HTTP/1.1'', ''200'', ''OK'']" by code_simp
    moreover have "to_ascii_lowercase ''Content-Length'' = ''content-length''" by code_simp
    moreover have "trim '' 2'' = ''2''" by code_simp
    ultimately show ?thesis
      by (simp add: sample_response_def crlf_def parse_http_response_headers_def valid_utf8_def
          byte_of_def starts_with_def parse_u16_def parse_usize_def parse_bounded_def parse_nat_def
          is_ascii_digit_def digits_val_def digit_val_def usize_max_def)
  qed
  ultimately show ?thesis
    by (simp add: whole_response_def MAX_HTTP_RESPONSE_BYTES_def) (simp add: sample_response_def crlf_def)
qed

lemma response_refines_whole_witness:
  "read_response [ReadBytes (take 20 sample_response), ReadBytes (drop 20 sample_response)] =
     Ok \<lparr>status_code = 200, body = ''ok''\<rparr>"
proof -
  let ?es = "[ReadBytes (take 20 sample_response), ReadBytes (drop 20 sample_response)]"
  have l: "length sample_response = 40" by (simp add: sample_response_def crlf_def)
  then have "data_only ?es" by (auto simp: data_only_def)
  moreover have "length (bytes_of ?es) \<le> MAX_HTTP_RESPONSE_BYTES"
    using l by (simp add: MAX_HTTP_RESPONSE_BYTES_def)
  ultimately have "read_response ?es = whole_response (bytes_of ?es)" by (rule response_refines_whole)
  also have "bytes_of ?es = sample_response" by simp
  also have "whole_response sample_response = Ok \<lparr>status_code = 200, body = ''ok''\<rparr>"
    by (rule whole_sample_response)
  finally show ?thesis .
qed


section \<open>The verdict\<close>

lemma check_addresses_healthy:
  "check_addresses hf runtime cs last_unhealthy = Healthy \<longleftrightarrow>
     (\<exists>written es. Connected written es \<in> set cs
        \<and> endpoint_connection_health hf runtime written es = Healthy)
     \<or> (last_unhealthy = Some Healthy \<and> (\<forall>written es. Connected written es \<notin> set cs))"
proof (induction hf runtime cs last_unhealthy rule: check_addresses.induct)
  case (1 hf runtime last_unhealthy)
  then show ?case by (cases last_unhealthy) auto
next
  case (3 hf runtime written es cs last_unhealthy)
  show ?case
  proof (cases "endpoint_connection_health hf runtime written es")
    case Healthy
    then show ?thesis by (auto simp: Let_def)
  next
    case (Unhealthy x2)
    then show ?thesis using 3 by (auto simp: Let_def)
  qed
qed auto

text \<open>An endpoint is healthy exactly when some address it resolves to accepts the connection and
  the request and answers 200, and, for a runtime whose policy reads a JSON flag, the body says it
  is healthy. A failing address does not mask a healthy one, whatever their order.\<close>

lemma probe_healthy_iff:
  "probe_check hf runtime addresses = Healthy \<longleftrightarrow>
     (\<exists>cs es r. addresses = Some cs \<and> Connected True es \<in> set cs \<and> read_response es = Ok r
        \<and> status_code r = 200
        \<and> (response_policy (profile runtime) = HttpOk \<or> hf (body r) = Some True))"
proof -
  have one: "endpoint_connection_health hf runtime written es = Healthy \<longleftrightarrow>
      written \<and> (\<exists>r. read_response es = Ok r \<and> status_code r = 200
        \<and> (response_policy (profile runtime) = HttpOk \<or> hf (body r) = Some True))" for written es
    by (cases "response_policy (profile runtime)")
      (auto simp: endpoint_connection_health_def get_response_def health_response_status_def
        split: sum.splits option.splits bool.splits)
  show ?thesis
    by (auto simp: probe_check_def check_addresses_healthy one split: option.splits)
qed

end
