(* ===== verification/Locks.thy ===== *)
theory Locks
  imports Effects Identity
begin

text \<open>
  Workspace lock files: \<open>src/lock.rs\<close> and \<open>src/state.rs\<close>. First the operations as one process runs
  them, over the calls they make to the file system; then the protocol they form when several
  processes run them at once, as a step relation over files with identities (inodes) and advisory
  locks on those identities.
\<close>

section \<open>Paths and names\<close>

definition AGENTBOX_STATE_DIR :: string where "AGENTBOX_STATE_DIR = ''agentbox''"
definition LOCKS_DIR :: string where "LOCKS_DIR = ''locks''"
definition LOCK_FILE_EXTENSION :: string where "LOCK_FILE_EXTENSION = ''.lock''"

definition xdg_state_dir_error :: error where
  "xdg_state_dir_error = msg [''failed to resolve XDG state directory'']"

definition from_state_home :: "path \<Rightarrow> path" where
  "from_state_home state_home = path_join state_home AGENTBOX_STATE_DIR"

text \<open>The XDG base directories are a parameter: the state home, when there is one.\<close>

definition state_root_from_xdg :: "path option \<Rightarrow> path res" where
  "state_root_from_xdg state_home = map_ok from_state_home (ok_or state_home xdg_state_dir_error)"

definition lock_dir :: "path \<Rightarrow> path" where
  "lock_dir root = path_join root LOCKS_DIR"

definition lock_path_for_digest :: "path \<Rightarrow> string \<Rightarrow> path" where
  "lock_path_for_digest root digest = path_join (lock_dir root) (digest @ LOCK_FILE_EXTENSION)"

definition is_workspace_lock_file_name :: "string \<Rightarrow> bool" where
  "is_workspace_lock_file_name name =
     (case strip_suffix LOCK_FILE_EXTENSION name of
        None \<Rightarrow> False
      | Some digest \<Rightarrow> length digest = 64 \<and> list_all is_lower_hex digest)"

section \<open>Operations\<close>

text \<open>The calls to the operating system. A file is open under a handle; \<open>fs_same_file\<close> compares device
  and inode of a handle and a path, and is false for a path that does not exist. A missing file, a
  lock held by another process and a missing directory are the \<open>None\<close> or \<open>False\<close> of their calls.\<close>

record 'w lock_fs =
  fs_open_or_create :: "path \<Rightarrow> 'w \<Rightarrow> nat res \<times> 'w"
  fs_open_existing :: "path \<Rightarrow> 'w \<Rightarrow> (nat option) res \<times> 'w"
  fs_lock :: "nat \<Rightarrow> 'w \<Rightarrow> unit res \<times> 'w"
  fs_try_lock :: "nat \<Rightarrow> 'w \<Rightarrow> bool res \<times> 'w"
  fs_unlock :: "nat \<Rightarrow> 'w \<Rightarrow> unit \<times> 'w"
  fs_same_file :: "nat \<Rightarrow> path \<Rightarrow> 'w \<Rightarrow> bool res \<times> 'w"
  fs_remove :: "path \<Rightarrow> 'w \<Rightarrow> bool res \<times> 'w"
  fs_read_dir :: "path \<Rightarrow> 'w \<Rightarrow> ((string \<times> bool) list option) res \<times> 'w"

record workspace_lock =
  wl_path :: path
  wl_handle :: nat

definition lock_digest :: "'w lock_fs \<Rightarrow> path \<Rightarrow> string \<Rightarrow> ('w, workspace_lock res) io" where
  "lock_digest fs root digest =
     (let p = lock_path_for_digest root digest in
      map_io (map_ok (\<lambda>f. \<lparr>wl_path = p, wl_handle = f\<rparr>)) (State (fs_open_or_create fs p)))"

definition lock_guard :: "'w lock_fs \<Rightarrow> workspace_lock \<Rightarrow> ('w, unit res) io" where
  "lock_guard fs l =
     attempt (State (fs_lock fs (wl_handle l))) (\<lambda>_. do {
       same \<leftarrow> State (fs_same_file fs (wl_handle l) (wl_path l));
       (if same = Ok True then pure (Ok ())
        else do {
          _ \<leftarrow> State (fs_unlock fs (wl_handle l));
          pure (case same of
              Inl e \<Rightarrow> Err e
            | Inr _ \<Rightarrow> Err (msg [''workspace lock file changed while acquiring it; retry the command''])) }) })"

datatype lock_file_removal = RemovalRemoved | RemovalMissing | RemovalLocked

definition remove_cleanup_lock_file :: "'w lock_fs \<Rightarrow> path \<Rightarrow> ('w, lock_file_removal res) io" where
  "remove_cleanup_lock_file fs p =
     attempt (State (fs_open_existing fs p)) (\<lambda>found. case found of
       None \<Rightarrow> pure (Ok RemovalMissing)
     | Some f \<Rightarrow>
         attempt (State (fs_try_lock fs f)) (\<lambda>got.
           if \<not> got then pure (Ok RemovalLocked)
           else do {
             r \<leftarrow> State (fs_remove fs p);
             _ \<leftarrow> State (fs_unlock fs f);
             pure (map_ok (\<lambda>removed. if removed then RemovalRemoved else RemovalMissing) r) }))"

datatype lock_file_status = AvailableLock (lock_status_path: path) | LockedLock (lock_status_path: path)

definition cleanup_lock_file_status :: "'w lock_fs \<Rightarrow> path \<Rightarrow> ('w, (lock_file_status option) res) io" where
  "cleanup_lock_file_status fs p =
     attempt (State (fs_open_existing fs p)) (\<lambda>found. case found of
       None \<Rightarrow> pure (Ok None)
     | Some f \<Rightarrow>
         attempt (State (fs_try_lock fs f)) (\<lambda>got.
           if got then do { _ \<leftarrow> State (fs_unlock fs f); pure (Ok (Some (AvailableLock p))) }
           else pure (Ok (Some (LockedLock p)))))"

fun lock_statuses :: "'w lock_fs \<Rightarrow> path \<Rightarrow> (string \<times> bool) list \<Rightarrow> ('w, (lock_file_status list) res) io" where
  "lock_statuses fs dir [] = pure (Ok [])"
| "lock_statuses fs dir ((name, is_file) # es) =
     (if \<not> is_file \<or> \<not> is_workspace_lock_file_name name then lock_statuses fs dir es
      else attempt (cleanup_lock_file_status fs (path_join dir name)) (\<lambda>st.
        map_io (map_ok (\<lambda>rest. case st of None \<Rightarrow> rest | Some x \<Rightarrow> x # rest)) (lock_statuses fs dir es)))"

definition cleanup_lock_files :: "'w lock_fs \<Rightarrow> path \<Rightarrow> ('w, (lock_file_status list) res) io" where
  "cleanup_lock_files fs root =
     attempt (State (fs_read_dir fs (lock_dir root))) (\<lambda>entries. case entries of
       None \<Rightarrow> pure (Ok [])
     | Some es \<Rightarrow> map_io (map_ok (sort_key (\<lambda>s. components (lock_status_path s)))) (lock_statuses fs (lock_dir root) es))"

section \<open>The protocol\<close>

text \<open>Where a process is: in \<^const>\<open>lock_digest\<close> and \<^const>\<open>lock_guard\<close>, holding a guard, or in
  \<^const>\<open>remove_cleanup_lock_file\<close>. Each step is one call to the operating system.\<close>

datatype lock_pc =
    Idle
  | Opened path nat
  | Acquired path nat
  | Guarded path nat
  | CleanOpened path nat
  | CleanLocked path nat
  | CleanRemoved nat

record lock_state =
  ls_files :: "path \<Rightarrow> nat option"
  ls_holder :: "nat \<Rightarrow> nat option"
  ls_fresh :: nat
  ls_pc :: "nat \<Rightarrow> lock_pc"

definition lock_init :: lock_state where
  "lock_init = \<lparr>ls_files = (\<lambda>_. None), ls_holder = (\<lambda>_. None), ls_fresh = 0, ls_pc = (\<lambda>_. Idle)\<rparr>"

definition goto :: "nat \<Rightarrow> lock_pc \<Rightarrow> lock_state \<Rightarrow> lock_state" where
  "goto p c s = s\<lparr>ls_pc := (ls_pc s)(p := c)\<rparr>"

definition hold :: "nat \<Rightarrow> nat option \<Rightarrow> lock_state \<Rightarrow> lock_state" where
  "hold ino who s = s\<lparr>ls_holder := (ls_holder s)(ino := who)\<rparr>"

inductive lock_step_of :: "nat \<Rightarrow> lock_state \<Rightarrow> lock_state \<Rightarrow> bool" for p :: nat where
  open_existing: "ls_pc s p = Idle \<Longrightarrow> ls_files s f = Some ino \<Longrightarrow>
    lock_step_of p s (goto p (Opened f ino) s)"
| open_create: "ls_pc s p = Idle \<Longrightarrow> ls_files s f = None \<Longrightarrow>
    lock_step_of p s (goto p (Opened f (ls_fresh s))
      (s\<lparr>ls_files := (ls_files s)(f := Some (ls_fresh s)), ls_fresh := Suc (ls_fresh s)\<rparr>))"
| acquire: "ls_pc s p = Opened f ino \<Longrightarrow> ls_holder s ino = None \<Longrightarrow>
    lock_step_of p s (goto p (Acquired f ino) (hold ino (Some p) s))"
| check_same: "ls_pc s p = Acquired f ino \<Longrightarrow> ls_files s f = Some ino \<Longrightarrow>
    lock_step_of p s (goto p (Guarded f ino) s)"
| check_changed: "ls_pc s p = Acquired f ino \<Longrightarrow> ls_files s f \<noteq> Some ino \<Longrightarrow>
    lock_step_of p s (goto p Idle (hold ino None s))"
| release: "ls_pc s p = Guarded f ino \<Longrightarrow>
    lock_step_of p s (goto p Idle (hold ino None s))"
| clean_open: "ls_pc s p = Idle \<Longrightarrow> ls_files s f = Some ino \<Longrightarrow>
    lock_step_of p s (goto p (CleanOpened f ino) s)"
| clean_lock: "ls_pc s p = CleanOpened f ino \<Longrightarrow> ls_holder s ino = None \<Longrightarrow>
    lock_step_of p s (goto p (CleanLocked f ino) (hold ino (Some p) s))"
| clean_blocked: "ls_pc s p = CleanOpened f ino \<Longrightarrow> ls_holder s ino \<noteq> None \<Longrightarrow>
    lock_step_of p s (goto p Idle s)"
| clean_remove: "ls_pc s p = CleanLocked f ino \<Longrightarrow>
    lock_step_of p s (goto p (CleanRemoved ino) (s\<lparr>ls_files := (ls_files s)(f := None)\<rparr>))"
| clean_release: "ls_pc s p = CleanRemoved ino \<Longrightarrow>
    lock_step_of p s (goto p Idle (hold ino None s))"

inductive_cases lock_step_ofE: "lock_step_of p s t"

text \<open>The states that can be reached while \<open>allowed\<close> holds of all of them.\<close>

inductive lock_reach :: "(lock_state \<Rightarrow> bool) \<Rightarrow> lock_state \<Rightarrow> bool" for allowed where
  init: "lock_reach allowed lock_init"
| step: "lock_reach allowed s \<Longrightarrow> lock_step_of p s t \<Longrightarrow> allowed t \<Longrightarrow> lock_reach allowed t"

fun cleaning :: "lock_pc \<Rightarrow> bool" where
  "cleaning (CleanOpened f ino) = True"
| "cleaning (CleanLocked f ino) = True"
| "cleaning (CleanRemoved ino) = True"
| "cleaning _ = False"

text \<open>At most one process at a time is cleaning up lock files.\<close>

definition one_cleaner :: "lock_state \<Rightarrow> bool" where
  "one_cleaner s \<longleftrightarrow> (\<forall>p q. cleaning (ls_pc s p) \<longrightarrow> cleaning (ls_pc s q) \<longrightarrow> p = q)"

section \<open>Mutual exclusion\<close>

text \<open>Which inode's lock a process holds.\<close>

fun holds :: "lock_pc \<Rightarrow> nat option" where
  "holds (Acquired f ino) = Some ino"
| "holds (Guarded f ino) = Some ino"
| "holds (CleanLocked f ino) = Some ino"
| "holds (CleanRemoved ino) = Some ino"
| "holds _ = None"

text \<open>A cleaner's file is still the one at its path until the cleaner removes it, and so is the file
  of every guard.\<close>

fun anchored :: "(path \<Rightarrow> nat option) \<Rightarrow> lock_pc \<Rightarrow> bool" where
  "anchored files (Guarded f ino) = (files f = Some ino)"
| "anchored files (CleanOpened f ino) = (files f = Some ino)"
| "anchored files (CleanLocked f ino) = (files f = Some ino)"
| "anchored files _ = True"

definition lock_inv :: "lock_state \<Rightarrow> bool" where
  "lock_inv s \<longleftrightarrow> (\<forall>p ino. holds (ls_pc s p) = Some ino \<longrightarrow> ls_holder s ino = Some p)
     \<and> (\<forall>p. anchored (ls_files s) (ls_pc s p))"

lemma lock_inv_holds: "lock_inv s \<Longrightarrow> holds (ls_pc s p) = Some ino \<Longrightarrow> ls_holder s ino = Some p"
  by (simp add: lock_inv_def)

lemma lock_inv_release:
  assumes "lock_inv s" "holds (ls_pc s p) = Some ino"
  shows "lock_inv (goto p Idle (hold ino None s))"
proof -
  have "ls_holder s ino = Some p" by (rule lock_inv_holds [OF assms])
  then show ?thesis using assms(1) by (auto simp: lock_inv_def goto_def hold_def)
qed

lemma lock_inv_take:
  assumes "lock_inv s" "ls_holder s ino = None" "holds c = Some ino" "anchored (ls_files s) c"
  shows "lock_inv (goto p c (hold ino (Some p) s))"
proof -
  have "holds (ls_pc s q) \<noteq> Some ino" for q using lock_inv_holds [OF assms(1)] assms(2) by fastforce
  then show ?thesis using assms by (auto simp: lock_inv_def goto_def hold_def)
qed

lemma lock_inv_goto:
  assumes "lock_inv s" "holds c = None \<or> holds c = holds (ls_pc s p)" "anchored (ls_files s) c"
  shows "lock_inv (goto p c s)"
  using assms by (auto simp: lock_inv_def goto_def)

lemma lock_inv_anchored: "lock_inv s \<Longrightarrow> ls_pc s p = c \<Longrightarrow> anchored (ls_files s) c"
  by (auto simp: lock_inv_def)

lemma lock_inv_step:
  assumes inv: "lock_inv s" "one_cleaner s" and "lock_step_of p s t"
  shows "lock_inv t"
  using assms(3)
proof (cases rule: lock_step_of.cases)
  case (clean_remove f ino)
  have "anchored ((ls_files s)(f := None)) (ls_pc s q)" if "q \<noteq> p" for q
  proof -
    have a: "anchored (ls_files s) (ls_pc s q)" using inv(1) by (simp add: lock_inv_def)
    have "\<not> cleaning (ls_pc s q)"
      using inv(2) clean_remove(2) that unfolding one_cleaner_def by (metis cleaning.simps(2))
    moreover have "ls_holder s ino = Some p" using lock_inv_holds [OF inv(1), of p ino] clean_remove(2) by simp
    moreover have "ls_files s f = Some ino"
      using inv(1) clean_remove(2) unfolding lock_inv_def by (metis anchored.simps(3))
    ultimately show ?thesis
      using a that lock_inv_holds [OF inv(1), of q] by (cases "ls_pc s q") auto
  qed
  then show ?thesis
    using inv(1) clean_remove by (auto simp: lock_inv_def goto_def)
next
  case (open_create f)
  have "anchored ((ls_files s)(f := Some (ls_fresh s))) (ls_pc s q)" for q
  proof -
    have "anchored (ls_files s) (ls_pc s q)" using inv(1) by (simp add: lock_inv_def)
    then show ?thesis using open_create(3) by (cases "ls_pc s q") auto
  qed
  then show ?thesis using inv(1) open_create by (auto simp: lock_inv_def goto_def)
next
  case (open_existing f ino)
  then show ?thesis using inv(1) by (simp add: lock_inv_goto)
next
  case (acquire f ino)
  then show ?thesis using inv(1) by (simp add: lock_inv_take)
next
  case (check_same f ino)
  then show ?thesis using inv(1) by (simp add: lock_inv_goto)
next
  case (check_changed f ino)
  then show ?thesis using inv(1) by (simp add: lock_inv_release)
next
  case (release f ino)
  then show ?thesis using inv(1) by (simp add: lock_inv_release)
next
  case (clean_open f ino)
  then show ?thesis using inv(1) by (simp add: lock_inv_goto)
next
  case (clean_lock f ino)
  then show ?thesis using inv(1) lock_inv_anchored [OF inv(1) clean_lock(2)] by (simp add: lock_inv_take)
next
  case (clean_blocked f ino)
  then show ?thesis using inv(1) by (simp add: lock_inv_goto)
next
  case (clean_release ino)
  then show ?thesis using inv(1) by (simp add: lock_inv_release)
qed

lemma lock_inv_reach: "lock_reach one_cleaner s \<Longrightarrow> lock_inv s \<and> one_cleaner s"
proof (induction rule: lock_reach.induct)
  case init
  then show ?case by (simp add: lock_inv_def lock_init_def one_cleaner_def)
qed (use lock_inv_step in blast)

text \<open>C26: two processes never hold the guard of the same lock file, as long as at most one process at a
  time cleans up lock files.\<close>

theorem lock_mutual_exclusion:
  assumes "lock_reach one_cleaner s"
    and "ls_pc s p = Guarded f i" and "ls_pc s q = Guarded f j"
  shows "p = q"
proof -
  have inv: "lock_inv s" using lock_inv_reach [OF assms(1)] by blast
  then have "anchored (ls_files s) (Guarded f i)" "anchored (ls_files s) (Guarded f j)"
    using assms(2,3) unfolding lock_inv_def by metis+
  then have "i = j" by simp
  then show ?thesis
    using lock_inv_holds [OF inv, of p i] lock_inv_holds [OF inv, of q j] assms(2,3) by simp
qed


section \<open>Running the protocol\<close>

text \<open>The same protocol as a function: what a process does next, when it can.\<close>

datatype lock_act = OpenLock path | OpenClean path | Advance

fun lock_advance :: "nat \<Rightarrow> lock_pc \<Rightarrow> lock_state \<Rightarrow> lock_state option" where
  "lock_advance p Idle s = None"
| "lock_advance p (Opened f ino) s =
     (if ls_holder s ino = None then Some (goto p (Acquired f ino) (hold ino (Some p) s)) else None)"
| "lock_advance p (Acquired f ino) s =
     Some (if ls_files s f = Some ino then goto p (Guarded f ino) s else goto p Idle (hold ino None s))"
| "lock_advance p (Guarded f ino) s = Some (goto p Idle (hold ino None s))"
| "lock_advance p (CleanOpened f ino) s =
     Some (if ls_holder s ino = None then goto p (CleanLocked f ino) (hold ino (Some p) s) else goto p Idle s)"
| "lock_advance p (CleanLocked f ino) s =
     Some (goto p (CleanRemoved ino) (s\<lparr>ls_files := (ls_files s)(f := None)\<rparr>))"
| "lock_advance p (CleanRemoved ino) s = Some (goto p Idle (hold ino None s))"

fun lock_do :: "nat \<Rightarrow> lock_act \<Rightarrow> lock_state \<Rightarrow> lock_state option" where
  "lock_do p Advance s = lock_advance p (ls_pc s p) s"
| "lock_do p (OpenLock f) s =
     (if ls_pc s p \<noteq> Idle then None
      else Some (case ls_files s f of
          Some ino \<Rightarrow> goto p (Opened f ino) s
        | None \<Rightarrow> goto p (Opened f (ls_fresh s))
            (s\<lparr>ls_files := (ls_files s)(f := Some (ls_fresh s)), ls_fresh := Suc (ls_fresh s)\<rparr>)))"
| "lock_do p (OpenClean f) s =
     (if ls_pc s p \<noteq> Idle then None else map_option (\<lambda>ino. goto p (CleanOpened f ino) s) (ls_files s f))"

lemma lock_do_iff: "lock_step_of p s t \<longleftrightarrow> (\<exists>a. lock_do p a s = Some t)"
proof
  assume "lock_step_of p s t"
  then show "\<exists>a. lock_do p a s = Some t"
  proof (cases rule: lock_step_of.cases)
    case (open_existing f ino)
    then show ?thesis by (intro exI [of _ "OpenLock f"]) simp
  next
    case (open_create f)
    then show ?thesis by (intro exI [of _ "OpenLock f"]) simp
  next
    case (clean_open f ino)
    then show ?thesis by (intro exI [of _ "OpenClean f"]) simp
  qed (intro exI [of _ Advance]; auto)+
next
  assume "\<exists>a. lock_do p a s = Some t"
  then obtain a where a: "lock_do p a s = Some t" by blast
  show "lock_step_of p s t"
  proof (cases a)
    case Advance
    then show ?thesis
      using a by (cases "ls_pc s p") (auto split: if_splits intro: lock_step_of.intros)
  qed (use a in \<open>auto split: if_splits option.splits intro: lock_step_of.intros\<close>)
qed

lemma lock_reach_do:
  "lock_reach allowed s \<Longrightarrow> lock_do p a s = Some t \<Longrightarrow> allowed t \<Longrightarrow> lock_reach allowed t"
  using lock_do_iff by (blast intro: lock_reach.step)

fun lock_exec :: "(nat \<times> lock_act) list \<Rightarrow> lock_state \<Rightarrow> lock_state option" where
  "lock_exec [] s = Some s"
| "lock_exec ((p, a) # as) s = Option.bind (lock_do p a s) (lock_exec as)"

lemma lock_reach_exec: "lock_reach (\<lambda>_. True) s \<Longrightarrow> lock_exec as s = Some t \<Longrightarrow> lock_reach (\<lambda>_. True) t"
  by (induction as s rule: lock_exec.induct) (auto simp: bind_eq_Some_conv intro: lock_reach_do)

lemmas lock_eval = lock_init_def goto_def hold_def

lemma lock_mutual_exclusion_witness:
  "\<exists>s p q. lock_reach one_cleaner s \<and> ls_pc s p = Guarded ''l'' 0 \<and> ls_pc s q = Guarded ''l'' 0 \<and> p = q"
proof -
  let ?s1 = "goto 1 (Opened ''l'' 0) (lock_init\<lparr>ls_files := (ls_files lock_init)(''l'' := Some 0), ls_fresh := 1\<rparr>)"
  let ?s2 = "goto 1 (Acquired ''l'' 0) (hold 0 (Some 1) ?s1)"
  let ?s3 = "goto 1 (Guarded ''l'' 0) ?s2"
  have "lock_reach one_cleaner ?s1"
    by (rule lock_reach_do [OF lock_reach.init, of 1 "OpenLock ''l''"])
      (simp_all add: lock_eval one_cleaner_def)
  then have "lock_reach one_cleaner ?s2"
    by (rule lock_reach_do [of _ _ 1 Advance]) (simp_all add: lock_eval one_cleaner_def)
  then have r: "lock_reach one_cleaner ?s3"
    by (rule lock_reach_do [of _ _ 1 Advance]) (simp_all add: lock_eval one_cleaner_def)
  then have "(1::nat) = 1" by (rule lock_mutual_exclusion) (simp_all add: lock_eval)
  then show ?thesis using r by (intro exI [of _ ?s3] exI [of _ 1]) (simp add: lock_eval)
qed

section \<open>The race\<close>

text \<open>Processes 1 and 2 clean up, 3 and 4 run commands. Both cleaners open the file that a command of
  process 3 left behind; the first removes it; process 3 starts again, with a new file; the second
  cleaner then gets the lock of the file that is gone, and removes the new file by its path; process 4
  starts, with a third file.\<close>

definition race_schedule :: "(nat \<times> lock_act) list" where
  "race_schedule =
     [(3, OpenLock ''l''), (3, Advance), (3, Advance), (3, Advance),
      (1, OpenClean ''l''), (2, OpenClean ''l''), (1, Advance), (1, Advance), (1, Advance),
      (3, OpenLock ''l''), (3, Advance), (3, Advance),
      (2, Advance), (2, Advance), (2, Advance),
      (4, OpenLock ''l''), (4, Advance), (4, Advance)]"

text \<open>C28: two concurrent cleanups break the exclusion: there is a run of the protocol at whose end two
  different processes hold the guard of the same lock file at once.\<close>

theorem lock_cleanup_race:
  "\<exists>s. lock_reach (\<lambda>_. True) s \<and> ls_pc s 3 = Guarded ''l'' 1 \<and> ls_pc s 4 = Guarded ''l'' 2"
proof -
  have "\<exists>s. lock_exec race_schedule lock_init = Some s \<and> ls_pc s 3 = Guarded ''l'' 1 \<and> ls_pc s 4 = Guarded ''l'' 2"
    by (simp add: race_schedule_def lock_eval)
  then show ?thesis using lock_reach_exec [OF lock_reach.init] by blast
qed

section \<open>No lock is lost\<close>

definition lock_step :: "lock_state \<Rightarrow> lock_state \<Rightarrow> bool" where
  "lock_step s t \<longleftrightarrow> (\<exists>p. lock_step_of p s t)"

fun pc_inode :: "lock_pc \<Rightarrow> nat option" where
  "pc_inode Idle = None"
| "pc_inode (Opened f ino) = Some ino"
| "pc_inode (Acquired f ino) = Some ino"
| "pc_inode (Guarded f ino) = Some ino"
| "pc_inode (CleanOpened f ino) = Some ino"
| "pc_inode (CleanLocked f ino) = Some ino"
| "pc_inode (CleanRemoved ino) = Some ino"

text \<open>Whoever holds a lock is at a place of the program from which it will release it, and inodes are
  not used before they are created.\<close>

definition lock_live :: "lock_state \<Rightarrow> bool" where
  "lock_live s \<longleftrightarrow> (\<forall>ino p. ls_holder s ino = Some p \<longrightarrow> holds (ls_pc s p) = Some ino)
     \<and> (\<forall>p ino. pc_inode (ls_pc s p) = Some ino \<longrightarrow> ino < ls_fresh s)
     \<and> (\<forall>f ino. ls_files s f = Some ino \<longrightarrow> ino < ls_fresh s)"

lemma holds_pc_inode: "holds c = Some ino \<Longrightarrow> pc_inode c = Some ino"
  by (cases c) auto

lemma lock_live_holder: "lock_live s \<Longrightarrow> ls_holder s ino = Some p \<Longrightarrow> holds (ls_pc s p) = Some ino"
  by (simp add: lock_live_def)

lemma lock_live_pc: "lock_live s \<Longrightarrow> ls_pc s p = c \<Longrightarrow> pc_inode c = Some ino \<Longrightarrow> ino < ls_fresh s"
  unfolding lock_live_def by blast

lemma lock_live_goto:
  assumes "lock_live s" and "holds c = holds (ls_pc s p)" and "\<And>ino. pc_inode c = Some ino \<Longrightarrow> ino < ls_fresh s"
  shows "lock_live (goto p c s)"
  using assms by (auto simp: lock_live_def goto_def)

lemma lock_live_take:
  assumes "lock_live s" and "ls_holder s ino = None" and "holds (ls_pc s p) = None" and "holds c = Some ino"
    and "ino < ls_fresh s"
  shows "lock_live (goto p c (hold ino (Some p) s))"
proof -
  have "ls_holder s i \<noteq> Some p" for i using lock_live_holder [OF assms(1), of i p] assms(3) by auto
  then show ?thesis using assms holds_pc_inode [OF assms(4)] by (auto simp: lock_live_def goto_def hold_def)
qed

lemma lock_live_release:
  assumes "lock_live s" and "holds (ls_pc s p) = Some ino"
  shows "lock_live (goto p Idle (hold ino None s))"
proof -
  have "i = ino" if "ls_holder s i = Some p" for i using lock_live_holder [OF assms(1) that] assms(2) by simp
  then show ?thesis using assms(1) by (auto simp: lock_live_def goto_def hold_def)
qed

lemma lock_live_create:
  assumes "lock_live s"
  shows "lock_live (s\<lparr>ls_files := (ls_files s)(f := Some (ls_fresh s)), ls_fresh := Suc (ls_fresh s)\<rparr>)"
  using assms by (auto simp: lock_live_def less_Suc_eq)

lemma lock_live_unlink: "lock_live s \<Longrightarrow> lock_live (s\<lparr>ls_files := (ls_files s)(f := None)\<rparr>)"
  by (auto simp: lock_live_def)

lemma lock_live_file: "lock_live s \<Longrightarrow> ls_files s f = Some ino \<Longrightarrow> ino < ls_fresh s"
  by (simp add: lock_live_def)

lemma lock_live_step:
  assumes "lock_live s" and "lock_step_of p s t"
  shows "lock_live t"
  using assms(2)
proof (cases rule: lock_step_of.cases)
  case (open_create f)
  then show ?thesis using lock_live_create [OF assms(1), of f] by (auto intro: lock_live_goto)
next
  case (clean_remove f ino)
  then show ?thesis
    using lock_live_unlink [OF assms(1), of f] lock_live_pc [OF assms(1) clean_remove(2)] by (auto intro: lock_live_goto)
qed (use assms(1) lock_live_file [OF assms(1)] lock_live_pc [OF assms(1), of p] in
    \<open>auto intro: lock_live_goto lock_live_take lock_live_release\<close>)

lemma lock_live_steps:
  assumes "rtranclp lock_step s t" and "lock_live s"
  shows "lock_live t"
  using assms(1)
  by (induction rule: rtranclp_induct) (use assms(2) in \<open>auto simp: lock_step_def intro: lock_live_step\<close>)

lemma lock_live_init: "lock_live lock_init"
  by (simp add: lock_live_def lock_init_def)

lemma lock_live_reach: "lock_reach allowed s \<Longrightarrow> lock_live s"
  by (induction rule: lock_reach.induct) (auto simp: lock_live_init intro: lock_live_step)

lemma lock_live_fresh: "lock_live s \<Longrightarrow> ls_holder s (ls_fresh s) = None"
  using lock_live_holder lock_live_pc holds_pc_inode by (metis not_None_eq less_irrefl)

lemma lock_step_do: "lock_do p a s = Some t \<Longrightarrow> lock_step s t"
  unfolding lock_step_def using lock_do_iff by blast

lemma lock_steps_exec: "lock_exec as s = Some t \<Longrightarrow> rtranclp lock_step s t"
  by (induction as s rule: lock_exec.induct)
    (auto simp: bind_eq_Some_conv intro: converse_rtranclp_into_rtranclp lock_step_do)

text \<open>A process that holds a lock releases it in at most two steps of its own.\<close>

lemma lock_finish:
  assumes "holds (ls_pc s q) = Some ino"
  obtains t where "rtranclp lock_step s t" "ls_pc t = (ls_pc s)(q := Idle)" "ls_holder t = (ls_holder s)(ino := None)"
    "\<And>f. ls_files t f = ls_files s f \<or> ls_files t f = None"
proof -
  consider f where "ls_pc s q = Acquired f ino" | f where "ls_pc s q = Guarded f ino"
    | f where "ls_pc s q = CleanLocked f ino" | "ls_pc s q = CleanRemoved ino"
    using assms by (cases "ls_pc s q") auto
  then have "\<exists>as t. lock_exec as s = Some t \<and> ls_pc t = (ls_pc s)(q := Idle)
      \<and> ls_holder t = (ls_holder s)(ino := None) \<and> (\<forall>f. ls_files t f = ls_files s f \<or> ls_files t f = None)"
  proof cases
    case (1 f)
    show ?thesis
    proof (cases "ls_files s f = Some ino")
      case True
      then show ?thesis using 1 by (intro exI [of _ "[(q, Advance), (q, Advance)]"]) (simp add: goto_def hold_def)
    next
      case False
      then show ?thesis using 1 by (intro exI [of _ "[(q, Advance)]"]) (simp add: goto_def hold_def)
    qed
  next
    case (3 f)
    then show ?thesis by (intro exI [of _ "[(q, Advance), (q, Advance)]"]) (simp add: goto_def hold_def)
  qed (intro exI [of _ "[(q, Advance)]"]; simp add: goto_def hold_def)+
  then show ?thesis using that lock_steps_exec by blast
qed

text \<open>The lock of an inode becomes free without a step of a process that does not hold it.\<close>

lemma lock_drain:
  assumes "lock_live s" and "holds (ls_pc s p) \<noteq> Some ino"
  obtains t where "rtranclp lock_step s t" "ls_pc t p = ls_pc s p" "ls_holder t ino = None"
    "\<And>f. ls_files t f = ls_files s f \<or> ls_files t f = None"
proof (cases "ls_holder s ino")
  case None
  then show ?thesis using that [of s] by simp
next
  case (Some q)
  then have "holds (ls_pc s q) = Some ino" using assms(1) by (simp add: lock_live_def)
  then obtain t where t: "rtranclp lock_step s t" "ls_pc t = (ls_pc s)(q := Idle)"
      "ls_holder t = (ls_holder s)(ino := None)" "\<And>f. ls_files t f = ls_files s f \<or> ls_files t f = None"
    using lock_finish by blast
  moreover have "q \<noteq> p" using \<open>holds (ls_pc s q) = Some ino\<close> assms(2) by auto
  ultimately show ?thesis by (intro that [OF t(1)]) auto
qed

lemma lock_to_idle:
  assumes "lock_live s"
  obtains t where "rtranclp lock_step s t" "ls_pc t p = Idle"
proof (cases "holds (ls_pc s p)")
  case (Some ino)
  then show ?thesis by (elim lock_finish) (use that in auto)
next
  case None
  show ?thesis
  proof (cases "ls_pc s p")
    case (Opened f ino)
    obtain t where t: "rtranclp lock_step s t" "ls_pc t p = Opened f ino" "ls_holder t ino = None"
      using lock_drain [OF assms, of p ino] None Opened by auto
    let ?u = "goto p (Acquired f ino) (hold ino (Some p) t)"
    have "lock_step t ?u" using t by (intro lock_step_do [of p Advance]) simp
    moreover have "holds (ls_pc ?u p) = Some ino" by (simp add: goto_def)
    then obtain v where "rtranclp lock_step ?u v" "ls_pc v p = Idle" by (elim lock_finish) auto
    ultimately show ?thesis using t(1) that by (metis rtranclp.rtrancl_into_rtrancl rtranclp_trans)
  next
    case (CleanOpened f ino)
    have "\<exists>t. lock_do p Advance s = Some t \<and> (ls_pc t p = Idle \<or> holds (ls_pc t p) = Some ino)"
      using CleanOpened by (simp add: goto_def hold_def)
    then obtain t where t: "lock_step s t" "ls_pc t p = Idle \<or> holds (ls_pc t p) = Some ino"
      using lock_step_do by blast
    then show ?thesis
    proof (cases "ls_pc t p = Idle")
      case False
      then obtain v where "rtranclp lock_step t v" "ls_pc v p = Idle" using t(2) by (elim disjE lock_finish) auto
      then show ?thesis using t(1) that by (meson converse_rtranclp_into_rtranclp)
    qed (use that t(1) in blast)
  qed (use None that [of s] in auto)
qed

text \<open>C27: wherever the processes are, cleanups and their races included, every process can still get to
  hold the guard of every workspace: no lock is lost and nothing waits for ever on a file that is gone.\<close>

theorem lock_always_available:
  assumes "lock_reach (\<lambda>_. True) s"
  shows "\<exists>t ino. rtranclp lock_step s t \<and> ls_pc t p = Guarded f ino"
proof -
  obtain s1 where s1: "rtranclp lock_step s s1" "ls_pc s1 p = Idle"
    using lock_to_idle lock_live_reach [OF assms] by blast
  note live1 = lock_live_steps [OF s1(1) lock_live_reach [OF assms]]
  have "\<exists>s2. rtranclp lock_step s1 s2 \<and> ls_pc s2 p = Idle \<and> (\<forall>ino. ls_files s2 f = Some ino \<longrightarrow> ls_holder s2 ino = None)"
  proof (cases "ls_files s1 f")
    case (Some ino)
    have "holds (ls_pc s1 p) \<noteq> Some ino" using s1(2) by simp
    then show ?thesis by (rule lock_drain [OF live1]) (use Some s1(2) in \<open>metis option.inject option.distinct(1)\<close>)
  qed (use s1 in auto)
  then obtain s2 where s2: "rtranclp lock_step s1 s2" "ls_pc s2 p = Idle"
      "\<And>ino. ls_files s2 f = Some ino \<Longrightarrow> ls_holder s2 ino = None" by blast
  have "\<exists>t ino. lock_exec [(p, OpenLock f), (p, Advance), (p, Advance)] s2 = Some t \<and> ls_pc t p = Guarded f ino"
    using s2(2,3) lock_live_fresh [OF lock_live_steps [OF s2(1) live1]]
    by (cases "ls_files s2 f") (auto simp: goto_def hold_def)
  then show ?thesis using s1(1) s2(1) lock_steps_exec rtranclp_trans by metis
qed

lemma lock_always_available_witness:
  "\<exists>t ino. rtranclp lock_step lock_init t \<and> ls_pc t 7 = Guarded ''l'' ino"
  by (rule lock_always_available) (rule lock_reach.init)

end
