(* ===== verification/Images.thy ===== *)
theory Images
  imports World Locks
begin

text \<open>
  Default runtime images: \<open>src/commands/runtime.rs\<close> and \<open>runtime/image_state.rs\<close>, \<open>image_plan.rs\<close>,
  \<open>image_environment.rs\<close>, \<open>image_lifecycle.rs\<close>. The trait \<open>RuntimeImageEnvironment\<close> is a record of
  operations; the state file's JSON is a codec between states and file contents \<open>'c\<close>. Progress and
  feedback messages are left out.
\<close>

section \<open>\<open>image_state.rs\<close>\<close>

type_synonym u64 = "64 word"

record image_state =
  is_runtime :: string
  is_package :: string
  is_install_source :: string
  is_image :: string
  is_context_hash :: string
  is_installed_version :: string
  is_latest_seen_version :: string
  is_latest_checked_at :: u64
  is_image_built_at :: u64

definition new_image_state :: "build \<Rightarrow> runtime_kind \<Rightarrow> string \<Rightarrow> u64 \<Rightarrow> u64 \<Rightarrow> image_state" where
  "new_image_state b runtime version checked_at built_at =
     \<lparr>is_runtime = runtime_str runtime, is_package = package_name (package (profile runtime)),
      is_install_source = install_source (package (profile runtime)), is_image = default_image b runtime,
      is_context_hash = image_context_hash b, is_installed_version = version,
      is_latest_seen_version = version, is_latest_checked_at = checked_at, is_image_built_at = built_at\<rparr>"

definition with_latest_check :: "image_state \<Rightarrow> string \<Rightarrow> u64 \<Rightarrow> image_state" where
  "with_latest_check st latest checked_at =
     st\<lparr>is_latest_seen_version := latest, is_latest_checked_at := checked_at\<rparr>"

text \<open>Calls on files: existence, reading and writing a whole file (writing creates its directory), and
  removal, which is \<open>False\<close> for a file that does not exist.\<close>

record ('c, 'w) file_ops =
  fo_exists :: "path \<Rightarrow> 'w \<Rightarrow> bool \<times> 'w"
  fo_read :: "path \<Rightarrow> 'w \<Rightarrow> 'c res \<times> 'w"
  fo_write :: "path \<Rightarrow> 'c \<Rightarrow> 'w \<Rightarrow> unit res \<times> 'w"
  fo_remove :: "path \<Rightarrow> 'w \<Rightarrow> bool res \<times> 'w"

record ('c, 'w) image_state_store =
  st_files :: "('c, 'w) file_ops"
  st_root :: path
  st_encode :: "image_state \<Rightarrow> string + 'c"
  st_decode :: "'c \<Rightarrow> string + image_state"

text \<open>The store in the state directory of the user, when there is one.\<close>

definition state_store_from_xdg ::
  "path option \<Rightarrow> ('c, 'w) image_state_store \<Rightarrow> ('c, 'w) image_state_store res" where
  "state_store_from_xdg state_home s = map_ok (\<lambda>root. s\<lparr>st_root := root\<rparr>) (state_root_from_xdg state_home)"

definition state_path :: "path \<Rightarrow> runtime_kind \<Rightarrow> path" where
  "state_path root runtime = path_join (path_join root ''runtime'') (runtime_str runtime @ ''.json'')"

definition store_read :: "('c, 'w) image_state_store \<Rightarrow> runtime_kind \<Rightarrow> ('w, (image_state option) res) io" where
  "store_read s runtime =
     (let p = state_path (st_root s) runtime in do {
        found \<leftarrow> State (fo_exists (st_files s) p);
        if \<not> found then pure (Ok None)
        else attempt (State (fo_read (st_files s) p)) (\<lambda>contents.
          pure (map_err (\<lambda>e. msg [''failed to parse '', runtime_str runtime, '' runtime image state '', tick p,
              '': '', e]) (map_ok Some (st_decode s contents)))) })"

definition store_write :: "('c, 'w) image_state_store \<Rightarrow> runtime_kind \<Rightarrow> image_state \<Rightarrow> ('w, unit res) io" where
  "store_write s runtime st =
     attempt (pure (map_err (\<lambda>e. msg [''failed to serialize '', runtime_str runtime, '' runtime image state: '', e])
         (st_encode s st))) (\<lambda>contents.
       State (fo_write (st_files s) (state_path (st_root s) runtime) contents))"

definition store_remove :: "('c, 'w) image_state_store \<Rightarrow> runtime_kind \<Rightarrow> ('w, unit res) io" where
  "store_remove s runtime =
     map_io (map_ok (\<lambda>_. ())) (State (fo_remove (st_files s) (state_path (st_root s) runtime)))"

definition remove_if_image :: "('c, 'w) image_state_store \<Rightarrow> runtime_kind \<Rightarrow> string \<Rightarrow> ('w, unit res) io" where
  "remove_if_image s runtime img =
     attempt (store_read s runtime) (\<lambda>found. case found of
       None \<Rightarrow> pure (Ok ())
     | Some st \<Rightarrow> if is_image st = img then store_remove s runtime else pure (Ok ()))"

section \<open>\<open>image_plan.rs\<close>\<close>

datatype runtime_image_update_plan = RefreshState image_state string | Rebuild string

definition plan_runtime_image_update ::
  "build \<Rightarrow> runtime_kind \<Rightarrow> string \<Rightarrow> bool \<Rightarrow> image_state option \<Rightarrow> runtime_image_update_plan" where
  "plan_runtime_image_update b runtime latest exists prior =
     (case prior of
        None \<Rightarrow> Rebuild latest
      | Some st \<Rightarrow>
          if exists \<and> is_installed_version st = latest \<and> is_image st = default_image b runtime
            \<and> is_context_hash st = image_context_hash b
          then RefreshState st latest else Rebuild latest)"

section \<open>\<open>image_environment.rs\<close>\<close>

record 'w image_env =
  ie_image_exists :: "string \<Rightarrow> ('w, bool res) io"
  ie_read_state :: "runtime_kind \<Rightarrow> ('w, (image_state option) res) io"
  ie_write_state :: "runtime_kind \<Rightarrow> image_state \<Rightarrow> ('w, unit res) io"
  ie_resolve_latest_version :: "string \<Rightarrow> ('w, string res) io"
  ie_build_image :: "runtime_kind \<Rightarrow> string \<Rightarrow> ('w, unit res) io"
  ie_now :: "('w, u64 res) io"

text \<open>What the production environment adds to a host: the wall clock, and a directory that holds the
  embedded build context with its \<open>Containerfile\<close>.\<close>

record 'w image_host =
  ih_wall_clock :: "'w \<Rightarrow> (string + u64) \<times> 'w"
  ih_materialize :: "'w \<Rightarrow> (path \<times> path) res \<times> 'w"

definition now_unix_seconds :: "'w image_host \<Rightarrow> ('w, u64 res) io" where
  "now_unix_seconds ih =
     map_io (map_err (\<lambda>e. msg [''system clock is before Unix epoch: '', e])) (State (ih_wall_clock ih))"

definition resolve_latest_runtime_version :: "'w host \<Rightarrow> string \<Rightarrow> ('w, string res) io" where
  "resolve_latest_runtime_version h pkg =
     attempt (capture h [''npm'', ''view'', pkg, ''version'', ''--silent'']) (\<lambda>o'.
       let version = trim (po_stdout o') in
       pure (if version = []
         then Err (msg [tick (join '' '' [''npm view'', pkg, ''version --silent'']), '' returned an empty version''])
         else Ok version))"

definition podman_build_image ::
  "'w host \<Rightarrow> string \<Rightarrow> path \<Rightarrow> path \<Rightarrow> podman_build_options \<Rightarrow> ('w, unit res) io" where
  "podman_build_image h img containerfile context_dir opts =
     map_io (map_ok (\<lambda>_. ())) (run_quiet h (build_image_args img containerfile context_dir opts))"

definition build_runtime_image :: "'w host \<Rightarrow> 'w image_host \<Rightarrow> runtime_kind \<Rightarrow> string \<Rightarrow> ('w, unit res) io" where
  "build_runtime_image h ih runtime version =
     attempt (State (ih_materialize ih)) (\<lambda>(root, containerfile).
     attempt (now_unix_seconds ih) (\<lambda>now.
       let img = default_image (host_build h) runtime in
       podman_build_image h img containerfile root
         \<lparr>bo_build_args = bt_from [(''AGENTBOX_RUNTIME'', runtime_str runtime),
            (build_arg (package (profile runtime)), version)],
          bo_labels = default_runtime_image_labels runtime img (image_context_hash (host_build h)) version
            (show_nat (unat now))\<rparr>))"

definition production_environment ::
  "'w host \<Rightarrow> 'w image_host \<Rightarrow> ('c, 'w) image_state_store \<Rightarrow> 'w image_env" where
  "production_environment h ih store =
     \<lparr>ie_image_exists = image_exists h, ie_read_state = store_read store, ie_write_state = store_write store,
      ie_resolve_latest_version = resolve_latest_runtime_version h,
      ie_build_image = build_runtime_image h ih, ie_now = now_unix_seconds ih\<rparr>"

section \<open>\<open>image_lifecycle.rs\<close>\<close>

definition installed_version_if_known ::
  "'w image_env \<Rightarrow> runtime_kind \<Rightarrow> string \<Rightarrow> ('w, (string option) res) io" where
  "installed_version_if_known env runtime img =
     map_io (map_ok (\<lambda>found. case found of
         Some st \<Rightarrow> if is_image st = img then Some (is_installed_version st) else None
       | None \<Rightarrow> None)) (ie_read_state env runtime)"

definition build_runtime_image_and_record_state ::
  "build \<Rightarrow> 'w image_env \<Rightarrow> runtime_kind \<Rightarrow> string \<Rightarrow> ('w, unit res) io" where
  "build_runtime_image_and_record_state b env runtime version =
     attempt (ie_build_image env runtime version) (\<lambda>_.
     attempt (ie_now env) (\<lambda>now.
       ie_write_state env runtime (new_image_state b runtime version now now)))"

definition build_default_runtime_image ::
  "build \<Rightarrow> 'w image_env \<Rightarrow> runtime_kind \<Rightarrow> ('w, string res) io" where
  "build_default_runtime_image b env runtime =
     attempt (ie_resolve_latest_version env (package_name (package (profile runtime)))) (\<lambda>latest.
     attempt (build_runtime_image_and_record_state b env runtime latest) (\<lambda>_. pure (Ok latest)))"

definition ensure_default_runtime_image_with ::
  "build \<Rightarrow> 'w image_env \<Rightarrow> runtime_kind \<Rightarrow> path \<Rightarrow> string \<Rightarrow> ('w, (string option) res) io" where
  "ensure_default_runtime_image_with b env runtime workspace_root img =
     attempt (ie_image_exists env img) (\<lambda>exists.
       if exists then installed_version_if_known env runtime img
       else map_io (\<lambda>r. map_err (\<lambda>e. msg [''failed to build default runtime image '', tick img, '' for '',
              tick workspace_root, '': '', error_text e]) (map_ok Some r))
         (build_default_runtime_image b env runtime))"

definition ensure_default_runtime_image ::
  "'w host \<Rightarrow> 'w image_host \<Rightarrow> path option \<Rightarrow> ('c, 'w) image_state_store \<Rightarrow> runtime_kind \<Rightarrow> path
     \<Rightarrow> ('w, (string option) res) io" where
  "ensure_default_runtime_image h ih home store runtime workspace_root =
     attempt (pure (state_store_from_xdg home store)) (\<lambda>store.
       ensure_default_runtime_image_with (host_build h) (production_environment h ih store) runtime
         workspace_root (default_image (host_build h) runtime))"

definition remove_default_runtime_image_state_if_image ::
  "path option \<Rightarrow> ('c, 'w) image_state_store \<Rightarrow> runtime_kind \<Rightarrow> string \<Rightarrow> ('w, unit res) io" where
  "remove_default_runtime_image_state_if_image home store runtime img =
     attempt (pure (state_store_from_xdg home store)) (\<lambda>store. remove_if_image store runtime img)"

datatype runtime_image_update_outcome = AlreadyUpToDate string string | Rebuilt string string

definition update_default_runtime_image_with ::
  "build \<Rightarrow> 'w image_env \<Rightarrow> runtime_kind \<Rightarrow> ('w, runtime_image_update_outcome res) io" where
  "update_default_runtime_image_with b env runtime =
     (let img = default_image b runtime in
      attempt (ie_resolve_latest_version env (package_name (package (profile runtime)))) (\<lambda>latest.
      attempt (ie_image_exists env img) (\<lambda>exists.
      attempt (ie_read_state env runtime) (\<lambda>prior.
        case plan_runtime_image_update b runtime latest exists prior of
          RefreshState st v \<Rightarrow>
            attempt (ie_now env) (\<lambda>now.
            attempt (ie_write_state env runtime (with_latest_check st v now)) (\<lambda>_.
              pure (Ok (AlreadyUpToDate img v))))
        | Rebuild v \<Rightarrow>
            attempt (build_runtime_image_and_record_state b env runtime v) (\<lambda>_.
              pure (Ok (Rebuilt img v)))))))"

definition update_default_runtime_image ::
  "'w host \<Rightarrow> 'w image_host \<Rightarrow> path option \<Rightarrow> ('c, 'w) image_state_store \<Rightarrow> runtime_kind
     \<Rightarrow> ('w, runtime_image_update_outcome res) io" where
  "update_default_runtime_image h ih home store runtime =
     attempt (pure (state_store_from_xdg home store)) (\<lambda>store.
       update_default_runtime_image_with (host_build h) (production_environment h ih store) runtime)"

section \<open>\<open>runtime.rs\<close>\<close>

fun update_all ::
  "'w host \<Rightarrow> 'w image_host \<Rightarrow> path option \<Rightarrow> ('c, 'w) image_state_store \<Rightarrow> runtime_kind list
     \<Rightarrow> ('w, unit res) io" where
  "update_all h ih home store [] = pure (Ok ())"
| "update_all h ih home store (k # ks) =
     attempt (update_default_runtime_image h ih home store k) (\<lambda>_. update_all h ih home store ks)"

text \<open>The argument parser requires exactly one of a runtime and \<open>--all\<close>, which is \<open>None\<close>.\<close>

definition runtime_update ::
  "'w host \<Rightarrow> 'w image_host \<Rightarrow> path option \<Rightarrow> ('c, 'w) image_state_store \<Rightarrow> runtime_kind option
     \<Rightarrow> ('w, unit res) io" where
  "runtime_update h ih home store target =
     (case target of
        Some k \<Rightarrow> map_io (map_ok (\<lambda>_. ())) (update_default_runtime_image h ih home store k)
      | None \<Rightarrow> update_all h ih home store runtime_variants)"

end
