(* ===== verification/Json.thy ===== *)
theory Json
  imports Images
begin

text \<open>
  Reading and writing JSON. The text syntax is \<open>serde_json\<close>'s and a parameter; what the program's own
  declarations say of a value (which fields a struct has, which of them have a default, how null is read)
  is translated here, over JSON values. The helpers of \<open>src/podman/model/de.rs\<close>, the flag of a health
  response, the arguments of a server, the state of an image and the configuration.
\<close>

section \<open>Values\<close>

datatype json =
    JNull
  | JBool bool
  | JInt int
  | JFloat string
  | JString string
  | JArray "json list"
  | JObject "(string \<times> json) list"

text \<open>\<open>serde_json\<close> on texts: the value a text denotes, the text of a value, and the message about a text
  that is not JSON or does not have the shape of a type.\<close>

record json_text =
  jt_read :: "string \<Rightarrow> json option"
  jt_write :: "json \<Rightarrow> string"
  jt_error :: "string \<Rightarrow> string \<Rightarrow> string"

definition from_str :: "json_text \<Rightarrow> string \<Rightarrow> (json \<Rightarrow> 'a option) \<Rightarrow> string \<Rightarrow> string + 'a" where
  "from_str J type_name de input =
     (case Option.bind (jt_read J input) de of
        Some x \<Rightarrow> Inr x
      | None \<Rightarrow> Inl (jt_error J type_name input))"

text \<open>The members of a struct, each with the names it is read under. An object may have them in any order,
  but none twice; an array has them in the order of their declaration, and may stop early.\<close>

definition struct_fields :: "string list list \<Rightarrow> json \<Rightarrow> (string \<Rightarrow> json option) option" where
  "struct_fields members j =
     (case j of
        JObject kvs \<Rightarrow>
          if list_ex (\<lambda>ns. 1 < length (filter (\<lambda>kv. fst kv \<in> set ns) kvs)) members then None
          else Some (\<lambda>n. case find (\<lambda>ns. hd ns = n) members of
              None \<Rightarrow> None
            | Some ns \<Rightarrow> map_option snd (find (\<lambda>kv. fst kv \<in> set ns) kvs))
      | JArray js \<Rightarrow> if length members < length js then None else Some (map_of (zip (map hd members) js))
      | _ \<Rightarrow> None)"

text \<open>A member without a default has to be there.\<close>

definition required :: "(json \<Rightarrow> 'a option) \<Rightarrow> json option \<Rightarrow> 'a option" where
  "required de j = Option.bind j de"

definition or_default :: "'a \<Rightarrow> (json \<Rightarrow> 'a option) \<Rightarrow> json option \<Rightarrow> 'a option" where
  "or_default d de j = (case j of None \<Rightarrow> Some d | Some v \<Rightarrow> de v)"

section \<open>Values of the standard types\<close>

fun de_string :: "json \<Rightarrow> string option" where
  "de_string (JString s) = Some s"
| "de_string _ = None"

fun de_bool :: "json \<Rightarrow> bool option" where
  "de_bool (JBool b) = Some b"
| "de_bool _ = None"

fun de_u16 :: "json \<Rightarrow> u16 option" where
  "de_u16 (JInt i) = (if 0 \<le> i \<and> i < 2 ^ 16 then Some (word_of_int i) else None)"
| "de_u16 _ = None"

fun de_u64 :: "json \<Rightarrow> u64 option" where
  "de_u64 (JInt i) = (if 0 \<le> i \<and> i < 2 ^ 64 then Some (word_of_int i) else None)"
| "de_u64 _ = None"

text \<open>\<open>i64\<close>: a word read as a signed number.\<close>

fun de_i64 :: "json \<Rightarrow> 64 word option" where
  "de_i64 (JInt i) = (if - (2 ^ 63) \<le> i \<and> i < 2 ^ 63 then Some (word_of_int i) else None)"
| "de_i64 _ = None"

definition de_option :: "(json \<Rightarrow> 'a option) \<Rightarrow> json \<Rightarrow> 'a option option" where
  "de_option de j = (if j = JNull then Some None else map_option Some (de j))"

fun de_vec :: "(json \<Rightarrow> 'a option) \<Rightarrow> json \<Rightarrow> 'a list option" where
  "de_vec de (JArray js) = those (map de js)"
| "de_vec de _ = None"

fun de_map :: "(json \<Rightarrow> 'a option) \<Rightarrow> json \<Rightarrow> (string, 'a) btree option" where
  "de_map de (JObject kvs) = map_option bt_from (those (map (\<lambda>(k, v). map_option (Pair k) (de v)) kvs))"
| "de_map de _ = None"

fun en_option :: "('a \<Rightarrow> json) \<Rightarrow> 'a option \<Rightarrow> json" where
  "en_option en None = JNull"
| "en_option en (Some x) = en x"

definition en_vec :: "('a \<Rightarrow> json) \<Rightarrow> 'a list \<Rightarrow> json" where
  "en_vec en xs = JArray (map en xs)"

definition en_map :: "('a \<Rightarrow> json) \<Rightarrow> (string, 'a) btree \<Rightarrow> json" where
  "en_map en m = JObject (map (\<lambda>(k, v). (k, en v)) m)"

section \<open>\<open>podman/model/de.rs\<close>\<close>

fun de_string_or_vec :: "json \<Rightarrow> string list option" where
  "de_string_or_vec (JString s) = Some [s]"
| "de_string_or_vec j = de_vec de_string j"

definition deserialize_option_vec_or_string :: "json \<Rightarrow> string list option option" where
  "deserialize_option_vec_or_string = de_option de_string_or_vec"

definition deserialize_map_or_null_default :: "(json \<Rightarrow> 'a option) \<Rightarrow> json \<Rightarrow> (string, 'a) btree option" where
  "deserialize_map_or_null_default de j = map_option (\<lambda>m. unwrap_or m []) (de_option (de_map de) j)"

definition deserialize_vec_or_null_default :: "(json \<Rightarrow> 'a option) \<Rightarrow> json \<Rightarrow> 'a list option" where
  "deserialize_vec_or_null_default de j = map_option (\<lambda>xs. unwrap_or xs []) (de_option (de_vec de) j)"

fun de_string_or_number :: "json \<Rightarrow> string option" where
  "de_string_or_number (JString s) = Some s"
| "de_string_or_number j = map_option show_u16 (de_u16 j)"

definition deserialize_option_string_or_number :: "json \<Rightarrow> string option option" where
  "deserialize_option_string_or_number = de_option de_string_or_number"

definition parse_json :: "json_text \<Rightarrow> string \<Rightarrow> (json \<Rightarrow> 'a option) \<Rightarrow> string \<Rightarrow> string \<Rightarrow> 'a res" where
  "parse_json J type_name de ctx input =
     map_err (\<lambda>e. msg [''failed to parse '', ctx, '': '', e]) (from_str J type_name de input)"

section \<open>Health responses, server arguments, image states\<close>

definition de_healthy_flag :: "json \<Rightarrow> bool option" where
  "de_healthy_flag j = do {
     f \<leftarrow> struct_fields [[''healthy'']] j;
     required de_bool (f ''healthy'') }"

definition de_server_args :: "json \<Rightarrow> string list option" where
  "de_server_args = de_vec de_string"

definition en_server_args :: "string list \<Rightarrow> json" where
  "en_server_args = en_vec JString"

definition image_state_members :: "string list" where
  "image_state_members = [''runtime'', ''package'', ''install_source'', ''image'', ''image_context_hash'',
     ''installed_version'', ''latest_seen_version'', ''latest_checked_at'', ''image_built_at'']"

definition de_image_state :: "json \<Rightarrow> image_state option" where
  "de_image_state j = do {
     f \<leftarrow> struct_fields (map (\<lambda>n. [n]) image_state_members) j;
     runtime \<leftarrow> required de_string (f ''runtime'');
     package \<leftarrow> required de_string (f ''package'');
     source \<leftarrow> required de_string (f ''install_source'');
     img \<leftarrow> required de_string (f ''image'');
     hash \<leftarrow> required de_string (f ''image_context_hash'');
     installed \<leftarrow> required de_string (f ''installed_version'');
     latest \<leftarrow> required de_string (f ''latest_seen_version'');
     checked \<leftarrow> required de_u64 (f ''latest_checked_at'');
     built \<leftarrow> required de_u64 (f ''image_built_at'');
     Some \<lparr>is_runtime = runtime, is_package = package, is_install_source = source, is_image = img,
       is_context_hash = hash, is_installed_version = installed, is_latest_seen_version = latest,
       is_latest_checked_at = checked, is_image_built_at = built\<rparr> }"

definition en_image_state :: "image_state \<Rightarrow> json" where
  "en_image_state st = JObject (zip image_state_members
     [JString (is_runtime st), JString (is_package st), JString (is_install_source st), JString (is_image st),
      JString (is_context_hash st), JString (is_installed_version st), JString (is_latest_seen_version st),
      JInt (uint (is_latest_checked_at st)), JInt (uint (is_image_built_at st))])"

section \<open>The configuration\<close>

text \<open>Both structs deny unknown members. An optional member without a default may be left out of an object,
  but an array has to have all of them.\<close>

definition deny_unknown_fields :: "string list \<Rightarrow> json \<Rightarrow> bool" where
  "deny_unknown_fields known j =
     (case j of JObject kvs \<Rightarrow> list_all (\<lambda>kv. fst kv \<in> set known) kvs | _ \<Rightarrow> True)"

fun raw_cpu_value :: "json \<Rightarrow> raw_cpu" where
  "raw_cpu_value (JInt i) = JsonNumber (show_int i)"
| "raw_cpu_value (JFloat t) = JsonNumber t"
| "raw_cpu_value (JString s) = JsonString s"
| "raw_cpu_value _ = JsonOther"

definition de_raw_resource_limits :: "json \<Rightarrow> raw_resource_limits option" where
  "de_raw_resource_limits j = do {
     f \<leftarrow> struct_fields [[''cpus''], [''memory'']] j;
     c \<leftarrow> or_default None (de_option (\<lambda>v. Some (raw_cpu_value v))) (f ''cpus'');
     m \<leftarrow> or_default None (de_option de_string) (f ''memory'');
     if deny_unknown_fields [''cpus'', ''memory''] j \<and> (case j of JArray js \<Rightarrow> length js = 2 | _ \<Rightarrow> True)
     then Some \<lparr>raw_cpus = c, raw_memory = m\<rparr> else None }"

definition de_raw_config :: "json \<Rightarrow> raw_agentbox_config option" where
  "de_raw_config j = do {
     f \<leftarrow> struct_fields [[''knownHosts''], [''defaultResourceLimits'']] j;
     hosts \<leftarrow> or_default [] (de_vec de_string) (f ''knownHosts'');
     limits \<leftarrow> or_default \<lparr>raw_cpus = None, raw_memory = None\<rparr> de_raw_resource_limits (f ''defaultResourceLimits'');
     if deny_unknown_fields [''knownHosts'', ''defaultResourceLimits''] j
     then Some \<lparr>raw_known_hosts = hosts, raw_default_resource_limits = limits\<rparr> else None }"

section \<open>Laws\<close>

lemma those_map_encoded: "(\<And>x. x \<in> set xs \<Longrightarrow> de (en x) = Some x) \<Longrightarrow> those (map (\<lambda>x. de (en x)) xs) = Some xs"
  by (induction xs) simp_all

lemma de_string_JString [simp]: "de_string (JString s) = Some s"
  by simp

lemma de_u16_uint [simp]: "de_u16 (JInt (uint w)) = Some w"
  using uint_range_size [of w] by (simp add: word_size)

lemma de_u64_uint [simp]: "de_u64 (JInt (uint w)) = Some w"
  using uint_range_size [of w] by (simp add: word_size)

lemma de_i64_sint [simp]: "de_i64 (JInt (sint w)) = Some w"
  using sint_range_size [of w] by (simp add: word_size)

declare de_u16.simps(1) [simp del] de_u64.simps(1) [simp del] de_i64.simps(1) [simp del]

lemma de_option_encoded:
  "(\<And>x. v = Some x \<Longrightarrow> de (en x) = Some x \<and> en x \<noteq> JNull) \<Longrightarrow> de_option de (en_option en v) = Some v"
  by (cases v) (simp_all add: de_option_def)

lemma de_vec_encoded: "(\<And>x. x \<in> set xs \<Longrightarrow> de (en x) = Some x) \<Longrightarrow> de_vec de (en_vec en xs) = Some xs"
  by (simp add: en_vec_def o_def those_map_encoded)

lemma bt_insert_last: "\<forall>x \<in> set (map fst m). x < k \<Longrightarrow> bt_insert k v m = m @ [(k, v)]"
  by (induction k v m rule: bt_insert.induct) auto

lemma bt_from_wf: "bt_wf m \<Longrightarrow> bt_from m = m"
proof (induction m rule: rev_induct)
  case (snoc kv m)
  have "bt_wf m" "\<forall>x \<in> set (map fst m). x < fst kv" using snoc.prems by (simp_all add: bt_wf_def sorted_wrt_append)
  then show ?case
    using snoc.IH by (cases kv) (simp add: bt_from_def bt_extend_append bt_insert_last)
qed (simp add: bt_from_def)

lemma de_map_encoded:
  assumes "bt_wf m" and "\<And>k v. (k, v) \<in> set m \<Longrightarrow> de (en v) = Some v"
  shows "de_map de (en_map en m) = Some m"
proof -
  have "those (map (\<lambda>kv. map_option (Pair (fst kv)) (de (en (snd kv)))) m) = Some m"
    using assms(2)
  proof (induction m)
    case (Cons kv m)
    have "de (en (snd kv)) = Some (snd kv)" using Cons.prems [of "fst kv" "snd kv"] by simp
    moreover have "those (map (\<lambda>kv. map_option (Pair (fst kv)) (de (en (snd kv)))) m) = Some m"
      by (rule Cons.IH) (use Cons.prems in auto)
    ultimately show ?case by simp
  qed simp
  then show ?thesis by (simp add: en_map_def o_def case_prod_beta' bt_from_wf [OF assms(1)])
qed

text \<open>Reading an object whose keys are distinct is looking its members up: their order and members that are
  not known do not matter.\<close>

lemma find_key: "find (\<lambda>kv. fst kv = k) kvs = map_option (Pair k) (map_of kvs k)"
  by (induction kvs) auto

lemma filter_key_length: "distinct (map fst kvs) \<Longrightarrow> length (filter (\<lambda>kv. fst kv = k) kvs) \<le> 1"
proof (induction kvs)
  case (Cons kv kvs)
  then have "filter (\<lambda>x. fst x = fst kv) kvs = []" by (auto simp: filter_empty_conv image_iff)
  then show ?case using Cons by (cases "fst kv = k") auto
qed simp

lemma find_singleton: "find (\<lambda>ns. hd ns = n) (map (\<lambda>n. [n]) names) = (if n \<in> set names then Some [n] else None)"
  by (induction names) auto

lemma struct_fields_object:
  assumes "distinct (map fst kvs)"
  shows "struct_fields (map (\<lambda>n. [n]) names) (JObject kvs)
    = Some (\<lambda>n. if n \<in> set names then map_of kvs n else None)"
proof -
  have "\<not> list_ex (\<lambda>ns. 1 < length (filter (\<lambda>kv. fst kv \<in> set ns) kvs)) (map (\<lambda>n. [n]) names)"
    using filter_key_length [OF assms] by (auto simp: list_ex_iff not_less)
  then show ?thesis
    unfolding struct_fields_def by (auto simp: find_singleton find_key option.map_comp o_def option.map_ident fun_eq_iff)
qed

lemma struct_fields_zip:
  assumes "distinct names" and "length vs = length names"
  shows "struct_fields (map (\<lambda>n. [n]) names) (JObject (zip names vs)) = Some (map_of (zip names vs))"
proof -
  have "map_of (zip names vs) n = None" if "n \<notin> set names" for n using that assms(2) by (simp add: map_of_zip_is_None)
  moreover have "distinct (map fst (zip names vs))" using assms by simp
  ultimately show ?thesis using struct_fields_object by (auto simp: fun_eq_iff)
qed

lemma image_state_roundtrip: "de_image_state (en_image_state st) = Some st"
proof -
  have d: "distinct image_state_members" by (simp add: image_state_members_def)
  show ?thesis
    unfolding de_image_state_def en_image_state_def
    by (subst struct_fields_zip [OF d]) (simp_all add: image_state_members_def required_def)
qed

lemma server_args_roundtrip: "de_server_args (en_server_args args) = Some args"
  by (simp add: de_server_args_def en_server_args_def de_vec_encoded)

end
