(* ===== verification/Order.thy ===== *)
theory Order
  imports Trace
begin

text \<open>
  Two properties of traces and how they compose: an event that another must precede, and the
  discipline of the workspace locks.
\<close>

definition trace_of :: "('w \<times> event list, 'a) io \<Rightarrow> 'w \<Rightarrow> event list" where
  "trace_of m w = snd (snd (run_state m (w, [])))"

definition outcome_of :: "('w \<times> event list, 'a) io \<Rightarrow> 'w \<Rightarrow> 'a" where
  "outcome_of m w = fst (run_state m (w, []))"

lemma only_trace: "only P m \<Longrightarrow> list_all P (trace_of m w)"
  by (cases "run_state m (w, [])") (auto simp: trace_of_def dest!: onlyD)

section \<open>One event before another\<close>

text \<open>Every \<open>B\<close> event of a trace has an \<open>A\<close> event before it.\<close>

fun before :: "(event \<Rightarrow> bool) \<Rightarrow> (event \<Rightarrow> bool) \<Rightarrow> event list \<Rightarrow> bool" where
  "before A B [] = True"
| "before A B (e # es) = (\<not> B e \<and> (A e \<or> before A B es))"

lemma before_append [simp]:
  "before A B (xs @ ys) \<longleftrightarrow> before A B xs \<and> (list_ex A xs \<or> before A B ys)"
  by (induction xs) auto

lemma before_split: "before A B es \<longleftrightarrow> (\<forall>xs e ys. es = xs @ e # ys \<longrightarrow> B e \<longrightarrow> list_ex A xs)"
proof (intro iffI allI impI)
  fix xs e ys
  assume "before A B es" "es = xs @ e # ys" "B e"
  then show "list_ex A xs" by simp
next
  assume "\<forall>xs e ys. es = xs @ e # ys \<longrightarrow> B e \<longrightarrow> list_ex A xs"
  then show "before A B es"
  proof (induction es)
    case (Cons e es)
    have "\<not> B e" using Cons.prems [rule_format, of "[]" e es] by auto
    moreover have "before A B es" if "\<not> A e"
      proof (intro Cons.IH allI impI)
      fix xs e' ys
      assume "es = xs @ e' # ys" "B e'"
      then have "list_ex A (e # xs)" using Cons.prems by (metis append_Cons)
      then show "list_ex A xs" using that by simp
    qed
    ultimately show ?case by auto
  qed simp
qed

lemma before_none: "list_all (\<lambda>e. \<not> B e) es \<Longrightarrow> before A B es"
  by (induction es) auto

definition needs :: "(event \<Rightarrow> bool) \<Rightarrow> (event \<Rightarrow> bool) \<Rightarrow> ('w \<times> event list, 'a) io \<Rightarrow> bool" where
  "needs A B m \<longleftrightarrow> state_io_rel (\<lambda>s s'. \<exists>es. snd s' = snd s @ es \<and> before A B es) m"

text \<open>A run that ends in \<open>x\<close> has an \<open>A\<close> event.\<close>

definition marks :: "(event \<Rightarrow> bool) \<Rightarrow> ('w \<times> event list, 'a) io \<Rightarrow> 'a \<Rightarrow> bool" where
  "marks A m x \<longleftrightarrow>
     (\<forall>s s'. run_state m s = (x, s') \<longrightarrow> (\<exists>es. snd s' = snd s @ es \<and> list_ex A es))"

lemma needsD:
  "needs A B m \<Longrightarrow> run_state m s = (a, s') \<Longrightarrow> \<exists>es. snd s' = snd s @ es \<and> before A B es"
  by (auto simp: needs_def)

lemma needsI:
  "(\<And>s a s'. run_state m s = (a, s') \<Longrightarrow> \<exists>es. snd s' = snd s @ es \<and> before A B es) \<Longrightarrow> needs A B m"
  by (auto simp: needs_def)

lemma needs_trace: "needs A B m \<Longrightarrow> before A B (trace_of m w)"
  by (cases "run_state m (w, [])") (auto simp: trace_of_def dest!: needsD)

named_theorems needs_intros \<open>ordering in composed operations\<close>

lemma needs_only: "only P m \<Longrightarrow> (\<And>e. P e \<Longrightarrow> \<not> B e) \<Longrightarrow> needs A B m"
  by (rule needsI) (drule (1) onlyD, auto intro!: before_none simp: list_all_iff)

lemma needs_pure [needs_intros]: "needs A B (pure x)"
  by (auto intro!: needsI)

lemma needs_bind_marked:
  assumes m: "needs A B m" and any: "\<And>x. only (\<lambda>_. True) (f x)"
    and next': "\<And>x. marks A m x \<or> needs A B (f x)"
  shows "needs A B (do { x \<leftarrow> m; f x })"
proof (rule needsI)
  fix s b s'
  assume "run_state (do { x \<leftarrow> m; f x }) s = (b, s')"
  then obtain a t where r: "run_state m s = (a, t)" "run_state (f a) t = (b, s')"
    by (auto split: prod.splits)
  obtain es where es: "snd t = snd s @ es" "before A B es" using needsD [OF m r(1)] by blast
  consider "list_ex A es" | "needs A B (f a)"
    using next' [of a] es(1) r(1) unfolding marks_def by (metis same_append_eq)
  then have "\<exists>fs. snd s' = snd t @ fs \<and> (list_ex A es \<or> before A B fs)"
    using onlyD [OF any r(2)] needsD [OF _ r(2), of A B] by cases blast+
  then show "\<exists>es. snd s' = snd s @ es \<and> before A B es" using es by auto
qed

lemma needs_bind [needs_intros]:
  "needs A B m \<Longrightarrow> (\<And>x. needs A B (f x)) \<Longrightarrow> needs A B (do { x \<leftarrow> m; f x })"
proof (rule needsI)
  fix s b s'
  assume m: "needs A B m" and f: "\<And>x. needs A B (f x)"
    and "run_state (do { x \<leftarrow> m; f x }) s = (b, s')"
  then obtain a t where "run_state m s = (a, t)" "run_state (f a) t = (b, s')"
    by (auto split: prod.splits)
  then obtain es fs where "snd t = snd s @ es" "before A B es" "snd s' = snd t @ fs" "before A B fs"
    using m f needsD by metis
  then show "\<exists>es. snd s' = snd s @ es \<and> before A B es" by (intro exI [of _ "es @ fs"]) simp
qed

lemma needs_attempt [needs_intros]:
  "needs A B m \<Longrightarrow> (\<And>x. needs A B (f x)) \<Longrightarrow> needs A B (attempt m f)"
  unfolding attempt_def by (rule needs_bind) (auto intro: needs_pure split: sum.splits)

lemma needs_attempt_marked:
  assumes "needs A B m" and "\<And>x. only (\<lambda>_. True) (f x)" and "\<And>x. marks A m (Inr x)"
  shows "needs A B (attempt m f)"
  unfolding attempt_def
proof (rule needs_bind_marked [OF assms(1)])
  show "only (\<lambda>_. True) (case r of Inl e \<Rightarrow> pure (Err e) | Inr x \<Rightarrow> f x)" for r
    using assms(2) by (auto intro: only_pure split: sum.splits)
  show "marks A m r \<or> needs A B (case r of Inl e \<Rightarrow> pure (Err e) | Inr x \<Rightarrow> f x)" for r
    using assms(3) by (auto intro: needs_pure split: sum.splits)
qed

lemma needs_if [needs_intros]: "(c \<Longrightarrow> needs A B m) \<Longrightarrow> (\<not> c \<Longrightarrow> needs A B n) \<Longrightarrow> needs A B (if c then m else n)"
  by simp

lemma needs_map_io [needs_intros]: "needs A B m \<Longrightarrow> needs A B (map_io f m)"
  unfolding map_io_def by (intro needs_intros)

section \<open>The discipline of locks\<close>

text \<open>Without a lock a command may only read Podman's state; it takes one lock at a time and gives
  back the one it took.\<close>

fun lock_step :: "string option \<Rightarrow> event \<Rightarrow> string option option" where
  "lock_step None (Locked d) = Some (Some d)"
| "lock_step (Some d) (Locked d') = None"
| "lock_step None (Unlocked d) = None"
| "lock_step (Some d) (Unlocked d') = (if d = d' then Some None else None)"
| "lock_step None e = (if reads e then Some None else None)"
| "lock_step (Some d) e = Some (Some d)"

fun lock_run :: "string option \<Rightarrow> event list \<Rightarrow> string option option" where
  "lock_run held [] = Some held"
| "lock_run held (e # es) = Option.bind (lock_step held e) (\<lambda>held'. lock_run held' es)"

definition acts :: "event \<Rightarrow> bool" where
  "acts e \<longleftrightarrow> (\<forall>d. e \<noteq> Locked d \<and> e \<noteq> Unlocked d)"

lemma acts_simps [simp]:
  "acts (Ran argv st)" "acts (ClientRun i)" "acts (TokenWritten g)" "acts (TokenRemoved g)"
  "acts (Slept d)" "acts (FileRemoved f)" "\<not> acts (Locked g)" "\<not> acts (Unlocked g)"
  by (auto simp: acts_def)

lemma reads_acts: "reads e \<Longrightarrow> acts e"
  by (cases e) (auto simp: reads_def)

lemma lock_run_append [simp]:
  "lock_run held (xs @ ys) = Option.bind (lock_run held xs) (\<lambda>held'. lock_run held' ys)"
  by (induction xs arbitrary: held) (auto simp: bind_assoc)

lemma lock_run_reads: "list_all reads es \<Longrightarrow> lock_run None es = Some None"
proof (induction es)
  case (Cons e es)
  then show ?case by (cases e) (auto simp: reads_def)
qed simp

lemma lock_run_acts: "list_all acts es \<Longrightarrow> lock_run (Some d) es = Some (Some d)"
proof (induction es)
  case (Cons e es)
  then show ?case by (cases e) auto
qed simp

text \<open>\<open>returned\<close> tells whether a result means that the operation returned.\<close>

definition disciplined :: "('a \<Rightarrow> bool) \<Rightarrow> ('w \<times> event list, 'a) io \<Rightarrow> bool" where
  "disciplined returned m \<longleftrightarrow>
     (\<forall>s a s'. run_state m s = (a, s') \<longrightarrow>
        (\<exists>es held. snd s' = snd s @ es \<and> lock_run None es = Some held \<and> (returned a \<longrightarrow> held = None)))"

named_theorems lock_intros \<open>lock discipline of composed operations\<close>

lemma disciplinedD:
  "disciplined returned m \<Longrightarrow> run_state m s = (a, s') \<Longrightarrow>
     \<exists>es held. snd s' = snd s @ es \<and> lock_run None es = Some held \<and> (returned a \<longrightarrow> held = None)"
  unfolding disciplined_def by blast

lemma disciplined_trace:
  assumes "disciplined returned m"
  shows "\<exists>held. lock_run None (trace_of m w) = Some held \<and> (returned (outcome_of m w) \<longrightarrow> held = None)"
proof -
  obtain a w' es where r: "run_state m (w, []) = (a, (w', es))" by (metis prod.exhaust)
  show ?thesis using disciplinedD [OF assms r] by (simp add: trace_of_def outcome_of_def r)
qed

lemma disciplined_trace_True: "disciplined (\<lambda>_. True) m \<Longrightarrow> lock_run None (trace_of m w) = Some None"
  by (drule disciplined_trace [of _ _ w]) auto

lemma disciplined_trace_loop:
  "disciplined (\<lambda>r. r \<noteq> None) m \<Longrightarrow>
     \<exists>held. lock_run None (trace_of m w) = Some held \<and> (held = None \<or> outcome_of m w = None)"
  by (drule disciplined_trace [of _ _ w]) auto

lemma disciplined_reads: "only reads m \<Longrightarrow> disciplined returned m"
  by (auto simp: disciplined_def dest!: onlyD lock_run_reads)

lemma disciplined_bind:
  assumes m: "disciplined done' m" and stuck: "\<And>x s b s'. \<not> done' x \<Longrightarrow> run_state (f x) s = (b, s') \<Longrightarrow>
      s' = s \<and> \<not> returned b"
    and f: "\<And>x. done' x \<Longrightarrow> disciplined returned (f x)"
  shows "disciplined returned (do { x \<leftarrow> m; f x })"
  unfolding disciplined_def
proof (intro allI impI)
  fix s b s'
  assume "run_state (do { x \<leftarrow> m; f x }) s = (b, s')"
  then obtain a t where r: "run_state m s = (a, t)" "run_state (f a) t = (b, s')"
    by (auto split: prod.splits)
  obtain es held where es: "snd t = snd s @ es" "lock_run None es = Some held" "done' a \<longrightarrow> held = None"
    using disciplinedD [OF m r(1)] by blast
  show "\<exists>es held. snd s' = snd s @ es \<and> lock_run None es = Some held \<and> (returned b \<longrightarrow> held = None)"
  proof (cases "done' a")
    case True
    then obtain fs held' where "snd s' = snd t @ fs" "lock_run None fs = Some held'"
        "returned b \<longrightarrow> held' = None" using disciplinedD [OF f r(2)] by blast
    then show ?thesis using es True by (intro exI [of _ "es @ fs"]) auto
  next
    case False
    then have "s' = t" "\<not> returned b" using stuck r(2) by blast+
    then show ?thesis using es by blast
  qed
qed

lemma disciplined_pure [lock_intros]: "disciplined returned (pure x)"
  by (auto simp: disciplined_def intro!: exI [of _ "[]"])

lemma disciplined_then [lock_intros]:
  "disciplined (\<lambda>_. True) m \<Longrightarrow> (\<And>x. disciplined returned (f x)) \<Longrightarrow> disciplined returned (do { x \<leftarrow> m; f x })"
  by (rule disciplined_bind) auto

lemma disciplined_attempt [lock_intros]:
  "disciplined (\<lambda>_. True) m \<Longrightarrow> (\<And>x. disciplined returned (f x)) \<Longrightarrow> disciplined returned (attempt m f)"
  unfolding attempt_def
  by (rule disciplined_then) (auto intro: disciplined_pure split: sum.splits)

lemma disciplined_map_io [lock_intros]:
  "disciplined (\<lambda>_. True) m \<Longrightarrow> disciplined returned (map_io f m)"
  unfolding map_io_def by (intro lock_intros)

lemma disciplined_if [lock_intros]:
  "disciplined returned m \<Longrightarrow> disciplined returned n \<Longrightarrow> disciplined returned (if c then m else n)"
  by simp

end
