(* ===== verification/LaunchTrace.thy ===== *)
theory LaunchTrace
  imports Launch Order
begin

text \<open>
  Which events the parts of a launch may cause, for any predicate that allows the events each part
  needs: reading Podman's state, sleeping while waiting, writing a token, the client and the one
  \<open>podman run\<close>.
\<close>

definition runs :: "event \<Rightarrow> bool" where
  "runs e \<longleftrightarrow> (case e of Ran argv _ \<Rightarrow> take 2 argv = [''podman'', ''run''] | _ \<Rightarrow> False)"

lemma runs_simps [simp]:
  "runs (Ran argv st) \<longleftrightarrow> take 2 argv = [''podman'', ''run'']"
  "\<not> runs (ClientRun i)" "\<not> runs (TokenWritten g)" "\<not> runs (TokenRemoved g)" "\<not> runs (Slept d)"
  "\<not> runs (Locked g)" "\<not> runs (Unlocked g)" "\<not> runs (FileRemoved f)"
  by (auto simp: runs_def)

lemma runs_acts: "runs e \<Longrightarrow> acts e"
  by (cases e) auto

lemma reads_not_runs: "reads e \<Longrightarrow> \<not> runs e"
proof (cases e)
  case (Ran argv st)
  let ?three = "{[''podman'', ''container'', ''inspect''], [''podman'', ''container'', ''exists''],
      [''podman'', ''volume'', ''exists''], [''podman'', ''image'', ''exists'']}"
  assume "reads e"
  then consider "take 2 argv \<in> {[''podman'', ''ps''], [''podman'', ''logs'']}" | "take 3 argv \<in> ?three"
    using Ran by (auto simp: reads_def)
  then have "take 2 argv \<noteq> [''podman'', ''run'']"
  proof cases
    case 2
    then have "take 2 (take 3 argv) \<in> take 2 ` ?three" by (rule imageI)
    then show ?thesis by (simp add: min_def) auto
  qed auto
  then show ?thesis using Ran by simp
qed simp_all

lemma run_detached_argv: "take 2 (podman_argv (run_detached_args name s gid)) = [''podman'', ''run'']"
  by (simp add: podman_argv_def run_detached_args_def)

lemma only_run_detached [only_intros]:
  "(\<And>st. P (Ran (podman_argv (run_detached_args name s (primary_gid (logged h)))) st)) \<Longrightarrow>
     only P (run_detached (logged h) name s)"
  unfolding run_detached_def by (intro only_intros) simp

lemma only_read_ops:
  assumes "\<And>e. reads e \<Longrightarrow> P e"
  shows "only P (inspect_one (logged h) name)" "only P (logs_tail (logged h) name n)"
    "only P (container_exists (logged h) name)" "only P (volume_exists (logged h) name)"
    "only P (discover_root (logged h) cscope root)"
  by (rule only_mono [OF only_reads(3) assms] only_mono [OF only_reads(7) assms]
      only_mono [OF only_reads(4) assms] only_mono [OF only_reads(5) assms]
      only_mono [OF only_discover_root assms]; assumption)+

lemma only_host_probe [only_intros]: "only P (host_probe (logged h) runtime e)"
  unfolding host_probe_def by (intro only_intros)

lemma only_inspect_server_endpoint [only_intros]:
  "only P (inspect_server_endpoint (logged h) w runtime ctx i)"
  unfolding inspect_server_endpoint_def by (intro only_intros)

lemma only_wait_loop:
  assumes reads: "\<And>e. reads e \<Longrightarrow> P e" and sleeps: "\<And>d. P (Slept d)"
  shows "only P (wait_loop fuel (logged h) w runtime ctx deadline poll last_error)"
proof (induction fuel arbitrary: last_error)
  case (Suc fuel)
  show ?case
    using Suc by (auto intro!: only_intros only_read_ops [OF reads] sleeps split: server_endpoint_state.splits)
qed (auto intro: only_intros)

lemma only_wait_for_server_endpoint:
  "(\<And>e. reads e \<Longrightarrow> P e) \<Longrightarrow> (\<And>d. P (Slept d)) \<Longrightarrow>
     only P (wait_for_server_endpoint fuel (logged h) w runtime ctx)"
  unfolding wait_for_server_endpoint_def by (intro only_intros only_wait_loop)

lemma only_launch_detached_server:
  assumes reads: "\<And>e. reads e \<Longrightarrow> P e" and sleeps: "\<And>d. P (Slept d)"
    and run: "\<And>e. runs e \<Longrightarrow> P e"
    and lc: "only P (lc_check_interrupted lc)" "\<And>e. only P (lc_run_detached_error lc e)"
      "\<And>e. only P (lc_readiness_error lc e)"
  shows "only P (launch_detached_server fuel (logged h) w runtime s lc)"
proof -
  have wait: "only P (case waited of WaitReady e \<Rightarrow> a e | WaitInterrupted \<Rightarrow> b)"
    if "\<And>e. only P (a e)" "only P b" for waited a and b :: "('a \<times> event list, 'c) io"
    using that by (cases waited) auto
  have "P (Ran (podman_argv (run_detached_args name s gid)) st)" for name gid st
    by (rule run) (simp add: run_detached_argv)
  then show ?thesis
    unfolding launch_detached_server_def
    by (intro only_intros only_wait_for_server_endpoint wait lc) (simp_all add: reads sleeps)
qed

lemma only_error_with_container_logs [only_intros]:
  "(\<And>e. reads e \<Longrightarrow> P e) \<Longrightarrow> only P (error_with_container_logs (logged h) w ctx e)"
  unfolding error_with_container_logs_def Let_def by (intro only_intros only_read_ops)

lemma only_existing_session_error [only_intros]:
  "(\<And>e. reads e \<Longrightarrow> P e) \<Longrightarrow> only P (existing_session_error (logged h) w s)"
  unfolding existing_session_error_def
  by (auto intro!: only_intros only_read_ops split: session_status.splits)

lemma only_ensure_required_resources_absent [only_intros]:
  assumes "\<And>e. reads e \<Longrightarrow> P e"
  shows "only P (ensure_required_resources_absent (logged h) w check)"
proof (cases check)
  case (RequireAbsent scope)
  have "only P (discover_existing_resources (logged h) w scope)"
    unfolding discover_existing_resources_def
    by (cases scope) (auto intro!: only_read_ops assms)
  then show ?thesis
    unfolding ensure_required_resources_absent_def RequireAbsent
    by (auto intro!: only_intros assms)
next
  case AllowExisting
  then show ?thesis by (simp add: ensure_required_resources_absent_def only_pure)
qed

lemma only_ensure_host_runtime_client_available [only_intros]:
  "only P (ensure_host_runtime_client_available (logged h) runtime)"
  unfolding ensure_host_runtime_client_available_def Let_def
  by (auto intro!: only_intros split: list.splits)

lemma only_prepare_container_launch [only_intros]:
  assumes "\<And>e. reads e \<Longrightarrow> P e"
  shows "only P (prepare_container_launch_for_workspace (logged h) w runtime mode policy)"
proof -
  have "only P (case mode of DevNone \<Rightarrow> pure (Ok NoDevEnv)
      | DevAuto \<Rightarrow> State (resolve_dev_env (logged h) a b))" for a b
    by (cases mode) (auto intro: only_intros)
  then show ?thesis
    unfolding prepare_container_launch_for_workspace_def by (intro only_intros assms)
qed

lemma only_prepare_codex_attach_token [only_intros]:
  "(\<And>g. P (TokenWritten g)) \<Longrightarrow> only P (prepare_codex_attach_token (logged h) runtime mode w)"
  unfolding prepare_codex_attach_token_def create_managed_def generate_token_def
  by (cases mode) (auto intro!: only_intros)

lemma only_prepare_runtime_launch [only_intros]:
  "(\<And>e. reads e \<Longrightarrow> P e) \<Longrightarrow> (\<And>g. P (TokenWritten g)) \<Longrightarrow>
     only P (prepare_runtime_launch (logged h) rq)"
  unfolding prepare_runtime_launch_def Let_def by (intro only_intros)

lemma only_run_host_runtime_client_status [only_intros]:
  "(\<And>i. P (ClientRun i)) \<Longrightarrow> only P (run_host_runtime_client_status (logged h) runtime e launch token args)"
  unfolding run_host_runtime_client_status_def by (intro only_intros)

lemma only_run_host_runtime_client [only_intros]:
  "(\<And>i. P (ClientRun i)) \<Longrightarrow> only P (run_host_runtime_client (logged h) runtime e launch token args)"
  unfolding run_host_runtime_client_def by (intro only_intros)

lemma only_classify_managed_server_create_error [only_intros]:
  "(\<And>e. reads e \<Longrightarrow> P e) \<Longrightarrow> only P (classify_managed_server_create_error (logged h) w s action e)"
  unfolding classify_managed_server_create_error_def classify_create_error_or_else_def
  by (intro only_intros only_read_ops)

lemma only_execute_managed_launch:
  assumes "\<And>e. reads e \<Longrightarrow> P e" "\<And>d. P (Slept d)" "\<And>e. runs e \<Longrightarrow> P e" "\<And>i. P (ClientRun i)"
    and "only P (mp_check_interrupted policy)"
  shows "only P (execute_managed_launch fuel (logged h) w runtime s token policy completion)"
  unfolding execute_managed_launch_def finish_managed_server_launch_def
  by (intro only_intros only_launch_detached_server)
    (auto simp: managed_lifecycle_def assms intro!: only_intros)

end
