(* ===== verification/WorkspaceFlow.thy ===== *)
theory WorkspaceFlow
  imports LaunchTrace
begin

text \<open>
  Running a command under a workspace lock: \<open>src/commands/workspace_flow.rs\<close>. The guard a lock
  returns is released when the operation is over, whatever it returned. How the lock itself works
  (\<open>src/lock.rs\<close>) is another theory.
\<close>

section \<open>Locks around operations\<close>

definition with_lock :: "'w host \<Rightarrow> string \<Rightarrow> ('w, 'a res) io \<Rightarrow> ('w, 'a res) io" where
  "with_lock h digest op = attempt (State (acquire_lock h digest)) (\<lambda>_. do {
     r \<leftarrow> op;
     _ \<leftarrow> State (release_lock h digest);
     pure r })"

text \<open>The same for an operation that may not return; then the lock is never released.\<close>

definition with_lock_loop :: "'w host \<Rightarrow> string \<Rightarrow> ('w, 'a) loop \<Rightarrow> ('w, 'a) loop" where
  "with_lock_loop h digest op = attempt_loop (once (State (acquire_lock h digest))) (\<lambda>_. do {
     r \<leftarrow> op;
     if r = None then pure None
     else do {
       _ \<leftarrow> State (release_lock h digest);
       pure r } })"

definition host_workspace :: "'w host \<Rightarrow> path \<Rightarrow> ('w, workspace_identity res) io" where
  "host_workspace h directory = do {
     fs \<leftarrow> State (filesystem h);
     pure (resolve_workspace_identity (sha256 (host_build h)) (host_fs.truncate fs) directory) }"

definition with_locked_workspace ::
  "'w host \<Rightarrow> path \<Rightarrow> (workspace_identity \<Rightarrow> ('w, 'a res) io) \<Rightarrow> ('w, 'a res) io" where
  "with_locked_workspace h directory op =
     attempt (host_workspace h directory) (\<lambda>w. with_lock h (digest64 w) (op w))"

definition with_locked_workspace_loop ::
  "'w host \<Rightarrow> path \<Rightarrow> (workspace_identity \<Rightarrow> ('w, 'a) loop) \<Rightarrow> ('w, 'a) loop" where
  "with_locked_workspace_loop h directory op =
     attempt_loop (once (host_workspace h directory)) (\<lambda>w. with_lock_loop h (digest64 w) (op w))"

definition with_locked_git_root :: "'w host \<Rightarrow> path \<Rightarrow> ('w, 'a res) io \<Rightarrow> ('w, 'a res) io" where
  "with_locked_git_root h root op = with_lock h (git_root_digest64 (sha256 (host_build h)) root) op"

definition with_locked_git_root_loop :: "'w host \<Rightarrow> path \<Rightarrow> ('w, 'a) loop \<Rightarrow> ('w, 'a) loop" where
  "with_locked_git_root_loop h root op =
     with_lock_loop h (git_root_digest64 (sha256 (host_build h)) root) op"

text \<open>The discoveries a command may run: every agentbox container, and those of the locked root.\<close>

definition discover_agentbox_containers :: "'w host \<Rightarrow> ('w, session_record list res) io" where
  "discover_agentbox_containers h = discover_io h AllSessions AgentboxOwned"

definition discover_sessions_of_root :: "'w host \<Rightarrow> path \<Rightarrow> ('w, session_record list res) io" where
  "discover_sessions_of_root h root = discover_root h AgentboxOwned root"

definition discover_managed_sessions :: "'w host \<Rightarrow> workspace_identity \<Rightarrow> ('w, session_record list res) io" where
  "discover_managed_sessions h w = discover_root h ManagedSessions (canonical_git_root w)"

section \<open>The discipline\<close>

lemma run_with_lock:
  assumes "run_state (with_lock (logged h) d op) s = (r, s')"
  shows "(\<exists>e w. r = Err e \<and> s' = (w, snd s))
    \<or> (\<exists>w t w'. run_state op (w, snd s @ [Locked d]) = (r, t) \<and> s' = (w', snd t @ [Unlocked d]))"
proof -
  obtain x w1 where x: "acquire_lock h d (fst s) = (x, w1)" by force
  obtain r' w2 l2 where t: "run_state op (w1, snd s @ [Locked d]) = (r', (w2, l2))"
    by (metis prod.exhaust)
  show ?thesis
    using assms x t
    by (cases x; cases "release_lock h d w2")
      (auto simp: with_lock_def run_attempt logged_def record_op_def)
qed

lemma run_with_lock_loop:
  assumes "run_state (with_lock_loop (logged h) d op) s = (r, s')"
  shows "(\<exists>e w. r = Some (Err e) \<and> s' = (w, snd s))
    \<or> (\<exists>w t w'. run_state op (w, snd s @ [Locked d]) = (r, t)
         \<and> s' = (if r = None then t else (w', snd t @ [Unlocked d])))"
proof -
  obtain x w1 where x: "acquire_lock h d (fst s) = (x, w1)" by force
  obtain r' w2 l2 where t: "run_state op (w1, snd s @ [Locked d]) = (r', (w2, l2))"
    by (metis prod.exhaust)
  show ?thesis
    using assms x t
    by (cases x; cases "release_lock h d w2")
      (auto simp: with_lock_loop_def run_attempt_loop run_once logged_def record_op_def
        split: if_splits)
qed

lemma disciplined_with_lock [lock_intros]:
  assumes "only acts op"
  shows "disciplined (\<lambda>_. True) (with_lock (logged h) d op)"
  unfolding disciplined_def
proof (intro allI impI)
  fix s a s'
  assume "run_state (with_lock (logged h) d op) s = (a, s')"
  then consider w where "s' = (w, snd s)"
    | w t w' where "run_state op (w, snd s @ [Locked d]) = (a, t)" "s' = (w', snd t @ [Unlocked d])"
    using run_with_lock by blast
  then show "\<exists>es held. snd s' = snd s @ es \<and> lock_run None es = Some held \<and> (True \<longrightarrow> held = None)"
  proof cases
    case 1
    then show ?thesis by (intro exI [of _ "[]"]) auto
  next
    case 2
    then obtain es where "snd t = snd s @ [Locked d] @ es" "list_all acts es"
      using onlyD [OF assms] by fastforce
    then show ?thesis using 2 lock_run_acts
      by (intro exI [of _ "[Locked d] @ es @ [Unlocked d]"]) auto
  qed
qed

lemma disciplined_with_lock_loop [lock_intros]:
  assumes "only acts op"
  shows "disciplined (\<lambda>r. r \<noteq> None) (with_lock_loop (logged h) d op)"
  unfolding disciplined_def
proof (intro allI impI)
  fix s a s'
  assume "run_state (with_lock_loop (logged h) d op) s = (a, s')"
  then consider w where "s' = (w, snd s)"
    | w t w' where "run_state op (w, snd s @ [Locked d]) = (a, t)"
        "s' = (if a = None then t else (w', snd t @ [Unlocked d]))"
    using run_with_lock_loop by blast
  then show "\<exists>es held. snd s' = snd s @ es \<and> lock_run None es = Some held \<and> (a \<noteq> None \<longrightarrow> held = None)"
  proof cases
    case 1
    then show ?thesis by (intro exI [of _ "[]"]) auto
  next
    case 2
    then obtain es where "snd t = snd s @ [Locked d] @ es" "list_all acts es"
      using onlyD [OF assms] by fastforce
    then show ?thesis using 2 lock_run_acts
      by (intro exI [of _ "[Locked d] @ es @ (if a = None then [] else [Unlocked d])"]) auto
  qed
qed

lemma disciplined_host_workspace [lock_intros]: "disciplined returned (host_workspace (logged h) dir)"
  unfolding host_workspace_def by (intro disciplined_reads only_intros)

lemma disciplined_once [lock_intros]: "disciplined (\<lambda>_. True) m \<Longrightarrow> disciplined returned (once m)"
  unfolding once_def by (intro lock_intros)

lemma disciplined_attempt_loop [lock_intros]:
  assumes "disciplined (\<lambda>r. r \<noteq> None) m" and "\<And>x. disciplined (\<lambda>r. r \<noteq> None) (f x)"
  shows "disciplined (\<lambda>r. r \<noteq> None) (attempt_loop m f)"
  unfolding attempt_loop_def
  by (rule disciplined_bind [OF assms(1)])
    (use assms(2) in \<open>auto intro: disciplined_pure split: option.splits sum.splits\<close>)

lemma disciplined_with_locked_workspace [lock_intros]:
  "(\<And>w. only acts (op w)) \<Longrightarrow> disciplined (\<lambda>_. True) (with_locked_workspace (logged h) dir op)"
  unfolding with_locked_workspace_def by (intro lock_intros)

lemma disciplined_with_locked_workspace_loop [lock_intros]:
  "(\<And>w. only acts (op w)) \<Longrightarrow>
     disciplined (\<lambda>r. r \<noteq> None) (with_locked_workspace_loop (logged h) dir op)"
  unfolding with_locked_workspace_loop_def by (intro lock_intros)

lemma disciplined_with_locked_git_root [lock_intros]:
  "only acts op \<Longrightarrow> disciplined (\<lambda>_. True) (with_locked_git_root (logged h) root op)"
  unfolding with_locked_git_root_def by (rule disciplined_with_lock)

lemma disciplined_with_locked_git_root_loop [lock_intros]:
  "only acts op \<Longrightarrow> disciplined (\<lambda>r. r \<noteq> None) (with_locked_git_root_loop (logged h) root op)"
  unfolding with_locked_git_root_loop_def by (rule disciplined_with_lock_loop)

lemma only_discoveries [only_intros]:
  assumes "\<And>e. reads e \<Longrightarrow> P e"
  shows "only P (discover_agentbox_containers (logged h))"
    "only P (discover_sessions_of_root (logged h) root)"
    "only P (discover_managed_sessions (logged h) w)"
  unfolding discover_agentbox_containers_def discover_sessions_of_root_def discover_managed_sessions_def
  by (rule only_mono [OF only_discover_io assms] only_read_ops; simp add: assms)+

section \<open>Order under a lock\<close>

lemma needs_with_lock [needs_intros]:
  assumes "needs A B op" and "\<And>g. \<not> B (Locked g)" "\<And>g. \<not> B (Unlocked g)"
  shows "needs A B (with_lock (logged h) d op)"
proof (rule needsI)
  fix s a s'
  assume "run_state (with_lock (logged h) d op) s = (a, s')"
  then consider w where "s' = (w, snd s)"
    | w t w' where "run_state op (w, snd s @ [Locked d]) = (a, t)" "s' = (w', snd t @ [Unlocked d])"
    using run_with_lock by blast
  then show "\<exists>es. snd s' = snd s @ es \<and> before A B es"
  proof cases
    case 1
    then show ?thesis by (intro exI [of _ "[]"]) auto
  next
    case 2
    then obtain es where "snd t = snd s @ [Locked d] @ es" "before A B es"
      using needsD [OF assms(1)] by fastforce
    then show ?thesis using 2 assms(2,3)
      by (intro exI [of _ "[Locked d] @ es @ [Unlocked d]"]) auto
  qed
qed

lemma needs_with_lock_loop [needs_intros]:
  assumes "needs A B op" and "\<And>g. \<not> B (Locked g)" "\<And>g. \<not> B (Unlocked g)"
  shows "needs A B (with_lock_loop (logged h) d op)"
proof (rule needsI)
  fix s a s'
  assume "run_state (with_lock_loop (logged h) d op) s = (a, s')"
  then consider w where "s' = (w, snd s)"
    | w t w' where "run_state op (w, snd s @ [Locked d]) = (a, t)"
        "s' = (if a = None then t else (w', snd t @ [Unlocked d]))"
    using run_with_lock_loop by blast
  then show "\<exists>es. snd s' = snd s @ es \<and> before A B es"
  proof cases
    case 1
    then show ?thesis by (intro exI [of _ "[]"]) auto
  next
    case 2
    then obtain es where "snd t = snd s @ [Locked d] @ es" "before A B es"
      using needsD [OF assms(1)] by fastforce
    then show ?thesis using 2 assms(2,3)
      by (intro exI [of _ "[Locked d] @ es @ (if a = None then [] else [Unlocked d])"]) auto
  qed
qed

lemma needs_once [needs_intros]: "needs A B m \<Longrightarrow> needs A B (once m)"
  unfolding once_def by (intro needs_intros)

lemma needs_attempt_loop [needs_intros]:
  "needs A B m \<Longrightarrow> (\<And>x. needs A B (f x)) \<Longrightarrow> needs A B (attempt_loop m f)"
  unfolding attempt_loop_def
  by (rule needs_bind) (auto intro: needs_pure split: sum.splits option.splits)

lemma needs_attempt_loop_marked:
  assumes "needs A B m" and "\<And>x. only (\<lambda>_. True) (f x)" and "\<And>x. marks A m (Some (Inr x)) \<or> needs A B (f x)"
  shows "needs A B (attempt_loop m f)"
  unfolding attempt_loop_def
proof (rule needs_bind_marked [OF assms(1)])
  show "only (\<lambda>_. True) (case r of None \<Rightarrow> pure None | Some (Inl e) \<Rightarrow> pure (Some (Err e)) | Some (Inr x) \<Rightarrow> f x)"
    for r using assms(2) by (auto intro: only_pure split: sum.splits option.splits)
  show "marks A m r \<or> needs A B (case r of None \<Rightarrow> pure None | Some (Inl e) \<Rightarrow> pure (Some (Err e))
      | Some (Inr x) \<Rightarrow> f x)" for r
    using assms(3) by (auto intro: needs_pure split: sum.splits option.splits)
qed

lemma needs_host_workspace [needs_intros]:
  assumes "\<And>e. reads e \<Longrightarrow> \<not> B e"
  shows "needs A B (host_workspace (logged h) dir)"
  unfolding host_workspace_def by (rule needs_only [of reads]) (use assms in \<open>auto intro: only_intros\<close>)

lemma needs_with_locked_workspace_loop:
  assumes "\<And>w. needs A B (op w)" and "\<And>e. reads e \<Longrightarrow> \<not> B e"
    and "\<And>g. \<not> B (Locked g)" "\<And>g. \<not> B (Unlocked g)"
  shows "needs A B (with_locked_workspace_loop (logged h) dir op)"
  unfolding with_locked_workspace_loop_def using assms by (intro needs_intros) auto

lemma needs_with_locked_git_root_loop:
  assumes "needs A B op" and "\<And>g. \<not> B (Locked g)" "\<And>g. \<not> B (Unlocked g)"
  shows "needs A B (with_locked_git_root_loop (logged h) root op)"
  unfolding with_locked_git_root_loop_def using assms by (intro needs_intros) auto

end
