(* ===== verification/StartRun.thy ===== *)
theory StartRun
  imports WorkspaceFlow
begin

text \<open>
  The commands that launch a container for a workspace: \<open>src/commands/start.rs\<close> and
  \<open>start/interrupt.rs\<close>, \<open>run.rs\<close> and \<open>transient_run.rs\<close>, \<open>exec.rs\<close>; and \<open>connect.rs\<close>. A runtime that
  is asked for at a prompt is an argument here, and so is whether a TTY is used.
\<close>

section \<open>\<open>interrupt.rs\<close>\<close>

record interrupted_run_cleanup =
  irc_failures :: "string list"
  irc_volume_removed :: bool

definition interrupted_run_cleanup_run ::
  "'w host \<Rightarrow> workspace_identity \<Rightarrow> bool \<Rightarrow> ('w, interrupted_run_cleanup) io" where
  "interrupted_run_cleanup_run h w existed_before = do {
     c \<leftarrow> stop_and_verify h (container_name w);
     let failures = interrupted_messages c;
     (if container_removed c then
        (if \<not> existed_before then do {
           r \<leftarrow> remove_volume h (container_name w);
           pure (case r of
               Inr _ \<Rightarrow> \<lparr>irc_failures = failures, irc_volume_removed = True\<rparr>
             | Inl e \<Rightarrow> \<lparr>irc_failures = failures @ [format [''cache volume removal failed: '', error_text e]],
                 irc_volume_removed = False\<rparr>) }
         else pure \<lparr>irc_failures = failures, irc_volume_removed = False\<rparr>)
      else pure \<lparr>irc_failures = failures @
          (if existed_before then [] else option_list (interrupted_cache_volume_skip_message c)),
        irc_volume_removed = False\<rparr>) }"

definition interrupted_run_render :: "interrupted_run_cleanup \<Rightarrow> workspace_identity \<Rightarrow> bool \<Rightarrow> string" where
  "interrupted_run_render c w existed_before =
     format [''start interrupted before managed session '', tick (container_name w), '' for '',
       tick (canonical_git_root w), '' became ready'',
       if irc_failures c = [] then
         format [''; cleaned up managed container '', tick (container_name w), '' and '',
           (if existed_before then ''preserved existing cache volume ''
            else if irc_volume_removed c then ''removed newly-created cache volume ''
            else ''no new cache volume ''), tick (container_name w),
           (if \<not> existed_before \<and> \<not> irc_volume_removed c then '' remained'' else []),
           ''; default runtime image was left untouched'']
       else format [''; partial cleanup failed: '', join ''; '' (irc_failures c),
         ''; default runtime image was left untouched'']]"

definition interrupted_start_error ::
  "'w host \<Rightarrow> workspace_identity \<Rightarrow> bool \<Rightarrow> ('w, error) io" where
  "interrupted_start_error h w existed_before = do {
     c \<leftarrow> interrupted_run_cleanup_run h w existed_before;
     pure (Message (interrupted_run_render c w existed_before)) }"

text \<open>The check every interruptible command makes: an error of its own once the flag is set.\<close>

definition check_flag :: "'w host \<Rightarrow> ('w, error) io \<Rightarrow> ('w, unit res) io" where
  "check_flag h mk_error = do {
     flag \<leftarrow> State (interrupted h);
     if flag then map_io Err mk_error else pure (Ok ()) }"

definition start_check_interrupted ::
  "'w host \<Rightarrow> workspace_identity \<Rightarrow> bool \<Rightarrow> ('w, unit res) io" where
  "start_check_interrupted h w existed_before = check_flag h (interrupted_start_error h w existed_before)"

section \<open>\<open>start.rs\<close>\<close>

definition start_launch_policy :: "'w host \<Rightarrow> workspace_identity \<Rightarrow> bool \<Rightarrow> 'w managed_launch_policy" where
  "start_launch_policy h w existed_before =
     \<lparr>mp_create_action = ''start the runtime server command'',
      mp_check_interrupted = start_check_interrupted h w existed_before,
      mp_wrap_error = (\<lambda>e. e)\<rparr>"

record launch_args =
  la_dev_env :: dev_env_mode
  la_limits :: resource_limits
  la_directory :: path
  la_agent_args :: "string list"

definition start_run ::
  "nat \<Rightarrow> 'w host \<Rightarrow> runtime_kind \<Rightarrow> launch_args \<Rightarrow> bool \<Rightarrow> ('w, unit) loop" where
  "start_run fuel h runtime args connect_after = do {
     config \<leftarrow> State (load_config h);
     let limits = overlay (default_resource_limits config) (la_limits args);
     with_locked_workspace_loop h (la_directory args) (\<lambda>w.
       attempt_loop (once (prepare_runtime_launch h (managed_server_launch_request w runtime
           (la_dev_env args) connect_after (la_agent_args args) limits))) (\<lambda>prep.
       attempt_loop (once (volume_exists h (container_name w))) (\<lambda>existed.
         execute_managed_launch fuel h w runtime (rlp_run_spec prep) (rlp_token prep)
           (start_launch_policy h w existed)
           \<lparr>mc_kind = CompletionStart, mc_connect = connect_after,
            mc_client_launch_directory = canonical_target w, mc_retry_target = requested_target w\<rparr>))) }"

section \<open>\<open>transient_run.rs\<close> and \<open>run.rs\<close>\<close>

definition transient_with_cleanup_result :: "'w host \<Rightarrow> workspace_identity \<Rightarrow> error \<Rightarrow> ('w, error) io" where
  "transient_with_cleanup_result h w e =
     map_io (combine_error_with_cleanup_result e) (cleanup_transient_container h w)"

definition transient_check_interrupted :: "'w host \<Rightarrow> workspace_identity \<Rightarrow> ('w, unit res) io" where
  "transient_check_interrupted h w = check_flag h (transient_with_cleanup_result h w
     (msg [''run interrupted before transient container '', tick (container_name w), '' for '',
       tick (canonical_git_root w), '' finished'']))"

definition transient_lifecycle :: "'w host \<Rightarrow> workspace_identity \<Rightarrow> 'w lifecycle" where
  "transient_lifecycle h w =
     \<lparr>lc_readiness_context = TransientContext,
      lc_check_interrupted = transient_check_interrupted h w,
      lc_run_detached_error = (\<lambda>e. pure (msg [''failed to start transient run container '',
        tick (container_name w), '' for '', tick (canonical_git_root w), '': '', error_text e])),
      lc_readiness_error = (\<lambda>e. do {
        e' \<leftarrow> error_with_container_logs h w TransientLog e;
        transient_with_cleanup_result h w e' })\<rparr>"

definition finish_host_client_run ::
  "'w host \<Rightarrow> workspace_identity \<Rightarrow> runtime_kind \<Rightarrow> attach_endpoint \<Rightarrow> exit_status res \<Rightarrow> string list
     \<Rightarrow> ('w, unit res) io" where
  "finish_host_client_run h w runtime e client args = do {
     cleanup \<leftarrow> cleanup_transient_container h w;
     pure (case client of
         Inr st \<Rightarrow>
           (case exit_failure_from_status st
               (\<lambda>st. host_client_status_error runtime e (canonical_target w) st args) of
             None \<Rightarrow> cleanup
           | Some f \<Rightarrow> Err (into_error_with_cleanup_result f cleanup))
       | Inl err \<Rightarrow> Err (combine_error_with_cleanup_result err cleanup)) }"

definition transient_run_execute ::
  "nat \<Rightarrow> 'w host \<Rightarrow> workspace_identity \<Rightarrow> runtime_kind \<Rightarrow> runtime_run_spec \<Rightarrow> codex_attach_token option
     \<Rightarrow> string list \<Rightarrow> ('w, unit) loop" where
  "transient_run_execute fuel h w runtime s token args =
     attempt_loop (launch_detached_server fuel h w runtime s (transient_lifecycle h w)) (\<lambda>e. do {
       st \<leftarrow> run_host_runtime_client_status h runtime e (canonical_target w) token args;
       once (finish_host_client_run h w runtime e st args) })"

definition run_run :: "nat \<Rightarrow> 'w host \<Rightarrow> runtime_kind \<Rightarrow> launch_args \<Rightarrow> ('w, unit) loop" where
  "run_run fuel h runtime args = do {
     config \<leftarrow> State (load_config h);
     let limits = overlay (default_resource_limits config) (la_limits args);
     with_locked_workspace_loop h (la_directory args) (\<lambda>w.
       attempt_loop (once (prepare_runtime_launch h
           (transient_server_launch_request w runtime (la_dev_env args) limits))) (\<lambda>prep.
         transient_run_execute fuel h w runtime (rlp_run_spec prep) (rlp_token prep) (la_agent_args args))) }"

section \<open>\<open>exec.rs\<close>\<close>

definition exec_run :: "'w host \<Rightarrow> dev_env_mode \<Rightarrow> path \<Rightarrow> string list \<Rightarrow> bool \<Rightarrow> ('w, unit res) io" where
  "exec_run h mode directory codex_args use_tty =
     with_locked_workspace h directory (\<lambda>w.
       attempt (prepare_runtime_launch h (foreground_launch_request w Codex mode
           (\<lambda>dev_env. codex_exec_command (canonical_target w) dev_env codex_args))) (\<lambda>prep.
       attempt (run_foreground h (container_name w) (rlp_run_spec prep) use_tty) (\<lambda>st.
         pure (case exit_failure_from_status st
             (\<lambda>_. msg [''foreground Codex exec container exited due to signal'']) of
           None \<Rightarrow> Ok ()
         | Some f \<Rightarrow> Err (into_direct_error f)))))"

section \<open>\<open>connect.rs\<close>\<close>

definition no_session_error :: "workspace_identity \<Rightarrow> error" where
  "no_session_error w = msg [''no managed session exists for '', tick (canonical_git_root w), ''; use '',
     tick (run_command_hint None w), '' to create one'']"

definition connect_directory :: "'w host \<Rightarrow> path \<Rightarrow> string list \<Rightarrow> ('w, unit res) io" where
  "connect_directory h directory agent_args =
     with_locked_workspace h directory (\<lambda>w.
       attempt (discover_managed_sessions h w) (\<lambda>sessions.
       attempt (pure (select_single_session sessions w)) (\<lambda>found.
       attempt (pure (ok_or found (no_session_error w))) (\<lambda>s.
       attempt (pure (prepare_connect_session w s)) (\<lambda>cs.
       attempt (load_codex_attach_token_for_client h (cs_runtime cs) w) (\<lambda>token.
         map_io (map_err (\<lambda>e. msg [''failed to connect to managed session '',
             tick (sr_container_name (cs_session cs)), '' for '', tick (canonical_git_root w), '': '',
             error_text e, ''. If the session already exited, rerun '',
             tick (run_command_hint (Some (runtime_str (cs_runtime cs))) w),
             '' or remove the leftover container with '',
             tick (''agentbox stop '' @ requested_target w), ''.'']))
           (run_host_runtime_client h (cs_runtime cs) (cs_endpoint cs) (cs_launch_directory cs)
             token agent_args)))))))"

end
