(* ===== verification/Prompts.thy ===== *)
theory Prompts
  imports StartRun
begin

text \<open>
  Choosing a target at a prompt: \<open>src/prompt.rs\<close>, \<open>src/commands/session_targets.rs\<close> and the selection
  of \<open>src/commands/connect.rs\<close>. The terminal and \<open>inquire\<close> are parameters: whether both streams are a
  terminal, and what the user answers to a list of choices.
\<close>

section \<open>\<open>prompt.rs\<close>\<close>

record choice =
  ch_label :: string
  ch_value :: string

datatype inquire_error = OperationCanceled | OperationInterrupted | NotTTY | OtherInquire string

record 'w prompter =
  is_terminal :: "'w \<Rightarrow> bool \<times> 'w"
  ask_one :: "string \<Rightarrow> choice list \<Rightarrow> 'w \<Rightarrow> (inquire_error + choice) \<times> 'w"
  ask_many :: "string \<Rightarrow> choice list \<Rightarrow> 'w \<Rightarrow> (inquire_error + choice list) \<times> 'w"
  inquire_text :: "inquire_error \<Rightarrow> string"
  ask_confirm :: "string \<Rightarrow> bool \<Rightarrow> 'w \<Rightarrow> (inquire_error + bool option) \<times> 'w"

definition sort_choices_by_label :: "choice list \<Rightarrow> choice list" where
  "sort_choices_by_label cs = sort_key ch_label cs"

definition require_interactive_terminal :: "'w prompter \<Rightarrow> string \<Rightarrow> ('w, unit res) io" where
  "require_interactive_terminal p non_tty =
     map_io (\<lambda>tty. if tty then Ok () else Err (msg [non_tty])) (State (is_terminal p))"

definition confirmation_error :: "(inquire_error \<Rightarrow> string) \<Rightarrow> inquire_error \<Rightarrow> error" where
  "confirmation_error to_text e =
     (case e of
        OperationInterrupted \<Rightarrow> msg [''confirmation interrupted'']
      | NotTTY \<Rightarrow> msg [''interactive confirmation requires a TTY'']
      | _ \<Rightarrow> msg [''interactive confirmation failed: '', to_text e])"

definition selection_error :: "(inquire_error \<Rightarrow> string) \<Rightarrow> inquire_error \<Rightarrow> error" where
  "selection_error to_text e =
     (case e of
        OperationCanceled \<Rightarrow> msg [''selection canceled'']
      | OperationInterrupted \<Rightarrow> msg [''selection interrupted'']
      | NotTTY \<Rightarrow> msg [''interactive selection requires a TTY'']
      | _ \<Rightarrow> msg [''interactive selection failed: '', to_text e])"

definition select_one :: "'w prompter \<Rightarrow> string \<Rightarrow> choice list \<Rightarrow> string \<Rightarrow> ('w, choice res) io" where
  "select_one p message options non_tty =
     attempt (require_interactive_terminal p non_tty) (\<lambda>_.
       map_io (map_err (selection_error (inquire_text p))) (State (ask_one p message options)))"

definition select_many :: "'w prompter \<Rightarrow> string \<Rightarrow> choice list \<Rightarrow> string \<Rightarrow> ('w, choice list res) io" where
  "select_many p message options non_tty =
     attempt (require_interactive_terminal p non_tty) (\<lambda>_.
       map_io (map_err (selection_error (inquire_text p))) (State (ask_many p message options)))"

definition confirm :: "'w prompter \<Rightarrow> string \<Rightarrow> bool \<Rightarrow> string \<Rightarrow> ('w, bool res) io" where
  "confirm p message default_answer non_tty =
     attempt (require_interactive_terminal p non_tty) (\<lambda>_.
       map_io (\<lambda>r. map_err (confirmation_error (inquire_text p)) (map_ok (\<lambda>answer. unwrap_or answer False) r))
         (State (ask_confirm p message default_answer)))"

section \<open>\<open>session_targets.rs\<close>\<close>

datatype session_target_surface = SurfaceConnect | SurfaceHealth | SurfaceRestart | SurfaceStop

fun target_kind :: "session_target_surface \<Rightarrow> session_target_kind" where
  "target_kind SurfaceConnect = ConnectRoot"
| "target_kind SurfaceRestart = RestartStableId"
| "target_kind SurfaceHealth = StableIdTarget"
| "target_kind SurfaceStop = StableIdTarget"

fun surface_scope :: "session_target_surface \<Rightarrow> container_discovery_scope" where
  "surface_scope SurfaceStop = AgentboxOwned"
| "surface_scope _ = ManagedSessions"

definition surface_discover :: "'w host \<Rightarrow> session_target_surface \<Rightarrow> ('w, session_record list res) io" where
  "surface_discover h surface = discover_io h AllSessions (surface_scope surface)"

definition target_sessions :: "session_target_surface \<Rightarrow> session_record list \<Rightarrow> session_record list" where
  "target_sessions surface sessions = filter (target_matches (target_kind surface)) sessions"

definition completion_line :: "session_target_candidate \<Rightarrow> string" where
  "completion_line c = join [CHR 0x09] [tc_value c, git_root_or_unknown c, runtime_or_unknown c,
     status_str (tc_status c)]"

definition completion_lines :: "session_target_surface \<Rightarrow> session_record list \<Rightarrow> string list" where
  "completion_lines surface sessions = map completion_line (target_candidates (target_kind surface) sessions)"

definition connect_prompt_label :: "session_target_candidate \<Rightarrow> string" where
  "connect_prompt_label c = format [git_root_or_unknown c, '' ('', runtime_or_unknown c, '')'']"

definition stop_prompt_label :: "session_target_candidate \<Rightarrow> string" where
  "stop_prompt_label c = join '' '' [tc_value c, git_root_or_unknown c, runtime_or_unknown c,
     status_str (tc_status c)]"

definition prompt_choices ::
  "session_target_kind \<Rightarrow> session_record list \<Rightarrow> (session_target_candidate \<Rightarrow> string) \<Rightarrow> choice list" where
  "prompt_choices kind sessions lbl = sort_choices_by_label
     (map (\<lambda>c. \<lparr>ch_label = lbl c, ch_value = tc_value c\<rparr>) (target_candidates kind sessions))"

definition discover_prompt_choices ::
  "'w host \<Rightarrow> session_target_surface \<Rightarrow> (session_target_candidate \<Rightarrow> string) \<Rightarrow> ('w, choice list res) io" where
  "discover_prompt_choices h surface lbl =
     map_io (map_ok (\<lambda>sessions. prompt_choices (target_kind surface) sessions lbl)) (surface_discover h surface)"

definition select_one_session_target ::
  "'w host \<Rightarrow> 'w prompter \<Rightarrow> session_target_surface \<Rightarrow> string \<Rightarrow> string \<Rightarrow> string
     \<Rightarrow> (session_target_candidate \<Rightarrow> string) \<Rightarrow> ('w, string res) io" where
  "select_one_session_target h p surface message non_tty no_candidates lbl =
     attempt (require_interactive_terminal p non_tty) (\<lambda>_.
     attempt (discover_prompt_choices h surface lbl) (\<lambda>choices.
       if choices = [] then pure (Err (msg [no_candidates]))
       else map_io (map_ok ch_value) (select_one p message choices non_tty)))"

datatype session_target_multi_selection = NoCandidates | EmptySelection | Selected "string list"

definition select_many_session_targets ::
  "'w host \<Rightarrow> 'w prompter \<Rightarrow> session_target_surface \<Rightarrow> string \<Rightarrow> string
     \<Rightarrow> (session_target_candidate \<Rightarrow> string) \<Rightarrow> ('w, session_target_multi_selection res) io" where
  "select_many_session_targets h p surface message non_tty lbl =
     attempt (require_interactive_terminal p non_tty) (\<lambda>_.
     attempt (discover_prompt_choices h surface lbl) (\<lambda>choices.
       if choices = [] then pure (Ok NoCandidates)
       else map_io (map_ok (\<lambda>selected. if selected = [] then EmptySelection else Selected (map ch_value selected)))
         (select_many p message choices non_tty)))"

section \<open>\<open>connect.rs\<close>\<close>

definition CONNECT_NON_TTY_ERROR :: string where
  "CONNECT_NON_TTY_ERROR = ''agentbox connect requires a target when stdin or stderr is not a TTY''"

definition selected_connect_directory :: "'w host \<Rightarrow> 'w prompter \<Rightarrow> path option \<Rightarrow> ('w, path res) io" where
  "selected_connect_directory h p directory =
     (case directory of
        Some d \<Rightarrow> pure (Ok d)
      | None \<Rightarrow> select_one_session_target h p SurfaceConnect ''Select session'' CONNECT_NON_TTY_ERROR
          ''no connectable managed sessions exist'' connect_prompt_label)"

definition connect_run ::
  "'w host \<Rightarrow> 'w prompter \<Rightarrow> path option \<Rightarrow> string list \<Rightarrow> ('w, unit res) io" where
  "connect_run h p directory agent_args =
     attempt (selected_connect_directory h p directory) (\<lambda>d. connect_directory h d agent_args)"

end
