(* ===== verification/Clean.thy ===== *)
theory Clean
  imports Images Prompts
begin

text \<open>
  \<open>agentbox clean\<close>: \<open>src/commands/clean/\<close>. Which resources it looks at, which of them a container uses,
  what it plans to remove or to skip, and the removal. What Podman lists, the files it keeps and the
  answer at the prompt are parameters of \<open>clean_host\<close>.
\<close>

section \<open>\<open>resource.rs\<close>\<close>

datatype resource_kind = ImageResource | VolumeResource | LockFileResource

fun resource_kind_str :: "resource_kind \<Rightarrow> string" where
  "resource_kind_str ImageResource = ''image''"
| "resource_kind_str VolumeResource = ''volume''"
| "resource_kind_str LockFileResource = ''lock file''"

datatype clean_resource = CleanResource (cr_kind: resource_kind) (cr_name: string)

text \<open>The derived orders: by kind in declaration order, then by name.\<close>

fun resource_kind_rank :: "resource_kind \<Rightarrow> nat" where
  "resource_kind_rank ImageResource = 0"
| "resource_kind_rank VolumeResource = 1"
| "resource_kind_rank LockFileResource = 2"

fun clean_resource_rank :: "clean_resource \<Rightarrow> nat \<times> string" where
  "clean_resource_rank (CleanResource k n) = (resource_kind_rank k, n)"

lemma resource_kind_rank_inj: "resource_kind_rank a = resource_kind_rank b \<Longrightarrow> a = b"
  by (cases a; cases b) auto

lemma clean_resource_rank_inj: "clean_resource_rank a = clean_resource_rank b \<Longrightarrow> a = b"
  by (cases a; cases b) (auto dest: resource_kind_rank_inj)

instantiation clean_resource :: linorder
begin

definition less_eq_clean_resource :: "clean_resource \<Rightarrow> clean_resource \<Rightarrow> bool" where
  "less_eq_clean_resource a b \<longleftrightarrow> clean_resource_rank a \<le> clean_resource_rank b"

definition less_clean_resource :: "clean_resource \<Rightarrow> clean_resource \<Rightarrow> bool" where
  "less_clean_resource a b \<longleftrightarrow> clean_resource_rank a < clean_resource_rank b"

instance
  by standard
    (auto simp: less_eq_clean_resource_def less_clean_resource_def dest: clean_resource_rank_inj)

end

section \<open>\<open>scope.rs\<close>\<close>

text \<open>A \<open>BTreeSet\<close> of kinds, of which only membership is read.\<close>

type_synonym clean_scope = "resource_kind set"

definition selected_resources :: "bool \<Rightarrow> bool \<Rightarrow> bool \<Rightarrow> clean_scope" where
  "selected_resources images volumes locks =
     (if images then {ImageResource} else {}) \<union> (if volumes then {VolumeResource} else {})
       \<union> (if locks then {LockFileResource} else {})"

definition scope_from_flags :: "bool \<Rightarrow> bool \<Rightarrow> bool \<Rightarrow> clean_scope" where
  "scope_from_flags images volumes locks =
     (if \<not> images \<and> \<not> volumes \<and> \<not> locks then {ImageResource, VolumeResource, LockFileResource}
      else selected_resources images volumes locks)"

section \<open>\<open>usage.rs\<close>\<close>

text \<open>For every resource in use, the container that was listed first.\<close>

type_synonym resource_usage = "(clean_resource, string) btree"

definition mark_used :: "clean_resource \<Rightarrow> string \<Rightarrow> resource_usage \<Rightarrow> resource_usage" where
  "mark_used r container u = bt_or_insert r container u"

fun mark_mounts :: "string \<Rightarrow> podman_container_mount list \<Rightarrow> resource_usage \<Rightarrow> resource_usage" where
  "mark_mounts container [] u = u"
| "mark_mounts container (m # ms) u =
     mark_mounts container ms (case named_volume_name m of
         Some v \<Rightarrow> mark_used (CleanResource VolumeResource v) container u
       | None \<Rightarrow> u)"

fun usage_loop :: "podman_container_inspect list \<Rightarrow> resource_usage \<Rightarrow> resource_usage" where
  "usage_loop [] u = u"
| "usage_loop (c # cs) u =
     usage_loop cs (mark_mounts (insp_id c) (insp_mounts c)
       (mark_used (CleanResource ImageResource (insp_image_name c)) (insp_id c) u))"

definition usage_from_containers :: "podman_container_inspect list \<Rightarrow> resource_usage" where
  "usage_from_containers cs = usage_loop cs []"

definition resource_user :: "resource_usage \<Rightarrow> clean_resource \<Rightarrow> string option" where
  "resource_user u r = bt_get u r"

section \<open>\<open>inventory.rs\<close>\<close>

record image_candidate =
  ic_runtime :: runtime_kind
  ic_image :: string

record clean_inventory =
  inv_containers :: "podman_container_inspect list"
  inv_images :: "image_candidate list"
  inv_volumes :: "podman_volume list"
  inv_locks :: "lock_file_status list"

definition labeled_default_runtime_image_candidates :: "podman_image \<Rightarrow> image_candidate list" where
  "labeled_default_runtime_image_candidates i =
     (case default_runtime_image_metadata_from_labels (img_labels i) of
        None \<Rightarrow> []
      | Some md \<Rightarrow> map (\<lambda>r. \<lparr>ic_runtime = md_runtime md, ic_image = r\<rparr>)
          (filter (\<lambda>r. is_content_hash_default_image_ref (md_runtime md) r
              \<and> ends_with r (md_image_context_hash md)) (references i)))"

definition default_runtime_image_label_filter :: string where
  "default_runtime_image_label_filter =
     format [''label='', LABEL_DEFAULT_RUNTIME_IMAGE, ''='', LABEL_DEFAULT_RUNTIME_IMAGE_VALUE]"

record ('c, 'w) clean_host =
  cl_host :: "'w host"
  cl_images_of_json :: "string \<Rightarrow> string + podman_image list"
  cl_volumes_of_json :: "string \<Rightarrow> string + podman_volume list"
  cl_locks :: "'w lock_fs"
  cl_state_home :: "path option"
  cl_store :: "('c, 'w) image_state_store"
  cl_prompter :: "'w prompter"
  cl_diagnostic :: "string \<Rightarrow> 'w \<Rightarrow> unit \<times> 'w"
  cl_write_stderr :: "string \<Rightarrow> 'w \<Rightarrow> unit res \<times> 'w"

definition podman_volumes :: "('c, 'w) clean_host \<Rightarrow> ('w, podman_volume list res) io" where
  "podman_volumes cl = run_json (cl_host cl) (cl_volumes_of_json cl) [''volume'', ''ls'', ''--format'', ''json'']"

definition images_with_label :: "('c, 'w) clean_host \<Rightarrow> string \<Rightarrow> ('w, podman_image list res) io" where
  "images_with_label cl label_filter = run_json (cl_host cl) (cl_images_of_json cl)
     [''image'', ''ls'', ''--filter'', label_filter, ''--format'', ''json'']"

fun inspect_containers ::
  "'w host \<Rightarrow> podman_ps_container list \<Rightarrow> ('w, podman_container_inspect list res) io" where
  "inspect_containers h [] = pure (Ok [])"
| "inspect_containers h (c # cs) = attempt (inspect_one h (ps_id c)) (\<lambda>i.
     map_io (map_ok ((#) i)) (inspect_containers h cs))"

definition inspect_all_containers :: "'w host \<Rightarrow> ('w, podman_container_inspect list res) io" where
  "inspect_all_containers h = attempt (podman_ps_all h) (inspect_containers h)"

definition labeled_default_runtime_images :: "('c, 'w) clean_host \<Rightarrow> ('w, image_candidate list res) io" where
  "labeled_default_runtime_images cl =
     attempt (images_with_label cl default_runtime_image_label_filter) (\<lambda>images.
       pure (Ok (concat (map labeled_default_runtime_image_candidates images))))"

definition cleanup_lock_files_from_xdg :: "('c, 'w) clean_host \<Rightarrow> ('w, lock_file_status list res) io" where
  "cleanup_lock_files_from_xdg cl =
     attempt (pure (state_root_from_xdg (cl_state_home cl))) (cleanup_lock_files (cl_locks cl))"

definition inventory_from_podman :: "('c, 'w) clean_host \<Rightarrow> clean_scope \<Rightarrow> ('w, clean_inventory res) io" where
  "inventory_from_podman cl scope =
     attempt (if ImageResource \<in> scope \<or> VolumeResource \<in> scope then inspect_all_containers (cl_host cl)
              else pure (Ok [])) (\<lambda>containers.
     attempt (if ImageResource \<in> scope then labeled_default_runtime_images cl else pure (Ok [])) (\<lambda>images.
     attempt (if VolumeResource \<in> scope then podman_volumes cl else pure (Ok [])) (\<lambda>volumes.
     attempt (if LockFileResource \<in> scope then cleanup_lock_files_from_xdg cl else pure (Ok [])) (\<lambda>locks.
       pure (Ok \<lparr>inv_containers = containers, inv_images = images, inv_volumes = volumes,
         inv_locks = locks\<rparr>)))))"

section \<open>\<open>plan.rs\<close>\<close>

datatype clean_candidate =
    DefaultRuntimeImage runtime_kind clean_resource
  | CacheVolume clean_resource
  | WorkspaceLockFile path clean_resource

fun cc_resource :: "clean_candidate \<Rightarrow> clean_resource" where
  "cc_resource (DefaultRuntimeImage k r) = r"
| "cc_resource (CacheVolume r) = r"
| "cc_resource (WorkspaceLockFile p r) = r"

record skipped_resource =
  sk_resource :: clean_resource
  sk_reason :: string

record clean_plan =
  cp_candidates :: "clean_candidate list"
  cp_skipped :: "skipped_resource list"

definition push_candidate :: "clean_candidate \<Rightarrow> clean_plan \<Rightarrow> clean_plan" where
  "push_candidate c p = p\<lparr>cp_candidates := cp_candidates p @ [c]\<rparr>"

definition push_skipped :: "clean_resource \<Rightarrow> string \<Rightarrow> clean_plan \<Rightarrow> clean_plan" where
  "push_skipped r reason p = p\<lparr>cp_skipped := cp_skipped p @ [\<lparr>sk_resource = r, sk_reason = reason\<rparr>]\<rparr>"

definition add_candidate_or_skip ::
  "clean_resource \<Rightarrow> resource_usage \<Rightarrow> string \<Rightarrow> (clean_resource \<Rightarrow> clean_candidate) \<Rightarrow> clean_plan
     \<Rightarrow> clean_plan" where
  "add_candidate_or_skip r u used_action candidate p =
     (case resource_user u r of
        Some container \<Rightarrow> push_skipped r (format [used_action, '' by container '', tick container]) p
      | None \<Rightarrow> push_candidate (candidate r) p)"

definition add_default_runtime_image_candidate ::
  "build \<Rightarrow> runtime_kind \<Rightarrow> string \<Rightarrow> resource_usage \<Rightarrow> clean_plan \<Rightarrow> clean_plan" where
  "add_default_runtime_image_candidate b runtime img u p =
     (let r = CleanResource ImageResource img in
      case resource_user u r of
        Some container \<Rightarrow> push_skipped r (format [''used by container '', tick container]) p
      | None \<Rightarrow>
          if cr_name r = default_image b runtime then push_skipped r ''current default image'' p
          else push_candidate (DefaultRuntimeImage runtime r) p)"

text \<open>\<open>seen\<close> is a set of names.\<close>

fun add_default_runtime_image_candidates ::
  "build \<Rightarrow> image_candidate list \<Rightarrow> resource_usage \<Rightarrow> string set \<Rightarrow> clean_plan \<Rightarrow> clean_plan" where
  "add_default_runtime_image_candidates b [] u seen p = p"
| "add_default_runtime_image_candidates b (c # cs) u seen p =
     add_default_runtime_image_candidates b cs u (seen \<union> {ic_image c})
       (if ic_image c \<notin> seen then add_default_runtime_image_candidate b (ic_runtime c) (ic_image c) u p else p)"

fun add_cache_volume_candidates :: "podman_volume list \<Rightarrow> resource_usage \<Rightarrow> clean_plan \<Rightarrow> clean_plan" where
  "add_cache_volume_candidates [] u p = p"
| "add_cache_volume_candidates (v # vs) u p =
     add_cache_volume_candidates vs u
       (if is_agentbox_workspace_resource_name (vol_name v)
        then add_candidate_or_skip (CleanResource VolumeResource (vol_name v)) u ''mounted'' CacheVolume p
        else p)"

definition lock_file_resource :: "path \<Rightarrow> clean_resource" where
  "lock_file_resource f = CleanResource LockFileResource f"

fun add_lock_file_candidates :: "lock_file_status list \<Rightarrow> clean_plan \<Rightarrow> clean_plan" where
  "add_lock_file_candidates [] p = p"
| "add_lock_file_candidates (AvailableLock f # ls) p =
     add_lock_file_candidates ls (push_candidate (WorkspaceLockFile f (lock_file_resource f)) p)"
| "add_lock_file_candidates (LockedLock f # ls) p =
     add_lock_file_candidates ls (push_skipped (lock_file_resource f) ''locked by another agentbox process'' p)"

definition clean_plan_from_inventory :: "build \<Rightarrow> clean_scope \<Rightarrow> clean_inventory \<Rightarrow> clean_plan" where
  "clean_plan_from_inventory b scope inventory =
     (let u = usage_from_containers (inv_containers inventory);
          p = \<lparr>cp_candidates = [], cp_skipped = []\<rparr>;
          p = (if ImageResource \<in> scope then add_default_runtime_image_candidates b (inv_images inventory) u {} p else p);
          p = (if VolumeResource \<in> scope then add_cache_volume_candidates (inv_volumes inventory) u p else p);
          p = (if LockFileResource \<in> scope then add_lock_file_candidates (inv_locks inventory) p else p)
      in p)"

section \<open>\<open>render.rs\<close>\<close>

definition candidate_line :: "clean_candidate \<Rightarrow> string" where
  "candidate_line c =
     format [''- '', resource_kind_str (cr_kind (cc_resource c)), '' '', tick (cr_name (cc_resource c))]"

definition skipped_line :: "skipped_resource \<Rightarrow> string" where
  "skipped_line s =
     format [''- '', resource_kind_str (cr_kind (sk_resource s)), '' '', tick (cr_name (sk_resource s)), '': '',
       sk_reason s]"

definition render_plan :: "clean_plan \<Rightarrow> string" where
  "render_plan p =
     (let ls = (if cp_candidates p \<noteq> [] then ''cleanup candidates:'' # map candidate_line (cp_candidates p) else [])
             @ (if cp_skipped p \<noteq> [] then ''skipped:'' # map skipped_line (cp_skipped p) else [])
      in if ls = [] then ''nothing to clean'' @ [CHR 0x0A] else join [CHR 0x0A] ls @ [CHR 0x0A])"

section \<open>\<open>apply.rs\<close>\<close>

record delete_failure =
  df_resource :: clean_resource
  df_error :: string

definition render_delete_failures :: "delete_failure list \<Rightarrow> string" where
  "render_delete_failures fs =
     ''partial clean failed; failed resources: '' @ join ''; '' (map (\<lambda>f.
       format [resource_kind_str (cr_kind (df_resource f)), '' '', tick (cr_name (df_resource f)), '' ('',
         df_error f, '')'']) fs)"

fun apply_loop ::
  "(clean_candidate \<Rightarrow> ('w, unit res) io) \<Rightarrow> (string \<Rightarrow> ('w, unit) io) \<Rightarrow> clean_candidate list
     \<Rightarrow> delete_failure list \<Rightarrow> ('w, delete_failure list) io" where
  "apply_loop remove report [] failures = pure failures"
| "apply_loop remove report (c # cs) failures = do {
     r \<leftarrow> remove c;
     (case r of
        Inr _ \<Rightarrow> do {
          _ \<leftarrow> report (format [''removed '', resource_kind_str (cr_kind (cc_resource c)), '' '',
            tick (cr_name (cc_resource c))]);
          apply_loop remove report cs failures }
      | Inl e \<Rightarrow> apply_loop remove report cs
          (failures @ [\<lparr>df_resource = cc_resource c, df_error = error_text e\<rparr>])) }"

definition apply_clean_plan_with ::
  "(clean_candidate \<Rightarrow> ('w, unit res) io) \<Rightarrow> (string \<Rightarrow> ('w, unit) io) \<Rightarrow> clean_plan \<Rightarrow> ('w, unit res) io" where
  "apply_clean_plan_with remove report p =
     map_io (\<lambda>failures. if failures = [] then Ok () else Err (msg [render_delete_failures failures]))
       (apply_loop remove report (cp_candidates p) [])"

fun remove_candidate :: "('c, 'w) clean_host \<Rightarrow> clean_candidate \<Rightarrow> ('w, unit res) io" where
  "remove_candidate cl (DefaultRuntimeImage runtime r) =
     attempt (remove_image (cl_host cl) (cr_name r)) (\<lambda>_.
       remove_default_runtime_image_state_if_image (cl_state_home cl) (cl_store cl) runtime (cr_name r))"
| "remove_candidate cl (CacheVolume r) = remove_volume (cl_host cl) (cr_name r)"
| "remove_candidate cl (WorkspaceLockFile p r) =
     attempt (remove_cleanup_lock_file (cl_locks cl) p) (\<lambda>removal.
       pure (if removal = RemovalLocked then Err (msg [''locked by another agentbox process'']) else Ok ()))"

definition diagnostic :: "('c, 'w) clean_host \<Rightarrow> string \<Rightarrow> ('w, unit) io" where
  "diagnostic cl m = State (cl_diagnostic cl m)"

definition apply_clean_plan :: "('c, 'w) clean_host \<Rightarrow> clean_plan \<Rightarrow> ('w, unit res) io" where
  "apply_clean_plan cl p = apply_clean_plan_with (remove_candidate cl) (diagnostic cl) p"

section \<open>\<open>mod.rs\<close>\<close>

definition CLEAN_NON_TTY_ERROR :: string where
  "CLEAN_NON_TTY_ERROR = ''agentbox clean requires --yes or --dry-run when stdin or stderr is not a TTY''"

record clean_args =
  ca_dry_run :: bool
  ca_yes :: bool
  ca_images :: bool
  ca_volumes :: bool
  ca_locks :: bool

definition build_clean_plan :: "('c, 'w) clean_host \<Rightarrow> clean_scope \<Rightarrow> ('w, clean_plan res) io" where
  "build_clean_plan cl scope =
     map_io (map_ok (clean_plan_from_inventory (host_build (cl_host cl)) scope)) (inventory_from_podman cl scope)"

text \<open>What follows once the plan is known.\<close>

definition clean_confirm_and_apply :: "('c, 'w) clean_host \<Rightarrow> clean_plan \<Rightarrow> ('w, unit res) io" where
  "clean_confirm_and_apply cl p =
     attempt (require_interactive_terminal (cl_prompter cl) CLEAN_NON_TTY_ERROR) (\<lambda>_.
     attempt (State (cl_write_stderr cl (render_plan p))) (\<lambda>_.
     attempt (confirm (cl_prompter cl) ''Proceed?'' False CLEAN_NON_TTY_ERROR) (\<lambda>yes.
       if \<not> yes then do { _ \<leftarrow> diagnostic cl ''aborted''; pure (Ok ()) }
       else apply_clean_plan cl p)))"

definition clean_with_plan :: "('c, 'w) clean_host \<Rightarrow> clean_args \<Rightarrow> clean_plan \<Rightarrow> ('w, unit res) io" where
  "clean_with_plan cl args p =
     (if ca_dry_run args then do { _ \<leftarrow> diagnostic cl (render_plan p); pure (Ok ()) }
      else if cp_candidates p = [] \<and> cp_skipped p = [] then do { _ \<leftarrow> diagnostic cl ''nothing to clean''; pure (Ok ()) }
      else do {
        _ \<leftarrow> (if ca_yes args \<or> cp_candidates p = [] then diagnostic cl (render_plan p) else pure ());
        (if cp_candidates p = [] then pure (Ok ())
         else if ca_yes args then apply_clean_plan cl p
         else clean_confirm_and_apply cl p) })"

definition clean_run :: "('c, 'w) clean_host \<Rightarrow> clean_args \<Rightarrow> ('w, unit res) io" where
  "clean_run cl args =
     attempt (build_clean_plan cl (scope_from_flags (ca_images args) (ca_volumes args) (ca_locks args)))
       (clean_with_plan cl args)"

end
