(* ===== verification/PodmanJson.thy ===== *)
theory PodmanJson
  imports Json Clean
begin

text \<open>
  Podman's answers as the program decodes them: the structs of \<open>src/podman/model\<close> with all their fields,
  how each is read from JSON and written to it, and the parts the rest of the program looks at.
\<close>

section \<open>\<open>podman ps\<close>\<close>

record ps_port =
  pp_container_port :: u16
  pp_host_ip_field :: "string option"
  pp_host_port_field :: "u16 option"
  pp_protocol :: "string option"
  pp_range :: "u16 option"

record ps_namespaces =
  pn_cgroup :: "string option"
  pn_ipc :: "string option"
  pn_mnt :: "string option"
  pn_net :: "string option"
  pn_pidns :: "string option"
  pn_user :: "string option"
  pn_uts :: "string option"

record ps_entry =
  pe_id :: string
  pe_image :: string
  pe_command :: "string list option"
  pe_created :: "64 word"
  pe_created_at :: string
  pe_names :: "string list option"
  pe_ports :: "ps_port list option"
  pe_status :: string
  pe_state :: string
  pe_labels :: labels
  pe_mounts :: "string list option"
  pe_networks :: "string list option"
  pe_namespaces :: "ps_namespaces option"

definition ps_port_members :: "string list" where
  "ps_port_members = [''container_port'', ''host_ip'', ''host_port'', ''protocol'', ''range'']"

definition de_ps_port :: "json \<Rightarrow> ps_port option" where
  "de_ps_port j = do {
     f \<leftarrow> struct_fields (map (\<lambda>n. [n]) ps_port_members) j;
     port \<leftarrow> or_default 0 de_u16 (f ''container_port'');
     ip \<leftarrow> or_default None (de_option de_string) (f ''host_ip'');
     hp \<leftarrow> or_default None (de_option de_u16) (f ''host_port'');
     proto \<leftarrow> or_default None (de_option de_string) (f ''protocol'');
     rng \<leftarrow> or_default None (de_option de_u16) (f ''range'');
     Some \<lparr>pp_container_port = port, pp_host_ip_field = ip, pp_host_port_field = hp, pp_protocol = proto,
       pp_range = rng\<rparr> }"

definition en_ps_port :: "ps_port \<Rightarrow> json" where
  "en_ps_port p = JObject (zip ps_port_members
     [JInt (uint (pp_container_port p)), en_option JString (pp_host_ip_field p),
      en_option (\<lambda>w. JInt (uint w)) (pp_host_port_field p), en_option JString (pp_protocol p),
      en_option (\<lambda>w. JInt (uint w)) (pp_range p)])"

definition ps_namespaces_members :: "string list" where
  "ps_namespaces_members = [''Cgroup'', ''Ipc'', ''Mnt'', ''Net'', ''Pidns'', ''User'', ''Uts'']"

definition de_ps_namespaces :: "json \<Rightarrow> ps_namespaces option" where
  "de_ps_namespaces j = do {
     f \<leftarrow> struct_fields (map (\<lambda>n. [n]) ps_namespaces_members) j;
     cgroup \<leftarrow> or_default None (de_option de_string) (f ''Cgroup'');
     ipc \<leftarrow> or_default None (de_option de_string) (f ''Ipc'');
     mnt \<leftarrow> or_default None (de_option de_string) (f ''Mnt'');
     net \<leftarrow> or_default None (de_option de_string) (f ''Net'');
     pidns \<leftarrow> or_default None (de_option de_string) (f ''Pidns'');
     user \<leftarrow> or_default None (de_option de_string) (f ''User'');
     uts \<leftarrow> or_default None (de_option de_string) (f ''Uts'');
     Some \<lparr>pn_cgroup = cgroup, pn_ipc = ipc, pn_mnt = mnt, pn_net = net, pn_pidns = pidns, pn_user = user,
       pn_uts = uts\<rparr> }"

definition en_ps_namespaces :: "ps_namespaces \<Rightarrow> json" where
  "en_ps_namespaces n = JObject (zip ps_namespaces_members (map (en_option JString)
     [pn_cgroup n, pn_ipc n, pn_mnt n, pn_net n, pn_pidns n, pn_user n, pn_uts n]))"

definition ps_entry_members :: "string list" where
  "ps_entry_members = [''Id'', ''Image'', ''Command'', ''Created'', ''CreatedAt'', ''Names'', ''Ports'',
     ''Status'', ''State'', ''Labels'', ''Mounts'', ''Networks'', ''Namespaces'']"

definition de_ps_entry :: "json \<Rightarrow> ps_entry option" where
  "de_ps_entry j = do {
     f \<leftarrow> struct_fields (map (\<lambda>n. [n]) ps_entry_members) j;
     i \<leftarrow> required de_string (f ''Id'');
     img \<leftarrow> required de_string (f ''Image'');
     cmd \<leftarrow> or_default None deserialize_option_vec_or_string (f ''Command'');
     created \<leftarrow> required de_i64 (f ''Created'');
     created_at \<leftarrow> required de_string (f ''CreatedAt'');
     names \<leftarrow> or_default None (de_option (de_vec de_string)) (f ''Names'');
     ports \<leftarrow> or_default None (de_option (de_vec de_ps_port)) (f ''Ports'');
     stat \<leftarrow> required de_string (f ''Status'');
     st \<leftarrow> required de_string (f ''State'');
     labels \<leftarrow> or_default [] (deserialize_map_or_null_default de_string) (f ''Labels'');
     mounts \<leftarrow> or_default None (de_option (de_vec de_string)) (f ''Mounts'');
     nets \<leftarrow> or_default None (de_option (de_vec de_string)) (f ''Networks'');
     spaces \<leftarrow> or_default None (de_option de_ps_namespaces) (f ''Namespaces'');
     Some \<lparr>pe_id = i, pe_image = img, pe_command = cmd, pe_created = created, pe_created_at = created_at,
       pe_names = names, pe_ports = ports, pe_status = stat, pe_state = st, pe_labels = labels,
       pe_mounts = mounts, pe_networks = nets, pe_namespaces = spaces\<rparr> }"

definition en_ps_entry :: "ps_entry \<Rightarrow> json" where
  "en_ps_entry e = JObject (zip ps_entry_members
     [JString (pe_id e), JString (pe_image e), en_option (en_vec JString) (pe_command e),
      JInt (sint (pe_created e)), JString (pe_created_at e), en_option (en_vec JString) (pe_names e),
      en_option (en_vec en_ps_port) (pe_ports e), JString (pe_status e), JString (pe_state e),
      en_map JString (pe_labels e), en_option (en_vec JString) (pe_mounts e),
      en_option (en_vec JString) (pe_networks e), en_option en_ps_namespaces (pe_namespaces e)])"

text \<open>What the program looks at.\<close>

definition ps_view :: "ps_entry \<Rightarrow> podman_ps_container" where
  "ps_view e = \<lparr>ps_id = pe_id e, ps_names = pe_names e, ps_labels = pe_labels e\<rparr>"

section \<open>\<open>podman container inspect\<close>\<close>

record inspect_health =
  ih_status :: string
  ih_failing_streak :: u64

record inspect_state =
  ist_status :: string
  ist_running :: bool
  ist_exit_code :: "64 word"
  ist_pid :: "64 word"
  ist_started_at :: "string option"
  ist_finished_at :: "string option"
  ist_health :: "inspect_health option"

record inspect_config =
  ic_user :: "string option"
  ic_env :: "string list"
  ic_cmd :: "string list"
  ic_working_dir :: "string option"
  ic_labels :: labels
  ic_entrypoint :: "string list option"
  ic_stop_signal :: "string option"

record inspect_host_config =
  ihc_auto_remove :: bool
  ihc_network_mode :: "string option"
  ihc_privileged :: bool

record inspect_mount = podman_container_mount +
  mount_rw :: bool

record network_endpoint =
  ne_ip_address :: "string option"
  ne_gateway :: "string option"
  ne_aliases :: "string list"

record inspect_network = network_settings +
  ns_networks :: "(string, network_endpoint) btree"

record inspect_entry =
  ie_id :: string
  ie_created :: string
  ie_path :: string
  ie_args :: "string list"
  ie_state :: inspect_state
  ie_image_name :: string
  ie_config :: inspect_config
  ie_host_config :: inspect_host_config
  ie_mounts :: "inspect_mount list"
  ie_network_settings :: inspect_network

definition inspect_health_members :: "string list" where
  "inspect_health_members = [''Status'', ''FailingStreak'']"

definition de_inspect_health :: "json \<Rightarrow> inspect_health option" where
  "de_inspect_health j = do {
     f \<leftarrow> struct_fields (map (\<lambda>n. [n]) inspect_health_members) j;
     stat \<leftarrow> required de_string (f ''Status'');
     streak \<leftarrow> or_default 0 de_u64 (f ''FailingStreak'');
     Some \<lparr>ih_status = stat, ih_failing_streak = streak\<rparr> }"

definition en_inspect_health :: "inspect_health \<Rightarrow> json" where
  "en_inspect_health h = JObject (zip inspect_health_members
     [JString (ih_status h), JInt (uint (ih_failing_streak h))])"

definition inspect_state_members :: "string list" where
  "inspect_state_members = [''Status'', ''Running'', ''ExitCode'', ''Pid'', ''StartedAt'', ''FinishedAt'', ''Health'']"

definition de_inspect_state :: "json \<Rightarrow> inspect_state option" where
  "de_inspect_state j = do {
     f \<leftarrow> struct_fields (map (\<lambda>n. [n]) inspect_state_members) j;
     stat \<leftarrow> required de_string (f ''Status'');
     running \<leftarrow> required de_bool (f ''Running'');
     code \<leftarrow> or_default 0 de_i64 (f ''ExitCode'');
     pid \<leftarrow> or_default 0 de_i64 (f ''Pid'');
     started \<leftarrow> or_default None (de_option de_string) (f ''StartedAt'');
     finished \<leftarrow> or_default None (de_option de_string) (f ''FinishedAt'');
     health \<leftarrow> or_default None (de_option de_inspect_health) (f ''Health'');
     Some \<lparr>ist_status = stat, ist_running = running, ist_exit_code = code, ist_pid = pid,
       ist_started_at = started, ist_finished_at = finished, ist_health = health\<rparr> }"

definition en_inspect_state :: "inspect_state \<Rightarrow> json" where
  "en_inspect_state s = JObject (zip inspect_state_members
     [JString (ist_status s), JBool (ist_running s), JInt (sint (ist_exit_code s)), JInt (sint (ist_pid s)),
      en_option JString (ist_started_at s), en_option JString (ist_finished_at s),
      en_option en_inspect_health (ist_health s)])"

definition inspect_config_members :: "string list" where
  "inspect_config_members = [''User'', ''Env'', ''Cmd'', ''WorkingDir'', ''Labels'', ''Entrypoint'', ''StopSignal'']"

definition de_inspect_config :: "json \<Rightarrow> inspect_config option" where
  "de_inspect_config j = do {
     f \<leftarrow> struct_fields (map (\<lambda>n. [n]) inspect_config_members) j;
     user \<leftarrow> or_default None (de_option de_string) (f ''User'');
     env \<leftarrow> or_default [] (deserialize_vec_or_null_default de_string) (f ''Env'');
     cmd \<leftarrow> or_default [] (deserialize_vec_or_null_default de_string) (f ''Cmd'');
     dir \<leftarrow> or_default None (de_option de_string) (f ''WorkingDir'');
     labels \<leftarrow> or_default [] (deserialize_map_or_null_default de_string) (f ''Labels'');
     entry \<leftarrow> or_default None deserialize_option_vec_or_string (f ''Entrypoint'');
     sig \<leftarrow> or_default None (de_option de_string) (f ''StopSignal'');
     Some \<lparr>ic_user = user, ic_env = env, ic_cmd = cmd, ic_working_dir = dir, ic_labels = labels,
       ic_entrypoint = entry, ic_stop_signal = sig\<rparr> }"

definition en_inspect_config :: "inspect_config \<Rightarrow> json" where
  "en_inspect_config c = JObject (zip inspect_config_members
     [en_option JString (ic_user c), en_vec JString (ic_env c), en_vec JString (ic_cmd c),
      en_option JString (ic_working_dir c), en_map JString (ic_labels c),
      en_option (en_vec JString) (ic_entrypoint c), en_option JString (ic_stop_signal c)])"

definition inspect_host_config_members :: "string list" where
  "inspect_host_config_members = [''AutoRemove'', ''NetworkMode'', ''Privileged'']"

definition de_inspect_host_config :: "json \<Rightarrow> inspect_host_config option" where
  "de_inspect_host_config j = do {
     f \<leftarrow> struct_fields (map (\<lambda>n. [n]) inspect_host_config_members) j;
     auto \<leftarrow> or_default False de_bool (f ''AutoRemove'');
     mode \<leftarrow> or_default None (de_option de_string) (f ''NetworkMode'');
     priv \<leftarrow> or_default False de_bool (f ''Privileged'');
     Some \<lparr>ihc_auto_remove = auto, ihc_network_mode = mode, ihc_privileged = priv\<rparr> }"

definition en_inspect_host_config :: "inspect_host_config \<Rightarrow> json" where
  "en_inspect_host_config c = JObject (zip inspect_host_config_members
     [JBool (ihc_auto_remove c), en_option JString (ihc_network_mode c), JBool (ihc_privileged c)])"

definition de_mount_kind :: "json \<Rightarrow> mount_kind option" where
  "de_mount_kind j = map_option mount_kind_of (de_string j)"

definition inspect_mount_members :: "string list" where
  "inspect_mount_members = [''Type'', ''Name'', ''Source'', ''Destination'', ''RW'']"

definition de_inspect_mount :: "json \<Rightarrow> inspect_mount option" where
  "de_inspect_mount j = do {
     f \<leftarrow> struct_fields (map (\<lambda>n. [n]) inspect_mount_members) j;
     kind \<leftarrow> required de_mount_kind (f ''Type'');
     name \<leftarrow> or_default None (de_option de_string) (f ''Name'');
     source \<leftarrow> required de_string (f ''Source'');
     dest \<leftarrow> required de_string (f ''Destination'');
     rw \<leftarrow> or_default False de_bool (f ''RW'');
     Some \<lparr>mount_kind = kind, mount_name = name, mount_source = source, mount_destination = dest, mount_rw = rw\<rparr> }"

definition en_inspect_mount :: "inspect_mount \<Rightarrow> json" where
  "en_inspect_mount m = JObject (zip inspect_mount_members
     [JString (mount_kind_str (mount_kind m)), en_option JString (mount_name m), JString (mount_source m),
      JString (mount_destination m), JBool (mount_rw m)])"

definition network_endpoint_members :: "string list" where
  "network_endpoint_members = [''IPAddress'', ''Gateway'', ''Aliases'']"

definition de_network_endpoint :: "json \<Rightarrow> network_endpoint option" where
  "de_network_endpoint j = do {
     f \<leftarrow> struct_fields (map (\<lambda>n. [n]) network_endpoint_members) j;
     ip \<leftarrow> or_default None (de_option de_string) (f ''IPAddress'');
     gateway \<leftarrow> or_default None (de_option de_string) (f ''Gateway'');
     aliases \<leftarrow> or_default [] (deserialize_vec_or_null_default de_string) (f ''Aliases'');
     Some \<lparr>ne_ip_address = ip, ne_gateway = gateway, ne_aliases = aliases\<rparr> }"

definition en_network_endpoint :: "network_endpoint \<Rightarrow> json" where
  "en_network_endpoint e = JObject (zip network_endpoint_members
     [en_option JString (ne_ip_address e), en_option JString (ne_gateway e), en_vec JString (ne_aliases e)])"

definition port_binding_members :: "string list" where
  "port_binding_members = [''HostIp'', ''HostPort'']"

definition de_port_binding :: "json \<Rightarrow> podman_port_binding option" where
  "de_port_binding j = do {
     f \<leftarrow> struct_fields (map (\<lambda>n. [n]) port_binding_members) j;
     ip \<leftarrow> or_default None (de_option de_string) (f ''HostIp'');
     port \<leftarrow> or_default None deserialize_option_string_or_number (f ''HostPort'');
     Some \<lparr>pb_host_ip = ip, pb_host_port = port\<rparr> }"

definition en_port_binding :: "podman_port_binding \<Rightarrow> json" where
  "en_port_binding b = JObject (zip port_binding_members
     [en_option JString (pb_host_ip b), en_option JString (pb_host_port b)])"

definition inspect_network_members :: "string list" where
  "inspect_network_members = [''Networks'', ''Ports'']"

definition de_inspect_network :: "json \<Rightarrow> inspect_network option" where
  "de_inspect_network j = do {
     f \<leftarrow> struct_fields (map (\<lambda>n. [n]) inspect_network_members) j;
     nets \<leftarrow> or_default [] (deserialize_map_or_null_default de_network_endpoint) (f ''Networks'');
     ports \<leftarrow> or_default [] (deserialize_map_or_null_default (de_option (de_vec de_port_binding))) (f ''Ports'');
     Some \<lparr>ns_ports = ports, ns_networks = nets\<rparr> }"

definition en_inspect_network :: "inspect_network \<Rightarrow> json" where
  "en_inspect_network n = JObject (zip inspect_network_members
     [en_map en_network_endpoint (ns_networks n), en_map (en_option (en_vec en_port_binding)) (ns_ports n)])"

definition inspect_entry_members :: "string list" where
  "inspect_entry_members = [''Id'', ''Created'', ''Path'', ''Args'', ''State'', ''ImageName'', ''Config'',
     ''HostConfig'', ''Mounts'', ''NetworkSettings'']"

definition de_inspect_entry :: "json \<Rightarrow> inspect_entry option" where
  "de_inspect_entry j = do {
     f \<leftarrow> struct_fields (map (\<lambda>n. [n]) inspect_entry_members) j;
     i \<leftarrow> required de_string (f ''Id'');
     created \<leftarrow> required de_string (f ''Created'');
     p \<leftarrow> required de_string (f ''Path'');
     args \<leftarrow> or_default [] (deserialize_vec_or_null_default de_string) (f ''Args'');
     st \<leftarrow> required de_inspect_state (f ''State'');
     img \<leftarrow> required de_string (f ''ImageName'');
     cfg \<leftarrow> required de_inspect_config (f ''Config'');
     hcfg \<leftarrow> required de_inspect_host_config (f ''HostConfig'');
     mounts \<leftarrow> or_default [] (deserialize_vec_or_null_default de_inspect_mount) (f ''Mounts'');
     net \<leftarrow> required de_inspect_network (f ''NetworkSettings'');
     Some \<lparr>ie_id = i, ie_created = created, ie_path = p, ie_args = args, ie_state = st, ie_image_name = img,
       ie_config = cfg, ie_host_config = hcfg, ie_mounts = mounts, ie_network_settings = net\<rparr> }"

definition en_inspect_entry :: "inspect_entry \<Rightarrow> json" where
  "en_inspect_entry e = JObject (zip inspect_entry_members
     [JString (ie_id e), JString (ie_created e), JString (ie_path e), en_vec JString (ie_args e),
      en_inspect_state (ie_state e), JString (ie_image_name e), en_inspect_config (ie_config e),
      en_inspect_host_config (ie_host_config e), en_vec en_inspect_mount (ie_mounts e),
      en_inspect_network (ie_network_settings e)])"

definition inspect_view :: "inspect_entry \<Rightarrow> podman_container_inspect" where
  "inspect_view e = \<lparr>insp_id = ie_id e, insp_image_name = ie_image_name e,
     insp_running = ist_running (ie_state e), insp_status = ist_status (ie_state e),
     insp_exit_code = sint (ist_exit_code (ie_state e)), insp_labels = ic_labels (ie_config e),
     insp_mounts = map podman_container_mount.truncate (ie_mounts e),
     insp_network = network_settings.truncate (ie_network_settings e)\<rparr>"

section \<open>Images and volumes\<close>

text \<open>An image's members are read under either spelling.\<close>

definition de_podman_image :: "json \<Rightarrow> podman_image option" where
  "de_podman_image j = do {
     f \<leftarrow> struct_fields [[''Repository'', ''repository''], [''Tag'', ''tag''], [''Names'', ''names''],
       [''Labels'', ''labels'']] j;
     repo \<leftarrow> or_default [] de_string (f ''Repository'');
     tag \<leftarrow> or_default [] de_string (f ''Tag'');
     names \<leftarrow> or_default None deserialize_option_vec_or_string (f ''Names'');
     labels \<leftarrow> or_default [] (deserialize_map_or_null_default de_string) (f ''Labels'');
     Some \<lparr>img_repository = repo, img_tag = tag, img_names = names, img_labels = labels\<rparr> }"

definition en_podman_image :: "podman_image \<Rightarrow> json" where
  "en_podman_image i = JObject [(''Repository'', JString (img_repository i)), (''Tag'', JString (img_tag i)),
     (''Names'', en_option (en_vec JString) (img_names i)), (''Labels'', en_map JString (img_labels i))]"

record volume_entry = podman_volume +
  ve_driver :: "string option"
  ve_mountpoint :: "string option"
  ve_created_at :: "string option"
  ve_labels :: labels
  ve_scope :: "string option"
  ve_options :: "(string, string) btree"

definition volume_members :: "string list" where
  "volume_members = [''Name'', ''Driver'', ''Mountpoint'', ''CreatedAt'', ''Labels'', ''Scope'', ''Options'']"

definition de_volume :: "json \<Rightarrow> volume_entry option" where
  "de_volume j = do {
     f \<leftarrow> struct_fields (map (\<lambda>n. [n]) volume_members) j;
     name \<leftarrow> required de_string (f ''Name'');
     driver \<leftarrow> or_default None (de_option de_string) (f ''Driver'');
     mp \<leftarrow> or_default None (de_option de_string) (f ''Mountpoint'');
     created \<leftarrow> or_default None (de_option de_string) (f ''CreatedAt'');
     labels \<leftarrow> or_default [] (deserialize_map_or_null_default de_string) (f ''Labels'');
     scp \<leftarrow> or_default None (de_option de_string) (f ''Scope'');
     opts \<leftarrow> or_default [] (deserialize_map_or_null_default de_string) (f ''Options'');
     Some \<lparr>vol_name = name, ve_driver = driver, ve_mountpoint = mp, ve_created_at = created,
       ve_labels = labels, ve_scope = scp, ve_options = opts\<rparr> }"

definition en_volume :: "volume_entry \<Rightarrow> json" where
  "en_volume v = JObject (zip volume_members
     [JString (vol_name v), en_option JString (ve_driver v), en_option JString (ve_mountpoint v),
      en_option JString (ve_created_at v), en_map JString (ve_labels v), en_option JString (ve_scope v),
      en_map JString (ve_options v)])"

end
