(* ===== verification/SampleHost.thy ===== *)
theory SampleHost
  imports StartRun Samples HttpLaws
begin

text \<open>
  A concrete host with a clock that ticks when the program sleeps, at which the conditional
  properties of the commands are instantiated. Every Podman command succeeds, nothing exists once it
  has been asked for, and a server answers on every address.
\<close>

definition sample_build :: build where
  "sample_build = \<lparr>sha256 = (\<lambda>_. 0), image_files = []\<rparr>"

text \<open>The directory \<open>/w\<close> is the root of a git repository; every path is canonical.\<close>

definition sample_fs :: target_host where
  "sample_fs = \<lparr>current_dir = ''/w'', canonicalize = (\<lambda>p. Ok p), git_toplevel = (\<lambda>_. Ok ''/w''),
     path_exists = (\<lambda>p. p = ''/w'')\<rparr>"

definition sample_workspace :: workspace_identity where
  "sample_workspace = (case resolve_workspace_identity (\<lambda>_. 0) (host_fs.truncate sample_fs) ''/w'' of
     Inr w \<Rightarrow> w | Inl _ \<Rightarrow> undefined)"

definition ok_output :: process_status_output where
  "ok_output = \<lparr>po_stdout = [], po_stderr = [], po_status = Exited 0\<rparr>"

definition ok_reply :: connection where
  "ok_reply = Connected True [ReadBytes sample_response]"

definition sample_host :: "podman_ps_container list \<Rightarrow> podman_container_inspect \<Rightarrow> nat host" where
  "sample_host cs i = \<lparr>
     run_process = (\<lambda>argv t. (Inr ok_output, t)),
     run_inherited = (\<lambda>argv t. (Inr (Exited 1), t)),
     run_client = (\<lambda>i tok t. (Ok (Exited 0), t)),
     install_sigint = (\<lambda>t. (Ok (), t)),
     interrupted = (\<lambda>t. (False, t)),
     clock_now = (\<lambda>t. (t, t)),
     clock_sleep = (\<lambda>d t. ((), t + d)),
     connect = (\<lambda>e p t. (Some [ok_reply], t)),
     random_token = (\<lambda>t. (Ok [], t)),
     write_token_file = (\<lambda>d v t. (Ok (), t)),
     read_token_file = (\<lambda>d t. (Ok None, t)),
     token_file_path = (\<lambda>d. d),
     remove_token_file = (\<lambda>d t. (Ok (), t)),
     preflight = (\<lambda>k m t. (Ok \<lparr>pf_host_nix_mounts = [], pf_runtime_mounts = [], pf_runtime_environment = []\<rparr>, t)),
     resolve_dev_env = (\<lambda>a b t. (Ok NoDevEnv, t)),
     find_program = (\<lambda>p t. (True, t)),
     ensure_image = (\<lambda>k p t. (Ok None, t)),
     host_passthrough = (\<lambda>g p t. (\<lparr>pt_mounts = [], pt_env = []\<rparr>, t)),
     acquire_lock = (\<lambda>d t. (Ok (), t)),
     release_lock = (\<lambda>d t. ((), t)),
     filesystem = (\<lambda>t. (sample_fs, t)),
     root_probe = (\<lambda>t. (sample_probe, t)),
     load_config = (\<lambda>t. (empty_config, t)),
     debug_quote = (\<lambda>s. s), ps_of_json = (\<lambda>_. Inr cs), inspect_of_json = (\<lambda>_. Inr [i]),
     healthy_flag = (\<lambda>_. Some True), args_of_json = (\<lambda>t. Inr [t]), args_to_json = concat,
     primary_gid = 100, host_build = sample_build\<rparr>"

text \<open>A host on which nothing works.\<close>

definition idle_host :: "build \<Rightarrow> 'w host" where
  "idle_host b = \<lparr>
     run_process = (\<lambda>argv m. (Inl ProgramNotFound, m)),
     run_inherited = (\<lambda>argv m. (Inl ProgramNotFound, m)),
     run_client = (\<lambda>i tok m. (Err (Io ''unused''), m)),
     install_sigint = (\<lambda>m. (Err (Io ''unused''), m)),
     interrupted = (\<lambda>m. (False, m)),
     clock_now = (\<lambda>m. (0, m)),
     clock_sleep = (\<lambda>d m. ((), m)),
     connect = (\<lambda>e p m. (None, m)),
     random_token = (\<lambda>m. (Err (Io ''unused''), m)),
     write_token_file = (\<lambda>d v m. (Err (Io ''unused''), m)),
     read_token_file = (\<lambda>d m. (Err (Io ''unused''), m)),
     token_file_path = (\<lambda>d. d),
     remove_token_file = (\<lambda>d m. (Err (Io ''unused''), m)),
     preflight = (\<lambda>k r m. (Err (Io ''unused''), m)),
     resolve_dev_env = (\<lambda>p q m. (Err (Io ''unused''), m)),
     find_program = (\<lambda>p m. (True, m)),
     ensure_image = (\<lambda>k p m. (Err (Io ''unused''), m)),
     host_passthrough = (\<lambda>g p m. (\<lparr>pt_mounts = [], pt_env = []\<rparr>, m)),
     acquire_lock = (\<lambda>d m. (Err (Io ''unused''), m)),
     release_lock = (\<lambda>d m. ((), m)),
     filesystem = (\<lambda>m. (sample_fs, m)),
     root_probe = (\<lambda>m. (sample_probe, m)),
     load_config = (\<lambda>m. (empty_config, m)),
     debug_quote = (\<lambda>x. x), ps_of_json = (\<lambda>_. Inr []), inspect_of_json = (\<lambda>_. Inr []),
     healthy_flag = (\<lambda>_. None), args_of_json = (\<lambda>_. Inr []), args_to_json = (\<lambda>_. []),
     primary_gid = 100, host_build = b\<rparr>"

text \<open>A running server container of \<open>/w\<close> with its port published.\<close>

definition sample_server :: "runtime_kind \<Rightarrow> podman_container_inspect" where
  "sample_server k = \<lparr>insp_id = ''c1'', insp_image_name = ''i'', insp_running = True,
     insp_status = ''running'', insp_exit_code = 0,
     insp_labels = managed_session_labels (\<lambda>_. ''[]'')
       (label_input_from_workspace sample_workspace (default_image sample_build k) k []),
     insp_mounts = [\<lparr>mount_kind = MountVolume, mount_name = Some ''v'', mount_source = ''v'',
       mount_destination = NIX_CACHE_DESTINATION\<rparr>],
     insp_network = \<lparr>ns_ports = [(tcp_port_key (runtime_attach_spec k),
       Some [\<lparr>pb_host_ip = Some ''127.0.0.1'', pb_host_port = Some (show_u16 4096)\<rparr>])]\<rparr>\<rparr>"

definition sample_args :: launch_args where
  "sample_args = \<lparr>la_dev_env = DevNone, la_limits = no_limits, la_directory = ''/w'', la_agent_args = []\<rparr>"

lemma sample_descendant: "path_is_or_descendant ''/w'' ''/w''" "absolute_utf8_path ''/w'' ''/w'' = ''/w''"
  by code_simp+

lemma sample_resolve_fields:
  "\<exists>w. resolve_workspace_identity (\<lambda>_. 0) (host_fs.truncate sample_fs) ''/w'' = Ok w
     \<and> canonical_target w = ''/w'' \<and> canonical_git_root w = ''/w'' \<and> requested_target w = ''/w''"
  by (simp add: resolve_workspace_identity_def sample_fs_def host_fs.defs sample_descendant Let_def)

lemma sample_resolve_all:
  "resolve_workspace_identity (\<lambda>_. 0) (host_fs.truncate sample_fs) ''/w'' = Ok sample_workspace
     \<and> canonical_target sample_workspace = ''/w'' \<and> canonical_git_root sample_workspace = ''/w''
     \<and> requested_target sample_workspace = ''/w''"
proof -
  obtain w where w: "resolve_workspace_identity (\<lambda>_. 0) (host_fs.truncate sample_fs) ''/w'' = Ok w"
      "canonical_target w = ''/w''" "canonical_git_root w = ''/w''" "requested_target w = ''/w''"
    using sample_resolve_fields by blast
  have "sample_workspace = w" unfolding sample_workspace_def w(1) by simp
  then show ?thesis using w by blast
qed

lemmas sample_resolve = sample_resolve_all [THEN conjunct1]
lemmas sample_workspace_paths [simp] = sample_resolve_all [THEN conjunct2, THEN conjunct1]
  sample_resolve_all [THEN conjunct2, THEN conjunct2, THEN conjunct1]
  sample_resolve_all [THEN conjunct2, THEN conjunct2, THEN conjunct2]

definition sample_endpoint :: "runtime_kind \<Rightarrow> attach_endpoint" where
  "sample_endpoint k = \<lparr>scheme = as_scheme (runtime_attach_spec k), host_ip = ''127.0.0.1'', host_port = 4096\<rparr>"

lemma sample_ip_not_blank: "\<not> blank ''127.0.0.1''"
  by (intro not_blank_graphic_hd) (simp_all add: is_ascii_graphic_def byte_of_def)

lemma sample_published:
  "published_attach_endpoint (insp_network (sample_server k)) (runtime_attach_spec k) = Ok (Some (sample_endpoint k))"
  by (simp add: sample_server_def sample_endpoint_def published_attach_endpoint_def published_host_port_def
      usable_binding_def bt_get_def binding_host_ip_def sample_ip_not_blank)

lemma sample_not_orphaned: "\<not> git_root_is_orphaned sample_probe ''/w''"
  by code_simp

lemma sample_server_running:
  "status (build_session_record (\<lambda>_. 0) sample_probe c (sample_server k) kind) = Running"
proof (rule managed_labels_running(1) [OF sample_resolve])
  show "published_attach_endpoint (insp_network (sample_server k)) (runtime_attach_spec k)
      = Ok (Some (sample_endpoint k))" by (rule sample_published)
  show "\<forall>n \<in> set identity_label_names. label (insp_labels (sample_server k)) n =
      label (managed_session_labels (\<lambda>_. ''[]'') (label_input_from_workspace sample_workspace
        (default_image sample_build k) k [])) n"
    by (simp add: sample_server_def)
qed (simp_all add: sample_not_orphaned, simp_all add: sample_server_def has_volume_mount_destination_def)

definition sample_session :: "runtime_kind \<Rightarrow> session_record" where
  "sample_session k = build_session_record (\<lambda>_. 0) sample_probe (sample_container []) (sample_server k) Managed"

lemma sample_session_running [simp]: "status (sample_session k) = Running"
  by (simp only: sample_session_def sample_server_running)

lemma sample_server_root [simp]: "label (insp_labels (sample_server k)) LABEL_GIT_ROOT = Some ''/w''"
  by (simp add: sample_server_def label_managed_session_labels label_runtime_server_container_labels
      get_runtime_server_container_labels label_input_from_workspace_def is_absolute_not_blank)

lemma sample_session_labels [simp]:
  "sr_git_root (sample_session k) = Some ''/w''" "stable_id (sample_session k) = Some (replicate 12 CHR ''0'')"
proof -
  show "sr_git_root (sample_session k) = Some ''/w''" by (simp add: sample_session_def)
  have "hash12 sample_workspace = replicate 12 CHR ''0''"
    using resolve_workspace_identity_Ok(3) [OF sample_resolve] by simp
  then show "stable_id (sample_session k) = Some (replicate 12 CHR ''0'')"
    by (simp add: sample_session_def stable_id_def md_git_root_hash_def sample_server_def
        label_managed_session_labels label_runtime_server_container_labels
        get_runtime_server_container_labels label_input_from_workspace_def)
qed

section \<open>Running on the sample host\<close>

abbreviation sample_log :: "podman_ps_container list \<Rightarrow> runtime_kind \<Rightarrow> (nat \<times> event list) host" where
  "sample_log cs k \<equiv> logged (sample_host cs (sample_server k))"

named_theorems sample_simps \<open>operations of the logged sample host\<close>

lemma sample_ops [sample_simps]:
  "host_build (sample_log cs k) = sample_build" "sha256 sample_build = (\<lambda>_. 0)"
  "filesystem (sample_log cs k) (t, l) = (sample_fs, (t, l))"
  "interrupted (sample_log cs k) (t, l) = (False, (t, l))"
  "install_sigint (sample_log cs k) (t, l) = (Ok (), (t, l))"
  "clock_now (sample_log cs k) (t, l) = (t, (t, l))"
  "load_config (sample_log cs k) (t, l) = (empty_config, (t, l))"
  "acquire_lock (sample_log cs k) d (t, l) = (Ok (), (t, l @ [Locked d]))"
  "release_lock (sample_log cs k) d (t, l) = ((), (t, l @ [Unlocked d]))"
  "run_client (sample_log cs k) i tok (t, l) = (Ok (Exited 0), (t, l @ [ClientRun i]))"
  "preflight (sample_log cs k) r m (t, l) =
     (Ok \<lparr>pf_host_nix_mounts = [], pf_runtime_mounts = [], pf_runtime_environment = []\<rparr>, (t, l))"
  "find_program (sample_log cs k) p (t, l) = (True, (t, l))"
  "ensure_image (sample_log cs k) r root (t, l) = (Ok None, (t, l))"
  "host_passthrough (sample_log cs k) g root (t, l) = (\<lparr>pt_mounts = [], pt_env = []\<rparr>, (t, l))"
  "root_probe (sample_log cs k) (t, l) = (sample_probe, (t, l))"
  "random_token (sample_log cs k) (t, l) = (Ok [], (t, l))"
  "write_token_file (sample_log cs k) d v (t, l) = (Ok (), (t, l @ [TokenWritten d]))"
  "remove_token_file (sample_log cs k) d (t, l) = (Ok (), (t, l @ [TokenRemoved d]))"
  by (simp_all add: logged_def record_op_def sample_host_def sample_build_def)

lemma sample_run_quiet [sample_simps]:
  "run_state (run_quiet (sample_log cs k) args) (t, l) =
     (Ok \<lparr>po_stdout = [], po_stderr = []\<rparr>, (t, l @ [Ran (podman_argv args) (Some (Exited 0))]))"
  by (simp add: run_quiet_def capture_def logged_def record_op_def sample_host_def ok_output_def
      outcome_status_def)

lemma sample_exists_status [sample_simps]:
  "run_state (exists_status (sample_log cs k) args) (t, l) =
     (Ok False, (t, l @ [Ran (podman_argv args) (Some (Exited 1))]))"
  by (simp add: exists_status_def command_status_def run_attempt logged_def record_op_def sample_host_def)

lemma sample_inspect_one [sample_simps]:
  "run_state (inspect_one (sample_log cs k) name) (t, l) =
     (Ok (sample_server k),
      (t, l @ [Ran (podman_argv [''container'', ''inspect'', name]) (Some (Exited 0))]))"
proof -
  have "inspect_of_json (sample_log cs k) = (\<lambda>_. Inr [sample_server k])"
    by (simp add: logged_def sample_host_def)
  then show ?thesis by (simp add: inspect_one_def run_json_def run_attempt sample_run_quiet)
qed

lemma sample_podman_ps_all [sample_simps]:
  "run_state (podman_ps_all (sample_log cs k)) (t, l) =
     (Ok cs, (t, l @ [Ran (podman_argv [''ps'', ''--all'', ''--format'', ''json'']) (Some (Exited 0))]))"
proof -
  have "ps_of_json (sample_log cs k) = (\<lambda>_. Inr cs)" by (simp add: logged_def sample_host_def)
  then show ?thesis by (simp add: podman_ps_all_def run_json_def run_attempt sample_run_quiet)
qed

lemma sample_read_response: "read_response [ReadBytes sample_response] = Ok \<lparr>status_code = 200, body = ''ok''\<rparr>"
proof -
  have "data_only [ReadBytes sample_response]" by (simp add: data_only_def sample_response_def)
  moreover have "length (bytes_of [ReadBytes sample_response]) \<le> MAX_HTTP_RESPONSE_BYTES"
    by (simp add: MAX_HTTP_RESPONSE_BYTES_def sample_response_def crlf_def)
  ultimately show ?thesis using read_response_whole whole_sample_response by fastforce
qed

lemma sample_host_probe [sample_simps]:
  "run_state (host_probe (sample_log cs k) runtime e) (t, l) = (Healthy, (t, l))"
  by (cases "response_policy (profile runtime)")
    (simp_all add: host_probe_def run_map_io logged_def record_op_def sample_host_def ok_reply_def
      probe_check_def endpoint_connection_health_def get_response_def sample_read_response
      health_response_status_def Let_def)

lemma sample_client [sample_simps]:
  "run_state (stop_ignore (sample_log cs k) name) (t, l) =
     (Ok (), (t, l @ [Ran (podman_argv [''stop'', ''--ignore'', name]) (Some (Exited 0))]))"
  "run_state (container_exists (sample_log cs k) name) (t, l) =
     (Ok False, (t, l @ [Ran (podman_argv [''container'', ''exists'', name]) (Some (Exited 1))]))"
  "run_state (volume_exists (sample_log cs k) name) (t, l) =
     (Ok False, (t, l @ [Ran (podman_argv [''volume'', ''exists'', name]) (Some (Exited 1))]))"
  "run_state (run_detached (sample_log cs k) name s) (t, l) =
     (Ok (), (t, l @ [Ran (podman_argv (run_detached_args name s (primary_gid (sample_log cs k))))
        (Some (Exited 0))]))"
  "run_state (host_workspace (sample_log cs k) ''/w'') (t, l) = (Ok sample_workspace, (t, l))"
  by (simp_all add: stop_ignore_def container_exists_def volume_exists_def run_detached_def run_map_io
      host_workspace_def sample_simps sample_resolve)

lemma sample_endpoints [simp]:
  "insp_running (sample_server k)"
  "discover_attach_endpoint_from_runtime_inspect k (sample_server k) = Ok (sample_endpoint k)"
  by (simp_all add: discover_attach_endpoint_from_runtime_inspect_def sample_published)
    (simp add: sample_server_def)

lemma sample_launch_transient [sample_simps]:
  "\<exists>l'. run_state (launch_detached_server 1 (sample_log cs k) w k s (transient_lifecycle (sample_log cs k) w)) (t, l)
     = (Some (Ok (sample_endpoint k)), (t, l'))"
  by (simp add: launch_detached_server_def run_attempt_loop run_once transient_lifecycle_def
      transient_check_interrupted_def check_flag_def wait_for_server_endpoint_def
      SERVER_READINESS_TIMEOUT_def inspect_server_endpoint_def One_nat_def sample_simps)

section \<open>Instances\<close>

lemma sample_log_clock: "clock_advances (sample_log [] k) fst"
proof (unfold clock_advances_def, intro conjI allI impI)
  fix d s u s'
  assume "clock_sleep (sample_log [] k) d s = (u, s')"
  then show "fst s + d \<le> fst s'" by (cases s) (auto simp: logged_def record_op_def sample_host_def)
qed (auto simp: logged_def record_op_def sample_host_def split: prod.splits)

lemma sample_comes_up: "comes_up (sample_log [] k) (\<lambda>_. True) fst 0 0 sample_workspace k TransientContext
  (sample_endpoint k)"
proof -
  have "run_state (poll_server (sample_log [] k) sample_workspace k TransientContext) (t, l) =
      (Ok (EndpointReady (sample_endpoint k)),
       (t, l @ [Ran (podman_argv [''container'', ''inspect'', container_name sample_workspace]) (Some (Exited 0))]))" for t l
    by (simp add: poll_server_def inspect_server_endpoint_def sample_simps)
  moreover have "clock_sleep (sample_log [] k) d (t, l) = ((), (t + d, l @ [Slept d]))" for d t l
    by (simp add: logged_def record_op_def sample_host_def)
  ultimately show ?thesis
    unfolding comes_up_def by (auto simp: sample_simps)
qed

lemma readiness_returns_witness:
  "\<exists>e s'. run_state (wait_for_server_endpoint 451 (sample_log [] Codex) sample_workspace Codex TransientContext) (0, [])
     = (Some (Ok (WaitReady e)), s')"
  using readiness_returns [OF sample_log_clock, of 451 Codex sample_workspace Codex TransientContext "(0, [])" "\<lambda>_. True" 0 0
      "sample_endpoint Codex"]
    sample_comes_up [of Codex]
  by (auto simp: SERVER_READINESS_TIMEOUT_def SERVER_READINESS_POLL_INTERVAL_def)

lemma running_sessions_connect_witness:
  "\<exists>cs root. prepare_connect_session sample_workspace (sample_session Codex) = Ok cs
    \<and> sr_git_root (sample_session Codex) = Some root"
  using running_sessions_connect [OF sample_server_running, of sample_workspace "sample_container []" Codex Managed]
  unfolding sample_session_def by blast

lemma health_probes_running_only_witness:
  "is_running (sample_session Codex) \<and> sample_session Codex \<in> set [sample_session Codex]"
  by (rule health_probes_running_only [of RunningSessions "[sample_session Codex]" "[sample_session Codex]"])
    (simp_all add: is_running_def)

lemma sample_stop_plan:
  "run_state (resolve_stop_plan (\<lambda>_. 0) (pure sample_fs) (StableIdInput ''0'') (pure (Ok [sample_session Codex]))) ()
     = (Ok (StopStableId \<lparr>ss_id = replicate 12 CHR ''0'', ss_sessions = [sample_session Codex],
          ss_has_duplicates = False\<rparr>), ())"
proof -
  let ?s = "sample_session Codex"
  have "starts_with (to_ascii_lowercase (replicate 12 CHR ''0'')) (to_ascii_lowercase ''0'')"
    by code_simp
  then have "select_agentbox_stable_id_prefix [?s] ''0'' =
      Ok \<lparr>sel_id = replicate 12 CHR ''0'', sel_sessions = [?s]\<rparr>"
    unfolding select_agentbox_stable_id_prefix_def select_Ok_iff by (simp add: id_matches_def)
  then show ?thesis
    by (simp add: resolve_stop_plan_def select_agentbox_stable_id_target_def into_all_rooted_sessions_def
        has_duplicate_sessions_def)
qed

lemma stop_by_stable_id_safe_witness:
  "length (ss_sessions \<lparr>ss_id = replicate 12 CHR ''0'', ss_sessions = [sample_session Codex],
      ss_has_duplicates = False\<rparr>) = 1"
proof -
  have "require_force \<lparr>ss_id = replicate 12 CHR ''0'', ss_sessions = [sample_session Codex],
      ss_has_duplicates = False\<rparr> False (StableIdInput ''0'') = Ok ()"
    by (simp add: require_force_def require_force_for_duplicate_matches_def)
  from stop_by_stable_id_safe [OF sample_stop_plan this] show ?thesis by auto
qed

end
