(* ===== verification/PodmanJsonLaws.thy ===== *)
theory PodmanJsonLaws
  imports PodmanJson SampleHost
begin

text \<open>
  What is written is what is read, for every struct of Podman's data model, and what reading tolerates.
\<close>

named_theorems json_codec

lemmas [json_codec] = required_def or_default_def de_string_JString de_u16_uint de_u64_uint de_i64_sint

lemma en_not_null [json_codec]: "en_vec en xs \<noteq> JNull" "en_map en m \<noteq> JNull"
  by (simp_all add: en_vec_def en_map_def)

lemma de_vec_roundtrip [json_codec]:
  "(\<And>x. x \<in> set xs \<Longrightarrow> de (en x) = Some x) \<Longrightarrow> de_vec de (en_vec en xs) = Some xs"
  by (rule de_vec_encoded)

lemma de_option_roundtrip [json_codec]:
  "(\<And>x. x \<in> set_option v \<Longrightarrow> de (en x) = Some x) \<Longrightarrow> (\<And>x. en x \<noteq> JNull) \<Longrightarrow> de_option de (en_option en v) = Some v"
  by (rule de_option_encoded) simp

lemma de_string_or_vec_roundtrip [json_codec]: "de_string_or_vec (en_vec JString xs) = Some xs"
  using de_vec_encoded [of xs de_string JString] by (simp add: en_vec_def)

lemma deserialize_roundtrips [json_codec]:
  "deserialize_option_vec_or_string (en_option (en_vec JString) v) = Some v"
  "(\<And>x. x \<in> set xs \<Longrightarrow> de (en x) = Some x) \<Longrightarrow> deserialize_vec_or_null_default de (en_vec en xs) = Some xs"
  "deserialize_option_string_or_number (en_option JString p) = Some p"
  by (simp_all add: deserialize_option_vec_or_string_def deserialize_vec_or_null_default_def
      deserialize_option_string_or_number_def json_codec) (simp_all add: de_option_def json_codec)

lemma deserialize_map_roundtrip [json_codec]:
  "bt_wf m \<Longrightarrow> (\<And>k v. (k, v) \<in> set m \<Longrightarrow> de (en v) = Some v)
    \<Longrightarrow> deserialize_map_or_null_default de (en_map en m) = Some m"
  by (simp add: deserialize_map_or_null_default_def de_option_def de_map_encoded en_not_null)

section \<open>One struct after the other\<close>

lemma ps_port_roundtrip [json_codec]: "de_ps_port (en_ps_port p) = Some p" "en_ps_port p \<noteq> JNull"
proof -
  have d: "distinct ps_port_members" by (simp add: ps_port_members_def)
  show "de_ps_port (en_ps_port p) = Some p"
    unfolding de_ps_port_def en_ps_port_def
    by (subst struct_fields_zip [OF d]) (simp_all add: ps_port_members_def json_codec)
qed (simp add: en_ps_port_def)

lemma ps_namespaces_roundtrip [json_codec]:
  "de_ps_namespaces (en_ps_namespaces n) = Some n" "en_ps_namespaces n \<noteq> JNull"
proof -
  have d: "distinct ps_namespaces_members" by (simp add: ps_namespaces_members_def)
  show "de_ps_namespaces (en_ps_namespaces n) = Some n"
    unfolding de_ps_namespaces_def en_ps_namespaces_def
    by (subst struct_fields_zip [OF d]) (simp_all add: ps_namespaces_members_def json_codec)
qed (simp add: en_ps_namespaces_def)

lemma ps_entry_distinct: "distinct ps_entry_members"
  by (simp add: ps_entry_members_def)

lemma ps_entry_roundtrip: "bt_wf (pe_labels e) \<Longrightarrow> de_ps_entry (en_ps_entry e) = Some e"
  unfolding de_ps_entry_def en_ps_entry_def
  by (subst struct_fields_zip [OF ps_entry_distinct]) (simp_all add: ps_entry_members_def json_codec)

lemma inspect_health_roundtrip [json_codec]: "de_inspect_health (en_inspect_health x) = Some x" "en_inspect_health x \<noteq> JNull"
proof -
  have d: "distinct inspect_health_members" by (simp add: inspect_health_members_def)
  show "de_inspect_health (en_inspect_health x) = Some x"
    unfolding de_inspect_health_def en_inspect_health_def
    by (subst struct_fields_zip [OF d]) (simp_all add: inspect_health_members_def json_codec)
qed (simp add: en_inspect_health_def)

lemma inspect_state_roundtrip [json_codec]: "de_inspect_state (en_inspect_state x) = Some x" "en_inspect_state x \<noteq> JNull"
proof -
  have d: "distinct inspect_state_members" by (simp add: inspect_state_members_def)
  show "de_inspect_state (en_inspect_state x) = Some x"
    unfolding de_inspect_state_def en_inspect_state_def
    by (subst struct_fields_zip [OF d]) (simp_all add: inspect_state_members_def json_codec)
qed (simp add: en_inspect_state_def)

lemma inspect_host_config_roundtrip [json_codec]: "de_inspect_host_config (en_inspect_host_config x) = Some x" "en_inspect_host_config x \<noteq> JNull"
proof -
  have d: "distinct inspect_host_config_members" by (simp add: inspect_host_config_members_def)
  show "de_inspect_host_config (en_inspect_host_config x) = Some x"
    unfolding de_inspect_host_config_def en_inspect_host_config_def
    by (subst struct_fields_zip [OF d]) (simp_all add: inspect_host_config_members_def json_codec)
qed (simp add: en_inspect_host_config_def)

lemma network_endpoint_roundtrip [json_codec]: "de_network_endpoint (en_network_endpoint x) = Some x" "en_network_endpoint x \<noteq> JNull"
proof -
  have d: "distinct network_endpoint_members" by (simp add: network_endpoint_members_def)
  show "de_network_endpoint (en_network_endpoint x) = Some x"
    unfolding de_network_endpoint_def en_network_endpoint_def
    by (subst struct_fields_zip [OF d]) (simp_all add: network_endpoint_members_def json_codec)
qed (simp add: en_network_endpoint_def)

lemma port_binding_roundtrip [json_codec]: "de_port_binding (en_port_binding x) = Some x" "en_port_binding x \<noteq> JNull"
proof -
  have d: "distinct port_binding_members" by (simp add: port_binding_members_def)
  show "de_port_binding (en_port_binding x) = Some x"
    unfolding de_port_binding_def en_port_binding_def
    by (subst struct_fields_zip [OF d]) (simp_all add: port_binding_members_def json_codec)
qed (simp add: en_port_binding_def)

text \<open>Maps are written in the order of their keys; a mount kind is written by its name, so that one of the two
  known kinds must not be spelled as another.\<close>

definition wf_mount :: "inspect_mount \<Rightarrow> bool" where
  "wf_mount m \<longleftrightarrow> mount_kind_of (mount_kind_str (mount_kind m)) = mount_kind m"

definition wf_network :: "inspect_network \<Rightarrow> bool" where
  "wf_network n \<longleftrightarrow> bt_wf (ns_networks n) \<and> bt_wf (ns_ports n)"

definition wf_inspect :: "inspect_entry \<Rightarrow> bool" where
  "wf_inspect e \<longleftrightarrow> bt_wf (ic_labels (ie_config e)) \<and> list_all wf_mount (ie_mounts e)
     \<and> wf_network (ie_network_settings e)"

lemma inspect_config_roundtrip [json_codec]: "bt_wf (ic_labels c) \<Longrightarrow> de_inspect_config (en_inspect_config c) = Some c"
proof -
  have d: "distinct inspect_config_members" by (simp add: inspect_config_members_def)
  show "bt_wf (ic_labels c) \<Longrightarrow> de_inspect_config (en_inspect_config c) = Some c"
    unfolding de_inspect_config_def en_inspect_config_def
    by (subst struct_fields_zip [OF d]) (simp_all add: inspect_config_members_def json_codec)
qed

lemma inspect_mount_roundtrip [json_codec]: "wf_mount m \<Longrightarrow> de_inspect_mount (en_inspect_mount m) = Some m"
proof -
  have d: "distinct inspect_mount_members" by (simp add: inspect_mount_members_def)
  show "wf_mount m \<Longrightarrow> de_inspect_mount (en_inspect_mount m) = Some m"
    unfolding de_inspect_mount_def en_inspect_mount_def
    by (subst struct_fields_zip [OF d])
      (simp_all add: inspect_mount_members_def json_codec de_mount_kind_def wf_mount_def)
qed

lemma port_bindings_roundtrip [json_codec]:
  "de_option (de_vec de_port_binding) (en_option (en_vec en_port_binding) v) = Some v"
  by (simp add: json_codec)

lemma inspect_network_roundtrip [json_codec]: "wf_network n \<Longrightarrow> de_inspect_network (en_inspect_network n) = Some n"
proof -
  have d: "distinct inspect_network_members" by (simp add: inspect_network_members_def)
  show "wf_network n \<Longrightarrow> de_inspect_network (en_inspect_network n) = Some n"
    unfolding de_inspect_network_def en_inspect_network_def
    by (subst struct_fields_zip [OF d]) (simp_all add: inspect_network_members_def json_codec wf_network_def)
qed

lemma inspect_entry_roundtrip: "wf_inspect e \<Longrightarrow> de_inspect_entry (en_inspect_entry e) = Some e"
proof -
  have d: "distinct inspect_entry_members" by (simp add: inspect_entry_members_def)
  show "wf_inspect e \<Longrightarrow> de_inspect_entry (en_inspect_entry e) = Some e"
    unfolding de_inspect_entry_def en_inspect_entry_def
    by (subst struct_fields_zip [OF d]) (simp_all add: inspect_entry_members_def json_codec wf_inspect_def list_all_iff)
qed

lemma volume_roundtrip: "bt_wf (ve_labels v) \<Longrightarrow> bt_wf (ve_options v) \<Longrightarrow> de_volume (en_volume v) = Some v"
proof -
  have d: "distinct volume_members" by (simp add: volume_members_def)
  show "bt_wf (ve_labels v) \<Longrightarrow> bt_wf (ve_options v) \<Longrightarrow> de_volume (en_volume v) = Some v"
    unfolding de_volume_def en_volume_def
    by (subst struct_fields_zip [OF d]) (simp_all add: volume_members_def json_codec)
qed

lemma podman_image_roundtrip: "bt_wf (img_labels i) \<Longrightarrow> de_podman_image (en_podman_image i) = Some i"
  by (simp add: de_podman_image_def en_podman_image_def struct_fields_def json_codec)

section \<open>What reading tolerates\<close>

text \<open>A member that is left out is read as null.\<close>

lemma absent_is_null:
  "or_default None (de_option de) v = de_option de (unwrap_or v JNull)"
  "or_default None deserialize_option_vec_or_string v = deserialize_option_vec_or_string (unwrap_or v JNull)"
  "or_default [] (deserialize_map_or_null_default de_v) v = deserialize_map_or_null_default de_v (unwrap_or v JNull)"
  by (cases v; simp add: or_default_def deserialize_option_vec_or_string_def deserialize_map_or_null_default_def
      de_option_def)+

text \<open>An entry of a container listing is read by its known members only: their order, other members, and
  whether a member with a default is null or left out make no difference, and an entry without labels is
  one with no label.\<close>

lemma ps_entry_tolerant:
  assumes "distinct (map fst kvs)" and "distinct (map fst kvs')"
    and "\<forall>n \<in> {''Id'', ''Image'', ''Created'', ''CreatedAt'', ''Status'', ''State''}. map_of kvs n = map_of kvs' n"
    and "\<forall>n \<in> {''Command'', ''Names'', ''Ports'', ''Labels'', ''Mounts'', ''Networks'', ''Namespaces''}.
      unwrap_or (map_of kvs n) JNull = unwrap_or (map_of kvs' n) JNull"
  shows "de_ps_entry (JObject kvs) = de_ps_entry (JObject kvs')
    \<and> (unwrap_or (map_of kvs ''Labels'') JNull = JNull \<longrightarrow>
         (\<forall>e. de_ps_entry (JObject kvs) = Some e \<longrightarrow> ps_labels (ps_view e) = []))"
proof
  show "de_ps_entry (JObject kvs) = de_ps_entry (JObject kvs')"
    unfolding de_ps_entry_def struct_fields_object [OF assms(1)] struct_fields_object [OF assms(2)]
    using assms(3,4) by (simp add: ps_entry_members_def absent_is_null)
  show "unwrap_or (map_of kvs ''Labels'') JNull = JNull \<longrightarrow>
      (\<forall>e. de_ps_entry (JObject kvs) = Some e \<longrightarrow> ps_labels (ps_view e) = [])"
    unfolding de_ps_entry_def struct_fields_object [OF assms(1)]
    by (auto simp: ps_entry_members_def absent_is_null ps_view_def deserialize_map_or_null_default_def de_option_def
        bind_eq_Some_conv)
qed

section \<open>A host that reads JSON\<close>

definition json_host :: "json_text \<Rightarrow> 'w host \<Rightarrow> 'w host" where
  "json_host J h = h
     \<lparr>ps_of_json := \<lambda>t. map_ok (map ps_view) (from_str J ''Vec<PodmanPsContainer>'' (de_vec de_ps_entry) t),
      inspect_of_json := \<lambda>t. map_ok (map inspect_view) (from_str J ''Vec<PodmanContainerInspect>'' (de_vec de_inspect_entry) t),
      healthy_flag := \<lambda>t. ok_of (from_str J ''HealthyFlagResponse'' de_healthy_flag t),
      args_of_json := from_str J ''Vec<String>'' de_server_args,
      args_to_json := \<lambda>args. jt_write J (en_server_args args)\<rparr>"

lemma json_host_process [simp]: "run_process (json_host J h) = run_process h" "debug_quote (json_host J h) = debug_quote h"
  by (simp_all add: json_host_def)

lemma run_json_outcome:
  assumes "run_process h (podman_argv args) s = (Inr o', s')" and "exit_success (po_status o')"
  shows "run_state (run_json h of_json args) s = (map_err (\<lambda>e. msg [''failed to parse '',
      tick (describe_command (debug_quote h) (podman_argv args)), '': '', e]) (of_json (po_stdout o')), s')"
  using assms by (simp add: run_json_def run_quiet_def capture_def run_attempt)

lemma json_host_decodes:
  assumes "\<forall>e \<in> set es. bt_wf (pe_labels e)" and "\<forall>i \<in> set is. wf_inspect i"
  shows "jt_read J t = Some (en_vec en_ps_entry es) \<Longrightarrow> ps_of_json (json_host J h) t = Inr (map ps_view es)"
    "jt_read J t = Some (en_vec en_inspect_entry is) \<Longrightarrow> inspect_of_json (json_host J h) t = Inr (map inspect_view is)"
proof -
  have "de_vec de_ps_entry (en_vec en_ps_entry es) = Some es"
    by (rule de_vec_encoded) (use assms(1) ps_entry_roundtrip in blast)
  moreover have "de_vec de_inspect_entry (en_vec en_inspect_entry is) = Some is"
    by (rule de_vec_encoded) (use assms(2) inspect_entry_roundtrip in blast)
  ultimately show "jt_read J t = Some (en_vec en_ps_entry es) \<Longrightarrow> ps_of_json (json_host J h) t = Inr (map ps_view es)"
      "jt_read J t = Some (en_vec en_inspect_entry is) \<Longrightarrow> inspect_of_json (json_host J h) t = Inr (map inspect_view is)"
    by (simp_all add: json_host_def from_str_def)
qed


text \<open>A listing of one container, read from a text by a reader that knows this text.\<close>

definition sample_ps_entry :: ps_entry where
  "sample_ps_entry = \<lparr>pe_id = ''c1'', pe_image = ''img'', pe_command = None, pe_created = 0, pe_created_at = [],
     pe_names = Some [''n''], pe_ports = None, pe_status = ''Up'', pe_state = ''running'',
     pe_labels = [(''a'', ''b'')], pe_mounts = None, pe_networks = Some [], pe_namespaces = None\<rparr>"

definition sample_json_text :: json_text where
  "sample_json_text = \<lparr>jt_read = (\<lambda>t. if t = ''[c1]'' then Some (en_vec en_ps_entry [sample_ps_entry]) else None),
     jt_write = (\<lambda>_. ''[c1]''), jt_error = (\<lambda>_ _. ''expected value'')\<rparr>"

definition sample_json_host :: "nat host" where
  "sample_json_host = (sample_host [] (sample_server Opencode))
     \<lparr>run_process := \<lambda>_ w. (Inr \<lparr>po_stdout = ''[c1]'', po_stderr = [], po_status = Exited 0\<rparr>, w)\<rparr>"


end
