(* ===== verification/TokenStore.thy ===== *)
theory TokenStore
  imports SampleHost Locks
begin

text \<open>
  The store of attach tokens: \<open>CodexAttachTokenStore\<close> of \<open>src/commands/codex_attach_auth.rs\<close> down to the calls
  on files, what it needs of the file system (the locale \<open>token_disk\<close>), and a disk that provides it.
\<close>

section \<open>Files\<close>

datatype random_failure = RandomOpenFailed string | RandomReadFailed string

datatype remove_result = Removed | RemoveNotFound | RemoveFailed string

record 'w token_files =
  tf_random :: "nat \<Rightarrow> 'w \<Rightarrow> (random_failure + u8 list) \<times> 'w"
  tf_create_dir_all :: "path \<Rightarrow> 'w \<Rightarrow> unit res \<times> 'w"
  tf_open :: "nat \<Rightarrow> path \<Rightarrow> 'w \<Rightarrow> (string + unit) \<times> 'w"
  tf_write_all :: "path \<Rightarrow> string \<Rightarrow> 'w \<Rightarrow> (string + unit) \<times> 'w"
  tf_flush :: "path \<Rightarrow> 'w \<Rightarrow> (string + unit) \<times> 'w"
  tf_set_mode :: "path \<Rightarrow> nat \<Rightarrow> 'w \<Rightarrow> (string + unit) \<times> 'w"
  tf_read :: "path \<Rightarrow> 'w \<Rightarrow> read_result \<times> 'w"
  tf_remove :: "path \<Rightarrow> 'w \<Rightarrow> remove_result \<times> 'w"

section \<open>The store\<close>

definition MANAGED_TOKEN_DIR :: string where
  "MANAGED_TOKEN_DIR = ''codex/ws-tokens''"

definition TOKEN_BYTES :: nat where
  "TOKEN_BYTES = 32"

text \<open>\<open>0o600\<close>: only the owner may read and write.\<close>

definition TOKEN_MODE :: nat where
  "TOKEN_MODE = 384"

definition token_path :: "path \<Rightarrow> string \<Rightarrow> path" where
  "token_path root digest = path_join (path_join root MANAGED_TOKEN_DIR) (digest @ ''.token'')"

definition random_token_bytes :: "'w token_files \<Rightarrow> ('w, u8 list res) io" where
  "random_token_bytes F = map_io (map_err (\<lambda>f. case f of
       RandomOpenFailed e \<Rightarrow> msg [''failed to open /dev/urandom for Codex attach token generation: '', e]
     | RandomReadFailed e \<Rightarrow> msg [''failed to generate Codex attach token: '', e])) (State (tf_random F TOKEN_BYTES))"

definition token_io :: "string \<Rightarrow> path \<Rightarrow> ('w \<Rightarrow> (string + 'a) \<times> 'w) \<Rightarrow> ('w, 'a res) io" where
  "token_io what p f = map_io (map_err (\<lambda>e. msg [''failed to '', what, '' Codex attach token '', tick p, '': '', e])) (State f)"

definition write_token :: "'w token_files \<Rightarrow> path \<Rightarrow> string \<Rightarrow> string \<Rightarrow> ('w, unit res) io" where
  "write_token F root digest v =
     (let p = token_path root digest in
      attempt (State (tf_create_dir_all F (path_parent p))) (\<lambda>_.
      attempt (token_io ''create'' p (tf_open F TOKEN_MODE p)) (\<lambda>_.
      attempt (token_io ''write'' p (tf_write_all F p v)) (\<lambda>_.
      attempt (token_io ''write'' p (tf_flush F p)) (\<lambda>_.
        token_io ''set permissions on'' p (tf_set_mode F p TOKEN_MODE))))))"

definition read_token :: "'w token_files \<Rightarrow> path \<Rightarrow> string \<Rightarrow> ('w, string option res) io" where
  "read_token F root digest =
     map_io (\<lambda>r. case r of Contents v \<Rightarrow> Ok (Some v) | NotFound \<Rightarrow> Ok None | read_result.ReadFailed e \<Rightarrow> Err (msg [e]))
       (State (tf_read F (token_path root digest)))"

fun remove_file_if_exists :: "remove_result \<Rightarrow> string + unit" where
  "remove_file_if_exists Removed = Inr ()"
| "remove_file_if_exists RemoveNotFound = Inr ()"
| "remove_file_if_exists (RemoveFailed e) = Inl e"

definition remove_token :: "'w token_files \<Rightarrow> path \<Rightarrow> string \<Rightarrow> ('w, unit res) io" where
  "remove_token F root digest =
     (let p = token_path root digest
      in token_io ''remove'' p (\<lambda>s. case tf_remove F p s of (r, s') \<Rightarrow> (remove_file_if_exists r, s')))"

text \<open>The host whose token files are kept in the state directory.\<close>

definition token_host :: "'w token_files \<Rightarrow> path \<Rightarrow> 'w host \<Rightarrow> 'w host" where
  "token_host F state_home h =
     (let root = from_state_home state_home in h
        \<lparr>random_token := run_state (random_token_bytes F),
         write_token_file := \<lambda>digest v. run_state (write_token F root digest v),
         read_token_file := \<lambda>digest. run_state (read_token F root digest),
         token_file_path := token_path root,
         remove_token_file := \<lambda>digest. run_state (remove_token F root digest)\<rparr>)"

lemma Ok_map_err: "Ok x = map_err f r \<longleftrightarrow> r = Inr x"
  and Ok_map_ok: "Ok y = map_ok g q \<longleftrightarrow> (\<exists>z. q = Inr z \<and> y = g z)"
  by (cases r; auto) (cases q; auto)

section \<open>What the store needs of a file system\<close>

locale token_disk =
  fixes F :: "'w token_files"
    and content :: "'w \<Rightarrow> path \<Rightarrow> string option"
    and mode :: "'w \<Rightarrow> path \<Rightarrow> nat option"
  assumes random: "tf_random F n s = (bytes, s') \<Longrightarrow> content s' = content s \<and> (\<forall>bs. bytes = Inr bs \<longrightarrow> length bs = n)"
    and created: "tf_create_dir_all F d s = (made, s') \<Longrightarrow> content s' = content s"
    and opened: "tf_open F m p s = (Inr (), s') \<Longrightarrow> content s' = (content s)(p \<mapsto> [])"
    and written: "tf_write_all F p v s = (Inr (), s') \<Longrightarrow> content s p = Some c \<Longrightarrow> content s' = (content s)(p \<mapsto> c @ v)"
    and flushed: "tf_flush F p s = (r, s') \<Longrightarrow> content s' = content s"
    and moded: "tf_set_mode F p m s = (r, s') \<Longrightarrow> content s' = content s \<and> (r = Inr () \<longrightarrow> mode s' p = Some m)"
    and read_owned: "content s p = Some c \<Longrightarrow> mode s p = Some TOKEN_MODE \<Longrightarrow> tf_read F p s = (Contents c, s)"
    and read_missing: "content s p = None \<Longrightarrow> tf_read F p s = (NotFound, s)"
    and removed: "tf_remove F p s = (Removed, s') \<Longrightarrow> content s' = (content s)(p := None)"
    and remove_missing: "tf_remove F p s = (RemoveNotFound, s') \<Longrightarrow> content s' = content s \<and> content s p = None"
begin

lemma token_written:
  assumes "run_state (write_token F root digest v) s = (Ok (), s')"
  shows "content s' = (content s)(token_path root digest \<mapsto> v)" "mode s' (token_path root digest) = Some TOKEN_MODE"
proof -
  let ?p = "token_path root digest"
  obtain s1 s2 s3 s4 where steps: "tf_create_dir_all F (path_parent ?p) s = (Inr (), s1)" "tf_open F TOKEN_MODE ?p s1 = (Inr (), s2)"
    "tf_write_all F ?p v s2 = (Inr (), s3)" "tf_flush F ?p s3 = (Inr (), s4)" "tf_set_mode F ?p TOKEN_MODE s4 = (Inr (), s')"
    using assms by (auto simp: write_token_def token_io_def Let_def result_simps Ok_map_err)
  have "content s2 ?p = Some []" using opened [OF steps(2)] by simp
  from written [OF steps(3) this] have "content s3 = (content s)(?p \<mapsto> v)"
    using created [OF steps(1)] opened [OF steps(2)] by simp
  then show "content s' = (content s)(?p \<mapsto> v)" "mode s' ?p = Some TOKEN_MODE"
    using flushed [OF steps(4)] moded [OF steps(5)] by simp_all
qed

lemma token_removed:
  assumes "run_state (remove_token F root digest) s = (Ok (), s')"
  shows "content s' = (content s)(token_path root digest := None)"
proof -
  obtain r where r: "tf_remove F (token_path root digest) s = (r, s')" "remove_file_if_exists r = Inr ()"
    using assms by (auto simp: remove_token_def token_io_def Let_def result_simps Ok_map_err split: prod.splits)
  show ?thesis
  proof (cases r)
    case RemoveNotFound
    then show ?thesis using remove_missing r(1) by fastforce
  qed (use removed r in auto)
qed

lemma token_read_back:
  "content s (token_path root digest) = Some v \<Longrightarrow> mode s (token_path root digest) = Some TOKEN_MODE
    \<Longrightarrow> run_state (read_token F root digest) s = (Ok (Some v), s)"
  by (simp add: read_token_def run_map_io read_owned)

lemma token_read_missing:
  "content s (token_path root digest) = None \<Longrightarrow> run_state (read_token F root digest) s = (Ok None, s)"
  by (simp add: read_token_def run_map_io read_missing)

lemma token_generated:
  assumes "run_state (random_token_bytes F) s = (Ok bs, s')"
  shows "content s' = content s" "length bs = TOKEN_BYTES"
  using assms random [of TOKEN_BYTES s] by (auto simp: random_token_bytes_def result_simps Ok_map_err)

end

section \<open>A disk\<close>

text \<open>Files with their permissions, and a source of bytes that counts. A new file gets the mode asked for, an
  existing one keeps its own; only directories that exist can hold files.\<close>

record disk =
  dk_dirs :: "path list"
  dk_files :: "path \<Rightarrow> (string \<times> nat) option"
  dk_seed :: nat

definition disk_files :: "disk token_files" where
  "disk_files = \<lparr>
     tf_random = (\<lambda>n d. (Inr (map (\<lambda>i. of_nat (dk_seed d + i)) [0..<n]), d\<lparr>dk_seed := dk_seed d + n\<rparr>)),
     tf_create_dir_all = (\<lambda>p d. (Ok (), d\<lparr>dk_dirs := p # dk_dirs d\<rparr>)),
     tf_open = (\<lambda>m p d. if path_parent p \<in> set (dk_dirs d)
        then (Inr (), d\<lparr>dk_files := (dk_files d)(p \<mapsto> ([], case dk_files d p of Some (_, old) \<Rightarrow> old | None \<Rightarrow> m))\<rparr>)
        else (Inl ''No such file or directory'', d)),
     tf_write_all = (\<lambda>p v d. case dk_files d p of
          Some (c, m) \<Rightarrow> (Inr (), d\<lparr>dk_files := (dk_files d)(p \<mapsto> (c @ v, m))\<rparr>)
        | None \<Rightarrow> (Inl ''Bad file descriptor'', d)),
     tf_flush = (\<lambda>p d. (Inr (), d)),
     tf_set_mode = (\<lambda>p m d. case dk_files d p of
          Some (c, _) \<Rightarrow> (Inr (), d\<lparr>dk_files := (dk_files d)(p \<mapsto> (c, m))\<rparr>)
        | None \<Rightarrow> (Inl ''No such file or directory'', d)),
     tf_read = (\<lambda>p d. (case dk_files d p of
          Some (c, m) \<Rightarrow> if 256 \<le> m then Contents c else read_result.ReadFailed ''Permission denied''
        | None \<Rightarrow> NotFound, d)),
     tf_remove = (\<lambda>p d. case dk_files d p of
          Some _ \<Rightarrow> (Removed, d\<lparr>dk_files := (dk_files d)(p := None)\<rparr>)
        | None \<Rightarrow> (RemoveNotFound, d))\<rparr>"

definition disk_content :: "disk \<Rightarrow> path \<Rightarrow> string option" where
  "disk_content d p = map_option fst (dk_files d p)"

definition disk_mode :: "disk \<Rightarrow> path \<Rightarrow> nat option" where
  "disk_mode d p = map_option snd (dk_files d p)"

interpretation dk: token_disk disk_files disk_content disk_mode
  by unfold_locales (auto simp: disk_files_def disk_content_def disk_mode_def TOKEN_MODE_def fun_eq_iff
      split: if_splits option.splits)

section \<open>Tokens\<close>

lemma hex_token_trimmed: "trim (hex_lower bs) = hex_lower bs"
proof (cases "hex_lower bs = []")
  case False
  have "list_all is_ascii_graphic (hex_lower bs)"
    using hex_lower_lower_hex [of bs] lower_hex_graphic by (auto simp: list_all_iff simp del: hex_lower_lower_hex)
  then show ?thesis using False trim_graphic by blast
qed simp

lemma token_path_inject:
  assumes "list_all is_lower_hex d" and "list_all is_lower_hex d'"
  shows "token_path root d = token_path root d' \<longleftrightarrow> d = d'"
proof -
  have "\<not> is_absolute (e @ ''.token'')" if "list_all is_lower_hex e" for e
    using that by (cases e) (auto simp: is_absolute_Cons is_lower_hex_def is_ascii_digit_def byte_of_def)
  then show ?thesis using assms by (simp add: token_path_def path_join_def)
qed

text \<open>C25: an attach token survives its store. Over any file system that keeps the contract, a token that was
  created is a fresh value of 64 hexadecimal digits, is kept in a file that only its owner can read or
  write, and is what a client of the same workspace loads; the tokens of other workspaces are untouched.
  Once the token of the workspace is removed, loading it reports it as missing.\<close>

theorem token_roundtrip:
  assumes "token_disk F content mode" and "resolve_workspace_identity sha fs directory = Ok w"
    and "run_state (create_managed (token_host F state_home h) w) s = (Ok t, s')"
  shows "list_all is_lower_hex (token_value t) \<and> length (token_value t) = 64
    \<and> mode s' (token_path (from_state_home state_home) (digest64 w)) = Some TOKEN_MODE
    \<and> run_state (load_managed (token_host F state_home h) w) s' = (Ok t, s')
    \<and> (\<forall>root. git_root_digest64 sha root \<noteq> digest64 w \<longrightarrow>
        content s' (token_path (from_state_home state_home) (git_root_digest64 sha root))
          = content s (token_path (from_state_home state_home) (git_root_digest64 sha root)))
    \<and> (\<forall>s''. remove_token_file (token_host F state_home h) (digest64 w) s' = (Ok (), s'') \<longrightarrow>
        run_state (load_managed (token_host F state_home h) w) s'' =
          (Err (msg [''missing Codex attach token for managed session '', tick (container_name w),
            '' in '', tick (canonical_git_root w), '' at '',
            tick (token_path (from_state_home state_home) (digest64 w)),
            ''; restart or recreate the session before connecting'']), s''))"
proof -
  let ?root = "from_state_home state_home"
  let ?p = "token_path ?root (digest64 w)"
  obtain bs s1 where bs: "run_state (random_token_bytes F) s = (Ok bs, s1)"
      "t = token_from_value (sha256 (host_build h)) (hex_lower bs)"
      "run_state (write_token F ?root (digest64 w) (token_value t)) s1 = (Ok (), s')"
    using assms(3) by (auto simp: create_managed_def generate_token_def token_host_def Let_def result_simps Ok_map_ok
        split: prod.splits)
  note generated = token_disk.token_generated [OF assms(1) bs(1)]
  note stored = token_disk.token_written [OF assms(1) bs(3)]
  have len: "length (token_value t) = 64" using generated(2) by (simp add: bs(2) token_from_value_def TOKEN_BYTES_def)
  have trimmed: "trim (token_value t) = token_value t" by (simp add: bs(2) token_from_value_def hex_token_trimmed)
  have "run_state (read_token F ?root (digest64 w)) s' = (Ok (Some (token_value t)), s')"
    by (rule token_disk.token_read_back [OF assms(1)]) (simp_all add: stored)
  moreover have "token_value t \<noteq> []" using len by auto
  ultimately have loaded: "run_state (load_managed (token_host F state_home h) w) s' = (Ok t, s')"
    using trimmed by (auto simp: load_managed_def token_host_def Let_def bs(2) token_from_value_def)
  have others: "content s' (token_path ?root (git_root_digest64 sha root))
      = content s (token_path ?root (git_root_digest64 sha root))" if "git_root_digest64 sha root \<noteq> digest64 w" for root
  proof -
    have "list_all is_lower_hex (digest64 w)" "list_all is_lower_hex (git_root_digest64 sha root)"
      using git_root_digest64_shape resolve_workspace_identity_Ok(2) [OF assms(2)] by simp_all
    from token_path_inject [OF this, of ?root] that show ?thesis by (simp add: stored(1) generated(1) eq_commute)
  qed
  have gone: "run_state (load_managed (token_host F state_home h) w) s'' =
          (Err (msg [''missing Codex attach token for managed session '', tick (container_name w),
            '' in '', tick (canonical_git_root w), '' at '', tick ?p,
            ''; restart or recreate the session before connecting'']), s'')"
    if "remove_token_file (token_host F state_home h) (digest64 w) s' = (Ok (), s'')" for s''
  proof -
    have "content s'' ?p = None"
      using that token_disk.token_removed [OF assms(1)] by (simp add: token_host_def Let_def)
    from token_disk.token_read_missing [OF assms(1) this] show ?thesis
      by (simp add: load_managed_def token_host_def Let_def)
  qed
  show ?thesis
    using len stored(2) loaded others gone by (simp add: bs(2) token_from_value_def)
qed

section \<open>A session on a disk\<close>

text \<open>A host on which nothing works but its disk.\<close>

definition disk_host :: "disk host" where
  "disk_host = token_host disk_files ''/s'' (idle_host sample_build)"

definition empty_disk :: disk where
  "empty_disk = \<lparr>dk_dirs = [], dk_files = (\<lambda>_. None), dk_seed = 0\<rparr>"

lemma token_roundtrip_witness:
  "\<exists>t d. run_state (create_managed disk_host sample_workspace) empty_disk = (Ok t, d)
     \<and> run_state (load_managed disk_host sample_workspace) d = (Ok t, d) \<and> length (token_value t) = 64"
proof -
  have "\<exists>t d. run_state (create_managed disk_host sample_workspace) empty_disk = (Ok t, d)"
    by (simp add: create_managed_def generate_token_def disk_host_def token_host_def Let_def run_attempt run_map_io
        random_token_bytes_def write_token_def token_io_def disk_files_def empty_disk_def)
  then obtain t d where t: "run_state (create_managed disk_host sample_workspace) empty_disk = (Ok t, d)" by blast
  from token_roundtrip [OF dk.token_disk_axioms conjunct1 [OF sample_resolve_all] t [unfolded disk_host_def]] show ?thesis
    using t unfolding disk_host_def by blast
qed

end
