(* ===== verification/RestartFlow.thy ===== *)
theory RestartFlow
  imports Prompts
begin

text \<open>
  \<open>agentbox restart\<close>: \<open>src/commands/restart.rs\<close>. Everything the replacement needs is prepared before the
  running session is stopped, all under the lock of the session's root.
\<close>

definition restart_resource_limits ::
  "'w host \<Rightarrow> session_record \<Rightarrow> resource_limits \<Rightarrow> ('w, resource_limits res) io" where
  "restart_resource_limits h s overrides = do {
     config \<leftarrow> State (load_config h);
     pure (map_ok (\<lambda>stored.
         \<lparr>cpus = or_else (or_else (cpus overrides) (cpus stored)) (cpus (default_resource_limits config)),
          memory = or_else (or_else (memory overrides) (memory stored)) (memory (default_resource_limits config))\<rparr>)
       (md_stored_resource_limits (metadata s))) }"

definition restart_launch_workspace ::
  "'w host \<Rightarrow> path \<Rightarrow> session_record \<Rightarrow> path \<Rightarrow> ('w, workspace_identity res) io" where
  "restart_launch_workspace h locked s launch =
     map_io (\<lambda>r. case r of
         Inl e \<Rightarrow> Err (msg [''stored launch directory '', tick launch, '' for managed session '',
           tick (sr_container_name s), '' cannot be used for restart: '', error_text e])
       | Inr w \<Rightarrow>
           if canonical_git_root w = locked then Ok w
           else Err (msg [''stored launch directory '', tick launch, '' for managed session '',
             tick (sr_container_name s), '' now resolves to git root '', tick (canonical_git_root w),
             '' instead of '', tick locked, ''; stop and start the session from the desired directory'']))
       (host_workspace h launch)"

definition stop_existing_session :: "'w host \<Rightarrow> session_record \<Rightarrow> ('w, unit res) io" where
  "stop_existing_session h s = do {
     c \<leftarrow> stop_and_verify h (sr_container_name s);
     pure (case remaining_failure c (sr_container_name s) of
         Some f \<Rightarrow> Err (msg [''failed to stop managed session '', tick (sr_container_name s),
           '' for restart; replacement was not started: '', render_stop_message f])
       | None \<Rightarrow> Ok ()) }"

definition restart_after_stop_error :: "workspace_identity \<Rightarrow> runtime_kind \<Rightarrow> error \<Rightarrow> error" where
  "restart_after_stop_error w runtime e =
     msg [error_text e, [CHR 0x0A, CHR 0x0A], ''The previous managed session for '', tick (canonical_git_root w),
       '' may already be gone because restart stopped it before starting the replacement. Retry with '',
       tick (format [''agentbox start --runtime '', runtime_str runtime, '' '', canonical_target w]),
       '' or inspect the container with Podman.'']"

definition restart_launch_policy :: "'w host \<Rightarrow> workspace_identity \<Rightarrow> runtime_kind \<Rightarrow> 'w managed_launch_policy" where
  "restart_launch_policy h w runtime =
     \<lparr>mp_create_action = ''start the replacement runtime server command'',
      mp_check_interrupted = check_flag h (pure (restart_after_stop_error w runtime
        (msg [''restart interrupted after the previous managed session was stopped'']))),
      mp_wrap_error = restart_after_stop_error w runtime\<rparr>"

text \<open>The first half of the locked closure: choose the session and prepare its replacement.\<close>

record restart_preparation =
  rt_session :: restartable_session
  rt_workspace :: workspace_identity
  rt_launch :: runtime_launch_preparation

definition restart_prepare ::
  "'w host \<Rightarrow> restart_session_target_plan \<Rightarrow> session_target_input \<Rightarrow> dev_env_mode \<Rightarrow> bool
     \<Rightarrow> resource_limits \<Rightarrow> ('w, restart_preparation res) io" where
  "restart_prepare h plan tgt mode connect_after overrides =
     (let locked = rp_lock_git_root plan in
      attempt (select_session_candidate (sha256 (host_build h)) (State (filesystem h)) plan locked
          (discover_sessions_of_root h locked) (discover_agentbox_containers h)) (\<lambda>s.
      attempt (pure (prepare_restart_session (args_of_json h) (target_display tgt) s)) (\<lambda>rs.
      attempt (restart_launch_workspace h locked (rs_session rs) (rs_launch_directory rs)) (\<lambda>w.
      attempt (restart_resource_limits h (rs_session rs) overrides) (\<lambda>limits.
      attempt (prepare_runtime_launch h (replacement_server_launch_request w (rs_runtime rs) mode
          connect_after (rs_server_args rs) limits)) (\<lambda>prep.
        pure (Ok \<lparr>rt_session = rs, rt_workspace = w, rt_launch = prep\<rparr>)))))))"

text \<open>The second half: stop the session, start the replacement.\<close>

definition restart_replace ::
  "nat \<Rightarrow> 'w host \<Rightarrow> restart_preparation \<Rightarrow> bool \<Rightarrow> ('w, unit) loop" where
  "restart_replace fuel h p connect_after =
     (let w = rt_workspace p; runtime = rs_runtime (rt_session p) in
      attempt_loop (once (stop_existing_session h (rs_session (rt_session p)))) (\<lambda>_.
        execute_managed_launch fuel h w runtime (rlp_run_spec (rt_launch p)) (rlp_token (rt_launch p))
          (restart_launch_policy h w runtime)
          \<lparr>mc_kind = CompletionRestart, mc_connect = connect_after,
           mc_client_launch_directory = canonical_target w, mc_retry_target = canonical_target w\<rparr>))"

definition restart_target ::
  "nat \<Rightarrow> 'w host \<Rightarrow> session_target_input \<Rightarrow> dev_env_mode \<Rightarrow> bool \<Rightarrow> resource_limits \<Rightarrow> ('w, unit) loop" where
  "restart_target fuel h tgt mode connect_after overrides =
     attempt_loop (once (resolve_restart_plan (sha256 (host_build h)) (State (filesystem h)) tgt
         (discover_agentbox_containers h))) (\<lambda>plan.
       with_locked_git_root_loop h (rp_lock_git_root plan)
         (attempt_loop (once (restart_prepare h plan tgt mode connect_after overrides)) (\<lambda>p.
            restart_replace fuel h p connect_after)))"

definition RESTART_NON_TTY_ERROR :: string where
  "RESTART_NON_TTY_ERROR = ''agentbox restart requires a target when stdin or stderr is not a TTY''"

definition selected_restart_target ::
  "'w host \<Rightarrow> 'w prompter \<Rightarrow> path option \<Rightarrow> ('w, session_target_input res) io" where
  "selected_restart_target h p tgt =
     (case tgt of
        Some t \<Rightarrow> pure (Ok (CliTarget t))
      | None \<Rightarrow> map_io (map_ok StableIdInput) (select_one_session_target h p SurfaceRestart
          ''Select session to restart'' RESTART_NON_TTY_ERROR ''no restartable running managed sessions exist''
          stop_prompt_label))"

definition restart_run ::
  "nat \<Rightarrow> 'w host \<Rightarrow> 'w prompter \<Rightarrow> path option \<Rightarrow> dev_env_mode \<Rightarrow> bool \<Rightarrow> resource_limits \<Rightarrow> ('w, unit) loop" where
  "restart_run fuel h p tgt mode connect_after overrides =
     attempt_loop (once (selected_restart_target h p tgt)) (\<lambda>t.
       restart_target fuel h t mode connect_after overrides)"

end
