(* ===== verification/StopFlow.thy ===== *)
theory StopFlow
  imports Prompts
begin

text \<open>
  \<open>agentbox stop\<close>: \<open>src/commands/stop.rs\<close> and \<open>stop/cleanup.rs\<close>. Sessions of a root are cleaned up under
  the lock of that root; containers without a root are cleaned up without a lock.
\<close>

section \<open>\<open>cleanup.rs\<close>\<close>

definition render_cleanup_failures :: "string \<Rightarrow> container_cleanup_failure list \<Rightarrow> string" where
  "render_cleanup_failures identity failures =
     format [''partial stop failed for '', tick identity, ''; remaining agentbox containers: '',
       join ''; '' (map render_stop_message failures),
       ''. podman-owned image cleanup and cache volumes are left untouched'']"

definition finish_cleanup :: "string \<Rightarrow> container_cleanup_failure list \<Rightarrow> unit res" where
  "finish_cleanup identity failures =
     (if failures = [] then Ok () else Err (Message (render_cleanup_failures identity failures)))"

definition cleanup_selected_sessions ::
  "'w host \<Rightarrow> session_record list \<Rightarrow> ('w, container_cleanup_failure list res) io" where
  "cleanup_selected_sessions h sessions = map_io Ok (cleanup_managed_containers h sessions)"

definition cleanup_running_exact_matches_for_locked_root ::
  "'w host \<Rightarrow> path \<Rightarrow> ('w, container_cleanup_failure list res) io" where
  "cleanup_running_exact_matches_for_locked_root h root =
     attempt (discover_sessions_of_root h root) (\<lambda>sessions.
       map_io Ok (cleanup_managed_containers h
         (filter container_running (exact_git_root_matches sessions root))))"

datatype rooted_session_cleanup_scope = SelectedSessions | RunningExactMatches

fun scope_cleanup ::
  "'w host \<Rightarrow> rooted_session_cleanup_scope \<Rightarrow> path \<Rightarrow> session_record list
     \<Rightarrow> ('w, container_cleanup_failure list res) io" where
  "scope_cleanup h SelectedSessions root selected = cleanup_selected_sessions h selected"
| "scope_cleanup h RunningExactMatches root selected = cleanup_running_exact_matches_for_locked_root h root"

fun cleanup_rooted_session_groups ::
  "'w host \<Rightarrow> session_group list \<Rightarrow> rooted_session_cleanup_scope
     \<Rightarrow> ('w, container_cleanup_failure list res) io" where
  "cleanup_rooted_session_groups h [] scope = pure (Ok [])"
| "cleanup_rooted_session_groups h (g # gs) scope =
     attempt (with_locked_git_root h (grp_root g) (scope_cleanup h scope (grp_root g) (grp_sessions g))) (\<lambda>fs.
       map_io (map_ok (\<lambda>rest. fs @ rest)) (cleanup_rooted_session_groups h gs scope))"

definition cleanup_stable_id_matches ::
  "'w host \<Rightarrow> session_record list \<Rightarrow> ('w, container_cleanup_failure list res) io" where
  "cleanup_stable_id_matches h sessions =
     cleanup_rooted_session_groups h (rooted (partition_sessions_by_git_root sessions)) SelectedSessions"

definition cleanup_all_running_matches ::
  "'w host \<Rightarrow> session_record list \<Rightarrow> ('w, container_cleanup_failure list res) io" where
  "cleanup_all_running_matches h sessions =
     (let p = partition_sessions_by_git_root sessions in
      attempt (cleanup_rooted_session_groups h (rooted p) RunningExactMatches) (\<lambda>failures.
        if unrooted p \<noteq> []
        then map_io (\<lambda>fs. Ok (failures @ fs)) (cleanup_managed_containers h (unrooted p))
        else pure (Ok failures)))"

definition stop_all_running :: "'w host \<Rightarrow> ('w, unit res) io" where
  "stop_all_running h =
     attempt (discover_agentbox_containers h) (\<lambda>sessions.
     attempt (cleanup_all_running_matches h (filter container_running sessions)) (\<lambda>failures.
       pure (finish_cleanup ''all running agentbox containers'' failures)))"

definition stop_exact_locked ::
  "'w host \<Rightarrow> stop_exact_git_root_target \<Rightarrow> bool \<Rightarrow> session_target_input
     \<Rightarrow> ('w, container_cleanup_failure list res) io" where
  "stop_exact_locked h plan force tgt =
     attempt (if uses_locked_root_scope plan then discover_sessions_of_root h (se_git_root plan)
         else discover_agentbox_containers h) (\<lambda>discovered.
       let sessions = exact_matches_from plan discovered in
       attempt (pure (require_non_empty_matches plan sessions)) (\<lambda>_.
       attempt (pure (require_force_for_matches plan (length sessions) force tgt)) (\<lambda>_.
         cleanup_selected_sessions h sessions)))"

definition stop_exact_git_root_matches ::
  "'w host \<Rightarrow> stop_exact_git_root_target \<Rightarrow> bool \<Rightarrow> session_target_input \<Rightarrow> ('w, unit res) io" where
  "stop_exact_git_root_matches h plan force tgt =
     attempt (with_locked_git_root h (se_git_root plan) (stop_exact_locked h plan force tgt)) (\<lambda>failures.
       pure (finish_cleanup (se_git_root plan) failures))"

definition stop_stable_id ::
  "'w host \<Rightarrow> stop_stable_id_target \<Rightarrow> bool \<Rightarrow> session_target_input \<Rightarrow> ('w, unit res) io" where
  "stop_stable_id h plan force tgt =
     attempt (pure (require_force plan force tgt)) (\<lambda>_.
     attempt (cleanup_stable_id_matches h (ss_sessions plan)) (\<lambda>failures.
       pure (finish_cleanup (format [''id '', ss_id plan]) failures)))"

definition stop_target :: "'w host \<Rightarrow> session_target_input \<Rightarrow> bool \<Rightarrow> ('w, unit res) io" where
  "stop_target h tgt force =
     attempt (resolve_stop_plan (sha256 (host_build h)) (State (filesystem h)) tgt
         (discover_agentbox_containers h)) (\<lambda>plan.
       case plan of
         StopExactGitRoot p \<Rightarrow> stop_exact_git_root_matches h p force tgt
       | StopStableId p \<Rightarrow> stop_stable_id h p force tgt)"

section \<open>\<open>stop.rs\<close>\<close>

record target_stop_failure =
  tsf_target :: string
  tsf_error :: error

definition render_target_stop_failures :: "target_stop_failure list \<Rightarrow> string" where
  "render_target_stop_failures failures =
     format [''failed to stop '', show_nat (length failures), '' '',
       (if length failures = 1 then ''target'' else ''targets''), '': '',
       join ''; '' (map (\<lambda>f. format [tick (tsf_target f), '': '', error_text (tsf_error f)]) failures)]"

text \<open>The loop of \<open>stop_targets\<close>: every target is tried, whatever happened to the others.\<close>

fun stop_each :: "'w host \<Rightarrow> session_target_input list \<Rightarrow> bool \<Rightarrow> ('w, target_stop_failure list) io" where
  "stop_each h [] force = pure []"
| "stop_each h (t # ts) force = do {
     r \<leftarrow> stop_target h t force;
     rest \<leftarrow> stop_each h ts force;
     pure ((case r of Inl e \<Rightarrow> [\<lparr>tsf_target = target_display t, tsf_error = e\<rparr>] | Inr _ \<Rightarrow> []) @ rest) }"

definition stop_targets :: "'w host \<Rightarrow> session_target_input list \<Rightarrow> bool \<Rightarrow> ('w, unit res) io" where
  "stop_targets h targets force =
     (case targets of
        [] \<Rightarrow> pure (Ok ())
      | [t] \<Rightarrow> stop_target h t force
      | _ \<Rightarrow> map_io (\<lambda>failures.
            if failures = [] then Ok () else Err (Message (render_target_stop_failures failures)))
          (stop_each h targets force))"

definition STOP_NON_TTY_ERROR :: string where
  "STOP_NON_TTY_ERROR =
     ''agentbox stop requires a target or --all when stdin or stderr is not a TTY''"

text \<open>\<open>sort\<close> and \<open>dedup\<close> of the chosen ids.\<close>

definition select_stop_targets :: "'w host \<Rightarrow> 'w prompter \<Rightarrow> ('w, session_target_input list res) io" where
  "select_stop_targets h p =
     map_io (map_ok (\<lambda>selected. case selected of
         NoCandidates \<Rightarrow> []
       | EmptySelection \<Rightarrow> []
       | Selected targets \<Rightarrow> map StableIdInput (sort_dedup targets)))
       (select_many_session_targets h p SurfaceStop ''Select sessions to stop'' STOP_NON_TTY_ERROR
         stop_prompt_label)"

record stop_args =
  sa_all :: bool
  sa_force :: bool
  sa_targets :: "path list"

definition stop_run :: "'w host \<Rightarrow> 'w prompter \<Rightarrow> stop_args \<Rightarrow> ('w, unit res) io" where
  "stop_run h p args =
     (if sa_all args then
        (if sa_targets args \<noteq> [] then pure (Err (msg [''stop --all does not accept a target'']))
         else stop_all_running h)
      else attempt (if sa_targets args = [] then select_stop_targets h p
          else pure (Ok (map CliTarget (sa_targets args)))) (\<lambda>targets.
        stop_targets h targets (sa_force args)))"

end
