(* ===== verification/StartRunLaws.thy ===== *)
theory StartRunLaws
  imports SampleHost
begin

text \<open>
  What the launching commands guarantee: their lifecycles meet the contract of a detached server,
  they act under the workspace lock only, an interrupted start keeps a volume that existed before, and
  a transient container never outlives its client unnoticed.
\<close>

section \<open>Lifecycles\<close>

lemma run_check_flag:
  "run_state (check_flag h mk) s =
     (case interrupted h s of (False, s') \<Rightarrow> (Ok (), s')
      | (True, s') \<Rightarrow> (case run_state mk s' of (e, s'') \<Rightarrow> (Err e, s'')))"
  by (auto simp: check_flag_def run_map_io split: prod.splits)

text \<open>Every lifecycle whose check is the flag check is one, with any errors of its own.\<close>

lemma check_flag_lifecycle:
  "lc_check_interrupted lc = check_flag h mk \<Longrightarrow> detached_lifecycle h lc"
  by unfold_locales (auto simp: run_check_flag split: prod.splits)

interpretation started: detached_lifecycle h
  "managed_lifecycle h w s (start_launch_policy h w existed)" for h w s existed
  by (rule check_flag_lifecycle)
    (simp add: managed_lifecycle_def start_launch_policy_def start_check_interrupted_def)

interpretation transient: detached_lifecycle h "transient_lifecycle h w" for h w
  by (rule check_flag_lifecycle) (simp add: transient_lifecycle_def transient_check_interrupted_def)

section \<open>Events\<close>

lemma only_check_flag [only_intros]: "only P mk \<Longrightarrow> only P (check_flag (logged h) mk)"
  unfolding check_flag_def by (intro only_intros)

lemma only_remove_volume [only_intros]:
  "(\<And>st. P (Ran [''podman'', ''volume'', ''rm'', v] st)) \<Longrightarrow> only P (remove_volume (logged h) v)"
  unfolding remove_volume_def by (intro only_intros) (simp add: podman_argv_def)

lemma only_stop_and_verify_of:
  assumes "\<And>st. P (Ran [''podman'', ''stop'', ''--ignore'', name] st)"
    "\<And>st. P (Ran [''podman'', ''container'', ''exists'', name] st)"
  shows "only P (stop_and_verify (logged h) name)"
proof (rule onlyI)
  fix s a s'
  assume "run_state (stop_and_verify (logged h) name) s = (a, s')"
  then obtain x y where "snd s' = snd s @ [Ran [''podman'', ''stop'', ''--ignore'', name] x,
      Ran [''podman'', ''container'', ''exists'', name] y]"
    using stop_and_verify_logged [of h name "fst s" "snd s" a "fst s'" "snd s'"] by auto
  then show "\<exists>es. snd s' = snd s @ es \<and> list_all P es" using assms by auto
qed

lemma only_start_check_interrupted:
  assumes "\<And>argv st. P (Ran argv st)"
  shows "only P (start_check_interrupted (logged h) w existed)"
  unfolding start_check_interrupted_def interrupted_start_error_def interrupted_run_cleanup_run_def Let_def
  by (intro only_intros only_stop_and_verify_of assms)

lemma only_cleanup_transient_container:
  "(\<And>argv st. P (Ran argv st)) \<Longrightarrow> only P (cleanup_transient_container (logged h) w)"
  unfolding cleanup_transient_container_def by (intro only_intros only_stop_and_verify_of)

lemma only_transient_run_execute:
  assumes "\<And>argv st. P (Ran argv st)" "\<And>d. P (Slept d)" "\<And>i. P (ClientRun i)"
  shows "only P (transient_run_execute fuel (logged h) w runtime s token args)"
proof -
  have cleanup: "only P (transient_with_cleanup_result (logged h) w e)" for e
    unfolding transient_with_cleanup_result_def
    by (intro only_intros only_cleanup_transient_container assms)
  have reads: "reads e \<Longrightarrow> P e" and runs: "runs e \<Longrightarrow> P e" for e
    using assms(1) by (cases e; auto simp: reads_def runs_def)+
  show ?thesis
    unfolding transient_run_execute_def finish_host_client_run_def
    by (intro only_intros only_launch_detached_server only_cleanup_transient_container)
      (auto simp: transient_lifecycle_def transient_check_interrupted_def assms reads runs cleanup
        intro!: only_intros)
qed

lemma only_run_foreground [only_intros]:
  "(\<And>argv st. P (Ran argv st)) \<Longrightarrow> only P (run_foreground (logged h) name s tty)"
  unfolding run_foreground_def by (intro only_intros)

lemma only_load_codex_attach_token_for_client [only_intros]:
  "only P (load_codex_attach_token_for_client (logged h) runtime w)"
  unfolding load_codex_attach_token_for_client_def load_managed_def Let_def by (intro only_intros)

section \<open>Locks\<close>

lemma acts_start_check [only_intros]: "only acts (start_check_interrupted (logged h) w existed)"
  by (rule only_start_check_interrupted) simp

lemma disciplined_start: "disciplined (\<lambda>r. r \<noteq> None) (start_run fuel (logged h) runtime args c)"
  unfolding start_run_def Let_def
  by (intro lock_intros disciplined_reads [where m = "State (load_config (logged h))"] only_intros
      only_execute_managed_launch)
    (auto simp: reads_acts runs_acts start_launch_policy_def intro!: only_intros only_read_ops)

lemma disciplined_run: "disciplined (\<lambda>r. r \<noteq> None) (run_run fuel (logged h) runtime args)"
  unfolding run_run_def Let_def
  by (intro lock_intros disciplined_reads [where m = "State (load_config (logged h))"] only_intros
      only_transient_run_execute)
    (auto simp: reads_acts runs_acts)

lemma disciplined_exec: "disciplined (\<lambda>_. True) (exec_run (logged h) mode directory args tty)"
  unfolding exec_run_def
  by (intro lock_intros only_intros) (auto simp: reads_acts runs_acts)

lemma disciplined_connect: "disciplined (\<lambda>_. True) (connect_directory (logged h) directory args)"
  unfolding connect_directory_def
  by (intro lock_intros only_intros) (auto simp: reads_acts runs_acts)

section \<open>The cache volume of an interrupted start\<close>

lemma marks_stop_and_verify:
  "container_removed c \<Longrightarrow>
     marks (\<lambda>e. e = Ran [''podman'', ''container'', ''exists'', name] (Some (Exited 1)))
       (stop_and_verify (logged h) name) c"
  unfolding marks_def
  by (auto dest!: stop_and_verify_logged)

lemma marks_volume_exists:
  "marks (\<lambda>e. e = Ran [''podman'', ''volume'', ''exists'', name] (Some (Exited 1)))
     (volume_exists (logged h) name) (Ok False)"
  unfolding marks_def
  by (auto simp: volume_exists_def exists_status_def command_status_def run_attempt logged_def
      record_op_def podman_argv_def ok_of_eq_Some split: prod.splits sum.splits if_splits
      elim!: exit_code_of.elims)

text \<open>Podman removing the volume \<open>v\<close>.\<close>

definition removes_volume :: "string \<Rightarrow> event \<Rightarrow> bool" where
  "removes_volume v e \<longleftrightarrow> (\<exists>st. e = Ran [''podman'', ''volume'', ''rm'', v] st)"

lemma removes_volume_simps [simp]:
  "removes_volume v (Ran argv st) \<longleftrightarrow> argv = [''podman'', ''volume'', ''rm'', v]"
  "\<not> removes_volume v (ClientRun i)" "\<not> removes_volume v (TokenWritten g)"
  "\<not> removes_volume v (Slept d)" "\<not> removes_volume v (Locked g)" "\<not> removes_volume v (Unlocked g)"
  "\<not> removes_volume v (FileRemoved f)"
  by (auto simp: removes_volume_def)

lemma reads_keep_volumes: "reads e \<Longrightarrow> \<not> removes_volume v e"
  by (auto simp: removes_volume_def reads_def)

lemma runs_keep_volumes: "runs e \<Longrightarrow> \<not> removes_volume v e"
  by (auto simp: removes_volume_def)

lemma marks_once: "marks A m x \<Longrightarrow> marks A (once m) (Some x)"
  by (auto simp: marks_def run_once split: prod.splits)

lemma only_interrupted_run_keeps:
  assumes "existed \<or> v \<noteq> container_name w"
  shows "only (\<lambda>e. \<not> removes_volume v e) (start_check_interrupted (logged h) w existed)"
  using assms
  unfolding start_check_interrupted_def interrupted_start_error_def interrupted_run_cleanup_run_def Let_def
  by (cases existed; simp cong: if_cong; intro only_intros only_stop_and_verify_of; simp)

lemma needs_interrupted_run:
  "needs (\<lambda>e. e = Ran [''podman'', ''container'', ''exists'', v] (Some (Exited 1))) (removes_volume v)
     (start_check_interrupted (logged h) w existed)"
proof (cases "v = container_name w")
  case True
  have "needs (\<lambda>e. e = Ran [''podman'', ''container'', ''exists'', v] (Some (Exited 1))) (removes_volume v)
     (interrupted_run_cleanup_run (logged h) w existed)"
    unfolding interrupted_run_cleanup_run_def Let_def True
    by (rule needs_bind_marked)
      (auto intro!: only_intros only_stop_and_verify_of needs_pure marks_stop_and_verify
        needs_only [OF only_stop_and_verify_of [where P = "\<lambda>e. \<not> removes_volume (container_name w) e"]])
  moreover have "needs A (removes_volume v) (State (interrupted (logged h)))" for A
    by (rule needs_only [of "\<lambda>e. \<not> removes_volume v e"]) (auto intro: only_intros)
  ultimately show ?thesis
    unfolding start_check_interrupted_def check_flag_def interrupted_start_error_def
    by (intro needs_intros)
next
  case False
  then show ?thesis
    by (intro needs_only [OF only_interrupted_run_keeps]) auto
qed

lemma only_execute_start:
  assumes "only P (start_check_interrupted (logged h) w existed)"
    and "\<And>e. reads e \<Longrightarrow> P e" "\<And>d. P (Slept d)" "\<And>e. runs e \<Longrightarrow> P e" "\<And>i. P (ClientRun i)"
  shows "only P (execute_managed_launch fuel (logged h) w runtime s token
    (start_launch_policy (logged h) w existed) completion)"
  using assms by (intro only_execute_managed_launch) (auto simp: start_launch_policy_def)

lemma needs_start_volume:
  "needs (\<lambda>e. e = Ran [''podman'', ''volume'', ''exists'', v] (Some (Exited 1))) (removes_volume v)
     (start_run fuel (logged h) runtime args c)" (is "needs ?A ?B _")
proof -
  have keep: "needs ?A ?B m" if "only (\<lambda>e. \<not> removes_volume v e) m" for m :: "('a \<times> event list, 'b) io"
    by (rule needs_only [OF that]) auto
  have launch: "needs ?A ?B (attempt_loop (once (volume_exists (logged h) (container_name w))) (\<lambda>existed.
      execute_managed_launch fuel (logged h) w runtime s token
        (start_launch_policy (logged h) w existed) completion))" for w s token completion
  proof (rule needs_attempt_loop_marked)
    show "needs ?A ?B (once (volume_exists (logged h) (container_name w)))"
      by (intro keep only_intros only_read_ops) (simp_all add: reads_keep_volumes)
    show "only (\<lambda>_. True) (execute_managed_launch fuel (logged h) w runtime s token
        (start_launch_policy (logged h) w existed) completion)" for existed
      by (intro only_execute_start only_start_check_interrupted) simp_all
    show "marks ?A (once (volume_exists (logged h) (container_name w))) (Some (Ok existed)) \<or>
        needs ?A ?B (execute_managed_launch fuel (logged h) w runtime s token
          (start_launch_policy (logged h) w existed) completion)" for existed
    proof (cases "existed \<or> v \<noteq> container_name w")
      case True
      then show ?thesis
        by (intro disjI2 keep only_execute_start only_interrupted_run_keeps [OF True])
          (simp_all add: reads_keep_volumes runs_keep_volumes)
    qed (auto intro!: marks_once marks_volume_exists)
  qed
  have "needs ?A ?B (attempt_loop (once (prepare_runtime_launch (logged h) rq)) (\<lambda>prep.
      attempt_loop (once (volume_exists (logged h) (container_name w))) (\<lambda>existed.
      execute_managed_launch fuel (logged h) w runtime (rlp_run_spec prep) (rlp_token prep)
        (start_launch_policy (logged h) w existed) (completion w))))" for w rq completion
    by (rule needs_attempt_loop [OF _ launch])
      (intro keep only_intros; simp add: reads_keep_volumes)
  then show ?thesis
    unfolding start_run_def Let_def
    by (intro needs_bind needs_with_locked_workspace_loop)
      (auto intro: keep only_intros simp: reads_keep_volumes)
qed

lemma needs_launch_detached_server:
  assumes lc: "needs A B (lc_check_interrupted lc)" "\<And>e. needs A B (lc_run_detached_error lc e)"
      "\<And>e. needs A B (lc_readiness_error lc e)"
    and B: "\<And>e. reads e \<Longrightarrow> \<not> B e" "\<And>d. \<not> B (Slept d)" "\<And>e. runs e \<Longrightarrow> \<not> B e"
  shows "needs A B (launch_detached_server fuel (logged h) w runtime s lc)"
proof -
  have keep: "needs A B m" if "only (\<lambda>e. \<not> B e) m" for m :: "('a \<times> event list, 'b) io"
    by (rule needs_only [OF that]) auto
  have opt: "needs A B (case v of None \<Rightarrow> a | Some x \<Rightarrow> b x)" if "needs A B a" "\<And>x. needs A B (b x)"
    for v :: "'x option" and a :: "('a \<times> event list, 'b) io" and b using that by (cases v) auto
  have "needs A B (case waited of None \<Rightarrow> pure None
      | Some (Inl e) \<Rightarrow> map_io (\<lambda>e'. Some (Err e')) (lc_readiness_error lc e)
      | Some (Inr WaitInterrupted) \<Rightarrow> attempt_loop (once (lc_check_interrupted lc)) (\<lambda>_.
          pure (Some (Err (msg [''runtime server readiness wait was interrupted'']))))
      | Some (Inr (WaitReady e)) \<Rightarrow>
          attempt_loop (once (lc_check_interrupted lc)) (\<lambda>_. pure (Some (Ok e))))" for waited
    by (auto intro!: needs_intros lc split: option.splits sum.splits server_endpoint_wait.splits)
  moreover have "needs A B (run_detached (logged h) (container_name w) s)"
    by (intro keep only_run_detached B) (simp add: run_detached_argv)
  moreover have "needs A B (wait_for_server_endpoint fuel (logged h) w runtime ctx)" for ctx
    by (intro keep only_wait_for_server_endpoint) (simp_all add: B)
  moreover have "needs A B (once (State (install_sigint (logged h))))"
    by (intro keep only_intros)
  ultimately show ?thesis
    unfolding launch_detached_server_def
    by (auto intro!: needs_intros lc split: sum.splits)
qed

lemma needs_execute_start:
  "needs (\<lambda>e. e = Ran [''podman'', ''container'', ''exists'', v] (Some (Exited 1))) (removes_volume v)
     (execute_managed_launch fuel (logged h) w runtime s token
       (start_launch_policy (logged h) w existed) completion)" (is "needs ?A ?B _")
proof -
  have keep: "needs ?A ?B m" if "only (\<lambda>e. \<not> removes_volume v e) m" for m :: "('a \<times> event list, 'b) io"
    by (rule needs_only [OF that]) auto
  have "needs ?A ?B (launch_detached_server fuel (logged h) w runtime s
      (managed_lifecycle (logged h) w s (start_launch_policy (logged h) w existed)))"
    by (rule needs_launch_detached_server)
      (auto simp: managed_lifecycle_def start_launch_policy_def needs_interrupted_run reads_keep_volumes
        runs_keep_volumes intro!: keep only_intros)
  moreover have "needs ?A ?B (once (finish_managed_server_launch (logged h) completion w runtime e token))" for e
    unfolding finish_managed_server_launch_def
    by (intro keep only_intros) (simp add: removes_volume_def)
  ultimately show ?thesis
    unfolding execute_managed_launch_def by (rule needs_attempt_loop)
qed

lemma needs_start_container:
  "needs (\<lambda>e. e = Ran [''podman'', ''container'', ''exists'', v] (Some (Exited 1))) (removes_volume v)
     (start_run fuel (logged h) runtime args c)" (is "needs ?A ?B _")
proof -
  have keep: "needs ?A ?B m" if "only (\<lambda>e. \<not> removes_volume v e) m" for m :: "('a \<times> event list, 'b) io"
    by (rule needs_only [OF that]) auto
  show ?thesis
    unfolding start_run_def Let_def
    by (intro needs_bind needs_with_locked_workspace_loop needs_attempt_loop needs_once
        needs_execute_start keep only_intros only_read_ops)
      (simp_all add: reads_keep_volumes)
qed

text \<open>C8: an interrupted start never destroys data: whatever the host answers and whenever the
  interrupt comes, it removes a cache volume only after Podman answered that the volume did not exist
  before the launch, and only after Podman answered that the container is gone.\<close>

theorem start_keeps_existing_volume:
  "before (\<lambda>e. e = Ran [''podman'', ''volume'', ''exists'', v] (Some (Exited 1)))
      (removes_volume v)
      (trace_of (start_run fuel (logged h) runtime args c) w)
   \<and> before (\<lambda>e. e = Ran [''podman'', ''container'', ''exists'', v] (Some (Exited 1)))
      (removes_volume v)
      (trace_of (start_run fuel (logged h) runtime args c) w)"
  by (intro conjI needs_trace needs_start_volume needs_start_container)

section \<open>Transient containers\<close>

lemma cleanup_transient_logged:
  assumes "run_state (cleanup_transient_container (logged h) w) (u, l) = (r, (u', l'))"
  shows "\<exists>a b. l' = l @ [Ran [''podman'', ''stop'', ''--ignore'', container_name w] a,
      Ran [''podman'', ''container'', ''exists'', container_name w] b]
    \<and> (r = Ok () \<longrightarrow> b = Some (Exited 1))"
proof -
  obtain c where c: "run_state (stop_and_verify (logged h) (container_name w)) (u, l) = (c, (u', l'))"
      "r = Ok () \<longrightarrow> remaining_failure c (container_name w) = None"
    using assms by (auto simp: cleanup_transient_container_def split: prod.splits option.splits)
  then show ?thesis using stop_and_verify_logged [OF c(1)] by (auto simp: remaining_failure_None)
qed

lemma finish_host_client_run_logged:
  assumes "run_state (finish_host_client_run (logged h) w runtime e client args) (u, l) = (r, (u', l'))"
  shows "\<exists>a b. l' = l @ [Ran [''podman'', ''stop'', ''--ignore'', container_name w] a,
      Ran [''podman'', ''container'', ''exists'', container_name w] b]
    \<and> (r = Ok () \<longrightarrow> b = Some (Exited 1))"
proof -
  obtain c where c: "run_state (cleanup_transient_container (logged h) w) (u, l) = (c, (u', l'))"
      "r = Ok () \<longrightarrow> c = Ok ()"
    using assms by (auto simp: finish_host_client_run_def split: prod.splits sum.splits option.splits)
  then show ?thesis using cleanup_transient_logged [OF c(1)] by auto
qed

abbreviation no_client :: "event \<Rightarrow> bool" where
  "no_client e \<equiv> \<forall>i. e \<noteq> ClientRun i"

lemma only_transient_launch:
  "only no_client (launch_detached_server fuel (logged h) w runtime s (transient_lifecycle (logged h) w))"
  unfolding transient_lifecycle_def transient_check_interrupted_def transient_with_cleanup_result_def
  by (intro only_launch_detached_server)
    (auto simp: reads_def intro!: only_intros only_cleanup_transient_container)

lemma client_status_logged:
  assumes "run_state (run_host_runtime_client_status (logged h) runtime e launch token args) (u, l) = (r, (u', l'))"
  shows "l' = l \<and> (\<exists>x. r = Err x)
    \<or> l' = l @ [ClientRun (host_client_runtime_command runtime e launch args)]"
  using assms
  by (auto simp: run_host_runtime_client_status_def run_attempt logged_def record_op_def
      split: prod.splits sum.splits)

text \<open>After the client, the container is stopped and Podman is asked whether it is gone, in this order
  and with nothing after it; the run succeeds only if it is gone.\<close>

lemma transient_execute_logged:
  assumes "run_state (transient_run_execute fuel (logged h) w runtime s token args) (u, l) = (r, (u', l'))"
  shows "\<exists>pre. list_all no_client pre \<and> (l' = l @ pre \<and> r \<noteq> Some (Ok ())
      \<or> (\<exists>e a b. l' = l @ pre @ [ClientRun (host_client_runtime_command runtime e (canonical_target w) args),
             Ran [''podman'', ''stop'', ''--ignore'', container_name w] a,
             Ran [''podman'', ''container'', ''exists'', container_name w] b]
           \<and> (b = Some (Exited 1) \<and> r = Some (Ok ()) \<or> (\<exists>e. r = Some (Err e)))))"
proof -
  obtain x u1 l1 where x: "run_state (launch_detached_server fuel (logged h) w runtime s
      (transient_lifecycle (logged h) w)) (u, l) = (x, (u1, l1))" by (metis prod.exhaust)
  obtain pre where pre: "l1 = l @ pre" "list_all no_client pre"
    using onlyD [OF only_transient_launch x] by auto
  show ?thesis
  proof (cases "\<exists>e. x = Some (Ok e)")
    case False
    then have "l' = l1 \<and> r \<noteq> Some (Ok ())"
      using assms x by (auto simp: transient_run_execute_def run_attempt_loop split: option.splits sum.splits)
    then show ?thesis using pre by blast
  next
    case True
    then obtain e where e: "x = Some (Ok e)" by blast
    obtain st u2 l2 where st: "run_state (run_host_runtime_client_status (logged h) runtime e
        (canonical_target w) token args) (u1, l1) = (st, (u2, l2))" by (metis prod.exhaust)
    obtain q where q: "run_state (finish_host_client_run (logged h) w runtime e st args) (u2, l2) = (q, (u', l'))"
        "r = Some q"
      using assms x e st by (auto simp: transient_run_execute_def run_attempt_loop run_once split: prod.splits)
    obtain a b where ab: "l' = l2 @ [Ran [''podman'', ''stop'', ''--ignore'', container_name w] a,
        Ran [''podman'', ''container'', ''exists'', container_name w] b]" "q = Ok () \<longrightarrow> b = Some (Exited 1)"
      using finish_host_client_run_logged [OF q(1)] by blast
    have q_cases: "q = Ok () \<or> (\<exists>e. q = Err e)" by (cases q) auto
    have failed: "q \<noteq> Ok ()" if "st = Err y" for y
      using q(1) that by (auto simp: finish_host_client_run_def split: prod.splits)
    show ?thesis
      using client_status_logged [OF st]
    proof
      assume "l2 = l1 \<and> (\<exists>y. st = Err y)"
      then show ?thesis
        using pre ab(1) failed q(2) by (intro exI [of _ "pre @ drop (length l1) l'"]) auto
    next
      assume "l2 = l1 @ [ClientRun (host_client_runtime_command runtime e (canonical_target w) args)]"
      then show ?thesis using pre ab q(2) q_cases by (intro exI [of _ pre]) auto
    qed
  qed
qed

text \<open>An operation that causes only events of \<open>N\<close> and then ends with events that \<open>Q\<close> relates to its
  result.\<close>

definition ends :: "(event \<Rightarrow> bool) \<Rightarrow> (event list \<Rightarrow> 'a \<Rightarrow> bool) \<Rightarrow> ('w \<times> event list, 'a) io \<Rightarrow> bool" where
  "ends N Q m \<longleftrightarrow> (\<forall>s a s'. run_state m s = (a, s') \<longrightarrow>
     (\<exists>pre post. snd s' = snd s @ pre @ post \<and> list_all N pre \<and> Q post a))"

lemma endsD:
  "ends N Q m \<Longrightarrow> run_state m s = (a, s') \<Longrightarrow>
     \<exists>pre post. snd s' = snd s @ pre @ post \<and> list_all N pre \<and> Q post a"
  unfolding ends_def by blast

lemma ends_trace:
  assumes "ends N Q m"
  shows "\<exists>pre post. trace_of m w = pre @ post \<and> list_all N pre \<and> Q post (outcome_of m w)"
proof -
  obtain a w' es where r: "run_state m (w, []) = (a, (w', es))" by (metis prod.exhaust)
  show ?thesis using endsD [OF assms r] by (simp add: trace_of_def outcome_of_def r)
qed

lemma ends_mono:
  assumes "ends N Q m" and "\<And>pre post r. list_all N pre \<Longrightarrow> Q post r \<Longrightarrow>
      \<exists>pre' post'. pre @ post = pre' @ post' \<and> list_all N pre' \<and> R post' r"
  shows "ends N R m"
  unfolding ends_def
proof (intro allI impI)
  fix s a s'
  assume "run_state m s = (a, s')"
  then obtain pre post where "snd s' = snd s @ pre @ post" "list_all N pre" "Q post a"
    using endsD [OF assms(1)] by blast
  then show "\<exists>pre post. snd s' = snd s @ pre @ post \<and> list_all N pre \<and> R post a"
    using assms(2) by metis
qed

lemma ends_bind:
  assumes "only N m" and "\<And>x. ends N Q (f x)"
  shows "ends N Q (do { x \<leftarrow> m; f x })"
  unfolding ends_def
proof (intro allI impI)
  fix s b s'
  assume "run_state (do { x \<leftarrow> m; f x }) s = (b, s')"
  then obtain a t where r: "run_state m s = (a, t)" "run_state (f a) t = (b, s')"
    by (auto split: prod.splits)
  obtain es where "snd t = snd s @ es" "list_all N es" using onlyD [OF assms(1) r(1)] by blast
  moreover obtain pre post where "snd s' = snd t @ pre @ post" "list_all N pre" "Q post b"
    using endsD [OF assms(2) r(2)] by blast
  ultimately show "\<exists>pre post. snd s' = snd s @ pre @ post \<and> list_all N pre \<and> Q post b"
    by (intro exI [of _ "es @ pre"] exI [of _ post]) simp
qed

lemma ends_pure: "Q [] x \<Longrightarrow> ends N Q (pure x)"
  unfolding ends_def by (intro allI impI exI [of _ "[]"]) simp

lemma ends_attempt_loop:
  assumes "only N m" and "\<And>x. ends N Q (f x)" and "Q [] None" "\<And>e. Q [] (Some (Err e))"
  shows "ends N Q (attempt_loop m f)"
  unfolding attempt_loop_def
  by (rule ends_bind [OF assms(1)]) (auto intro: ends_pure assms(2-) split: option.splits sum.splits)

text \<open>How a transient run may end: without a client, or with the client, the stop, the question whether
  the container is gone, and the release of the lock.\<close>

definition client_cleaned :: "event list \<Rightarrow> unit res option \<Rightarrow> bool" where
  "client_cleaned post r \<longleftrightarrow>
     post = [] \<and> (r = None \<or> (\<exists>e. r = Some (Err e)))
     \<or> (\<exists>i name a b. post = [ClientRun i, Ran [''podman'', ''stop'', ''--ignore'', name] a,
            Ran [''podman'', ''container'', ''exists'', name] b]
          \<and> (b = Some (Exited 1) \<and> r = Some (Ok ()) \<or> (\<exists>e. r = Some (Err e))))"

lemma ends_transient_execute: "ends no_client client_cleaned (transient_run_execute fuel (logged h) w runtime s token args)"
  unfolding ends_def
proof (intro allI impI)
  fix st r st'
  assume "run_state (transient_run_execute fuel (logged h) w runtime s token args) st = (r, st')"
  then have "run_state (transient_run_execute fuel (logged h) w runtime s token args) (fst st, snd st)
      = (r, (fst st', snd st'))" by simp
  from transient_execute_logged [OF this] obtain pre where pre: "list_all no_client pre"
    "snd st' = snd st @ pre \<and> r \<noteq> Some (Ok ())
      \<or> (\<exists>e a b. snd st' = snd st @ pre @ [ClientRun (host_client_runtime_command runtime e (canonical_target w) args),
             Ran [''podman'', ''stop'', ''--ignore'', container_name w] a,
             Ran [''podman'', ''container'', ''exists'', container_name w] b]
           \<and> (b = Some (Exited 1) \<and> r = Some (Ok ()) \<or> (\<exists>e. r = Some (Err e))))"
    by blast
  have r: "r = None \<or> (\<exists>e. r = Some (Err e)) \<or> r = Some (Ok ())"
    by (cases r; simp) (metis (full_types) old.unit.exhaust sum.exhaust)
  from pre(2) show "\<exists>pre post. snd st' = snd st @ pre @ post \<and> list_all no_client pre \<and> client_cleaned post r"
  proof
    assume "snd st' = snd st @ pre \<and> r \<noteq> Some (Ok ())"
    then show ?thesis
      using pre(1) r by (intro exI [of _ pre] exI [of _ "[]"]) (auto simp: client_cleaned_def)
  next
    assume "\<exists>e a b. snd st' = snd st @ pre @ [ClientRun (host_client_runtime_command runtime e (canonical_target w) args),
             Ran [''podman'', ''stop'', ''--ignore'', container_name w] a,
             Ran [''podman'', ''container'', ''exists'', container_name w] b]
           \<and> (b = Some (Exited 1) \<and> r = Some (Ok ()) \<or> (\<exists>e. r = Some (Err e)))"
    then show ?thesis
      using pre(1) by (elim exE conjE, intro exI [of _ pre] exI conjI) (auto simp: client_cleaned_def)
  qed
qed

lemma ends_with_lock_loop:
  assumes "ends N Q op" and "\<And>d. N (Locked d)" and "\<And>e. Q [] (Some (Err e))"
  shows "ends N (\<lambda>post r. Q post r \<and> (r = None \<or> post = []) \<or> (\<exists>q d. post = q @ [Unlocked d] \<and> Q q r))
    (with_lock_loop (logged h) d op)" (is "ends N ?Q _")
  unfolding ends_def
proof (intro allI impI)
  fix s a s'
  assume "run_state (with_lock_loop (logged h) d op) s = (a, s')"
  from run_with_lock_loop [OF this]
  show "\<exists>pre post. snd s' = snd s @ pre @ post \<and> list_all N pre \<and> ?Q post a"
  proof (elim disjE exE conjE)
    fix e w
    assume "a = Some (Err e)" "s' = (w, snd s)"
    then show ?thesis using assms(3) by (intro exI [of _ "[]"]) simp
  next
    fix w t w'
    assume t: "run_state op (w, snd s @ [Locked d]) = (a, t)"
      "s' = (if a = None then t else (w', snd t @ [Unlocked d]))"
    obtain pre post where "snd t = snd s @ Locked d # pre @ post" "list_all N pre" "Q post a"
      using endsD [OF assms(1) t(1)] by auto
    then show ?thesis
      using t(2) assms(2)
      by (intro exI [of _ "Locked d # pre"] exI [of _ "if a = None then post else post @ [Unlocked d]"]) auto
  qed
qed

definition run_cleaned :: "event list \<Rightarrow> unit res option \<Rightarrow> bool" where
  "run_cleaned post r \<longleftrightarrow> post = [] \<and> (r = None \<or> (\<exists>e. r = Some (Err e)))
     \<or> (\<exists>i name a b d. post = [ClientRun i, Ran [''podman'', ''stop'', ''--ignore'', name] a,
              Ran [''podman'', ''container'', ''exists'', name] b, Unlocked d]
          \<and> (b = Some (Exited 1) \<and> r = Some (Ok ()) \<or> (\<exists>e. r = Some (Err e))))"

lemma client_cleaned_unlocked:
  assumes "list_all no_client pre"
    and "client_cleaned post r \<and> (r = None \<or> post = []) \<or> (\<exists>q d. post = q @ [Unlocked d] \<and> client_cleaned q r)"
  shows "\<exists>pre' post'. pre @ post = pre' @ post' \<and> list_all no_client pre' \<and> run_cleaned post' r"
proof -
  from assms(2) consider "post = []" "run_cleaned [] r" | "\<exists>d. post = [Unlocked d]" "run_cleaned [] r"
    | "run_cleaned post r"
    by (auto simp: client_cleaned_def run_cleaned_def)
  then show ?thesis
  proof cases
    case 2
    then obtain d where "post = [Unlocked d]" by blast
    then show ?thesis using 2(2) assms(1) by (intro exI [of _ "pre @ [Unlocked d]"] exI [of _ "[]"]) simp
  qed (use assms(1) in blast)+
qed

text \<open>C12: a transient container does not outlive its client unnoticed. Whatever the host does, a
  transient run starts at most one client, and after it stops the container, asks Podman whether it is
  gone, and releases its lock, in this order and with nothing in between; unless Podman answered that
  the container is gone, the command ends in an error. A run that never starts a client does not
  succeed.\<close>

theorem transient_client_cleaned:
  "\<exists>pre post. trace_of (run_run fuel (logged h) runtime args) u = pre @ post \<and> list_all no_client pre
     \<and> (post = [] \<and> (outcome_of (run_run fuel (logged h) runtime args) u = None
            \<or> (\<exists>e. outcome_of (run_run fuel (logged h) runtime args) u = Some (Err e)))
        \<or> (\<exists>i name a b d. post = [ClientRun i, Ran [''podman'', ''stop'', ''--ignore'', name] a,
              Ran [''podman'', ''container'', ''exists'', name] b, Unlocked d]
            \<and> (b = Some (Exited 1) \<and> outcome_of (run_run fuel (logged h) runtime args) u = Some (Ok ())
              \<or> (\<exists>e. outcome_of (run_run fuel (logged h) runtime args) u = Some (Err e)))))"
proof -
  have "ends no_client client_cleaned (attempt_loop (once (prepare_runtime_launch (logged h) rq)) (\<lambda>prep.
      transient_run_execute fuel (logged h) w runtime (f prep) (g prep) (la_agent_args args)))" for rq w f g
    by (intro ends_attempt_loop ends_transient_execute only_intros) (auto simp: reads_def client_cleaned_def)
  note locked = ends_with_lock_loop [OF this]
  have "ends no_client run_cleaned (with_lock_loop (logged h) d (attempt_loop (once (prepare_runtime_launch (logged h) rq))
      (\<lambda>prep. transient_run_execute fuel (logged h) w runtime (f prep) (g prep) (la_agent_args args))))"
    for d rq w f g
    by (rule ends_mono [OF locked client_cleaned_unlocked]) (auto simp: client_cleaned_def)
  then have "ends no_client run_cleaned (run_run fuel (logged h) runtime args)"
    unfolding run_run_def with_locked_workspace_loop_def host_workspace_def Let_def
    by (intro ends_bind ends_attempt_loop only_intros) (auto simp: run_cleaned_def)
  from ends_trace [OF this] show ?thesis unfolding run_cleaned_def .
qed

end
