(* ===== verification/StopLaws.thy ===== *)
theory StopLaws
  imports StopFlow StartRunLaws
begin

text \<open>
  What \<open>agentbox stop\<close> guarantees: it acts under the lock of the root it acts on, a token file is
  removed only once its container is gone, and success means that every container was verified gone.
\<close>

section \<open>One event right before another\<close>

text \<open>\<open>prev\<close> tells whether the event before the list is one of \<open>A\<close>.\<close>

fun preceded :: "(event \<Rightarrow> bool) \<Rightarrow> (event \<Rightarrow> bool) \<Rightarrow> bool \<Rightarrow> event list \<Rightarrow> bool" where
  "preceded A B prev [] = True"
| "preceded A B prev (e # es) = ((B e \<longrightarrow> prev) \<and> preceded A B (A e) es)"

lemma preceded_weaken: "preceded A B False es \<Longrightarrow> preceded A B p es"
  by (cases es) auto

lemma preceded_append: "preceded A B p xs \<Longrightarrow> preceded A B False ys \<Longrightarrow> preceded A B p (xs @ ys)"
  by (induction xs arbitrary: p) (auto intro: preceded_weaken)

lemma preceded_none: "list_all (\<lambda>e. \<not> B e) es \<Longrightarrow> preceded A B p es"
  by (induction es arbitrary: p) auto

lemma preceded_split:
  "preceded A B False es \<longleftrightarrow> (\<forall>xs e ys. es = xs @ e # ys \<longrightarrow> B e \<longrightarrow> xs \<noteq> [] \<and> A (last xs))"
proof -
  have "preceded A B p es \<longleftrightarrow>
      (\<forall>xs e ys. es = xs @ e # ys \<longrightarrow> B e \<longrightarrow> (if xs = [] then p else A (last xs)))" for p
  proof (induction es arbitrary: p)
    case (Cons f fs)
    show ?case
    proof (intro iffI allI impI)
      fix xs e ys
      assume "preceded A B p (f # fs)" "f # fs = xs @ e # ys" "B e"
      then show "if xs = [] then p else A (last xs)"
        using Cons.IH [of "A f"] by (cases xs) (auto split: if_splits)
    next
      assume *: "\<forall>xs e ys. f # fs = xs @ e # ys \<longrightarrow> B e \<longrightarrow> (if xs = [] then p else A (last xs))"
      have "B f \<longrightarrow> p" using * [rule_format, of "[]" f fs] by auto
      moreover have "preceded A B (A f) fs"
        unfolding Cons.IH
      proof (intro allI impI)
        fix xs e ys
        assume "fs = xs @ e # ys" "B e"
        then show "if xs = [] then A f else A (last xs)" using * [rule_format, of "f # xs" e ys] by auto
      qed
      ultimately show "preceded A B p (f # fs)" by simp
    qed
  qed simp
  note this [of False]
  also have "(\<forall>xs e ys. es = xs @ e # ys \<longrightarrow> B e \<longrightarrow> (if xs = [] then False else A (last xs))) \<longleftrightarrow>
      (\<forall>xs e ys. es = xs @ e # ys \<longrightarrow> B e \<longrightarrow> xs \<noteq> [] \<and> A (last xs))" by (intro iff_allI) simp
  finally show ?thesis .
qed

definition adjoins :: "(event \<Rightarrow> bool) \<Rightarrow> (event \<Rightarrow> bool) \<Rightarrow> ('w \<times> event list, 'a) io \<Rightarrow> bool" where
  "adjoins A B m \<longleftrightarrow> state_io_rel (\<lambda>s s'. \<exists>es. snd s' = snd s @ es \<and> preceded A B False es) m"

named_theorems adjoins_intros \<open>adjacency in composed operations\<close>

lemma adjoinsD:
  "adjoins A B m \<Longrightarrow> run_state m s = (a, s') \<Longrightarrow> \<exists>es. snd s' = snd s @ es \<and> preceded A B False es"
  by (auto simp: adjoins_def)

lemma adjoinsI:
  "(\<And>s a s'. run_state m s = (a, s') \<Longrightarrow> \<exists>es. snd s' = snd s @ es \<and> preceded A B False es) \<Longrightarrow> adjoins A B m"
  by (auto simp: adjoins_def)

lemma adjoins_trace: "adjoins A B m \<Longrightarrow> preceded A B False (trace_of m w)"
  by (cases "run_state m (w, [])") (auto simp: trace_of_def dest!: adjoinsD)

lemma adjoins_only: "only P m \<Longrightarrow> (\<And>e. P e \<Longrightarrow> \<not> B e) \<Longrightarrow> adjoins A B m"
  by (rule adjoinsI) (drule (1) onlyD, auto intro!: preceded_none simp: list_all_iff)

lemma adjoins_pure [adjoins_intros]: "adjoins A B (pure x)"
  by (auto intro!: adjoinsI)

lemma adjoins_bind [adjoins_intros]:
  "adjoins A B m \<Longrightarrow> (\<And>x. adjoins A B (f x)) \<Longrightarrow> adjoins A B (do { x \<leftarrow> m; f x })"
proof (rule adjoinsI)
  fix s b s'
  assume m: "adjoins A B m" and f: "\<And>x. adjoins A B (f x)"
    and "run_state (do { x \<leftarrow> m; f x }) s = (b, s')"
  then obtain a t where "run_state m s = (a, t)" "run_state (f a) t = (b, s')"
    by (auto split: prod.splits)
  then obtain es fs where "snd t = snd s @ es" "preceded A B False es" "snd s' = snd t @ fs"
      "preceded A B False fs"
    using m f adjoinsD by metis
  then show "\<exists>es. snd s' = snd s @ es \<and> preceded A B False es"
    by (intro exI [of _ "es @ fs"]) (simp add: preceded_append)
qed

lemma adjoins_attempt [adjoins_intros]:
  "adjoins A B m \<Longrightarrow> (\<And>x. adjoins A B (f x)) \<Longrightarrow> adjoins A B (attempt m f)"
  unfolding attempt_def by (rule adjoins_bind) (auto intro: adjoins_pure split: sum.splits)

lemma adjoins_map_io [adjoins_intros]: "adjoins A B m \<Longrightarrow> adjoins A B (map_io f m)"
  unfolding map_io_def by (intro adjoins_intros)

lemma adjoins_if [adjoins_intros]: "adjoins A B m \<Longrightarrow> adjoins A B n \<Longrightarrow> adjoins A B (if c then m else n)"
  by simp

lemma adjoins_with_locked_git_root [adjoins_intros]:
  assumes "adjoins A B op" and "\<And>g. \<not> B (Locked g)" "\<And>g. \<not> B (Unlocked g)"
  shows "adjoins A B (with_locked_git_root (logged h) root op)"
  unfolding with_locked_git_root_def with_lock_def
  using assms(2,3) by (intro adjoins_intros assms(1)) (rule adjoins_only [of "\<lambda>e. \<not> B e"]; auto intro: only_intros)+

section \<open>Cleaning up containers\<close>

definition gone :: "string \<Rightarrow> event" where
  "gone name = Ran [''podman'', ''container'', ''exists'', name] (Some (Exited 1))"

definition verified_gone :: "event \<Rightarrow> bool" where
  "verified_gone e \<longleftrightarrow> (\<exists>name. e = gone name)"

definition removes_token :: "event \<Rightarrow> bool" where
  "removes_token e \<longleftrightarrow> (\<exists>d. e = TokenRemoved d)"

lemma removes_token_simps [simp]:
  "removes_token (TokenRemoved d)" "\<not> removes_token (Ran argv st)" "\<not> removes_token (Locked d)"
  "\<not> removes_token (Unlocked d)" "\<not> removes_token (Slept n)" "\<not> removes_token (FileRemoved f)"
  by (auto simp: removes_token_def)

lemma reads_keep_tokens: "reads e \<Longrightarrow> \<not> removes_token e"
  by (auto simp: removes_token_def reads_def)

lemma cleanup_container_logged:
  assumes "run_state (cleanup_managed_container (logged h) s) (w, l) = (f, (w', l'))"
  shows "\<exists>a b rest. l' = l @ Ran [''podman'', ''stop'', ''--ignore'', sr_container_name s] a
        # Ran [''podman'', ''container'', ''exists'', sr_container_name s] b # rest
    \<and> (f = None \<longrightarrow> b = Some (Exited 1)) \<and> (rest = [] \<or> f = None \<and> (\<exists>d. rest = [TokenRemoved d]))"
proof -
  obtain c w1 l1 where c: "run_state (stop_and_verify (logged h) (sr_container_name s)) (w, l) = (c, (w1, l1))"
    by (metis prod.exhaust)
  obtain a b where ab: "l1 = l @ [Ran [''podman'', ''stop'', ''--ignore'', sr_container_name s] a,
      Ran [''podman'', ''container'', ''exists'', sr_container_name s] b]"
      "container_removed c \<longrightarrow> b = Some (Exited 1)"
    using stop_and_verify_logged [OF c] by blast
  have f: "f = remaining_failure c (sr_container_name s)"
    using assms c by (auto simp: cleanup_managed_container_def Let_def split: if_splits prod.splits)
  have "l' = l1 \<or> f = None \<and> (\<exists>d. l' = l1 @ [TokenRemoved d])"
    using assms c f
    by (auto simp: cleanup_managed_container_def Let_def remove_codex_attach_token_for_session_def
        logged_def record_op_def split: if_splits option.splits prod.splits)
  then show ?thesis using ab f by (auto simp: remaining_failure_None)
qed

lemma only_cleanup_managed_container:
  assumes "\<And>argv st. P (Ran argv st)" and "\<And>d. P (TokenRemoved d)"
  shows "only P (cleanup_managed_container (logged h) s)"
proof (rule onlyI)
  fix st a st'
  assume "run_state (cleanup_managed_container (logged h) s) st = (a, st')"
  then have "run_state (cleanup_managed_container (logged h) s) (fst st, snd st) = (a, (fst st', snd st'))" by simp
  from cleanup_container_logged [OF this] show "\<exists>es. snd st' = snd st @ es \<and> list_all P es"
    using assms by fastforce
qed

lemma only_cleanup_managed_containers [only_intros]:
  assumes "\<And>argv st. P (Ran argv st)" and "\<And>d. P (TokenRemoved d)"
  shows "only P (cleanup_managed_containers (logged h) ss)"
  by (induction ss) (auto intro!: only_intros only_cleanup_managed_container assms)

lemma adjoins_cleanup [adjoins_intros]: "adjoins verified_gone removes_token (cleanup_managed_containers (logged h) ss)"
proof (induction ss)
  case (Cons s ss)
  have "adjoins verified_gone removes_token (cleanup_managed_container (logged h) s)"
  proof (rule adjoinsI)
    fix st a st'
    assume "run_state (cleanup_managed_container (logged h) s) st = (a, st')"
    then have "run_state (cleanup_managed_container (logged h) s) (fst st, snd st) = (a, (fst st', snd st'))" by simp
    from cleanup_container_logged [OF this]
    show "\<exists>es. snd st' = snd st @ es \<and> preceded verified_gone removes_token False es"
      by (fastforce simp: verified_gone_def gone_def)
  qed
  then show ?case using Cons by (auto intro!: adjoins_intros)
qed (auto intro: adjoins_intros)

lemma cleanup_containers_gone:
  assumes "run_state (cleanup_managed_containers (logged h) ss) (w, l) = ([], (w', l'))"
  shows "\<exists>es. l' = l @ es \<and> list_all (\<lambda>s. gone (sr_container_name s) \<in> set es) ss"
  using assms
proof (induction ss arbitrary: w l)
  case (Cons s ss)
  obtain f w1 l1 where f: "run_state (cleanup_managed_container (logged h) s) (w, l) = (f, (w1, l1))"
    by (metis prod.exhaust)
  then have r: "f = None" "run_state (cleanup_managed_containers (logged h) ss) (w1, l1) = ([], (w', l'))"
    using Cons.prems by (auto simp: option_list_def split: prod.splits option.splits)
  obtain es where "l1 = l @ es" "gone (sr_container_name s) \<in> set es"
    using cleanup_container_logged [OF f] r(1) by (auto simp: gone_def)
  then show ?case using Cons.IH [OF r(2)] by (auto simp: list_all_iff)
qed simp


section \<open>Locks\<close>

lemma only_scope_cleanup [only_intros]: "only acts (scope_cleanup (logged h) scope root ss)"
  by (cases scope)
    (auto simp: cleanup_selected_sessions_def cleanup_running_exact_matches_for_locked_root_def reads_acts
      intro!: only_intros)

lemma only_stop_exact_locked [only_intros]: "only acts (stop_exact_locked (logged h) plan force tgt)"
  unfolding stop_exact_locked_def cleanup_selected_sessions_def Let_def
  by (intro only_intros) (auto simp: reads_acts)

lemma disciplined_groups [lock_intros]:
  "disciplined (\<lambda>_. True) (cleanup_rooted_session_groups (logged h) gs scope)"
  by (induction gs) (auto intro!: lock_intros only_intros)

lemma disciplined_resolve_stop_plan [lock_intros]:
  "disciplined returned (resolve_stop_plan sha (State (filesystem (logged h))) tgt (discover_agentbox_containers (logged h)))"
  unfolding resolve_stop_plan_def
  by (intro disciplined_reads) (auto intro!: only_intros split: resolved_session_target.splits)

lemma disciplined_stop_target [lock_intros]: "disciplined (\<lambda>_. True) (stop_target (logged h) tgt force)"
proof -
  have "disciplined (\<lambda>_. True) (stop_exact_git_root_matches (logged h) p force tgt)" for p
    unfolding stop_exact_git_root_matches_def by (intro lock_intros only_intros)
  moreover have "disciplined (\<lambda>_. True) (stop_stable_id (logged h) p force tgt)" for p
    unfolding stop_stable_id_def cleanup_stable_id_matches_def by (intro lock_intros)
  ultimately show ?thesis
    unfolding stop_target_def
    by (intro lock_intros) (auto split: stop_session_target_plan.splits)
qed

lemma disciplined_stop_targets: "disciplined (\<lambda>_. True) (stop_targets (logged h) ts force)"
proof -
  have "disciplined (\<lambda>_. True) (stop_each (logged h) ts force)" for ts
    by (induction ts) (auto intro!: lock_intros)
  then show ?thesis
    unfolding stop_targets_def by (auto intro!: lock_intros split: list.splits)
qed

section \<open>Tokens\<close>

lemma adjoins_reads: "only reads m \<Longrightarrow> adjoins A removes_token m"
  by (rule adjoins_only [of reads]) (auto simp: reads_keep_tokens)

lemma adjoins_discoveries [adjoins_intros]:
  "adjoins A removes_token (discover_agentbox_containers (logged h))"
  "adjoins A removes_token (discover_sessions_of_root (logged h) root)"
  "adjoins A removes_token (State (filesystem (logged h)))"
  by (rule adjoins_reads; intro only_intros; assumption)+

lemma adjoins_scope_cleanup [adjoins_intros]:
  "adjoins verified_gone removes_token (scope_cleanup (logged h) scope root ss)"
  by (cases scope)
    (auto simp: cleanup_selected_sessions_def cleanup_running_exact_matches_for_locked_root_def
      intro!: adjoins_intros)

lemma adjoins_groups [adjoins_intros]:
  "adjoins verified_gone removes_token (cleanup_rooted_session_groups (logged h) gs scope)"
  by (induction gs) (auto intro!: adjoins_intros)

lemma adjoins_stop_target [adjoins_intros]:
  "adjoins verified_gone removes_token (stop_target (logged h) tgt force)"
proof -
  have "adjoins verified_gone removes_token (stop_exact_git_root_matches (logged h) p force tgt)" for p
    unfolding stop_exact_git_root_matches_def stop_exact_locked_def cleanup_selected_sessions_def Let_def
    by (intro adjoins_intros) simp_all
  moreover have "adjoins verified_gone removes_token (stop_stable_id (logged h) p force tgt)" for p
    unfolding stop_stable_id_def cleanup_stable_id_matches_def by (intro adjoins_intros)
  moreover have "adjoins verified_gone removes_token (resolve_stop_plan sha (State (filesystem (logged h))) tgt
      (discover_agentbox_containers (logged h)))" for sha
    unfolding resolve_stop_plan_def
    by (auto intro!: adjoins_intros split: resolved_session_target.splits)
  ultimately show ?thesis
    unfolding stop_target_def
    by (auto intro!: adjoins_intros split: stop_session_target_plan.splits)
qed

lemma adjoins_stop_targets: "adjoins verified_gone removes_token (stop_targets (logged h) ts force)"
proof -
  have "adjoins verified_gone removes_token (stop_each (logged h) ts force)" for ts
    by (induction ts) (auto intro!: adjoins_intros)
  then show ?thesis
    unfolding stop_targets_def by (auto intro!: adjoins_intros split: list.splits)
qed

lemma adjoins_stop_all: "adjoins verified_gone removes_token (stop_all_running (logged h))"
  unfolding stop_all_running_def cleanup_all_running_matches_def Let_def
  by (intro adjoins_intros)

text \<open>C14: a stop removes an attach token only right after Podman answered that a container is gone.\<close>

theorem token_removed_when_gone:
  "preceded verified_gone removes_token False (trace_of (stop_targets (logged h) targets force) w)
   \<and> preceded verified_gone removes_token False (trace_of (stop_all_running (logged h)) w)"
  by (intro conjI adjoins_trace adjoins_stop_targets adjoins_stop_all)


section \<open>Groups\<close>

abbreviation root_key :: "session_record \<Rightarrow> component list option" where
  "root_key s \<equiv> map_option components (sr_git_root s)"

text \<open>What the group map holds after the sessions \<open>ss\<close>.\<close>

definition groups_of :: "session_record list \<Rightarrow> group_map \<Rightarrow> bool" where
  "groups_of ss m \<longleftrightarrow> bt_wf m \<and> (\<forall>k. case bt_get m k of
       None \<Rightarrow> filter (\<lambda>s. root_key s = Some k) ss = []
     | Some (r, xs) \<Rightarrow> components r = k \<and> xs \<noteq> [] \<and> xs = filter (\<lambda>s. root_key s = Some k) ss)"

lemma groups_of_push:
  assumes "groups_of ss m" and "sr_git_root s = Some root"
  shows "groups_of (ss @ [s]) (group_push root s m)"
proof -
  have wf: "bt_wf (group_push root s m)"
    using assms(1) by (auto simp: groups_of_def group_push_def bt_wf_insert split: option.splits prod.splits)
  have "case bt_get (group_push root s m) k of
       None \<Rightarrow> filter (\<lambda>s. root_key s = Some k) (ss @ [s]) = []
     | Some (r, xs) \<Rightarrow> components r = k \<and> xs \<noteq> [] \<and> xs = filter (\<lambda>s. root_key s = Some k) (ss @ [s])" for k
  proof -
    have "case bt_get m k of
       None \<Rightarrow> filter (\<lambda>s. root_key s = Some k) ss = []
     | Some (r, xs) \<Rightarrow> components r = k \<and> xs \<noteq> [] \<and> xs = filter (\<lambda>s. root_key s = Some k) ss"
      using assms(1) by (simp add: groups_of_def)
    then show ?thesis
      using assms(2)
      by (cases "k = components root"; cases "bt_get m k")
        (auto simp: group_push_def bt_get_insert split: option.splits prod.splits)
  qed
  then show ?thesis using wf unfolding groups_of_def by blast
qed

lemma groups_of_skip:
  assumes "groups_of ss m" "sr_git_root s = None" shows "groups_of (ss @ [s]) m"
proof -
  have "filter (\<lambda>x. root_key x = Some k) (ss @ [s]) = filter (\<lambda>x. root_key x = Some k) ss" for k
    using assms(2) by simp
  note skip = this
  show ?thesis using assms(1) unfolding groups_of_def skip .
qed

lemma groups_ofD:
  assumes "groups_of ss m"
  shows "bt_get m k = Some (r, xs) \<Longrightarrow> components r = k \<and> xs \<noteq> [] \<and> xs = filter (\<lambda>s. root_key s = Some k) ss"
    and "bt_get m k = None \<Longrightarrow> filter (\<lambda>s. root_key s = Some k) ss = []"
  using assms unfolding groups_of_def by (auto dest!: spec [of _ k])

lemma partition_loop_exact:
  "groups_of ss m \<Longrightarrow> un = filter (\<lambda>s. sr_git_root s = None) ss \<Longrightarrow>
     groups_of (ss @ ts) (fst (partition_loop ts m un))
     \<and> snd (partition_loop ts m un) = filter (\<lambda>s. sr_git_root s = None) (ss @ ts)"
proof (induction ts m un arbitrary: ss rule: partition_loop.induct)
  case (2 t ts m un)
  show ?case
  proof (cases "sr_git_root t")
    case None
    then show ?thesis using 2(1) [OF None groups_of_skip [OF 2(3) None]] 2(4) by simp
  next
    case (Some root)
    then show ?thesis using 2(2) [OF Some groups_of_push [OF 2(3) Some]] 2(4) by simp
  qed
qed simp

lemma root_key_root_is: "root_is s r \<longleftrightarrow> root_key s = Some (components r)"
  by (auto simp: root_is_def path_eq_def split: option.splits)

lemma partition_facts:
  "unrooted (partition_sessions_by_git_root ss) = filter (\<lambda>s. sr_git_root s = None) ss"
  "g \<in> set (rooted (partition_sessions_by_git_root ss)) \<Longrightarrow>
     grp_sessions g \<noteq> [] \<and> grp_sessions g = filter (\<lambda>s. root_is s (grp_root g)) ss"
  "sorted_wrt (<) (map (\<lambda>g. components (grp_root g)) (rooted (partition_sessions_by_git_root ss)))"
  "s \<in> set ss \<Longrightarrow> sr_git_root s = Some r \<Longrightarrow>
     \<exists>g \<in> set (rooted (partition_sessions_by_git_root ss)). path_eq r (grp_root g) \<and> s \<in> set (grp_sessions g)"
proof -
  obtain m un where p: "partition_loop ss [] [] = (m, un)" by force
  have m: "groups_of ss m" "un = filter (\<lambda>s. sr_git_root s = None) ss"
    using partition_loop_exact [of "[]" "[]" "[]" ss] p by (simp_all add: groups_of_def)
  let ?p = "partition_sessions_by_git_root ss"
  have rooted: "rooted ?p = map (\<lambda>(_, root, ss). \<lparr>grp_root = root, grp_sessions = ss\<rparr>) m"
    and un: "unrooted ?p = un" by (simp_all add: partition_sessions_by_git_root_def p)
  show "unrooted ?p = filter (\<lambda>s. sr_git_root s = None) ss" using un m by simp
  have entry: "components r = k \<and> xs \<noteq> [] \<and> xs = filter (\<lambda>s. root_key s = Some k) ss"
    if "(k, r, xs) \<in> set m" for k r xs
  proof -
    have "bt_get m k = Some (r, xs)" using that m(1) by (simp add: groups_of_def bt_entries_get)
    then show ?thesis by (rule groups_ofD(1) [OF m(1)])
  qed
  show "grp_sessions g \<noteq> [] \<and> grp_sessions g = filter (\<lambda>s. root_is s (grp_root g)) ss"
    if "g \<in> set (rooted ?p)"
    using that entry by (auto simp: rooted root_key_root_is)
  have "map (\<lambda>g. components (grp_root g)) (rooted ?p) = map fst m"
    using entry by (auto simp: rooted)
  then show "sorted_wrt (<) (map (\<lambda>g. components (grp_root g)) (rooted ?p))"
    using m(1) by (simp add: groups_of_def bt_wf_def)
  show "\<exists>g \<in> set (rooted ?p). path_eq r (grp_root g) \<and> s \<in> set (grp_sessions g)"
    if s: "s \<in> set ss" "sr_git_root s = Some r"
  proof -
    have "filter (\<lambda>s. root_key s = Some (components r)) ss \<noteq> []"
      using s by (auto simp: filter_empty_conv)
    then obtain r' xs where "bt_get m (components r) = Some (r', xs)"
      using groups_ofD(2) [OF m(1)] by (cases "bt_get m (components r)") auto
    then have e: "(components r, r', xs) \<in> set m" using m(1) by (simp add: groups_of_def bt_entries_get)
    then show ?thesis
      using entry [OF e] s by (intro bexI [of _ "\<lparr>grp_root = r', grp_sessions = xs\<rparr>"])
        (auto simp: rooted path_eq_def image_iff intro!: bexI [OF _ e])
  qed
qed

text \<open>Partitioning sessions by root loses and invents none: the unrooted ones are exactly those
  without a root, every group holds exactly the sessions of its root in their order, the groups'
  roots are strictly increasing, and they are the roots of the sessions.\<close>

lemma partition_exact:
  "unrooted (partition_sessions_by_git_root ss) = filter (\<lambda>s. sr_git_root s = None) ss
   \<and> map grp_sessions (rooted (partition_sessions_by_git_root ss))
       = map (\<lambda>g. filter (\<lambda>s. root_is s (grp_root g)) ss) (rooted (partition_sessions_by_git_root ss))
   \<and> sorted_wrt (<) (map (\<lambda>g. components (grp_root g)) (rooted (partition_sessions_by_git_root ss)))
   \<and> components ` grp_root ` set (rooted (partition_sessions_by_git_root ss))
       = components ` set (filter_map sr_git_root ss)"
proof (intro conjI)
  let ?gs = "rooted (partition_sessions_by_git_root ss)"
  show "map grp_sessions ?gs = map (\<lambda>g. filter (\<lambda>s. root_is s (grp_root g)) ss) ?gs"
    using partition_facts(2) by simp
  show "components ` grp_root ` set ?gs = components ` set (filter_map sr_git_root ss)"
  proof (intro set_eqI iffI)
    fix k
    assume "k \<in> components ` grp_root ` set ?gs"
    then obtain g where g: "g \<in> set ?gs" "k = components (grp_root g)" by blast
    then obtain s where "s \<in> set ss" "root_is s (grp_root g)"
      using partition_facts(2) [OF g(1)] by (metis filter_False)
    then show "k \<in> components ` set (filter_map sr_git_root ss)"
      using g(2) by (auto simp: root_is_def path_eq_def set_filter_map image_iff split: option.splits)
  next
    fix k
    assume "k \<in> components ` set (filter_map sr_git_root ss)"
    then obtain s r where "s \<in> set ss" "sr_git_root s = Some r" "k = components r"
      by (auto simp: set_filter_map)
    then show "k \<in> components ` grp_root ` set ?gs"
      using partition_facts(4) by (metis image_eqI path_eq_def)
  qed
qed (rule partition_facts)+


section \<open>Success\<close>

text \<open>All of these sessions' containers were verified gone during the events.\<close>

definition all_gone :: "event list \<Rightarrow> session_record list \<Rightarrow> bool" where
  "all_gone es ss \<longleftrightarrow> list_all (\<lambda>s. gone (sr_container_name s) \<in> set es) ss"

lemma all_gone_mono: "all_gone es ss \<Longrightarrow> set es \<subseteq> set fs \<Longrightarrow> set ts \<subseteq> set ss \<Longrightarrow> all_gone fs ts"
  by (auto simp: all_gone_def list_all_iff)

lemma selected_gone:
  assumes "run_state (with_locked_git_root (logged h) root (cleanup_selected_sessions (logged h) ss)) (w, l) = (Ok [], (w', l'))"
  shows "\<exists>es. l' = l @ es \<and> all_gone es ss"
proof -
  obtain w1 w2 l2 where "run_state (cleanup_selected_sessions (logged h) ss)
      (w1, l @ [Locked (git_root_digest64 (sha256 (host_build (logged h))) root)]) = (Ok [], (w2, l2))"
      "l' = l2 @ [Unlocked (git_root_digest64 (sha256 (host_build (logged h))) root)]"
    using run_with_lock [of h "git_root_digest64 (sha256 (host_build (logged h))) root"] assms
    unfolding with_locked_git_root_def by fastforce
  then show ?thesis
    using cleanup_containers_gone by (fastforce simp: cleanup_selected_sessions_def run_map_io all_gone_def
        list_all_iff split: prod.splits)
qed

lemma groups_gone:
  assumes "run_state (cleanup_rooted_session_groups (logged h) gs SelectedSessions) (w, l) = (Ok [], (w', l'))"
  shows "\<exists>es. l' = l @ es \<and> list_all (\<lambda>g. all_gone es (grp_sessions g)) gs"
  using assms
proof (induction gs arbitrary: w l)
  case (Cons g gs)
  then obtain w1 l1 where r: "run_state (with_locked_git_root (logged h) (grp_root g)
        (cleanup_selected_sessions (logged h) (grp_sessions g))) (w, l) = (Ok [], (w1, l1))"
      "run_state (cleanup_rooted_session_groups (logged h) gs SelectedSessions) (w1, l1) = (Ok [], (w', l'))"
    by (auto simp: run_attempt run_map_io map_ok_eq_Ok split: prod.splits sum.splits)
  obtain es where "l1 = l @ es" "all_gone es (grp_sessions g)" using selected_gone [OF r(1)] by blast
  moreover obtain fs where "l' = l1 @ fs" "list_all (\<lambda>g. all_gone fs (grp_sessions g)) gs"
    using Cons.IH [OF r(2)] by blast
  ultimately show ?case
    by (intro exI [of _ "es @ fs"]) (auto simp: list_all_iff intro: all_gone_mono)
qed simp

lemma finish_cleanup_Ok [simp]: "finish_cleanup identity failures = Ok () \<longleftrightarrow> failures = []"
  by (simp add: finish_cleanup_def)

lemma length_one: "xs \<noteq> [] \<Longrightarrow> \<not> Suc 0 < length xs \<Longrightarrow> length xs = Suc 0"
  by (cases xs) auto

lemma stop_root_success:
  assumes "run_state (stop_exact_git_root_matches (logged h) plan force tgt) (w, l) = (Ok (), (w', l'))"
  shows "\<exists>es discovered scope s1 s2. l' = l @ es
     \<and> run_state (discover_io (logged h) scope AgentboxOwned) s1 = (Ok discovered, s2)
     \<and> exact_git_root_matches discovered (se_git_root plan) \<noteq> []
     \<and> (length (exact_git_root_matches discovered (se_git_root plan)) = 1 \<or> force)
     \<and> all_gone es (exact_git_root_matches discovered (se_git_root plan))"
proof -
  let ?d = "git_root_digest64 (sha256 (host_build (logged h))) (se_git_root plan)"
  obtain w0 l0 where "run_state (with_lock (logged h) ?d (stop_exact_locked (logged h) plan force tgt)) (w, l)
      = (Ok [], (w0, l0))" "l' = l0"
    using assms by (auto simp: stop_exact_git_root_matches_def with_locked_git_root_def result_simps)
  then obtain w1 w2 l2 where op: "run_state (stop_exact_locked (logged h) plan force tgt) (w1, l @ [Locked ?d])
      = (Ok [], (w2, l2))" "l' = l2 @ [Unlocked ?d]"
    using run_with_lock [of h ?d] by fastforce
  obtain discovered w3 l3 where disc: "run_state (if uses_locked_root_scope plan
        then discover_sessions_of_root (logged h) (se_git_root plan) else discover_agentbox_containers (logged h))
      (w1, l @ [Locked ?d]) = (Ok discovered, (w3, l3))"
    and rest: "require_non_empty_matches plan (exact_matches_from plan discovered) = Ok ()"
      "require_force_for_matches plan (length (exact_matches_from plan discovered)) force tgt = Ok ()"
      "run_state (cleanup_managed_containers (logged h) (exact_matches_from plan discovered)) (w3, l3) = ([], (w2, l2))"
    using op(1) by (auto simp: stop_exact_locked_def cleanup_selected_sessions_def Let_def result_simps
        split del: if_split)
  obtain scope where "run_state (discover_io (logged h) scope AgentboxOwned) (w1, l @ [Locked ?d])
      = (Ok discovered, (w3, l3))"
    using disc by (auto simp: discover_sessions_of_root_def discover_root_def
        discover_agentbox_containers_def split: if_splits)
  moreover obtain pre where "l3 = l @ pre"
    using onlyD [OF _ disc, of "\<lambda>_. True"] by (auto intro: only_intros)
  moreover obtain es where "l2 = l3 @ es" "all_gone es (exact_matches_from plan discovered)"
    using cleanup_containers_gone [OF rest(3)] by (auto simp: all_gone_def)
  ultimately show ?thesis
    using rest(1,2) op(2)
    by (intro exI [of _ "pre @ es @ [Unlocked ?d]"] exI [of _ discovered] exI [of _ scope])
      (auto simp: exact_matches_from_def require_non_empty_matches_def require_force_for_matches_def
        require_force_for_duplicate_matches_def split: if_splits intro: all_gone_mono length_one)
qed

lemma stop_id_success:
  assumes "run_state (stop_stable_id (logged h) plan force tgt) (w, l) = (Ok (), (w', l'))"
    and "filter (\<lambda>s. sr_git_root s = None) (ss_sessions plan) = []"
  shows "\<exists>es. l' = l @ es \<and> all_gone es (ss_sessions plan) \<and> (ss_has_duplicates plan \<longrightarrow> force)"
proof -
  let ?p = "partition_sessions_by_git_root (ss_sessions plan)"
  have r: "require_force plan force tgt = Ok ()"
      "run_state (cleanup_rooted_session_groups (logged h) (rooted ?p) SelectedSessions) (w, l) = (Ok [], (w', l'))"
    using assms(1) by (auto simp: stop_stable_id_def cleanup_stable_id_matches_def result_simps)
  obtain es where es: "l' = l @ es" "list_all (\<lambda>g. all_gone es (grp_sessions g)) (rooted ?p)"
    using groups_gone [OF r(2)] by blast
  have "gone (sr_container_name s) \<in> set es" if s: "s \<in> set (ss_sessions plan)" for s
  proof -
    obtain root where "sr_git_root s = Some root" using s assms(2) by (auto simp: filter_empty_conv)
    from partition_facts(4) [OF s this] obtain g where "g \<in> set (rooted ?p)" "s \<in> set (grp_sessions g)" by blast
    then show ?thesis using es(2) by (auto simp: all_gone_def list_all_iff)
  qed
  then show ?thesis
    using es(1) r(1) by (intro exI [of _ es]) (auto simp: all_gone_def list_all_iff require_force_def
        require_force_for_duplicate_matches_def split: if_splits)
qed

text \<open>C13: a stop that succeeds left nothing running. When stopping a workspace succeeds, containers of
  exactly that root existed, there was one of them or the stop was forced, and each of them was verified
  gone; when stopping by a stable id succeeds, every container that carries the id was verified gone, and
  the stop was forced if there were duplicates.\<close>

theorem stop_success:
  "(run_state (stop_exact_git_root_matches (logged h) plan force tgt) (w, l) = (Ok (), (w', l')) \<longrightarrow>
      (\<exists>es discovered scope s1 s2. l' = l @ es
        \<and> run_state (discover_io (logged h) scope AgentboxOwned) s1 = (Ok discovered, s2)
        \<and> exact_git_root_matches discovered (se_git_root plan) \<noteq> []
        \<and> (length (exact_git_root_matches discovered (se_git_root plan)) = 1 \<or> force)
        \<and> all_gone es (exact_git_root_matches discovered (se_git_root plan))))
   \<and> (run_state (stop_stable_id (logged h) idplan force tgt) (w, l) = (Ok (), (w', l'))
       \<and> filter (\<lambda>s. sr_git_root s = None) (ss_sessions idplan) = [] \<longrightarrow>
      (\<exists>es. l' = l @ es \<and> all_gone es (ss_sessions idplan) \<and> (ss_has_duplicates idplan \<longrightarrow> force)))"
  using stop_root_success [of h plan force tgt w l w' l'] stop_id_success [of h idplan force tgt w l w' l'] by blast

section \<open>Instances\<close>

definition sample_plan :: stop_exact_git_root_target where
  "sample_plan = \<lparr>se_git_root = ''/w'', se_mode = ExactStoredPath\<rparr>"

lemma mark_single: "mark_duplicate_sessions [s] = [s]"
  by (simp add: mark_duplicate_sessions_def mark_if_duplicate_def bt_get_incr split: option.splits)

lemma sample_remove_token [sample_simps]:
  "run_state (remove_codex_attach_token_for_session (sample_log cs k) s) (t, l) =
     (Ok (), (t, l @ (if sr_runtime_kind s = Some Codex then (case sr_git_root s of None \<Rightarrow> []
        | Some root \<Rightarrow> [TokenRemoved (git_root_digest64 (\<lambda>_. 0) root)]) else [])))"
  by (simp add: remove_codex_attach_token_for_session_def sample_simps split: option.splits)

lemma sample_discover_run [sample_simps]:
  "run_state (discover_io (sample_log [sample_container run_marker] k) AllSessions AgentboxOwned) (t, l) =
     (Ok [build_session_record (\<lambda>_. 0) sample_probe (sample_container run_marker) (sample_server k) Run],
      (t, l @ [Ran (podman_argv [''ps'', ''--all'', ''--format'', ''json'']) (Some (Exited 0)),
         Ran (podman_argv [''container'', ''inspect'', ''c1'']) (Some (Exited 0))]))"
  by (simp add: discover_io_def run_attempt sample_simps ps_candidate_def new_collector_def
      collect_session_def finish_collector_def mark_single)

lemma sample_stop:
  "\<exists>l'. run_state (stop_exact_git_root_matches (sample_log [sample_container run_marker] Opencode) sample_plan False
         (CliTarget ''/w'')) (0, []) = (Ok (), (0, l'))"
  by (simp add: stop_exact_git_root_matches_def with_locked_git_root_def with_lock_def stop_exact_locked_def
      run_attempt sample_simps sample_plan_def uses_locked_root_scope_def discover_agentbox_containers_def
      Let_def exact_matches_from_def exact_git_root_matches_def require_non_empty_matches_def
      require_force_for_matches_def require_force_for_duplicate_matches_def root_is_def
      cleanup_selected_sessions_def run_map_io cleanup_managed_container_def stop_and_verify_def
      remaining_failure_def remaining_container_issue_def option_list_def)

lemma stop_success_witness:
  "\<exists>l' l'' discovered. exact_git_root_matches discovered ''/w'' \<noteq> []
     \<and> run_state (stop_exact_git_root_matches (sample_log [sample_container run_marker] Opencode) sample_plan False
         (CliTarget ''/w'')) (0, []) = (Ok (), (0, l'))
     \<and> all_gone l' (exact_git_root_matches discovered ''/w'')
     \<and> all_gone l'' [sample_session Opencode]"
proof -
  obtain l' where stopped: "run_state (stop_exact_git_root_matches (sample_log [sample_container run_marker] Opencode)
      sample_plan False (CliTarget ''/w'')) (0, []) = (Ok (), (0, l'))"
    using sample_stop by blast
  let ?p = "\<lparr>ss_id = replicate 12 CHR ''0'', ss_sessions = [sample_session Opencode], ss_has_duplicates = False\<rparr>"
  have "\<exists>l'. run_state (stop_stable_id (sample_log [] Opencode) ?p False (StableIdInput ''0'')) (0, []) = (Ok (), (0, l'))"
    by (simp add: stop_stable_id_def require_force_def require_force_for_duplicate_matches_def
        cleanup_stable_id_matches_def partition_sessions_by_git_root_def group_push_def run_attempt
        with_locked_git_root_def with_lock_def sample_simps cleanup_selected_sessions_def run_map_io
        cleanup_managed_container_def stop_and_verify_def remaining_failure_def
        remaining_container_issue_def option_list_def Let_def)
  then obtain l'' where by_id: "run_state (stop_stable_id (sample_log [] Opencode) ?p False (StableIdInput ''0'')) (0, [])
      = (Ok (), (0, l''))" by blast
  obtain discovered where "exact_git_root_matches discovered ''/w'' \<noteq> []"
      "all_gone l' (exact_git_root_matches discovered ''/w'')"
    using conjunct1 [OF stop_success, rule_format, OF stopped] by (auto simp: sample_plan_def)
  moreover have "all_gone l'' [sample_session Opencode]"
    using conjunct2 [OF stop_success, rule_format, of "sample_host [] (sample_server Opencode)" ?p False "StableIdInput ''0''"
        0 "[]" 0 l''] by_id by auto
  ultimately show ?thesis using stopped by blast
qed

end
