(* ===== verification/LaunchLaws.thy ===== *)
theory LaunchLaws
  imports SampleHost
begin

text \<open>
  What a prepared launch guarantees: no container of the workspace existed when it was checked, and
  the container Podman creates from the specification is found again as the session that was asked
  for.
\<close>

section \<open>Existing resources\<close>

lemma ensure_absent_Ok:
  assumes "run_state (ensure_required_resources_absent h w (RequireAbsent scope)) s = (Ok u, s')"
  shows "run_state (discover_existing_resources h w scope) s = (Ok [], s')"
proof -
  obtain ss s1 where d: "run_state (discover_existing_resources h w scope) s = (Ok ss, s1)"
      "run_state (attempt (pure (select_existing_resource ss w scope)) (\<lambda>found. case found of
          Some r \<Rightarrow> map_io Err (existing_session_error h w r) | None \<Rightarrow> pure (Ok ()))) s1 = (Ok u, s')"
    using assms by (auto simp: ensure_required_resources_absent_def result_simps)
  then have none: "select_existing_resource ss w scope = Ok None" "s' = s1"
    by (cases "select_existing_resource ss w scope"; auto simp: run_map_io split: option.splits prod.splits)+
  then have "ss = []"
    by (auto simp: select_existing_resource_def select_single_session_def split: list.splits if_splits)
  then show ?thesis using d(1) none(2) by simp
qed

text \<open>A launch that must not meet an existing resource is prepared only after a discovery in the
  asked scope, of the workspace's git root, returned no container at all.\<close>

lemma launch_requires_absence:
  assumes "run_state (prepare_runtime_launch h rq) s = (Ok prep, s')"
    and "lp_existing_check (rq_policy rq) = RequireAbsent scope"
  shows "\<exists>s1 s2. run_state (discover_existing_resources h (rq_workspace rq) scope) s1 = (Ok [], s2)"
proof -
  obtain cp s1 where "run_state (prepare_container_launch_for_workspace h (rq_workspace rq) (rq_runtime rq)
      (rq_dev_env_mode rq) (rq_policy rq)) s = (Ok cp, s1)"
    using assms(1) by (auto simp: prepare_runtime_launch_def Let_def result_simps)
  then obtain s2 s3 u where "run_state (ensure_required_resources_absent h (rq_workspace rq)
      (RequireAbsent scope)) s2 = (Ok u, s3)"
    using assms(2) by (auto simp: prepare_container_launch_for_workspace_def result_simps)
  from ensure_absent_Ok [OF this] show ?thesis by blast
qed

section \<open>The specification\<close>

lemma cr_labels_simps [simp]:
  "cr_labels (rn_create (insert_create_label n v s)) = bt_insert n v (cr_labels (rn_create s))"
  "cr_labels (rn_create (add_create_mount m s)) = cr_labels (rn_create s)"
  "cr_labels (rn_create (extend_create_default_env e s)) = cr_labels (rn_create s)"
  "cr_resource_limits (rn_create (insert_create_label n v s)) = cr_resource_limits (rn_create s)"
  "cr_resource_limits (rn_create (add_create_mount m s)) = cr_resource_limits (rn_create s)"
  "cr_resource_limits (rn_create (extend_create_default_env e s)) = cr_resource_limits (rn_create s)"
  by (simp_all add: insert_create_label_def add_create_mount_def extend_create_default_env_def)

lemma apply_passthrough_keeps [simp]:
  "cr_labels (rn_create (apply_passthrough p s)) = cr_labels (rn_create s)"
  "cr_resource_limits (rn_create (apply_passthrough p s)) = cr_resource_limits (rn_create s)"
proof -
  have "cr_labels (rn_create (fold add_create_mount ms s)) = cr_labels (rn_create s)
      \<and> cr_resource_limits (rn_create (fold add_create_mount ms s)) = cr_resource_limits (rn_create s)" for ms
    by (induction ms arbitrary: s) simp_all
  then show "cr_labels (rn_create (apply_passthrough p s)) = cr_labels (rn_create s)"
    "cr_resource_limits (rn_create (apply_passthrough p s)) = cr_resource_limits (rn_create s)"
    by (simp_all add: apply_passthrough_def)
qed

lemma version_keeps_limits [simp]:
  "cr_resource_limits (rn_create (record_runtime_image_version k v policy s)) = cr_resource_limits (rn_create s)"
  by (simp add: record_runtime_image_version_def split: option.splits)

lemma mounts_apply_passthrough [simp]:
  "cr_mounts (rn_create (apply_passthrough p s)) = cr_mounts (rn_create s) @ pt_mounts p"
  by (simp add: apply_passthrough_def extend_create_default_env_def add_mounts_fold)

lemma mounts_kept [simp]:
  "cr_mounts (rn_create (extend_create_default_env env s)) = cr_mounts (rn_create s)"
  "cr_mounts (rn_create (record_managed_resource_limits policy s)) = cr_mounts (rn_create s)"
  "cr_mounts (rn_create (record_runtime_image_version k v policy s)) = cr_mounts (rn_create s)"
  by (simp_all add: extend_create_default_env_def record_managed_resource_limits_def
      record_runtime_image_version_def insert_create_label_def Let_def split: option.splits)

lemma mounts_run_spec [simp]:
  "cr_mounts (rn_create (run_spec b j k m w nix mounts i args limits)) = runtime_mounts_for_workspace w nix mounts"
  by (simp add: run_spec_def create_spec_def Let_def)

lemma ports_kept [simp]:
  "cr_published_ports (rn_create (apply_passthrough p s)) = cr_published_ports (rn_create s)"
  "cr_published_ports (rn_create (extend_create_default_env env s)) = cr_published_ports (rn_create s)"
  "cr_published_ports (rn_create (record_managed_resource_limits policy s)) = cr_published_ports (rn_create s)"
  "cr_published_ports (rn_create (record_runtime_image_version k v policy s)) = cr_published_ports (rn_create s)"
  by (simp_all add: apply_passthrough_def add_mounts_fold extend_create_default_env_def
      record_managed_resource_limits_def record_runtime_image_version_def insert_create_label_def Let_def
      split: option.splits)

text \<open>What a preparation puts together, in the order in which it asks for it.\<close>

lemma prepared_spec:
  assumes "run_state (prepare_runtime_launch h rq) s = (Ok prep, s')"
  obtains cp s1 s2 inv' extra s3 where
    "run_state (prepare_container_launch_for_workspace h (rq_workspace rq) (rq_runtime rq)
      (rq_dev_env_mode rq) (rq_policy rq)) s = (Ok cp, s1)"
    "host_passthrough h (rq_git_identity rq) (canonical_git_root (rq_workspace rq)) s2 = (extra, s3)"
    "rlp_run_spec prep =
      record_managed_resource_limits (rq_policy rq)
        (record_runtime_image_version (rq_runtime rq) (clp_image_version cp) (rq_policy rq)
          (apply_passthrough extra (extend_create_default_env (pf_runtime_environment (clp_preflight cp))
            (run_spec (host_build h) (args_to_json h) (rq_runtime rq) (lp_run_mode (rq_policy rq))
              (rq_workspace rq) (pf_host_nix_mounts (clp_preflight cp)) (pf_runtime_mounts (clp_preflight cp))
              inv' (rq_server_args rq) (rq_resource_limits rq)))))"
proof -
  obtain cp s1 where cp: "run_state (prepare_container_launch_for_workspace h (rq_workspace rq) (rq_runtime rq)
      (rq_dev_env_mode rq) (rq_policy rq)) s = (Ok cp, s1)"
    using assms by (auto simp: prepare_runtime_launch_def Let_def result_simps)
  obtain token s2 where token: "run_state (prepare_codex_attach_token h (rq_runtime rq)
      (lp_run_mode (rq_policy rq)) (rq_workspace rq)) s1 = (Ok token, s2)"
    using assms cp by (auto simp: prepare_runtime_launch_def Let_def result_simps)
  obtain inv' where inv': "build_runtime_invocation (rq_invocation rq) (rq_runtime rq) (rq_workspace rq)
      (clp_dev_env cp) token (rq_server_args rq) = Ok inv'"
    using assms cp token by (auto simp: prepare_runtime_launch_def Let_def result_simps)
  obtain extra s3 where extra: "host_passthrough h (rq_git_identity rq) (canonical_git_root (rq_workspace rq)) s2
      = (extra, s3)" by force
  show thesis
    by (rule that [OF cp extra, where ?inv'=inv'])
      (use assms cp token inv' extra in \<open>auto simp: prepare_runtime_launch_def Let_def run_attempt\<close>)
qed

lemma prepared_labels:
  assumes "run_state (prepare_runtime_launch h rq) s = (Ok prep, s')"
    and "lp_run_mode (rq_policy rq) = ManagedSessionMode"
  shows "\<exists>base. cr_labels (rn_create (rlp_run_spec prep)) =
      bt_insert LABEL_RESOURCE_LIMIT_MEMORY (stored_memory (stored_or_zero (rq_resource_limits rq)))
        (bt_insert LABEL_RESOURCE_LIMIT_CPUS (stored_cpus (stored_or_zero (rq_resource_limits rq))) base)
    \<and> (\<forall>n. n \<noteq> runtime_package_version_label (rq_runtime rq) \<longrightarrow> label base n =
        label (managed_session_labels (args_to_json h) (label_input_from_workspace (rq_workspace rq)
          (default_image (host_build h) (rq_runtime rq)) (rq_runtime rq) (rq_server_args rq))) n)"
proof -
  let ?m = "managed_session_labels (args_to_json h) (label_input_from_workspace (rq_workspace rq)
      (default_image (host_build h) (rq_runtime rq)) (rq_runtime rq) (rq_server_args rq))"
  obtain cp :: container_launch_preparation and extra inv' where e: "rlp_run_spec prep =
      record_managed_resource_limits (rq_policy rq)
        (record_runtime_image_version (rq_runtime rq) (clp_image_version cp) (rq_policy rq)
          (apply_passthrough extra (extend_create_default_env (pf_runtime_environment (clp_preflight cp))
            (run_spec (host_build h) (args_to_json h) (rq_runtime rq) (lp_run_mode (rq_policy rq))
              (rq_workspace rq) (pf_host_nix_mounts (clp_preflight cp)) (pf_runtime_mounts (clp_preflight cp))
              inv' (rq_server_args rq) (rq_resource_limits rq)))))"
    by (rule prepared_spec [OF assms(1)]) (erule that)
  define spec where "spec = record_runtime_image_version (rq_runtime rq) (clp_image_version cp) (rq_policy rq)
      (apply_passthrough extra (extend_create_default_env (pf_runtime_environment (clp_preflight cp))
        (run_spec (host_build h) (args_to_json h) (rq_runtime rq) ManagedSessionMode
          (rq_workspace rq) (pf_host_nix_mounts (clp_preflight cp)) (pf_runtime_mounts (clp_preflight cp))
          inv' (rq_server_args rq) (rq_resource_limits rq))))"
  have "cr_labels (rn_create spec) = ?m \<or>
      (\<exists>v. cr_labels (rn_create spec) = bt_insert (runtime_package_version_label (rq_runtime rq)) v ?m)"
    by (auto simp: spec_def record_runtime_image_version_def run_spec_def create_spec_def Let_def
        split: option.splits)
  then have "\<forall>n. n \<noteq> runtime_package_version_label (rq_runtime rq) \<longrightarrow> label (cr_labels (rn_create spec)) n = label ?m n"
    by (auto simp: label_simps)
  moreover have "cr_resource_limits (rn_create spec) = rq_resource_limits rq"
    by (simp add: spec_def run_spec_def create_spec_def Let_def)
  ultimately show ?thesis
    using e assms(2) by (intro exI [of _ "cr_labels (rn_create spec)"])
      (simp add: record_managed_resource_limits_def spec_def Let_def)
qed

section \<open>The session that is found again\<close>

lemma identity_labels_distinct:
  assumes "n \<in> set identity_label_names"
  shows "n \<noteq> LABEL_RESOURCE_LIMIT_MEMORY" "n \<noteq> LABEL_RESOURCE_LIMIT_CPUS" "n \<noteq> runtime_package_version_label k"
  using assms by (cases k; auto simp: identity_label_names_def runtime_package_version_label_def
      runtime_package_metadata_label_def label_names)+

lemma zero_limits: "parse_cpu_limit ''0'' = Inr (CpuLimit ''0'')" "parse_memory_limit ''0'' = Inr (MemoryLimit ''0'')"
proof -
  have "trim ''0'' = ''0''" by code_simp
  moreover have "parse_f64 ''0'' = Some (Decimal False 0 0)" by code_simp
  moreover have "0 < f64_overflow" by (simp add: f64_overflow_def)
  ultimately show "parse_cpu_limit ''0'' = Inr (CpuLimit ''0'')" by (simp add: parse_cpu_limit_def)
  show "parse_memory_limit ''0'' = Inr (MemoryLimit ''0'')" by code_simp
qed

text \<open>What a limit is after it went through the labels: an absent one is stored as unlimited.\<close>

definition stored_limits :: "resource_limits \<Rightarrow> resource_limits" where
  "stored_limits l = \<lparr>cpus = Some (unwrap_or (cpus l) (CpuLimit ''0'')),
     memory = Some (unwrap_or (memory l) (MemoryLimit ''0''))\<rparr>"

text \<open>The only values of the limit types that exist are results of their parsers.\<close>

definition parsed_limits :: "resource_limits \<Rightarrow> bool" where
  "parsed_limits l \<longleftrightarrow>
     (\<forall>c \<in> set_option (cpus l). parse_cpu_limit (cpu_text c) = Inr c)
     \<and> (\<forall>m \<in> set_option (memory l). parse_memory_limit (memory_text m) = Inr m)"

lemma stored_limits_roundtrip:
  assumes "parsed_limits l"
    and "label m LABEL_RESOURCE_LIMIT_CPUS = Some (stored_cpus (stored_or_zero l))"
    and "label m LABEL_RESOURCE_LIMIT_MEMORY = Some (stored_memory (stored_or_zero l))"
  shows "md_stored_resource_limits m = Ok (stored_limits l)"
  using assms
  by (cases "cpus l"; cases "memory l")
    (simp_all add: md_stored_resource_limits_def stored_or_zero_def stored_limits_def zero_limits
      parsed_limits_def)

lemma trimmed_not_blank: "trim s = s \<Longrightarrow> s \<noteq> [] \<Longrightarrow> \<not> blank s"
  by (simp add: blank_def)

lemma stored_not_blank:
  assumes "parsed_limits l"
  shows "\<not> blank (stored_cpus (stored_or_zero l))" "\<not> blank (stored_memory (stored_or_zero l))"
proof -
  have "\<not> blank ''0''" by (intro not_blank_graphic_hd) (simp_all add: is_ascii_graphic_def byte_of_def)
  then show "\<not> blank (stored_cpus (stored_or_zero l))" "\<not> blank (stored_memory (stored_or_zero l))"
    using assms trimmed_not_blank
    by (cases "cpus l"; cases "memory l";
        auto simp: stored_or_zero_def parsed_limits_def dest!: parse_cpu_limit_text parse_memory_limit_text)+
qed

lemma launched_identity:
  assumes "run_state (prepare_runtime_launch h rq) s = (Ok prep, s')"
    and "lp_run_mode (rq_policy rq) = ManagedSessionMode"
    and "insp_labels i = cr_labels (rn_create (rlp_run_spec prep))"
  shows "\<forall>n \<in> set identity_label_names. label (insp_labels i) n =
    label (managed_session_labels (args_to_json h) (label_input_from_workspace (rq_workspace rq)
      (default_image (host_build h) (rq_runtime rq)) (rq_runtime rq) (rq_server_args rq))) n"
  using prepared_labels [OF assms(1,2)] assms(3) identity_labels_distinct(1,2)
    identity_labels_distinct(3) [where k = "rq_runtime rq"]
  by (auto simp: label_simps)

lemma launched_mounts_and_ports:
  assumes "run_state (prepare_runtime_launch h rq) s = (Ok prep, s')"
  shows "volume_mount (container_name (rq_workspace rq)) NIX_CACHE_DESTINATION
      \<in> set (cr_mounts (rn_create (rlp_run_spec prep)))"
    "publishes_attach_endpoint (lp_run_mode (rq_policy rq)) \<Longrightarrow> cr_published_ports (rn_create (rlp_run_spec prep))
      = [published_port (runtime_attach_spec (rq_runtime rq)) DEFAULT_HOST_ATTACH_IP]"
  by (rule prepared_spec [OF assms(1)], simp add: runtime_mounts_for_workspace_def run_spec_def create_spec_def Let_def)+

lemma launched_session_found:
  assumes "run_state (prepare_runtime_launch h rq) s = (Ok prep, s')"
    and "lp_run_mode (rq_policy rq) = ManagedSessionMode" and "parsed_limits (rq_resource_limits rq)"
    and w: "resolve_workspace_identity (sha256 (host_build h)) fs directory = Ok (rq_workspace rq)"
      "is_absolute (canonical_target (rq_workspace rq))" "is_absolute (canonical_git_root (rq_workspace rq))"
    and i: "insp_labels i = cr_labels (rn_create (rlp_run_spec prep))" "insp_running i"
      "published_attach_endpoint (insp_network i) (runtime_attach_spec (rq_runtime rq)) = Ok (Some e)"
      "has_volume_mount_destination (insp_mounts i) NIX_CACHE_DESTINATION"
    and root: "\<not> git_root_is_orphaned probe (canonical_git_root (rq_workspace rq))"
  shows "status (build_session_record (sha256 (host_build h)) probe c i kind) = Running
    \<and> label (insp_labels i) LABEL_GIT_ROOT = Some (canonical_git_root (rq_workspace rq))
    \<and> label (insp_labels i) LABEL_RUNTIME = Some (runtime_str (rq_runtime rq))
    \<and> label (insp_labels i) LABEL_LAUNCH_DIRECTORY = Some (canonical_target (rq_workspace rq))
    \<and> md_stored_resource_limits (insp_labels i) = Ok (stored_limits (rq_resource_limits rq))"
    and "label (insp_labels i) LABEL_SERVER_ARGS =
      (if rq_server_args rq = [] \<or> blank (args_to_json h (rq_server_args rq)) then None
       else Some (args_to_json h (rq_server_args rq)))"
proof -
  let ?l = "stored_or_zero (rq_resource_limits rq)"
  let ?in = "label_input_from_workspace (rq_workspace rq) (default_image (host_build h) (rq_runtime rq))
      (rq_runtime rq) (rq_server_args rq)"
  obtain base where base: "insp_labels i = bt_insert LABEL_RESOURCE_LIMIT_MEMORY (stored_memory ?l)
        (bt_insert LABEL_RESOURCE_LIMIT_CPUS (stored_cpus ?l) base)"
      "\<forall>n. n \<noteq> runtime_package_version_label (rq_runtime rq) \<longrightarrow>
        label base n = label (managed_session_labels (args_to_json h) ?in) n"
    using prepared_labels [OF assms(1,2)] i(1) by metis
  note found = managed_labels_running [OF w launched_identity [OF assms(1,2) i(1)] i(3,4,2) root]
  have "label (insp_labels i) LABEL_RESOURCE_LIMIT_CPUS = Some (stored_cpus ?l)"
    "label (insp_labels i) LABEL_RESOURCE_LIMIT_MEMORY = Some (stored_memory ?l)"
    using stored_not_blank [OF assms(3)] by (simp_all add: base(1) label_simps label_names)
  then show "status (build_session_record (sha256 (host_build h)) probe c i kind) = Running
    \<and> label (insp_labels i) LABEL_GIT_ROOT = Some (canonical_git_root (rq_workspace rq))
    \<and> label (insp_labels i) LABEL_RUNTIME = Some (runtime_str (rq_runtime rq))
    \<and> label (insp_labels i) LABEL_LAUNCH_DIRECTORY = Some (canonical_target (rq_workspace rq))
    \<and> md_stored_resource_limits (insp_labels i) = Ok (stored_limits (rq_resource_limits rq))"
    using found stored_limits_roundtrip [OF assms(3)] by simp
  have "LABEL_SERVER_ARGS \<noteq> runtime_package_version_label (rq_runtime rq)"
    by (cases "rq_runtime rq"; simp add: runtime_package_version_label_def runtime_package_metadata_label_def label_names)
  moreover have "in_server_args ?in = rq_server_args rq" by (simp add: label_input_from_workspace_def)
  ultimately show "label (insp_labels i) LABEL_SERVER_ARGS =
      (if rq_server_args rq = [] \<or> blank (args_to_json h (rq_server_args rq)) then None
       else Some (args_to_json h (rq_server_args rq)))"
    using base by (simp add: label_simps label_names label_runtime_server_container_labels
        get_runtime_server_container_labels)
qed

definition sample_launch :: runtime_launch_request where
  "sample_launch = managed_server_launch_request sample_workspace Opencode DevNone False [''--x''] no_limits"

lemma sample_discover_none [sample_simps]:
  "run_state (discover_root (sample_log [] k) AgentboxOwned root) (t, l) =
     (Ok [], (t, l @ [Ran (podman_argv [''ps'', ''--all'', ''--format'', ''json'']) (Some (Exited 0))]))"
  by (simp add: discover_root_def discover_io_def run_attempt sample_simps scope_for_git_root_def
      new_collector_def finish_collector_def mark_duplicate_sessions_def sort_dedup_def)

lemma sample_container_launch [sample_simps]:
  "\<exists>l'. run_state (prepare_container_launch_for_workspace (sample_log [] Opencode) sample_workspace Opencode
      DevNone (managed_server_policy False)) (t, l) =
    (Ok \<lparr>clp_preflight = \<lparr>pf_host_nix_mounts = [], pf_runtime_mounts = [], pf_runtime_environment = []\<rparr>,
       clp_dev_env = NoDevEnv, clp_image_version = None\<rparr>, (t, l'))"
  by (simp add: managed_server_policy_def prepare_container_launch_for_workspace_def run_attempt sample_simps
      ensure_required_resources_absent_def discover_existing_resources_def select_existing_resource_def)

lemma sample_prepare:
  obtains prep l' where "run_state (prepare_runtime_launch (sample_log [] Opencode) sample_launch) (t, l)
    = (Ok prep, (t, l'))"
proof -
  obtain l' where l': "run_state (prepare_container_launch_for_workspace (sample_log [] Opencode)
      sample_workspace Opencode DevNone (managed_server_policy False)) (t, l) =
    (Ok \<lparr>clp_preflight = \<lparr>pf_host_nix_mounts = [], pf_runtime_mounts = [], pf_runtime_environment = []\<rparr>,
       clp_dev_env = NoDevEnv, clp_image_version = None\<rparr>, (t, l'))"
    using sample_container_launch by blast
  show thesis
    using that l'
    by (simp add: prepare_runtime_launch_def sample_launch_def managed_server_launch_request_def
        server_launch_request_def prepare_codex_attach_token_def build_runtime_invocation_def
        server_runtime_command_def run_attempt sample_simps Let_def)
qed

lemma sample_launch_fields:
  "rq_workspace sample_launch = sample_workspace" "rq_runtime sample_launch = Opencode"
  "rq_resource_limits sample_launch = no_limits" "lp_run_mode (rq_policy sample_launch) = ManagedSessionMode"
  "rq_server_args sample_launch = [''--x'']" "parsed_limits no_limits"
  by (simp_all add: sample_launch_def managed_server_launch_request_def server_launch_request_def
      managed_server_policy_def parsed_limits_def no_limits_def)

lemma sample_launched:
  obtains prep l' and i :: podman_container_inspect where
    "run_state (prepare_runtime_launch (sample_log [] Opencode) sample_launch) (0, []) = (Ok prep, (0, l'))"
    "insp_labels i = cr_labels (rn_create (rlp_run_spec prep))" "insp_running i"
    "published_attach_endpoint (insp_network i) (runtime_attach_spec Opencode) = Ok (Some (sample_endpoint Opencode))"
    "has_volume_mount_destination (insp_mounts i) NIX_CACHE_DESTINATION"
proof -
  obtain prep l' where p: "run_state (prepare_runtime_launch (sample_log [] Opencode) sample_launch) (0, [])
      = (Ok prep, (0, l'))" by (rule sample_prepare)
  let ?i = "(sample_server Opencode)\<lparr>insp_labels := cr_labels (rn_create (rlp_run_spec prep))\<rparr>"
  have net: "published_attach_endpoint (insp_network ?i) (runtime_attach_spec Opencode)
      = Ok (Some (sample_endpoint Opencode))" using sample_published by simp
  show thesis
    by (rule that [of prep l' ?i]) (use p net in \<open>simp_all add: sample_server_def has_volume_mount_destination_def\<close>)
qed

end
