(* ===== verification/RestartLaws.thy ===== *)
theory RestartLaws
  imports RestartFlow StopLaws LaunchLaws
begin

text \<open>
  What \<open>agentbox restart\<close> guarantees: it replaces only a running managed session of the root it locked,
  everything is prepared before that session is stopped, the replacement is launched only after Podman
  answered that the old container is gone, and the limits stored in the session's labels are kept.
\<close>

section \<open>Lifecycle\<close>

interpretation restarted: detached_lifecycle h
  "managed_lifecycle h w s (restart_launch_policy h w runtime)" for h w s runtime
  by (rule check_flag_lifecycle) (simp add: managed_lifecycle_def restart_launch_policy_def)

section \<open>Events\<close>

definition preparing :: "event \<Rightarrow> bool" where
  "preparing e \<longleftrightarrow> reads e \<or> (\<exists>d. e = TokenWritten d \<or> e = Locked d \<or> e = Unlocked d)"

definition launching :: "event \<Rightarrow> bool" where
  "launching e \<longleftrightarrow> reads e \<or> runs e \<or> (\<exists>n. e = Slept n) \<or> (\<exists>i. e = ClientRun i)"

lemma preparing_simps [simp]:
  "reads e \<Longrightarrow> preparing e" "preparing (TokenWritten d)" "preparing (Locked d)" "preparing (Unlocked d)"
  by (auto simp: preparing_def)

lemma launching_simps [simp]:
  "reads e \<Longrightarrow> launching e" "runs e \<Longrightarrow> launching e" "launching (Slept n)" "launching (ClientRun i)"
  by (auto simp: launching_def)

lemma only_restart_check [only_intros]:
  "only P (mp_check_interrupted (restart_launch_policy (logged h) w runtime))"
  by (auto simp: restart_launch_policy_def intro!: only_intros)

lemma only_host_workspace [only_intros]: "only P (host_workspace (logged h) dir)"
  unfolding host_workspace_def by (intro only_intros)

lemma only_select_session_candidate [only_intros]:
  assumes "\<And>e. reads e \<Longrightarrow> P e"
  shows "only P (select_session_candidate sha (State (filesystem (logged h))) plan locked
     (discover_sessions_of_root (logged h) root) (discover_agentbox_containers (logged h)))"
  unfolding select_session_candidate_def matching_sessions_def
  by (auto intro!: only_intros assms split: resolved_session_target.splits)

lemma only_resolve_restart_plan [only_intros]:
  assumes "\<And>e. reads e \<Longrightarrow> P e"
  shows "only P (resolve_restart_plan sha (State (filesystem (logged h))) tgt (discover_agentbox_containers (logged h)))"
  unfolding resolve_restart_plan_def
  by (auto intro!: only_intros assms split: resolved_session_target.splits)

lemma only_restart_prepare [only_intros]:
  assumes "\<And>e. reads e \<Longrightarrow> P e" "\<And>d. P (TokenWritten d)"
  shows "only P (restart_prepare (logged h) plan tgt mode c overrides)"
  unfolding restart_prepare_def restart_launch_workspace_def restart_resource_limits_def Let_def
  by (intro only_intros assms)

lemma stop_existing_logged:
  assumes "run_state (stop_existing_session (logged h) s) (w, l) = (r, (w', l'))"
  shows "\<exists>a b. l' = l @ [Ran [''podman'', ''stop'', ''--ignore'', sr_container_name s] a,
      Ran [''podman'', ''container'', ''exists'', sr_container_name s] b]
    \<and> (r = Ok () \<longrightarrow> b = Some (Exited 1))"
proof -
  obtain c where c: "run_state (stop_and_verify (logged h) (sr_container_name s)) (w, l) = (c, (w', l'))"
      "r = Ok () \<longrightarrow> remaining_failure c (sr_container_name s) = None"
    using assms by (auto simp: stop_existing_session_def split: prod.splits option.splits)
  then show ?thesis using stop_and_verify_logged [OF c(1)] by (auto simp: remaining_failure_None)
qed

section \<open>The order of a restart\<close>

definition replaced :: "event list \<Rightarrow> unit res option \<Rightarrow> bool" where
  "replaced post r \<longleftrightarrow> post = [] \<and> (r = None \<or> (\<exists>e. r = Some (Err e)))
     \<or> (\<exists>name a b launch. post = Ran [''podman'', ''stop'', ''--ignore'', name] a
            # Ran [''podman'', ''container'', ''exists'', name] b # launch
          \<and> list_all launching launch
          \<and> (b = Some (Exited 1) \<or> launch = [] \<and> (\<exists>e. r = Some (Err e))))"

lemma ends_restart_replace: "ends preparing replaced (restart_replace fuel (logged h) p c)"
  unfolding ends_def
proof (intro allI impI)
  fix s r s'
  let ?w = "rt_workspace p" and ?k = "rs_runtime (rt_session p)"
  let ?c = "\<lparr>mc_kind = CompletionRestart, mc_connect = c, mc_client_launch_directory = canonical_target ?w,
      mc_retry_target = canonical_target ?w\<rparr>"
  let ?m = "execute_managed_launch fuel (logged h) ?w ?k (rlp_run_spec (rt_launch p))
      (rlp_token (rt_launch p)) (restart_launch_policy (logged h) ?w ?k) ?c"
  assume run: "run_state (restart_replace fuel (logged h) p c) s = (r, s')"
  obtain q w1 l1 where q: "run_state (stop_existing_session (logged h) (rs_session (rt_session p)))
      (fst s, snd s) = (q, (w1, l1))" by (metis prod.exhaust)
  obtain name a b where ab: "l1 = snd s @ [Ran [''podman'', ''stop'', ''--ignore'', name] a,
      Ran [''podman'', ''container'', ''exists'', name] b]" "q = Ok () \<longrightarrow> b = Some (Exited 1)"
    using stop_existing_logged [OF q] by blast
  show "\<exists>pre post. snd s' = snd s @ pre @ post \<and> list_all preparing pre \<and> replaced post r"
  proof (cases q)
    case (Inl e)
    then have "r = Some (Err e)" "s' = (w1, l1)"
      using run q by (auto simp: restart_replace_def run_attempt_loop run_once Let_def)
    then show ?thesis
      using ab by (intro exI [of _ "[]"] exI [of _ "drop (length (snd s)) l1"]) (auto simp: replaced_def)
  next
    case (Inr u)
    then have m: "run_state ?m (w1, l1) = (r, s')"
      using run q by (auto simp: restart_replace_def run_attempt_loop run_once Let_def)
    have "only launching ?m" by (intro only_execute_managed_launch only_intros) simp_all
    from onlyD [OF this m] obtain es where "snd s' = l1 @ es" "list_all launching es" by auto
    then show ?thesis
      using ab Inr by (intro exI [of _ "[]"] exI [of _ "drop (length (snd s)) l1 @ es"]) (auto simp: replaced_def)
  qed
qed

definition restarted_run :: "event list \<Rightarrow> unit res option \<Rightarrow> bool" where
  "restarted_run post r \<longleftrightarrow> post = [] \<and> (r = None \<or> (\<exists>e. r = Some (Err e)))
     \<or> (\<exists>name a b launch unlock. post = [Ran [''podman'', ''stop'', ''--ignore'', name] a,
            Ran [''podman'', ''container'', ''exists'', name] b] @ launch @ unlock
          \<and> list_all launching launch \<and> list_all (\<lambda>e. \<exists>d. e = Unlocked d) unlock
          \<and> (b = Some (Exited 1) \<or> launch = [] \<and> (\<exists>e. r = Some (Err e))))"

lemma replaced_unlocked:
  assumes "list_all preparing pre"
    and "replaced post r \<and> (r = None \<or> post = []) \<or> (\<exists>q d. post = q @ [Unlocked d] \<and> replaced q r)"
  shows "\<exists>pre' post'. pre @ post = pre' @ post' \<and> list_all preparing pre' \<and> restarted_run post' r"
proof -
  have whole: "restarted_run (q @ u) r" if "replaced q r" "q \<noteq> []" "list_all (\<lambda>e. \<exists>d. e = Unlocked d) u" for q u
    using that unfolding replaced_def restarted_run_def by fastforce
  have none: "restarted_run [] r" if "replaced [] r"
    using that by (auto simp: replaced_def restarted_run_def)
  from assms(2) consider "post = []" "replaced [] r" | d where "post = [Unlocked d]" "replaced [] r"
    | q u where "post = q @ u" "replaced q r" "q \<noteq> []" "list_all (\<lambda>e. \<exists>d. e = Unlocked d) u"
  proof -
    from assms(2) consider "replaced post r" | q d where "post = q @ [Unlocked d]" "replaced q r" by blast
    then show thesis
    proof cases
      case 1
      then show ?thesis using that(1) that(3) [of post "[]"] by (cases "post = []") auto
    next
      case (2 q d)
      then show ?thesis using that(2) [of d] that(3) [of q "[Unlocked d]"] by (cases "q = []") auto
    qed
  qed
  then show ?thesis
  proof cases
    case 2
    then show ?thesis using none assms(1) by (intro exI [of _ "pre @ post"] exI [of _ "[]"]) simp
  next
    case 3
    then show ?thesis using whole assms(1) by blast
  qed (use none assms(1) in auto)
qed

lemma ends_restart: "ends preparing restarted_run (restart_target fuel (logged h) tgt mode c overrides)"
proof -
  have inner: "ends preparing replaced (attempt_loop (once (restart_prepare (logged h) plan tgt mode c overrides))
      (\<lambda>p. restart_replace fuel (logged h) p c))" for plan
    by (intro ends_attempt_loop ends_restart_replace only_intros) (auto simp: replaced_def)
  have "ends preparing restarted_run (with_lock_loop (logged h) d (attempt_loop
      (once (restart_prepare (logged h) plan tgt mode c overrides)) (\<lambda>p. restart_replace fuel (logged h) p c)))" for d plan
    by (rule ends_mono [OF ends_with_lock_loop [OF inner] replaced_unlocked]) (auto simp: replaced_def)
  then show ?thesis
    unfolding restart_target_def with_locked_git_root_loop_def
    by (intro ends_attempt_loop only_intros) (auto simp: restarted_run_def)
qed

text \<open>C9: a restart replaces, it never destroys first. Whatever the host does, everything up to the stop
  only reads Podman's state, writes the replacement's token and takes locks; then exactly one container
  is stopped and Podman is asked whether it is gone; and only if Podman answered that it is gone does
  anything more happen than giving the lock back, namely launching and connecting.\<close>

theorem restart_prepares_first:
  "\<exists>pre post. trace_of (restart_target fuel (logged h) tgt mode c overrides) u = pre @ post
     \<and> list_all preparing pre
     \<and> (post = [] \<and> (outcome_of (restart_target fuel (logged h) tgt mode c overrides) u = None
            \<or> (\<exists>e. outcome_of (restart_target fuel (logged h) tgt mode c overrides) u = Some (Err e)))
        \<or> (\<exists>name a b launch unlock. post = [Ran [''podman'', ''stop'', ''--ignore'', name] a,
              Ran [''podman'', ''container'', ''exists'', name] b] @ launch @ unlock
            \<and> list_all launching launch \<and> list_all (\<lambda>e. \<exists>d. e = Unlocked d) unlock
            \<and> (b = Some (Exited 1) \<or> launch = []
                \<and> (\<exists>e. outcome_of (restart_target fuel (logged h) tgt mode c overrides) u = Some (Err e)))))"
  using ends_trace [OF ends_restart, of fuel h tgt mode c overrides u] unfolding restarted_run_def .


section \<open>What is restarted\<close>

lemma prepare_restart_Ok:
  assumes "prepare_restart_session of_json display s = Ok rs"
  shows "rs_session rs = s \<and> status s = Running \<and> is_managed_session s \<and> sr_runtime_kind s = Some (rs_runtime rs)
    \<and> sr_launch_directory s = Some (rs_launch_directory rs) \<and> md_server_args of_json (metadata s) = Ok (rs_server_args rs)"
proof -
  have "validate_restartable_status display s = Ok ()"
    "restart_runtime s = Ok (rs_runtime rs)" "restart_launch_directory s = Ok (rs_launch_directory rs)"
    "restart_server_args of_json s = Ok (rs_server_args rs)" "rs_session rs = s"
    using assms by (auto simp: prepare_restart_session_def result_simps)
  then show ?thesis
    by (auto simp: validate_restartable_status_def restart_runtime_def restart_launch_directory_def
        restart_server_args_def result_simps split: if_splits session_status.splits option.splits sum.splits)
qed


section \<open>What a restart finds of the launch\<close>

lemma or_else_stored: "or_else (or_else a (Some b)) c = or_else a (Some b)"
  by (cases a) simp_all

lemma stored_limits_kept:
  assumes "md_stored_resource_limits (metadata x) = Ok (stored_limits l)"
  shows "\<exists>u'. run_state (restart_resource_limits h x overrides) u = (Ok (overlay (stored_limits l) overrides), u')"
  using assms by (auto simp: restart_resource_limits_def overlay_def stored_limits_def or_else_stored split: prod.splits)

lemma stored_server_args:
  assumes "label m LABEL_SERVER_ARGS = (if args = [] \<or> blank (to_json args) then None else Some (to_json args))"
    and "args \<noteq> [] \<Longrightarrow> of_json (to_json args) = Inr args \<and> \<not> blank (to_json args)"
  shows "md_server_args of_json m = Ok args"
  using assms by (auto simp: md_server_args_def)


section \<open>Locks\<close>

lemma disciplined_restart: "disciplined (\<lambda>r. r \<noteq> None) (restart_target fuel (logged h) tgt mode c overrides)"
proof -
  have "only acts (stop_existing_session (logged h) s)" for s
    unfolding stop_existing_session_def by (intro only_intros only_stop_and_verify_of) simp_all
  then have "only acts (attempt_loop (once (restart_prepare (logged h) plan tgt mode c overrides))
      (\<lambda>p. restart_replace fuel (logged h) p c))" for plan
    unfolding restart_replace_def Let_def
    by (intro only_intros only_execute_managed_launch) (auto simp: reads_acts runs_acts)
  moreover have "disciplined returned (resolve_restart_plan sha (State (filesystem (logged h))) tgt
      (discover_agentbox_containers (logged h)))" for returned sha
    by (intro disciplined_reads only_intros)
  ultimately show ?thesis
    unfolding restart_target_def by (intro lock_intros)
qed

section \<open>Instances\<close>


abbreviation managed_ps :: "runtime_kind \<Rightarrow> podman_ps_container" where
  "managed_ps k \<equiv> sample_container (insp_labels (sample_server k))"

lemmas sample_label_simps = sample_server_def label_managed_session_labels label_runtime_server_container_labels
  get_runtime_server_container_labels label_input_from_workspace_def is_absolute_not_blank

lemma sample_server_labels [simp]:
  "agentbox_container_kind_from_labels (insp_labels (sample_server k)) = Some Managed"
  "label (insp_labels (sample_server k)) LABEL_RUNTIME = Some (runtime_str k)"
  "label (insp_labels (sample_server k)) LABEL_LAUNCH_DIRECTORY = Some ''/w''"
  "label (insp_labels (sample_server k)) LABEL_SERVER_ARGS = None"
  "label (insp_labels (sample_server k)) LABEL_RESOURCE_LIMIT_CPUS = None"
  "label (insp_labels (sample_server k)) LABEL_RESOURCE_LIMIT_MEMORY = None"
  by (simp_all add: sample_label_simps agentbox_container_kind_from_labels_def)

lemma sample_build_any:
  "build_session_record (\<lambda>_. 0) sample_probe (sample_container m) (sample_server k) Managed = sample_session k"
  by (simp add: sample_session_def build_session_record_def inspected_container_name_def sample_container_def)

lemma sample_discover_managed [sample_simps]:
  "run_state (discover_io (sample_log [managed_ps k] k) AllSessions AgentboxOwned) (t, l) =
     (Ok [sample_session k],
      (t, l @ [Ran (podman_argv [''ps'', ''--all'', ''--format'', ''json'']) (Some (Exited 0)),
         Ran (podman_argv [''container'', ''inspect'', ''c1'']) (Some (Exited 0))]))"
  by (simp add: discover_io_def run_attempt sample_simps ps_candidate_def new_collector_def
      collect_session_def finish_collector_def mark_single sample_build_any)

lemma sample_restart_session [simp]:
  "sr_runtime_kind (sample_session k) = Some k" "sr_launch_directory (sample_session k) = Some ''/w''"
  "md_server_args of_json (metadata (sample_session k)) = Ok []" "container_kind (sample_session k) = Managed"
  "md_stored_resource_limits (metadata (sample_session k)) = Ok no_limits"
  by (simp_all add: sample_session_def sr_runtime_kind_def md_runtime_kind_def md_runtime_label_def
      sr_launch_directory_def md_launch_directory_def md_server_args_def
      md_stored_resource_limits_def no_limits_def ok_of_eq_Some parse_runtime_kind_iff)

lemma sample_candidate:
  "\<exists>l'. run_state (select_session_candidate (\<lambda>_. 0) (State (filesystem (sample_log [managed_ps k] k)))
      \<lparr>rp_input = StableIdInput ''0'', rp_lock_git_root = ''/w''\<rparr> ''/w'' d
      (discover_agentbox_containers (sample_log [managed_ps k] k))) (t, l) = (Ok (sample_session k), (t, l'))"
proof -
  let ?s = "sample_session k"
  have "starts_with (to_ascii_lowercase (replicate 12 CHR ''0'')) (to_ascii_lowercase ''0'')" by code_simp
  then have "select_agentbox_stable_id_prefix [?s] ''0'' = Ok \<lparr>sel_id = replicate 12 CHR ''0'', sel_sessions = [?s]\<rparr>"
    unfolding select_agentbox_stable_id_prefix_def select_Ok_iff by (simp add: id_matches_def)
  then show ?thesis
    by (simp add: select_session_candidate_def matching_sessions_def select_agentbox_stable_id_target_def
        run_attempt sample_simps discover_agentbox_containers_def require_stable_id_still_matches_locked_root_def
        root_is_def require_single_restart_target_match_def)
qed

lemma sample_restart_prepare:
  "\<exists>p s'. run_state (restart_prepare (sample_log [managed_ps Opencode] Opencode)
      \<lparr>rp_input = StableIdInput ''0'', rp_lock_git_root = ''/w''\<rparr> (StableIdInput ''0'') DevNone False no_limits)
      (0, []) = (Ok p, s')"
proof -
  let ?h = "sample_log [managed_ps Opencode] Opencode"
  obtain l1 where "run_state (select_session_candidate (\<lambda>_. 0) (State (filesystem ?h))
      \<lparr>rp_input = StableIdInput ''0'', rp_lock_git_root = ''/w''\<rparr> ''/w'' (discover_sessions_of_root ?h ''/w'')
      (discover_agentbox_containers ?h)) (0, []) = (Ok (sample_session Opencode), (0, l1))"
    using sample_candidate by blast
  then show ?thesis
    by (simp add: restart_prepare_def run_attempt sample_simps prepare_restart_session_def
        validate_restartable_status_def restart_runtime_def restart_launch_directory_def restart_server_args_def
        restart_launch_workspace_def run_map_io restart_resource_limits_def prepare_runtime_launch_def
        replacement_server_launch_request_def replacement_server_policy_def
        prepare_container_launch_for_workspace_def ensure_required_resources_absent_def
        prepare_codex_attach_token_def build_runtime_invocation_def server_runtime_command_def is_transient_run_def
        is_managed_session_def Let_def)
qed


end
