(* ===== verification/ImageLaws.thy ===== *)
theory ImageLaws
  imports Images SampleHost
begin

text \<open>
  The contract of \<open>RuntimeImageEnvironment\<close> and what ensuring and updating an image guarantee over any
  environment that keeps it; and an environment that keeps it: the state store on a map of files,
  with a Podman whose local images are a set.
\<close>

section \<open>The contract\<close>

text \<open>What a state says about the version of the default image.\<close>

definition recorded_version :: "build \<Rightarrow> runtime_kind \<Rightarrow> image_state option \<Rightarrow> string option" where
  "recorded_version b k found = (case found of
     Some st \<Rightarrow> if is_image st = default_image b k then Some (is_installed_version st) else None | None \<Rightarrow> None)"

text \<open>\<open>has_image\<close> and \<open>stored\<close> read Podman's images and the state files off the world. Failing operations
  promise nothing but that what they do not touch is kept.\<close>

locale image_environment =
  fixes b :: build and env :: "'w image_env"
    and has_image :: "'w \<Rightarrow> string \<Rightarrow> bool" and stored :: "'w \<Rightarrow> runtime_kind \<Rightarrow> image_state option"
  assumes exists_law: "run_state (ie_image_exists env img) s = (Ok x, s') \<Longrightarrow>
      x = has_image s img \<and> has_image s' = has_image s \<and> stored s' = stored s"
    and read_law: "run_state (ie_read_state env k) s = (Ok found, s') \<Longrightarrow>
      found = stored s k \<and> has_image s' = has_image s \<and> stored s' = stored s"
    and write_law: "run_state (ie_write_state env k st) s = (Ok u, s') \<Longrightarrow>
      has_image s' = has_image s \<and> stored s' = (stored s)(k := Some st)"
    and resolve_law: "run_state (ie_resolve_latest_version env pkg) s = (r, s') \<Longrightarrow>
      has_image s' = has_image s \<and> stored s' = stored s"
    and build_law: "run_state (ie_build_image env k v) s = (Ok u, s') \<Longrightarrow>
      has_image s' = (has_image s)(default_image b k := True) \<and> stored s' = stored s"
    and now_law: "run_state (ie_now env) s = (n, s') \<Longrightarrow> has_image s' = has_image s \<and> stored s' = stored s"
begin

lemma build_and_record:
  assumes "run_state (build_runtime_image_and_record_state b env k v) s = (Ok u, s')"
  shows "has_image s' (default_image b k) \<and> recorded_version b k (stored s' k) = Some v
    \<and> (\<forall>j. j \<noteq> k \<longrightarrow> stored s' j = stored s j)
    \<and> (\<exists>st. stored s' k = Some st \<and> is_installed_version st = v \<and> is_latest_seen_version st = v
        \<and> is_image st = default_image b k \<and> is_context_hash st = image_context_hash b)"
proof -
  obtain u1 s1 now s2 where "run_state (ie_build_image env k v) s = (Ok u1, s1)"
      "run_state (ie_now env) s1 = (Ok now, s2)"
      "run_state (ie_write_state env k (new_image_state b k v now now)) s2 = (Ok u, s')"
    using assms by (auto simp: build_runtime_image_and_record_state_def result_simps)
  then show ?thesis
    using build_law now_law write_law
    by (fastforce simp: recorded_version_def new_image_state_def)
qed

lemma ensure_known:
  assumes "run_state (ensure_default_runtime_image_with b env k root (default_image b k)) s = (Ok r, s')"
  shows "has_image s' (default_image b k) \<and> r = recorded_version b k (stored s' k)
    \<and> (has_image s (default_image b k) \<longrightarrow> stored s' = stored s) \<and> (r = None \<longrightarrow> has_image s (default_image b k))"
proof -
  obtain x s1 where x: "run_state (ie_image_exists env (default_image b k)) s = (Ok x, s1)"
    using assms by (auto simp: ensure_default_runtime_image_with_def result_simps)
  note ex = exists_law [OF x]
  show ?thesis
  proof (cases x)
    case True
    then obtain st where "run_state (ie_read_state env k) s1 = (Ok st, s')"
        "r = (case st of Some st \<Rightarrow> if is_image st = default_image b k then Some (is_installed_version st) else None
          | None \<Rightarrow> None)"
      using assms x by (auto simp: ensure_default_runtime_image_with_def installed_version_if_known_def
          run_attempt run_map_io map_ok_eq_Ok split: prod.splits)
    then show ?thesis using read_law [of k s1 st s'] ex True by (auto simp: recorded_version_def)
  next
    case False
    with assms x obtain v where v: "run_state (build_default_runtime_image b env k) s1 = (Ok v, s')" "r = Some v"
      by (force simp: ensure_default_runtime_image_with_def run_attempt run_map_io_eq map_err_eq_Ok map_ok_eq_Ok
          eq_commute [of "Ok r"])
    obtain s2 u where "run_state (build_runtime_image_and_record_state b env k v) s2 = (Ok u, s')"
      using v(1) by (auto simp: build_default_runtime_image_def run_attempt_Ok)
    from build_and_record [OF this] show ?thesis using v(2) ex False by simp
  qed
qed

lemma ensure_again:
  assumes "run_state (ensure_default_runtime_image_with b env k root (default_image b k)) s = (Ok r, s')"
    and "run_state (ensure_default_runtime_image_with b env k root' (default_image b k)) s' = (Ok r', s'')"
  shows "r' = r \<and> stored s'' = stored s'"
  using ensure_known [OF assms(1)] ensure_known [OF assms(2)] by simp

lemma update_current:
  assumes "run_state (update_default_runtime_image_with b env k) s = (Ok outcome, s')"
  shows "has_image s' (default_image b k)
    \<and> (\<exists>v st. (outcome = AlreadyUpToDate (default_image b k) v \<or> outcome = Rebuilt (default_image b k) v)
        \<and> stored s' k = Some st \<and> is_installed_version st = v \<and> is_latest_seen_version st = v
        \<and> is_image st = default_image b k \<and> is_context_hash st = image_context_hash b)"
proof -
  obtain v s1 x s2 prior s3 where
    a: "run_state (ie_resolve_latest_version env (package_name (package (profile k)))) s = (Ok v, s1)"
      "run_state (ie_image_exists env (default_image b k)) s1 = (Ok x, s2)"
      "run_state (ie_read_state env k) s2 = (Ok prior, s3)"
    using assms by (auto simp: update_default_runtime_image_with_def Let_def result_simps)
  note laws = exists_law [OF a(2)] read_law [OF a(3)]
  show ?thesis
  proof (cases "plan_runtime_image_update b k v x prior")
    case (RefreshState st latest)
    then have plan: "prior = Some st" "latest = v" "x" "is_installed_version st = v" "is_image st = default_image b k"
        "is_context_hash st = image_context_hash b"
      by (auto simp: plan_runtime_image_update_def split: option.splits if_splits)
    obtain now s4 u where "run_state (ie_now env) s3 = (Ok now, s4)"
        "run_state (ie_write_state env k (with_latest_check st v now)) s4 = (Ok u, s')"
        "outcome = AlreadyUpToDate (default_image b k) v"
      using assms a RefreshState plan(2)
      by (auto simp: update_default_runtime_image_with_def Let_def run_attempt_Ok run_attempt split: prod.splits sum.splits)
    then show ?thesis
      using now_law [of s3] write_law [of k "with_latest_check st v now" s4 u s'] laws plan
      by (auto simp: with_latest_check_def)
  next
    case (Rebuild latest)
    then have "latest = v"
      by (auto simp: plan_runtime_image_update_def split: option.splits if_splits)
    then obtain u where "run_state (build_runtime_image_and_record_state b env k v) s3 = (Ok u, s')"
        "outcome = Rebuilt (default_image b k) v"
      using assms a Rebuild
      by (auto simp: update_default_runtime_image_with_def Let_def run_attempt split: prod.splits sum.splits)
    from build_and_record [OF this(1)] this(2) show ?thesis by blast
  qed
qed

end

section \<open>A local environment\<close>

text \<open>A machine whose Podman keeps a list of images, whose files hold states, and whose npm registry
  knows one latest version per package.\<close>

record local_machine =
  lm_images :: "string list"
  lm_files :: "path \<Rightarrow> image_state option"
  lm_clock :: u64
  lm_latest :: "string \<Rightarrow> string"

text \<open>A host of which every operation fails, to be completed by the operations under study.\<close>

definition local_host :: "build \<Rightarrow> local_machine host" where
  "local_host b = (idle_host b)\<lparr>
     run_process := (\<lambda>argv m.
       if take 1 argv = [''npm'']
       then (Inr \<lparr>po_stdout = lm_latest m (argv ! 2), po_stderr = [], po_status = Exited 0\<rparr>, m)
       else if take 3 argv = [''podman'', ''build'', ''-t'']
       then (Inr \<lparr>po_stdout = [], po_stderr = [], po_status = Exited 0\<rparr>, m\<lparr>lm_images := argv ! 3 # lm_images m\<rparr>)
       else (Inl ProgramNotFound, m)),
     run_inherited := (\<lambda>argv m.
       if take 3 argv = [''podman'', ''image'', ''exists'']
       then (Inr (Exited (if argv ! 3 \<in> set (lm_images m) then 0 else 1)), m)
       else (Inl ProgramNotFound, m))\<rparr>"

definition local_image_host :: "local_machine image_host" where
  "local_image_host = \<lparr>ih_wall_clock = (\<lambda>m. (Inr (lm_clock m), m)),
     ih_materialize = (\<lambda>m. (Ok (''/context'', ''/context/Containerfile''), m))\<rparr>"

definition local_files :: "(image_state, local_machine) file_ops" where
  "local_files = \<lparr>
     fo_exists = (\<lambda>p m. (lm_files m p \<noteq> None, m)),
     fo_read = (\<lambda>p m. (ok_or (lm_files m p) (Io ''not found''), m)),
     fo_write = (\<lambda>p st m. (Ok (), m\<lparr>lm_files := (lm_files m)(p := Some st)\<rparr>)),
     fo_remove = (\<lambda>p m. (Ok (lm_files m p \<noteq> None), m\<lparr>lm_files := (lm_files m)(p := None)\<rparr>))\<rparr>"

definition local_store :: "path \<Rightarrow> (image_state, local_machine) image_state_store" where
  "local_store root = \<lparr>st_files = local_files, st_root = root, st_encode = Inr, st_decode = Inr\<rparr>"

abbreviation local_environment :: "build \<Rightarrow> path \<Rightarrow> local_machine image_env" where
  "local_environment b root \<equiv> production_environment (local_host b) local_image_host (local_store root)"

lemma state_path_inj: "state_path root j = state_path root k \<longleftrightarrow> j = k"
  by (cases j; cases k) (auto simp: state_path_def path_join_def is_absolute_def starts_with_def ends_with_def)

lemma run_store_read:
  "run_state (store_read (local_store root) k) m = (Ok (lm_files m (state_path root k)), m)"
  by (auto simp: store_read_def local_store_def local_files_def Let_def run_attempt split: option.splits)

lemma run_store_write:
  "run_state (store_write (local_store root) k st) m =
     (Ok (), m\<lparr>lm_files := (lm_files m)(state_path root k := Some st)\<rparr>)"
  by (simp add: store_write_def local_store_def local_files_def)

lemma run_store_remove:
  "run_state (store_remove (local_store root) k) m =
     (Ok (), m\<lparr>lm_files := (lm_files m)(state_path root k := None)\<rparr>)"
  by (simp add: store_remove_def run_map_io local_store_def local_files_def)

lemma run_remove_if_image:
  "run_state (remove_if_image (local_store root) k img) m =
     (Ok (), if map_option is_image (lm_files m (state_path root k)) = Some img
       then m\<lparr>lm_files := (lm_files m)(state_path root k := None)\<rparr> else m)"
  by (cases "lm_files m (state_path root k)")
    (simp_all add: remove_if_image_def run_attempt run_store_read run_store_remove)

lemma run_local_exists:
  "run_state (image_exists (local_host b) img) m = (Ok (img \<in> set (lm_images m)), m)"
  by (simp add: image_exists_def exists_status_def command_status_def run_attempt local_host_def podman_argv_def)

lemma run_local_build:
  "run_state (build_runtime_image (local_host b) local_image_host k v) m =
     (Ok (), m\<lparr>lm_images := default_image b k # lm_images m\<rparr>)"
  by (simp add: build_runtime_image_def local_image_host_def now_unix_seconds_def run_attempt run_map_io
      podman_build_image_def run_quiet_def capture_def local_host_def idle_host_def podman_argv_def build_image_args_def Let_def)

lemma run_local_now: "run_state (now_unix_seconds local_image_host) m = (Ok (lm_clock m), m)"
  by (simp add: now_unix_seconds_def run_map_io local_image_host_def)

lemma run_local_resolve:
  "\<exists>r. run_state (resolve_latest_runtime_version (local_host b) pkg) m = (r, m)"
  by (auto simp: resolve_latest_runtime_version_def run_attempt capture_def local_host_def Let_def)

interpretation local_images: image_environment b "local_environment b root"
  "\<lambda>m img. img \<in> set (lm_images m)" "\<lambda>m k. lm_files m (state_path root k)" for b root
proof (unfold_locales, goal_cases)
  case (4 pkg s r s')
  then show ?case using run_local_resolve [of b pkg s] by (auto simp: production_environment_def)
qed (auto simp: production_environment_def run_local_exists run_store_read run_store_write run_local_build
    state_path_inj fun_eq_iff run_local_now)

section \<open>Instances\<close>

definition sample_machine :: local_machine where
  "sample_machine = \<lparr>lm_images = [], lm_files = (\<lambda>_. None), lm_clock = 7, lm_latest = (\<lambda>_. ''1.0'')\<rparr>"

abbreviation sample_image_env :: "local_machine image_env" where
  "sample_image_env \<equiv> local_environment sample_build ''/state''"

lemma sample_images: "image_environment sample_build sample_image_env (\<lambda>m img. img \<in> set (lm_images m))
    (\<lambda>m k. lm_files m (state_path ''/state'' k))"
  by (rule local_images.image_environment_axioms)

lemma trim_sample_version: "trim ''1.0'' = ''1.0''"
  by (rule trim_graphic) (simp_all add: is_ascii_graphic_def byte_of_def)

lemma run_sample_resolve:
  "lm_latest m = (\<lambda>_. ''1.0'') \<Longrightarrow> run_state (resolve_latest_runtime_version (local_host b) pkg) m = (Ok ''1.0'', m)"
  by (simp add: resolve_latest_runtime_version_def run_attempt capture_def local_host_def Let_def
      trim_sample_version)

lemma sample_build_image:
  assumes "lm_latest m = (\<lambda>_. ''1.0'')"
  shows "\<exists>m'. run_state (build_runtime_image_and_record_state sample_build sample_image_env k v) m = (Ok (), m')
    \<and> lm_latest m' = lm_latest m"
  using assms by (simp add: build_runtime_image_and_record_state_def run_attempt production_environment_def
      run_local_build run_local_now run_store_write)

lemma sample_ensure:
  assumes "lm_latest m = (\<lambda>_. ''1.0'')"
  shows "\<exists>r m'. run_state (ensure_default_runtime_image_with sample_build sample_image_env k root
      (default_image sample_build k)) m = (Ok r, m') \<and> lm_latest m' = lm_latest m"
proof -
  obtain m' where "run_state (build_runtime_image_and_record_state sample_build sample_image_env k ''1.0'') m = (Ok (), m')"
      "lm_latest m' = lm_latest m"
    using sample_build_image [OF assms] by blast
  then show ?thesis
    using assms
    by (auto simp: ensure_default_runtime_image_with_def run_attempt installed_version_if_known_def run_map_io
        build_default_runtime_image_def run_local_exists run_store_read run_sample_resolve
        production_environment_def)
qed

lemma sample_update:
  assumes "lm_latest m = (\<lambda>_. ''1.0'')"
  shows "\<exists>r m'. run_state (update_default_runtime_image_with sample_build sample_image_env k) m = (Ok r, m')"
proof -
  obtain m' where "run_state (build_runtime_image_and_record_state sample_build sample_image_env k ''1.0'') m = (Ok (), m')"
    using sample_build_image [OF assms] by blast
  then show ?thesis
    using assms
    by (auto simp: update_default_runtime_image_with_def run_attempt plan_runtime_image_update_def
        run_local_exists run_store_read run_sample_resolve run_local_now run_store_write
        production_environment_def Let_def split: option.splits)
qed

section \<open>Ensuring and updating\<close>

text \<open>C30: over any environment that keeps the contract, ensuring the default image of a runtime ends with
  the image present and reports the version that the state records for it; ensuring it again reports
  the same version and changes no state.\<close>

theorem image_ensure_idempotent:
  assumes "image_environment b env has_image stored"
    and "run_state (ensure_default_runtime_image_with b env k root (default_image b k)) s = (Ok r, s')"
    and "run_state (ensure_default_runtime_image_with b env k root' (default_image b k)) s' = (Ok r', s'')"
  shows "has_image s' (default_image b k) \<and> r = recorded_version b k (stored s' k) \<and> r' = r \<and> stored s'' = stored s'"
  using image_environment.ensure_known [OF assms(1,2)] image_environment.ensure_again [OF assms] by blast

lemma image_ensure_idempotent_witness:
  "\<exists>r s'. run_state (ensure_default_runtime_image_with sample_build sample_image_env Codex ''/w''
      (default_image sample_build Codex)) sample_machine = (Ok r, s')
    \<and> default_image sample_build Codex \<in> set (lm_images s')
    \<and> r = recorded_version sample_build Codex (lm_files s' (state_path ''/state'' Codex))"
proof -
  obtain r s' r' s'' where
      "run_state (ensure_default_runtime_image_with sample_build sample_image_env Codex ''/w''
        (default_image sample_build Codex)) sample_machine = (Ok r, s')"
      "run_state (ensure_default_runtime_image_with sample_build sample_image_env Codex ''/w''
        (default_image sample_build Codex)) s' = (Ok r', s'')"
    using sample_ensure [of sample_machine Codex "''/w''"] sample_ensure [of _ Codex "''/w''"]
    by (fastforce simp: sample_machine_def)
  from image_ensure_idempotent [OF sample_images this] this(1) show ?thesis by blast
qed

text \<open>C31: over any environment that keeps the contract, updating ends with the image present and a state
  that names it, its context and the version just resolved, both as installed and as latest seen.\<close>

theorem image_update_current:
  assumes "image_environment b env has_image stored"
    and "run_state (update_default_runtime_image_with b env k) s = (Ok outcome, s')"
  shows "has_image s' (default_image b k)
    \<and> (\<exists>v st. (outcome = AlreadyUpToDate (default_image b k) v \<or> outcome = Rebuilt (default_image b k) v)
        \<and> stored s' k = Some st \<and> is_installed_version st = v \<and> is_latest_seen_version st = v
        \<and> is_image st = default_image b k \<and> is_context_hash st = image_context_hash b)"
  by (rule image_environment.update_current [OF assms])

lemma image_update_current_witness:
  "\<exists>outcome s'. run_state (update_default_runtime_image_with sample_build sample_image_env Codex) sample_machine
      = (Ok outcome, s') \<and> default_image sample_build Codex \<in> set (lm_images s')"
proof -
  obtain outcome s' where
      "run_state (update_default_runtime_image_with sample_build sample_image_env Codex) sample_machine
        = (Ok outcome, s')"
    using sample_update [of sample_machine Codex] by (auto simp: sample_machine_def)
  from image_update_current [OF sample_images this] this show ?thesis by blast
qed

text \<open>An update keeps the image it has exactly when that image exists and the state records for it
  the latest version, the default image's name and the current context hash; in every other case it
  rebuilds.\<close>

lemma image_refresh_iff:
  "plan_runtime_image_update b k latest exists prior = Rebuild latest \<longleftrightarrow>
     \<not> (exists \<and> (\<exists>st. prior = Some st \<and> is_installed_version st = latest \<and> is_image st = default_image b k
       \<and> is_context_hash st = image_context_hash b))"
  by (auto simp: plan_runtime_image_update_def split: option.splits)

end
