(* ===== verification/CleanLaws.thy ===== *)
theory CleanLaws
  imports Clean ImageLaws "HOL-Library.Multiset"
begin

text \<open>
  What \<open>agentbox clean\<close> guarantees: the plan lists exactly the resources of the scope that are its own
  and that no container uses, nothing but what the plan lists is removed, and every listed resource
  is attempted whatever fails before it.
\<close>

section \<open>Usage\<close>

text \<open>What a container uses: its image and its named volumes.\<close>

definition container_resources :: "podman_container_inspect \<Rightarrow> clean_resource list" where
  "container_resources c = CleanResource ImageResource (insp_image_name c)
     # map (CleanResource VolumeResource) (filter_map named_volume_name (insp_mounts c))"

definition in_use :: "podman_container_inspect list \<Rightarrow> clean_resource \<Rightarrow> bool" where
  "in_use cs r \<longleftrightarrow> list_ex (\<lambda>c. r \<in> set (container_resources c)) cs"

lemma get_mark_used:
  "bt_get (mark_used r c u) q = (if q = r \<and> bt_get u r = None then Some c else bt_get u q)"
  by (cases "bt_get u r") (auto simp: mark_used_def bt_get_or_insert)

lemma get_mark_mounts:
  "bt_get (mark_mounts c ms u) q =
     (if bt_get u q = None \<and> q \<in> set (map (CleanResource VolumeResource) (filter_map named_volume_name ms))
      then Some c else bt_get u q)"
  by (induction c ms u rule: mark_mounts.induct) (auto simp: get_mark_used split: option.splits)

lemma get_usage_loop:
  "bt_get (usage_loop cs u) q =
     (case bt_get u q of Some c \<Rightarrow> Some c
      | None \<Rightarrow> map_option insp_id (find (\<lambda>c. q \<in> set (container_resources c)) cs))"
  by (induction cs u rule: usage_loop.induct)
    (auto simp: get_mark_mounts get_mark_used container_resources_def split: option.splits)

lemma resource_user_first:
  "resource_user (usage_from_containers cs) q =
     map_option insp_id (find (\<lambda>c. q \<in> set (container_resources c)) cs)"
  by (simp add: resource_user_def usage_from_containers_def get_usage_loop)

lemma resource_user_None [simp]:
  "resource_user (usage_from_containers cs) q = None \<longleftrightarrow> \<not> in_use cs q"
  by (auto simp: resource_user_first in_use_def find_None_iff list_ex_iff)

lemma lock_file_not_used [simp]: "\<not> in_use cs (lock_file_resource f)"
  by (auto simp: in_use_def list_ex_iff container_resources_def lock_file_resource_def)

section \<open>The plan\<close>

lemma plan_push [simp]:
  "cp_candidates (push_candidate c p) = cp_candidates p @ [c]" "cp_skipped (push_candidate c p) = cp_skipped p"
  "cp_candidates (push_skipped r m p) = cp_candidates p"
  "cp_skipped (push_skipped r m p) = cp_skipped p @ [\<lparr>sk_resource = r, sk_reason = m\<rparr>]"
  by (simp_all add: push_candidate_def push_skipped_def)

text \<open>What a stage of the planning adds: the candidates among the resources it considers.\<close>

definition planned :: "clean_plan \<Rightarrow> clean_resource multiset" where
  "planned p = image_mset cc_resource (mset (cp_candidates p)) + image_mset sk_resource (mset (cp_skipped p))"

definition image_names :: "image_candidate list \<Rightarrow> string list" where
  "image_names cs = map ic_image cs"

lemma image_candidates:
  "c \<in> set (cp_candidates (add_default_runtime_image_candidates b cs u seen p)) \<longleftrightarrow>
     c \<in> set (cp_candidates p) \<or> (\<exists>k n. c = DefaultRuntimeImage k (CleanResource ImageResource n)
       \<and> n \<notin> seen \<and> find (\<lambda>i. ic_image i = n) cs = Some \<lparr>ic_runtime = k, ic_image = n\<rparr>
       \<and> resource_user u (CleanResource ImageResource n) = None \<and> n \<noteq> default_image b k)"
  by (induction b cs u seen p rule: add_default_runtime_image_candidates.induct)
    (auto simp: add_default_runtime_image_candidate_def Let_def split: option.splits if_splits)

lemma volume_candidates:
  "c \<in> set (cp_candidates (add_cache_volume_candidates vs u p)) \<longleftrightarrow>
     c \<in> set (cp_candidates p) \<or> (\<exists>v\<in>set vs. c = CacheVolume (CleanResource VolumeResource (vol_name v))
       \<and> is_agentbox_workspace_resource_name (vol_name v)
       \<and> resource_user u (CleanResource VolumeResource (vol_name v)) = None)"
  by (induction vs u p rule: add_cache_volume_candidates.induct)
    (auto simp: add_candidate_or_skip_def split: option.splits if_splits)

lemma lock_candidates:
  "c \<in> set (cp_candidates (add_lock_file_candidates ls p)) \<longleftrightarrow>
     c \<in> set (cp_candidates p) \<or> (\<exists>f. AvailableLock f \<in> set ls \<and> c = WorkspaceLockFile f (lock_file_resource f))"
  by (induction ls p rule: add_lock_file_candidates.induct) auto

lemma planned_images:
  "planned (add_default_runtime_image_candidates b cs u seen p) = planned p
     + image_mset (CleanResource ImageResource) (mset_set (set (image_names cs) - seen))"
proof (induction b cs u seen p rule: add_default_runtime_image_candidates.induct)
  case (2 b c cs u seen p)
  have *: "set (image_names (c # cs)) - seen =
      (if ic_image c \<in> seen then {} else {ic_image c}) \<union> (set (image_names cs) - (seen \<union> {ic_image c}))"
    by (auto simp: image_names_def)
  show ?case
    unfolding add_default_runtime_image_candidates.simps 2 *
    by (simp add: planned_def add_default_runtime_image_candidate_def Let_def split: option.splits)
qed (simp add: image_names_def)

lemma planned_volumes:
  "planned (add_cache_volume_candidates vs u p) = planned p
     + image_mset (CleanResource VolumeResource)
         (mset (filter is_agentbox_workspace_resource_name (map vol_name vs)))"
  by (induction vs u p rule: add_cache_volume_candidates.induct)
    (auto simp: planned_def add_candidate_or_skip_def split: option.splits)

lemma planned_locks:
  "planned (add_lock_file_candidates ls p) = planned p
     + image_mset (CleanResource LockFileResource) (mset (map lock_status_path ls))"
  by (induction ls p rule: add_lock_file_candidates.induct) (auto simp: planned_def lock_file_resource_def)

lemma candidates_exact:
  "c \<in> set (cp_candidates (clean_plan_from_inventory b scope inventory)) \<longleftrightarrow>
     cr_kind (cc_resource c) \<in> scope \<and> \<not> in_use (inv_containers inventory) (cc_resource c) \<and>
     (\<exists>n. (\<exists>k. c = DefaultRuntimeImage k (CleanResource ImageResource n) \<and> n \<noteq> default_image b k
         \<and> find (\<lambda>i. ic_image i = n) (inv_images inventory) = Some \<lparr>ic_runtime = k, ic_image = n\<rparr>)
       \<or> c = CacheVolume (CleanResource VolumeResource n) \<and> is_agentbox_workspace_resource_name n
         \<and> n \<in> set (map vol_name (inv_volumes inventory))
       \<or> c = WorkspaceLockFile n (CleanResource LockFileResource n) \<and> AvailableLock n \<in> set (inv_locks inventory))"
proof -
  have "\<not> in_use cs (CleanResource LockFileResource n)" for cs n
    using lock_file_not_used by (simp add: lock_file_resource_def)
  then show ?thesis
    by (auto simp: clean_plan_from_inventory_def Let_def image_candidates volume_candidates lock_candidates
        lock_file_resource_def split: if_splits)
qed

text \<open>C34: a clean plan lists for removal exactly the resources of its scope that no container uses and
  that are a default image of agentbox other than the current one, a cache volume of a workspace, or
  a lock file that no process holds.\<close>

theorem clean_candidates_exact:
  "c \<in> set (cp_candidates (clean_plan_from_inventory b scope inventory)) \<longleftrightarrow>
     cr_kind (cc_resource c) \<in> scope \<and> \<not> in_use (inv_containers inventory) (cc_resource c) \<and>
     (\<exists>n. (\<exists>k. c = DefaultRuntimeImage k (CleanResource ImageResource n) \<and> n \<noteq> default_image b k
         \<and> find (\<lambda>i. ic_image i = n) (inv_images inventory) = Some \<lparr>ic_runtime = k, ic_image = n\<rparr>)
       \<or> c = CacheVolume (CleanResource VolumeResource n) \<and> is_agentbox_workspace_resource_name n
         \<and> n \<in> set (map vol_name (inv_volumes inventory))
       \<or> c = WorkspaceLockFile n (CleanResource LockFileResource n) \<and> AvailableLock n \<in> set (inv_locks inventory))"
  by (rule candidates_exact)

text \<open>Every resource a clean plan considers is listed once, as a candidate or as skipped, and
  nothing else is: each image name of the inventory, each volume with a workspace's name, each lock
  file, as far as the scope includes them.\<close>

lemma clean_plan_partition:
  "planned (clean_plan_from_inventory b scope inventory) =
     (if ImageResource \<in> scope
      then image_mset (CleanResource ImageResource) (mset_set (set (map ic_image (inv_images inventory)))) else {#})
   + (if VolumeResource \<in> scope
      then image_mset (CleanResource VolumeResource)
        (mset (filter is_agentbox_workspace_resource_name (map vol_name (inv_volumes inventory)))) else {#})
   + (if LockFileResource \<in> scope
      then image_mset (CleanResource LockFileResource) (mset (map lock_status_path (inv_locks inventory))) else {#})"
proof -
  have "planned \<lparr>cp_candidates = [], cp_skipped = []\<rparr> = {#}" by (simp add: planned_def)
  then show ?thesis
    by (simp add: clean_plan_from_inventory_def Let_def planned_images planned_volumes planned_locks image_names_def
        ac_simps)
qed

section \<open>Applying a plan\<close>

text \<open>A removal that also records what was attempted, and with which result.\<close>

definition recorded :: "(clean_candidate \<Rightarrow> ('w, unit res) io)
    \<Rightarrow> clean_candidate \<Rightarrow> ('w \<times> (clean_candidate \<times> unit res) list, unit res) io" where
  "recorded remove c = State (\<lambda>(w, l). case run_state (remove c) w of (r, w') \<Rightarrow> (r, (w', l @ [(c, r)])))"

definition unrecorded :: "(string \<Rightarrow> ('w, unit) io) \<Rightarrow> string \<Rightarrow> ('w \<times> 'l, unit) io" where
  "unrecorded report m = State (\<lambda>(w, l). case run_state (report m) w of (r, w') \<Rightarrow> (r, (w', l)))"

definition delete_failure_of :: "clean_candidate \<times> unit res \<Rightarrow> delete_failure option" where
  "delete_failure_of a = map_option (\<lambda>e. \<lparr>df_resource = cc_resource (fst a), df_error = error_text e\<rparr>) (err_of (snd a))"

lemma delete_failure_of_simps [simp]:
  "delete_failure_of (c, Inl e) = Some \<lparr>df_resource = cc_resource c, df_error = error_text e\<rparr>"
  "delete_failure_of (c, Inr u) = None"
  by (simp_all add: delete_failure_of_def)

lemma run_recorded:
  "run_state (recorded remove c) (w, l) =
     (fst (run_state (remove c) w), (snd (run_state (remove c) w), l @ [(c, fst (run_state (remove c) w))]))"
  by (simp add: recorded_def split: prod.splits)

lemma run_unrecorded: "run_state (unrecorded report m) (w, l) = ((), (snd (run_state (report m) w), l))"
  by (simp add: unrecorded_def split: prod.splits)

lemma apply_loop_records:
  "\<exists>rs w'. length rs = length cs \<and>
     run_state (apply_loop (recorded remove) (unrecorded report) cs failures) (w, l) =
       (failures @ filter_map delete_failure_of (zip cs rs), (w', l @ zip cs rs))"
proof (induction cs arbitrary: failures w l)
  case (Cons c cs)
  obtain r w1 where r: "run_state (remove c) w = (r, w1)" by (cases "run_state (remove c) w")
  show ?case
  proof (cases r)
    case (Inl e)
    obtain rs w' where "length rs = length cs"
        "run_state (apply_loop (recorded remove) (unrecorded report) cs
            (failures @ [\<lparr>df_resource = cc_resource c, df_error = error_text e\<rparr>])) (w1, l @ [(c, r)]) =
          ((failures @ [\<lparr>df_resource = cc_resource c, df_error = error_text e\<rparr>])
            @ filter_map delete_failure_of (zip cs rs), (w', (l @ [(c, r)]) @ zip cs rs))"
      using Cons.IH by blast
    then show ?thesis
      using r Inl by (intro exI [of _ "r # rs"] exI [of _ w']) (simp add: run_recorded)
  next
    case (Inr u)
    obtain rs w' where "length rs = length cs"
        "run_state (apply_loop (recorded remove) (unrecorded report) cs failures)
            (snd (run_state (report (format [''removed '', resource_kind_str (cr_kind (cc_resource c)), '' '',
              tick (cr_name (cc_resource c))])) w1), l @ [(c, r)]) =
          (failures @ filter_map delete_failure_of (zip cs rs), (w', (l @ [(c, r)]) @ zip cs rs))"
      using Cons.IH by blast
    then show ?thesis
      using r Inr
      by (intro exI [of _ "r # rs"] exI [of _ w'])
        (simp add: run_recorded run_unrecorded)
  qed
qed simp

text \<open>C35: applying a plan attempts every candidate, once and in the plan's order, whatever fails; it
  succeeds when every removal did, and otherwise its error names exactly the candidates that failed,
  each with its error.\<close>

theorem clean_attempts_all:
  "\<exists>rs w'. length rs = length (cp_candidates p) \<and>
     run_state (apply_clean_plan_with (recorded remove) (unrecorded report) p) (w, l) =
       (if list_all (\<lambda>r. r = Ok ()) rs then Ok ()
        else Err (msg [render_delete_failures (filter_map delete_failure_of (zip (cp_candidates p) rs))]),
        (w', l @ zip (cp_candidates p) rs))"
proof -
  obtain rs w' where rs: "length rs = length (cp_candidates p)"
      "run_state (apply_loop (recorded remove) (unrecorded report) (cp_candidates p) []) (w, l) =
        (filter_map delete_failure_of (zip (cp_candidates p) rs), (w', l @ zip (cp_candidates p) rs))"
    using apply_loop_records [of "cp_candidates p" remove report "[]" w l] by auto
  have "filter_map delete_failure_of (zip cs rs) = [] \<longleftrightarrow> (list_all (\<lambda>r. r = Ok ()) rs)"
    if "length rs = length cs" for cs
    using that
  proof (induction rs cs rule: list_induct2)
    case (Cons r rs c cs)
    then show ?case by (cases r) simp_all
  qed simp
  from this [OF rs(1)] rs show ?thesis
    by (intro exI [of _ rs] exI [of _ w']) (simp add: apply_clean_plan_with_def run_map_io)
qed

end
