(* ===== verification/CleanEffect.thy ===== *)
theory CleanEffect
  imports CleanLaws
begin

text \<open>
  The trait \<open>CleanRemoval\<close> of \<open>clean/apply.rs\<close> as an interface: what removing a candidate promises of the
  resources on the machine, what applying a plan then does to them, and the production removal on a
  machine that keeps images, volumes and lock files.
\<close>

section \<open>The contract\<close>

text \<open>A candidate names its resource with the right kind, and a lock file by its path.\<close>

fun candidate_wf :: "clean_candidate \<Rightarrow> bool" where
  "candidate_wf (DefaultRuntimeImage k r) \<longleftrightarrow> cr_kind r = ImageResource"
| "candidate_wf (CacheVolume r) \<longleftrightarrow> cr_kind r = VolumeResource"
| "candidate_wf (WorkspaceLockFile p r) \<longleftrightarrow> r = lock_file_resource p"

locale clean_removal =
  fixes remove :: "clean_candidate \<Rightarrow> ('w, unit res) io" and report :: "string \<Rightarrow> ('w, unit) io"
    and present :: "'w \<Rightarrow> clean_resource \<Rightarrow> bool"
  assumes removed_law: "candidate_wf c \<Longrightarrow> run_state (remove c) s = (Ok u, s') \<Longrightarrow> \<not> present s' (cc_resource c)"
    and kept_law: "candidate_wf c \<Longrightarrow> run_state (remove c) s = (r, s') \<Longrightarrow> q \<noteq> cc_resource c \<Longrightarrow>
      present s' q = present s q"
    and shrinks_law: "candidate_wf c \<Longrightarrow> run_state (remove c) s = (r, s') \<Longrightarrow> present s' q \<Longrightarrow> present s q"
    and report_law: "run_state (report m) s = (v, s') \<Longrightarrow> present s' = present s"
begin

lemma apply_loop_effect:
  assumes "list_all candidate_wf cs" and "run_state (apply_loop remove report cs failures) s = (fs, s')"
  shows "(present s' q \<longrightarrow> present s q) \<and> (q \<notin> cc_resource ` set cs \<longrightarrow> present s' q = present s q)
    \<and> (\<exists>gs. fs = failures @ gs \<and> (gs = [] \<longrightarrow> q \<in> cc_resource ` set cs \<longrightarrow> \<not> present s' q))"
  using assms
proof (induction cs arbitrary: failures s)
  case (Cons c cs)
  obtain r s1 where r: "run_state (remove c) s = (r, s1)" by (cases "run_state (remove c) s")
  have wf: "candidate_wf c" "list_all candidate_wf cs" using Cons.prems(1) by simp_all
  note laws = kept_law [OF wf(1) r, of q] shrinks_law [OF wf(1) r, of q]
  show ?case
  proof (cases r)
    case (Inl e)
    let ?f = "\<lparr>df_resource = cc_resource c, df_error = error_text e\<rparr>"
    have "run_state (apply_loop remove report cs (failures @ [?f])) s1 = (fs, s')"
      using Cons.prems(2) r Inl by simp
    from Cons.IH [OF wf(2) this] obtain gs where ih: "present s' q \<longrightarrow> present s1 q"
        "q \<notin> cc_resource ` set cs \<longrightarrow> present s' q = present s1 q" "fs = (failures @ [?f]) @ gs" by blast
    show ?thesis
    proof (intro conjI exI [of _ "?f # gs"])
      show "present s' q \<longrightarrow> present s q" using ih(1) laws(2) by blast
      show "q \<notin> cc_resource ` set (c # cs) \<longrightarrow> present s' q = present s q" using ih(2) laws(1) by auto
    qed (simp_all add: ih(3))
  next
    case (Inr u)
    let ?m = "format [''removed '', resource_kind_str (cr_kind (cc_resource c)), '' '', tick (cr_name (cc_resource c))]"
    obtain v s2 where s2: "run_state (report ?m) s1 = (v, s2)" by (cases "run_state (report ?m) s1")
    have "run_state (apply_loop remove report cs failures) s2 = (fs, s')"
      using Cons.prems(2) r Inr s2 by simp
    from Cons.IH [OF wf(2) this] obtain gs where ih: "present s' q \<longrightarrow> present s2 q"
        "q \<notin> cc_resource ` set cs \<longrightarrow> present s' q = present s2 q" "fs = failures @ gs"
        "gs = [] \<longrightarrow> q \<in> cc_resource ` set cs \<longrightarrow> \<not> present s' q" by blast
    have s2q: "present s2 q = present s1 q" using report_law [OF s2] by simp
    have gone: "q = cc_resource c \<longrightarrow> \<not> present s1 q" using removed_law [OF wf(1) r [unfolded Inr]] by blast
    show ?thesis
    proof (intro conjI exI [of _ gs])
      show "present s' q \<longrightarrow> present s q" using ih(1) laws(2) s2q by blast
      show "q \<notin> cc_resource ` set (c # cs) \<longrightarrow> present s' q = present s q" using ih(2) laws(1) s2q by auto
      show "gs = [] \<longrightarrow> q \<in> cc_resource ` set (c # cs) \<longrightarrow> \<not> present s' q" using ih(1,4) gone s2q by auto
    qed (rule ih(3))
  qed
qed simp

lemma apply_effect:
  assumes "list_all candidate_wf (cp_candidates p)" and "run_state (apply_clean_plan_with remove report p) s = (r, s')"
  shows "(q \<notin> cc_resource ` set (cp_candidates p) \<longrightarrow> present s' q = present s q)
    \<and> (r = Ok () \<longrightarrow> q \<in> cc_resource ` set (cp_candidates p) \<longrightarrow> \<not> present s' q)"
proof -
  obtain fs where "run_state (apply_loop remove report (cp_candidates p) []) s = (fs, s')"
      "r = (if fs = [] then Ok () else Err (msg [render_delete_failures fs]))"
    using assms(2) by (auto simp: apply_clean_plan_with_def run_map_io_eq)
  from apply_loop_effect [OF assms(1) this(1), of q] this(2) show ?thesis by (auto split: if_splits)
qed

end

section \<open>Candidates of a plan\<close>

lemma plan_candidates_wf: "list_all candidate_wf (cp_candidates (clean_plan_from_inventory b scope inventory))"
  by (auto simp: list_all_iff candidates_exact lock_file_resource_def)

lemma plan_spares_used:
  assumes "in_use (inv_containers inventory) q"
  shows "q \<notin> cc_resource ` set (cp_candidates (clean_plan_from_inventory b scope inventory))"
  using assms by (auto simp: candidates_exact)

lemma labeled_candidate_ref:
  assumes "i \<in> set (concat (map labeled_default_runtime_image_candidates images))"
  shows "is_content_hash_default_image_ref (ic_runtime i) (ic_image i)"
  using assms by (auto simp: labeled_default_runtime_image_candidates_def split: option.splits)

lemma plan_spares_current:
  assumes "inv_images inventory = concat (map labeled_default_runtime_image_candidates images)"
  shows "CleanResource ImageResource (default_image b j)
    \<notin> cc_resource ` set (cp_candidates (clean_plan_from_inventory b scope inventory))"
proof
  assume "CleanResource ImageResource (default_image b j)
    \<in> cc_resource ` set (cp_candidates (clean_plan_from_inventory b scope inventory))"
  then obtain k where k: "default_image b j \<noteq> default_image b k"
      "find (\<lambda>i. ic_image i = default_image b j) (inv_images inventory)
        = Some \<lparr>ic_runtime = k, ic_image = default_image b j\<rparr>"
    by (auto simp: candidates_exact)
  then have "\<lparr>ic_runtime = k, ic_image = default_image b j\<rparr> \<in> set (inv_images inventory)"
    by (auto simp: find_Some_iff)
  then have "is_content_hash_default_image_ref k (default_image b j)"
    using labeled_candidate_ref [of "\<lparr>ic_runtime = k, ic_image = default_image b j\<rparr>" images] assms by simp
  then have "k = j" using content_hash_ref_runtime_unique default_image_is_ref by blast
  then show False using k(1) by simp
qed

section \<open>The production removal on a machine\<close>

text \<open>Resources on a machine: those in \<open>rm_pinned\<close> Podman refuses to remove, and another process may
  hold the lock files.\<close>

record resource_machine =
  rm_images :: "string list"
  rm_volumes :: "string list"
  rm_locks :: "path list"
  rm_states :: "path \<Rightarrow> image_state option"
  rm_pinned :: "string list"
  rm_held :: bool

definition rm_outcome :: "bool \<Rightarrow> resource_machine \<Rightarrow> resource_machine
    \<Rightarrow> (capture_failure + process_status_output) \<times> resource_machine" where
  "rm_outcome done m m' = (Inr \<lparr>po_stdout = [], po_stderr = [], po_status = Exited (if done then 0 else 1)\<rparr>,
     if done then m' else m)"

definition rm_host :: "build \<Rightarrow> resource_machine host" where
  "rm_host b = (idle_host b)\<lparr>run_process := (\<lambda>argv m.
     if take 3 argv = [''podman'', ''image'', ''rm'']
     then rm_outcome (argv ! 3 \<in> set (rm_images m) \<and> argv ! 3 \<notin> set (rm_pinned m)) m
       (m\<lparr>rm_images := removeAll (argv ! 3) (rm_images m)\<rparr>)
     else if take 3 argv = [''podman'', ''volume'', ''rm'']
     then rm_outcome (argv ! 3 \<in> set (rm_volumes m) \<and> argv ! 3 \<notin> set (rm_pinned m)) m
       (m\<lparr>rm_volumes := removeAll (argv ! 3) (rm_volumes m)\<rparr>)
     else (Inl ProgramNotFound, m))\<rparr>"

definition rm_lock_fs :: "resource_machine lock_fs" where
  "rm_lock_fs = \<lparr>
     fs_open_or_create = (\<lambda>p m. (Ok 0, m\<lparr>rm_locks := p # rm_locks m\<rparr>)),
     fs_open_existing = (\<lambda>p m. (Ok (if p \<in> set (rm_locks m) then Some 0 else None), m)),
     fs_lock = (\<lambda>f m. (Ok (), m)),
     fs_try_lock = (\<lambda>f m. (Ok (\<not> rm_held m), m)),
     fs_unlock = (\<lambda>f m. ((), m)),
     fs_same_file = (\<lambda>f p m. (Ok True, m)),
     fs_remove = (\<lambda>p m. (Ok (p \<in> set (rm_locks m)), m\<lparr>rm_locks := removeAll p (rm_locks m)\<rparr>)),
     fs_read_dir = (\<lambda>p m. (Ok None, m))\<rparr>"

definition rm_files :: "(image_state, resource_machine) file_ops" where
  "rm_files = \<lparr>
     fo_exists = (\<lambda>p m. (rm_states m p \<noteq> None, m)),
     fo_read = (\<lambda>p m. (ok_or (rm_states m p) (Io ''not found''), m)),
     fo_write = (\<lambda>p st m. (Ok (), m\<lparr>rm_states := (rm_states m)(p := Some st)\<rparr>)),
     fo_remove = (\<lambda>p m. (Ok (rm_states m p \<noteq> None), m\<lparr>rm_states := (rm_states m)(p := None)\<rparr>))\<rparr>"

definition rm_prompter :: "resource_machine prompter" where
  "rm_prompter = \<lparr>is_terminal = (\<lambda>m. (False, m)), ask_one = (\<lambda>q cs m. (Inl NotTTY, m)),
     ask_many = (\<lambda>q cs m. (Inl NotTTY, m)), inquire_text = (\<lambda>_. []), ask_confirm = (\<lambda>q d m. (Inl NotTTY, m))\<rparr>"

definition rm_clean :: "build \<Rightarrow> path \<Rightarrow> (image_state, resource_machine) clean_host" where
  "rm_clean b home = \<lparr>cl_host = rm_host b, cl_images_of_json = (\<lambda>_. Inr []), cl_volumes_of_json = (\<lambda>_. Inr []),
     cl_locks = rm_lock_fs, cl_state_home = Some home,
     cl_store = \<lparr>st_files = rm_files, st_root = home, st_encode = Inr, st_decode = Inr\<rparr>,
     cl_prompter = rm_prompter, cl_diagnostic = (\<lambda>_ m. ((), m)), cl_write_stderr = (\<lambda>_ m. (Ok (), m))\<rparr>"

definition rm_present :: "resource_machine \<Rightarrow> clean_resource \<Rightarrow> bool" where
  "rm_present m r \<longleftrightarrow> (case cr_kind r of
      ImageResource \<Rightarrow> cr_name r \<in> set (rm_images m)
    | VolumeResource \<Rightarrow> cr_name r \<in> set (rm_volumes m)
    | LockFileResource \<Rightarrow> cr_name r \<in> set (rm_locks m))"

lemma run_rm_store_read:
  "run_state (store_read \<lparr>st_files = rm_files, st_root = root, st_encode = Inr, st_decode = Inr\<rparr> k) m =
     (Ok (rm_states m (state_path root k)), m)"
  by (auto simp: store_read_def rm_files_def Let_def run_attempt split: option.splits)

lemma run_rm_state_removal:
  "\<exists>f. run_state (remove_default_runtime_image_state_if_image (Some home) (cl_store (rm_clean b home)) k img) m
     = (Ok (), m\<lparr>rm_states := f\<rparr>)"
proof -
  let ?p = "state_path (from_state_home home) k"
  have "run_state (remove_default_runtime_image_state_if_image (Some home) (cl_store (rm_clean b home)) k img) m
      = (Ok (), m\<lparr>rm_states := if map_option is_image (rm_states m ?p) = Some img then (rm_states m)(?p := None)
          else rm_states m\<rparr>)"
    by (cases "rm_states m ?p")
      (simp_all add: remove_default_runtime_image_state_if_image_def state_store_from_xdg_def state_root_from_xdg_def
        remove_if_image_def store_remove_def rm_clean_def run_rm_store_read run_attempt run_map_io, simp add: rm_files_def)
  then show ?thesis by blast
qed

lemma run_rm_image:
  "n \<in> set (rm_images m) \<and> n \<notin> set (rm_pinned m) \<Longrightarrow>
     run_state (remove_image (rm_host b) n) m = (Ok (), m\<lparr>rm_images := removeAll n (rm_images m)\<rparr>)"
  "\<not> (n \<in> set (rm_images m) \<and> n \<notin> set (rm_pinned m)) \<Longrightarrow>
     \<exists>e. run_state (remove_image (rm_host b) n) m = (Err e, m)"
  by (auto simp: remove_image_def run_map_io run_quiet_def capture_def rm_host_def rm_outcome_def podman_argv_def)

lemma run_rm_volume:
  "n \<in> set (rm_volumes m) \<and> n \<notin> set (rm_pinned m) \<Longrightarrow>
     run_state (remove_volume (rm_host b) n) m = (Ok (), m\<lparr>rm_volumes := removeAll n (rm_volumes m)\<rparr>)"
  "\<not> (n \<in> set (rm_volumes m) \<and> n \<notin> set (rm_pinned m)) \<Longrightarrow>
     \<exists>e. run_state (remove_volume (rm_host b) n) m = (Err e, m)"
  by (auto simp: remove_volume_def run_map_io run_quiet_def capture_def rm_host_def rm_outcome_def podman_argv_def)

lemma run_rm_lock:
  "\<exists>r. run_state (remove_cleanup_lock_file rm_lock_fs p) m =
     (Ok r, if r = RemovalRemoved then m\<lparr>rm_locks := removeAll p (rm_locks m)\<rparr> else m)
   \<and> (r = RemovalMissing \<longrightarrow> p \<notin> set (rm_locks m))"
  by (cases "p \<in> set (rm_locks m)"; cases "rm_held m")
    (simp_all add: remove_cleanup_lock_file_def run_attempt rm_lock_fs_def)

lemma rm_remove_effect:
  assumes "candidate_wf c" and "run_state (remove_candidate (rm_clean b home) c) m = (r, m')"
  shows "(r = Ok () \<longrightarrow> \<not> rm_present m' (cc_resource c))
    \<and> (q \<noteq> cc_resource c \<longrightarrow> rm_present m' q = rm_present m q) \<and> (rm_present m' q \<longrightarrow> rm_present m q)"
proof (cases c)
  case (DefaultRuntimeImage k res)
  let ?ok = "cr_name res \<in> set (rm_images m) \<and> cr_name res \<notin> set (rm_pinned m)"
  obtain f where f: "run_state (remove_default_runtime_image_state_if_image (Some home) (cl_store (rm_clean b home)) k
      (cr_name res)) (m\<lparr>rm_images := removeAll (cr_name res) (rm_images m)\<rparr>) =
      (Ok (), m\<lparr>rm_images := removeAll (cr_name res) (rm_images m)\<rparr>\<lparr>rm_states := f\<rparr>)"
    using run_rm_state_removal by blast
  show ?thesis
  proof (cases ?ok)
    case True
    then have "r = Ok () \<and> m' = m\<lparr>rm_images := removeAll (cr_name res) (rm_images m)\<rparr>\<lparr>rm_states := f\<rparr>"
      using assms(2) DefaultRuntimeImage f run_rm_image(1) [OF True, of b]
      by (simp add: run_attempt rm_clean_def)
    then show ?thesis
      using assms(1) DefaultRuntimeImage
      by (cases q; cases res) (auto simp: rm_present_def split: resource_kind.splits)
  next
    case False
    then obtain e where "run_state (remove_image (rm_host b) (cr_name res)) m = (Err e, m)"
      using run_rm_image(2) by blast
    then have "m' = m \<and> r = Err e"
      using assms(2) DefaultRuntimeImage by (simp add: run_attempt rm_clean_def)
    then show ?thesis by simp
  qed
next
  case (CacheVolume res)
  show ?thesis
  proof (cases "cr_name res \<in> set (rm_volumes m) \<and> cr_name res \<notin> set (rm_pinned m)")
    case True
    then have "r = Ok () \<and> m' = m\<lparr>rm_volumes := removeAll (cr_name res) (rm_volumes m)\<rparr>"
      using assms(2) CacheVolume run_rm_volume(1) [OF True, of b] by (simp add: rm_clean_def)
    then show ?thesis
      using assms(1) CacheVolume
      by (cases q; cases res) (auto simp: rm_present_def split: resource_kind.splits)
  next
    case False
    then obtain e where "run_state (remove_volume (rm_host b) (cr_name res)) m = (Err e, m)"
      using run_rm_volume(2) by blast
    then have "m' = m \<and> r = Err e" using assms(2) CacheVolume by (simp add: rm_clean_def)
    then show ?thesis by simp
  qed
next
  case (WorkspaceLockFile p res)
  obtain a where "run_state (remove_cleanup_lock_file rm_lock_fs p) m =
      (Ok a, if a = RemovalRemoved then m\<lparr>rm_locks := removeAll p (rm_locks m)\<rparr> else m)"
      "a = RemovalMissing \<longrightarrow> p \<notin> set (rm_locks m)"
    using run_rm_lock by blast
  then show ?thesis
    using assms WorkspaceLockFile
    by (cases q; cases a)
      (auto simp: rm_clean_def rm_present_def run_attempt lock_file_resource_def split: resource_kind.splits)
qed

interpretation rm_removal: clean_removal "remove_candidate (rm_clean b home)" "diagnostic (rm_clean b home)" rm_present
  for b home
proof (unfold_locales, goal_cases)
  case (1 c s u s')
  then show ?case using rm_remove_effect [OF 1] by simp
next
  case (2 c s r s' q)
  then show ?case using rm_remove_effect [OF 2(1,2), of q] by blast
next
  case (3 c s r s' q)
  then show ?case using rm_remove_effect [OF 3(1,2), of q] by blast
next
  case (4 m s v s')
  then show ?case by (simp add: diagnostic_def rm_clean_def)
qed

section \<open>What cleaning does to a machine\<close>

text \<open>C32: applying a clean plan, with any removal that keeps the contract, leaves every resource that a
  listed container uses and the current default image of every runtime as they are, and when it
  succeeds no candidate is left.\<close>

theorem clean_effect:
  assumes "clean_removal remove report present"
    and "inv_images inventory = concat (map labeled_default_runtime_image_candidates images)"
    and "run_state (apply_clean_plan_with remove report (clean_plan_from_inventory b scope inventory)) s = (r, s')"
  shows "(in_use (inv_containers inventory) q \<or> q = CleanResource ImageResource (default_image b j) \<longrightarrow>
      present s' q = present s q)
    \<and> (r = Ok () \<longrightarrow> q \<in> cc_resource ` set (cp_candidates (clean_plan_from_inventory b scope inventory)) \<longrightarrow>
      \<not> present s' q)"
  using clean_removal.apply_effect [OF assms(1) plan_candidates_wf assms(3), of q] plan_spares_used [of inventory q b scope]
    plan_spares_current [OF assms(2), of b j scope]
  by blast

definition sample_inventory :: clean_inventory where
  "sample_inventory = \<lparr>inv_containers = [], inv_images = [], inv_volumes = [],
     inv_locks = [AvailableLock ''/l/a.lock'', LockedLock ''/l/b.lock'']\<rparr>"

definition sample_resources :: resource_machine where
  "sample_resources = \<lparr>rm_images = [default_image sample_build Codex], rm_volumes = [], rm_locks = [''/l/a.lock'', ''/l/b.lock''],
     rm_states = (\<lambda>_. None), rm_pinned = [], rm_held = False\<rparr>"

lemma clean_effect_witness:
  "let p = clean_plan_from_inventory sample_build {LockFileResource} sample_inventory;
       (r, s') = run_state (apply_clean_plan (rm_clean sample_build ''/state'') p) sample_resources
   in map cc_resource (cp_candidates p) = [CleanResource LockFileResource ''/l/a.lock''] \<and> r = Ok ()
     \<and> \<not> rm_present s' (CleanResource LockFileResource ''/l/a.lock'')
     \<and> rm_present s' (CleanResource ImageResource (default_image sample_build Codex))"
proof -
  let ?p = "clean_plan_from_inventory sample_build {LockFileResource} sample_inventory"
  let ?img = "CleanResource ImageResource (default_image sample_build Codex)"
  have p: "cp_candidates ?p = [WorkspaceLockFile ''/l/a.lock'' (CleanResource LockFileResource ''/l/a.lock'')]"
    by (simp add: clean_plan_from_inventory_def Let_def sample_inventory_def lock_file_resource_def)
  obtain r s' where run: "run_state (apply_clean_plan (rm_clean sample_build ''/state'') ?p) sample_resources = (r, s')"
    by (cases "run_state (apply_clean_plan (rm_clean sample_build ''/state'') ?p) sample_resources")
  then have "r = Ok ()"
    by (simp add: apply_clean_plan_def apply_clean_plan_with_def p run_map_io run_attempt rm_clean_def
        remove_cleanup_lock_file_def rm_lock_fs_def sample_resources_def diagnostic_def)
  moreover have "rm_present s' ?img = rm_present sample_resources ?img"
      "r = Ok () \<longrightarrow> \<not> rm_present s' (CleanResource LockFileResource ''/l/a.lock'')"
    using clean_effect [OF rm_removal.clean_removal_axioms _ run [unfolded apply_clean_plan_def], of "[]" ?img Codex]
      clean_effect [OF rm_removal.clean_removal_axioms _ run [unfolded apply_clean_plan_def], of "[]"
        "CleanResource LockFileResource ''/l/a.lock''" Codex]
    by (simp_all add: sample_inventory_def [THEN arg_cong [where f = inv_images]] p)
  moreover have "rm_present sample_resources ?img" by (simp add: rm_present_def sample_resources_def)
  ultimately show ?thesis using run p by simp
qed

end
