(* ===== verification/CleanTrace.thy ===== *)
theory CleanTrace
  imports CleanLaws StopLaws
begin

text \<open>
  What \<open>agentbox clean\<close> removes, read off its events.
\<close>

section \<open>Recording what is removed\<close>

definition logged_locks :: "'w lock_fs \<Rightarrow> ('w \<times> event list) lock_fs" where
  "logged_locks fs = \<lparr>
     fs_open_or_create = (\<lambda>p. record_op (fs_open_or_create fs p) (\<lambda>_. [])),
     fs_open_existing = (\<lambda>p. record_op (fs_open_existing fs p) (\<lambda>_. [])),
     fs_lock = (\<lambda>f. record_op (fs_lock fs f) (\<lambda>_. [])),
     fs_try_lock = (\<lambda>f. record_op (fs_try_lock fs f) (\<lambda>_. [])),
     fs_unlock = (\<lambda>f. record_op (fs_unlock fs f) (\<lambda>_. [])),
     fs_same_file = (\<lambda>f p. record_op (fs_same_file fs f p) (\<lambda>_. [])),
     fs_remove = (\<lambda>p. record_op (fs_remove fs p) (\<lambda>_. [FileRemoved p])),
     fs_read_dir = (\<lambda>p. record_op (fs_read_dir fs p) (\<lambda>_. []))\<rparr>"

definition logged_files :: "('c, 'w) file_ops \<Rightarrow> ('c, 'w \<times> event list) file_ops" where
  "logged_files fo = \<lparr>
     fo_exists = (\<lambda>p. record_op (fo_exists fo p) (\<lambda>_. [])),
     fo_read = (\<lambda>p. record_op (fo_read fo p) (\<lambda>_. [])),
     fo_write = (\<lambda>p c. record_op (fo_write fo p c) (\<lambda>_. [])),
     fo_remove = (\<lambda>p. record_op (fo_remove fo p) (\<lambda>_. [FileRemoved p]))\<rparr>"

definition logged_prompter :: "'w prompter \<Rightarrow> ('w \<times> event list) prompter" where
  "logged_prompter p = \<lparr>
     is_terminal = record_op (is_terminal p) (\<lambda>_. []),
     ask_one = (\<lambda>m cs. record_op (ask_one p m cs) (\<lambda>_. [])),
     ask_many = (\<lambda>m cs. record_op (ask_many p m cs) (\<lambda>_. [])),
     inquire_text = inquire_text p,
     ask_confirm = (\<lambda>m d. record_op (ask_confirm p m d) (\<lambda>_. []))\<rparr>"

definition logged_clean :: "('c, 'w) clean_host \<Rightarrow> ('c, 'w \<times> event list) clean_host" where
  "logged_clean cl = \<lparr>
     cl_host = logged (cl_host cl),
     cl_images_of_json = cl_images_of_json cl,
     cl_volumes_of_json = cl_volumes_of_json cl,
     cl_locks = logged_locks (cl_locks cl),
     cl_state_home = cl_state_home cl,
     cl_store = \<lparr>st_files = logged_files (st_files (cl_store cl)), st_root = st_root (cl_store cl),
       st_encode = st_encode (cl_store cl), st_decode = st_decode (cl_store cl)\<rparr>,
     cl_prompter = logged_prompter (cl_prompter cl),
     cl_diagnostic = (\<lambda>m. record_op (cl_diagnostic cl m) (\<lambda>_. [])),
     cl_write_stderr = (\<lambda>m. record_op (cl_write_stderr cl m) (\<lambda>_. []))\<rparr>"

lemma logged_clean_simps [simp]:
  "cl_host (logged_clean cl) = logged (cl_host cl)"
  "cl_images_of_json (logged_clean cl) = cl_images_of_json cl"
  "cl_volumes_of_json (logged_clean cl) = cl_volumes_of_json cl"
  "cl_locks (logged_clean cl) = logged_locks (cl_locks cl)"
  "cl_state_home (logged_clean cl) = cl_state_home cl"
  "cl_prompter (logged_clean cl) = logged_prompter (cl_prompter cl)"
  "st_files (cl_store (logged_clean cl)) = logged_files (st_files (cl_store cl))"
  "st_decode (cl_store (logged_clean cl)) = st_decode (cl_store cl)"
  by (simp_all add: logged_clean_def)

lemma only_clean_ops [only_intros]:
  "only P (State (fs_open_existing (logged_locks fs) p))"
  "only P (State (fs_try_lock (logged_locks fs) f))"
  "only P (State (fs_unlock (logged_locks fs) f))"
  "only P (State (fs_read_dir (logged_locks fs) p))"
  "P (FileRemoved p) \<Longrightarrow> only P (State (fs_remove (logged_locks fs) p))"
  "only P (State (fo_exists (logged_files fo) p))"
  "only P (State (fo_read (logged_files fo) p))"
  "P (FileRemoved p) \<Longrightarrow> only P (State (fo_remove (logged_files fo) p))"
  "only P (State (is_terminal (logged_prompter pr)))"
  "only P (State (ask_confirm (logged_prompter pr) m d))"
  "only P (State (cl_diagnostic (logged_clean cl) m))"
  "only P (State (cl_write_stderr (logged_clean cl) m))"
  by (auto simp: logged_locks_def logged_files_def logged_prompter_def logged_clean_def intro!: only_record)

section \<open>The inventory only reads\<close>

definition lists :: "event \<Rightarrow> bool" where
  "lists e \<longleftrightarrow> reads e \<or> (\<exists>argv st. e = Ran argv st
     \<and> take 3 argv \<in> {[''podman'', ''image'', ''ls''], [''podman'', ''volume'', ''ls'']})"

lemma only_inspect_containers: "only reads (inspect_containers (logged h) cs)"
  by (induction "logged h" cs rule: inspect_containers.induct) (auto intro!: only_intros)

lemma only_lock_statuses: "only P (lock_statuses (logged_locks fs) dir es)"
  by (induction "logged_locks fs" dir es rule: lock_statuses.induct)
    (auto intro!: only_intros simp: cleanup_lock_file_status_def)

lemma reads_lists: "only reads m \<Longrightarrow> only lists m"
  by (erule only_mono) (simp add: lists_def)

lemmas only_lists = only_reads(2) [THEN reads_lists] only_inspect_containers [THEN reads_lists]

lemma only_inventory: "only lists (inventory_from_podman (logged_clean cl) scope)"
  unfolding inventory_from_podman_def inspect_all_containers_def labeled_default_runtime_images_def
    podman_volumes_def images_with_label_def cleanup_lock_files_from_xdg_def cleanup_lock_files_def
  by (auto intro!: only_intros only_lists only_lock_statuses simp: lists_def podman_argv_def)

section \<open>What a candidate's removal does\<close>

fun removes :: "path option \<Rightarrow> clean_candidate \<Rightarrow> event \<Rightarrow> bool" where
  "removes home (DefaultRuntimeImage k r) e \<longleftrightarrow>
     (\<exists>st. e = Ran [''podman'', ''image'', ''rm'', cr_name r] st)
     \<or> (\<exists>root. state_root_from_xdg home = Ok root \<and> e = FileRemoved (state_path root k))"
| "removes home (CacheVolume r) e \<longleftrightarrow> (\<exists>st. e = Ran [''podman'', ''volume'', ''rm'', cr_name r] st)"
| "removes home (WorkspaceLockFile p r) e \<longleftrightarrow> e = FileRemoved p"

lemma only_remove_candidate: "only (removes (cl_state_home cl) c) (remove_candidate (logged_clean cl) c)"
proof (cases c)
  case (DefaultRuntimeImage k r)
  have "only (removes (cl_state_home cl) c)
      (remove_default_runtime_image_state_if_image (cl_state_home cl) (cl_store (logged_clean cl)) k (cr_name r))"
    using DefaultRuntimeImage
    by (cases "state_root_from_xdg (cl_state_home cl)")
      (auto intro!: only_intros simp: remove_default_runtime_image_state_if_image_def state_store_from_xdg_def
        remove_if_image_def store_read_def store_remove_def Let_def split: sum.splits option.splits)
  then show ?thesis
    using DefaultRuntimeImage by (auto intro!: only_intros simp: remove_image_def podman_argv_def)
next
  case (CacheVolume r)
  then show ?thesis by (auto intro!: only_intros simp: remove_volume_def podman_argv_def)
next
  case (WorkspaceLockFile p r)
  then show ?thesis by (auto intro!: only_intros simp: remove_cleanup_lock_file_def)
qed

lemma only_confirm: "only P (confirm (logged_prompter pr) m d n)"
  unfolding confirm_def require_interactive_terminal_def by (intro only_intros)

text \<open>Sequencing where the continuation depends on what the first operation can return.\<close>

lemma only_attempt_returns:
  assumes "only P m" and "\<And>x s s'. run_state m s = (Ok x, s') \<Longrightarrow> only P (f x)"
  shows "only P (attempt m f)"
proof (rule onlyI)
  fix s a s'
  assume run: "run_state (attempt m f) s = (a, s')"
  obtain r t where m: "run_state m s = (r, t)" by (cases "run_state m s")
  obtain es where es: "snd t = snd s @ es" "list_all P es" using onlyD [OF assms(1) m] by blast
  show "\<exists>es. snd s' = snd s @ es \<and> list_all P es"
  proof (cases r)
    case (Inl e)
    then show ?thesis using run m es by (simp add: run_attempt)
  next
    case (Inr x)
    then have "run_state (f x) t = (a, s')" using run m by (simp add: run_attempt)
    from onlyD [OF assms(2) [OF m [unfolded Inr]] this] es show ?thesis
      by (metis append.assoc list_all_append)
  qed
qed

definition may_confirm :: "'w prompter \<Rightarrow> bool" where
  "may_confirm pr \<longleftrightarrow> (\<exists>m d w. fst (ask_confirm pr m d w) = Ok (Some True))"

lemma confirm_yes: "run_state (confirm (logged_prompter pr) m d n) s = (Ok True, s') \<Longrightarrow> may_confirm pr"
  by (auto simp: confirm_def run_attempt run_map_io logged_prompter_def record_op_def may_confirm_def
      map_err_eq_Ok map_ok_eq_Ok eq_commute [of "Ok True"] split: prod.splits sum.splits option.splits)
    (metis fst_conv unwrap_or.simps option.exhaust)+

lemma only_apply_loop:
  "(\<And>c. c \<in> set cs \<Longrightarrow> only P (remove c)) \<Longrightarrow> (\<And>m. only P (report m)) \<Longrightarrow>
     only P (apply_loop remove report cs failures)"
  by (induction remove report cs failures rule: apply_loop.induct) (auto intro!: only_intros)

lemma only_diagnostic: "only P (diagnostic (logged_clean cl) m)"
  unfolding diagnostic_def by (rule only_clean_ops)

definition removes_candidate :: "path option \<Rightarrow> clean_plan \<Rightarrow> event \<Rightarrow> bool" where
  "removes_candidate home p e \<longleftrightarrow> list_ex (\<lambda>c. removes home c e) (cp_candidates p)"

lemma only_apply_clean_plan:
  "only (removes_candidate (cl_state_home cl) p) (apply_clean_plan (logged_clean cl) p)"
proof -
  have "only (removes_candidate (cl_state_home cl) p) (remove_candidate (logged_clean cl) c)"
    if "c \<in> set (cp_candidates p)" for c
    using that by (intro only_mono [OF only_remove_candidate]) (auto simp: removes_candidate_def list_ex_iff)
  then show ?thesis
    unfolding apply_clean_plan_def apply_clean_plan_with_def
    by (intro only_intros only_apply_loop only_diagnostic)
qed

definition authorized :: "clean_args \<Rightarrow> 'w prompter \<Rightarrow> bool" where
  "authorized args pr \<longleftrightarrow> \<not> ca_dry_run args \<and> (ca_yes args \<or> may_confirm pr)"

lemma only_confirm_and_apply:
  "only (\<lambda>e. may_confirm (cl_prompter cl) \<and> removes_candidate (cl_state_home cl) p e)
     (clean_confirm_and_apply (logged_clean cl) p)"
proof -
  let ?P = "\<lambda>e. may_confirm (cl_prompter cl) \<and> removes_candidate (cl_state_home cl) p e"
  have *: "only ?P (if \<not> yes then do { _ \<leftarrow> diagnostic (logged_clean cl) ''aborted''; pure (Ok ()) }
       else apply_clean_plan (logged_clean cl) p)" if "yes \<Longrightarrow> may_confirm (cl_prompter cl)" for yes
  proof (cases yes)
    case True
    then show ?thesis using that only_mono [OF only_apply_clean_plan, of cl p ?P] by simp
  qed (auto intro!: only_intros only_diagnostic)
  show ?thesis
    unfolding clean_confirm_and_apply_def require_interactive_terminal_def logged_clean_simps
    by (rule only_attempt, intro only_intros, rule only_attempt, intro only_intros,
        rule only_attempt_returns [OF only_confirm], rule *) (auto dest: confirm_yes)
qed

lemma only_clean_with_plan:
  "only (\<lambda>e. authorized args (cl_prompter cl) \<and> removes_candidate (cl_state_home cl) p e)
     (clean_with_plan (logged_clean cl) args p)" (is "only ?P _")
proof -
  have "only ?P (apply_clean_plan (logged_clean cl) p)" if "ca_yes args" "\<not> ca_dry_run args"
    by (rule only_mono [OF only_apply_clean_plan]) (use that in \<open>auto simp: authorized_def\<close>)
  moreover have "only ?P (clean_confirm_and_apply (logged_clean cl) p)" if "\<not> ca_dry_run args"
    by (rule only_mono [OF only_confirm_and_apply]) (use that in \<open>auto simp: authorized_def\<close>)
  ultimately show ?thesis
    unfolding clean_with_plan_def by (auto intro!: only_intros only_diagnostic)
qed

text \<open>C33: whatever \<open>agentbox clean\<close> does, it only lists Podman's resources and removes candidates of the
  plan made from the inventory it read, and removes nothing on a dry run or when neither \<open>--yes\<close> is
  given nor the user answers yes.\<close>

theorem clean_removes_only_candidates:
  "\<exists>es. snd (snd (run_state (clean_run (logged_clean cl) args) (w, l))) = l @ es \<and>
     list_all (\<lambda>e. lists e \<or> authorized args (cl_prompter cl) \<and>
       (\<exists>inventory. fst (run_state (inventory_from_podman (logged_clean cl)
             (scope_from_flags (ca_images args) (ca_volumes args) (ca_locks args))) (w, l)) = Ok inventory \<and>
         removes_candidate (cl_state_home cl) (clean_plan_from_inventory (host_build (cl_host cl))
           (scope_from_flags (ca_images args) (ca_volumes args) (ca_locks args)) inventory) e)) es"
    (is "\<exists>es. _ \<and> list_all ?P es")
proof -
  let ?scope = "scope_from_flags (ca_images args) (ca_volumes args) (ca_locks args)"
  let ?inv = "run_state (inventory_from_podman (logged_clean cl) ?scope) (w, l)"
  obtain r w1 l1 where inv: "?inv = (r, (w1, l1))" by (cases ?inv) auto
  obtain es where es: "l1 = l @ es" "list_all lists es" using onlyD [OF only_inventory inv] by auto
  show ?thesis
  proof (cases r)
    case (Inl e)
    then have "run_state (clean_run (logged_clean cl) args) (w, l) = (Err e, (w1, l1))"
      using inv by (simp add: clean_run_def build_clean_plan_def run_attempt run_map_io)
    then show ?thesis using es by (auto intro!: exI [of _ es] simp: list_all_iff)
  next
    case (Inr inventory)
    let ?p = "clean_plan_from_inventory (host_build (cl_host cl)) ?scope inventory"
    let ?rest = "run_state (clean_with_plan (logged_clean cl) args ?p) (w1, l1)"
    obtain q w2 l2 where rest: "?rest = (q, (w2, l2))" by (cases ?rest) auto
    then have "run_state (clean_run (logged_clean cl) args) (w, l) = (q, (w2, l2))"
      using inv Inr by (simp add: clean_run_def build_clean_plan_def run_attempt run_map_io logged_def)
    moreover obtain fs where "l2 = l1 @ fs" "list_all ?P fs"
    proof -
      obtain fs where fs: "l2 = l1 @ fs"
          "list_all (\<lambda>e. authorized args (cl_prompter cl) \<and> removes_candidate (cl_state_home cl) ?p e) fs"
        using onlyD [OF only_clean_with_plan rest] by auto
      then have "list_all ?P fs" using inv Inr by (auto simp: list_all_iff)
      then show ?thesis using that fs(1) by blast
    qed
    moreover have "list_all ?P es" using es(2) by (auto simp: list_all_iff)
    ultimately show ?thesis using es(1) by (intro exI [of _ "es @ fs"]) simp
  qed
qed

end
