(* ===== verification/Views.thy ===== *)
theory Views
  imports Server HostDiscovery "HOL-Library.Multiset"
begin

text \<open>
  \<open>agentbox ps\<close> and \<open>agentbox health\<close>: \<open>src/commands/ps.rs\<close>, \<open>health.rs\<close>, \<open>session_output.rs\<close>,
  \<open>output.rs\<close>. Rows are modelled in full; laying out a table and serialising JSON are parameters.
\<close>

section \<open>\<open>output.rs\<close>\<close>

datatype output_format = TableFormat | JsonFormat

fun output_format_str :: "output_format \<Rightarrow> string" where
  "output_format_str TableFormat = ''table''"
| "output_format_str JsonFormat = ''json''"

text \<open>A JSON object as its fields in order; the values that occur are strings and null.\<close>

datatype json_value = JsonNull | JsonString string

type_synonym json_row = "(string \<times> json_value) list"

fun json_option :: "string option \<Rightarrow> json_value" where
  "json_option None = JsonNull"
| "json_option (Some s) = JsonString s"

record 'w view_host =
  vw_host :: "'w host"
  vw_trimmed_table :: "string list \<Rightarrow> string list list \<Rightarrow> string"
  vw_json :: "json_row list \<Rightarrow> string + string"
  vw_print :: "string \<Rightarrow> 'w \<Rightarrow> unit \<times> 'w"

definition render_table :: "'w view_host \<Rightarrow> string list \<Rightarrow> string list list \<Rightarrow> string" where
  "render_table v headers rows = vw_trimmed_table v headers rows @ [CHR 0x0A]"

definition render_json :: "'w view_host \<Rightarrow> json_row list \<Rightarrow> string res" where
  "render_json v rows = map_ok (\<lambda>t. t @ [CHR 0x0A]) (map_err Json (vw_json v rows))"

section \<open>\<open>session_output.rs\<close>\<close>

record session_display =
  sd_id :: "string option"
  sd_canonical_git_root :: "path option"
  sd_runtime :: "string option"
  sd_endpoint :: "attach_endpoint option"
  sd_container_name :: string

definition display_from_session :: "session_record \<Rightarrow> session_display" where
  "display_from_session s = \<lparr>sd_id = stable_id s, sd_canonical_git_root = sr_git_root s, sd_runtime = sr_runtime s,
     sd_endpoint = sr_attach_endpoint s, sd_container_name = sr_container_name s\<rparr>"

definition endpoint_string :: "session_display \<Rightarrow> string option" where
  "endpoint_string d = map_option attach_endpoint_text (sd_endpoint d)"

record session_table_fields =
  tf_id :: string
  tf_canonical_git_root :: string
  tf_runtime :: string
  tf_endpoint :: string

definition table_fields_from_display :: "session_display \<Rightarrow> session_table_fields" where
  "table_fields_from_display d = \<lparr>tf_id = unwrap_or (sd_id d) ''unknown'',
     tf_canonical_git_root = unwrap_or (sd_canonical_git_root d) ''unknown'',
     tf_runtime = unwrap_or (sd_runtime d) ''unknown'',
     tf_endpoint = unwrap_or (endpoint_string d) ''unknown''\<rparr>"

record session_json_fields =
  jf_id :: json_row
  jf_metadata :: json_row
  jf_trailing :: json_row

definition json_fields_from_display :: "session_display \<Rightarrow> session_json_fields" where
  "json_fields_from_display d = \<lparr>jf_id = [(''id'', json_option (sd_id d))],
     jf_metadata = [(''canonical_git_root'', json_option (sd_canonical_git_root d)),
       (''runtime'', json_option (sd_runtime d))],
     jf_trailing = [(''endpoint'', json_option (endpoint_string d)),
       (''container_name'', JsonString (sd_container_name d))]\<rparr>"

section \<open>\<open>ps.rs\<close>\<close>

definition ps_table_row :: "session_record \<Rightarrow> string list" where
  "ps_table_row s = (let f = table_fields_from_display (display_from_session s) in
     [tf_id f, output_type (container_kind s), tf_canonical_git_root f, tf_runtime f, status_str (status s),
      tf_endpoint f])"

definition ps_render_table :: "'w view_host \<Rightarrow> session_record list \<Rightarrow> string" where
  "ps_render_table v sessions = render_table v
     [''ID'', ''TYPE'', ''CANONICAL GIT ROOT'', ''RUNTIME'', ''STATUS'', ''ENDPOINT'']
     (map ps_table_row (sorted_sessions_by_identity sessions))"

definition ps_json_row :: "session_record \<Rightarrow> json_row" where
  "ps_json_row s = (let f = json_fields_from_display (display_from_session s) in
     jf_id f @ [(''type'', JsonString (output_type (container_kind s)))] @ jf_metadata f
       @ [(''status'', JsonString (status_str (status s)))] @ jf_trailing f)"

definition ps_render_json :: "'w view_host \<Rightarrow> session_record list \<Rightarrow> string res" where
  "ps_render_json v sessions = render_json v (map ps_json_row (sorted_sessions_by_identity sessions))"

definition ps_run :: "'w view_host \<Rightarrow> output_format \<Rightarrow> ('w, unit res) io" where
  "ps_run v output =
     attempt (discover_io (vw_host v) AllSessions AgentboxOwned) (\<lambda>sessions.
     attempt (pure (case output of
         TableFormat \<Rightarrow> Ok (ps_render_table v sessions)
       | JsonFormat \<Rightarrow> ps_render_json v sessions)) (\<lambda>text. do {
       _ \<leftarrow> State (vw_print v text);
       pure (Ok ()) }))"

section \<open>\<open>health.rs\<close>\<close>

record health_row =
  hr_display :: session_display
  hr_health :: runtime_health

definition health_row_of :: "'w host \<Rightarrow> session_record \<Rightarrow> ('w, health_row) io" where
  "health_row_of h s = map_io (\<lambda>health. \<lparr>hr_display = display_from_session s, hr_health = health\<rparr>)
     (case (sr_runtime_kind s, sr_attach_endpoint s) of
        (Some runtime, Some e) \<Rightarrow> host_probe h runtime e
      | (None, _) \<Rightarrow> pure (Unhealthy ''missing runtime metadata'')
      | (_, None) \<Rightarrow> pure (Unhealthy ''missing attach endpoint''))"

fun health_rows_loop :: "'w host \<Rightarrow> session_record list \<Rightarrow> ('w, health_row list) io" where
  "health_rows_loop h [] = pure []"
| "health_rows_loop h (s # ss) = do {
     row \<leftarrow> health_row_of h s;
     rows \<leftarrow> health_rows_loop h ss;
     pure (row # rows) }"

definition health_rows :: "'w host \<Rightarrow> session_record list \<Rightarrow> ('w, health_row list) io" where
  "health_rows h sessions = health_rows_loop h (sorted_sessions_by_identity sessions)"

definition health_table_row :: "health_row \<Rightarrow> string list" where
  "health_table_row r = (let f = table_fields_from_display (hr_display r) in
     [tf_id f, tf_canonical_git_root f, tf_runtime f, health_status_str (hr_health r), health_reason (hr_health r),
      tf_endpoint f])"

definition health_render_table :: "'w view_host \<Rightarrow> health_row list \<Rightarrow> string" where
  "health_render_table v rows = render_table v
     [''ID'', ''CANONICAL GIT ROOT'', ''RUNTIME'', ''HEALTH'', ''REASON'', ''ENDPOINT''] (map health_table_row rows)"

definition health_json_row :: "health_row \<Rightarrow> json_row" where
  "health_json_row r = (let f = json_fields_from_display (hr_display r) in
     jf_id f @ jf_metadata f @ [(''health'', JsonString (health_status_str (hr_health r))),
       (''reason'', JsonString (health_reason (hr_health r)))] @ jf_trailing f)"

definition health_render_json :: "'w view_host \<Rightarrow> health_row list \<Rightarrow> string res" where
  "health_render_json v rows = render_json v (map health_json_row rows)"

definition selected_health_sessions ::
  "'w host \<Rightarrow> session_record list \<Rightarrow> string option \<Rightarrow> ('w, session_record list res) io" where
  "selected_health_sessions h sessions tgt = do {
     fs \<leftarrow> State (filesystem h);
     pure (and_then (health_plan_from_target (sha256 (host_build h)) fs tgt) (\<lambda>plan.
       select_health_sessions plan sessions)) }"

definition health_run :: "'w view_host \<Rightarrow> output_format \<Rightarrow> string option \<Rightarrow> ('w, unit res) io" where
  "health_run v output tgt =
     attempt (discover_io (vw_host v) AllSessions ManagedSessions) (\<lambda>sessions.
     attempt (selected_health_sessions (vw_host v) sessions tgt) (\<lambda>ss. do {
       rows \<leftarrow> health_rows (vw_host v) ss;
       attempt (pure (case output of
           TableFormat \<Rightarrow> Ok (health_render_table v rows)
         | JsonFormat \<Rightarrow> health_render_json v rows)) (\<lambda>text. do {
         _ \<leftarrow> State (vw_print v text);
         pure (Ok ()) }) }))"

section \<open>What the views show\<close>

text \<open>A running session has a runtime and an endpoint, so that its health is the answer of its own
  endpoint and never one of the two fallback reasons.\<close>

lemma running_health_row:
  assumes "built_from (sha256 (host_build h)) ck s" and "status s = Running"
  obtains k e where "sr_runtime_kind s = Some k" "sr_attach_endpoint s = Some e"
    "health_row_of h s = map_io (\<lambda>health. \<lparr>hr_display = display_from_session s, hr_health = health\<rparr>) (host_probe h k e)"
  using assms running_record_data by (fastforce simp: built_from_def health_row_of_def)

text \<open>One row per session, in the order of their identities.\<close>

lemma health_rows_loop_displays:
  "run_state (health_rows_loop h ss) w = (rows, w') \<Longrightarrow> map hr_display rows = map display_from_session ss"
proof (induction h ss arbitrary: w rows rule: health_rows_loop.induct)
  case (2 h s ss)
  then obtain row w1 rest where "run_state (health_row_of h s) w = (row, w1)"
      "run_state (health_rows_loop h ss) w1 = (rest, w')" "rows = row # rest"
    by (auto split: prod.splits)
  moreover from this have "hr_display row = display_from_session s"
    by (auto simp: health_row_of_def run_map_io_eq)
  ultimately show ?case using "2.IH" by simp
qed simp

lemma health_rows_displays:
  assumes "run_state (health_rows h ss) w = (rows, w')"
  shows "map hr_display rows = map display_from_session (sorted_sessions_by_identity ss)"
  using assms health_rows_loop_displays by (simp add: health_rows_def)

lemma ps_rows_complete:
  "mset (map ps_json_row (sorted_sessions_by_identity ss)) = image_mset ps_json_row (mset ss)"
  by (simp add: sorted_sessions_by_identity_def)

end
