(* ===== verification/Preflight.thy ===== *)
theory Preflight
  imports Http World
begin

text \<open>
  Host prerequisites: \<open>src/runtime/host_state.rs\<close>, the mounts of \<open>runtime/profile\<close>, and \<open>src/preflight/\<close>.
  A snapshot of the host is taken first and then checked. Values of environment variables and link
  targets are byte strings, and paths those of them that are UTF-8. The file system is read as it is
  at one moment.
\<close>

section \<open>\<open>runtime/host_state.rs\<close>\<close>

datatype host_state_source =
    EnvironmentOrHome string "string list"
  | HomeOnly "string list"
  | XdgOrHome string "string list" "string list"

datatype host_state_destination = FixedDestination string | SourcePathWhenEnvironment string string

record host_state_environment =
  he_name :: string
  he_source_variable :: string

record host_state_mount =
  hs_source :: host_state_source
  hs_product_name :: string
  hs_description :: string
  hs_destination :: host_state_destination
  hs_environment :: "host_state_environment option"

record source_resolution =
  rs_source :: "path option"
  rs_variable :: "string option"

definition utf8_path :: "string \<Rightarrow> path option" where
  "utf8_path v = (if valid_utf8 v then Some v else None)"

definition utf8_join :: "string \<Rightarrow> string list \<Rightarrow> path option" where
  "utf8_join base cs = map_option (\<lambda>p. foldl path_join p cs) (utf8_path base)"

definition resolve_home_source :: "(string \<Rightarrow> string option) \<Rightarrow> string list \<Rightarrow> path option" where
  "resolve_home_source env cs = Option.bind (env ''HOME'') (\<lambda>home. utf8_join home cs)"

text \<open>\<open>display\<close> is \<open>Path::display\<close> of a path that is not UTF-8.\<close>

definition environment_source ::
  "(string \<Rightarrow> string) \<Rightarrow> (string \<Rightarrow> string option) \<Rightarrow> string \<Rightarrow> (path option) res" where
  "environment_source display env variable =
     (case env variable of
        None \<Rightarrow> Ok None
      | Some source \<Rightarrow>
          if source = [] then Ok None
          else map_ok Some (ok_or (utf8_path source)
            (msg [tick variable, '' must be a UTF-8 path for Codex server passthrough: '', display source])))"

fun source_resolve ::
  "(string \<Rightarrow> string) \<Rightarrow> (string \<Rightarrow> string option) \<Rightarrow> host_state_source \<Rightarrow> source_resolution res" where
  "source_resolve display env (EnvironmentOrHome variable home_components) =
     map_ok (\<lambda>found. case found of
         Some source \<Rightarrow> \<lparr>rs_source = Some source, rs_variable = Some variable\<rparr>
       | None \<Rightarrow> \<lparr>rs_source = resolve_home_source env home_components, rs_variable = None\<rparr>)
       (environment_source display env variable)"
| "source_resolve display env (HomeOnly home_components) =
     Ok \<lparr>rs_source = resolve_home_source env home_components, rs_variable = None\<rparr>"
| "source_resolve display env (XdgOrHome variable xdg_components home_components) =
     Ok \<lparr>rs_source = or_else (Option.bind (env variable) (\<lambda>base. utf8_join base xdg_components))
           (resolve_home_source env home_components), rs_variable = None\<rparr>"

definition shell_path :: "string \<Rightarrow> string list \<Rightarrow> string" where
  "shell_path base cs = join ''/'' (base # cs)"

definition shell_expression :: "string \<Rightarrow> string list \<Rightarrow> string" where
  "shell_expression base cs = tick (shell_path base cs)"

text \<open>\<open>slice::strip_suffix\<close>.\<close>

definition strip_components :: "string list \<Rightarrow> string list \<Rightarrow> (string list) option" where
  "strip_components suff xs =
     (if length suff \<le> length xs \<and> drop (length xs - length suff) xs = suff
      then Some (take (length xs - length suff) xs) else None)"

definition xdg_or_home_shell_expression :: "string \<Rightarrow> string list \<Rightarrow> string list \<Rightarrow> string" where
  "xdg_or_home_shell_expression variable xdg_components home_components =
     (case strip_components xdg_components home_components of
        Some base \<Rightarrow>
          shell_expression (format [''${'', variable, '':-'', shell_path ''$HOME'' base, ''}'']) xdg_components
      | None \<Rightarrow> format [shell_expression (''$'' @ variable) xdg_components, '' or '',
          shell_expression ''$HOME'' home_components])"

fun source_expression :: "host_state_source \<Rightarrow> string" where
  "source_expression (EnvironmentOrHome variable home_components) =
     format [tick variable, '' or '', shell_expression ''$HOME'' home_components]"
| "source_expression (HomeOnly home_components) = shell_expression ''${HOME}'' home_components"
| "source_expression (XdgOrHome variable xdg_components home_components) =
     xdg_or_home_shell_expression variable xdg_components home_components"

fun snapshot_key :: "host_state_destination \<Rightarrow> string" where
  "snapshot_key (FixedDestination d) = d"
| "snapshot_key (SourcePathWhenEnvironment variable fallback) = fallback"

fun destination_for :: "host_state_destination \<Rightarrow> path \<Rightarrow> string option \<Rightarrow> string res" where
  "destination_for (FixedDestination d) source found_in = Ok d"
| "destination_for (SourcePathWhenEnvironment variable fallback) source found_in =
     (if found_in = Some variable
      then (if is_absolute source then Ok source
            else Err (msg [tick variable, '' must be an absolute path for Codex server passthrough: '', source]))
      else Ok fallback)"

definition container_environment_for ::
  "host_state_mount \<Rightarrow> path \<Rightarrow> string option \<Rightarrow> (string \<times> string) option" where
  "container_environment_for spec source found_in =
     Option.bind (hs_environment spec) (\<lambda>e.
       if found_in = Some (he_source_variable e) then Some (he_name e, source) else None)"

section \<open>The mounts of the profiles\<close>

definition CODEX_CONFIG_DESTINATION :: string where "CODEX_CONFIG_DESTINATION = ''/home/user/.codex''"
definition OPENCODE_CONFIG_DESTINATION :: string where
  "OPENCODE_CONFIG_DESTINATION = ''/home/user/.config/opencode''"
definition OPENCODE_DATA_DESTINATION :: string where
  "OPENCODE_DATA_DESTINATION = ''/home/user/.local/share/opencode''"
definition CODEX_HOME_ENV :: string where "CODEX_HOME_ENV = ''CODEX_HOME''"

definition codex_server_mount :: host_state_mount where
  "codex_server_mount =
     \<lparr>hs_source = EnvironmentOrHome CODEX_HOME_ENV [''.codex''],
      hs_product_name = ''Codex'', hs_description = ''configuration'',
      hs_destination = SourcePathWhenEnvironment CODEX_HOME_ENV CODEX_CONFIG_DESTINATION,
      hs_environment = Some \<lparr>he_name = CODEX_HOME_ENV, he_source_variable = CODEX_HOME_ENV\<rparr>\<rparr>"

definition codex_foreground_mount :: host_state_mount where
  "codex_foreground_mount =
     \<lparr>hs_source = HomeOnly [''.codex''], hs_product_name = ''Codex'', hs_description = ''configuration'',
      hs_destination = FixedDestination CODEX_CONFIG_DESTINATION, hs_environment = None\<rparr>"

definition opencode_mounts :: "host_state_mount list" where
  "opencode_mounts =
     [\<lparr>hs_source = XdgOrHome ''XDG_CONFIG_HOME'' [''opencode''] [''.config'', ''opencode''],
       hs_product_name = ''OpenCode'', hs_description = ''configuration'',
       hs_destination = FixedDestination OPENCODE_CONFIG_DESTINATION, hs_environment = None\<rparr>,
      \<lparr>hs_source = XdgOrHome ''XDG_DATA_HOME'' [''opencode''] [''.local'', ''share'', ''opencode''],
       hs_product_name = ''OpenCode'', hs_description = ''data'',
       hs_destination = FixedDestination OPENCODE_DATA_DESTINATION, hs_environment = None\<rparr>]"

fun host_state_mounts :: "runtime_kind \<Rightarrow> runtime_run_mode \<Rightarrow> host_state_mount list" where
  "host_state_mounts Codex Foreground = [codex_foreground_mount]"
| "host_state_mounts Codex m = [codex_server_mount]"
| "host_state_mounts Opencode m = opencode_mounts"

section \<open>\<open>preflight/path.rs\<close>\<close>

text \<open>Paths rebuilt from their components; two spellings of one path name the same file.\<close>

fun component_str :: "component \<Rightarrow> string" where
  "component_str RootDir = ''/''"
| "component_str CurDir = ''.''"
| "component_str ParentDir = ''..''"
| "component_str (Normal s) = s"

definition path_of :: "component list \<Rightarrow> path" where
  "path_of cs = foldl path_join [] (map component_str cs)"

definition utf8_path_parent :: "path \<Rightarrow> path option" where
  "utf8_path_parent p = (case rev (components p) of
      [] \<Rightarrow> None
    | c # cs \<Rightarrow> if c = RootDir then None else Some (path_of (rev cs)))"

definition path_ancestors :: "path \<Rightarrow> path list" where
  "path_ancestors p = (let cs = components p in
     p # map (\<lambda>n. path_of (take n cs)) (rev [(if is_absolute p then 1 else 0)..<length cs]))"

definition path_strip_prefix :: "path \<Rightarrow> path \<Rightarrow> path option" where
  "path_strip_prefix p base =
     (if path_starts_with p base then Some (path_of (drop (length (components base)) (components p))) else None)"

text \<open>\<open>normalize_path\<close> works on the components pushed so far: popping fails on the root and on nothing.\<close>

fun normalize_step :: "bool \<Rightarrow> component list \<Rightarrow> component \<Rightarrow> component list" where
  "normalize_step from_root acc RootDir = [RootDir]"
| "normalize_step from_root acc CurDir = acc"
| "normalize_step from_root acc ParentDir =
     (if acc \<noteq> [] \<and> last acc \<noteq> RootDir then butlast acc else if from_root then acc else acc @ [ParentDir])"
| "normalize_step from_root acc (Normal s) = acc @ [Normal s]"

definition normalize_path :: "path \<Rightarrow> path" where
  "normalize_path p = (let cs = foldl (normalize_step (is_absolute p)) [] (components p)
     in if cs = [] then ''.'' else path_of cs)"

record system_fs =
  sf_var :: "string \<Rightarrow> string option"
  sf_which :: "string \<Rightarrow> string option"
  sf_lstat :: "path \<Rightarrow> bool"
  sf_is_dir :: "path \<Rightarrow> bool"
  sf_readable :: "path \<Rightarrow> bool"
  sf_writable :: "path \<Rightarrow> bool"
  sf_searchable :: "path \<Rightarrow> bool"
  sf_opens :: "path \<Rightarrow> bool"
  sf_is_socket :: "path \<Rightarrow> bool"
  sf_read_link :: "path \<Rightarrow> string option"
  sf_canonicalize :: "path \<Rightarrow> string option"
  sf_display :: "string \<Rightarrow> string"

definition resolve_path :: "system_fs \<Rightarrow> path \<Rightarrow> path" where
  "resolve_path fs p = unwrap_or (Option.bind (sf_canonicalize fs p) utf8_path) p"

definition read_symlink_target :: "system_fs \<Rightarrow> path \<Rightarrow> path option" where
  "read_symlink_target fs p = Option.bind (sf_read_link fs p) utf8_path"

definition resolve_symlink_target :: "path \<Rightarrow> path \<Rightarrow> path" where
  "resolve_symlink_target link target =
     (if is_absolute target then target
      else case utf8_path_parent link of Some parent \<Rightarrow> path_join parent target | None \<Rightarrow> target)"

definition expanded_symlink_path :: "path \<Rightarrow> path \<Rightarrow> path \<Rightarrow> path" where
  "expanded_symlink_path p ancestor target =
     (case path_strip_prefix p ancestor of
        Some rest \<Rightarrow> if rest \<noteq> [] then path_join target rest else target
      | None \<Rightarrow> target)"

definition normalized_path_reaches :: "path \<Rightarrow> path \<Rightarrow> bool" where
  "normalized_path_reaches p root = path_is_or_descendant (normalize_path p) root"

definition symlink_expansion_reaches :: "system_fs \<Rightarrow> path \<Rightarrow> path \<Rightarrow> path \<Rightarrow> bool" where
  "symlink_expansion_reaches fs p ancestor root =
     (case read_symlink_target fs ancestor of
        None \<Rightarrow> False
      | Some target \<Rightarrow>
          let target_path = resolve_symlink_target ancestor target;
              expanded = expanded_symlink_path p ancestor target_path
          in normalized_path_reaches target_path root \<or> normalized_path_reaches expanded root)"

definition path_reaches_mount_root :: "system_fs \<Rightarrow> path \<Rightarrow> path \<Rightarrow> bool" where
  "path_reaches_mount_root fs p mount_root =
     (let root = normalize_path mount_root in
      normalized_path_reaches p root \<or> normalized_path_reaches (resolve_path fs p) root
      \<or> list_ex (\<lambda>a. symlink_expansion_reaches fs p a root) (path_ancestors p))"

section \<open>\<open>preflight/snapshot\<close>\<close>

record host_path_status =
  hp_exists :: bool
  hp_is_directory :: bool
  hp_readable :: bool
  hp_writable :: bool
  hp_searchable :: bool

record preflight_host =
  ph_test_fixtures :: bool
  ph_command_exists :: "string \<Rightarrow> bool"
  ph_path_from_environment :: "string \<Rightarrow> string option"
  ph_which :: "string \<Rightarrow> path option"
  ph_unix_socket_exists :: "path \<Rightarrow> bool"
  ph_exists :: "path \<Rightarrow> bool"
  ph_file_is_readable :: "path \<Rightarrow> bool"
  ph_path_status :: "path \<Rightarrow> host_path_status"
  ph_resolve_path :: "path \<Rightarrow> path"
  ph_reaches :: "path \<Rightarrow> path \<Rightarrow> bool"
  ph_display :: "string \<Rightarrow> string"

text \<open>A path with a NUL byte cannot be passed to \<open>access\<close>.\<close>

definition current_user_has_access :: "(path \<Rightarrow> bool) \<Rightarrow> path \<Rightarrow> bool" where
  "current_user_has_access access p \<longleftrightarrow> CHR 0x00 \<notin> set p \<and> access p"

definition system_preflight_host :: "system_fs \<Rightarrow> preflight_host" where
  "system_preflight_host fs = \<lparr>
     ph_test_fixtures = (sf_var fs ''AGENTBOX_TEST_FIXTURES'' \<noteq> None),
     ph_command_exists = (\<lambda>prog. sf_which fs prog \<noteq> None),
     ph_path_from_environment = (\<lambda>v. case sf_var fs v of Some s \<Rightarrow> if s \<noteq> [] then Some s else None | None \<Rightarrow> None),
     ph_which = (\<lambda>prog. Option.bind (sf_which fs prog) utf8_path),
     ph_unix_socket_exists = sf_is_socket fs,
     ph_exists = sf_lstat fs,
     ph_file_is_readable = sf_opens fs,
     ph_path_status = (\<lambda>p. \<lparr>hp_exists = sf_lstat fs p, hp_is_directory = sf_is_dir fs p,
       hp_readable = current_user_has_access (sf_readable fs) p,
       hp_writable = current_user_has_access (sf_writable fs) p,
       hp_searchable = current_user_has_access (sf_searchable fs) p\<rparr>),
     ph_resolve_path = resolve_path fs,
     ph_reaches = path_reaches_mount_root fs,
     ph_display = sf_display fs\<rparr>"

record directory_snapshot =
  ds_source :: "path option"
  ds_variable :: "string option"
  ds_error :: "string option"
  ds_status :: host_path_status

definition no_path :: host_path_status where
  "no_path = \<lparr>hp_exists = False, hp_is_directory = False, hp_readable = False, hp_writable = False,
     hp_searchable = False\<rparr>"

definition directory_detect_with :: "preflight_host \<Rightarrow> source_resolution \<Rightarrow> directory_snapshot" where
  "directory_detect_with host r = \<lparr>ds_source = rs_source r, ds_variable = rs_variable r, ds_error = None,
     ds_status = (case rs_source r of Some p \<Rightarrow> ph_path_status host p | None \<Rightarrow> no_path)\<rparr>"

definition directory_detect_error :: "error \<Rightarrow> directory_snapshot" where
  "directory_detect_error e = \<lparr>ds_source = None, ds_variable = None, ds_error = Some (error_text e),
     ds_status = no_path\<rparr>"

definition host_state_source_on :: "preflight_host \<Rightarrow> host_state_source \<Rightarrow> source_resolution res" where
  "host_state_source_on host source = source_resolve (ph_display host) (ph_path_from_environment host) source"

definition detect_runtime_state ::
  "preflight_host \<Rightarrow> runtime_kind \<Rightarrow> runtime_run_mode \<Rightarrow> (string, directory_snapshot) btree" where
  "detect_runtime_state host runtime mode = bt_from (map (\<lambda>m.
     (snapshot_key (hs_destination m),
      case host_state_source_on host (hs_source m) of
        Inr r \<Rightarrow> directory_detect_with host r | Inl e \<Rightarrow> directory_detect_error e)) (host_state_mounts runtime mode))"

record host_snapshot =
  hn_has_git :: bool
  hn_has_podman :: bool
  hn_runtime_state :: "(string, directory_snapshot) btree"

definition host_snapshot_detect :: "preflight_host \<Rightarrow> runtime_kind \<Rightarrow> runtime_run_mode \<Rightarrow> host_snapshot" where
  "host_snapshot_detect host runtime mode =
     \<lparr>hn_has_git = (ph_test_fixtures host \<or> ph_command_exists host ''git''),
      hn_has_podman = ph_command_exists host ''podman'',
      hn_runtime_state = detect_runtime_state host runtime mode\<rparr>"

definition NIX_DAEMON_SOCKET_PATH :: path where "NIX_DAEMON_SOCKET_PATH = ''/nix/var/nix/daemon-socket/socket''"
definition NIX_STORE_DESTINATION :: path where "NIX_STORE_DESTINATION = ''/nix''"
definition NIX_CLIENT_DESTINATION :: path where "NIX_CLIENT_DESTINATION = ''/usr/local/bin/nix''"
definition ETC_NIX_DESTINATION :: path where "ETC_NIX_DESTINATION = ''/etc/nix''"
definition ETC_STATIC_NIX_DESTINATION :: path where "ETC_STATIC_NIX_DESTINATION = ''/etc/static/nix''"
definition NIX_CUSTOM_CONF_PATH :: path where "NIX_CUSTOM_CONF_PATH = ''/etc/nix/nix.custom.conf''"

record nix_custom_conf =
  nc_present :: bool
  nc_has_readable_target :: bool
  nc_needs_static_mount :: bool

record nix_snapshot =
  ns_has_daemon_socket :: bool
  ns_client_source :: "path option"
  ns_has_etc_nix_mount :: bool
  ns_has_readable_nix_conf :: bool
  ns_custom_conf :: nix_custom_conf

definition custom_conf_detect :: "preflight_host \<Rightarrow> nix_custom_conf" where
  "custom_conf_detect host =
     \<lparr>nc_present = ph_exists host NIX_CUSTOM_CONF_PATH,
      nc_has_readable_target = ph_file_is_readable host (ph_resolve_path host NIX_CUSTOM_CONF_PATH),
      nc_needs_static_mount = ph_reaches host NIX_CUSTOM_CONF_PATH ETC_STATIC_NIX_DESTINATION\<rparr>"

definition resolve_nix_client_source :: "preflight_host \<Rightarrow> path option" where
  "resolve_nix_client_source host = (if ph_test_fixtures host then Some ''/usr/bin/nix'' else ph_which host ''nix'')"

definition nix_snapshot_detect :: "preflight_host \<Rightarrow> nix_snapshot" where
  "nix_snapshot_detect host =
     \<lparr>ns_has_daemon_socket = (ph_test_fixtures host \<or> ph_unix_socket_exists host NIX_DAEMON_SOCKET_PATH),
      ns_client_source = resolve_nix_client_source host,
      ns_has_etc_nix_mount = (ph_test_fixtures host \<or> ph_exists host ETC_NIX_DESTINATION),
      ns_has_readable_nix_conf = (ph_test_fixtures host \<or> ph_file_is_readable host ''/etc/nix/nix.conf''),
      ns_custom_conf = custom_conf_detect host\<rparr>"

record preflight_snapshot =
  sn_host :: host_snapshot
  sn_nix :: nix_snapshot

definition snapshot_detect_with :: "preflight_host \<Rightarrow> runtime_kind \<Rightarrow> runtime_run_mode \<Rightarrow> preflight_snapshot" where
  "snapshot_detect_with host runtime mode =
     \<lparr>sn_host = host_snapshot_detect host runtime mode, sn_nix = nix_snapshot_detect host\<rparr>"

section \<open>\<open>preflight/mounts.rs\<close>\<close>

definition missing_source_error :: "runtime_kind \<Rightarrow> host_state_mount \<Rightarrow> error" where
  "missing_source_error runtime spec =
     (let expression = source_expression (hs_source spec); name = hs_product_name spec;
          what = hs_description spec; run_text = tick (''run --runtime '' @ runtime_str runtime)
      in case hs_source spec of
        EnvironmentOrHome _ _ \<Rightarrow> msg [''Cannot locate host '', name, '' '', what, '' directory '', expression,
          '' for '', run_text, ''; set `CODEX_HOME` or `HOME`, then retry.'']
      | HomeOnly _ \<Rightarrow> msg [''`HOME` is not set; cannot locate host '', name, '' '', what, '' directory '',
          expression, '' for '', run_text]
      | XdgOrHome _ _ _ \<Rightarrow> msg [''Cannot locate host '', name, '' '', what, '' directory '', expression,
          '' for '', run_text, ''; set `HOME` or the matching XDG environment variable, then retry.''])"

definition validate_host_state ::
  "runtime_kind \<Rightarrow> host_state_mount \<Rightarrow> directory_snapshot \<Rightarrow> (runtime_mount \<times> (string \<times> string) option) res" where
  "validate_host_state runtime spec st =
     (case ds_error st of
        Some e \<Rightarrow> Err (msg [e])
      | None \<Rightarrow> (case ds_source st of
          None \<Rightarrow> Err (missing_source_error runtime spec)
        | Some source \<Rightarrow> and_then (destination_for (hs_destination spec) source (ds_variable st)) (\<lambda>dest.
            let what = format [hs_product_name spec, '' '', hs_description spec];
                s = ds_status st
            in if \<not> hp_exists s then Err (msg [''Missing host '', what, '' directory: '', source, ''. Run '',
                   tick (runtime_str runtime), '' on the host first so '', source_expression (hs_source spec),
                   '' exists, then retry '', tick (''agentbox run --runtime '' @ runtime_str runtime), ''.''])
               else if \<not> hp_is_directory s then
                 Err (msg [''Host '', what, '' path is not a directory: '', source])
               else if \<not> hp_readable s \<or> \<not> hp_writable s \<or> \<not> hp_searchable s then
                 Err (msg [''Host '', what, '' directory is not readable and writable: '', source])
               else Ok (bind_mount source dest, container_environment_for spec source (ds_variable st)))))"

definition host_state_snapshot :: "preflight_snapshot \<Rightarrow> host_state_mount \<Rightarrow> directory_snapshot res" where
  "host_state_snapshot sn spec =
     (let key = snapshot_key (hs_destination spec) in
      ok_or (bt_get (hn_runtime_state (sn_host sn)) key)
        (msg [''missing preflight snapshot for runtime host-state mount '', tick key]))"

text \<open>The mounts and the environment collected so far.\<close>

fun runtime_mounts_loop ::
  "preflight_snapshot \<Rightarrow> runtime_kind \<Rightarrow> host_state_mount list \<Rightarrow> runtime_mount list \<times> (string, string) btree
     \<Rightarrow> (runtime_mount list \<times> (string, string) btree) res" where
  "runtime_mounts_loop sn runtime [] acc = Ok acc"
| "runtime_mounts_loop sn runtime (spec # specs) acc =
     and_then (host_state_snapshot sn spec) (\<lambda>st.
     and_then (validate_host_state runtime spec st) (\<lambda>(mount, entry).
       runtime_mounts_loop sn runtime specs
         (fst acc @ [mount], bt_extend (snd acc) (case entry of Some kv \<Rightarrow> [kv] | None \<Rightarrow> []))))"

definition runtime_mounts ::
  "preflight_snapshot \<Rightarrow> runtime_kind \<Rightarrow> runtime_run_mode \<Rightarrow> (runtime_mount list \<times> (string, string) btree) res" where
  "runtime_mounts sn runtime mode = runtime_mounts_loop sn runtime (host_state_mounts runtime mode) ([], [])"

datatype nix_mount_spec = SamePath path | NixClient path | StaticNix path

fun nix_mount :: "path \<Rightarrow> nix_mount_spec \<Rightarrow> runtime_mount" where
  "nix_mount client (SamePath p) = read_only_bind p p"
| "nix_mount client (StaticNix p) = read_only_bind p p"
| "nix_mount client (NixClient dest) = read_only_bind client dest"

fun nix_mount_included :: "bool \<Rightarrow> nix_mount_spec \<Rightarrow> bool" where
  "nix_mount_included include_static (StaticNix p) = include_static"
| "nix_mount_included include_static _ = True"

fun nix_mount_destination :: "nix_mount_spec \<Rightarrow> path" where
  "nix_mount_destination (SamePath d) = d"
| "nix_mount_destination (NixClient d) = d"
| "nix_mount_destination (StaticNix d) = d"

definition HOST_NIX_MOUNTS :: "nix_mount_spec list" where
  "HOST_NIX_MOUNTS = [SamePath NIX_STORE_DESTINATION, NixClient NIX_CLIENT_DESTINATION,
     SamePath ETC_NIX_DESTINATION, StaticNix ETC_STATIC_NIX_DESTINATION]"

definition host_nix_mounts :: "path \<Rightarrow> bool \<Rightarrow> runtime_mount list" where
  "host_nix_mounts client include_static =
     map (nix_mount client) (filter (nix_mount_included include_static) HOST_NIX_MOUNTS)"

definition required_host_mount_destinations :: "path list" where
  "required_host_mount_destinations = map nix_mount_destination HOST_NIX_MOUNTS"

section \<open>\<open>preflight/check.rs\<close>\<close>

definition validate_host_tools :: "preflight_snapshot \<Rightarrow> unit res" where
  "validate_host_tools sn =
     (if \<not> hn_has_git (sn_host sn)
      then Err (msg [''`git` was not found on PATH; install `git` or add it to PATH''])
      else if \<not> hn_has_podman (sn_host sn)
      then Err (msg [''`podman` was not found on PATH; install `podman` or add it to PATH''])
      else Ok ())"

definition validate_nix_daemon :: "preflight_snapshot \<Rightarrow> unit res" where
  "validate_nix_daemon sn =
     (if \<not> ns_has_daemon_socket (sn_nix sn)
      then Err (msg [''Missing host nix-daemon socket at: '', NIX_DAEMON_SOCKET_PATH, ''. Mount /nix:/nix:ro.''])
      else Ok ())"

definition nix_client_source :: "preflight_snapshot \<Rightarrow> path res" where
  "nix_client_source sn = ok_or (ns_client_source (sn_nix sn))
     (msg [''`nix` was not found on PATH; install Nix or add the host `nix` client to PATH''])"

definition validate_nix_config :: "preflight_snapshot \<Rightarrow> unit res" where
  "validate_nix_config sn =
     (let n = sn_nix sn in
      if \<not> ns_has_etc_nix_mount n
      then Err (msg [''Missing /etc/nix host mount. Mount /etc/nix:/etc/nix:ro so the wrapper inherits the host config and registry.''])
      else if \<not> ns_has_readable_nix_conf n
      then Err (msg [''Missing readable host Nix config: /etc/nix/nix.conf. Mount /etc/nix:/etc/nix:ro.''])
      else if nc_present (ns_custom_conf n) \<and> \<not> nc_has_readable_target (ns_custom_conf n)
      then Err (msg [''Missing readable target for /etc/nix/nix.custom.conf. Mount /etc/static/nix:/etc/static/nix:ro when /etc/nix points there.''])
      else Ok ())"

definition check_with_snapshot ::
  "preflight_snapshot \<Rightarrow> runtime_kind \<Rightarrow> runtime_run_mode \<Rightarrow> preflight_report res" where
  "check_with_snapshot sn runtime mode =
     and_then (validate_host_tools sn) (\<lambda>_.
     and_then (validate_nix_daemon sn) (\<lambda>_.
     and_then (nix_client_source sn) (\<lambda>client.
     and_then (validate_nix_config sn) (\<lambda>_.
     and_then (runtime_mounts sn runtime mode) (\<lambda>(mounts, environment).
       Ok \<lparr>pf_host_nix_mounts = host_nix_mounts client (nc_needs_static_mount (ns_custom_conf (sn_nix sn))),
           pf_runtime_mounts = mounts, pf_runtime_environment = environment\<rparr>)))))"

definition check_host_prerequisites ::
  "system_fs \<Rightarrow> runtime_kind \<Rightarrow> runtime_run_mode \<Rightarrow> preflight_report res" where
  "check_host_prerequisites fs runtime mode =
     check_with_snapshot (snapshot_detect_with (system_preflight_host fs) runtime mode) runtime mode"

text \<open>The operation of a host whose file system is read off the world.\<close>

definition check_host_prerequisites_on ::
  "('w \<Rightarrow> system_fs) \<Rightarrow> runtime_kind \<Rightarrow> runtime_run_mode \<Rightarrow> 'w \<Rightarrow> preflight_report res \<times> 'w" where
  "check_host_prerequisites_on observe runtime mode w = (check_host_prerequisites (observe w) runtime mode, w)"

end
