(* ===== verification/HostProbes.thy ===== *)
theory HostProbes
  imports Preflight Launch
begin

text \<open>
  What a launch asks the host outside Podman: Git (\<open>src/git.rs\<close>), the development environment
  (\<open>src/dev_env/discovery.rs\<close>, \<open>path.rs\<close>, \<open>nix.rs\<close>, \<open>mode.rs\<close>) and Wayland (\<open>src/wayland.rs\<close>,
  \<open>host_socket.rs\<close>).
\<close>

section \<open>\<open>git.rs\<close>\<close>

text \<open>A captured process with any exit status.\<close>

definition capture_status :: "'w host \<Rightarrow> string list \<Rightarrow> ('w, process_status_output res) io" where
  "capture_status h argv = map_io (map_err (spawn_error (debug_quote h) argv)) (State (run_process h argv))"

datatype git_root_error = NotRepository | GitRootFailed error

fun git_root_into_error :: "git_root_error \<Rightarrow> path \<Rightarrow> error" where
  "git_root_into_error NotRepository directory = non_git_target directory"
| "git_root_into_error (GitRootFailed e) directory = e"

definition contains_text :: "string \<Rightarrow> string \<Rightarrow> bool" where
  "contains_text s t \<longleftrightarrow> list_ex (\<lambda>i. take (length t) (drop i s) = t) [0..<Suc (length s)]"

definition toplevel_of_output :: "path \<Rightarrow> process_status_output \<Rightarrow> git_root_error + path" where
  "toplevel_of_output directory o' =
     (if \<not> exit_success (po_status o') then
        (if contains_text (trim (po_stderr o')) ''not a git repository'' then Inl NotRepository
         else Inl (GitRootFailed (msg [''failed to resolve git root for '', tick directory, '' via '',
           tick (format [''git -C '', directory, '' rev-parse --show-toplevel'']), '': '',
           stderr_or_status_detail o', ''. Choose a directory inside a readable git worktree.''])))
      else let root = trim (po_stdout o') in
        if root = [] then Inl (GitRootFailed (msg [tick ''git rev-parse --show-toplevel'', '' returned an empty path'']))
        else Inr root)"

definition resolve_toplevel :: "'w host \<Rightarrow> path \<Rightarrow> ('w, git_root_error + path) io" where
  "resolve_toplevel h directory =
     map_io (\<lambda>r. and_then (map_err GitRootFailed r) (toplevel_of_output directory))
       (capture_status h [''git'', ''-C'', directory, ''rev-parse'', ''--show-toplevel''])"

definition rev_parse_show_toplevel :: "'w host \<Rightarrow> path \<Rightarrow> ('w, path res) io" where
  "rev_parse_show_toplevel h directory =
     map_io (map_err (\<lambda>e. git_root_into_error e directory)) (resolve_toplevel h directory)"

definition trim_config_output :: "string \<Rightarrow> string" where
  "trim_config_output s = rev (dropWhile (\<lambda>c. c = CHR 0x0D \<or> c = CHR 0x0A) (rev s))"

definition config_of_output :: "path \<Rightarrow> string list \<Rightarrow> process_status_output \<Rightarrow> (string option) res" where
  "config_of_output git_root args o' =
     (if exit_success (po_status o') then Ok (Some (trim_config_output (po_stdout o')))
      else if exit_code_of (po_status o') = Some 1 then Ok None
      else Err (msg [''failed to read git config '', tick (if args = [] then ''unknown'' else last args),
        '' for '', tick git_root, '': '', stderr_or_status_detail o']))"

definition config_get_with_args :: "'w host \<Rightarrow> path \<Rightarrow> string list \<Rightarrow> ('w, (string option) res) io" where
  "config_get_with_args h git_root args =
     attempt (capture_status h ([''git'', ''-C'', git_root] @ args)) (\<lambda>o'. pure (config_of_output git_root args o'))"

definition config_get :: "'w host \<Rightarrow> path \<Rightarrow> string \<Rightarrow> ('w, (string option) res) io" where
  "config_get h git_root key = config_get_with_args h git_root [''config'', ''--get'', key]"

definition config_path_get :: "'w host \<Rightarrow> path \<Rightarrow> string \<Rightarrow> ('w, (string option) res) io" where
  "config_path_get h git_root key = config_get_with_args h git_root [''config'', ''--path'', ''--get'', key]"

text \<open>\<open>str::lines\<close> drops the newline of each line, and a carriage return before it.\<close>

definition strip_cr :: "string \<Rightarrow> string" where
  "strip_cr l = (if l \<noteq> [] \<and> last l = CHR 0x0D then butlast l else l)"

definition str_lines :: "string \<Rightarrow> string list" where
  "str_lines s = (let ls = split_on CHR 0x0A s in
     (if ls = [] then [] else map strip_cr (butlast ls) @ (if last ls = [] then [] else [last ls])))"

text \<open>\<open>split_whitespace\<close>: the pieces between runs of white space.\<close>

fun words_loop :: "nat \<Rightarrow> string \<Rightarrow> string \<Rightarrow> string list" where
  "words_loop n acc [] = (if acc = [] then [] else [acc])"
| "words_loop (Suc n) acc (c # cs) = words_loop n acc cs"
| "words_loop 0 acc (c # cs) =
     (let len = ws_len (map byte_of (c # cs)) in
      if len = 0 then words_loop 0 (acc @ [c]) cs
      else (if acc = [] then [] else [acc]) @ words_loop (len - 1) [] cs)"

definition split_whitespace :: "string \<Rightarrow> string list" where
  "split_whitespace s = words_loop 0 [] s"

definition parse_remote_urls :: "string \<Rightarrow> string list" where
  "parse_remote_urls output = filter_map (\<lambda>l. case split_whitespace l of _ # url # _ \<Rightarrow> Some url | _ \<Rightarrow> None)
     (str_lines output)"

definition remote_urls :: "'w host \<Rightarrow> path \<Rightarrow> ('w, string list res) io" where
  "remote_urls h git_root =
     attempt (capture_status h [''git'', ''-C'', git_root, ''remote'', ''-v'']) (\<lambda>o'. pure (
       if exit_success (po_status o') then Ok (parse_remote_urls (po_stdout o'))
       else Err (msg [''failed to read git remotes for '', tick git_root, '': '', stderr_or_status_detail o'])))"

section \<open>\<open>dev_env\<close>\<close>

fun dev_env_mode_str :: "dev_env_mode \<Rightarrow> string" where
  "dev_env_mode_str DevAuto = ''auto''"
| "dev_env_mode_str DevNone = ''none''"

fun take_until :: "('a \<Rightarrow> bool) \<Rightarrow> 'a list \<Rightarrow> 'a list" where
  "take_until P [] = []"
| "take_until P (x # xs) = (if P x then [x] else x # take_until P xs)"

definition ancestor_directories :: "path \<Rightarrow> path \<Rightarrow> path list" where
  "ancestor_directories target git_root = take_until (\<lambda>d. path_eq d git_root) (path_ancestors target)"

definition nearest_file :: "(path \<Rightarrow> bool) \<Rightarrow> path \<Rightarrow> path \<Rightarrow> string \<Rightarrow> path option" where
  "nearest_file is_file target git_root filename =
     find is_file (map (\<lambda>d. path_join d filename) (ancestor_directories target git_root))"

text \<open>The directory of a candidate; the code panics on a path without one, which a candidate is not.\<close>

definition candidate_directory :: "path \<Rightarrow> path" where
  "candidate_directory p = unwrap_or (utf8_path_parent p) []"

record dev_env_discovery =
  de_envrc :: "path option"
  de_devenv_nix :: "path option"
  de_flake_nix :: "path option"

definition dev_env_detect :: "(path \<Rightarrow> bool) \<Rightarrow> path \<Rightarrow> path \<Rightarrow> dev_env_discovery" where
  "dev_env_detect is_file target git_root =
     \<lparr>de_envrc = nearest_file is_file target git_root ''.envrc'',
      de_devenv_nix = nearest_file is_file target git_root ''devenv.nix'',
      de_flake_nix = nearest_file is_file target git_root ''flake.nix''\<rparr>"

definition path_file_name_opt :: "path \<Rightarrow> string option" where
  "path_file_name_opt p = (case rev (components p) of Normal s # _ \<Rightarrow> Some s | _ \<Rightarrow> None)"

definition nix_develop_candidate_attrs :: "path \<Rightarrow> path \<Rightarrow> string list" where
  "nix_develop_candidate_attrs target flake_root =
     (if path_eq target flake_root then [''default'']
      else remdups_adj (case path_file_name_opt target of
          Some name \<Rightarrow> [name, ''default''] | None \<Rightarrow> [''default'']))"

text \<open>\<open>json_text\<close> is \<open>serde_json::to_string\<close> of a string.\<close>

definition nix_dev_shell_probe_expression :: "(string \<Rightarrow> string) \<Rightarrow> path \<Rightarrow> string \<Rightarrow> string" where
  "nix_dev_shell_probe_expression json_text flake_root attr =
     format [''let flake = builtins.getFlake '', json_text (path_flake_ref flake_root),
       ''; system = builtins.currentSystem; devShells = flake.devShells or {}; shells = devShells.${system} or {}; in if builtins.hasAttr '',
       json_text attr, '' shells then '', [CHR 0x22], ''true'', [CHR 0x22], '' else '', [CHR 0x22], ''false'', [CHR 0x22]]"

definition nix_dev_shell_exists :: "(string \<Rightarrow> string) \<Rightarrow> 'w host \<Rightarrow> path \<Rightarrow> string \<Rightarrow> ('w, bool res) io" where
  "nix_dev_shell_exists json_text h flake_root attr =
     attempt (map_io (map_err (\<lambda>e. msg [''failed to evaluate dev shell '', tick (path_flake_ref flake_root), ''#'',
           attr, '': '', error_text e]))
       (capture h [''nix'', ''eval'', ''--raw'', ''--impure'', ''--no-write-lock-file'', ''--expr'',
         nix_dev_shell_probe_expression json_text flake_root attr])) (\<lambda>o'.
       let value = trim (po_stdout o') in
       pure (if value = ''true'' then Ok True else if value = ''false'' then Ok False
         else Err (msg [''`nix eval` returned unexpected dev shell probe result '', tick value, '' for '',
           tick (path_flake_ref flake_root), ''#'', attr])))"

fun probe_attrs :: "(path \<Rightarrow> string \<Rightarrow> ('w, bool res) io) \<Rightarrow> path \<Rightarrow> string list \<Rightarrow> ('w, dev_environment res) io" where
  "probe_attrs probe flake_root [] = pure (Ok NoDevEnv)"
| "probe_attrs probe flake_root (attr # attrs) = attempt (probe flake_root attr) (\<lambda>exists.
     if exists then pure (Ok (NixDevelop flake_root attr)) else probe_attrs probe flake_root attrs)"

definition resolve_nix_develop ::
  "(path \<Rightarrow> string \<Rightarrow> ('w, bool res) io) \<Rightarrow> path \<Rightarrow> path \<Rightarrow> ('w, dev_environment res) io" where
  "resolve_nix_develop probe target flake_root =
     probe_attrs probe flake_root (nix_develop_candidate_attrs target flake_root)"

definition resolve_with_probe ::
  "(path \<Rightarrow> string \<Rightarrow> ('w, bool res) io) \<Rightarrow> dev_env_discovery \<Rightarrow> path \<Rightarrow> ('w, dev_environment res) io" where
  "resolve_with_probe probe d target =
     (if de_envrc d \<noteq> None then pure (Ok Direnv)
      else case de_devenv_nix d of
        Some f \<Rightarrow> pure (Ok (Devenv (candidate_directory f)))
      | None \<Rightarrow> (case de_flake_nix d of
          None \<Rightarrow> pure (Ok NoDevEnv)
        | Some f \<Rightarrow> resolve_nix_develop probe target (candidate_directory f)))"

definition dev_environment_resolve ::
  "(string \<Rightarrow> string) \<Rightarrow> 'w host \<Rightarrow> (path \<Rightarrow> bool) \<Rightarrow> dev_env_mode \<Rightarrow> path \<Rightarrow> path \<Rightarrow> ('w, dev_environment res) io" where
  "dev_environment_resolve json_text h is_file mode target git_root =
     (case mode of
        DevNone \<Rightarrow> pure (Ok NoDevEnv)
      | DevAuto \<Rightarrow> resolve_with_probe (nix_dev_shell_exists json_text h) (dev_env_detect is_file target git_root) target)"

section \<open>\<open>wayland.rs\<close>\<close>

definition CONTAINER_WAYLAND_DISPLAY :: string where "CONTAINER_WAYLAND_DISPLAY = ''/run/agentbox/wayland.sock''"

definition wayland_apply_to :: "path \<Rightarrow> runtime_run_spec \<Rightarrow> runtime_run_spec" where
  "wayland_apply_to socket spec =
     extend_create_default_env (bt_from [(''WAYLAND_DISPLAY'', CONTAINER_WAYLAND_DISPLAY)])
       (add_create_mount (bind_mount socket CONTAINER_WAYLAND_DISPLAY) spec)"

text \<open>\<open>host_socket.rs\<close>: what \<open>stat\<close> and connecting answer are parameters.\<close>

definition validate_connectable_unix_socket ::
  "(path \<Rightarrow> string + bool) \<Rightarrow> (path \<Rightarrow> string + unit) \<Rightarrow> path \<Rightarrow> string + unit" where
  "validate_connectable_unix_socket stat_is_socket connect_to p =
     and_then (map_err (\<lambda>e. format [p, '': '', e]) (stat_is_socket p)) (\<lambda>is_socket.
       if \<not> is_socket then Inl (format [p, '' is not a Unix socket''])
       else map_err (\<lambda>e. format [''cannot connect to '', p, '': '', e]) (connect_to p))"

text \<open>\<open>connects\<close> is \<open>validate_connectable_unix_socket\<close>, with the reason of a failure; warnings come first in
  the result.\<close>

definition wayland_detect ::
  "(string \<Rightarrow> string option) \<Rightarrow> (path \<Rightarrow> string + unit) \<Rightarrow> string option \<times> path option" where
  "wayland_detect env connects =
     (case env ''WAYLAND_DISPLAY'' of
        None \<Rightarrow> (None, None)
      | Some display \<Rightarrow>
          if display = [] then (None, None)
          else case utf8_path display of
            None \<Rightarrow> (Some ''WAYLAND_DISPLAY is not UTF-8; Wayland passthrough disabled'', None)
          | Some display \<Rightarrow>
              let unresolvable = Some ''WAYLAND_DISPLAY is relative but XDG_RUNTIME_DIR is unset or empty; Wayland passthrough disabled'';
                  use = (\<lambda>socket. case connects socket of
                      Inl reason \<Rightarrow> (Some (format [''WAYLAND_DISPLAY does not reference a usable Unix socket ('', reason,
                        ''); Wayland passthrough disabled'']), None)
                    | Inr _ \<Rightarrow> (None, Some socket))
              in if is_absolute display then use display
                 else case env ''XDG_RUNTIME_DIR'' of
                   None \<Rightarrow> (unresolvable, None)
                 | Some dir \<Rightarrow>
                     if dir = [] then (unresolvable, None)
                     else case utf8_path dir of
                       None \<Rightarrow> (Some ''XDG_RUNTIME_DIR is not UTF-8; Wayland passthrough disabled'', None)
                     | Some dir \<Rightarrow>
                         if \<not> is_absolute dir
                         then (Some ''XDG_RUNTIME_DIR is not absolute; Wayland passthrough disabled'', None)
                         else use (path_join dir display))"

definition apply_wayland_passthrough ::
  "(string \<Rightarrow> string option) \<Rightarrow> (path \<Rightarrow> string + unit) \<Rightarrow> runtime_run_spec \<Rightarrow> runtime_run_spec" where
  "apply_wayland_passthrough env connects spec =
     (case snd (wayland_detect env connects) of Some socket \<Rightarrow> wayland_apply_to socket spec | None \<Rightarrow> spec)"

end
