(* ===== verification/KnownHosts.thy ===== *)
theory KnownHosts
  imports HostProbes
begin

text \<open>
  The known hosts a container may use: \<open>src/ssh_signing/known_hosts\<close>. The SSH hosts among the Git remotes
  (\<open>remote.rs\<close>), the names and files OpenSSH would look them up with (\<open>lookup/config.rs\<close>,
  \<open>commands.rs\<close>), the lines that are found (\<open>lookup.rs\<close>, \<open>keygen.rs\<close>), and the file they are written to
  (\<open>mod.rs\<close>).
\<close>

section \<open>What the passthrough asks of the host\<close>

text \<open>The environment and the files as they are at one moment; warnings and the temporary file are
  operations. \<open>se_read\<close> is \<open>read_to_string\<close>, \<open>se_open\<close> the error of opening a file, if any.\<close>

datatype file_stat = StatNotFound | StatFailed string | StatIsFile bool

record 'w ssh_environment =
  se_host :: "'w host"
  se_var :: "string \<Rightarrow> string option"
  se_warn :: "string \<Rightarrow> 'w \<Rightarrow> unit \<times> 'w"
  se_is_file :: "path \<Rightarrow> bool"
  se_stat :: "path \<Rightarrow> file_stat"
  se_open :: "path \<Rightarrow> string option"
  se_read :: "path \<Rightarrow> string + string"
  se_connects :: "path \<Rightarrow> string + unit"
  se_display :: "string \<Rightarrow> string"
  se_temp_file :: "string \<Rightarrow> 'w \<Rightarrow> (string + path) \<times> 'w"

definition warn :: "'w ssh_environment \<Rightarrow> string list \<Rightarrow> ('w, unit) io" where
  "warn e parts = State (se_warn e (format parts))"

section \<open>\<open>remote.rs\<close>\<close>

record ssh_remote_host =
  srh_config_host :: string
  srh_port :: "u16 option"

definition parse_port :: "string \<Rightarrow> u16 option" where
  "parse_port = parse_u16"

definition format_known_host :: "string \<Rightarrow> u16 option \<Rightarrow> string" where
  "format_known_host host port =
     (case port of
        None \<Rightarrow> host
      | Some p \<Rightarrow> if p = 22 then host else format [''['', host, '']:'', show_u16 p])"

definition known_hosts_name :: "ssh_remote_host \<Rightarrow> string" where
  "known_hosts_name h = format_known_host (srh_config_host h) (srh_port h)"

definition ssh_url_host :: "string \<Rightarrow> ssh_remote_host option" where
  "ssh_url_host rest =
     (let authority = hd (split_on CHR ''/'' rest) in
      if authority = [] then None
      else let authority = last (split_on CHR ''@'' authority) in
        if authority = [] then None
        else case strip_prefix ''['' authority of
          Some after_bracket \<Rightarrow> (case split_once CHR '']'' after_bracket of
              None \<Rightarrow> None
            | Some (host, remainder) \<Rightarrow>
                if host = [] then None
                else Some \<lparr>srh_config_host = host,
                  srh_port = (case strip_prefix '':'' remainder of None \<Rightarrow> None | Some p \<Rightarrow> parse_port p)\<rparr>)
        | None \<Rightarrow>
            let (host, port) = (case rsplit_once CHR '':'' authority of
                Some (host, port) \<Rightarrow> if CHR '':'' \<notin> set host then (host, parse_port port) else (authority, None)
              | None \<Rightarrow> (authority, None))
            in if host = [] then None else Some \<lparr>srh_config_host = host, srh_port = port\<rparr>)"

definition scp_like_host :: "string \<Rightarrow> ssh_remote_host option" where
  "scp_like_host url =
     (if contains_text url ''://'' then None
      else case split_once CHR '':'' url of
        None \<Rightarrow> None
      | Some (host, _) \<Rightarrow>
          if host = [] \<or> CHR ''/'' \<in> set host then None
          else let host = last (split_on CHR ''@'' host) in
            if host = [] then None else Some \<lparr>srh_config_host = host, srh_port = None\<rparr>)"

text \<open>A bracketed host of the scp-like syntax, which Git accepts for IPv6 addresses, is cut at the first
  colon inside the brackets.\<close>

lemma scp_like_bracket: "scp_like_host ''[::1]:repo'' = Some \<lparr>srh_config_host = ''['', srh_port = None\<rparr>"
  by (simp add: scp_like_host_def contains_text_def upt_rec)

definition ssh_remote_host_of :: "string \<Rightarrow> ssh_remote_host option" where
  "ssh_remote_host_of url =
     (case strip_prefix ''ssh://'' url of
        Some rest \<Rightarrow> ssh_url_host rest
      | None \<Rightarrow> (case strip_prefix ''git+ssh://'' url of
          Some rest \<Rightarrow> ssh_url_host rest
        | None \<Rightarrow> scp_like_host url))"

definition ssh_remote_hosts :: "string list \<Rightarrow> ssh_remote_host list" where
  "ssh_remote_hosts urls = first_occurrences (filter_map ssh_remote_host_of urls)"

section \<open>\<open>lookup/config.rs\<close>\<close>

record ssh_host_config =
  shc_lookup_hosts :: "string list"
  shc_known_hosts_files :: "path list"

definition known_hosts_files :: "(path \<Rightarrow> bool) \<Rightarrow> string option \<Rightarrow> path list" where
  "known_hosts_files is_file home =
     (case home of
        None \<Rightarrow> []
      | Some h \<Rightarrow> if h = [] then []
          else filter is_file (map (path_join (path_join h ''.ssh'')) [''known_hosts'', ''known_hosts2'']))"

definition fallback_ssh_host_config :: "(path \<Rightarrow> bool) \<Rightarrow> ssh_remote_host \<Rightarrow> string option \<Rightarrow> ssh_host_config" where
  "fallback_ssh_host_config is_file host home =
     \<lparr>shc_lookup_hosts = [known_hosts_name host], shc_known_hosts_files = known_hosts_files is_file home\<rparr>"

definition first_ssh_config_value :: "string \<Rightarrow> string option" where
  "first_ssh_config_value values = find (\<lambda>v. v \<noteq> [] \<and> v \<noteq> ''none'') (split_whitespace values)"

definition push_known_hosts_file :: "(path \<Rightarrow> bool) \<Rightarrow> string \<Rightarrow> path list \<Rightarrow> path list" where
  "push_known_hosts_file is_file value files =
     (if value = ''none'' then files
      else if is_file value \<and> \<not> list_ex (\<lambda>f. path_eq f value) files then files @ [value] else files)"

definition push_unique_host :: "string option \<Rightarrow> string list \<Rightarrow> string list" where
  "push_unique_host host hosts =
     (case host of None \<Rightarrow> hosts | Some h \<Rightarrow> if h = [] then hosts else push_unique h hosts)"

definition ssh_config_lookup_hosts ::
  "ssh_remote_host \<Rightarrow> string option \<Rightarrow> u16 option \<Rightarrow> string option \<Rightarrow> string list" where
  "ssh_config_lookup_hosts host hostname port host_key_alias =
     push_unique_host (Some (known_hosts_name host))
       (push_unique_host (Some (format_known_host (unwrap_or hostname (srh_config_host host)) port))
         (push_unique_host host_key_alias []))"

text \<open>\<open>split_once(char::is_whitespace)\<close>.\<close>

fun split_once_whitespace :: "string \<Rightarrow> (string \<times> string) option" where
  "split_once_whitespace [] = None"
| "split_once_whitespace (c # cs) =
     (let len = ws_len (map byte_of (c # cs)) in
      if len \<noteq> 0 then Some ([], drop len (c # cs))
      else map_option (\<lambda>(a, b). (c # a, b)) (split_once_whitespace cs))"

text \<open>What has been read of the output of \<open>ssh -G\<close>, and one more of its lines.\<close>

record ssh_config_fields =
  scf_hostname :: "string option"
  scf_port :: "u16 option"
  scf_host_key_alias :: "string option"
  scf_files :: "path list"

definition parse_ssh_config_line :: "(path \<Rightarrow> bool) \<Rightarrow> string \<Rightarrow> ssh_config_fields \<Rightarrow> ssh_config_fields" where
  "parse_ssh_config_line is_file line st =
     (case split_once_whitespace (trim line) of
        None \<Rightarrow> st
      | Some (key, values) \<Rightarrow>
          let values = trim values; key = to_ascii_lowercase key in
          if key = ''hostname'' then st\<lparr>scf_hostname := first_ssh_config_value values\<rparr>
          else if key = ''port''
          then st\<lparr>scf_port := (case first_ssh_config_value values of None \<Rightarrow> None | Some p \<Rightarrow> parse_port p)\<rparr>
          else if key = ''hostkeyalias'' then st\<lparr>scf_host_key_alias := first_ssh_config_value values\<rparr>
          else if key = ''userknownhostsfile'' \<or> key = ''globalknownhostsfile''
          then st\<lparr>scf_files := fold (push_known_hosts_file is_file) (split_whitespace values) (scf_files st)\<rparr>
          else st)"

definition parse_ssh_config_output :: "(path \<Rightarrow> bool) \<Rightarrow> string \<Rightarrow> ssh_remote_host \<Rightarrow> ssh_host_config" where
  "parse_ssh_config_output is_file output host =
     (let st = fold (parse_ssh_config_line is_file) (str_lines output)
        \<lparr>scf_hostname = None, scf_port = srh_port host, scf_host_key_alias = None, scf_files = []\<rparr>
      in \<lparr>shc_lookup_hosts = ssh_config_lookup_hosts host (scf_hostname st) (scf_port st) (scf_host_key_alias st),
          shc_known_hosts_files = scf_files st\<rparr>)"

section \<open>\<open>lookup/commands.rs\<close> and \<open>keygen.rs\<close>\<close>

datatype lookup_error = LookupUnavailable string | LookupFailed string

definition lookup_error_of :: "(string \<Rightarrow> string) \<Rightarrow> string list \<Rightarrow> capture_failure \<Rightarrow> lookup_error" where
  "lookup_error_of debug argv f =
     (let message = error_text (spawn_error debug argv f) in
      if f = ProgramNotFound then LookupUnavailable message else LookupFailed message)"

definition lookup_capture_status ::
  "'w host \<Rightarrow> string list \<Rightarrow> ('w, lookup_error + process_status_output) io" where
  "lookup_capture_status h argv =
     map_io (map_err (lookup_error_of (debug_quote h) argv)) (State (run_process h argv))"

definition status_with_output_detail :: "process_status_output \<Rightarrow> string" where
  "status_with_output_detail o' =
     format [format_status (po_status o'), '': '', output_detail (po_stdout o') (po_stderr o')]"

definition ssh_config_argv :: "ssh_remote_host \<Rightarrow> string list" where
  "ssh_config_argv host = [''ssh'', ''-G''] @ (case srh_port host of None \<Rightarrow> [] | Some p \<Rightarrow> [''-p'', show_u16 p])
     @ [''--'', srh_config_host host]"

definition ssh_config_lookup ::
  "'w ssh_environment \<Rightarrow> ssh_remote_host \<Rightarrow> ('w, lookup_error + ssh_host_config) io" where
  "ssh_config_lookup e host =
     map_io (\<lambda>r. and_then r (\<lambda>o'.
         if exit_success (po_status o') then Ok (parse_ssh_config_output (se_is_file e) (po_stdout o') host)
         else Err (LookupFailed (status_with_output_detail o'))))
       (lookup_capture_status (se_host e) (ssh_config_argv host))"

definition parse_ssh_keygen_lines :: "string \<Rightarrow> string list" where
  "parse_ssh_keygen_lines output =
     filter (\<lambda>l. trim l \<noteq> [] \<and> \<not> starts_with (trim l) ''#'') (str_lines output)"

definition ssh_keygen_lookup ::
  "'w ssh_environment \<Rightarrow> string \<Rightarrow> path \<Rightarrow> ('w, lookup_error + string list) io" where
  "ssh_keygen_lookup e host file =
     map_io (\<lambda>r. and_then r (\<lambda>o'.
         if exit_code_of (po_status o') = Some 0 then Ok (parse_ssh_keygen_lines (po_stdout o'))
         else if exit_code_of (po_status o') = Some 1 then Ok []
         else Err (LookupFailed (status_with_output_detail o'))))
       (lookup_capture_status (se_host e) [''ssh-keygen'', ''-F'', host, ''-f'', file])"

section \<open>\<open>lookup.rs\<close>\<close>

text \<open>One host in every file under every name; a failure ends the search.\<close>

fun lookup_all ::
  "'w ssh_environment \<Rightarrow> (path \<times> string) list \<Rightarrow> string list \<Rightarrow> ('w, lookup_error + string list) io" where
  "lookup_all e [] found = pure (Ok found)"
| "lookup_all e ((file, name) # rest) found = do {
     r \<leftarrow> ssh_keygen_lookup e name file;
     (case r of Inl er \<Rightarrow> pure (Err er) | Inr ls \<Rightarrow> lookup_all e rest (found @ ls)) }"

definition lookup_pairs :: "ssh_host_config \<Rightarrow> (path \<times> string) list" where
  "lookup_pairs config = concat (map (\<lambda>f. map (Pair f) (shc_lookup_hosts config)) (shc_known_hosts_files config))"

definition ssh_config_or_fallback ::
  "'w ssh_environment \<Rightarrow> string option \<Rightarrow> ssh_remote_host \<Rightarrow> ('w, ssh_host_config) io" where
  "ssh_config_or_fallback e home host = do {
     r \<leftarrow> ssh_config_lookup e host;
     (case r of
        Inr config \<Rightarrow> pure config
      | Inl (LookupUnavailable reason) \<Rightarrow> do {
          _ \<leftarrow> warn e [''ssh is unavailable for SSH config lookup for remote host '', tick (known_hosts_name host),
            '' ('', reason, ''); falling back to $HOME/.ssh/known_hosts and $HOME/.ssh/known_hosts2''];
          pure (fallback_ssh_host_config (se_is_file e) host home) }
      | Inl (LookupFailed reason) \<Rightarrow> do {
          _ \<leftarrow> warn e [''ssh -G lookup failed for SSH remote host '', tick (known_hosts_name host),
            '' ('', reason, ''); falling back to $HOME/.ssh/known_hosts and $HOME/.ssh/known_hosts2''];
          pure (fallback_ssh_host_config (se_is_file e) host home) }) }"

fun keygen_warning :: "ssh_remote_host \<Rightarrow> lookup_error \<Rightarrow> string list" where
  "keygen_warning host (LookupUnavailable reason) =
     [''ssh-keygen is unavailable for SSH known_hosts lookup ('', reason,
      ''); continuing with config-provided knownHosts only'']"
| "keygen_warning host (LookupFailed reason) =
     [''ssh-keygen lookup failed for SSH remote host '', tick (known_hosts_name host), '' ('', reason,
      ''); continuing with config-provided knownHosts only'']"

fun host_lines_loop ::
  "'w ssh_environment \<Rightarrow> string option \<Rightarrow> ssh_remote_host list \<Rightarrow> string list \<Rightarrow> ('w, string list) io" where
  "host_lines_loop e home [] lines = pure lines"
| "host_lines_loop e home (host # hosts) lines = do {
     config \<leftarrow> ssh_config_or_fallback e home host;
     r \<leftarrow> lookup_all e (lookup_pairs config) [];
     (case r of
        Inl er \<Rightarrow> do { _ \<leftarrow> warn e (keygen_warning host er); pure [] }
      | Inr found \<Rightarrow> do {
          _ \<leftarrow> (if found = []
                then warn e [''no known_hosts entry found for SSH remote host '', tick (known_hosts_name host),
                  ''; Git SSH host verification may fail'']
                else pure ());
          host_lines_loop e home hosts (lines @ found) }) }"

definition host_known_hosts_lines ::
  "'w ssh_environment \<Rightarrow> ssh_remote_host list \<Rightarrow> string option \<Rightarrow> ('w, string list) io" where
  "host_known_hosts_lines e hosts home = (if hosts = [] then pure [] else host_lines_loop e home hosts [])"

section \<open>\<open>known_hosts/mod.rs\<close>\<close>

definition CONTAINER_KNOWN_HOSTS :: string where "CONTAINER_KNOWN_HOSTS = ''/run/agentbox/known_hosts''"

definition GIT_SSH_COMMAND :: string where
  "GIT_SSH_COMMAND = ''ssh -o UserKnownHostsFile=/run/agentbox/known_hosts -o StrictHostKeyChecking=yes''"

record prepared_known_hosts =
  pkh_mount :: runtime_mount
  pkh_env :: "(string, string) btree"

definition combined_known_hosts_lines :: "string list \<Rightarrow> string list \<Rightarrow> string list" where
  "combined_known_hosts_lines host_lines config_lines = first_occurrences (host_lines @ config_lines)"

definition known_hosts_text :: "string list \<Rightarrow> string" where
  "known_hosts_text lines = concat (map (\<lambda>l. l @ [CHR 0x0A]) lines)"

definition write_temporary_known_hosts :: "'w ssh_environment \<Rightarrow> string list \<Rightarrow> ('w, string + path) io" where
  "write_temporary_known_hosts e lines = State (se_temp_file e (known_hosts_text lines))"

definition remote_hosts_of :: "'w ssh_environment \<Rightarrow> path \<Rightarrow> ('w, ssh_remote_host list) io" where
  "remote_hosts_of e git_root = do {
     r \<leftarrow> remote_urls (se_host e) git_root;
     (case r of
        Inr urls \<Rightarrow> pure (ssh_remote_hosts urls)
      | Inl er \<Rightarrow> do {
          _ \<leftarrow> warn e [''failed to inspect Git remotes for SSH known_hosts passthrough: '', error_text er,
            ''; continuing without host known_hosts entries''];
          pure [] }) }"

definition prepare_known_hosts :: "'w ssh_environment \<Rightarrow> path \<Rightarrow> ('w, prepared_known_hosts option) io" where
  "prepare_known_hosts e git_root = do {
     config \<leftarrow> State (load_config (se_host e));
     hosts \<leftarrow> remote_hosts_of e git_root;
     host_lines \<leftarrow> host_known_hosts_lines e hosts (se_var e ''HOME'');
     let lines = combined_known_hosts_lines host_lines (known_hosts config);
     if lines = [] then pure None
     else do {
       r \<leftarrow> write_temporary_known_hosts e lines;
       (case r of
          Inr source \<Rightarrow> pure (Some \<lparr>pkh_mount = read_only_bind source CONTAINER_KNOWN_HOSTS,
            pkh_env = bt_from [(''GIT_SSH_COMMAND'', GIT_SSH_COMMAND)]\<rparr>)
        | Inl er \<Rightarrow> do {
            _ \<leftarrow> warn e [''failed to prepare temporary SSH known_hosts file: '', er,
              ''; Git SSH host verification passthrough disabled''];
            pure None }) } }"

end
