(* ===== verification/GitSsh.thy ===== *)
theory GitSsh
  imports KnownHosts
begin

text \<open>
  What a container gets of the host's Git and SSH: \<open>src/ssh_signing\<close>. The agent's socket
  (\<open>agent_socket.rs\<close>), the signing key (\<open>signing_key.rs\<close>), entries of the Git configuration
  (\<open>git_config.rs\<close>), the excludes file (\<open>git_excludes.rs\<close>), commit signing (\<open>commit_signing.rs\<close>) and all
  of them together with the known hosts (\<open>passthrough.rs\<close>).
\<close>

section \<open>\<open>agent_socket.rs\<close>\<close>

definition detect_host_agent_socket :: "'w ssh_environment \<Rightarrow> ('w, path option) io" where
  "detect_host_agent_socket e =
     (case se_var e ''SSH_AUTH_SOCK'' of
        None \<Rightarrow> pure None
      | Some value \<Rightarrow>
          if value = [] then pure None
          else case utf8_path value of
            None \<Rightarrow> do {
              _ \<leftarrow> warn e [''SSH_AUTH_SOCK is not UTF-8; SSH commit signing passthrough disabled''];
              pure None }
          | Some socket \<Rightarrow> (case se_connects e socket of
              Inl reason \<Rightarrow> do {
                _ \<leftarrow> warn e [''SSH_AUTH_SOCK does not reference a usable Unix socket ('', reason,
                  ''); SSH commit signing passthrough disabled''];
                pure None }
            | Inr _ \<Rightarrow> pure (Some socket)))"

section \<open>\<open>signing_key.rs\<close>\<close>

definition is_ssh_public_key_literal :: "string \<Rightarrow> bool" where
  "is_ssh_public_key_literal value =
     (case split_whitespace (unwrap_or (strip_prefix ''key::'' value) value) of
        [] \<Rightarrow> False
      | key_type # _ \<Rightarrow> key_type = ''ssh-rsa'' \<or> key_type = ''ssh-ed25519''
          \<or> starts_with key_type ''ecdsa-sha2-'' \<or> starts_with key_type ''sk-'')"

definition signing_key_path :: "string \<Rightarrow> path \<Rightarrow> path option \<Rightarrow> path option" where
  "signing_key_path value git_root home =
     map_option (\<lambda>p. if is_absolute p then p else path_join git_root p)
       (if value = ''~'' then home
        else case strip_prefix ''~/'' value of
          Some rest \<Rightarrow> map_option (\<lambda>h. path_join h rest) home
        | None \<Rightarrow> if starts_with value ''~'' then None else Some value)"

text \<open>\<open>Utf8Path::extension\<close>: what follows the last dot of the file name, unless the name begins with it.\<close>

definition path_extension :: "path \<Rightarrow> string option" where
  "path_extension p =
     (case path_file_name_opt p of
        None \<Rightarrow> None
      | Some name \<Rightarrow> (case rsplit_once CHR ''.'' name of
          None \<Rightarrow> None
        | Some (stem, ext) \<Rightarrow> if stem = [] then None else Some ext))"

definition read_public_key_file :: "'w ssh_environment \<Rightarrow> path \<Rightarrow> ('w, string option) io" where
  "read_public_key_file e p =
     (case se_read e p of
        Inl er \<Rightarrow> do {
          _ \<leftarrow> warn e [''failed to read public SSH signing key '', tick p, '' from host Git config: '', er];
          pure None }
      | Inr text \<Rightarrow> (case find (\<lambda>l. l \<noteq> []) (map trim (str_lines text)) of
          None \<Rightarrow> pure None
        | Some key \<Rightarrow>
            if \<not> is_ssh_public_key_literal key then do {
              _ \<leftarrow> warn e [''public SSH signing key file '', tick p, '' does not contain an SSH public key literal''];
              pure None }
            else pure (Some key)))"

definition public_key_for_path :: "'w ssh_environment \<Rightarrow> path \<Rightarrow> ('w, string option) io" where
  "public_key_for_path e p =
     (if path_extension p = Some ''pub'' then read_public_key_file e p
      else if se_is_file e (p @ ''.pub'') then read_public_key_file e (p @ ''.pub'')
      else do {
        _ \<leftarrow> warn e [''host Git config '', tick ''user.signingkey'', '' points to '', tick p,
          ''; not reading possible private key and no readable '', tick (p @ ''.pub''), '' was found''];
        pure None })"

definition normalize_signing_key_value ::
  "'w ssh_environment \<Rightarrow> string \<Rightarrow> path \<Rightarrow> path option \<Rightarrow> ('w, string option) io" where
  "normalize_signing_key_value e value git_root home =
     (let value = trim value in
      if value = [] then pure None
      else if is_ssh_public_key_literal value then pure (Some value)
      else case signing_key_path value git_root home of
        None \<Rightarrow> do {
          _ \<leftarrow> warn e [''could not resolve host Git config '', tick ''user.signingkey'', '' path '', tick value,
            ''; skipping it for SSH commit signing passthrough''];
          pure None }
      | Some p \<Rightarrow> public_key_for_path e p)"

section \<open>\<open>git_config.rs\<close>\<close>

type_synonym git_entry = "string \<times> string"

definition GIT_IDENTITY_KEYS :: "string list" where "GIT_IDENTITY_KEYS = [''user.name'', ''user.email'']"
definition GIT_SIGNING_KEYS :: "string list" where
  "GIT_SIGNING_KEYS = [''gpg.format'', ''user.signingkey'', ''commit.gpgsign'']"

definition codex_exec_identity_entries :: "git_entry list" where
  "codex_exec_identity_entries = [(''user.name'', ''Codex''), (''user.email'', ''noreply@openai.com'')]"

fun read_git_config_keys :: "'w ssh_environment \<Rightarrow> path \<Rightarrow> string \<Rightarrow> string list \<Rightarrow> ('w, git_entry list) io" where
  "read_git_config_keys e git_root purpose [] = pure []"
| "read_git_config_keys e git_root purpose (key # keys) = do {
     r \<leftarrow> config_get (se_host e) git_root key;
     here \<leftarrow> (case r of
        Inr (Some value) \<Rightarrow> pure [(key, value)]
      | Inr None \<Rightarrow> pure []
      | Inl er \<Rightarrow> do {
          _ \<leftarrow> warn e [''failed to read host Git config '', tick key, '' for '', purpose, '': '', error_text er];
          pure [] });
     rest \<leftarrow> read_git_config_keys e git_root purpose keys;
     pure (here @ rest) }"

definition read_git_identity_entries :: "'w ssh_environment \<Rightarrow> path \<Rightarrow> ('w, git_entry list) io" where
  "read_git_identity_entries e git_root =
     read_git_config_keys e git_root ''host Git identity passthrough'' GIT_IDENTITY_KEYS"

definition is_signing_config_key :: "string \<Rightarrow> bool" where
  "is_signing_config_key key \<longleftrightarrow> key \<in> {''gpg.format'', ''user.signingkey'', ''commit.gpgsign''}"

fun signing_entries_loop ::
  "'w ssh_environment \<Rightarrow> path \<Rightarrow> path option \<Rightarrow> bool \<Rightarrow> git_entry list \<Rightarrow> ('w, git_entry list) io" where
  "signing_entries_loop e git_root home configured [] = pure []"
| "signing_entries_loop e git_root home configured ((key, value) # values) =
     (if is_signing_config_key key \<and> \<not> configured then signing_entries_loop e git_root home configured values
      else do {
        kept \<leftarrow> (if key = ''user.signingkey'' then normalize_signing_key_value e value git_root home
          else pure (Some value));
        rest \<leftarrow> signing_entries_loop e git_root home configured values;
        pure (case kept of Some v \<Rightarrow> (key, v) # rest | None \<Rightarrow> rest) })"

definition read_ssh_signing_config_entries ::
  "'w ssh_environment \<Rightarrow> path \<Rightarrow> path option \<Rightarrow> ('w, git_entry list) io" where
  "read_ssh_signing_config_entries e git_root home = do {
     values \<leftarrow> read_git_config_keys e git_root ''SSH commit signing passthrough'' GIT_SIGNING_KEYS;
     signing_entries_loop e git_root home
       (list_ex (\<lambda>(key, value). key = ''gpg.format'' \<and> trim value = ''ssh'') values) values }"

text \<open>The configuration as Git reads it from the environment.\<close>

definition git_config_key :: "nat \<Rightarrow> string" where "git_config_key i = ''GIT_CONFIG_KEY_'' @ show_nat i"
definition git_config_value :: "nat \<Rightarrow> string" where "git_config_value i = ''GIT_CONFIG_VALUE_'' @ show_nat i"

fun append_entries :: "nat \<Rightarrow> git_entry list \<Rightarrow> (string, string) btree \<Rightarrow> (string, string) btree" where
  "append_entries i [] env = env"
| "append_entries i ((key, value) # entries) env =
     append_entries (Suc i) entries
       (bt_insert (git_config_value i) value (bt_insert (git_config_key i) key env))"

definition append_git_config_env :: "git_entry list \<Rightarrow> (string, string) btree \<Rightarrow> (string, string) btree" where
  "append_git_config_env entries env =
     (if entries = [] then env
      else append_entries 0 entries (bt_insert ''GIT_CONFIG_COUNT'' (show_nat (length entries)) env))"

definition append_agentbox_git_identity_env ::
  "git_entry list \<Rightarrow> (string, string) btree \<Rightarrow> (string, string) btree" where
  "append_agentbox_git_identity_env entries env =
     fold (\<lambda>(key, value) env.
       if key = ''user.name'' then bt_insert ''AGENTBOX_GIT_IDENTITY_NAME'' value env
       else if key = ''user.email'' then bt_insert ''AGENTBOX_GIT_IDENTITY_EMAIL'' value env
       else env) entries env"

section \<open>\<open>git_excludes.rs\<close>\<close>

definition CONTAINER_GIT_EXCLUDES_FILE :: string where
  "CONTAINER_GIT_EXCLUDES_FILE = ''/run/agentbox/git-ignore''"
definition GIT_EXCLUDES_FILE_KEY :: string where "GIT_EXCLUDES_FILE_KEY = ''core.excludesFile''"

record git_excludes =
  ge_mount :: "runtime_mount option"
  ge_entries :: "git_entry list"

definition resolve_configured_path :: "path \<Rightarrow> path \<Rightarrow> path" where
  "resolve_configured_path git_root source = (if is_absolute source then source else path_join git_root source)"

definition environment_value_path :: "'w ssh_environment \<Rightarrow> string \<Rightarrow> string \<Rightarrow> ('w, path option) io" where
  "environment_value_path e name value =
     (case utf8_path value of
        Some p \<Rightarrow> pure (Some p)
      | None \<Rightarrow> do {
          _ \<leftarrow> warn e [tick name, '' must be a UTF-8 path for Git excludes file passthrough: '', se_display e value];
          pure None })"

definition default_excludes_file :: "'w ssh_environment \<Rightarrow> ('w, path option) io" where
  "default_excludes_file e =
     (let home_file =
        (case se_var e ''HOME'' of
           None \<Rightarrow> pure None
         | Some home \<Rightarrow>
             if home = [] then pure None
             else map_io (map_option (\<lambda>h. path_join (path_join (path_join h ''.config'') ''git'') ''ignore''))
               (environment_value_path e ''HOME'' home))
      in case se_var e ''XDG_CONFIG_HOME'' of
           None \<Rightarrow> home_file
         | Some value \<Rightarrow>
             if value = [] then home_file
             else map_io (map_option (\<lambda>h. path_join (path_join h ''git'') ''ignore''))
               (environment_value_path e ''XDG_CONFIG_HOME'' value))"

definition excludes_source_path :: "'w ssh_environment \<Rightarrow> path \<Rightarrow> ('w, path option) io" where
  "excludes_source_path e git_root = do {
     r \<leftarrow> config_path_get (se_host e) git_root GIT_EXCLUDES_FILE_KEY;
     (case r of
        Inr (Some value) \<Rightarrow> pure (if value = [] then None else Some (resolve_configured_path git_root value))
      | Inr None \<Rightarrow> default_excludes_file e
      | Inl er \<Rightarrow> do {
          _ \<leftarrow> warn e [''failed to read host Git config '', tick GIT_EXCLUDES_FILE_KEY,
            '' for Git excludes file passthrough: '', error_text er];
          pure None }) }"

definition readable_regular_file :: "'w ssh_environment \<Rightarrow> path \<Rightarrow> ('w, bool) io" where
  "readable_regular_file e p =
     (case se_stat e p of
        StatNotFound \<Rightarrow> pure False
      | StatFailed er \<Rightarrow> do {
          _ \<leftarrow> warn e [''failed to inspect host Git excludes file '', tick p, '': '', er,
            ''; Git excludes file passthrough disabled''];
          pure False }
      | StatIsFile is_file \<Rightarrow>
          if \<not> is_file then do {
            _ \<leftarrow> warn e [''host Git excludes file is not a regular file: '', p,
              ''; Git excludes file passthrough disabled''];
            pure False }
          else case se_open e p of
            Some er \<Rightarrow> do {
              _ \<leftarrow> warn e [''host Git excludes file is not readable: '', p, '': '', er,
                ''; Git excludes file passthrough disabled''];
              pure False }
          | None \<Rightarrow> pure True)"

definition detect_git_excludes :: "'w ssh_environment \<Rightarrow> path \<Rightarrow> ('w, git_excludes) io" where
  "detect_git_excludes e git_root = do {
     source \<leftarrow> excludes_source_path e git_root;
     (case source of
        None \<Rightarrow> pure \<lparr>ge_mount = None, ge_entries = []\<rparr>
      | Some p \<Rightarrow> do {
          ok \<leftarrow> readable_regular_file e p;
          pure (if ok then \<lparr>ge_mount = Some (read_only_bind p CONTAINER_GIT_EXCLUDES_FILE),
              ge_entries = [(GIT_EXCLUDES_FILE_KEY, CONTAINER_GIT_EXCLUDES_FILE)]\<rparr>
            else \<lparr>ge_mount = None, ge_entries = []\<rparr>) }) }"

section \<open>\<open>commit_signing.rs\<close>\<close>

definition CONTAINER_SSH_AUTH_SOCK :: string where "CONTAINER_SSH_AUTH_SOCK = ''/run/agentbox/ssh-agent.sock''"

record commit_signing_passthrough =
  cs_mounts :: "runtime_mount list"
  cs_env :: "(string, string) btree"

record commit_signing_detection =
  cd_passthrough :: commit_signing_passthrough
  cd_agent_available :: bool

definition commit_signing_apply_to :: "commit_signing_passthrough \<Rightarrow> runtime_run_spec \<Rightarrow> runtime_run_spec" where
  "commit_signing_apply_to p s = extend_create_default_env (cs_env p) (fold add_create_mount (cs_mounts p) s)"

fun git_identity_entries :: "'w ssh_environment \<Rightarrow> path \<Rightarrow> git_identity_passthrough \<Rightarrow> ('w, git_entry list) io" where
  "git_identity_entries e git_root HostIdentity = read_git_identity_entries e git_root"
| "git_identity_entries e git_root CodexExecIdentity = pure codex_exec_identity_entries"

definition detect_commit_signing ::
  "'w ssh_environment \<Rightarrow> path \<Rightarrow> git_identity_passthrough \<Rightarrow> ('w, commit_signing_detection) io" where
  "detect_commit_signing e git_root git_identity = do {
     identity \<leftarrow> git_identity_entries e git_root git_identity;
     let env = append_agentbox_git_identity_env identity [];
     excludes \<leftarrow> detect_git_excludes e git_root;
     let mounts = (case ge_mount excludes of Some m \<Rightarrow> [m] | None \<Rightarrow> []);
     let entries = identity @ ge_entries excludes;
     socket \<leftarrow> detect_host_agent_socket e;
     (case socket of
        None \<Rightarrow> pure \<lparr>cd_passthrough = \<lparr>cs_mounts = mounts, cs_env = append_git_config_env entries env\<rparr>,
          cd_agent_available = False\<rparr>
      | Some host_socket \<Rightarrow> do {
          let home = (case se_var e ''HOME'' of None \<Rightarrow> None | Some h \<Rightarrow> utf8_path h);
          let env = bt_insert ''SSH_AUTH_SOCK'' CONTAINER_SSH_AUTH_SOCK env;
          signing \<leftarrow> read_ssh_signing_config_entries e git_root home;
          pure \<lparr>cd_passthrough = \<lparr>cs_mounts = mounts @ [bind_mount host_socket CONTAINER_SSH_AUTH_SOCK],
              cs_env = append_git_config_env (entries @ signing) env\<rparr>,
            cd_agent_available = True\<rparr> }) }"

section \<open>\<open>passthrough.rs\<close>\<close>

record ssh_passthrough =
  sp_commit_signing :: commit_signing_passthrough
  sp_known_hosts :: "prepared_known_hosts option"

definition known_hosts_apply_to :: "prepared_known_hosts option \<Rightarrow> runtime_run_spec \<Rightarrow> runtime_run_spec" where
  "known_hosts_apply_to prepared s =
     (case prepared of None \<Rightarrow> s
      | Some p \<Rightarrow> extend_create_default_env (pkh_env p) (add_create_mount (pkh_mount p) s))"

definition ssh_passthrough_apply_to :: "ssh_passthrough \<Rightarrow> runtime_run_spec \<Rightarrow> runtime_run_spec" where
  "ssh_passthrough_apply_to p s = known_hosts_apply_to (sp_known_hosts p) (commit_signing_apply_to (sp_commit_signing p) s)"

definition detect_ssh_passthrough ::
  "'w ssh_environment \<Rightarrow> path \<Rightarrow> git_identity_passthrough \<Rightarrow> ('w, ssh_passthrough) io" where
  "detect_ssh_passthrough e git_root git_identity = do {
     signing \<leftarrow> detect_commit_signing e git_root git_identity;
     prepared \<leftarrow> (if cd_agent_available signing then prepare_known_hosts e git_root else pure None);
     pure \<lparr>sp_commit_signing = cd_passthrough signing, sp_known_hosts = prepared\<rparr> }"

definition apply_git_and_ssh_passthrough ::
  "'w ssh_environment \<Rightarrow> path \<Rightarrow> git_identity_passthrough \<Rightarrow> runtime_run_spec \<Rightarrow> ('w, runtime_run_spec) io" where
  "apply_git_and_ssh_passthrough e git_root git_identity s =
     map_io (\<lambda>p. ssh_passthrough_apply_to p s) (detect_ssh_passthrough e git_root git_identity)"

text \<open>Everything a launch adds to its specification from the host's display, Git and SSH
  (\<open>commands/container_launch/mod.rs\<close>).\<close>

definition host_passthrough_of ::
  "'w ssh_environment \<Rightarrow> git_identity_passthrough \<Rightarrow> path \<Rightarrow> 'w \<Rightarrow> passthrough \<times> 'w" where
  "host_passthrough_of e git_identity git_root w =
     (case run_state (detect_ssh_passthrough e git_root git_identity) w of (p, w') \<Rightarrow>
        let wayland = snd (wayland_detect (se_var e) (se_connects e)) in
        (\<lparr>pt_mounts = (case wayland of None \<Rightarrow> [] | Some socket \<Rightarrow> [bind_mount socket CONTAINER_WAYLAND_DISPLAY])
             @ cs_mounts (sp_commit_signing p)
             @ (case sp_known_hosts p of None \<Rightarrow> [] | Some k \<Rightarrow> [pkh_mount k]),
           pt_env = (case wayland of None \<Rightarrow> [] | Some _ \<Rightarrow> bt_from [(''WAYLAND_DISPLAY'', CONTAINER_WAYLAND_DISPLAY)])
             @ cs_env (sp_commit_signing p)
             @ (case sp_known_hosts p of None \<Rightarrow> [] | Some k \<Rightarrow> pkh_env k)\<rparr>, w'))"

end
