(* ===== verification/GitSshLaws.thy ===== *)
theory GitSshLaws
  imports GitSsh ImageLaws
begin

text \<open>
  What Git and SSH inside a container see: exactly the entries that were detected, never a private key,
  and no host key but those looked up or configured.
\<close>

section \<open>The configuration in the environment\<close>

text \<open>How Git reads its configuration from the environment: a count, and that many keys and values.\<close>

definition git_env_entry :: "(string, string) btree \<Rightarrow> nat \<Rightarrow> git_entry option" where
  "git_env_entry env i =
     (case (bt_get env (git_config_key i), bt_get env (git_config_value i)) of
        (Some k, Some v) \<Rightarrow> Some (k, v)
      | _ \<Rightarrow> None)"

definition git_env_entries :: "(string, string) btree \<Rightarrow> git_entry list option" where
  "git_env_entries env =
     (case bt_get env ''GIT_CONFIG_COUNT'' of
        None \<Rightarrow> Some []
      | Some count \<Rightarrow> (case parse_nat count of
          None \<Rightarrow> None
        | Some n \<Rightarrow> those (map (git_env_entry env) [0..<n])))"

declare show_nat_inject [simp]

lemma those_map_nth:
  assumes "\<And>i. i < length ys \<Longrightarrow> f i = Some (ys ! i)"
  shows "those (map f [0..<length ys]) = Some ys"
proof -
  have "map f [0..<length ys] = map Some ys" using assms by (intro nth_equalityI) auto
  moreover have "those (map Some ys) = Some ys" by (induction ys) auto
  ultimately show ?thesis by simp
qed

lemma git_config_names [simp]:
  "git_config_key i = git_config_key j \<longleftrightarrow> i = j" "git_config_value i = git_config_value j \<longleftrightarrow> i = j"
  "git_config_key i \<noteq> git_config_value j" "git_config_value j \<noteq> git_config_key i"
  "git_config_key i \<noteq> ''GIT_CONFIG_COUNT''" "git_config_value i \<noteq> ''GIT_CONFIG_COUNT''"
  "''GIT_CONFIG_COUNT'' \<noteq> git_config_key i" "''GIT_CONFIG_COUNT'' \<noteq> git_config_value i"
  by (auto simp: git_config_key_def git_config_value_def)

lemma append_entries_get:
  "bt_get (append_entries i es env) (git_config_key n) =
     (if i \<le> n \<and> n < i + length es then Some (fst (es ! (n - i))) else bt_get env (git_config_key n))"
  "bt_get (append_entries i es env) (git_config_value n) =
     (if i \<le> n \<and> n < i + length es then Some (snd (es ! (n - i))) else bt_get env (git_config_value n))"
proof (induction i es env rule: append_entries.induct)
  case (2 i key v entries env)
  have shift: "((key, v) # entries) ! (n - i) = entries ! (n - Suc i)" if "i \<le> n" "n \<noteq> i"
    using that by (simp add: nth_Cons')
  {
    case 1
    then show ?case using "2.IH"(1) shift by (cases "n = i") (auto simp: bt_get_insert)
  next
    case 2
    then show ?case using "2.IH"(2) shift by (cases "n = i") (auto simp: bt_get_insert)
  }
qed auto

lemma append_entries_other:
  "(\<And>i. name \<noteq> git_config_key i) \<Longrightarrow> (\<And>i. name \<noteq> git_config_value i) \<Longrightarrow>
     bt_get (append_entries i es env) name = bt_get env name"
  by (induction i es env rule: append_entries.induct) (simp_all add: bt_get_insert)

lemma git_env_roundtrip:
  assumes "bt_get env ''GIT_CONFIG_COUNT'' = None"
  shows "git_env_entries (append_git_config_env es env) = Some es"
proof (cases "es = []")
  case False
  let ?env = "append_entries 0 es (bt_insert ''GIT_CONFIG_COUNT'' (show_nat (length es)) env)"
  have "git_env_entry ?env i = Some (es ! i)" if "i < length es" for i
    using that by (simp add: git_env_entry_def append_entries_get)
  moreover have "bt_get ?env ''GIT_CONFIG_COUNT'' = Some (show_nat (length es))"
    by (simp add: append_entries_other bt_get_insert)
  ultimately show ?thesis
    using False by (simp add: append_git_config_env_def git_env_entries_def parse_nat_show_nat those_map_nth)
qed (use assms in \<open>simp add: append_git_config_env_def git_env_entries_def\<close>)

lemma identity_env_names:
  "bt_get (append_agentbox_git_identity_env es env) name =
     (if name \<in> {''AGENTBOX_GIT_IDENTITY_NAME'', ''AGENTBOX_GIT_IDENTITY_EMAIL''}
      then bt_get (append_agentbox_git_identity_env es env) name else bt_get env name)"
  unfolding append_agentbox_git_identity_env_def
  by (induction es arbitrary: env) (auto simp: bt_get_insert)

section \<open>The entries\<close>

lemma read_git_config_keys_subset:
  "run_state (read_git_config_keys e root purpose keys) w = (es, w') \<Longrightarrow> fst ` set es \<subseteq> set keys"
  by (induction e root purpose keys arbitrary: w es rule: read_git_config_keys.induct)
    (fastforce split: prod.splits sum.splits option.splits)+

lemma read_public_key_literal:
  "run_state (read_public_key_file e p) w = (Some key, w') \<Longrightarrow> is_ssh_public_key_literal key"
  by (auto simp: read_public_key_file_def split: sum.splits option.splits if_splits prod.splits)

lemma normalized_literal:
  "run_state (normalize_signing_key_value e value root home) w = (Some key, w') \<Longrightarrow> is_ssh_public_key_literal key"
  by (auto simp: normalize_signing_key_value_def public_key_for_path_def Let_def dest: read_public_key_literal
      split: option.splits if_splits prod.splits)

definition allowed_entries :: "bool \<Rightarrow> git_entry list \<Rightarrow> git_entry set" where
  "allowed_entries configured values =
     {(k, x). (is_signing_config_key k \<longrightarrow> configured) \<and> k \<in> fst ` set values
        \<and> (if k = ''user.signingkey'' then is_ssh_public_key_literal x else (k, x) \<in> set values)}"

lemma allowed_entries_mono: "allowed_entries configured values \<subseteq> allowed_entries configured (v # values)"
  by (auto simp: allowed_entries_def)

lemma signing_entries_allowed:
  "run_state (signing_entries_loop e root home configured vs) w = (es, w') \<Longrightarrow> set es \<subseteq> allowed_entries configured vs"
proof (induction e root home configured vs arbitrary: w es rule: signing_entries_loop.induct)
  case (2 e root home configured key v vs)
  note mono = allowed_entries_mono [of configured vs "(key, v)"]
  show ?case
  proof (cases "is_signing_config_key key \<and> \<not> configured")
    case True
    then show ?thesis using "2.IH"(1) [OF True] "2.prems" mono by auto
  next
    case False
    obtain kept w1 rest where step: "run_state (if key = ''user.signingkey''
          then normalize_signing_key_value e v root home else pure (Some v)) w = (kept, w1)"
        "run_state (signing_entries_loop e root home configured vs) w1 = (rest, w')"
        "es = (case kept of Some x \<Rightarrow> (key, x) # rest | None \<Rightarrow> rest)"
      using "2.prems" False by (auto split: prod.splits)
    have "(key, x) \<in> allowed_entries configured ((key, v) # vs)" if "kept = Some x" for x
      using step(1) False that normalized_literal [of e v root home w x w1]
      by (cases "key = ''user.signingkey''") (auto simp: allowed_entries_def)
    then show ?thesis using "2.IH"(2) [OF False step(2)] step(3) mono by (cases kept) auto
  qed
qed simp

text \<open>Where SSH signing is configured, everything but a key that is not public is passed on.\<close>

lemma signing_entries_complete:
  "run_state (signing_entries_loop e root home True vs) w = (es, w') \<Longrightarrow>
     {(k, x) \<in> set vs. k \<noteq> ''user.signingkey''} \<subseteq> set es"
  by (induction e root home True vs arbitrary: w es rule: signing_entries_loop.induct)
    (fastforce split: prod.splits option.splits if_splits)+

lemma read_signing_entries:
  assumes "run_state (read_ssh_signing_config_entries e root home) w = (es, w')"
  shows "\<forall>(k, x) \<in> set es. k \<in> set GIT_SIGNING_KEYS \<and> (k = ''user.signingkey'' \<longrightarrow> is_ssh_public_key_literal x)
    \<and> (\<exists>fmt. (''gpg.format'', fmt) \<in> set es \<and> trim fmt = ''ssh'')"
proof -
  obtain vs w1 where vs: "run_state (read_git_config_keys e root ''SSH commit signing passthrough'' GIT_SIGNING_KEYS) w = (vs, w1)"
      "run_state (signing_entries_loop e root home (list_ex (\<lambda>(key, value). key = ''gpg.format'' \<and> trim value = ''ssh'') vs) vs) w1
        = (es, w')"
    using assms by (auto simp: read_ssh_signing_config_entries_def split: prod.splits)
  let ?c = "list_ex (\<lambda>(key, value). key = ''gpg.format'' \<and> trim value = ''ssh'') vs"
  have keys: "fst ` set vs \<subseteq> set GIT_SIGNING_KEYS" by (rule read_git_config_keys_subset [OF vs(1)])
  note allowed = signing_entries_allowed [OF vs(2)]
  have fmt: "\<exists>fmt. (''gpg.format'', fmt) \<in> set es \<and> trim fmt = ''ssh''" if c: "?c"
  proof -
    obtain fmt where "(''gpg.format'', fmt) \<in> set vs" "trim fmt = ''ssh''" using c by (auto simp: list_ex_iff)
    then show ?thesis using signing_entries_complete [of e root home vs w1 es w'] vs(2) c by auto
  qed
  have "k \<in> set GIT_SIGNING_KEYS \<and> (k = ''user.signingkey'' \<longrightarrow> is_ssh_public_key_literal x) \<and> ?c" if "(k, x) \<in> set es" for k x
  proof -
    have "k \<in> set GIT_SIGNING_KEYS" using subsetD [OF allowed that] keys by (auto simp: allowed_entries_def)
    then show ?thesis
      using subsetD [OF allowed that] by (auto simp: allowed_entries_def is_signing_config_key_def GIT_SIGNING_KEYS_def)
  qed
  then show ?thesis using fmt by auto
qed

section \<open>What is passed on\<close>

lemma detected_agent:
  assumes "run_state (detect_host_agent_socket e) w = (Some socket, w')"
  shows "se_var e ''SSH_AUTH_SOCK'' = Some socket \<and> se_connects e socket = Inr ()"
  using assms
  by (auto simp: detect_host_agent_socket_def utf8_path_def split: option.splits if_splits sum.splits prod.splits)

lemma identity_entries_keys:
  assumes "run_state (git_identity_entries e root identity) w = (es, w')"
  shows "fst ` set es \<subseteq> set GIT_IDENTITY_KEYS"
proof (cases identity)
  case HostIdentity
  then show ?thesis using assms read_git_config_keys_subset by (metis git_identity_entries.simps(1) read_git_identity_entries_def)
next
  case CodexExecIdentity
  then show ?thesis using assms by (auto simp: codex_exec_identity_entries_def GIT_IDENTITY_KEYS_def)
qed

lemma excludes_entries:
  "run_state (detect_git_excludes e root) w = (x, w') \<Longrightarrow>
     (ge_entries x = [] \<and> ge_mount x = None)
     \<or> (\<exists>p. ge_entries x = [(GIT_EXCLUDES_FILE_KEY, CONTAINER_GIT_EXCLUDES_FILE)]
        \<and> ge_mount x = Some (read_only_bind p CONTAINER_GIT_EXCLUDES_FILE) \<and> se_stat e p = StatIsFile True \<and> se_open e p = None)"
  by (auto simp: detect_git_excludes_def readable_regular_file_def
      split: prod.splits option.splits if_splits file_stat.splits)

lemma identity_env_no_count:
  "bt_get (append_agentbox_git_identity_env ids []) ''GIT_CONFIG_COUNT'' = None"
  using identity_env_names [of ids "[]" "''GIT_CONFIG_COUNT''"] by simp

text \<open>The two ways the detection of commit signing ends: without an agent, and with one.\<close>

lemma detect_commit_signing_cases:
  assumes "run_state (detect_commit_signing e root identity) w = (d, w')"
  obtains (no_agent) ids x w1 w2 where
      "run_state (git_identity_entries e root identity) w = (ids, w1)" "run_state (detect_git_excludes e root) w1 = (x, w2)"
      "\<not> cd_agent_available d" "cs_mounts (cd_passthrough d) = (case ge_mount x of Some m \<Rightarrow> [m] | None \<Rightarrow> [])"
      "git_env_entries (cs_env (cd_passthrough d)) = Some (ids @ ge_entries x)"
  | (agent) ids x w1 w2 socket w4 home signing w5 where
      "run_state (git_identity_entries e root identity) w = (ids, w1)" "run_state (detect_git_excludes e root) w1 = (x, w2)"
      "run_state (detect_host_agent_socket e) w2 = (Some socket, w4)"
      "run_state (read_ssh_signing_config_entries e root home) w4 = (signing, w5)"
      "cs_mounts (cd_passthrough d) = (case ge_mount x of Some m \<Rightarrow> [m] | None \<Rightarrow> [])
        @ [bind_mount socket CONTAINER_SSH_AUTH_SOCK]"
      "git_env_entries (cs_env (cd_passthrough d)) = Some ((ids @ ge_entries x) @ signing)"
proof -
  obtain ids w1 x w2 socket w4 where s:
      "run_state (git_identity_entries e root identity) w = (ids, w1)"
      "run_state (detect_git_excludes e root) w1 = (x, w2)" "run_state (detect_host_agent_socket e) w2 = (socket, w4)"
    by (metis surj_pair)
  show thesis
  proof (cases socket)
    case None
    then have "d = \<lparr>cd_passthrough = \<lparr>cs_mounts = (case ge_mount x of Some m \<Rightarrow> [m] | None \<Rightarrow> []),
        cs_env = append_git_config_env (ids @ ge_entries x) (append_agentbox_git_identity_env ids [])\<rparr>,
        cd_agent_available = False\<rparr>"
      using assms s by (simp add: detect_commit_signing_def Let_def)
    then show thesis
      using git_env_roundtrip [OF identity_env_no_count] by (intro no_agent [OF s(1,2)]) simp_all
  next
    case (Some sock)
    define home where "home = (case se_var e ''HOME'' of None \<Rightarrow> None | Some h \<Rightarrow> utf8_path h)"
    obtain signing w5 where signing: "run_state (read_ssh_signing_config_entries e root home) w4 = (signing, w5)"
      by (metis surj_pair)
    have "d = \<lparr>cd_passthrough = \<lparr>cs_mounts = (case ge_mount x of Some m \<Rightarrow> [m] | None \<Rightarrow> [])
          @ [bind_mount sock CONTAINER_SSH_AUTH_SOCK],
        cs_env = append_git_config_env ((ids @ ge_entries x) @ signing)
          (bt_insert ''SSH_AUTH_SOCK'' CONTAINER_SSH_AUTH_SOCK (append_agentbox_git_identity_env ids []))\<rparr>,
        cd_agent_available = True\<rparr>"
      using assms s signing [unfolded home_def] Some by (simp add: detect_commit_signing_def Let_def)
    moreover have "bt_get (bt_insert ''SSH_AUTH_SOCK'' CONTAINER_SSH_AUTH_SOCK (append_agentbox_git_identity_env ids []))
        ''GIT_CONFIG_COUNT'' = None"
      by (simp add: bt_get_insert identity_env_no_count)
    ultimately show thesis
      using git_env_roundtrip by (intro agent [OF s(1,2) s(3) [unfolded Some] signing]) simp_all
  qed
qed

text \<open>What the excludes entry says is mounted.\<close>

definition excludes_ok :: "'w ssh_environment \<Rightarrow> git_entry list \<Rightarrow> runtime_mount list \<Rightarrow> bool" where
  "excludes_ok e entries mounts \<longleftrightarrow> entries = []
     \<or> entries = [(GIT_EXCLUDES_FILE_KEY, CONTAINER_GIT_EXCLUDES_FILE)]
       \<and> (\<exists>f. read_only_bind f CONTAINER_GIT_EXCLUDES_FILE \<in> set mounts \<and> se_stat e f = StatIsFile True)"

lemma detected_excludes_ok:
  assumes "run_state (detect_git_excludes e root) w = (x, w')"
    and "set (case ge_mount x of Some m \<Rightarrow> [m] | None \<Rightarrow> []) \<subseteq> set mounts"
  shows "excludes_ok e (ge_entries x) mounts"
  using excludes_entries [OF assms(1)] assms(2) by (auto simp: excludes_ok_def)

definition signing_ok :: "git_entry list \<Rightarrow> bool" where
  "signing_ok es \<longleftrightarrow> (\<forall>(k, x) \<in> set es. k \<in> set GIT_SIGNING_KEYS
     \<and> (k = ''user.signingkey'' \<longrightarrow> is_ssh_public_key_literal x)
     \<and> (\<exists>fmt. (''gpg.format'', fmt) \<in> set es \<and> trim fmt = ''ssh''))"

definition agent_mounted :: "'w ssh_environment \<Rightarrow> runtime_mount list \<Rightarrow> bool" where
  "agent_mounted e mounts \<longleftrightarrow> (\<exists>socket. se_var e ''SSH_AUTH_SOCK'' = Some socket \<and> se_connects e socket = Inr ()
     \<and> bind_mount socket CONTAINER_SSH_AUTH_SOCK \<in> set mounts)"


section \<open>Private keys\<close>

definition public_key_name :: "path \<Rightarrow> bool" where
  "public_key_name p \<longleftrightarrow> path_extension p = Some ''pub'' \<or> ends_with p ''.pub''"

named_theorems read_irrelevant \<open>operations that read no key file\<close>

lemma read_irrelevant_basic [read_irrelevant]:
  "warn (e\<lparr>se_read := r\<rparr>) = warn e"
  "ssh_config_lookup (e\<lparr>se_read := r\<rparr>) = ssh_config_lookup e"
  "ssh_keygen_lookup (e\<lparr>se_read := r\<rparr>) = ssh_keygen_lookup e"
  "write_temporary_known_hosts (e\<lparr>se_read := r\<rparr>) = write_temporary_known_hosts e"
  by (simp_all add: fun_eq_iff warn_def ssh_config_lookup_def ssh_keygen_lookup_def write_temporary_known_hosts_def
      cong: if_cong)

lemma read_irrelevant_hosts [read_irrelevant]:
  "ssh_config_or_fallback (e\<lparr>se_read := r\<rparr>) = ssh_config_or_fallback e"
  "remote_hosts_of (e\<lparr>se_read := r\<rparr>) = remote_hosts_of e"
  by (simp_all add: read_irrelevant_basic fun_eq_iff ssh_config_or_fallback_def remote_hosts_of_def
      cong: sum.case_cong lookup_error.case_cong)

lemma read_irrelevant_lookup [read_irrelevant]:
  "lookup_all (e\<lparr>se_read := r\<rparr>) pairs found = lookup_all e pairs found"
  by (induction e pairs found rule: lookup_all.induct) (simp_all add: read_irrelevant_basic cong: sum.case_cong)

lemma read_irrelevant_lines [read_irrelevant]:
  "host_lines_loop (e\<lparr>se_read := r\<rparr>) home hosts lines = host_lines_loop e home hosts lines"
  by (induction e home hosts lines rule: host_lines_loop.induct)
    (simp_all add: read_irrelevant cong: sum.case_cong if_cong)

lemma read_irrelevant_config [read_irrelevant]:
  "read_git_config_keys (e\<lparr>se_read := r\<rparr>) root purpose keys = read_git_config_keys e root purpose keys"
  by (induction e root purpose keys rule: read_git_config_keys.induct)
    (simp_all add: read_irrelevant_basic cong: sum.case_cong option.case_cong)

lemma read_irrelevant_known_hosts [read_irrelevant]:
  "prepare_known_hosts (e\<lparr>se_read := r\<rparr>) root = prepare_known_hosts e root"
  by (simp add: prepare_known_hosts_def host_known_hosts_lines_def read_irrelevant Let_def cong: if_cong sum.case_cong)

lemma read_irrelevant_identity [read_irrelevant]:
  "git_identity_entries (e\<lparr>se_read := r\<rparr>) root identity = git_identity_entries e root identity"
  by (cases identity) (simp_all add: read_git_identity_entries_def read_irrelevant_config)

lemma read_irrelevant_paths:
  "environment_value_path (e\<lparr>se_read := r\<rparr>) name v = environment_value_path e name v"
  "readable_regular_file (e\<lparr>se_read := r\<rparr>) p = readable_regular_file e p"
  by (simp_all add: environment_value_path_def readable_regular_file_def read_irrelevant_basic
      cong: option.case_cong if_cong file_stat.case_cong)

lemma read_irrelevant_default:
  "default_excludes_file (e\<lparr>se_read := r\<rparr>) = default_excludes_file e"
  by (simp add: default_excludes_file_def read_irrelevant_paths Let_def cong: option.case_cong if_cong)

lemma read_irrelevant_source:
  "excludes_source_path (e\<lparr>se_read := r\<rparr>) root = excludes_source_path e root"
  by (simp add: excludes_source_path_def read_irrelevant_basic read_irrelevant_default cong: option.case_cong sum.case_cong)

lemma read_irrelevant_excludes [read_irrelevant]:
  "detect_git_excludes (e\<lparr>se_read := r\<rparr>) root = detect_git_excludes e root"
  by (simp add: detect_git_excludes_def read_irrelevant_source read_irrelevant_paths cong: option.case_cong)

lemma read_irrelevant_agent [read_irrelevant]:
  "detect_host_agent_socket (e\<lparr>se_read := r\<rparr>) = detect_host_agent_socket e"
  by (simp add: detect_host_agent_socket_def read_irrelevant_basic cong: option.case_cong if_cong sum.case_cong)

lemma read_public_key_file_read:
  "r p = se_read e p \<Longrightarrow> read_public_key_file (e\<lparr>se_read := r\<rparr>) p = read_public_key_file e p"
  by (simp add: read_public_key_file_def read_irrelevant_basic cong: option.case_cong sum.case_cong if_cong)

lemma public_key_for_path_public:
  assumes "\<And>p. public_key_name p \<Longrightarrow> r p = se_read e p"
  shows "public_key_for_path (e\<lparr>se_read := r\<rparr>) p = public_key_for_path e p"
  using assms [of p] assms [of "p @ ''.pub''"]
  by (simp add: public_key_for_path_def public_key_name_def ends_with_append read_irrelevant_basic read_public_key_file_read)

lemma signing_entries_public:
  assumes "\<And>p. public_key_name p \<Longrightarrow> r p = se_read e p"
  shows "signing_entries_loop (e\<lparr>se_read := r\<rparr>) root home configured vs = signing_entries_loop e root home configured vs"
proof -
  have "normalize_signing_key_value (e\<lparr>se_read := r\<rparr>) v root home = normalize_signing_key_value e v root home" for v
    by (simp add: normalize_signing_key_value_def read_irrelevant_basic public_key_for_path_public [OF assms] Let_def
        cong: if_cong option.case_cong)
  then show ?thesis by (induction vs) (auto cong: if_cong)
qed

text \<open>C40: what a container gets of the host's Git and SSH does not depend on the contents of any file that is
  not named as a public key: a file that may be a private key is never read.\<close>

theorem private_keys_unread:
  assumes "\<And>p. public_key_name p \<Longrightarrow> read p = se_read e p"
  shows "detect_ssh_passthrough (e\<lparr>se_read := read\<rparr>) root identity = detect_ssh_passthrough e root identity"
  by (simp add: detect_ssh_passthrough_def detect_commit_signing_def read_ssh_signing_config_entries_def
      read_irrelevant signing_entries_public [OF assms] Let_def cong: if_cong option.case_cong)

section \<open>In a launch\<close>

text \<open>What a launch applies at once is what the code applies step by step: Wayland, then Git and commit
  signing, then the known hosts, each adding its mounts and its variables to the specification.\<close>

lemma passthrough_refines_steps:
  "apply_passthrough (fst (host_passthrough_of e identity root w)) s
     = fst (run_state (apply_git_and_ssh_passthrough e root identity
         (apply_wayland_passthrough (se_var e) (se_connects e) s)) w)"
proof -
  obtain p w' where p: "run_state (detect_ssh_passthrough e root identity) w = (p, w')" by (metis surj_pair)
  show ?thesis
    by (cases "snd (wayland_detect (se_var e) (se_connects e))"; cases "sp_known_hosts p")
      (simp_all add: host_passthrough_of_def apply_git_and_ssh_passthrough_def run_map_io p
        apply_wayland_passthrough_def wayland_apply_to_def ssh_passthrough_apply_to_def known_hosts_apply_to_def
        commit_signing_apply_to_def apply_passthrough_def extend_create_default_env_def add_mounts_fold
        add_create_mount_def bt_extend_append)
qed

section \<open>Instances\<close>

definition sample_ssh :: "unit ssh_environment" where
  "sample_ssh = \<lparr>se_host = idle_host sample_build, se_var = (\<lambda>_. None), se_warn = (\<lambda>_ w. ((), w)),
     se_is_file = (\<lambda>_. True), se_stat = (\<lambda>_. StatNotFound), se_open = (\<lambda>_. None),
     se_read = (\<lambda>p. if p = ''/h/id.pub'' then Inr ''ssh-ed25519 A'' else Inl ''secret''),
     se_connects = (\<lambda>_. Inr ()), se_display = (\<lambda>s. s), se_temp_file = (\<lambda>_ w. (Inr ''/tmp/k'', w))\<rparr>"


lemma private_keys_unread_witness:
  "detect_ssh_passthrough (sample_ssh\<lparr>se_read := (\<lambda>p. if p = ''/h/id.pub'' then Inr ''ssh-ed25519 A''
      else if p = ''/h/id'' then Inr ''private'' else Inl ''secret'')\<rparr>) ''/w'' HostIdentity
    = detect_ssh_passthrough sample_ssh ''/w'' HostIdentity"
  by (rule private_keys_unread)
    (auto simp: sample_ssh_def public_key_name_def path_extension_def path_file_name_opt_def components_def
      normal_components_def is_absolute_def starts_with_def ends_with_def rsplit_once_def)

end
