(* ===== verification/PreflightLaws.thy ===== *)
theory PreflightLaws
  imports Preflight
begin

text \<open>
  What a passed check of the host guarantees of the mounts that a container gets.
\<close>

section \<open>Snapshots\<close>

lemma snapshot_keys_distinct: "distinct (map (\<lambda>s. snapshot_key (hs_destination s)) (host_state_mounts k m))"
  by (cases k; cases m)
    (simp_all add: opencode_mounts_def OPENCODE_CONFIG_DESTINATION_def OPENCODE_DATA_DESTINATION_def)

definition directory_snapshot_of :: "preflight_host \<Rightarrow> host_state_mount \<Rightarrow> directory_snapshot" where
  "directory_snapshot_of host spec = (case host_state_source_on host (hs_source spec) of
     Inr r \<Rightarrow> directory_detect_with host r | Inl e \<Rightarrow> directory_detect_error e)"

text \<open>A detected snapshot has an entry for each mount it is checked for.\<close>

lemma host_state_snapshot_detected:
  assumes "spec \<in> set (host_state_mounts k m)"
  shows "host_state_snapshot (snapshot_detect_with host k m) spec = Ok (directory_snapshot_of host spec)"
proof -
  let ?kvs = "map (\<lambda>s. (snapshot_key (hs_destination s), directory_snapshot_of host s)) (host_state_mounts k m)"
  have d: "distinct (map fst ?kvs)" using snapshot_keys_distinct by (simp add: comp_def)
  have "bt_get (detect_runtime_state host k m) (snapshot_key (hs_destination spec)) =
      map_of ?kvs (snapshot_key (hs_destination spec))"
    using bt_get_from_distinct [OF d] by (simp add: detect_runtime_state_def directory_snapshot_of_def)
  also have "\<dots> = Some (directory_snapshot_of host spec)"
    using assms d by (intro map_of_is_SomeI) auto
  finally show ?thesis
    by (simp add: host_state_snapshot_def snapshot_detect_with_def host_snapshot_detect_def)
qed

section \<open>The mounts\<close>

text \<open>A mount of the host's state: where it comes from, where it goes, and that the user can use it.\<close>

definition state_mount_ok :: "preflight_host \<Rightarrow> host_state_mount \<Rightarrow> runtime_mount \<Rightarrow> bool" where
  "state_mount_ok host spec mount \<longleftrightarrow> (\<exists>res source dest.
     host_state_source_on host (hs_source spec) = Ok res \<and> rs_source res = Some source
     \<and> destination_for (hs_destination spec) source (rs_variable res) = Ok dest \<and> mount = bind_mount source dest
     \<and> (let s = ph_path_status host source in
        hp_exists s \<and> hp_is_directory s \<and> hp_readable s \<and> hp_writable s \<and> hp_searchable s))"

definition state_entry :: "preflight_host \<Rightarrow> host_state_mount \<Rightarrow> (string \<times> string) option" where
  "state_entry host spec = (case host_state_source_on host (hs_source spec) of
     Inr res \<Rightarrow> (case rs_source res of Some source \<Rightarrow> container_environment_for spec source (rs_variable res) | None \<Rightarrow> None)
   | Inl _ \<Rightarrow> None)"

lemma validate_host_state_Ok:
  assumes "validate_host_state k spec (directory_snapshot_of host spec) = Ok (mount, entry)"
  shows "state_mount_ok host spec mount \<and> entry = state_entry host spec"
  using assms
  by (auto simp: validate_host_state_def directory_snapshot_of_def directory_detect_with_def directory_detect_error_def
      state_mount_ok_def state_entry_def result_simps Let_def split: sum.splits option.splits if_splits)

lemma runtime_mounts_loop_Ok:
  assumes "runtime_mounts_loop sn k specs acc = Ok (mounts, environment)"
    and "\<And>spec. spec \<in> set specs \<Longrightarrow> host_state_snapshot sn spec = Ok (directory_snapshot_of host spec)"
  shows "\<exists>ms. mounts = fst acc @ ms \<and> list_all2 (state_mount_ok host) specs ms
    \<and> environment = bt_extend (snd acc) (filter_map (state_entry host) specs)"
  using assms
proof (induction sn k specs acc arbitrary: mounts environment rule: runtime_mounts_loop.induct)
  case (2 sn k spec specs acc)
  obtain mount entry where v: "validate_host_state k spec (directory_snapshot_of host spec) = Ok (mount, entry)"
      "runtime_mounts_loop sn k specs (fst acc @ [mount],
        bt_extend (snd acc) (case entry of Some kv \<Rightarrow> [kv] | None \<Rightarrow> [])) = Ok (mounts, environment)"
    using "2.prems" by (auto simp: result_simps)
  note ok = validate_host_state_Ok [OF v(1)]
  obtain ms where ms: "mounts = fst (fst acc @ [mount], bt_extend (snd acc) (case entry of Some kv \<Rightarrow> [kv] | None \<Rightarrow> [])) @ ms"
      "list_all2 (state_mount_ok host) specs ms"
      "environment = bt_extend (bt_extend (snd acc) (case entry of Some kv \<Rightarrow> [kv] | None \<Rightarrow> []))
        (filter_map (state_entry host) specs)"
    using "2.IH" [OF v(2)] "2.prems"(2) by auto
  show ?case
    using ms ok by (intro exI [of _ "mount # ms"]) (cases "state_entry host spec"; auto)
qed simp

lemma checked_mounts:
  assumes "check_host_prerequisites fs k m = Ok report"
  shows "list_all2 (state_mount_ok (system_preflight_host fs)) (host_state_mounts k m) (pf_runtime_mounts report)
    \<and> pf_runtime_environment report = bt_from (filter_map (state_entry (system_preflight_host fs)) (host_state_mounts k m))"
proof -
  have "runtime_mounts (snapshot_detect_with (system_preflight_host fs) k m) k m
      = Ok (pf_runtime_mounts report, pf_runtime_environment report)"
    using assms by (auto simp: check_host_prerequisites_def check_with_snapshot_def result_simps)
  from runtime_mounts_loop_Ok [OF this [unfolded runtime_mounts_def], of "system_preflight_host fs"]
  show ?thesis using host_state_snapshot_detected by (auto simp: bt_from_def)
qed

lemma checked_nix_mounts:
  "check_host_prerequisites fs k m = Ok report \<Longrightarrow> list_all rm_read_only (pf_host_nix_mounts report)"
  by (auto simp: check_host_prerequisites_def check_with_snapshot_def host_nix_mounts_def HOST_NIX_MOUNTS_def
      read_only_bind_def result_simps)


section \<open>Codex\<close>

text \<open>A server of Codex sees the directory that \<open>CODEX_HOME\<close> names under the same path, with the same
  variable set; without the variable it sees \<open>.codex\<close> of the home directory under its own home.\<close>

lemma codex_home_passthrough:
  assumes "check_host_prerequisites fs Codex m = Ok report" and "m \<noteq> Foreground"
  shows "case unwrap_or (sf_var fs ''CODEX_HOME'') [] of
      [] \<Rightarrow> (\<exists>home. sf_var fs ''HOME'' = Some home
          \<and> pf_runtime_mounts report = [bind_mount (path_join home ''.codex'') ''/home/user/.codex'']
          \<and> pf_runtime_environment report = [])
    | dir \<Rightarrow> is_absolute dir \<and> pf_runtime_mounts report = [bind_mount dir dir]
        \<and> pf_runtime_environment report = [(''CODEX_HOME'', dir)]"
proof -
  let ?host = "system_preflight_host fs"
  have specs: "host_state_mounts Codex m = [codex_server_mount]" using assms(2) by (cases m) simp_all
  obtain mount where mount: "pf_runtime_mounts report = [mount]" "state_mount_ok ?host codex_server_mount mount"
      "pf_runtime_environment report = bt_from (filter_map (state_entry ?host) [codex_server_mount])"
    using checked_mounts [OF assms(1)] unfolding specs by (auto simp: list_all2_Cons1)
  then show ?thesis
    by (cases "sf_var fs ''CODEX_HOME''")
      (auto simp: state_mount_ok_def state_entry_def codex_server_mount_def host_state_source_on_def
        environment_source_def system_preflight_host_def resolve_home_source_def utf8_join_def utf8_path_def
        CODEX_HOME_ENV_def CODEX_CONFIG_DESTINATION_def container_environment_for_def bt_from_def result_simps
        split: list.splits if_splits option.splits bind_splits)
qed

section \<open>An instance\<close>

text \<open>A host that has everything, with \<open>CODEX_HOME\<close> set.\<close>

definition sample_system_fs :: system_fs where
  "sample_system_fs = \<lparr>
     sf_var = (\<lambda>v. if v = ''HOME'' then Some ''/h'' else if v = ''CODEX_HOME'' then Some ''/cfg'' else None),
     sf_which = (\<lambda>_. Some ''/bin/x''), sf_lstat = (\<lambda>_. True), sf_is_dir = (\<lambda>_. True), sf_readable = (\<lambda>_. True),
     sf_writable = (\<lambda>_. True), sf_searchable = (\<lambda>_. True), sf_opens = (\<lambda>_. True), sf_is_socket = (\<lambda>_. True),
     sf_read_link = (\<lambda>_. None), sf_canonicalize = (\<lambda>_. None), sf_display = (\<lambda>s. s)\<rparr>"

lemma sample_codex_source:
  "host_state_source_on (system_preflight_host sample_system_fs) (hs_source codex_server_mount) =
     Ok \<lparr>rs_source = Some ''/cfg'', rs_variable = Some ''CODEX_HOME''\<rparr>"
  by (simp add: host_state_source_on_def codex_server_mount_def environment_source_def system_preflight_host_def
      sample_system_fs_def CODEX_HOME_ENV_def utf8_path_def valid_utf8_def byte_of_def)

lemma sample_check:
  "\<exists>report. check_host_prerequisites sample_system_fs Codex ManagedSessionMode = Ok report"
proof -
  have "validate_host_state Codex codex_server_mount
      (directory_snapshot_of (system_preflight_host sample_system_fs) codex_server_mount)
    = Ok (bind_mount ''/cfg'' ''/cfg'', Some (''CODEX_HOME'', ''/cfg''))"
    by (simp add: validate_host_state_def directory_snapshot_of_def sample_codex_source directory_detect_with_def
        Let_def)
      (simp add: codex_server_mount_def CODEX_HOME_ENV_def is_absolute_Cons container_environment_for_def
        system_preflight_host_def sample_system_fs_def current_user_has_access_def)
  moreover have "host_state_snapshot (snapshot_detect_with (system_preflight_host sample_system_fs) Codex ManagedSessionMode)
      codex_server_mount = Ok (directory_snapshot_of (system_preflight_host sample_system_fs) codex_server_mount)"
    by (rule host_state_snapshot_detected) simp
  ultimately show ?thesis
    by (simp add: check_host_prerequisites_def check_with_snapshot_def runtime_mounts_def)
      (simp add: validate_host_tools_def validate_nix_daemon_def nix_client_source_def validate_nix_config_def
        snapshot_detect_with_def host_snapshot_detect_def nix_snapshot_detect_def resolve_nix_client_source_def
        custom_conf_detect_def system_preflight_host_def sample_system_fs_def utf8_path_def valid_utf8_def byte_of_def
        Let_def)
qed


lemma codex_home_passthrough_witness:
  "\<exists>report. check_host_prerequisites sample_system_fs Codex ManagedSessionMode = Ok report
    \<and> pf_runtime_mounts report = [bind_mount ''/cfg'' ''/cfg'']"
proof -
  obtain report where "check_host_prerequisites sample_system_fs Codex ManagedSessionMode = Ok report"
    using sample_check by blast
  with codex_home_passthrough [OF this] show ?thesis by (auto simp: sample_system_fs_def)
qed

end
