(* ===== verification/HostWiring.thy ===== *)
theory HostWiring
  imports GitSshLaws PreflightLaws LaunchLaws
begin

text \<open>
  A launch on a host whose preflight, development environment and passthrough are those of the models
  of \<open>preflight\<close>, \<open>dev_env\<close>, \<open>wayland.rs\<close> and \<open>ssh_signing\<close>: what a container gets of the host.
\<close>

section \<open>The host of a launch\<close>

text \<open>\<open>json_text\<close> is \<open>serde_json::to_string\<close> of a string; the file system and the environment are those of
  one moment.\<close>

definition probed_host :: "(string \<Rightarrow> string) \<Rightarrow> system_fs \<Rightarrow> 'w ssh_environment \<Rightarrow> 'w host" where
  "probed_host json_text fs e = (se_host e)\<lparr>
     preflight := (\<lambda>runtime mode w. (check_host_prerequisites fs runtime mode, w)),
     resolve_dev_env := (\<lambda>tgt root. run_state (dev_environment_resolve json_text (se_host e) (se_is_file e) DevAuto tgt root)),
     host_passthrough := host_passthrough_of e\<rparr>"

lemma probed_host_simps [simp]:
  "preflight (probed_host j fs e) = (\<lambda>runtime mode w. (check_host_prerequisites fs runtime mode, w))"
  "host_passthrough (probed_host j fs e) = host_passthrough_of e"
  "ensure_image (probed_host j fs e) = ensure_image (se_host e)"
  "random_token (probed_host j fs e) = random_token (se_host e)"
  "write_token_file (probed_host j fs e) = write_token_file (se_host e)"
  "host_build (probed_host j fs e) = host_build (se_host e)"
  by (simp_all add: probed_host_def)

section \<open>The mounts of a container\<close>

lemma prepared_preflight:
  assumes "run_state (prepare_container_launch_for_workspace h w runtime mode policy) s = (Ok cp, s')"
  obtains s1 where "preflight h runtime (lp_run_mode policy) s = (Ok (clp_preflight cp), s1)"
  using assms by (auto simp: prepare_container_launch_for_workspace_def result_simps)

lemma wayland_socket_connects:
  "snd (wayland_detect env connects) = Some socket \<Longrightarrow> connects socket = Inr ()"
  by (auto simp: wayland_detect_def Let_def split: option.splits if_splits sum.splits)

text \<open>A socket that answered, at one of the two places where a container expects one.\<close>

definition socket_mount :: "'w ssh_environment \<Rightarrow> runtime_mount \<Rightarrow> bool" where
  "socket_mount e m \<longleftrightarrow> (\<exists>socket. se_connects e socket = Inr ()
     \<and> m \<in> {bind_mount socket CONTAINER_WAYLAND_DISPLAY, bind_mount socket CONTAINER_SSH_AUTH_SOCK})"

lemma known_hosts_read_only:
  "run_state (prepare_known_hosts e root) w = (Some k, w') \<Longrightarrow> rm_read_only (pkh_mount k)"
  by (auto simp: prepare_known_hosts_def read_only_bind_def Let_def split: prod.splits if_splits sum.splits)

lemma excludes_read_only:
  "run_state (detect_git_excludes e root) w = (x, w') \<Longrightarrow> m \<in> set (case ge_mount x of Some m \<Rightarrow> [m] | None \<Rightarrow> [])
     \<Longrightarrow> rm_read_only m"
  by (drule excludes_entries) (auto simp: read_only_bind_def)

lemma passthrough_mounts:
  assumes "host_passthrough_of e identity root w = (extra, w')" and "m \<in> set (pt_mounts extra)"
  shows "rm_read_only m \<or> socket_mount e m"
proof -
  obtain p w1 where p: "run_state (detect_ssh_passthrough e root identity) w = (p, w1)" by (metis surj_pair)
  obtain d w2 where d: "run_state (detect_commit_signing e root identity) w = (d, w2)"
      "sp_commit_signing p = cd_passthrough d" "\<And>k. sp_known_hosts p = Some k \<Longrightarrow> rm_read_only (pkh_mount k)"
    using p by (auto simp: detect_ssh_passthrough_def split: prod.splits if_splits) (metis known_hosts_read_only)
  have signing: "rm_read_only m \<or> socket_mount e m" if "m \<in> set (cs_mounts (cd_passthrough d))" for m
    using d(1)
  proof (cases rule: detect_commit_signing_cases)
    case (no_agent ids x w1 w2)
    then show ?thesis using excludes_read_only [OF no_agent(2)] that by simp
  next
    case (agent ids x w1 w2 socket w4 home signing w5)
    have "socket_mount e (bind_mount socket CONTAINER_SSH_AUTH_SOCK)"
      using detected_agent [OF agent(3)] by (auto simp: socket_mount_def)
    then show ?thesis using excludes_read_only [OF agent(2)] that agent(5) by auto
  qed
  have wayland: "socket_mount e (bind_mount s CONTAINER_WAYLAND_DISPLAY)"
    if "snd (wayland_detect (se_var e) (se_connects e)) = Some s" for s
    using wayland_socket_connects [OF that] by (auto simp: socket_mount_def)
  consider s where "snd (wayland_detect (se_var e) (se_connects e)) = Some s" "m = bind_mount s CONTAINER_WAYLAND_DISPLAY"
    | "m \<in> set (cs_mounts (cd_passthrough d))" | k where "sp_known_hosts p = Some k" "m = pkh_mount k"
    using assms by (auto simp: host_passthrough_of_def p Let_def d(2) split: option.splits)
  then show ?thesis using wayland signing d(3) by cases auto
qed

text \<open>C4: whatever a container can write of its host is the workspace's git root, the workspace's cache volume,
  the state directories of its runtime, which the user may write as well, and sockets of the display
  and of the SSH agent that answered. Everything else it gets is read-only.\<close>

theorem launch_writable_mounts:
  assumes "run_state (prepare_runtime_launch (probed_host json_text fs e) rq) w = (Ok prep, w')"
    and "m \<in> set (cr_mounts (rn_create (rlp_run_spec prep)))" and "\<not> rm_read_only m"
  shows "m = bind_mount (canonical_git_root (rq_workspace rq)) (canonical_git_root (rq_workspace rq))
    \<or> m = volume_mount (container_name (rq_workspace rq)) NIX_CACHE_DESTINATION
    \<or> (\<exists>spec \<in> set (host_state_mounts (rq_runtime rq) (lp_run_mode (rq_policy rq))).
         state_mount_ok (system_preflight_host fs) spec m)
    \<or> socket_mount e m"
proof -
  obtain cp s1 s2 extra s3 where p: "run_state (prepare_container_launch_for_workspace (probed_host json_text fs e)
        (rq_workspace rq) (rq_runtime rq) (rq_dev_env_mode rq) (rq_policy rq)) w = (Ok cp, s1)"
      "host_passthrough_of e (rq_git_identity rq) (canonical_git_root (rq_workspace rq)) s2 = (extra, s3)"
      "cr_mounts (rn_create (rlp_run_spec prep)) = runtime_mounts_for_workspace (rq_workspace rq)
        (pf_host_nix_mounts (clp_preflight cp)) (pf_runtime_mounts (clp_preflight cp)) @ pt_mounts extra"
  proof (rule prepared_spec [OF assms(1)], goal_cases)
    case (1 cp s1 s2 inv' extra s3)
    then show ?case by (intro that [of cp s1 s2 extra s3]) simp_all
  qed
  have check: "check_host_prerequisites fs (rq_runtime rq) (lp_run_mode (rq_policy rq)) = Ok (clp_preflight cp)"
    using prepared_preflight [OF p(1)] by auto
  have nix: "list_all rm_read_only (pf_host_nix_mounts (clp_preflight cp))" by (rule checked_nix_mounts [OF check])
  have state: "\<exists>spec \<in> set (host_state_mounts (rq_runtime rq) (lp_run_mode (rq_policy rq))).
      state_mount_ok (system_preflight_host fs) spec m" if "m \<in> set (pf_runtime_mounts (clp_preflight cp))"
    using checked_mounts [OF check] that by (auto simp: list_all2_conv_all_nth in_set_conv_nth) (metis nth_mem)
  show ?thesis
    using assms(2,3) nix state passthrough_mounts [OF p(2)]
    unfolding p(3) runtime_mounts_for_workspace_def by (auto simp: list_all_iff)
qed

section \<open>An instance\<close>

definition wired_launch :: runtime_launch_request where
  "wired_launch = replacement_server_launch_request sample_workspace Codex DevNone False [] no_limits"

definition wired_ssh :: "nat ssh_environment" where
  "wired_ssh = \<lparr>se_host = sample_host [] (sample_server Codex), se_var = (\<lambda>_. None), se_warn = (\<lambda>_ w. ((), w)),
     se_is_file = (\<lambda>_. False), se_stat = (\<lambda>_. StatNotFound), se_open = (\<lambda>_. None), se_read = (\<lambda>_. Inl ''x''),
     se_connects = (\<lambda>_. Inl ''x''), se_display = (\<lambda>s. s), se_temp_file = (\<lambda>_ w. (Inl ''x'', w))\<rparr>"

lemma wired_host_simps:
  "ensure_image (se_host wired_ssh) k p w = (Ok None, w)" "random_token (se_host wired_ssh) w = (Ok [], w)"
  "write_token_file (se_host wired_ssh) d v w = (Ok (), w)"
  by (simp_all add: wired_ssh_def sample_host_def)

lemma wired_token:
  "\<exists>t. run_state (prepare_codex_attach_token (probed_host (\<lambda>s. s) sample_system_fs wired_ssh) Codex ManagedSessionMode w) n
     = (Ok (Some t), n)"
  by (simp add: prepare_codex_attach_token_def create_managed_def generate_token_def run_attempt wired_host_simps
      run_map_io Let_def)

lemma wired_prepare:
  obtains prep w' where "run_state (prepare_runtime_launch (probed_host (\<lambda>s. s) sample_system_fs wired_ssh) wired_launch) 0
    = (Ok prep, w')"
proof -
  let ?run = "run_state (prepare_runtime_launch (probed_host (\<lambda>s. s) sample_system_fs wired_ssh) wired_launch) 0"
  obtain report where report: "check_host_prerequisites sample_system_fs Codex ManagedSessionMode = Ok report"
    using sample_check by blast
  obtain t where "run_state (prepare_codex_attach_token (probed_host (\<lambda>s. s) sample_system_fs wired_ssh) Codex
      ManagedSessionMode sample_workspace) 0 = (Ok (Some t), 0)"
    using wired_token by blast
  then have "\<exists>prep. fst ?run = Ok prep"
    by (simp add: wired_launch_def replacement_server_launch_request_def replacement_server_policy_def
        prepare_runtime_launch_def prepare_container_launch_for_workspace_def run_attempt report wired_host_simps
        ensure_required_resources_absent_def
        build_runtime_invocation_def server_runtime_command_def Let_def split: prod.splits)
  then show thesis using that by (metis prod.collapse)
qed

lemma launch_writable_mounts_witness:
  "\<exists>prep w'. run_state (prepare_runtime_launch (probed_host (\<lambda>s. s) sample_system_fs wired_ssh) wired_launch) 0 = (Ok prep, w')
    \<and> (\<forall>m. m \<in> set (cr_mounts (rn_create (rlp_run_spec prep))) \<longrightarrow> rm_read_only m
        \<or> m = bind_mount (canonical_git_root sample_workspace) (canonical_git_root sample_workspace)
        \<or> m = volume_mount (container_name sample_workspace) NIX_CACHE_DESTINATION
        \<or> state_mount_ok (system_preflight_host sample_system_fs) codex_server_mount m)"
proof -
  obtain prep w' where p: "run_state (prepare_runtime_launch (probed_host (\<lambda>s. s) sample_system_fs wired_ssh) wired_launch) 0
    = (Ok prep, w')" by (rule wired_prepare)
  have rq: "rq_workspace wired_launch = sample_workspace" "host_state_mounts (rq_runtime wired_launch)
      (lp_run_mode (rq_policy wired_launch)) = [codex_server_mount]" "\<not> socket_mount wired_ssh m" for m
    by (simp_all add: wired_launch_def replacement_server_launch_request_def replacement_server_policy_def
        socket_mount_def wired_ssh_def)
  show ?thesis using launch_writable_mounts [OF p] p by (auto simp: rq)
qed

end
