(* ===== verification/HostProbeLaws.thy ===== *)
theory HostProbeLaws
  imports HostProbes PreflightLaws ImageLaws
begin

text \<open>
  Paths as component lists, and where a development environment is looked for.
\<close>

section \<open>Paths and their components\<close>

definition proper_component :: "component \<Rightarrow> bool" where
  "proper_component c \<longleftrightarrow> c = ParentDir
     \<or> (\<exists>s. c = Normal s \<and> s \<noteq> [] \<and> s \<noteq> ''.'' \<and> s \<noteq> ''..'' \<and> CHR ''/'' \<notin> set s)"

lemma proper_normal_components:
  "\<forall>s \<in> set ps. CHR ''/'' \<notin> set s \<Longrightarrow> list_all proper_component (normal_components ps)"
  by (auto simp: normal_components_def list_all_iff proper_component_def)

lemma absolute_components:
  assumes "is_absolute p"
  obtains cs where "components p = RootDir # cs" "list_all proper_component cs"
  using that assms split_on_pieces [of _ "CHR ''/''" p]
  by (simp add: components_def proper_normal_components)

lemma normal_components_proper: "proper_component c \<Longrightarrow> normal_components [component_str c] = [c]"
  by (auto simp: proper_component_def normal_components_def)

lemma proper_no_slash: "proper_component c \<Longrightarrow> CHR ''/'' \<notin> set (component_str c)"
  by (auto simp: proper_component_def)

lemma components_join_proper:
  assumes "is_absolute q" and "proper_component c"
  shows "components (path_join q (component_str c)) = components q @ [c]"
proof -
  let ?s = "component_str c"
  have s: "split_on CHR ''/'' ?s = [?s]" "\<not> is_absolute ?s" "q \<noteq> []"
    using assms(1) proper_no_slash [OF assms(2)] by (auto simp: split_on_no_sep is_absolute_Cons)
  show ?thesis
  proof (cases "ends_with q ''/''")
    case False
    then show ?thesis
      using s assms by (simp add: path_join_def components_append_slash normal_components_proper)
  next
    case True
    then obtain q' where q': "q = q' @ ''/''" by (auto simp: ends_with_iff)
    show ?thesis
    proof (cases "q' = []")
      case True
      have "normal_components ([] # [?s]) = [c]"
        using normal_components_proper [OF assms(2)] by (simp add: normal_components_def)
      then show ?thesis using q' s True
        by (simp add: path_join_def components_def is_absolute_Cons ends_with_iff) (simp add: normal_components_def)
    next
      case False
      then have abs': "is_absolute q'" using assms(1) q' by (cases q') (auto simp: is_absolute_Cons)
      then have "components q = components q'"
        using components_append_slash [OF abs', of "[]"] q' by (simp add: normal_components_def)
      moreover have "components (q' @ CHR ''/'' # ?s) = components q' @ [c]"
        using components_append_slash [OF abs', of ?s] s assms(2) by (simp add: normal_components_proper)
      ultimately show ?thesis using q' s True by (simp add: path_join_def)
    qed
  qed
qed

lemma components_foldl_join:
  "is_absolute q \<Longrightarrow> list_all proper_component cs \<Longrightarrow>
     is_absolute (foldl path_join q (map component_str cs))
     \<and> components (foldl path_join q (map component_str cs)) = components q @ cs"
  by (induction cs arbitrary: q) (simp_all add: components_join_proper is_absolute_path_join)

lemma components_path_of:
  assumes "list_all proper_component cs"
  shows "is_absolute (path_of (RootDir # cs)) \<and> components (path_of (RootDir # cs)) = RootDir # cs"
proof -
  have "is_absolute ''/''" "components ''/'' = [RootDir]"
    by (simp_all add: is_absolute_Cons components_def normal_components_def)
  then show ?thesis
    using components_foldl_join [of "''/''" cs] assms by (simp add: path_of_def path_join_def is_absolute_Cons)
qed

text \<open>Normalising an absolute path leaves no parent component.\<close>

lemma normalize_step_absolute:
  assumes "list_all proper_component cs" and "list_all proper_component acc" and "ParentDir \<notin> set acc"
  shows "\<exists>ds. foldl (normalize_step True) (RootDir # acc) cs = RootDir # ds \<and> list_all proper_component ds
    \<and> ParentDir \<notin> set ds"
  using assms
proof (induction cs arbitrary: acc)
  case (Cons c cs)
  show ?case
  proof (cases c)
    case ParentDir
    have "RootDir \<notin> set acc" using Cons.prems(2) by (auto simp: list_all_iff proper_component_def)
    then have "normalize_step True (RootDir # acc) c = RootDir # butlast acc"
      using ParentDir by (cases acc rule: rev_cases) auto
    moreover have "list_all proper_component (butlast acc)" "ParentDir \<notin> set (butlast acc)"
      using Cons.prems(2,3) by (auto simp: list_all_iff dest: in_set_butlastD)
    ultimately show ?thesis using Cons.IH [of "butlast acc"] Cons.prems(1) by simp
  next
    case (Normal s)
    then show ?thesis using Cons.IH [of "acc @ [Normal s]"] Cons.prems by simp
  qed (use Cons.prems in \<open>auto simp: proper_component_def\<close>)
qed simp

lemma normalize_absolute:
  assumes "is_absolute p"
  shows "is_absolute (normalize_path p) \<and> ParentDir \<notin> set (components (normalize_path p))"
proof -
  obtain cs where cs: "components p = RootDir # cs" "list_all proper_component cs"
    using absolute_components [OF assms] by blast
  obtain ds where "foldl (normalize_step True) [RootDir] cs = RootDir # ds" "list_all proper_component ds"
      "ParentDir \<notin> set ds"
    using normalize_step_absolute [OF cs(2), of "[]"] by auto
  then show ?thesis
    using components_path_of [of ds] assms cs(1) by (simp add: normalize_path_def Let_def)
qed

section \<open>Where a development environment is looked for\<close>

lemma ancestor_components:
  assumes "is_absolute p"
  shows "map components (path_ancestors p) = rev (map (\<lambda>n. take n (components p)) [1..<Suc (length (components p))])"
proof -
  obtain cs where cs: "components p = RootDir # cs" "list_all proper_component cs"
    using absolute_components [OF assms] by blast
  have "components (path_of (take n (components p))) = take n (components p)" if "1 \<le> n" for n
  proof -
    have "take n (components p) = RootDir # take (n - 1) cs" using cs(1) that by (cases n) simp_all
    moreover have "list_all proper_component (take (n - 1) cs)"
      using cs(2) by (auto simp: list_all_iff dest: in_set_takeD)
    ultimately show ?thesis using components_path_of by simp
  qed
  moreover have "1 \<le> length (components p)" using cs(1) by simp
  moreover from this have "[1..<Suc (length (components p))] = [1..<length (components p)] @ [length (components p)]"
    by simp
  ultimately show ?thesis using assms by (simp add: path_ancestors_def Let_def rev_map comp_def)
qed

lemma take_until_prefixes:
  assumes "map components xs = rev (map (\<lambda>n. take n cs) [1..<Suc m])" and "m \<le> length cs"
    and "1 \<le> r" "r \<le> m" and "components root = take r cs" and "d \<in> set (take_until (\<lambda>d. path_eq d root) xs)"
  shows "\<exists>n. r \<le> n \<and> n \<le> m \<and> components d = take n cs"
  using assms
proof (induction m arbitrary: xs)
  case (Suc m)
  then obtain x xs' where xs: "xs = x # xs'" "components x = take (Suc m) cs"
      "map components xs' = rev (map (\<lambda>n. take n cs) [1..<Suc m])"
    by (cases xs) auto
  show ?case
  proof (cases "d = x")
    case False
    then have d: "d \<in> set (take_until (\<lambda>d. path_eq d root) xs')" "\<not> path_eq x root"
      using Suc.prems(6) xs(1) by (auto split: if_splits)
    then have "r \<noteq> Suc m" using xs(2) Suc.prems(5) by (auto simp: path_eq_def)
    then show ?thesis using Suc.IH [OF xs(3)] Suc.prems d(1) le_SucI by (metis Suc_leD le_SucE)
  qed (use xs Suc.prems in blast)
qed simp

text \<open>Below a git root only the directories from the target up to that root are searched.\<close>

lemma ancestor_directories_between:
  assumes "is_absolute target" and "path_is_or_descendant target root" and "is_absolute root"
    and "d \<in> set (ancestor_directories target root)"
  shows "path_is_or_descendant d root \<and> path_is_or_descendant target d \<and> is_absolute d"
proof -
  let ?cs = "components target"
  obtain tl where tl: "?cs = components root @ tl" using assms(2) by (auto simp: path_is_or_descendant_iff)
  obtain rs where rs: "components root = RootDir # rs" using absolute_components [OF assms(3)] by blast
  have "\<exists>n. length (components root) \<le> n \<and> n \<le> length ?cs \<and> components d = take n ?cs"
    using assms(4) tl rs
    by (intro take_until_prefixes [OF ancestor_components [OF assms(1)]]) (auto simp: ancestor_directories_def)
  then obtain n where n: "length (components root) \<le> n" "components d = take n ?cs" by blast
  then have "components d = components root @ take (n - length (components root)) tl"
      "?cs = components d @ drop n ?cs" using tl by (simp_all add: take_append)
  moreover from this have "is_absolute d"
    using rs by (auto simp: components_def normal_components_def split: if_splits list.splits)
  ultimately show ?thesis unfolding path_is_or_descendant_iff by blast
qed

lemma nearest_file_Some:
  assumes "nearest_file is_file target root name = Some p"
  obtains d where "d \<in> set (ancestor_directories target root)" "p = path_join d name" "is_file p"
  using assms by (auto simp: nearest_file_def find_Some_iff) (metis nth_mem)

lemma nearest_file_None:
  "nearest_file is_file target root name = None \<longleftrightarrow>
     (\<forall>d\<in>set (ancestor_directories target root). \<not> is_file (path_join d name))"
  by (auto simp: nearest_file_def find_None_iff)

text \<open>The directory of a candidate is the directory that was searched.\<close>

lemma candidate_directory_join:
  assumes "is_absolute d" and "name \<noteq> []" "name \<noteq> ''.''" "name \<noteq> ''..''" "CHR ''/'' \<notin> set name"
  shows "path_eq (candidate_directory (path_join d name)) d"
proof -
  have "proper_component (Normal name)" using assms by (simp add: proper_component_def)
  from components_join_proper [OF assms(1) this]
  have c: "components (path_join d name) = components d @ [Normal name]" by simp
  obtain cs where "components d = RootDir # cs" "list_all proper_component cs"
    using absolute_components [OF assms(1)] by blast
  then have "components (path_of (components d)) = components d" using components_path_of by metis
  then show ?thesis
    by (simp add: candidate_directory_def utf8_path_parent_def c path_eq_def)
qed

lemma probe_attrs_Ok:
  "run_state (probe_attrs probe root attrs) w = (Ok env, w') \<Longrightarrow>
     env = NoDevEnv \<or> (\<exists>attr\<in>set attrs. env = NixDevelop root attr)"
  by (induction probe root attrs arbitrary: w rule: probe_attrs.induct)
    (fastforce simp: result_simps split: if_splits)+

text \<open>Where a directory lies, and whether it has a file.\<close>

definition searched :: "path \<Rightarrow> path \<Rightarrow> path \<Rightarrow> bool" where
  "searched target root d \<longleftrightarrow> path_is_or_descendant d root \<and> path_is_or_descendant target d"

definition candidate_at :: "(path \<Rightarrow> bool) \<Rightarrow> path \<Rightarrow> path \<Rightarrow> string \<Rightarrow> path \<Rightarrow> bool" where
  "candidate_at is_file target root name dir \<longleftrightarrow>
     (\<exists>d. path_eq dir d \<and> searched target root d \<and> is_file (path_join d name))"

lemma nearest_candidate:
  assumes "is_absolute target" "path_is_or_descendant target root" "is_absolute root"
    and "nearest_file is_file target root name = Some p" and "name \<in> {''.envrc'', ''devenv.nix'', ''flake.nix''}"
  shows "candidate_at is_file target root name (candidate_directory p)"
proof -
  obtain d where d: "d \<in> set (ancestor_directories target root)" "p = path_join d name" "is_file p"
    using nearest_file_Some [OF assms(4)] by blast
  note between = ancestor_directories_between [OF assms(1-3) d(1)]
  have "path_eq (candidate_directory p) d"
    unfolding d(2) by (rule candidate_directory_join) (use between assms(5) in auto)
  then show ?thesis using between d by (auto simp: candidate_at_def searched_def)
qed

text \<open>C38: below a git root a development environment comes from the target directory or one of its
  ancestors inside that root, whose file it has: \<open>direnv\<close> if there is an \<open>.envrc\<close>, else \<open>devenv\<close>, else the
  flake, with the shell named after the target directory or the default one.\<close>

theorem dev_env_inside_root:
  assumes "is_absolute target" and "path_is_or_descendant target root" and "is_absolute root"
    and "run_state (dev_environment_resolve json_text h is_file DevAuto target root) w = (Ok env, w')"
  shows "case env of
      Direnv \<Rightarrow> (\<exists>d. candidate_at is_file target root ''.envrc'' d)
    | Devenv d \<Rightarrow> candidate_at is_file target root ''devenv.nix'' d \<and> nearest_file is_file target root ''.envrc'' = None
    | NixDevelop d attr \<Rightarrow> candidate_at is_file target root ''flake.nix'' d
        \<and> nearest_file is_file target root ''.envrc'' = None \<and> nearest_file is_file target root ''devenv.nix'' = None
        \<and> (attr = ''default'' \<or> path_file_name_opt target = Some attr)
    | NoDevEnv \<Rightarrow> nearest_file is_file target root ''.envrc'' = None \<and> nearest_file is_file target root ''devenv.nix'' = None"
proof -
  note near = nearest_candidate [OF assms(1-3)]
  have run: "run_state (resolve_with_probe (nix_dev_shell_exists json_text h) (dev_env_detect is_file target root) target) w
      = (Ok env, w')"
    using assms(4) by (simp add: dev_environment_resolve_def)
  consider p where "nearest_file is_file target root ''.envrc'' = Some p" "env = Direnv"
    | p where "nearest_file is_file target root ''.envrc'' = None"
        "nearest_file is_file target root ''devenv.nix'' = Some p" "env = Devenv (candidate_directory p)"
    | "nearest_file is_file target root ''.envrc'' = None" "nearest_file is_file target root ''devenv.nix'' = None"
        "env = NoDevEnv"
    | p attr where "nearest_file is_file target root ''.envrc'' = None"
        "nearest_file is_file target root ''devenv.nix'' = None" "nearest_file is_file target root ''flake.nix'' = Some p"
        "env = NixDevelop (candidate_directory p) attr" "attr \<in> set (nix_develop_candidate_attrs target (candidate_directory p))"
    using run
    by (auto simp: resolve_with_probe_def dev_env_detect_def resolve_nix_develop_def dest!: probe_attrs_Ok
        split: option.splits if_splits)
  then show ?thesis
  proof cases
    case (4 p attr)
    then have "attr = ''default'' \<or> path_file_name_opt target = Some attr"
      by (auto simp: nix_develop_candidate_attrs_def split: if_splits option.splits)
    then show ?thesis using 4 near [OF 4(3)] by simp
  qed (use near in auto)
qed

text \<open>A flake at the root of \<open>/w\<close>, and a Nix that knows a shell called like the target directory.\<close>

definition flake_probe_host :: "unit host" where
  "flake_probe_host = (idle_host sample_build)\<lparr>run_process := (\<lambda>argv w.
     (Inr \<lparr>po_stdout = ''true'', po_stderr = [], po_status = Exited 0\<rparr>, w))\<rparr>"

definition only_flake :: "path \<Rightarrow> bool" where
  "only_flake p \<longleftrightarrow> p = ''/w/flake.nix''"

lemma flake_probe_run:
  "run_state (dev_environment_resolve (\<lambda>s. s) flake_probe_host only_flake DevAuto ''/w/a'' ''/w'') ()
     = (Ok (NixDevelop ''/w'' ''a''), ())"
proof -
  have c: "components ''/w'' = [RootDir, Normal ''w'']" "components ''/w/a'' = [RootDir, Normal ''w'', Normal ''a'']"
      "components ''/w/flake.nix'' = [RootDir, Normal ''w'', Normal ''flake.nix'']" "components ''/'' = [RootDir]"
    by (simp_all add: components_def normal_components_def is_absolute_def starts_with_def)
  have p: "path_of [RootDir, Normal ''w''] = ''/w''"
    by (simp add: path_of_def path_join_def is_absolute_def starts_with_def ends_with_def)
  have "path_ancestors ''/w/a'' = [''/w/a'', ''/w'', path_of [RootDir]]"
    by (simp add: path_ancestors_def c p upt_rec)
  then have anc: "ancestor_directories ''/w/a'' ''/w'' = [''/w/a'', ''/w'']"
    by (simp add: ancestor_directories_def path_eq_def c)
  have d: "dev_env_detect only_flake ''/w/a'' ''/w''
      = \<lparr>de_envrc = None, de_devenv_nix = None, de_flake_nix = Some ''/w/flake.nix''\<rparr>"
    by (simp add: dev_env_detect_def nearest_file_def anc only_flake_def path_join_def is_absolute_def starts_with_def ends_with_def)
  have f: "candidate_directory ''/w/flake.nix'' = ''/w''"
    by (simp add: candidate_directory_def utf8_path_parent_def c p)
  have a: "nix_develop_candidate_attrs ''/w/a'' ''/w'' = [''a'', ''default'']"
    by (simp add: nix_develop_candidate_attrs_def path_eq_def c path_file_name_opt_def)
  have t: "trim ''true'' = ''true''"
    by (simp add: trim_def trim_start_def trim_end_def Let_def byte_of_def trim_by.simps)
  show ?thesis
    by (simp add: dev_environment_resolve_def d resolve_with_probe_def f resolve_nix_develop_def a result_simps
        nix_dev_shell_exists_def capture_def flake_probe_host_def t Let_def ex_bool_eq)
qed

theorem dev_env_inside_root_witness: "candidate_at only_flake ''/w/a'' ''/w'' ''flake.nix'' ''/w''"
  using dev_env_inside_root [OF _ _ _ flake_probe_run]
  by (simp add: is_absolute_def starts_with_def path_is_or_descendant_iff components_def normal_components_def)

section \<open>Two edges\<close>

text \<open>A directory named like an interpolation of Nix reaches the evaluated expression unescaped: JSON
  quotes such a name unchanged, and in a quoted string Nix evaluates what stands between the braces.\<close>

lemma nix_name_interpolated:
  assumes "json_text attr = CHR 0x22 # attr @ [CHR 0x22]" and "attr = ''${'' @ code @ ''}''"
  shows "\<exists>pre post. nix_dev_shell_probe_expression json_text flake_root attr =
    pre @ CHR 0x22 # ''${'' @ code @ ''}'' @ CHR 0x22 # post"
proof (intro exI)
  let ?pre = "''let flake = builtins.getFlake '' @ json_text (path_flake_ref flake_root)
    @ ''; system = builtins.currentSystem; devShells = flake.devShells or {}; shells = devShells.${system} or {}; in if builtins.hasAttr ''"
  let ?post = "'' shells then '' @ CHR 0x22 # ''true'' @ CHR 0x22 # '' else '' @ CHR 0x22 # ''false'' @ [CHR 0x22]"
  have "json_text attr = CHR 0x22 # ''${'' @ code @ ''}'' @ [CHR 0x22]" using assms by simp
  then show "nix_dev_shell_probe_expression json_text flake_root attr
      = ?pre @ CHR 0x22 # ''${'' @ code @ ''}'' @ CHR 0x22 # ?post"
    unfolding nix_dev_shell_probe_expression_def by simp
qed

text \<open>The root that Git prints loses white space that belongs to the name of its directory.\<close>

lemma git_root_loses_blank:
  "toplevel_of_output d \<lparr>po_stdout = ''/w '' @ [CHR 0x0A], po_stderr = [], po_status = Exited 0\<rparr> = Inr ''/w''"
  by (simp add: toplevel_of_output_def trim_def trim_start_def trim_end_def Let_def byte_of_def trim_by.simps)

end
