(* ===== verification/Completion.thy ===== *)
theory Completion
  imports Prompts Views HostProbes
begin

text \<open>
  Shell completion: \<open>src/commands/completion\<close>. The templates of the scripts are files and the commands'
  descriptions are given by \<open>src/cli.rs\<close>; what is filled in, how it is quoted, and what is offered for a
  target are translated. Manual pages are written by a library.
\<close>

section \<open>\<open>mod.rs\<close>\<close>

datatype completion_shell = Bash | Zsh | Fish

fun completion_shell_str :: "completion_shell \<Rightarrow> string" where
  "completion_shell_str Bash = ''bash''"
| "completion_shell_str Zsh = ''zsh''"
| "completion_shell_str Fish = ''fish''"

definition completion_shell_values :: "string list" where
  "completion_shell_values = map completion_shell_str [Bash, Zsh, Fish]"

datatype completion_root_command = RootConnect | RootHealth | RootRestart | RootStop

definition dev_env_values :: "string list" where
  "dev_env_values = map dev_env_mode_str [DevAuto, DevNone]"

definition output_values :: "string list" where
  "output_values = map output_format_str [TableFormat, JsonFormat]"

section \<open>\<open>live_roots.rs\<close>\<close>

fun completion_target_surface :: "completion_root_command \<Rightarrow> session_target_surface" where
  "completion_target_surface RootConnect = SurfaceConnect"
| "completion_target_surface RootHealth = SurfaceHealth"
| "completion_target_surface RootRestart = SurfaceRestart"
| "completion_target_surface RootStop = SurfaceStop"

definition live_roots :: "'w host \<Rightarrow> completion_root_command \<Rightarrow> ('w, session_record list res) io" where
  "live_roots h c =
     (let surface = completion_target_surface c
      in map_io (map_ok (target_sessions surface)) (surface_discover h surface))"

definition live_roots_output :: "'w host \<Rightarrow> completion_root_command \<Rightarrow> ('w, string res) io" where
  "live_roots_output h c =
     map_io (map_ok (\<lambda>sessions. join [CHR 0x0A] (completion_lines (completion_target_surface c) sessions)))
       (live_roots h c)"

section \<open>\<open>scripts.rs\<close>\<close>

text \<open>\<open>str::replace\<close> of a non-empty pattern: its occurrences from left to right, none overlapping.\<close>

function replace_all :: "string \<Rightarrow> string \<Rightarrow> string \<Rightarrow> string" where
  "replace_all pat rep s =
     (case s of
        [] \<Rightarrow> []
      | c # cs \<Rightarrow>
          if pat \<noteq> [] \<and> starts_with s pat then rep @ replace_all pat rep (drop (length pat) s)
          else c # replace_all pat rep cs)"
  by pat_completeness auto
termination
  by (relation "measure (\<lambda>(pat, rep, s). length s)") auto

declare replace_all.simps [simp del]

record completion_subcommand =
  cs_name :: string
  cs_description :: string

text \<open>The commands that are not hidden, with the first line of their help.\<close>

definition installed_subcommands :: "completion_subcommand list" where
  "installed_subcommands = map (\<lambda>(n, d). \<lparr>cs_name = n, cs_description = d\<rparr>)
     [(''run'', ''Run a transient runtime server and host client''),
      (''exec'', ''Run Codex exec in a foreground container''),
      (''start'', ''Start a managed session as a detached runtime server''),
      (''restart'', ''Restart a running managed session''),
      (''runtime'', ''Manage default runtime images''),
      (''connect'', ''Connect to a running managed session''),
      (''ps'', ''Show agentbox container status''),
      (''health'', ''Check running managed session runtime health''),
      (''stop'', ''Stop a managed session''),
      (''clean'', ''Remove unused agentbox-owned Podman resources''),
      (''completion'', ''Shell completion helpers'')]"

definition completion_subcommand_description :: "completion_subcommand \<Rightarrow> string" where
  "completion_subcommand_description c =
     (if cs_name c = ''run'' then ''Run a transient runtime server and host client''
      else if cs_name c = ''exec'' then ''Run Codex exec in a foreground container''
      else if cs_name c = ''start'' then ''Start a detached runtime server session''
      else if cs_name c = ''restart'' then ''Restart a running managed session''
      else if cs_name c = ''completion'' then ''Generate shell completion''
      else cs_description c)"

definition completion_subcommands :: "completion_subcommand list" where
  "completion_subcommands =
     map (\<lambda>c. \<lparr>cs_name = cs_name c, cs_description = completion_subcommand_description c\<rparr>) installed_subcommands
     @ [\<lparr>cs_name = ''help'', cs_description = ''Show help''\<rparr>]"

definition completion_subcommand_names :: "completion_subcommand list \<Rightarrow> string" where
  "completion_subcommand_names cs = join '' '' (map cs_name cs)"

definition quote_mark :: char where
  "quote_mark = CHR 0x27"

definition zsh_single_quoted :: "string \<Rightarrow> string" where
  "zsh_single_quoted v = quote_mark # concat (map (\<lambda>c. if c = quote_mark
     then [quote_mark, CHR 0x5C, quote_mark, quote_mark] else [c]) v) @ [quote_mark]"

definition zsh_subcommand_specs :: "completion_subcommand list \<Rightarrow> string" where
  "zsh_subcommand_specs cs = join [CHR 0x0A]
     (map (\<lambda>c. ''    '' @ zsh_single_quoted (format [cs_name c, '':'', cs_description c])) cs)"

definition render_template :: "string \<Rightarrow> string" where
  "render_template template =
     (let cs = completion_subcommands in
      replace_all ''@ZSH_SUBCOMMAND_SPECS@'' (zsh_subcommand_specs cs)
       (replace_all ''@SUBCOMMAND_NAMES@'' (completion_subcommand_names cs)
       (replace_all ''@SHELL_VALUES@'' (join '' '' completion_shell_values)
       (replace_all ''@OUTPUT_VALUES@'' (join '' '' output_values)
       (replace_all ''@DEV_ENV_VALUES@'' (join '' '' dev_env_values)
       (replace_all ''@RUNTIME_VALUES@'' (join '' '' (map runtime_str runtime_variants)) template))))))"

definition render_script :: "(completion_shell \<Rightarrow> string) \<Rightarrow> completion_shell \<Rightarrow> string" where
  "render_script templates shell = render_template (templates shell)"

section \<open>What a shell reads\<close>

text \<open>A word as a POSIX shell and zsh read it: within single quotes everything stands for itself, outside
  of them a backslash quotes the next character.\<close>

fun shell_word :: "bool \<Rightarrow> string \<Rightarrow> string option" where
  "shell_word quoted [] = (if quoted then None else Some [])"
| "shell_word True (c # cs) = (if c = quote_mark then shell_word False cs else map_option ((#) c) (shell_word True cs))"
| "shell_word False (c # cs) =
     (if c = quote_mark then shell_word True cs
      else if c = CHR 0x5C then (case cs of [] \<Rightarrow> None | d # ds \<Rightarrow> map_option ((#) d) (shell_word False ds))
      else map_option ((#) c) (shell_word False cs))"

lemma shell_word_quoted: "shell_word False (zsh_single_quoted v) = Some v"
proof -
  have "shell_word True (concat (map (\<lambda>c. if c = quote_mark
      then [quote_mark, CHR 0x5C, quote_mark, quote_mark] else [c]) v) @ [quote_mark]) = Some v"
    by (induction v) (auto simp: quote_mark_def)
  then show ?thesis by (simp add: zsh_single_quoted_def)
qed

text \<open>Rust writes the quoting as a replacement of the one character.\<close>

lemma replace_all_char: "replace_all [c] rep s = concat (map (\<lambda>d. if d = c then rep else [d]) s)"
  by (induction s) (subst replace_all.simps, simp add: starts_with_def)+

lemma replace_all_absent: "(\<And>p q. s \<noteq> p @ pat @ q) \<Longrightarrow> pat \<noteq> [] \<Longrightarrow> replace_all pat rep s = s"
proof (induction s)
  case (Cons c cs)
  have "\<not> starts_with (c # cs) pat" using Cons.prems(1) [of "[]"] by (auto simp: starts_with_iff)
  moreover have "replace_all pat rep cs = cs"
    by (rule Cons.IH) (use Cons.prems in \<open>metis append_Cons\<close>, rule Cons.prems(2))
  ultimately show ?case by (subst replace_all.simps) simp
qed (simp add: replace_all.simps)

section \<open>What is offered is accepted\<close>

text \<open>The stable ids of sessions whose labels hold a hash have one length, so that no id is a proper prefix of
  another: an id that is offered as a target selects exactly the sessions that carry it.\<close>

definition proper_ids :: "session_record list \<Rightarrow> bool" where
  "proper_ids sessions \<longleftrightarrow>
     (\<forall>s \<in> set sessions. \<forall>i. stable_id s = Some i \<longrightarrow> length i = GIT_ROOT_HASH_LEN \<and> list_all is_lower_hex i)"

lemma lower_hex_lowercase: "list_all is_lower_hex s \<Longrightarrow> to_ascii_lowercase s = s"
  by (induction s)
    (auto simp: to_ascii_lowercase_def ascii_lower_def is_lower_hex_def is_ascii_digit_def is_ascii_upper_def byte_of_def)

lemma id_matches_whole:
  assumes "proper_ids sessions" and "s \<in> set sessions" and "length i = GIT_ROOT_HASH_LEN" and "list_all is_lower_hex i"
  shows "id_matches i s \<longleftrightarrow> stable_id s = Some i"
proof (cases "stable_id s")
  case (Some j)
  then have j: "length j = GIT_ROOT_HASH_LEN" "to_ascii_lowercase j = j"
    using assms(1,2) lower_hex_lowercase by (auto simp: proper_ids_def)
  have "starts_with j i \<longleftrightarrow> j = i" using j(1) assms(3) by (auto simp: starts_with_iff)
  then show ?thesis using Some j(2) lower_hex_lowercase [OF assms(4)] by (simp add: id_matches_def)
qed (simp add: id_matches_def)

lemma completion_selects:
  assumes "proper_ids sessions" and "k \<noteq> ConnectRoot" and "c \<in> set (target_candidates k sessions)"
  shows "select_stable_id_prefix_with_noun sessions (tc_value c) noun
    = Ok \<lparr>sel_id = tc_value c, sel_sessions = filter (\<lambda>s. stable_id s = Some (tc_value c)) sessions\<rparr>"
proof -
  obtain s where s: "s \<in> set sessions" "candidate_value k s = Some (tc_value c)"
    using assms(3) by (fastforce simp: target_candidates_def target_candidate_def set_filter_map)
  then have i: "stable_id s = Some (tc_value c)" using assms(2) by (cases k) (auto split: if_splits)
  then have hex: "length (tc_value c) = GIT_ROOT_HASH_LEN" "list_all is_lower_hex (tc_value c)"
    using assms(1) s(1) by (auto simp: proper_ids_def)
  have "filter (id_matches (tc_value c)) sessions = filter (\<lambda>s. stable_id s = Some (tc_value c)) sessions"
    using id_matches_whole [OF assms(1) _ hex] by (intro filter_cong) auto
  moreover have "tc_value c \<noteq> []" using hex(1) by (auto simp: GIT_ROOT_HASH_LEN_def)
  moreover have "filter (\<lambda>s. stable_id s = Some (tc_value c)) sessions \<noteq> []"
    using s(1) i by (auto simp: filter_empty_conv)
  ultimately show ?thesis
    unfolding select_Ok_iff using id_matches_whole [OF assms(1) _ hex] by (auto simp: filter_empty_conv)
qed

end
