(* ===== verification/Diagnostics.thy ===== *)
theory Diagnostics
  imports HostProbes
begin

text \<open>
  What the program says on standard error: \<open>src/diagnostic.rs\<close> and \<open>src/progress.rs\<close>. The clock, the local
  time zone and the terminal are parameters; a text is what is written.
\<close>

section \<open>\<open>diagnostic.rs\<close>\<close>

definition ansi :: "string \<Rightarrow> string" where
  "ansi code = CHR 0x1B # CHR ''['' # code @ ''m''"

definition ANSI_RESET :: string where
  "ANSI_RESET = ansi ''0''"

definition ANSI_BRIGHT_BLACK :: string where
  "ANSI_BRIGHT_BLACK = ansi ''90''"

definition ANSI_BOLD_BRIGHT_CYAN :: string where
  "ANSI_BOLD_BRIGHT_CYAN = ansi ''1;96''"

datatype severity = SevError | SevWarning | SevInfo | SevDebug

fun severity_label :: "severity \<Rightarrow> string" where
  "severity_label SevError = ''ERR''"
| "severity_label SevWarning = ''WARNING''"
| "severity_label SevInfo = ''INFO''"
| "severity_label SevDebug = ''DEBUG''"

fun severity_ansi :: "severity \<Rightarrow> string" where
  "severity_ansi SevError = ansi ''31''"
| "severity_ansi SevWarning = ansi ''33''"
| "severity_ansi SevInfo = ansi ''34''"
| "severity_ansi SevDebug = ANSI_BRIGHT_BLACK"

definition bold_bright_cyan :: "string \<Rightarrow> bool \<Rightarrow> string" where
  "bold_bright_cyan text color = (if color then ANSI_BOLD_BRIGHT_CYAN @ text @ ANSI_RESET else text)"

text \<open>The timestamp as it is rendered; \<open>None\<close> when rendering it fails.\<close>

definition render_line :: "string option \<Rightarrow> severity \<Rightarrow> string \<Rightarrow> bool \<Rightarrow> string" where
  "render_line stamp sev message color =
     (let t = unwrap_or stamp ''0000-00-00T00:00:00+00:00'' in
      if color
      then format [ANSI_BRIGHT_BLACK, ''['', t, '']'', ANSI_RESET, '' '', severity_ansi sev, severity_label sev,
        ANSI_RESET, '': '', message]
      else format [''['', t, ''] '', severity_label sev, '': '', message])"

definition emit_with :: "string option \<Rightarrow> severity \<Rightarrow> string \<Rightarrow> bool \<Rightarrow> string" where
  "emit_with stamp sev message color =
     (if message = [] then render_line stamp sev [] color @ [CHR 0x0A]
      else concat (map (\<lambda>l. render_line stamp sev l color @ [CHR 0x0A]) (str_lines message)))"

text \<open>Standard error: whether it is a terminal, and the variables \<open>NO_COLOR\<close> and \<open>TERM\<close>.\<close>

record stderr_env =
  se_terminal :: bool
  se_no_color :: bool
  se_term :: "string option"
  se_timestamp :: "string option"

definition stderr_supports_color :: "stderr_env \<Rightarrow> bool" where
  "stderr_supports_color e \<longleftrightarrow> se_terminal e \<and> \<not> se_no_color e"

definition emit :: "stderr_env \<Rightarrow> severity \<Rightarrow> string \<Rightarrow> string" where
  "emit e sev message = emit_with (se_timestamp e) sev message (stderr_supports_color e)"

definition emit_rendered :: "stderr_env \<Rightarrow> severity \<Rightarrow> (bool \<Rightarrow> string) \<Rightarrow> string" where
  "emit_rendered e sev render =
     (let color = stderr_supports_color e in emit_with (se_timestamp e) sev (render color) color)"

text \<open>Events of the \<open>tracing\<close> library: a level and fields with their values as text.\<close>

datatype tracing_level = LevelError | LevelWarn | LevelInfo | LevelDebug | LevelTrace

fun severity_from_tracing_level :: "tracing_level \<Rightarrow> severity" where
  "severity_from_tracing_level LevelError = SevError"
| "severity_from_tracing_level LevelWarn = SevWarning"
| "severity_from_tracing_level LevelInfo = SevInfo"
| "severity_from_tracing_level _ = SevDebug"

definition record_value :: "string \<times> string \<Rightarrow> string option \<times> string list \<Rightarrow> string option \<times> string list" where
  "record_value fv v =
     (case (fv, v) of ((name, text), (message, flds)) \<Rightarrow>
        if name = ''message'' then (Some text, flds) else (message, flds @ [format [name, ''='', text]]))"

definition finish_visitor :: "string option \<times> string list \<Rightarrow> string" where
  "finish_visitor v =
     (case v of
        (Some message, []) \<Rightarrow> message
      | (Some message, flds) \<Rightarrow> format [message, '' '', join '' '' flds]
      | (None, flds) \<Rightarrow> join '' '' flds)"

definition on_event :: "stderr_env \<Rightarrow> tracing_level \<Rightarrow> (string \<times> string) list \<Rightarrow> string" where
  "on_event e level flds =
     emit e (severity_from_tracing_level level) (finish_visitor (fold record_value flds (None, [])))"

text \<open>\<open>init_tracing\<close> installs the layer for the levels up to \<open>INFO\<close>.\<close>

definition traced :: "stderr_env \<Rightarrow> tracing_level \<Rightarrow> (string \<times> string) list \<Rightarrow> string" where
  "traced e level flds = (if level \<in> {LevelError, LevelWarn, LevelInfo} then on_event e level flds else [])"

section \<open>\<open>progress.rs\<close>\<close>

text \<open>What a task does to standard error: messages, and a spinner that is shown, relabelled and cleared.\<close>

datatype progress_event =
    ProgressInfo string
  | SpinnerShown string string
  | SpinnerMessage string
  | SpinnerCleared

definition stderr_supports_progress :: "stderr_env \<Rightarrow> bool" where
  "stderr_supports_progress e \<longleftrightarrow> se_terminal e \<and> (case se_term e of None \<Rightarrow> True | Some t \<Rightarrow> t \<noteq> ''dumb'')"

definition progress_style :: "stderr_env \<Rightarrow> string" where
  "progress_style e = (if se_no_color e then ''{spinner} [{elapsed_precise}] {msg}''
     else ''{spinner:.cyan} [{elapsed_precise}] {msg}'')"

text \<open>A task is whether it has a spinner.\<close>

definition progress_start :: "stderr_env \<Rightarrow> string \<Rightarrow> bool \<Rightarrow> bool \<times> progress_event list" where
  "progress_start e message verbose =
     (if verbose \<or> \<not> stderr_supports_progress e then (False, [ProgressInfo message])
      else (True, [SpinnerShown (progress_style e) message]))"

definition set_stage :: "string \<Rightarrow> bool \<Rightarrow> bool \<times> progress_event list" where
  "set_stage message spinner = (spinner, [if spinner then SpinnerMessage message else ProgressInfo message])"

definition progress_clear :: "bool \<Rightarrow> bool \<times> progress_event list" where
  "progress_clear spinner = (False, if spinner then [SpinnerCleared] else [])"

text \<open>A task from its start to its end: the stages it goes through, at some of which it is cleared, and the
  drop of the task.\<close>

fun progress_steps :: "string option list \<Rightarrow> bool \<Rightarrow> progress_event list" where
  "progress_steps [] spinner = snd (progress_clear spinner)"
| "progress_steps (Some message # steps) spinner =
     (case set_stage message spinner of (s, es) \<Rightarrow> es @ progress_steps steps s)"
| "progress_steps (None # steps) spinner =
     (case progress_clear spinner of (s, es) \<Rightarrow> es @ progress_steps steps s)"

definition progress_task :: "stderr_env \<Rightarrow> string \<Rightarrow> bool \<Rightarrow> string option list \<Rightarrow> progress_event list" where
  "progress_task e message verbose steps =
     (case progress_start e message verbose of (s, es) \<Rightarrow> es @ progress_steps steps s)"

section \<open>Laws\<close>

lemma str_lines_clean:
  assumes "l \<in> set (str_lines s)"
  shows "CHR 0x0A \<notin> set l"
proof -
  let ?ls = "split_on CHR 0x0A s"
  have pieces: "CHR 0x0A \<notin> set p" if "p \<in> set ?ls" for p using that split_on_pieces by blast
  consider p where "p \<in> set (butlast ?ls)" "l = strip_cr p" | "l = last ?ls"
    using assms by (auto simp: str_lines_def Let_def split: if_splits)
  then show ?thesis
  proof cases
    case 1
    then have "CHR 0x0A \<notin> set p" using pieces in_set_butlastD by metis
    moreover have "set (strip_cr p) \<subseteq> set p" by (auto simp: strip_cr_def dest: in_set_butlastD)
    ultimately show ?thesis using 1(2) by blast
  qed (use pieces in simp)
qed

lemma str_lines_nonempty: "s \<noteq> [] \<Longrightarrow> str_lines s \<noteq> []"
proof -
  assume s: "s \<noteq> []"
  have "last (split_on CHR 0x0A s) \<noteq> []" if "butlast (split_on CHR 0x0A s) = []"
  proof -
    have "split_on CHR 0x0A s = [last (split_on CHR 0x0A s)]"
      using that append_butlast_last_id [OF split_on_nonempty, of "CHR 0x0A" s] by simp
    then show ?thesis using s by (cases s) (auto split: if_splits list.splits)
  qed
  then show ?thesis by (auto simp: str_lines_def Let_def)
qed

lemma split_terminated:
  "\<forall>l \<in> set ls. c \<notin> set l \<Longrightarrow> split_on c (concat (map (\<lambda>l. l @ [c]) ls)) = ls @ [[]]"
  by (induction ls) (simp_all add: split_on_append)

definition timestamp_line :: "string option \<Rightarrow> bool" where
  "timestamp_line t \<longleftrightarrow> (\<forall>s \<in> set_option t. CHR 0x0A \<notin> set s)"

lemma render_line_clean:
  "timestamp_line t \<Longrightarrow> CHR 0x0A \<notin> set l \<Longrightarrow> CHR 0x0A \<notin> set (render_line t sev l color)"
  by (cases t; cases sev)
    (auto simp: render_line_def timestamp_line_def ansi_def ANSI_BRIGHT_BLACK_def ANSI_RESET_def Let_def)

text \<open>A message is one line of output for each of its lines, and every line of output bears the time and the
  severity: no message can pass for another.\<close>

lemma emitted_lines:
  assumes "timestamp_line t"
  shows "split_on CHR 0x0A (emit_with t sev message color)
    = map (\<lambda>l. render_line t sev l color) (if message = [] then [[]] else str_lines message) @ [[]]"
proof -
  let ?ls = "if message = [] then [[]] else str_lines message"
  have "\<forall>l \<in> set (map (\<lambda>l. render_line t sev l color) ?ls). CHR 0x0A \<notin> set l"
    using render_line_clean [OF assms] str_lines_clean by (auto split: if_splits)
  from split_terminated [OF this] show ?thesis by (cases "message = []") (simp_all add: emit_with_def o_def)
qed

text \<open>A spinner that is shown is cleared exactly once, whatever happens in between, and nothing is said
  through it after that.\<close>

lemma progress_steps_cleared:
  "filter (\<lambda>e. e = SpinnerCleared) (progress_steps steps spinner) = (if spinner then [SpinnerCleared] else [])"
  by (induction steps spinner rule: progress_steps.induct) (auto simp: progress_clear_def set_stage_def)

lemma progress_cleared_once:
  "filter (\<lambda>e. e = SpinnerCleared) (progress_task e message verbose steps)
    = (if verbose \<or> \<not> stderr_supports_progress e then [] else [SpinnerCleared])"
  by (simp add: progress_task_def progress_start_def progress_steps_cleared)

lemma progress_silent_spinner: "SpinnerMessage m \<notin> set (progress_steps steps False)"
proof (induction steps)
  case (Cons step steps)
  then show ?case by (cases step) (auto simp: set_stage_def progress_clear_def)
qed (simp add: progress_clear_def)

end
