(* ===== verification/Program.thy ===== *)
theory Program
  imports Completion Diagnostics RestartFlow StopFlow Clean TokenStore
begin

text \<open>
  The whole program: \<open>src/lib.rs\<close>, \<open>src/commands/mod.rs\<close>, the commands of \<open>src/cli.rs\<close> and the choice of a runtime
  in \<open>src/commands/launch_policy.rs\<close>. Parsing of the arguments is \<open>clap\<close>'s and a parameter.
\<close>

section \<open>\<open>cli.rs\<close>\<close>

datatype cli_command =
    RunCommand "runtime_kind option" launch_args
  | ExecCommand dev_env_mode path "string list"
  | StartCommand "runtime_kind option" launch_args bool
  | RestartCommand "path option" dev_env_mode bool resource_limits
  | RuntimeUpdateCommand "runtime_kind option"
  | ConnectCommand "path option" "string list"
  | PsCommand output_format
  | HealthCommand output_format "string option"
  | StopCommand stop_args
  | CleanCommand clean_args
  | CompletionCommand completion_shell
  | CompletionRootsCommand completion_root_command
  | GenerateCompletionCommand completion_shell
  | GenerateManCommand
  | GenerateManpagesCommand path

section \<open>\<open>launch_policy.rs\<close>\<close>

definition runtime_prompt_options :: "runtime_kind list" where
  "runtime_prompt_options = sort_key runtime_str runtime_variants"

definition select_runtime :: "'w prompter \<Rightarrow> runtime_kind option \<Rightarrow> string \<Rightarrow> ('w, runtime_kind res) io" where
  "select_runtime p runtime non_tty =
     (case runtime of
        Some k \<Rightarrow> pure (Ok k)
      | None \<Rightarrow> map_io (\<lambda>r. and_then r (\<lambda>c. parse_runtime_kind (ch_value c)))
          (select_one p ''Select runtime''
            (map (\<lambda>k. \<lparr>ch_label = runtime_str k, ch_value = runtime_str k\<rparr>) runtime_prompt_options) non_tty))"

definition RUN_NON_TTY_ERROR :: string where
  "RUN_NON_TTY_ERROR = ''agentbox run requires --runtime when stdin or stderr is not a TTY''"

definition START_NON_TTY_ERROR :: string where
  "START_NON_TTY_ERROR = ''agentbox start requires --runtime when stdin or stderr is not a TTY''"

section \<open>\<open>commands/mod.rs\<close>\<close>

text \<open>All a command may use: the host and its views, the prompts, the store of image states, the terminal,
  the templates of the completion scripts, and the library that writes manual pages.\<close>

record ('c, 'w) program =
  pg_host :: "'w host"
  pg_prompter :: "'w prompter"
  pg_view :: "'w view_host"
  pg_clean :: "('c, 'w) clean_host"
  pg_image :: "'w image_host"
  pg_home :: "path option"
  pg_store :: "('c, 'w) image_state_store"
  pg_use_tty :: "'w \<Rightarrow> bool \<times> 'w"
  pg_print :: "string \<Rightarrow> 'w \<Rightarrow> unit \<times> 'w"
  pg_templates :: "completion_shell \<Rightarrow> string"
  pg_manpage :: "'w \<Rightarrow> unit res \<times> 'w"
  pg_manpages :: "path \<Rightarrow> 'w \<Rightarrow> unit res \<times> 'w"

definition print_text :: "('c, 'w) program \<Rightarrow> string \<Rightarrow> ('w, unit res) io" where
  "print_text pg text = map_io Inr (State (pg_print pg text))"

definition run_selected :: "nat \<Rightarrow> ('c, 'w) program \<Rightarrow> runtime_kind option \<Rightarrow> launch_args \<Rightarrow> ('w, unit) loop" where
  "run_selected fuel pg runtime args =
     attempt_loop (once (select_runtime (pg_prompter pg) runtime RUN_NON_TTY_ERROR)) (\<lambda>k. run_run fuel (pg_host pg) k args)"

definition start_selected ::
  "nat \<Rightarrow> ('c, 'w) program \<Rightarrow> runtime_kind option \<Rightarrow> launch_args \<Rightarrow> bool \<Rightarrow> ('w, unit) loop" where
  "start_selected fuel pg runtime args connect_after =
     attempt_loop (once (select_runtime (pg_prompter pg) runtime START_NON_TTY_ERROR)) (\<lambda>k.
       start_run fuel (pg_host pg) k args connect_after)"

definition exec_command :: "('c, 'w) program \<Rightarrow> dev_env_mode \<Rightarrow> path \<Rightarrow> string list \<Rightarrow> ('w, unit res) io" where
  "exec_command pg mode directory codex_args = do {
     tty \<leftarrow> State (pg_use_tty pg);
     exec_run (pg_host pg) mode directory codex_args tty }"

definition dispatch :: "nat \<Rightarrow> ('c, 'w) program \<Rightarrow> cli_command \<Rightarrow> ('w, unit) loop" where
  "dispatch fuel pg command =
     (case command of
        RunCommand runtime args \<Rightarrow> run_selected fuel pg runtime args
      | ExecCommand mode directory codex_args \<Rightarrow> once (exec_command pg mode directory codex_args)
      | StartCommand runtime args connect_after \<Rightarrow> start_selected fuel pg runtime args connect_after
      | RestartCommand tgt mode connect_after overrides \<Rightarrow>
          restart_run fuel (pg_host pg) (pg_prompter pg) tgt mode connect_after overrides
      | RuntimeUpdateCommand tgt \<Rightarrow> once (runtime_update (pg_host pg) (pg_image pg) (pg_home pg) (pg_store pg) tgt)
      | ConnectCommand directory agent_args \<Rightarrow> once (connect_run (pg_host pg) (pg_prompter pg) directory agent_args)
      | PsCommand output \<Rightarrow> once (ps_run (pg_view pg) output)
      | HealthCommand output tgt \<Rightarrow> once (health_run (pg_view pg) output tgt)
      | StopCommand args \<Rightarrow> once (stop_run (pg_host pg) (pg_prompter pg) args)
      | CleanCommand args \<Rightarrow> once (clean_run (pg_clean pg) args)
      | CompletionCommand shell \<Rightarrow> once (print_text pg (render_script (pg_templates pg) shell))
      | CompletionRootsCommand c \<Rightarrow> once (attempt (live_roots_output (pg_host pg) c) (print_text pg))
      | GenerateCompletionCommand shell \<Rightarrow> once (print_text pg (render_script (pg_templates pg) shell))
      | GenerateManCommand \<Rightarrow> once (State (pg_manpage pg))
      | GenerateManpagesCommand dir \<Rightarrow> once (State (pg_manpages pg dir)))"

section \<open>\<open>lib.rs\<close>\<close>

record 'w process_env =
  pe_parse :: "string list \<Rightarrow> error + bool \<times> cli_command"
  pe_cli_exit :: "string \<Rightarrow> 'w \<Rightarrow> u8 \<times> 'w"
  pe_stderr_env :: "'w \<Rightarrow> stderr_env \<times> 'w"
  pe_stderr :: "string \<Rightarrow> 'w \<Rightarrow> unit \<times> 'w"

definition report_error :: "'w process_env \<Rightarrow> string \<Rightarrow> ('w, unit) io" where
  "report_error e message = do {
     env \<leftarrow> State (pe_stderr_env e);
     State (pe_stderr e (emit env SevError message)) }"

definition exit_with :: "'w process_env \<Rightarrow> unit res \<Rightarrow> ('w, u8) io" where
  "exit_with e r =
     (case r of
        Inr _ \<Rightarrow> pure 0
      | Inl (Cli m) \<Rightarrow> State (pe_cli_exit e m)
      | Inl (ExitCode c) \<Rightarrow> pure c
      | Inl (ExitCodeWithMessage c m) \<Rightarrow> do { _ \<leftarrow> report_error e m; pure c }
      | Inl err \<Rightarrow> do { _ \<leftarrow> report_error e (error_text err); pure 1 })"

text \<open>The program that a command line runs with may depend on its \<open>--verbose\<close>. \<open>None\<close> is a run that does not
  end within the fuel.\<close>

definition program_run ::
  "nat \<Rightarrow> 'w process_env \<Rightarrow> (bool \<Rightarrow> ('c, 'w) program) \<Rightarrow> string list \<Rightarrow> ('w, unit) loop" where
  "program_run fuel e pg argv =
     (case pe_parse e argv of
        Inl err \<Rightarrow> pure (Some (Err err))
      | Inr (verbose, command) \<Rightarrow> dispatch fuel (pg verbose) command)"

definition program_main ::
  "nat \<Rightarrow> 'w process_env \<Rightarrow> (bool \<Rightarrow> ('c, 'w) program) \<Rightarrow> string list \<Rightarrow> ('w, u8 option) io" where
  "program_main fuel e pg argv = do {
     r \<leftarrow> program_run fuel e pg argv;
     case r of None \<Rightarrow> pure None | Some r \<Rightarrow> map_io Some (exit_with e r) }"

end
