(* ===== verification/ProgramLaws.thy ===== *)
theory ProgramLaws
  imports Program StartRunLaws RestartLaws
begin

text \<open>What the exit status of the program says.\<close>

section \<open>The foreground container of \<open>agentbox exec\<close>\<close>

text \<open>The result of an operation that runs one container in the foreground, and does nothing but look before it,
  is that of the container.\<close>

lemma foreground_decides:
  assumes "run_state (attempt prepare (\<lambda>prep. attempt (run_foreground (logged h) name (sp prep) tty) (\<lambda>st. pure (f st)))) s = (r, s')"
    and "only (\<lambda>e. \<not> runs e) prepare"
    and "snd s' = snd s @ es" "Ran argv (Some (Exited c)) \<in> set es" "runs (Ran argv (Some (Exited c)))"
  shows "r = f (Exited c)"
proof -
  obtain p s1 where p: "run_state prepare s = (p, s1)" by (metis surj_pair)
  obtain pre where pre: "snd s1 = snd s @ pre" "list_all (\<lambda>e. \<not> runs e) pre" using onlyD [OF assms(2) p] by blast
  have not_pre: "Ran argv (Some (Exited c)) \<notin> set pre" using pre(2) assms(5) by (auto simp: list_all_iff)
  show ?thesis
  proof (cases p)
    case (Inl e)
    then have "es = pre" using assms(1,3) p pre(1) by (simp add: run_attempt)
    then show ?thesis using assms(4) not_pre by blast
  next
    case (Inr prep)
    let ?argv = "podman_argv (run_foreground_args name (sp prep) (primary_gid h) tty)"
    obtain st w2 where st: "run_inherited h ?argv (fst s1) = (st, w2)" by force
    have gid: "primary_gid (logged h) = primary_gid h" by (simp add: logged_def)
    have run: "run_state (run_foreground (logged h) name (sp prep) tty) s1
        = ((case st of Inl fl \<Rightarrow> Err (spawn_error (debug_quote (logged h)) ?argv fl) | Inr x \<Rightarrow> Ok x), (w2, snd s1 @ [Ran ?argv (ok_of st)]))"
      using st by (simp add: run_foreground_def command_status_def gid) (simp add: logged_def record_op_def)
    have "s' = (w2, snd s1 @ [Ran ?argv (ok_of st)])"
      using assms(1) p Inr run by (auto simp: run_attempt split: sum.splits)
    then have "es = pre @ [Ran ?argv (ok_of st)]" using assms(3) pre(1) by simp
    then have "ok_of st = Some (Exited c)" using assms(4) not_pre by auto
    then have "st = Inr (Exited c)" by (simp add: ok_of_eq_Some)
    then show ?thesis using assms(1) p Inr run by (simp add: run_attempt)
  qed
qed

lemma locked_decides:
  assumes "run_state (with_locked_workspace (logged h) directory op) s = (r, s')" and "snd s' = snd s @ es"
    and events: "\<And>w. only (\<lambda>_. True) (op w)"
    and "Ran argv st \<in> set es"
  obtains w s1 s2 es' where "run_state (op w) s1 = (r, s2)" "snd s2 = snd s1 @ es'" "Ran argv st \<in> set es'"
proof -
  obtain x s0 where x: "run_state (host_workspace (logged h) directory) s = (x, s0)" by (metis surj_pair)
  have none: "snd s0 = snd s" using onlyD [OF only_host_workspace [where P = "\<lambda>_. False"] x] by (auto simp: list_all_iff)
  show thesis
  proof (cases x)
    case (Inl e)
    then have "es = []" using assms(1,2) x none by (simp add: with_locked_workspace_def run_attempt)
    then show ?thesis using assms(4) by simp
  next
    case (Inr w)
    then have "run_state (with_lock (logged h) (digest64 w) (op w)) s0 = (r, s')"
      using assms(1) x by (simp add: with_locked_workspace_def run_attempt)
    from run_with_lock [OF this] show ?thesis
    proof (elim disjE exE conjE)
      fix e w0 assume "s' = (w0, snd s0)"
      then show ?thesis using assms(2,4) none by simp
    next
      fix w1 t w2
      assume op: "run_state (op w) (w1, snd s0 @ [Locked (digest64 w)]) = (r, t)"
        and s': "s' = (w2, snd t @ [Unlocked (digest64 w)])"
      obtain es' where es': "snd t = (snd s0 @ [Locked (digest64 w)]) @ es'" using onlyD [OF events op] by auto
      show ?thesis
        by (rule that [OF op, of es']) (use es' s' assms(2,4) none in auto)
    qed
  qed
qed


lemma exec_decides:
  assumes "run_state (exec_run (logged h) mode directory args tty) s = (r, s')" and "snd s' = snd s @ es"
    and "Ran argv (Some (Exited c)) \<in> set es" and "runs (Ran argv (Some (Exited c)))"
  shows "r = (case exit_failure_from_status (Exited c)
      (\<lambda>_. msg [''foreground Codex exec container exited due to signal'']) of
    None \<Rightarrow> Ok () | Some f \<Rightarrow> Err (into_direct_error f))"
proof -
  let ?rq = "\<lambda>w. foreground_launch_request w Codex mode
      (\<lambda>dev_env. codex_exec_command (canonical_target w) dev_env args)"
  have quiet: "only (\<lambda>e. \<not> runs e) (prepare_runtime_launch (logged h) (?rq w))" for w
    by (intro only_prepare_runtime_launch) (use reads_not_runs in auto)
  have events: "only (\<lambda>_. True) (attempt (prepare_runtime_launch (logged h) (?rq w)) (\<lambda>prep.
      attempt (run_foreground (logged h) (container_name w) (rlp_run_spec prep) tty) (\<lambda>st. pure (g st))))" for w g
    by (intro only_intros) auto
  obtain w s1 s2 es' where op: "run_state (attempt (prepare_runtime_launch (logged h) (?rq w)) (\<lambda>prep.
      attempt (run_foreground (logged h) (container_name w) (rlp_run_spec prep) tty) (\<lambda>st.
        pure (case exit_failure_from_status st (\<lambda>_. msg [''foreground Codex exec container exited due to signal'']) of
           None \<Rightarrow> Ok () | Some f \<Rightarrow> Err (into_direct_error f))))) s1 = (r, s2)"
      "snd s2 = snd s1 @ es'" "Ran argv (Some (Exited c)) \<in> set es'"
    by (rule locked_decides [OF assms(1) [unfolded exec_run_def] assms(2) events assms(3)])
  show ?thesis by (rule foreground_decides [OF op(1) quiet op(2,3) assms(4)])
qed

section \<open>The exit status of the program\<close>

text \<open>C23: \<open>agentbox exec\<close> exits with the code of its container. If Podman ran the foreground container and it
  exited with a code of one byte, the program ends with exactly this code, reports nothing and does nothing
  else; the container's success is the only way to its own.\<close>

theorem exec_exit_code:
  assumes "pe_parse e argv = Inr (verbose, ExecCommand mode directory args)"
    and "pg_host (pg verbose) = logged h" and "\<forall>s. snd (pg_use_tty (pg verbose) s) = s"
    and "run_state (program_run fuel e pg argv) s = (r, s')" and "snd s' = snd s @ es"
    and "Ran cmd (Some (Exited c)) \<in> set es" "take 2 cmd = [''podman'', ''run'']"
    and "0 \<le> c" "c < 256"
  shows "run_state (program_main fuel e pg argv) s = (Some (of_int c), s') \<and> (r = Some (Ok ()) \<longleftrightarrow> c = 0)"
proof -
  obtain tty where tty: "pg_use_tty (pg verbose) s = (tty, s)" using assms(3) by (metis prod.collapse)
  obtain r0 where run: "run_state (exec_run (logged h) mode directory args tty) s = (r0, s')" "r = Some r0"
    using assms(1,2,4) tty by (auto simp: program_run_def dispatch_def exec_command_def run_once split: prod.splits)
  have "r0 = (if c = 0 then Ok () else Err (ExitCode (of_int c)))"
    using exec_decides [OF run(1) assms(5,6)] assms(7-9)
    by (auto simp: exit_failure_from_status_def failure_exit_from_status_def exit_code_u8_def into_direct_error_def)
  then show ?thesis
    using assms(4) run(2) by (auto simp: program_main_def exit_with_def map_io_def)
qed


section \<open>An instance\<close>

lemma sample_foreground:
  obtains prep l' where "run_state (prepare_runtime_launch (sample_log [] Codex) (foreground_launch_request
      sample_workspace Codex DevNone invocation)) (t, l) = (Ok prep, (t, l'))"
proof -
  have ps: "run_state (podman_ps (sample_log [] k)) (t, l) = (Ok [], (t, l @ [Ran (podman_argv
      [''ps'', ''--all'', ''--filter'', managed_label_filter, ''--format'', ''json'']) (Some (Exited 0))]))" for k t l
    by (simp add: podman_ps_def run_json_def run_quiet_def capture_def run_attempt logged_def record_op_def
        sample_host_def ok_output_def outcome_status_def)
  have none: "run_state (discover_root (sample_log [] k) ManagedSessions root) (t, l) =
     (Ok [], (t, l @ [Ran (podman_argv [''ps'', ''--all'', ''--filter'', managed_label_filter, ''--format'', ''json'']) (Some (Exited 0))]))" for k root t l
    by (simp add: discover_root_def discover_io_def run_attempt sample_simps ps scope_for_git_root_def
      new_collector_def finish_collector_def mark_duplicate_sessions_def sort_dedup_def)
  obtain l' where "run_state (prepare_container_launch_for_workspace (sample_log [] Codex) sample_workspace Codex
      DevNone foreground_policy) (t, l) =
    (Ok \<lparr>clp_preflight = \<lparr>pf_host_nix_mounts = [], pf_runtime_mounts = [], pf_runtime_environment = []\<rparr>,
       clp_dev_env = NoDevEnv, clp_image_version = None\<rparr>, (t, l'))"
    by (simp add: foreground_policy_def prepare_container_launch_for_workspace_def run_attempt sample_simps none
      ensure_required_resources_absent_def discover_existing_resources_def select_existing_resource_def)
  then show thesis
    using that by (simp add: prepare_runtime_launch_def foreground_launch_request_def foreground_policy_def
        prepare_codex_attach_token_def build_runtime_invocation_def run_attempt sample_simps Let_def)
qed

lemma sample_exec:
  "\<exists>l' cmd. run_state (exec_run (sample_log [] Codex) DevNone ''/w'' [] False) (0, []) = (Err (ExitCode 1), (0, l'))
     \<and> Ran cmd (Some (Exited 1)) \<in> set l' \<and> take 2 cmd = [''podman'', ''run'']"
proof -
  obtain prep l' where "run_state (prepare_runtime_launch (sample_log [] Codex) (foreground_launch_request
      sample_workspace Codex DevNone (\<lambda>dev_env. codex_exec_command (canonical_target sample_workspace) dev_env [])))
      (0, [Locked (digest64 sample_workspace)]) = (Ok prep, (0, l'))" by (rule sample_foreground)
  moreover have "run_state (run_foreground (sample_log [] Codex) name sp False) (t, l)
      = (Ok (Exited 1), (t, l @ [Ran (podman_argv (run_foreground_args name sp 100 False)) (Some (Exited 1))]))" for name sp t l
    by (simp add: run_foreground_def command_status_def logged_def record_op_def sample_host_def)
  ultimately have "run_state (exec_run (sample_log [] Codex) DevNone ''/w'' [] False) (0, []) = (Err (ExitCode 1),
      (0, l' @ [Ran (podman_argv (run_foreground_args (container_name sample_workspace) (rlp_run_spec prep) 100 False))
        (Some (Exited 1)), Unlocked (digest64 sample_workspace)]))"
    by (simp add: exec_run_def with_locked_workspace_def with_lock_def run_attempt sample_simps
        exit_failure_from_status_def failure_exit_from_status_def exit_code_u8_def into_direct_error_def)
  moreover have "take 2 (podman_argv (run_foreground_args name sp 100 False)) = [''podman'', ''run'']" for name sp
    by (simp add: podman_argv_def run_foreground_args_def)
  ultimately show ?thesis by fastforce
qed


text \<open>Any program whose command line is \<open>exec\<close>, on a host whose containers exit with 1.\<close>

lemma exec_exit_code_witness:
  "\<forall>pg e. \<exists>s'. run_state (program_main 0 (e\<lparr>pe_parse := \<lambda>_. Inr (False, ExecCommand DevNone ''/w'' [])\<rparr>)
      (\<lambda>_. pg\<lparr>pg_host := sample_log [] Codex, pg_use_tty := \<lambda>s. (False, s)\<rparr>) [''agentbox'', ''exec'']) (0, [])
    = (Some 1, s')"
proof (intro allI)
  fix pg :: "('c, nat \<times> event list) program" and e :: "(nat \<times> event list) process_env"
  let ?e = "e\<lparr>pe_parse := \<lambda>_. Inr (False, ExecCommand DevNone ''/w'' [])\<rparr>"
  let ?pg = "\<lambda>_::bool. pg\<lparr>pg_host := sample_log [] Codex, pg_use_tty := \<lambda>s. (False, s)\<rparr>"
  obtain l' cmd where l': "run_state (exec_run (sample_log [] Codex) DevNone ''/w'' [] False) (0, []) = (Err (ExitCode 1), (0, l'))"
      "Ran cmd (Some (Exited 1)) \<in> set l'" "take 2 cmd = [''podman'', ''run'']"
    using sample_exec by blast
  have parse: "pe_parse ?e [''agentbox'', ''exec''] = Inr (False, ExecCommand DevNone ''/w'' [])" by simp
  have host: "pg_host (?pg False) = sample_log [] Codex" by simp
  have tty: "\<forall>s. snd (pg_use_tty (?pg False) s) = s" by simp
  have "run_state (program_run 0 ?e ?pg [''agentbox'', ''exec'']) (0, []) = (Some (Err (ExitCode 1)), (0, l'))"
    using l'(1) by (simp add: program_run_def dispatch_def exec_command_def run_once)
  from exec_exit_code [OF parse host tty this _ l'(2,3)]
  show "\<exists>s'. run_state (program_main 0 ?e ?pg [''agentbox'', ''exec'']) (0, []) = (Some 1, s')" by simp
qed

end
