(* ===== verification/ProgramTrace.thy ===== *)
theory ProgramTrace
  imports Program RestartLaws CleanTrace
begin

text \<open>
  What the commands of the program do to the outside, from the parsed command line on: which of them only look,
  and how the others keep to the locks of workspaces.
\<close>

section \<open>A program that records what it does\<close>

definition logged_view :: "'w view_host \<Rightarrow> ('w \<times> event list) view_host" where
  "logged_view v = \<lparr>vw_host = logged (vw_host v), vw_trimmed_table = vw_trimmed_table v, vw_json = vw_json v,
     vw_print = (\<lambda>t. record_op (vw_print v t) (\<lambda>_. []))\<rparr>"

definition logged_image :: "'w image_host \<Rightarrow> ('w \<times> event list) image_host" where
  "logged_image ih = \<lparr>ih_wall_clock = record_op (ih_wall_clock ih) (\<lambda>_. []),
     ih_materialize = record_op (ih_materialize ih) (\<lambda>_. [])\<rparr>"

definition logged_store :: "('c, 'w) image_state_store \<Rightarrow> ('c, 'w \<times> event list) image_state_store" where
  "logged_store st = \<lparr>st_files = logged_files (st_files st), st_root = st_root st,
     st_encode = st_encode st, st_decode = st_decode st\<rparr>"

definition logged_program :: "('c, 'w) program \<Rightarrow> ('c, 'w \<times> event list) program" where
  "logged_program pg = \<lparr>
     pg_host = logged (pg_host pg), pg_prompter = logged_prompter (pg_prompter pg), pg_view = logged_view (pg_view pg),
     pg_clean = logged_clean (pg_clean pg), pg_image = logged_image (pg_image pg), pg_home = pg_home pg,
     pg_store = logged_store (pg_store pg),
     pg_use_tty = record_op (pg_use_tty pg) (\<lambda>_. []),
     pg_print = (\<lambda>t. record_op (pg_print pg t) (\<lambda>_. [])), pg_templates = pg_templates pg,
     pg_manpage = record_op (pg_manpage pg) (\<lambda>_. []), pg_manpages = (\<lambda>d. record_op (pg_manpages pg d) (\<lambda>_. []))\<rparr>"

lemma logged_program_simps [simp]:
  "pg_host (logged_program pg) = logged (pg_host pg)" "pg_prompter (logged_program pg) = logged_prompter (pg_prompter pg)"
  "pg_view (logged_program pg) = logged_view (pg_view pg)" "pg_templates (logged_program pg) = pg_templates pg"
  "vw_host (logged_view v) = logged (vw_host v)"
  by (simp_all add: logged_program_def logged_view_def)

lemma only_program_ops [only_intros]:
  "only P (State (ask_one (logged_prompter p) m cs))"
  "only P (State (ask_many (logged_prompter p) m cs))"
  "only P (State (vw_print (logged_view v) t))"
  "only P (State (pg_use_tty (logged_program pg)))"
  "only P (State (pg_print (logged_program pg) t))"
  "only P (State (pg_manpage (logged_program pg)))"
  "only P (State (pg_manpages (logged_program pg) d))"
  by (auto simp: logged_prompter_def logged_view_def logged_program_def intro!: only_record)

section \<open>Commands that look\<close>

lemma only_selects [only_intros]:
  "only P (select_one (logged_prompter p) m cs non_tty)" "only P (select_many (logged_prompter p) m cs non_tty)"
  unfolding select_one_def select_many_def require_interactive_terminal_def by (intro only_intros)+

lemma only_surface_discover [only_intros]: "only reads (surface_discover (logged h) surface)"
  unfolding surface_discover_def by (intro only_intros)

lemma only_target_selects [only_intros]:
  "only reads (select_one_session_target (logged h) (logged_prompter p) surface m non_tty none lbl)"
  "only reads (select_many_session_targets (logged h) (logged_prompter p) surface m non_tty lbl)"
  unfolding select_one_session_target_def select_many_session_targets_def discover_prompt_choices_def
    require_interactive_terminal_def
  by (intro only_intros)+

lemma only_ps [only_intros]: "only reads (ps_run (logged_view v) output)"
  unfolding ps_run_def by (auto intro!: only_intros)

lemma only_health_rows_loop [only_intros]: "only P (health_rows_loop (logged h) ss)"
proof (induction ss)
  case (Cons s ss)
  have "only P (health_row_of (logged h) s)"
    unfolding health_row_of_def by (auto intro!: only_intros split: option.split)
  then show ?case using Cons by (auto intro!: only_intros)
qed (auto intro!: only_intros)

lemma only_health [only_intros]: "only reads (health_run (logged_view v) output tgt)"
  unfolding health_run_def selected_health_sessions_def health_rows_def by (auto intro!: only_intros)

lemma only_live_roots [only_intros]: "only reads (live_roots_output (logged h) c)"
  unfolding live_roots_output_def live_roots_def Let_def by (auto intro!: only_intros)

text \<open>The commands that only show something, and those that act under the locks of workspaces. \<open>runtime update\<close>
  and \<open>clean\<close> do not act on a workspace, and \<open>stop --all\<close> also stops containers that name none.\<close>

fun looks_only :: "cli_command \<Rightarrow> bool" where
  "looks_only (PsCommand _) = True"
| "looks_only (HealthCommand _ _) = True"
| "looks_only (CompletionCommand _) = True"
| "looks_only (CompletionRootsCommand _) = True"
| "looks_only (GenerateCompletionCommand _) = True"
| "looks_only GenerateManCommand = True"
| "looks_only (GenerateManpagesCommand _) = True"
| "looks_only _ = False"

fun acts_on_workspace :: "cli_command \<Rightarrow> bool" where
  "acts_on_workspace (RunCommand _ _) = True"
| "acts_on_workspace (ExecCommand _ _ _) = True"
| "acts_on_workspace (StartCommand _ _ _) = True"
| "acts_on_workspace (RestartCommand _ _ _ _) = True"
| "acts_on_workspace (ConnectCommand _ _) = True"
| "acts_on_workspace (StopCommand args) = (\<not> sa_all args)"
| "acts_on_workspace _ = False"

lemma dispatch_looks: "looks_only c \<Longrightarrow> only reads (dispatch fuel (logged_program pg) c)"
  by (cases c) (auto simp: dispatch_def print_text_def intro!: only_intros)

section \<open>Commands under locks\<close>

lemma disciplined_select_runtime [lock_intros]: "disciplined returned (select_runtime (logged_prompter p) k m)"
  unfolding select_runtime_def by (intro disciplined_reads) (auto intro!: only_intros split: option.split)

lemma disciplined_connect_run: "disciplined (\<lambda>_. True) (connect_run (logged h) (logged_prompter p) d args)"
proof -
  have "disciplined (\<lambda>_. True) (selected_connect_directory (logged h) (logged_prompter p) d)"
    unfolding selected_connect_directory_def
    by (intro disciplined_reads) (auto intro!: only_intros split: option.split)
  then show ?thesis unfolding connect_run_def by (intro lock_intros disciplined_connect)
qed

lemma disciplined_stop_run: "\<not> sa_all args \<Longrightarrow> disciplined (\<lambda>_. True) (stop_run (logged h) (logged_prompter p) args)"
proof -
  have "disciplined (\<lambda>_. True) (select_stop_targets (logged h) (logged_prompter p))"
    unfolding select_stop_targets_def by (intro disciplined_reads only_intros)
  then show "\<not> sa_all args \<Longrightarrow> ?thesis"
    unfolding stop_run_def by (auto intro!: lock_intros disciplined_stop_targets)
qed

lemma disciplined_restart_run:
  "disciplined (\<lambda>r. r \<noteq> None) (restart_run fuel (logged h) (logged_prompter p) tgt mode c overrides)"
proof -
  have "disciplined (\<lambda>_. True) (selected_restart_target (logged h) (logged_prompter p) tgt)"
    unfolding selected_restart_target_def
    by (intro disciplined_reads) (auto intro!: only_intros split: option.split)
  then show ?thesis unfolding restart_run_def by (intro lock_intros disciplined_restart)
qed

lemma disciplined_exec_command:
  "disciplined (\<lambda>_. True) (exec_command (logged_program pg) mode directory args)"
  unfolding exec_command_def logged_program_simps
  by (rule disciplined_then) (intro disciplined_reads only_intros disciplined_exec)+

lemma dispatch_disciplined:
  "acts_on_workspace c \<Longrightarrow> disciplined (\<lambda>r. r \<noteq> None) (dispatch fuel (logged_program pg) c)"
  by (cases c) (auto simp: dispatch_def run_selected_def start_selected_def simp del: not_None_eq intro!: lock_intros
      disciplined_run disciplined_start disciplined_exec_command disciplined_connect_run disciplined_stop_run
      disciplined_restart_run)

text \<open>C3: the program keeps its hands off what it does not hold. Commands that show something only look at Podman
  and change nothing. Commands that act on a workspace, from their prompts on, touch a container, a token or a
  volume only while they hold a workspace lock; they take one lock at a time, so that two commands cannot
  deadlock, and hold none once they have returned.\<close>

theorem program_lock_discipline:
  "(looks_only c \<longrightarrow> list_all reads (trace_of (dispatch fuel (logged_program pg) c) w))
   \<and> (acts_on_workspace c \<longrightarrow>
       (\<exists>held. lock_run None (trace_of (dispatch fuel (logged_program pg) c) w) = Some held
         \<and> (held = None \<or> outcome_of (dispatch fuel (logged_program pg) c) w = None)))"
  by (intro conjI impI only_trace dispatch_looks disciplined_trace_loop dispatch_disciplined)


lemma program_lock_discipline_witness:
  "\<forall>pg :: ('c, 'w) program. \<forall>w.
     list_all reads (trace_of (dispatch 0 (logged_program pg) (PsCommand TableFormat)) w)
     \<and> (\<exists>held. lock_run None (trace_of (dispatch 0 (logged_program pg) (ExecCommand DevNone ''/w'' [])) w) = Some held)"
proof (intro allI conjI)
  fix pg :: "('c, 'w) program" and w
  show "list_all reads (trace_of (dispatch 0 (logged_program pg) (PsCommand TableFormat)) w)"
    using program_lock_discipline [of "PsCommand TableFormat" 0 pg w] by simp
  show "\<exists>held. lock_run None (trace_of (dispatch 0 (logged_program pg) (ExecCommand DevNone ''/w'' [])) w) = Some held"
    using program_lock_discipline [of "ExecCommand DevNone ''/w'' []" 0 pg w] by auto
qed

end
