(* ===== verification/PodmanService.thy ===== *)
theory PodmanService
  imports StopLaws
begin

text \<open>
  What stopping does to Podman's containers. Podman is described by what it documents of its commands, over an
  abstract state, the list of its containers; on such a Podman \<open>agentbox stop\<close> does what it says to that list.
\<close>

section \<open>Podman's containers\<close>

text \<open>A container as Podman keeps it; \<open>ct_remove\<close> is the option \<open>--rm\<close>.\<close>

record podman_container =
  ct_id :: string
  ct_name :: string
  ct_remove :: bool
  ct_inspect :: podman_container_inspect

abbreviation ct_labels :: "podman_container \<Rightarrow> labels" where
  "ct_labels c \<equiv> insp_labels (ct_inspect c)"

abbreviation ct_running :: "podman_container \<Rightarrow> bool" where
  "ct_running c \<equiv> insp_running (ct_inspect c)"

definition listed :: "podman_container \<Rightarrow> podman_ps_container" where
  "listed c = \<lparr>ps_id = ct_id c, ps_names = Some [ct_name c], ps_labels = ct_labels c\<rparr>"

text \<open>\<open>podman stop\<close>: a running container stops, and goes when it was started with \<open>--rm\<close>.\<close>

definition stopped :: "string \<Rightarrow> podman_container list \<Rightarrow> podman_container list" where
  "stopped name cs = filter_map (\<lambda>c.
     if ct_name c \<noteq> name \<or> \<not> ct_running c then Some c
     else if ct_remove c then None
     else Some (c\<lparr>ct_inspect := (ct_inspect c)\<lparr>insp_running := False\<rparr>\<rparr>)) cs"

text \<open>Podman's answers and their effect, in terms of the containers \<open>cts w\<close> of a state \<open>w\<close>.\<close>

definition answers ::
  "'w host \<Rightarrow> ('w \<Rightarrow> podman_container list) \<Rightarrow> string list \<Rightarrow> 'w \<Rightarrow> (string \<Rightarrow> bool) \<Rightarrow> podman_container list \<Rightarrow> bool" where
  "answers h cts args w P cs \<longleftrightarrow> (\<exists>out err w'. run_process h (podman_argv args) w
     = (Inr \<lparr>po_stdout = out, po_stderr = err, po_status = Exited 0\<rparr>, w') \<and> P out \<and> cts w' = cs)"

definition labelled_managed :: "podman_container \<Rightarrow> bool" where
  "labelled_managed c \<longleftrightarrow> bt_get (ct_labels c) LABEL_MANAGED = Some LABEL_MANAGED_VALUE"

definition podman_serves :: "'w host \<Rightarrow> ('w \<Rightarrow> podman_container list) \<Rightarrow> bool" where
  "podman_serves h cts \<longleftrightarrow>
     (\<forall>w. distinct (map ct_name (cts w)))
   \<and> (\<forall>w. answers h cts [''ps'', ''--all'', ''--format'', ''json''] w
        (\<lambda>out. ps_of_json h out = Inr (map listed (cts w))) (cts w))
   \<and> (\<forall>w. answers h cts [''ps'', ''--all'', ''--filter'', managed_label_filter, ''--format'', ''json''] w
        (\<lambda>out. ps_of_json h out = Inr (map listed (filter labelled_managed (cts w)))) (cts w))
   \<and> (\<forall>w. \<forall>c \<in> set (cts w). \<forall>ref \<in> {ct_id c, ct_name c}. answers h cts [''container'', ''inspect'', ref] w
        (\<lambda>out. inspect_of_json h out = Inr [ct_inspect c]) (cts w))
   \<and> (\<forall>w name. answers h cts [''stop'', ''--ignore'', name] w (\<lambda>_. True) (stopped name (cts w)))
   \<and> (\<forall>w name. \<exists>w'. run_inherited h (podman_argv [''container'', ''exists'', name]) w
        = (Inr (Exited (if name \<in> ct_name ` set (cts w) then 0 else 1)), w') \<and> cts w' = cts w)"

text \<open>Nothing else touches the containers, and locks are free.\<close>

definition undisturbed :: "'w host \<Rightarrow> ('w \<Rightarrow> podman_container list) \<Rightarrow> bool" where
  "undisturbed h cts \<longleftrightarrow>
     (\<forall>w. cts (snd (root_probe h w)) = cts w)
   \<and> (\<forall>d w. cts (snd (remove_token_file h d w)) = cts w)
   \<and> (\<forall>d w. cts (snd (release_lock h d w)) = cts w)
   \<and> (\<forall>d w. \<exists>w'. acquire_lock h d w = (Ok (), w') \<and> cts w' = cts w)"

section \<open>Agentbox's containers\<close>

definition agentbox_owned :: "podman_container \<Rightarrow> bool" where
  "agentbox_owned c \<longleftrightarrow> agentbox_container_kind_from_labels (ct_labels c) \<noteq> None"

definition ct_root :: "podman_container \<Rightarrow> path option" where
  "ct_root c = md_canonical_git_root (ct_labels c)"

definition in_root :: "path \<Rightarrow> podman_container \<Rightarrow> bool" where
  "in_root root c \<longleftrightarrow> (case ct_root c of None \<Rightarrow> False | Some r \<Rightarrow> path_eq r root)"

text \<open>The hash of a root identifies the root among agentbox's containers that carry both labels.\<close>

definition hash_identifies :: "(string \<Rightarrow> digest) \<Rightarrow> podman_container list \<Rightarrow> path \<Rightarrow> bool" where
  "hash_identifies sha cs root \<longleftrightarrow> (\<forall>c \<in> set cs. \<forall>r v. agentbox_owned c \<longrightarrow> ct_root c = Some r \<longrightarrow>
     md_git_root_hash (ct_labels c) = Some v \<longrightarrow> (v = git_root_hash12 sha root \<longleftrightarrow> path_eq r root))"

lemma hash_identifies_subset: "hash_identifies sha cs root \<Longrightarrow> set ds \<subseteq> set cs \<Longrightarrow> hash_identifies sha ds root"
  unfolding hash_identifies_def by blast

text \<open>A session record that shows a container.\<close>

definition shows_container :: "podman_container \<Rightarrow> session_record \<Rightarrow> bool" where
  "shows_container c s \<longleftrightarrow> sr_container_name s = ct_name c \<and> metadata s = ct_labels c
     \<and> container_running s = ct_running c"

lemma shows_containerD:
  assumes "shows_container c s"
  shows "sr_git_root s = ct_root c" "root_is s root = in_root root c"
    "stable_id s = md_git_root_hash (ct_labels c)" "container_running s = ct_running c"
  using assms by (auto simp: shows_container_def sr_git_root_def ct_root_def root_is_def in_root_def stable_id_def)

lemma list_all2_filter:
  assumes "list_all2 R cs ss" and "\<And>c s. R c s \<Longrightarrow> P s = Q c"
  shows "list_all2 R (filter Q cs) (filter P ss)"
  using assms(1) by (induction rule: list_all2_induct) (auto simp: assms(2))

lemmas shows_filter = list_all2_filter [where R = shows_container]

lemma shows_some: "list_all2 shows_container cs ss \<Longrightarrow> s \<in> set ss \<Longrightarrow> \<exists>c \<in> set cs. shows_container c s"
  by (induction rule: list_all2_induct) auto

lemma shown_by_some: "list_all2 shows_container cs ss \<Longrightarrow> c \<in> set cs \<Longrightarrow> \<exists>s \<in> set ss. shows_container c s"
  by (induction rule: list_all2_induct) auto

lemma shows_marked:
  "list_all2 shows_container cs ss \<Longrightarrow> list_all2 shows_container cs (mark_duplicate_sessions ss)"
  by (auto simp: mark_duplicate_sessions_def mark_if_duplicate_alt list_all2_conv_all_nth shows_container_def)

section \<open>Podman's commands\<close>

lemma podman_servesD:
  assumes "podman_serves h cts"
  shows "distinct (map ct_name (cts w))"
    "answers h cts [''ps'', ''--all'', ''--format'', ''json''] w (\<lambda>out. ps_of_json h out = Inr (map listed (cts w))) (cts w)"
    "c \<in> set (cts w) \<Longrightarrow> ref \<in> {ct_id c, ct_name c} \<Longrightarrow> answers h cts [''container'', ''inspect'', ref] w
       (\<lambda>out. inspect_of_json h out = Inr [ct_inspect c]) (cts w)"
    "answers h cts [''stop'', ''--ignore'', name] w (\<lambda>_. True) (stopped name (cts w))"
    "\<exists>w'. run_inherited h (podman_argv [''container'', ''exists'', name]) w
       = (Inr (Exited (if name \<in> ct_name ` set (cts w) then 0 else 1)), w') \<and> cts w' = cts w"
    "answers h cts [''ps'', ''--all'', ''--filter'', managed_label_filter, ''--format'', ''json''] w
       (\<lambda>out. ps_of_json h out = Inr (map listed (filter labelled_managed (cts w)))) (cts w)"
  using assms unfolding podman_serves_def by blast+

lemma run_answered:
  assumes "answers h cts args w P cs"
  obtains out err w' where "run_state (run_quiet h args) w = (Ok \<lparr>po_stdout = out, po_stderr = err\<rparr>, w')"
    "P out" "cts w' = cs"
  using assms by (auto simp: answers_def run_quiet_def capture_def)

lemma run_answered_json:
  assumes "answers h cts args w (\<lambda>out. of_json out = Inr x) cs"
  shows "\<exists>w'. run_state (run_json h of_json args) w = (Ok x, w') \<and> cts w' = cs"
  by (rule run_answered [OF assms]) (simp add: run_json_def run_attempt)

lemma serves_ps:
  assumes "podman_serves h cts"
  shows "\<exists>w'. run_state (podman_ps_all h) w = (Ok (map listed (cts w)), w') \<and> cts w' = cts w"
    "\<exists>w'. run_state (podman_ps h) w = (Ok (map listed (filter labelled_managed (cts w))), w') \<and> cts w' = cts w"
  unfolding podman_ps_all_def podman_ps_def
  by (rule run_answered_json [OF podman_servesD(2) [OF assms]], rule run_answered_json [OF podman_servesD(6) [OF assms]])

lemma serves_inspect:
  assumes "podman_serves h cts" "c \<in> set (cts w)" "ref \<in> {ct_id c, ct_name c}"
  shows "\<exists>w'. run_state (inspect_one h ref) w = (Ok (ct_inspect c), w') \<and> cts w' = cts w"
proof -
  have "\<exists>w'. run_state (run_json h (inspect_of_json h) [''container'', ''inspect'', ref]) w
      = (Ok [ct_inspect c], w') \<and> cts w' = cts w"
    by (rule run_answered_json [OF podman_servesD(3) [OF assms]])
  then show ?thesis by (auto simp: inspect_one_def run_attempt)
qed

lemma serves_stop:
  assumes "podman_serves h cts"
  shows "\<exists>w'. run_state (stop_ignore h name) w = (Ok (), w') \<and> cts w' = stopped name (cts w)"
  by (rule run_answered [OF podman_servesD(4) [OF assms, where w = w and name = name]]) (auto simp: stop_ignore_def run_map_io)

lemma serves_exists:
  assumes "podman_serves h cts"
  shows "\<exists>w'. run_state (container_exists h name) w = (Ok (name \<in> ct_name ` set (cts w)), w') \<and> cts w' = cts w"
proof -
  obtain w' where "run_inherited h (podman_argv [''container'', ''exists'', name]) w
      = (Inr (Exited (if name \<in> ct_name ` set (cts w) then 0 else 1)), w')" "cts w' = cts w"
    using podman_servesD(5) [OF assms] by blast
  then show ?thesis by (auto simp: container_exists_def exists_status_def command_status_def run_attempt)
qed

section \<open>Stopping containers\<close>

text \<open>Podman names a container once, and a running one with \<open>--rm\<close> is gone once it is stopped.\<close>

lemma stopped_removes:
  assumes "distinct (map ct_name cs)" "c \<in> set cs" "ct_running c" "ct_remove c"
  shows "stopped (ct_name c) cs = filter (\<lambda>d. d \<noteq> c) cs"
proof -
  have "ct_name d = ct_name c \<longleftrightarrow> d = c" if "d \<in> set cs" for d
    using assms(1,2) that by (auto simp: distinct_map inj_on_def)
  then have "set ds \<subseteq> set cs \<Longrightarrow> stopped (ct_name c) ds = filter (\<lambda>d. d \<noteq> c) ds" for ds
    using assms(3,4) by (induction ds) (auto simp: stopped_def)
  then show ?thesis by simp
qed

lemma stop_and_verify_removes:
  assumes "podman_serves h cts" "c \<in> set (cts w)" "ct_running c" "ct_remove c"
  shows "\<exists>w'. run_state (stop_and_verify h (ct_name c)) w = (\<lparr>stop_error = None, verification = CleanupRemoved\<rparr>, w')
    \<and> cts w' = filter (\<lambda>d. d \<noteq> c) (cts w)"
proof -
  note names = podman_servesD(1) [OF assms(1), of w]
  obtain w1 where w1: "run_state (stop_ignore h (ct_name c)) w = (Ok (), w1)" "cts w1 = stopped (ct_name c) (cts w)"
    using serves_stop [OF assms(1)] by blast
  have rest: "cts w1 = filter (\<lambda>d. d \<noteq> c) (cts w)" using w1(2) stopped_removes [OF names assms(2-4)] by simp
  have "ct_name c \<notin> ct_name ` set (cts w1)" using names assms(2) by (auto simp: rest distinct_map inj_on_def)
  then obtain w2 where "run_state (container_exists h (ct_name c)) w1 = (Ok False, w2)" "cts w2 = cts w1"
    using serves_exists [OF assms(1), of "ct_name c" w1] by auto
  then show ?thesis using w1(1) rest by (simp add: stop_and_verify_def)
qed

lemma cleanup_container_removes:
  assumes "podman_serves h cts" "undisturbed h cts" "c \<in> set (cts w)" "ct_running c" "ct_remove c"
    and "shows_container c s"
  shows "\<exists>w'. run_state (cleanup_managed_container h s) w = (None, w') \<and> cts w' = filter (\<lambda>d. d \<noteq> c) (cts w)"
proof -
  obtain w2 where w2: "run_state (stop_and_verify h (ct_name c)) w = (\<lparr>stop_error = None, verification = CleanupRemoved\<rparr>, w2)"
      "cts w2 = filter (\<lambda>d. d \<noteq> c) (cts w)" using stop_and_verify_removes [OF assms(1,3-5)] by blast
  obtain r w3 where w3: "run_state (remove_codex_attach_token_for_session h s) w2 = (r, w3)" by force
  have "cts w3 = cts w2"
    using w3 assms(2) by (auto simp: remove_codex_attach_token_for_session_def undisturbed_def
        split: if_splits option.splits dest: sym [of "(r, w3)"])
      (metis snd_conv)
  then show ?thesis
    using w2 w3 assms(6) by (simp add: cleanup_managed_container_def Let_def
        remaining_failure_def remaining_container_issue_def shows_container_def)
qed

lemma cleanup_containers_remove:
  assumes "podman_serves h cts" "undisturbed h cts" "list_all2 shows_container cs ss"
    and "distinct cs" "set cs \<subseteq> set (cts w)" "\<forall>c \<in> set cs. ct_running c \<and> ct_remove c"
  shows "\<exists>w'. run_state (cleanup_managed_containers h ss) w = ([], w') \<and> cts w' = filter (\<lambda>d. d \<notin> set cs) (cts w)"
  using assms(3-)
proof (induction arbitrary: w rule: list_all2_induct)
  case (Cons c cs s ss)
  obtain w1 where w1: "run_state (cleanup_managed_container h s) w = (None, w1)" "cts w1 = filter (\<lambda>d. d \<noteq> c) (cts w)"
    using cleanup_container_removes [OF assms(1,2), of c w s] Cons.hyps(1) Cons.prems by auto
  have "set cs \<subseteq> set (cts w1)" using Cons.prems by (auto simp: w1(2))
  then obtain w2 where w2: "run_state (cleanup_managed_containers h ss) w1 = ([], w2)"
      "cts w2 = filter (\<lambda>d. d \<notin> set cs) (cts w1)" using Cons.IH [of w1] Cons.prems by auto
  have "cts w2 = filter (\<lambda>d. d \<notin> set (c # cs)) (cts w)"
    unfolding w2(2) w1(2) by (simp add: conj_commute)
  then show ?case using w1(1) w2(1) by (simp add: option_list_def)
qed simp


section \<open>Discovering containers\<close>

lemma listed_fields [simp]:
  "ps_labels (listed c) = ct_labels c" "ps_id (listed c) = ct_id c" "inspected_container_name (listed c) = ct_name c"
  by (simp_all add: listed_def inspected_container_name_def)

definition in_scope :: "container_discovery_scope \<Rightarrow> podman_container \<Rightarrow> bool" where
  "in_scope sc c \<longleftrightarrow> (case agentbox_container_kind_from_labels (ct_labels c) of
     None \<Rightarrow> False | Some kind \<Rightarrow> scope_includes sc kind)"

lemma in_scope_owned [simp]: "in_scope AgentboxOwned c = agentbox_owned c"
  by (simp add: in_scope_def agentbox_owned_def split: option.split)

lemma in_scope_agentbox: "in_scope sc c \<Longrightarrow> agentbox_owned c"
  by (simp add: in_scope_def agentbox_owned_def split: option.splits)

lemma ps_candidate_listed [simp]:
  "ps_candidate sc (listed c) = (case agentbox_container_kind_from_labels (ct_labels c) of
     None \<Rightarrow> None | Some kind \<Rightarrow> if scope_includes sc kind then Some (listed c, kind) else None)"
  by (simp add: ps_candidate_def split: option.split)

definition inspected :: "container_discovery_scope \<Rightarrow> session_discovery_scope \<Rightarrow> podman_container \<Rightarrow> bool" where
  "inspected sc scope c \<longleftrightarrow> in_scope sc c \<and> should_inspect_ps_candidate scope (listed c)"

text \<open>The record of a container as discovery builds it, with the look at the git root of some moment.\<close>

definition recorded :: "'w host \<Rightarrow> podman_container \<Rightarrow> session_record \<Rightarrow> bool" where
  "recorded h c r \<longleftrightarrow> (\<exists>w kind. r =
     build_session_record (sha256 (host_build h)) (fst (root_probe h w)) (listed c) (ct_inspect c) kind)"

lemma recorded_shows: "recorded h c r \<Longrightarrow> shows_container c r"
  by (auto simp: recorded_def shows_container_def)

lemma all_recorded_show: "list_all2 (recorded h) cs rs \<Longrightarrow> list_all2 shows_container cs rs"
  by (erule list_all2_mono) (rule recorded_shows)

lemma discover_loop_records:
  assumes "podman_serves h cts" "undisturbed h cts" and "set cs \<subseteq> set (cts w)"
  shows "\<exists>w' rs. run_state (discover_io_loop h (filter_map (ps_candidate sc) (map listed cs)) col) w
      = (Ok (fold collect_session rs col), w')
    \<and> cts w' = cts w \<and> list_all2 (recorded h) (filter (inspected sc (sc_scope col)) cs) rs"
  using assms(3)
proof (induction cs arbitrary: w col)
  case (Cons c cs)
  show ?case
  proof (cases "inspected sc (sc_scope col) c")
    case False
    then show ?thesis
      using Cons.IH [of w col] Cons.prems
      by (cases "agentbox_container_kind_from_labels (ct_labels c)") (auto simp: inspected_def in_scope_def)
  next
    case True
    then obtain kind where kind: "agentbox_container_kind_from_labels (ct_labels c) = Some kind" "scope_includes sc kind"
      by (auto simp: inspected_def in_scope_def split: option.splits)
    obtain w1 where w1: "run_state (inspect_one h (ct_id c)) w = (Ok (ct_inspect c), w1)" "cts w1 = cts w"
      using serves_inspect [OF assms(1), of c w "ct_id c"] Cons.prems by auto
    obtain probe w2 where w2: "root_probe h w1 = (probe, w2)" by force
    have kept: "cts w2 = cts w" using assms(2) w1(2) w2 unfolding undisturbed_def by (metis snd_conv)
    let ?r = "build_session_record (sha256 (host_build h)) probe (listed c) (ct_inspect c) kind"
    obtain w3 rs where "run_state (discover_io_loop h (filter_map (ps_candidate sc) (map listed cs))
          (collect_session ?r col)) w2 = (Ok (fold collect_session rs (collect_session ?r col)), w3)"
        "cts w3 = cts w2" "list_all2 (recorded h) (filter (inspected sc (sc_scope col)) cs) rs"
      using Cons.IH [of w2 "collect_session ?r col"] Cons.prems kept by auto
    moreover have "recorded h c ?r" unfolding recorded_def using w2 by (metis fst_conv)
    moreover have "should_inspect_ps_candidate (sc_scope col) (listed c)" using True by (simp add: inspected_def)
    ultimately show ?thesis
      using True kind w1(1) w2 kept by (intro exI [of _ w3] exI [of _ "?r # rs"]) (simp add: run_attempt)
  qed
qed (auto intro: exI [of _ "[]"])

lemma in_scope_managed: "in_scope ManagedSessions c \<Longrightarrow> labelled_managed c"
  by (auto simp: in_scope_def labelled_managed_def agentbox_container_kind_from_labels_def required_label_value_def
      split: option.splits if_splits)

lemma discover_records:
  assumes "podman_serves h cts" "undisturbed h cts"
  obtains w' rs where "run_state (discover_io h scope sc) w
      = (finish_collector (fold collect_session rs (new_collector scope)), w')"
    "cts w' = cts w" "list_all2 (recorded h) (filter (inspected sc scope) (cts w)) rs"
proof -
  define P where "P = (case sc of ManagedSessions \<Rightarrow> labelled_managed | AgentboxOwned \<Rightarrow> (\<lambda>_. True))"
  obtain w1 where w1: "run_state (case sc of ManagedSessions \<Rightarrow> podman_ps h | AgentboxOwned \<Rightarrow> podman_ps_all h) w
      = (Ok (map listed (filter P (cts w))), w1)" "cts w1 = cts w"
    using serves_ps [OF assms(1), of w] by (cases sc) (auto simp: P_def)
  have "inspected sc scope c \<Longrightarrow> P c" for c
    using in_scope_managed by (cases sc) (auto simp: P_def inspected_def)
  then have "filter (inspected sc scope) (filter P (cts w)) = filter (inspected sc scope) (cts w)"
    by (auto intro!: filter_cong)
  then obtain w2 rs where "run_state (discover_io_loop h (filter_map (ps_candidate sc) (map listed (filter P (cts w))))
        (new_collector scope)) w1 = (Ok (fold collect_session rs (new_collector scope)), w2)"
      "cts w2 = cts w1" "list_all2 (recorded h) (filter (inspected sc scope) (cts w)) rs"
    using discover_loop_records [OF assms, of "filter P (cts w)" w1 sc "new_collector scope"] w1(2)
    by (auto simp: new_collector_def)
  then show thesis using that w1 by (simp add: discover_io_def run_attempt)
qed

lemma discover_all_shows:
  assumes "podman_serves h cts" "undisturbed h cts"
  obtains w' ss where "run_state (discover_agentbox_containers h) w = (Ok ss, w')" "cts w' = cts w"
    "list_all2 shows_container (filter agentbox_owned (cts w)) ss"
proof -
  obtain w' rs where rs: "run_state (discover_io h AllSessions AgentboxOwned) w
      = (finish_collector (fold collect_session rs (new_collector AllSessions)), w')" "cts w' = cts w"
      "list_all2 (recorded h) (filter (inspected AgentboxOwned AllSessions) (cts w)) rs"
    by (rule discover_records [OF assms])
  have "inspected AgentboxOwned AllSessions = agentbox_owned" by (simp add: inspected_def fun_eq_iff)
  moreover have "finish_collector (fold collect_session rs (new_collector AllSessions)) = Ok (mark_duplicate_sessions rs)"
    by (simp add: finish_collector_Ok fold_collect_all new_collector_def)
  ultimately show thesis
    using that rs(1,2) shows_marked [OF all_recorded_show [OF rs(3)]] by (simp add: discover_agentbox_containers_def)
qed

text \<open>A root whose containers carry its hash is discovered whole, whatever else is there.\<close>

definition has_root :: "(string \<Rightarrow> digest) \<Rightarrow> path \<Rightarrow> podman_container \<Rightarrow> bool" where
  "has_root sha root c \<longleftrightarrow>
     in_root root c \<or> ct_root c = None \<and> md_git_root_hash (ct_labels c) = Some (git_root_hash12 sha root)"

definition claims_root :: "(string \<Rightarrow> digest) \<Rightarrow> path \<Rightarrow> podman_container \<Rightarrow> bool" where
  "claims_root sha root c \<longleftrightarrow> agentbox_owned c \<and> has_root sha root c"

lemma discover_root_records:
  assumes "podman_serves h cts" "undisturbed h cts" and "hash_identifies (sha256 (host_build h)) (cts w) root"
  obtains w' rs where "run_state (discover_root h sc root) w = (Ok (mark_duplicate_sessions rs), w')" "cts w' = cts w"
    "list_all2 (recorded h) (filter (\<lambda>c. in_scope sc c \<and> has_root (sha256 (host_build h)) root c) (cts w)) rs"
proof -
  let ?sha = "sha256 (host_build h)" and ?scope = "scope_for_git_root (sha256 (host_build h)) root"
  let ?g = "\<lparr>gs_root = root, gs_hash = git_root_hash12 ?sha root\<rparr>"
  obtain w' rs where rs: "run_state (discover_io h ?scope sc) w
      = (finish_collector (fold collect_session rs (new_collector ?scope)), w')" "cts w' = cts w"
      "list_all2 (recorded h) (filter (inspected sc ?scope) (cts w)) rs"
    by (rule discover_records [OF assms(1,2)])
  have hash: "md_git_root_hash (ct_labels d) = Some v \<Longrightarrow> ct_root d = Some r' \<Longrightarrow> v = git_root_hash12 ?sha root \<longleftrightarrow> path_eq r' root"
    if "d \<in> set (cts w)" "agentbox_owned d" for d v r'
    using assms(3) that unfolding hash_identifies_def by blast
  have shown: "\<exists>d \<in> set (cts w). agentbox_owned d \<and> shows_container d r" if "r \<in> set rs" for r
    using shows_some [OF all_recorded_show [OF rs(3)] that] in_scope_agentbox by (auto simp: inspected_def)
  have "classify_session ?g r \<noteq> Collision root'" if "r \<in> set rs" for r root'
  proof -
    obtain d where "d \<in> set (cts w)" "agentbox_owned d" "shows_container d r" using shown \<open>r \<in> set rs\<close> by blast
    then show ?thesis using hash by (auto simp: classify_session_Collision shows_containerD)
  qed
  then have collisions: "filter_map (\<lambda>r. case classify_session ?g r of Collision root \<Rightarrow> Some root | _ \<Rightarrow> None) rs = []"
    by (auto simp: filter_map_eq_Nil split: scoped_session_candidate.splits)
  let ?ms = "filter (\<lambda>r. classify_session ?g r = Match r) rs"
  have "finish_collector (fold collect_session rs (new_collector ?scope)) = Ok (mark_duplicate_sessions ?ms)"
    using fold_collect_git_root [of "new_collector ?scope" ?g rs] collisions
    by (simp add: finish_collector_Ok new_collector_def scope_for_git_root_def)
  moreover have "list_all2 (recorded h) (filter (\<lambda>c. in_scope sc c \<and> has_root ?sha root c) (cts w)) ?ms"
  proof -
    have "list_all2 (recorded h) (filter (has_root ?sha root) (filter (inspected sc ?scope) (cts w))) ?ms"
      by (rule list_all2_filter [OF rs(3)])
        (auto simp: classify_session_Match shows_containerD has_root_def dest!: recorded_shows)
    moreover have "filter (has_root ?sha root) (filter (inspected sc ?scope) (cts w))
        = filter (\<lambda>c. in_scope sc c \<and> has_root ?sha root c) (cts w)"
      using hash in_scope_agentbox by (auto simp: inspected_def scope_for_git_root_def md_git_root_hash_def in_root_def
          has_root_def split: option.splits intro!: filter_cong)
    ultimately show ?thesis by simp
  qed
  ultimately show thesis using that rs(1,2) by (simp add: discover_root_def)
qed

lemma discover_root_all:
  assumes "podman_serves h cts" "undisturbed h cts" and "hash_identifies (sha256 (host_build h)) (cts w) root"
  obtains w' ss where "run_state (discover_sessions_of_root h root) w = (Ok ss, w')" "cts w' = cts w"
    "list_all2 shows_container (filter (claims_root (sha256 (host_build h)) root) (cts w)) ss"
proof -
  obtain w' rs where rs: "run_state (discover_root h AgentboxOwned root) w = (Ok (mark_duplicate_sessions rs), w')" "cts w' = cts w"
    "list_all2 (recorded h) (filter (\<lambda>c. in_scope AgentboxOwned c \<and> has_root (sha256 (host_build h)) root c) (cts w)) rs"
    by (rule discover_root_records [OF assms])
  then show thesis
    using that shows_marked [OF all_recorded_show [OF rs(3)]] by (simp add: discover_sessions_of_root_def claims_root_def [abs_def])
qed

lemma discover_root_shows:
  assumes "podman_serves h cts" "undisturbed h cts" and "hash_identifies (sha256 (host_build h)) (cts w) root"
  obtains w' ss where "run_state (discover_sessions_of_root h root) w = (Ok ss, w')" "cts w' = cts w"
    "list_all2 shows_container (filter (\<lambda>c. agentbox_owned c \<and> in_root root c) (cts w)) (exact_git_root_matches ss root)"
proof -
  let ?sha = "sha256 (host_build h)"
  obtain w' ss where ss: "run_state (discover_sessions_of_root h root) w = (Ok ss, w')" "cts w' = cts w"
      "list_all2 shows_container (filter (claims_root ?sha root) (cts w)) ss" by (rule discover_root_all [OF assms])
  have "list_all2 shows_container (filter (in_root root) (filter (claims_root ?sha root) (cts w)))
      (exact_git_root_matches ss root)"
    unfolding exact_git_root_matches_def by (rule shows_filter [OF ss(3)]) (simp add: shows_containerD)
  moreover have "filter (in_root root) (filter (claims_root ?sha root) (cts w))
      = filter (\<lambda>c. agentbox_owned c \<and> in_root root c) (cts w)"
    by (auto simp: claims_root_def has_root_def intro!: filter_cong)
  ultimately show thesis using that ss(1,2) by simp
qed

end
