(* ===== verification/StopEffect.thy ===== *)
theory StopEffect
  imports PodmanService
begin

text \<open>
  What \<open>agentbox stop\<close> does to the containers of a Podman that does what it documents: all running containers,
  and those of one workspace.
\<close>

section \<open>Stopping what runs\<close>

definition stoppable :: "podman_container \<Rightarrow> bool" where
  "stoppable c \<longleftrightarrow> agentbox_owned c \<and> ct_running c"

text \<open>An operation that ends with a result and turns the containers into others.\<close>

definition turns :: "('w \<Rightarrow> podman_container list) \<Rightarrow> ('w, 'a) io \<Rightarrow> 'w \<Rightarrow> 'a \<Rightarrow> podman_container list \<Rightarrow> bool" where
  "turns cts op w r cs \<longleftrightarrow> (\<exists>w'. run_state op w = (r, w') \<and> cts w' = cs)"

lemma turns_locked:
  assumes "undisturbed h cts" and "\<And>w'. cts w' = cts w \<Longrightarrow> turns cts op w' r cs"
  shows "turns cts (with_locked_git_root h root op) w r cs"
proof -
  let ?d = "git_root_digest64 (sha256 (host_build h)) root"
  obtain w1 where w1: "acquire_lock h ?d w = (Ok (), w1)" "cts w1 = cts w"
    using assms(1) unfolding undisturbed_def by blast
  obtain w2 where w2: "run_state op w1 = (r, w2)" "cts w2 = cs" using assms(2) [OF w1(2)] by (auto simp: turns_def)
  have "cts (snd (release_lock h ?d w2)) = cs" using assms(1) w2(2) by (simp add: undisturbed_def)
  then show ?thesis using w1(1) w2(1) by (auto simp: turns_def with_locked_git_root_def with_lock_def run_attempt split: prod.split)
qed

text \<open>Sessions that show some of the containers are cleaned up.\<close>

lemma turns_cleanup:
  assumes "podman_serves h cts" "undisturbed h cts" "list_all2 shows_container (filter Q (cts w)) ss"
    and "\<And>c. c \<in> set (cts w) \<Longrightarrow> Q c \<Longrightarrow> ct_running c \<and> ct_remove c"
  shows "turns cts (cleanup_managed_containers h ss) w [] (filter (\<lambda>c. \<not> Q c) (cts w))"
proof -
  have "distinct (filter Q (cts w))"
    using podman_servesD(1) [OF assms(1), of w] by (simp add: distinct_map)
  moreover have "filter (\<lambda>d. d \<notin> set (filter Q (cts w))) (cts w) = filter (\<lambda>c. \<not> Q c) (cts w)"
    by (intro filter_cong) auto
  ultimately show ?thesis
    using cleanup_containers_remove [OF assms(1-3), of w] assms(4) by (simp add: turns_def Ball_def subset_iff)
qed

lemma turns_root_cleanup:
  assumes "podman_serves h cts" "undisturbed h cts" "hash_identifies (sha256 (host_build h)) (cts w) root"
    and "\<And>c. c \<in> set (cts w) \<Longrightarrow> stoppable c \<Longrightarrow> ct_remove c"
  shows "turns cts (with_locked_git_root h root (scope_cleanup h RunningExactMatches root ss)) w (Ok [])
    (filter (\<lambda>c. \<not> (stoppable c \<and> in_root root c)) (cts w))"
proof (rule turns_locked [OF assms(2)])
  fix w0 assume w0: "cts w0 = cts w"
  obtain w1 sessions where disc: "run_state (discover_sessions_of_root h root) w0 = (Ok sessions, w1)" "cts w1 = cts w"
      "list_all2 shows_container (filter (\<lambda>c. agentbox_owned c \<and> in_root root c) (cts w))
        (exact_git_root_matches sessions root)"
    by (rule discover_root_shows [OF assms(1,2), of w0 root]) (use assms(3) w0 in auto)
  have "list_all2 shows_container (filter ct_running (filter (\<lambda>c. agentbox_owned c \<and> in_root root c) (cts w)))
      (filter container_running (exact_git_root_matches sessions root))"
    by (rule shows_filter [OF disc(3)]) (simp add: shows_containerD)
  then have "list_all2 shows_container (filter (\<lambda>c. stoppable c \<and> in_root root c) (cts w1))
      (filter container_running (exact_git_root_matches sessions root))"
    by (simp add: disc(2) stoppable_def conj_ac)
  from turns_cleanup [OF assms(1,2) this]
  have "turns cts (cleanup_managed_containers h (filter container_running (exact_git_root_matches sessions root)))
      w1 [] (filter (\<lambda>c. \<not> (stoppable c \<and> in_root root c)) (cts w))"
    using assms(4) disc(2) by (auto simp: stoppable_def)
  then show "turns cts (scope_cleanup h RunningExactMatches root ss) w0 (Ok [])
      (filter (\<lambda>c. \<not> (stoppable c \<and> in_root root c)) (cts w))"
    using disc(1) by (auto simp: turns_def cleanup_running_exact_matches_for_locked_root_def run_attempt run_map_io)
qed

lemma turns_groups_cleanup:
  assumes "podman_serves h cts" "undisturbed h cts"
    and "\<And>g. g \<in> set gs \<Longrightarrow> hash_identifies (sha256 (host_build h)) (cts w) (grp_root g)"
    and "\<And>c. c \<in> set (cts w) \<Longrightarrow> stoppable c \<Longrightarrow> ct_remove c"
  shows "turns cts (cleanup_rooted_session_groups h gs RunningExactMatches) w (Ok [])
    (filter (\<lambda>c. \<not> (stoppable c \<and> (\<exists>g \<in> set gs. in_root (grp_root g) c))) (cts w))"
  using assms(3,4)
proof (induction gs arbitrary: w)
  case (Cons g gs)
  obtain w1 where w1: "run_state (with_locked_git_root h (grp_root g)
        (scope_cleanup h RunningExactMatches (grp_root g) (grp_sessions g))) w = (Ok [], w1)"
      "cts w1 = filter (\<lambda>c. \<not> (stoppable c \<and> in_root (grp_root g) c)) (cts w)"
    using turns_root_cleanup [OF assms(1,2), of w "grp_root g" "grp_sessions g"] Cons.prems by (auto simp: turns_def)
  have "turns cts (cleanup_rooted_session_groups h gs RunningExactMatches) w1 (Ok [])
      (filter (\<lambda>c. \<not> (stoppable c \<and> (\<exists>g \<in> set gs. in_root (grp_root g) c))) (cts w1))"
  proof (rule Cons.IH)
    show "hash_identifies (sha256 (host_build h)) (cts w1) (grp_root g')" if "g' \<in> set gs" for g'
      by (rule hash_identifies_subset [of _ "cts w"]) (use that Cons.prems(1) in \<open>auto simp: w1(2)\<close>)
  qed (use Cons.prems(2) in \<open>auto simp: w1(2)\<close>)
  moreover have "filter (\<lambda>c. \<not> (stoppable c \<and> (\<exists>g \<in> set gs. in_root (grp_root g) c))) (cts w1)
      = filter (\<lambda>c. \<not> (stoppable c \<and> (\<exists>g \<in> set (g # gs). in_root (grp_root g) c))) (cts w)"
    unfolding w1(2) by (auto intro: filter_cong)
  ultimately show ?case using w1(1) by (auto simp: turns_def run_attempt run_map_io)
qed (simp add: turns_def)


section \<open>All running containers\<close>

lemma set_bt_insert: "set (bt_insert k v m) \<subseteq> insert (k, v) (set m)"
  by (induction k v m rule: bt_insert.induct) auto

lemma group_roots_from:
  assumes "\<And>k r xs. (k, r, xs) \<in> set m \<Longrightarrow> r \<in> R" "\<And>s r. s \<in> set ss \<Longrightarrow> sr_git_root s = Some r \<Longrightarrow> r \<in> R"
  shows "(k, r, xs) \<in> set (fst (partition_loop ss m un)) \<Longrightarrow> r \<in> R"
  using assms
proof (induction ss m un arbitrary: k r xs rule: partition_loop.induct)
  case (2 s ss m un)
  show ?case
  proof (cases "sr_git_root s")
    case None
    have "(k, r, xs) \<in> set (fst (partition_loop ss m (un @ [s])))" using "2.prems"(1) None by simp
    from "2.IH"(1) [OF None this] show ?thesis using "2.prems"(2,3) by (meson list.set_intros(2))
  next
    case (Some root)
    have "r' \<in> R" if "(k', r', xs') \<in> set (group_push root s m)" for k' r' xs'
    proof -
      have "root \<in> R" using "2.prems"(3) [OF _ Some] by simp
      moreover have "r'' \<in> R" if "bt_get m (components root) = Some (r'', ys)" for r'' ys
        using that "2.prems"(2) by (auto simp: bt_get_def dest: map_of_SomeD)
      ultimately show ?thesis
        using that "2.prems"(2) set_bt_insert unfolding group_push_def
        by (fastforce split: option.splits)
    qed
    then have pushed: "\<And>k' r' xs'. (k', r', xs') \<in> set (group_push root s m) \<Longrightarrow> r' \<in> R" .
    have "(k, r, xs) \<in> set (fst (partition_loop ss (group_push root s m) un))" using "2.prems"(1) Some by simp
    then show ?thesis by (rule "2.IH"(2) [OF Some]) (fact pushed, rule "2.prems"(3) [OF list.set_intros(2)])
  qed
qed auto

lemma group_root_of_session:
  assumes "g \<in> set (rooted (partition_sessions_by_git_root ss))"
  shows "\<exists>s \<in> set ss. sr_git_root s = Some (grp_root g)"
proof -
  have "grp_root g \<in> {r. \<exists>s \<in> set ss. sr_git_root s = Some r}"
  proof -
    obtain k xs where "(k, grp_root g, xs) \<in> set (fst (partition_loop ss [] []))"
      using assms by (force simp: partition_sessions_by_git_root_def split: prod.splits)
    then show ?thesis by (rule group_roots_from [rotated 2]) auto
  qed
  then show ?thesis by blast
qed

definition labels_identify_roots :: "(string \<Rightarrow> digest) \<Rightarrow> podman_container list \<Rightarrow> bool" where
  "labels_identify_roots sha cs \<longleftrightarrow>
     (\<forall>c \<in> set cs. \<forall>r. agentbox_owned c \<longrightarrow> ct_root c = Some r \<longrightarrow> hash_identifies sha cs r)"

text \<open>C15: \<open>agentbox stop --all\<close> implements the removal of every running container of agentbox. On a Podman
  that does what it documents, when the labels with the hashes of git roots identify the roots and running
  containers of agentbox were started with \<open>--rm\<close>, as agentbox does, it succeeds, and Podman's containers are
  exactly those before without the running ones of agentbox; no other container is touched.\<close>

theorem stop_all_refines:
  assumes "podman_serves h cts" and "undisturbed h cts"
    and "labels_identify_roots (sha256 (host_build h)) (cts w)"
    and "\<forall>c \<in> set (cts w). stoppable c \<longrightarrow> ct_remove c"
  shows "\<exists>w'. run_state (stop_all_running h) w = (Ok (), w') \<and> cts w' = filter (\<lambda>c. \<not> stoppable c) (cts w)"
proof -
  obtain w1 ss0 where disc: "run_state (discover_agentbox_containers h) w = (Ok ss0, w1)" "cts w1 = cts w"
      "list_all2 shows_container (filter agentbox_owned (cts w)) ss0"
    by (rule discover_all_shows [OF assms(1,2)])
  let ?ss = "filter container_running ss0"
  let ?p = "partition_sessions_by_git_root ?ss"
  have shown: "list_all2 shows_container (filter stoppable (cts w)) ?ss"
    using shows_filter [OF disc(3), of container_running ct_running]
    by (simp add: shows_containerD stoppable_def [abs_def])
  have "hash_identifies (sha256 (host_build h)) (cts w1) (grp_root g)" if "g \<in> set (rooted ?p)" for g
  proof -
    obtain s where s: "s \<in> set ?ss" "sr_git_root s = Some (grp_root g)" using group_root_of_session \<open>g \<in> _\<close> by blast
    obtain c where "c \<in> set (filter stoppable (cts w))" "shows_container c s" using shows_some [OF shown s(1)] by blast
    then show ?thesis
      using assms(3) s(2) unfolding disc(2) labels_identify_roots_def by (auto simp: stoppable_def shows_containerD)
  qed
  from turns_groups_cleanup [OF assms(1,2) this]
  obtain w2 where w2: "run_state (cleanup_rooted_session_groups h (rooted ?p) RunningExactMatches) w1 = (Ok [], w2)"
      "cts w2 = filter (\<lambda>c. \<not> (stoppable c \<and> (\<exists>g \<in> set (rooted ?p). in_root (grp_root g) c))) (cts w)"
    using assms(4) disc(2) unfolding turns_def by auto
  let ?Q = "\<lambda>c. stoppable c \<and> ct_root c = None"
  have no_group: "\<not> (\<exists>g \<in> set (rooted ?p). in_root (grp_root g) c)" if "ct_root c = None" for c
    using that by (simp add: in_root_def)
  have group: "\<exists>g \<in> set (rooted ?p). in_root (grp_root g) c" if c: "c \<in> set (cts w)" "stoppable c" "ct_root c \<noteq> None" for c
  proof -
    have "c \<in> set (filter stoppable (cts w))" using c by simp
    then obtain s where "s \<in> set ?ss" "shows_container c s" using shown_by_some [OF shown] by blast
    then obtain g where "g \<in> set (rooted ?p)" "path_eq (the (ct_root c)) (grp_root g)"
      using partition_facts(4) [of s ?ss "the (ct_root c)"] c(3) by (auto simp: shows_containerD)
    then show ?thesis using c(3) by (auto simp: in_root_def)
  qed
  have "list_all2 shows_container (filter ?Q (cts w2)) (unrooted ?p)"
  proof -
    have "list_all2 shows_container (filter (\<lambda>c. ct_root c = None) (filter stoppable (cts w))) (unrooted ?p)"
      unfolding partition_facts(1) by (rule shows_filter [OF shown]) (simp add: shows_containerD)
    moreover have "filter (\<lambda>c. ct_root c = None) (filter stoppable (cts w)) = filter ?Q (cts w2)"
      unfolding w2(2) filter_filter by (rule filter_cong) (use no_group in blast)+
    ultimately show ?thesis by simp
  qed
  from turns_cleanup [OF assms(1,2) this]
  obtain w3 where w3: "run_state (cleanup_managed_containers h (unrooted ?p)) w2 = ([], w3)"
      "cts w3 = filter (\<lambda>c. \<not> ?Q c) (cts w2)"
    using assms(4) by (auto simp: turns_def w2(2) stoppable_def)
  have rest: "cts w3 = filter (\<lambda>c. \<not> stoppable c) (cts w)"
    unfolding w3(2) w2(2) filter_filter by (rule filter_cong) (use group no_group in blast)+
  have "unrooted ?p = [] \<Longrightarrow> w3 = w2" using w3(1) by simp
  then show ?thesis
    using disc(1) w2(1) w3(1) rest
    by (auto simp: stop_all_running_def cleanup_all_running_matches_def Let_def run_attempt run_map_io finish_cleanup_def)
qed


section \<open>One workspace\<close>

lemma discover_target_shows:
  assumes "podman_serves h cts" "undisturbed h cts" "hash_identifies (sha256 (host_build h)) (cts w) root"
  obtains w' ss where "run_state (if scoped then discover_sessions_of_root h root else discover_agentbox_containers h) w
      = (Ok ss, w')" "cts w' = cts w"
    "list_all2 shows_container (filter (\<lambda>c. agentbox_owned c \<and> in_root root c) (cts w)) (exact_git_root_matches ss root)"
proof (cases scoped)
  case True
  show thesis by (rule discover_root_shows [OF assms]) (use True that in simp)
next
  case False
  obtain w' ss where ss: "run_state (discover_agentbox_containers h) w = (Ok ss, w')" "cts w' = cts w"
      "list_all2 shows_container (filter agentbox_owned (cts w)) ss"
    by (rule discover_all_shows [OF assms(1,2)])
  have "list_all2 shows_container (filter (in_root root) (filter agentbox_owned (cts w))) (exact_git_root_matches ss root)"
    unfolding exact_git_root_matches_def by (rule shows_filter [OF ss(3)]) (simp add: shows_containerD)
  then show thesis using that False ss(1,2) by (simp add: conj_commute)
qed

lemma stop_exact_effect:
  assumes "podman_serves h cts" and "undisturbed h cts"
    and "hash_identifies (sha256 (host_build h)) (cts w) (se_git_root plan)"
    and "\<forall>c \<in> set (cts w). agentbox_owned c \<and> in_root (se_git_root plan) c \<longrightarrow> ct_running c \<and> ct_remove c"
  defines "n \<equiv> length (filter (\<lambda>c. agentbox_owned c \<and> in_root (se_git_root plan) c) (cts w))"
  shows "\<exists>r w'. run_state (stop_exact_git_root_matches h plan force tgt) w = (r, w')
    \<and> (if n = 1 \<or> 1 < n \<and> force
       then r = Ok () \<and> cts w' = filter (\<lambda>c. \<not> (agentbox_owned c \<and> in_root (se_git_root plan) c)) (cts w)
       else (\<exists>e. r = Err e) \<and> cts w' = cts w)"
proof -
  let ?root = "se_git_root plan" and ?Q = "\<lambda>c. agentbox_owned c \<and> in_root (se_git_root plan) c"
  define r where "r = and_then (require_non_empty_matches plan (replicate n undefined)) (\<lambda>_. and_then (require_force_for_matches plan n force tgt)
      (\<lambda>_. Ok ([] :: container_cleanup_failure list)))"
  have "turns cts (stop_exact_locked h plan force tgt) w0 r
      (if r = Ok [] then filter (\<lambda>c. \<not> ?Q c) (cts w) else cts w)" if w0: "cts w0 = cts w" for w0
  proof -
    obtain w1 ss where ss: "run_state (if uses_locked_root_scope plan then discover_sessions_of_root h ?root
          else discover_agentbox_containers h) w0 = (Ok ss, w1)" "cts w1 = cts w"
        "list_all2 shows_container (filter ?Q (cts w)) (exact_git_root_matches ss ?root)"
      by (rule discover_target_shows [OF assms(1,2), of w0 ?root]) (use assms(3) w0 in auto)
    have len: "length (exact_git_root_matches ss ?root) = n"
      using list_all2_lengthD [OF ss(3)] by (simp add: n_def)
    then have none: "exact_git_root_matches ss ?root = [] \<longleftrightarrow> n = 0" by auto
    have "turns cts (cleanup_managed_containers h (exact_git_root_matches ss ?root)) w1 []
        (filter (\<lambda>c. \<not> ?Q c) (cts w))"
      using turns_cleanup [OF assms(1,2), of ?Q w1] ss(2,3) assms(4) by auto
    then show ?thesis
      using ss(1,2) len none
      by (auto simp: turns_def stop_exact_locked_def run_attempt Let_def r_def exact_matches_from_def
          require_non_empty_matches_def require_force_for_matches_def require_force_for_duplicate_matches_def
          cleanup_selected_sessions_def run_map_io split del: if_split split: if_splits)
  qed
  from turns_locked [OF assms(2) this, of w ?root]
  obtain w' where w': "run_state (with_locked_git_root h ?root (stop_exact_locked h plan force tgt)) w = (r, w')"
      "cts w' = (if r = Ok [] then filter (\<lambda>c. \<not> ?Q c) (cts w) else cts w)"
    unfolding turns_def by blast
  have ok: "r = Ok [] \<longleftrightarrow> n = 1 \<or> 1 < n \<and> force" and "r = Ok [] \<or> (\<exists>e. r = Err e)"
    by (auto simp: r_def require_non_empty_matches_def require_force_for_matches_def
        require_force_for_duplicate_matches_def)
  from this(2) show ?thesis
  proof (elim disjE exE)
    assume "r = Ok []"
    then show ?thesis
      using w' ok by (auto simp: stop_exact_git_root_matches_def run_attempt finish_cleanup_def)
  next
    fix e assume "r = Err e"
    then show ?thesis using w' ok by (auto simp: stop_exact_git_root_matches_def run_attempt)
  qed
qed

text \<open>C16: stopping a workspace removes exactly agentbox's containers of its git root. When these run and were
  started with \<open>--rm\<close>, and the label with the hash identifies the root, the command succeeds and leaves all other
  containers as they are if there is one container, or there are several and the stop is forced; if there is none,
  or there are several without force, it fails and leaves every container as it is.\<close>

theorem stop_workspace_refines:
  assumes "podman_serves h cts" and "undisturbed h cts"
    and "hash_identifies (sha256 (host_build h)) (cts w) (se_git_root plan)"
    and "\<forall>c \<in> set (cts w). agentbox_owned c \<and> in_root (se_git_root plan) c \<longrightarrow> ct_running c \<and> ct_remove c"
  defines "n \<equiv> length (filter (\<lambda>c. agentbox_owned c \<and> in_root (se_git_root plan) c) (cts w))"
  shows "\<exists>r w'. run_state (stop_exact_git_root_matches h plan force tgt) w = (r, w')
    \<and> (if n = 1 \<or> 1 < n \<and> force
       then r = Ok () \<and> cts w' = filter (\<lambda>c. \<not> (agentbox_owned c \<and> in_root (se_git_root plan) c)) (cts w)
       else (\<exists>e. r = Err e) \<and> cts w' = cts w)"
  unfolding n_def by (rule stop_exact_effect [OF assms(1-4)])

section \<open>Instances\<close>

text \<open>A Podman with one container that agentbox started in \<open>/w\<close>, with a given hash label; it is there in the
  state 0, and gone afterwards.\<close>

definition sample_ct :: "string \<Rightarrow> podman_container" where
  "sample_ct hash = \<lparr>ct_id = ''c1'', ct_name = ''n1'', ct_remove = True,
     ct_inspect = sample_inspect [(LABEL_CONTAINER_KIND, LABEL_CONTAINER_KIND_TRANSIENT_RUN_VALUE),
       (LABEL_GIT_ROOT, ''/w''), (LABEL_GIT_ROOT_HASH, hash)]\<rparr>"

definition sample_cts :: "string \<Rightarrow> nat \<Rightarrow> podman_container list" where
  "sample_cts hash t = (if t = 0 then [sample_ct hash] else [])"

definition sample_podman :: "string \<Rightarrow> nat host" where
  "sample_podman hash = (sample_host [] (ct_inspect (sample_ct hash)))\<lparr>
     run_process := (\<lambda>argv t.
       if argv = podman_argv [''stop'', ''--ignore'', ''n1''] then (Inr ok_output, 1)
       else (Inr (ok_output\<lparr>po_stdout :=
         if t = 0 \<and> ''--filter'' \<notin> set argv then ''c'' else []\<rparr>), t)),
     run_inherited := (\<lambda>argv t.
       (Inr (Exited (if argv = podman_argv [''container'', ''exists'', ''n1''] \<and> t = 0 then 0 else 1)), t)),
     ps_of_json := (\<lambda>out. Inr (if out = ''c'' then [listed (sample_ct hash)] else []))\<rparr>"

lemma sample_ct_fields [simp]:
  "ct_id (sample_ct hash) = ''c1''" "ct_name (sample_ct hash) = ''n1''" "ct_remove (sample_ct hash)"
  "ct_running (sample_ct hash)"
  by (simp_all add: sample_ct_def sample_inspect_def)

lemma w_not_blank [simp]: "\<not> blank ''/w''"
  by (simp add: is_absolute_not_blank)

lemma sample_ct_labels:
  "ct_root (sample_ct hash) = Some ''/w''" "agentbox_owned (sample_ct hash)" "stoppable (sample_ct hash)"
  "\<not> blank hash \<Longrightarrow> md_git_root_hash (ct_labels (sample_ct hash)) = Some hash"
  by (auto simp: sample_ct_def ct_root_def md_canonical_git_root_def md_git_root_hash_def required_label_value_def
      bt_get_def agentbox_owned_def stoppable_def sample_inspect_def agentbox_container_kind_from_labels_def)

lemma sample_ct_unmanaged: "\<not> labelled_managed (sample_ct hash)"
  by (simp add: labelled_managed_def sample_ct_def sample_inspect_def bt_get_def)

lemma sample_podman_serves: "podman_serves (sample_podman hash) (sample_cts hash)"
  unfolding podman_serves_def answers_def
  by (auto simp: sample_podman_def sample_cts_def sample_host_def ok_output_def podman_argv_def stopped_def sample_ct_unmanaged)

lemma sample_podman_undisturbed: "undisturbed (sample_podman hash) (sample_cts hash)"
  by (auto simp: undisturbed_def sample_podman_def sample_host_def)


lemma sample_identifies: "hash_identifies (\<lambda>_. 0) (sample_cts (replicate 12 CHR ''0'') 0) ''/w''"
  by (simp add: hash_identifies_def sample_cts_def sample_ct_labels path_eq_def)

lemma stop_all_refines_witness:
  "\<exists>w'. run_state (stop_all_running (sample_podman (replicate 12 CHR ''0''))) 0 = (Ok (), w')
     \<and> sample_cts (replicate 12 CHR ''0'') w' = []"
proof -
  let ?z = "replicate 12 CHR ''0''"
  have labels: "labels_identify_roots (sha256 (host_build (sample_podman ?z))) (sample_cts ?z 0)"
    using sample_identifies by (simp add: labels_identify_roots_def sample_podman_def sample_host_def sample_build_def
        sample_cts_def sample_ct_labels)
  have "\<forall>c \<in> set (sample_cts ?z 0). stoppable c \<longrightarrow> ct_remove c" by (simp add: sample_cts_def)
  from stop_all_refines [OF sample_podman_serves sample_podman_undisturbed labels this]
  show ?thesis by (simp add: sample_cts_def sample_ct_labels)
qed

lemma stop_workspace_refines_witness:
  "\<exists>w'. run_state (stop_exact_git_root_matches (sample_podman (replicate 12 CHR ''0'')) sample_plan False
       (CliTarget ''/w'')) 0 = (Ok (), w') \<and> sample_cts (replicate 12 CHR ''0'') w' = []"
proof -
  let ?z = "replicate 12 CHR ''0''"
  have root: "hash_identifies (sha256 (host_build (sample_podman ?z))) (sample_cts ?z 0) (se_git_root sample_plan)"
    using sample_identifies by (simp add: sample_podman_def sample_host_def sample_build_def sample_plan_def)
  have "\<forall>c \<in> set (sample_cts ?z 0). agentbox_owned c \<and> in_root (se_git_root sample_plan) c \<longrightarrow> ct_running c \<and> ct_remove c"
    by (simp add: sample_cts_def)
  from stop_workspace_refines [OF sample_podman_serves sample_podman_undisturbed root this]
  show ?thesis
    by (fastforce simp: sample_cts_def sample_ct_labels in_root_def path_eq_def sample_plan_def)
qed

text \<open>The labels matter: a running container whose hash label is not the hash of its root is found by the first
  discovery of \<open>stop --all\<close>, but not by the one under the lock of its root; the command succeeds and the
  container keeps running.\<close>

lemma stop_all_misses_mislabelled:
  "\<exists>w'. run_state (stop_all_running (sample_podman ''x'')) 0 = (Ok (), w')
     \<and> sample_cts ''x'' w' = [sample_ct ''x''] \<and> stoppable (sample_ct ''x'')"
proof -
  let ?h = "sample_podman ''x''" and ?c = "sample_ct ''x''"
  have kind: "agentbox_container_kind_from_labels (ct_labels ?c) = Some Run"
    by (simp add: sample_ct_def sample_inspect_def agentbox_container_kind_from_labels_def required_label_value_def bt_get_def)
  have ps: "run_state (podman_ps_all ?h) 0 = (Ok [listed ?c], 0)" "run_state (inspect_one ?h n) 0 = (Ok (ct_inspect ?c), 0)" for n
    by (simp_all add: podman_ps_all_def inspect_one_def run_json_def run_quiet_def capture_def run_attempt
        sample_podman_def sample_host_def ok_output_def podman_argv_def)
  have host: "root_probe ?h t = (sample_probe, t)" "acquire_lock ?h d t = (Ok (), t)" "release_lock ?h d t = ((), t)"
      "sha256 (host_build ?h) = (\<lambda>_. 0)" for d t
    by (simp_all add: sample_podman_def sample_host_def sample_build_def)
  obtain s where s: "s = build_session_record (\<lambda>_. 0) sample_probe (listed ?c) (ct_inspect ?c) Run" by blast
  have fields: "container_running s" "sr_git_root s = Some ''/w''"
    using sample_ct_labels(1) [of "''x''"] by (simp_all add: s sr_git_root_def ct_root_def)
  have all: "run_state (discover_agentbox_containers ?h) 0 = (Ok [s], 0)"
    by (simp add: discover_agentbox_containers_def discover_io_def run_attempt ps host kind new_collector_def
        collect_session_def finish_collector_def mark_single s)
  have "md_git_root_hash (ct_labels ?c) = Some ''x''" by (rule sample_ct_labels) (simp add: not_blank_graphic_hd is_ascii_graphic_def byte_of_def)
  moreover have "''x'' \<noteq> replicate 12 CHR ''0''" by (auto dest: arg_cong [where f = length])
  ultimately have "run_state (discover_sessions_of_root ?h ''/w'') 0 = (Ok [], 0)"
    by (simp add: discover_sessions_of_root_def discover_root_def discover_io_def run_attempt ps host kind
        new_collector_def scope_for_git_root_def md_git_root_hash_def finish_collector_def mark_duplicate_sessions_def
        sort_dedup_def)
  then have "run_state (stop_all_running ?h) 0 = (Ok (), 0)"
    by (simp add: stop_all_running_def run_attempt all fields cleanup_all_running_matches_def Let_def
        partition_sessions_by_git_root_def group_push_def with_locked_git_root_def with_lock_def host run_map_io
        cleanup_running_exact_matches_for_locked_root_def exact_git_root_matches_def finish_cleanup_def)
  then show ?thesis by (simp add: sample_cts_def sample_ct_labels)
qed

end
