(* ===== verification/LaunchEffect.thy ===== *)
theory LaunchEffect
  imports StopEffect StartRunLaws LaunchLaws
begin

text \<open>
  What preparing and launching a server do to the containers of a Podman that does what it documents, on a host
  where nothing else fails.
\<close>

section \<open>The host\<close>

text \<open>An operation that leaves the containers alone, with a result of a kind.\<close>

definition keeps :: "('w \<Rightarrow> 'c) \<Rightarrow> ('a \<Rightarrow> bool) \<Rightarrow> ('w \<Rightarrow> 'a \<times> 'w) \<Rightarrow> bool" where
  "keeps cts P f \<longleftrightarrow> (\<forall>w. cts (snd (f w)) = cts w \<and> P (fst (f w)))"

lemma keepsD: "keeps cts P f \<Longrightarrow> \<exists>x w'. f w = (x, w') \<and> P x \<and> cts w' = cts w"
  unfolding keeps_def by (metis prod.collapse)

abbreviation succeeds :: "'a res \<Rightarrow> bool" where
  "succeeds r \<equiv> \<exists>x. r = Ok x"

text \<open>The host has what a launch needs; the client leaves the containers alone.\<close>

definition can_prepare ::
  "'w host \<Rightarrow> ('w \<Rightarrow> podman_container list) \<Rightarrow> agentbox_config \<Rightarrow> target_host \<Rightarrow> runtime_kind \<Rightarrow> bool" where
  "can_prepare h cts config fs runtime \<longleftrightarrow>
     keeps cts (\<lambda>x. x = config) (load_config h)
   \<and> keeps cts (\<lambda>x. x = fs) (filesystem h)
   \<and> (\<forall>m. keeps cts succeeds (preflight h runtime m))
   \<and> (\<forall>t r. keeps cts succeeds (resolve_dev_env h t r))
   \<and> (\<forall>p. keeps cts (\<lambda>b. b) (find_program h p))
   \<and> (\<forall>r. keeps cts succeeds (ensure_image h runtime r))
   \<and> keeps cts succeeds (random_token h)
   \<and> (\<forall>d v. keeps cts succeeds (write_token_file h d v))
   \<and> (\<forall>g r. keeps cts (\<lambda>_. True) (host_passthrough h g r))
   \<and> keeps cts succeeds (install_sigint h)
   \<and> (\<forall>i t. keeps cts (\<lambda>_. True) (run_client h i t))
   \<and> (\<forall>name. keeps cts (\<lambda>r. r \<in> {Inr (Exited 0), Inr (Exited 1)})
        (run_inherited h (podman_argv [''volume'', ''exists'', name])))"

lemma can_prepareD:
  assumes "can_prepare h cts config fs runtime"
  shows "\<exists>w'. load_config h w = (config, w') \<and> cts w' = cts w"
    "\<exists>w'. filesystem h w = (fs, w') \<and> cts w' = cts w"
    "\<exists>x w'. preflight h runtime m w = (Ok x, w') \<and> cts w' = cts w"
    "\<exists>x w'. resolve_dev_env h t r w = (Ok x, w') \<and> cts w' = cts w"
    "\<exists>w'. find_program h p w = (True, w') \<and> cts w' = cts w"
    "\<exists>x w'. ensure_image h runtime r w = (Ok x, w') \<and> cts w' = cts w"
    "\<exists>x w'. random_token h w = (Ok x, w') \<and> cts w' = cts w"
    "\<exists>w'. write_token_file h d v w = (Ok (), w') \<and> cts w' = cts w"
    "\<exists>x w'. host_passthrough h g r w = (x, w') \<and> cts w' = cts w"
    "\<exists>w'. install_sigint h w = (Ok (), w') \<and> cts w' = cts w"
    "\<exists>r w'. run_client h i token w = (r, w') \<and> cts w' = cts w"
    "\<exists>x w'. run_inherited h (podman_argv [''volume'', ''exists'', name]) w = (Inr (Exited x), w')
       \<and> x \<in> {0, 1} \<and> cts w' = cts w"
  using assms unfolding can_prepare_def by (fastforce dest!: spec keepsD [where w = w])+

text \<open>A container that runs as a specification says.\<close>

definition runs_spec :: "string \<Rightarrow> runtime_run_spec \<Rightarrow> podman_container \<Rightarrow> bool" where
  "runs_spec name spec c \<longleftrightarrow> ct_name c = name \<and> ct_remove c \<and> ct_running c
     \<and> ct_labels c = cr_labels (rn_create spec)
     \<and> (\<forall>m \<in> set (cr_mounts (rn_create spec)). rm_is_volume m \<longrightarrow>
          has_volume_mount_destination (insp_mounts (ct_inspect c)) (rm_destination m))
     \<and> (\<forall>a ip. published_port a ip \<in> set (cr_published_ports (rn_create spec)) \<longrightarrow>
          (\<exists>p. bt_get (ns_ports (insp_network (ct_inspect c))) (tcp_port_key a)
             = Some (Some [\<lparr>pb_host_ip = Some ip, pb_host_port = Some (show_u16 p)\<rparr>])))"

text \<open>\<open>podman run --detach --rm\<close> under a name that is free; \<open>up c\<close> is the time from which the server in the
  container \<open>c\<close> answers, at most \<open>boot\<close> after the call.\<close>

definition starts ::
  "'w host \<Rightarrow> ('w \<Rightarrow> podman_container list) \<Rightarrow> ('w \<Rightarrow> nat) \<Rightarrow> nat \<Rightarrow> (podman_container \<Rightarrow> nat) \<Rightarrow> string
     \<Rightarrow> runtime_run_spec \<Rightarrow> bool" where
  "starts h cts clock boot up name spec \<longleftrightarrow> (\<forall>w. name \<notin> ct_name ` set (cts w) \<longrightarrow>
     (\<exists>c. runs_spec name spec c \<and> up c \<le> clock w + boot
        \<and> answers h cts (run_detached_args name spec (primary_gid h)) w (\<lambda>_. True) (c # cts w)))"

text \<open>Nobody interrupts, looking at a container takes at most \<open>delay\<close>, and the server in it answers once it is up.\<close>

definition responds ::
  "'w host \<Rightarrow> ('w \<Rightarrow> podman_container list) \<Rightarrow> ('w \<Rightarrow> nat) \<Rightarrow> nat \<Rightarrow> (podman_container \<Rightarrow> nat) \<Rightarrow> string
     \<Rightarrow> runtime_kind \<Rightarrow> bool" where
  "responds h cts clock delay up name runtime \<longleftrightarrow>
     (\<forall>w b w'. interrupted h w = (b, w') \<longrightarrow> \<not> b \<and> cts w' = cts w \<and> clock w' \<le> clock w + delay)
   \<and> (\<forall>w t w'. clock_now h w = (t, w') \<longrightarrow> cts w' = cts w \<and> clock w' \<le> clock w + delay)
   \<and> (\<forall>d w u w'. clock_sleep h d w = (u, w') \<longrightarrow> cts w' = cts w \<and> clock w' \<le> clock w + d + delay)
   \<and> (\<forall>w r w'. run_state (inspect_one h name) w = (r, w') \<longrightarrow> clock w' \<le> clock w + delay)
   \<and> (\<forall>w. \<forall>c \<in> set (cts w). \<forall>e v w'. ct_name c = name \<longrightarrow>
        published_attach_endpoint (insp_network (ct_inspect c)) (runtime_attach_spec runtime) = Ok (Some e) \<longrightarrow>
        run_state (host_probe h runtime e) w = (v, w') \<longrightarrow>
        cts w' = cts w \<and> clock w' \<le> clock w + delay \<and> (up c \<le> clock w \<longrightarrow> is_healthy v))"

section \<open>The server\<close>

lemma server_comes_up:
  assumes "podman_serves h cts" "responds h cts clock delay up (container_name w) runtime" "clock_advances h clock"
    and "c \<in> set C" "ct_name c = container_name w" "ct_running c"
    and "published_attach_endpoint (insp_network (ct_inspect c)) (runtime_attach_spec runtime) = Ok (Some e)"
    and "endpoint_in_context ctx runtime (ct_inspect c) = Ok e"
  shows "comes_up h (\<lambda>s. cts s = C) clock (2 * delay) (up c) w runtime ctx e"
proof -
  have poll: "cts s' = C \<and> clock s' \<le> clock s + 2 * delay \<and> (\<exists>st. r = Ok st \<and> (\<forall>e'. st = EndpointReady e' \<longrightarrow> e' = e))
      \<and> (up c \<le> clock s \<longrightarrow> r = Ok (EndpointReady e))"
    if s: "cts s = C" and r: "run_state (poll_server h w runtime ctx) s = (r, s')" for s r s'
  proof -
    obtain s1 where s1: "run_state (inspect_one h (container_name w)) s = (Ok (ct_inspect c), s1)" "cts s1 = C"
      using serves_inspect [OF assms(1), of c s "container_name w"] assms(4,5) s by auto
    have d1: "clock s1 \<le> clock s + delay" "clock s \<le> clock s1"
      using assms(2) s1(1) state_io_relD [OF later_inspect_one [OF assms(3)] s1(1)] unfolding responds_def by auto
    obtain v s2 where s2: "run_state (host_probe h runtime e) s1 = (v, s2)" by force
    have "cts s2 = C \<and> clock s2 \<le> clock s1 + delay \<and> (up c \<le> clock s1 \<longrightarrow> is_healthy v)"
      using assms(2,4,5,7) s1(2) s2 unfolding responds_def by metis
    then show ?thesis
      using r s1(1) s2 d1 assms(6,8) by (cases ctx) (auto simp: poll_server_def inspect_server_endpoint_def endpoint_in_context_def)
  qed
  have steps: "interrupted h s = (b, s') \<Longrightarrow> \<not> b \<and> cts s' = cts s \<and> clock s' \<le> clock s + delay"
    "clock_now h s = (t, s') \<Longrightarrow> cts s' = cts s \<and> clock s' \<le> clock s + delay"
    "clock_sleep h d s = (u, s') \<Longrightarrow> cts s' = cts s \<and> clock s' \<le> clock s + d + delay" for s s' b t d u
    using assms(2) unfolding responds_def by blast+
  show ?thesis
    unfolding comes_up_def
    by (intro conjI allI impI; (drule poll, assumption)?; (drule steps(1))?; (drule steps(2))?; (drule steps(3))?; force)
qed

section \<open>The container\<close>

lemma published_port_of_run:
  assumes "runs_spec name spec c" "cr_published_ports (rn_create spec) = [published_port a DEFAULT_HOST_ATTACH_IP]"
  shows "\<exists>e. published_attach_endpoint (insp_network (ct_inspect c)) a = Ok (Some e)"
proof -
  obtain p where "bt_get (ns_ports (insp_network (ct_inspect c))) (tcp_port_key a)
      = Some (Some [\<lparr>pb_host_ip = Some DEFAULT_HOST_ATTACH_IP, pb_host_port = Some (show_u16 p)\<rparr>])"
    using assms unfolding runs_spec_def by force
  then show ?thesis
    by (simp add: published_attach_endpoint_def published_host_port_def usable_binding_def)
qed

lemma runtime_str_inject [simp]: "runtime_str j = runtime_str k \<longleftrightarrow> j = k"
  by (cases j; cases k) simp_all

lemma running_has_endpoint:
  assumes "status (build_session_record sha probe p i kind) = Running" "label (insp_labels i) LABEL_RUNTIME = Some (runtime_str k)"
  shows "\<exists>e. published_attach_endpoint (insp_network i) (runtime_attach_spec k) = Ok (Some e)
    \<and> endpoint_in_context ManagedContext k i = Ok e"
proof -
  obtain t e where "label (insp_labels i) LABEL_RUNTIME = Some (runtime_str k)"
     "label (insp_labels i) LABEL_ATTACH_SCHEME = Some (as_scheme (runtime_attach_spec k))"
     "label (insp_labels i) LABEL_CONTAINER_PORT = Some t" "parse_u16 t = Some (container_port (runtime_attach_spec k))"
     "label (insp_labels i) LABEL_CONTAINER_LISTEN_IP = Some (container_listen_ip (runtime_attach_spec k))"
    and e: "published_attach_endpoint (insp_network i) (runtime_attach_spec k) = Ok (Some e)"
    using assms unfolding running_session_facts by auto
  then have "attach_from_session_labels (insp_labels i) = Inr \<lparr>al_runtime = k, al_attach = runtime_attach_spec k\<rparr>"
    unfolding attach_from_session_labels_Ok by blast
  then show ?thesis using e by (simp add: endpoint_in_context_def discover_attach_endpoint_from_inspect_def derive_attach_endpoint_def)
qed

lemma root_may_exist: "\<exists>probe. \<not> git_root_is_orphaned probe root"
  by (rule exI [of _ "\<lparr>gp_canonicalize = Some, gp_is_directory = (\<lambda>_. True), gp_has_git_marker = (\<lambda>_. True),
      gp_rev_parse_show_toplevel = (\<lambda>_. None)\<rparr>"]) (simp add: git_root_is_orphaned_def path_eq_def)

text \<open>The container of a prepared launch is the running session of its workspace.\<close>

lemma started_session:
  assumes "run_state (prepare_runtime_launch h rq) s = (Ok prep, s')"
    and "lp_run_mode (rq_policy rq) = ManagedSessionMode"
    and w: "resolve_workspace_identity (sha256 (host_build h)) fs directory = Ok (rq_workspace rq)"
      "is_absolute (canonical_target (rq_workspace rq))" "is_absolute (canonical_git_root (rq_workspace rq))"
    and c: "runs_spec name (rlp_run_spec prep) c"
  shows "\<not> git_root_is_orphaned probe (canonical_git_root (rq_workspace rq)) \<Longrightarrow>
      status (build_session_record (sha256 (host_build h)) probe (listed c) (ct_inspect c) kind) = Running"
    and "label (ct_labels c) LABEL_GIT_ROOT = Some (canonical_git_root (rq_workspace rq))"
    and "label (ct_labels c) LABEL_GIT_ROOT_HASH = Some (hash12 (rq_workspace rq))"
    and "agentbox_owned c"
    and "label (ct_labels c) LABEL_RUNTIME = Some (runtime_str (rq_runtime rq))"
    and "\<exists>e. published_attach_endpoint (insp_network (ct_inspect c)) (runtime_attach_spec (rq_runtime rq)) = Ok (Some e)
      \<and> endpoint_in_context ManagedContext (rq_runtime rq) (ct_inspect c) = Ok e"
proof -
  note ids = launched_identity [OF assms(1,2), of "ct_inspect c"]
  have labels: "ct_labels c = cr_labels (rn_create (rlp_run_spec prep))" using c by (simp add: runs_spec_def)
  have vol: "has_volume_mount_destination (insp_mounts (ct_inspect c)) NIX_CACHE_DESTINATION"
    using c launched_mounts_and_ports(1) [OF assms(1)]
    by (force simp: runs_spec_def volume_mount_def rm_is_volume_def)
  obtain e where net: "published_attach_endpoint (insp_network (ct_inspect c)) (runtime_attach_spec (rq_runtime rq)) = Ok (Some e)"
    using published_port_of_run [OF c launched_mounts_and_ports(2) [OF assms(1)]] assms(2)
    by (auto simp: publishes_attach_endpoint_def)
  have run: "ct_running c" using c by (simp add: runs_spec_def)
  note running = managed_labels_running [OF w ids [OF labels] net vol run]
  show "\<not> git_root_is_orphaned probe (canonical_git_root (rq_workspace rq)) \<Longrightarrow>
      status (build_session_record (sha256 (host_build h)) probe (listed c) (ct_inspect c) kind) = Running"
    by (rule running(1))
  obtain there where there: "\<not> git_root_is_orphaned there (canonical_git_root (rq_workspace rq))" using root_may_exist by blast
  note here = running [OF there]
  show "label (ct_labels c) LABEL_RUNTIME = Some (runtime_str (rq_runtime rq))" by (rule here(3))
  show "\<exists>e. published_attach_endpoint (insp_network (ct_inspect c)) (runtime_attach_spec (rq_runtime rq)) = Ok (Some e)
      \<and> endpoint_in_context ManagedContext (rq_runtime rq) (ct_inspect c) = Ok e"
    by (rule running_has_endpoint [OF here(1,3)])
  from here(1) show "agentbox_owned c"
      "label (ct_labels c) LABEL_GIT_ROOT_HASH = Some (hash12 (rq_workspace rq))"
    unfolding running_session_facts
    using here(2) resolve_workspace_identity_Ok(3) [OF w(1)]
    by (auto simp: agentbox_owned_def require_agentbox_container_marker_def split: option.splits)
  show "label (ct_labels c) LABEL_GIT_ROOT = Some (canonical_git_root (rq_workspace rq))" by (rule here(2))
qed

section \<open>Preparing\<close>

text \<open>No container has the name of the workspace, and none of agentbox's claims its root.\<close>

definition unused :: "(string \<Rightarrow> digest) \<Rightarrow> workspace_identity \<Rightarrow> podman_container list \<Rightarrow> bool" where
  "unused sha w cs \<longleftrightarrow> container_name w \<notin> ct_name ` set cs
     \<and> (\<forall>c \<in> set cs. agentbox_owned c \<longrightarrow> \<not> in_root (canonical_git_root w) c
          \<and> md_git_root_hash (ct_labels c) \<noteq> Some (git_root_hash12 sha (canonical_git_root w)))"

lemma unused_identifies: "unused sha w cs \<Longrightarrow> hash_identifies sha cs (canonical_git_root w)"
  by (auto simp: unused_def hash_identifies_def in_root_def split: option.splits)

lemma finds_nothing:
  assumes "podman_serves h cts" "undisturbed h cts" "unused (sha256 (host_build h)) ws (cts w)"
  shows "\<exists>w'. run_state (ensure_required_resources_absent h ws (RequireAbsent AgentboxContainers)) w = (Ok (), w')
    \<and> cts w' = cts w"
proof -
  let ?root = "canonical_git_root ws"
  obtain w' ss where ss: "run_state (discover_sessions_of_root h ?root) w = (Ok ss, w')" "cts w' = cts w"
      "list_all2 shows_container (filter (claims_root (sha256 (host_build h)) ?root) (cts w)) ss"
    by (rule discover_root_all [OF assms(1,2) unused_identifies [OF assms(3)]])
  have "filter (claims_root (sha256 (host_build h)) ?root) (cts w) = []"
    using assms(3) by (auto simp: unused_def claims_root_def has_root_def filter_empty_conv)
  then have "ss = []" using ss(3) by simp
  then show ?thesis
    using ss(1,2) by (simp add: ensure_required_resources_absent_def discover_existing_resources_def
        discover_sessions_of_root_def run_attempt select_existing_resource_def)
qed

lemma client_found:
  assumes "can_prepare h cts config fs runtime"
  shows "\<exists>w'. run_state (ensure_host_runtime_client_available h runtime) w = (Ok (), w') \<and> cts w' = cts w"
proof -
  let ?a = "runtime_attach_spec runtime"
  have "host_client_command runtime \<lparr>scheme = as_scheme ?a, host_ip = DEFAULT_HOST_ATTACH_IP, host_port = container_port ?a\<rparr> \<noteq> []"
    by (cases runtime) (simp_all add: host_client_command_def opencode_profile_def codex_profile_def)
  then obtain prog rest where prog: "host_client_command runtime
      \<lparr>scheme = as_scheme ?a, host_ip = DEFAULT_HOST_ATTACH_IP, host_port = container_port ?a\<rparr> = prog # rest"
    by (meson neq_Nil_conv)
  obtain w' where "find_program h prog w = (True, w')" "cts w' = cts w" using can_prepareD(5) [OF assms] by blast
  then show ?thesis using prog by (simp add: ensure_host_runtime_client_available_def Let_def run_map_io)
qed

lemma token_prepared:
  assumes "can_prepare h cts config fs runtime" "mode \<noteq> Foreground"
  obtains token w' where "run_state (prepare_codex_attach_token h runtime mode ws) w = (Ok token, w')" "cts w' = cts w"
    "runtime = Codex \<longrightarrow> token \<noteq> None"
proof (cases "runtime = Codex")
  case True
  note can = can_prepareD [OF assms(1)]
  obtain bytes u where u: "random_token h w = (Ok bytes, u)" "cts u = cts w" using can(7) by metis
  let ?t = "token_from_value (sha256 (host_build h)) (hex_lower bytes)"
  obtain w' where "write_token_file h (digest64 ws) (token_value ?t) u = (Ok (), w')" "cts w' = cts w"
    using can(8) [of "digest64 ws" "token_value ?t" u] u(2) by auto
  then show thesis
    using that True u assms(2) by (cases mode)
      (auto simp: prepare_codex_attach_token_def create_managed_def generate_token_def run_map_io run_attempt)
qed (use that in \<open>simp add: prepare_codex_attach_token_def\<close>)

lemma prepares:
  assumes "podman_serves h cts" "undisturbed h cts" "can_prepare h cts config fs (rq_runtime rq)"
    and "rq_invocation rq = ServerInvocation" "lp_run_mode (rq_policy rq) \<noteq> Foreground"
    and "lp_existing_check (rq_policy rq) = AllowExisting
      \<or> lp_existing_check (rq_policy rq) = RequireAbsent AgentboxContainers
        \<and> unused (sha256 (host_build h)) (rq_workspace rq) (cts w)"
  shows "\<exists>prep w'. run_state (prepare_runtime_launch h rq) w = (Ok prep, w') \<and> cts w' = cts w
    \<and> (rq_runtime rq = Codex \<longrightarrow> rlp_token prep \<noteq> None)"
proof -
  note can = can_prepareD [OF assms(3)]
  let ?ws = "rq_workspace rq" and ?runtime = "rq_runtime rq" and ?policy = "rq_policy rq"
  obtain report w1 where w1: "preflight h ?runtime (lp_run_mode ?policy) w = (Ok report, w1)" "cts w1 = cts w" using can(3) by blast
  obtain w2 where w2: "run_state (ensure_required_resources_absent h ?ws (lp_existing_check ?policy)) w1 = (Ok (), w2)"
      "cts w2 = cts w"
    using finds_nothing [OF assms(1,2), of ?ws w1] assms(6) w1(2) by (auto simp: ensure_required_resources_absent_def)
  obtain dev w3 where w3: "run_state (case rq_dev_env_mode rq of DevNone \<Rightarrow> pure (Ok NoDevEnv)
         | DevAuto \<Rightarrow> State (resolve_dev_env h (canonical_target ?ws) (canonical_git_root ?ws))) w2 = (Ok dev, w3)" "cts w3 = cts w"
    using can(4) w2(2) by (cases "rq_dev_env_mode rq") fastforce+
  obtain w4 where w4: "run_state (if lp_host_client_required ?policy then ensure_host_runtime_client_available h ?runtime
         else pure (Ok ())) w3 = (Ok (), w4)" "cts w4 = cts w"
    using client_found [OF assms(3), of w3] w3(2) by (cases "lp_host_client_required ?policy") auto
  obtain version w5 where w5: "ensure_image h ?runtime (canonical_git_root ?ws) w4 = (Ok version, w5)" "cts w5 = cts w"
    using can(6) w4(2) by metis
  let ?cp = "\<lparr>clp_preflight = report, clp_dev_env = dev, clp_image_version = version\<rparr>"
  have cp: "run_state (prepare_container_launch_for_workspace h ?ws ?runtime (rq_dev_env_mode rq) ?policy) w = (Ok ?cp, w5)"
    using w1(1) w2(1) w3(1) w4(1) w5(1) by (simp add: prepare_container_launch_for_workspace_def run_attempt)
  obtain token w6 where w6: "run_state (prepare_codex_attach_token h ?runtime (lp_run_mode ?policy) ?ws) w5 = (Ok token, w6)"
      "cts w6 = cts w" "?runtime = Codex \<longrightarrow> token \<noteq> None"
    by (rule token_prepared [OF assms(3,5), of ?ws w5]) (use that w5(2) in auto)
  obtain inv' where inv': "build_runtime_invocation ServerInvocation ?runtime ?ws dev token (rq_server_args rq) = Ok inv'"
    using w6(3) by (cases "?runtime = Codex"; cases token) (auto simp: build_runtime_invocation_def server_runtime_command_def)
  obtain extra w7 where "host_passthrough h (rq_git_identity rq) (canonical_git_root ?ws) w6 = (extra, w7)" "cts w7 = cts w"
    using can(9) w6(2) by metis
  then show ?thesis
    using cp w6 inv' assms(4) by (simp add: prepare_runtime_launch_def run_attempt Let_def)
qed

section \<open>Launching\<close>

text \<open>The bounds of the wait: booting the server, six steps of at most two delays each and one interval.\<close>

lemma launches:
  assumes "podman_serves h cts" "can_prepare h cts config fs runtime" "clock_advances h clock"
    and "responds h cts clock delay up (container_name ws) runtime" "451 \<le> fuel"
    and "boot + 12 * delay + SERVER_READINESS_POLL_INTERVAL < SERVER_READINESS_TIMEOUT"
    and "starts h cts clock boot up (container_name ws) spec" "container_name ws \<notin> ct_name ` set (cts w)"
    and "\<And>c. runs_spec (container_name ws) spec c \<Longrightarrow>
      \<exists>e. published_attach_endpoint (insp_network (ct_inspect c)) (runtime_attach_spec runtime) = Ok (Some e)
        \<and> endpoint_in_context (lc_readiness_context lc) runtime (ct_inspect c) = Ok e"
    and "detached_lifecycle h lc"
  shows "\<exists>e w' c. run_state (launch_detached_server fuel h ws runtime spec lc) w = (Some (Ok e), w')
    \<and> cts w' = c # cts w \<and> runs_spec (container_name ws) spec c
    \<and> published_attach_endpoint (insp_network (ct_inspect c)) (runtime_attach_spec runtime) = Ok (Some e)"
proof -
  obtain w1 where w1: "install_sigint h w = (Ok (), w1)" "cts w1 = cts w" using can_prepareD(10) [OF assms(2)] by blast
  obtain c where c: "runs_spec (container_name ws) spec c" "up c \<le> clock w1 + boot"
      "answers h cts (run_detached_args (container_name ws) spec (primary_gid h)) w1 (\<lambda>_. True) (c # cts w)"
    using assms(7,8) w1(2) unfolding starts_def by metis
  obtain out err w2 where run: "run_process h (podman_argv (run_detached_args (container_name ws) spec (primary_gid h))) w1
      = (Inr \<lparr>po_stdout = out, po_stderr = err, po_status = Exited 0\<rparr>, w2)" and w2: "cts w2 = c # cts w"
    using c(3) unfolding answers_def by blast
  have started: "run_state (run_detached h (container_name ws) spec) w1 = (Ok (), w2)"
    using run by (simp add: run_detached_def run_quiet_def capture_def run_map_io)
  have flag: "\<exists>v'. run_state (lc_check_interrupted lc) v = (Ok (), v') \<and> cts v' = cts v \<and> clock v \<le> clock v'" for v
  proof -
    obtain b v' where b: "interrupted h v = (b, v')" by force
    then have "\<not> b" "cts v' = cts v" using assms(4) unfolding responds_def by blast+
    moreover have "clock v \<le> clock v'" using assms(3) b unfolding clock_advances_def by blast
    ultimately show ?thesis using b detached_lifecycle.not_interrupted [OF assms(10), of v v'] by simp
  qed
  obtain w3 where w3: "run_state (lc_check_interrupted lc) w2 = (Ok (), w3)" "cts w3 = c # cts w" "clock w2 \<le> clock w3"
    using flag [of w2] w2 by auto
  have "clock w1 \<le> clock w2" using assms(3) run unfolding clock_advances_def by blast
  then have in_time: "max (up c) (clock w3) + 6 * (2 * delay) + SERVER_READINESS_POLL_INTERVAL
      < clock w3 + SERVER_READINESS_TIMEOUT"
    using c(2) w3(3) assms(6) by (simp add: max_def)
  let ?ctx = "lc_readiness_context lc"
  obtain e where e: "published_attach_endpoint (insp_network (ct_inspect c)) (runtime_attach_spec runtime) = Ok (Some e)"
      "endpoint_in_context ?ctx runtime (ct_inspect c) = Ok e" using assms(9) [OF c(1)] by blast
  have "ct_name c = container_name ws" "ct_running c" using c(1) by (simp_all add: runs_spec_def)
  note server = server_comes_up [OF assms(1,4,3) _ this e, of "c # cts w"]
  obtain r w4 where w4: "run_state (wait_for_server_endpoint fuel h ws runtime ?ctx) w3 = (Some r, w4)"
    and ready: "\<And>I delay up e. \<lbrakk> comes_up h I clock delay up ws runtime ?ctx e; I w3;
       max up (clock w3) + 6 * delay + SERVER_READINESS_POLL_INTERVAL < clock w3 + SERVER_READINESS_TIMEOUT \<rbrakk>
     \<Longrightarrow> r = Ok (WaitReady e) \<and> I w4"
    by (rule wait_returns [OF assms(3,5), where s = w3 and w = ws and runtime = runtime and ctx = ?ctx])
      (rule that, assumption, blast)
  have up: "r = Ok (WaitReady e)" "cts w4 = c # cts w" using ready [OF server _ in_time] w3(2) by auto
  obtain w5 where w5: "run_state (lc_check_interrupted lc) w4 = (Ok (), w5)" "cts w5 = c # cts w"
    using flag [of w4] up(2) by auto
  show ?thesis
    using w1(1) started w3(1) w4 up(1) w5 c(1) e(1)
    by (simp add: launch_detached_server_def run_attempt_loop run_once)
qed

end
