(* ===== verification/SampleLaunch.thy ===== *)
theory SampleLaunch
  imports LaunchEffect
begin

text \<open>
  A Podman on which one container of \<open>/w\<close> can be started, for the instances of what commands do to containers.
\<close>

section \<open>The host\<close>

text \<open>The container has the labels \<open>m\<close>; the state is the time and whether it is there.\<close>

definition live_ct :: "labels \<Rightarrow> podman_container" where
  "live_ct m = \<lparr>ct_id = ''c1'', ct_name = container_name sample_workspace, ct_remove = True,
     ct_inspect = (sample_server Opencode)\<lparr>insp_labels := m\<rparr>\<rparr>"

definition live_cts :: "labels \<Rightarrow> nat \<times> bool \<Rightarrow> podman_container list" where
  "live_cts m = (\<lambda>(t, b). if b then [live_ct m] else [])"

definition live_podman :: "labels \<Rightarrow> (nat \<times> bool) host" where
  "live_podman m = (idle_host sample_build)\<lparr>
     run_process := (\<lambda>argv (t, b).
       if take 2 argv = [''podman'', ''run''] then (Inr ok_output, (t, True))
       else if argv = podman_argv [''stop'', ''--ignore'', container_name sample_workspace] then (Inr ok_output, (t, False))
       else (Inr (ok_output\<lparr>po_stdout :=
         if b \<and> (''--filter'' \<in> set argv \<longrightarrow> labelled_managed (live_ct m)) then ''c'' else []\<rparr>), (t, b))),
     run_inherited := (\<lambda>argv (t, b). (Inr (Exited
       (if argv = podman_argv [''container'', ''exists'', container_name sample_workspace] \<and> b then 0 else 1)), (t, b))),
     run_client := (\<lambda>i tok s. (Ok (Exited 0), s)),
     install_sigint := (\<lambda>s. (Ok (), s)),
     clock_now := (\<lambda>s. (fst s, s)),
     clock_sleep := (\<lambda>d (t, b). ((), (t + d, b))),
     connect := (\<lambda>e p s. (Some [ok_reply], s)),
     random_token := (\<lambda>s. (Ok [], s)),
     write_token_file := (\<lambda>d v s. (Ok (), s)),
     read_token_file := (\<lambda>d s. (Ok (Some ''t''), s)),
     preflight := (\<lambda>k m s. (Ok \<lparr>pf_host_nix_mounts = [], pf_runtime_mounts = [], pf_runtime_environment = []\<rparr>, s)),
     resolve_dev_env := (\<lambda>a b s. (Ok NoDevEnv, s)),
     ensure_image := (\<lambda>k p s. (Ok None, s)),
     acquire_lock := (\<lambda>d s. (Ok (), s)),
     ps_of_json := (\<lambda>out. Inr (if out = ''c'' then [listed (live_ct m)] else [])),
     inspect_of_json := (\<lambda>_. Inr [ct_inspect (live_ct m)]), healthy_flag := (\<lambda>_. Some True), args_to_json := concat\<rparr>"

lemmas live_simps = live_podman_def idle_host_def live_cts_def ok_output_def

lemma live_ct_fields [simp]:
  "ct_id (live_ct m) = ''c1''" "ct_name (live_ct m) = container_name sample_workspace" "ct_remove (live_ct m)" "ct_running (live_ct m)"
  "ct_labels (live_ct m) = m"
  by (simp_all add: live_ct_def sample_server_def)

lemma live_serves: "podman_serves (live_podman m) (live_cts m)"
  unfolding podman_serves_def answers_def
  by (auto simp: live_simps podman_argv_def stopped_def)

lemma live_undisturbed: "undisturbed (live_podman m) (live_cts m)"
  by (auto simp: undisturbed_def live_simps)

lemma live_can_prepare: "can_prepare (live_podman m) (live_cts m) empty_config sample_fs Opencode"
  by (auto simp: can_prepare_def keeps_def live_simps podman_argv_def)

lemma live_clock: "clock_advances (live_podman m) fst"
  unfolding clock_advances_def by (auto simp: live_simps split: if_splits)

lemma live_steps:
  "interrupted (live_podman m) s = (False, s)" "clock_now (live_podman m) s = (fst s, s)"
  "clock_sleep (live_podman m) d s = ((), (fst s + d, snd s))"
  "connect (live_podman m) e p s = (Some [ok_reply], s)" "healthy_flag (live_podman m) t = Some True"
  by (cases s; simp add: live_simps)+

lemma live_healthy: "run_state (host_probe (live_podman m) runtime e) s = (Healthy, s)"
  by (cases "response_policy (profile runtime)")
    (simp_all add: host_probe_def run_map_io live_steps ok_reply_def probe_check_def endpoint_connection_health_def
      get_response_def sample_read_response health_response_status_def Let_def)

lemma live_inspect: "run_state (inspect_one (live_podman m) name) s = (Ok (ct_inspect (live_ct m)), s)"
  by (cases s) (simp add: inspect_one_def run_json_def run_quiet_def capture_def run_attempt live_simps podman_argv_def)

lemma live_responds: "responds (live_podman m) (live_cts m) fst 0 (\<lambda>_. 0) name Opencode"
  unfolding responds_def by (auto simp: live_steps live_inspect live_healthy live_cts_def split: if_splits)

lemma published_port_inject:
  assumes "published_port a ip = published_port b ip'"
  shows "ip = ip' \<and> tcp_port_key a = tcp_port_key b"
proof -
  have digits: "takeWhile (\<lambda>c. c \<noteq> CHR '':'') (rev (ip @ ''::'' @ show_u16 n)) = rev (show_u16 n)" for ip n
  proof -
    have "\<forall>c \<in> set (show_u16 n). c \<noteq> CHR '':''"
      using show_nat_digits [of "unat n"] unfolding show_u16_def by (auto simp: list_all_iff is_ascii_digit_def byte_of_def)
    then show ?thesis by (simp add: takeWhile_append)
  qed
  have "show_u16 (container_port a) = show_u16 (container_port b)"
    using assms digits [of ip "container_port a"] digits [of ip' "container_port b"] by (simp add: published_port_def)
  then show ?thesis using assms by (simp add: published_port_def tcp_port_key_def)
qed

definition live_args :: launch_args where
  "live_args = \<lparr>la_dev_env = DevNone, la_limits = no_limits, la_directory = ''/w'', la_agent_args = []\<rparr>"

section \<open>Its containers\<close>

text \<open>What a launch of a server prepares on this host.\<close>

lemma live_prepared:
  assumes "run_state (prepare_runtime_launch (live_podman m) rq) s = (Ok prep, s')"
  obtains inv' where "rlp_run_spec prep = record_managed_resource_limits (rq_policy rq)
    (apply_passthrough \<lparr>pt_mounts = [], pt_env = []\<rparr> (extend_create_default_env []
      (run_spec sample_build concat (rq_runtime rq) (lp_run_mode (rq_policy rq)) (rq_workspace rq) [] [] inv'
        (rq_server_args rq) (rq_resource_limits rq))))"
proof -
  obtain cp :: container_launch_preparation and extra inv' s1 s2 s3 where
    cp: "run_state (prepare_container_launch_for_workspace (live_podman m) (rq_workspace rq) (rq_runtime rq)
      (rq_dev_env_mode rq) (rq_policy rq)) s = (Ok cp, s1)"
    and extra: "host_passthrough (live_podman m) (rq_git_identity rq) (canonical_git_root (rq_workspace rq)) s2 = (extra, s3)"
    and spec: "rlp_run_spec prep = record_managed_resource_limits (rq_policy rq)
        (record_runtime_image_version (rq_runtime rq) (clp_image_version cp) (rq_policy rq)
          (apply_passthrough extra (extend_create_default_env (pf_runtime_environment (clp_preflight cp))
            (run_spec (host_build (live_podman m)) (args_to_json (live_podman m)) (rq_runtime rq) (lp_run_mode (rq_policy rq))
              (rq_workspace rq) (pf_host_nix_mounts (clp_preflight cp)) (pf_runtime_mounts (clp_preflight cp))
              inv' (rq_server_args rq) (rq_resource_limits rq)))))"
    by (rule prepared_spec [OF assms]) (erule that)
  have "clp_image_version cp = None"
      "clp_preflight cp = \<lparr>pf_host_nix_mounts = [], pf_runtime_mounts = [], pf_runtime_environment = []\<rparr>"
    using cp by (auto simp: prepare_container_launch_for_workspace_def result_simps live_podman_def)
  moreover have "extra = \<lparr>pt_mounts = [], pt_env = []\<rparr>" using extra by (simp add: live_podman_def idle_host_def)
  moreover have "host_build (live_podman m) = sample_build" "args_to_json (live_podman m) = concat"
    by (simp_all add: live_podman_def idle_host_def)
  moreover have "record_runtime_image_version (rq_runtime rq) None (rq_policy rq) r = r" for r
    by (simp add: record_runtime_image_version_def)
  ultimately have "rlp_run_spec prep = record_managed_resource_limits (rq_policy rq)
    (apply_passthrough \<lparr>pt_mounts = [], pt_env = []\<rparr> (extend_create_default_env []
      (run_spec sample_build concat (rq_runtime rq) (lp_run_mode (rq_policy rq)) (rq_workspace rq) [] [] inv'
        (rq_server_args rq) (rq_resource_limits rq))))" using spec by simp
  then show thesis by (rule that)
qed

lemma live_starts:
  assumes "run_state (prepare_runtime_launch (live_podman m) rq) s = (Ok prep, s')"
    and "rq_workspace rq = sample_workspace" "rq_runtime rq = Opencode" "publishes_attach_endpoint (lp_run_mode (rq_policy rq))"
    and "cr_labels (rn_create (rlp_run_spec prep)) = m"
  shows "starts (live_podman m) (live_cts m) fst 0 (\<lambda>_. 0) (container_name sample_workspace) (rlp_run_spec prep)"
proof -
  obtain inv' where spec: "rlp_run_spec prep = record_managed_resource_limits (rq_policy rq)
    (apply_passthrough \<lparr>pt_mounts = [], pt_env = []\<rparr> (extend_create_default_env []
      (run_spec sample_build concat (rq_runtime rq) (lp_run_mode (rq_policy rq)) (rq_workspace rq) [] [] inv'
        (rq_server_args rq) (rq_resource_limits rq))))" by (rule live_prepared [OF assms(1)])
  have mounts: "cr_mounts (rn_create (rlp_run_spec prep)) = runtime_mounts_for_workspace sample_workspace [] []"
    unfolding spec by (simp add: assms(2))
  have ports: "cr_published_ports (rn_create (rlp_run_spec prep))
      = [published_port (runtime_attach_spec Opencode) DEFAULT_HOST_ATTACH_IP]"
    using launched_mounts_and_ports(2) [OF assms(1,4)] by (simp add: assms(3))
  have "runs_spec (container_name sample_workspace) (rlp_run_spec prep) (live_ct m)"
    unfolding runs_spec_def mounts ports
    by (auto simp: assms(5) live_ct_def sample_server_def runtime_mounts_for_workspace_def has_volume_mount_destination_def
        volume_mount_def bind_mount_def rm_is_volume_def bt_get_def DEFAULT_HOST_ATTACH_IP_def
        dest!: published_port_inject)
  moreover have "answers (live_podman m) (live_cts m) (run_detached_args name spec gid) s (\<lambda>_. True) [live_ct m]" for name spec gid s
    using run_detached_argv [of name spec gid] by (cases s) (simp add: answers_def live_simps)
  ultimately show ?thesis
    unfolding starts_def by (auto simp: live_cts_def split: if_splits prod.splits)
qed

section \<open>A managed session\<close>

definition live_labels :: labels where
  "live_labels = bt_insert LABEL_RESOURCE_LIMIT_MEMORY ''0'' (bt_insert LABEL_RESOURCE_LIMIT_CPUS ''0''
     (managed_session_labels concat (label_input_from_workspace sample_workspace
       (default_image sample_build Opencode) Opencode [])))"

lemma live_ct_labels:
  "ct_root (live_ct live_labels) = Some ''/w''" "in_scope ManagedSessions (live_ct live_labels)"
  "md_git_root_hash live_labels = Some (git_root_hash12 (\<lambda>_. 0) ''/w'')"
proof -
  have "hash12 sample_workspace = git_root_hash12 (\<lambda>_. 0) ''/w''"
    using resolve_workspace_identity_Ok(3) [OF sample_resolve] by simp
  moreover have "label live_labels n = label (managed_session_labels concat (label_input_from_workspace
      sample_workspace (default_image sample_build Opencode) Opencode [])) n"
    if "n \<noteq> LABEL_RESOURCE_LIMIT_MEMORY" "n \<noteq> LABEL_RESOURCE_LIMIT_CPUS" for n
    using that by (simp add: live_labels_def label_simps)
  ultimately show "ct_root (live_ct live_labels) = Some ''/w''" "in_scope ManagedSessions (live_ct live_labels)"
      "md_git_root_hash live_labels = Some (git_root_hash12 (\<lambda>_. 0) ''/w'')"
    by (simp_all add: ct_root_def md_canonical_git_root_def md_git_root_hash_def in_scope_def label_names
        agentbox_container_kind_from_labels_def label_managed_session_labels label_runtime_server_container_labels
        get_runtime_server_container_labels label_input_from_workspace_def)
qed

lemmas live_owned = in_scope_agentbox [OF live_ct_labels(2)] in_scope_managed [OF live_ct_labels(2)]

end
