(* ===== verification/StartEffect.thy ===== *)
theory StartEffect
  imports SampleLaunch
begin

text \<open>
  What \<open>agentbox start\<close> does to the containers of a Podman that does what it documents, on a host where nothing
  else fails: it adds one, which discovery finds as the running session of the workspace, and which
  \<open>agentbox stop\<close> takes away again.
\<close>

section \<open>Starting\<close>

lemma managed_request_simps [simp]:
  "rq_workspace (managed_server_launch_request w k mode c args l) = w"
  "rq_runtime (managed_server_launch_request w k mode c args l) = k"
  "lp_run_mode (rq_policy (managed_server_launch_request w k mode c args l)) = ManagedSessionMode"
  "rq_server_args (managed_server_launch_request w k mode c args l) = args"
  "rq_resource_limits (managed_server_launch_request w k mode c args l) = l"
  "rq_invocation (managed_server_launch_request w k mode c args l) = ServerInvocation"
  "lp_existing_check (rq_policy (managed_server_launch_request w k mode c args l)) = RequireAbsent AgentboxContainers"
  by (simp_all add: managed_server_launch_request_def server_launch_request_def managed_server_policy_def)

text \<open>All of \<open>agentbox start\<close> on a workspace that is not in use.\<close>

lemma start_effect:
  assumes "podman_serves h cts" "undisturbed h cts" "can_prepare h cts config fs runtime" "clock_advances h clock"
    and "responds h cts clock delay up (container_name ws) runtime" "451 \<le> fuel"
    and "boot + 12 * delay + SERVER_READINESS_POLL_INTERVAL < SERVER_READINESS_TIMEOUT"
    and w: "resolve_workspace_identity (sha256 (host_build h)) (host_fs.truncate fs) (la_directory args) = Ok ws"
      "is_absolute (canonical_target ws)" "is_absolute (canonical_git_root ws)"
    and starts: "\<And>prep s s'. run_state (prepare_runtime_launch h (managed_server_launch_request ws runtime
        (la_dev_env args) connect_after (la_agent_args args)
        (overlay (default_resource_limits config) (la_limits args)))) s = (Ok prep, s') \<Longrightarrow> starts h cts clock boot up (container_name ws) (rlp_run_spec prep)"
    and client: "\<And>i t. connect_after \<Longrightarrow> keeps cts (\<lambda>r. r = Ok (Exited 0)) (run_client h i t)"
    and unused: "unused (sha256 (host_build h)) ws (cts w)"
  shows "\<exists>w' c rq prep s s'. run_state (start_run fuel h runtime args connect_after) w = (Some (Ok ()), w')
    \<and> cts w' = c # cts w \<and> rq_workspace rq = ws \<and> lp_run_mode (rq_policy rq) = ManagedSessionMode
    \<and> run_state (prepare_runtime_launch h rq) s = (Ok prep, s') \<and> runs_spec (container_name ws) (rlp_run_spec prep) c"
proof -
  note can = can_prepareD [OF assms(3)]
  obtain w1 where w1: "load_config h w = (config, w1)" "cts w1 = cts w" using can(1) by blast
  obtain w2 where w2: "filesystem h w1 = (fs, w2)" "cts w2 = cts w" using can(2) w1(2) by metis
  obtain w3 where w3: "acquire_lock h (digest64 ws) w2 = (Ok (), w3)" "cts w3 = cts w"
    using assms(2) w2(2) unfolding undisturbed_def by metis
  define limits where "limits = overlay (default_resource_limits config) (la_limits args)"
  define rq where "rq = managed_server_launch_request ws runtime (la_dev_env args) connect_after (la_agent_args args) limits"
  have rq: "rq_workspace rq = ws" "rq_runtime rq = runtime" "lp_run_mode (rq_policy rq) = ManagedSessionMode"
    by (simp_all add: rq_def)
  obtain prep w4 where w4: "run_state (prepare_runtime_launch h rq) w3 = (Ok prep, w4)" "cts w4 = cts w"
      "runtime = Codex \<longrightarrow> rlp_token prep \<noteq> None"
    using prepares [OF assms(1,2), of config fs rq w3] assms(3) unused w3(2) rq by (auto simp: rq_def)
  obtain x w5 where x: "run_inherited h (podman_argv [''volume'', ''exists'', container_name ws]) w4 = (Inr (Exited x), w5)"
      "x \<in> {0, 1}" and kept: "cts w5 = cts w" using can(12) [of "container_name ws" w4] w4(2) by auto
  define existed where "existed \<longleftrightarrow> x = 0"
  have w5: "run_state (volume_exists h (container_name ws)) w4 = (Ok existed, w5)" "cts w5 = cts w"
    using x kept by (auto simp: volume_exists_def exists_status_def command_status_def run_attempt existed_def)
  let ?policy = "start_launch_policy h ws existed"
  let ?lc = "managed_lifecycle h ws (rlp_run_spec prep) ?policy"
  have lc: "detached_lifecycle h ?lc" by (rule started.detached_lifecycle_axioms)
  have endpoint: "\<exists>e. published_attach_endpoint (insp_network (ct_inspect c)) (runtime_attach_spec runtime) = Ok (Some e)
      \<and> endpoint_in_context (lc_readiness_context ?lc) runtime (ct_inspect c) = Ok e"
    if "runs_spec (container_name ws) (rlp_run_spec prep) c" for c
    using started_session(6) [OF w4(1) rq(3) _ _ _ that] w by (simp add: rq(1,2) managed_lifecycle_def)
  have "container_name ws \<notin> ct_name ` set (cts w5)" using unused by (simp add: unused_def w5(2))
  from launches [OF assms(1,3-7) starts [OF w4(1) [unfolded rq_def limits_def]] this endpoint lc]
  obtain e w6 c where w6: "run_state (launch_detached_server fuel h ws runtime (rlp_run_spec prep) ?lc) w5
        = (Some (Ok e), w6)"
      "cts w6 = c # cts w" and c: "runs_spec (container_name ws) (rlp_run_spec prep) c"
    by (auto simp: w5(2))
  let ?done = "\<lparr>mc_kind = CompletionStart, mc_connect = connect_after,
     mc_client_launch_directory = canonical_target ws, mc_retry_target = requested_target ws\<rparr>"
  obtain w7 where w7: "run_state (finish_managed_server_launch h ?done ws runtime e (rlp_token prep)) w6 = (Ok (), w7)"
      "cts w7 = c # cts w"
  proof (cases connect_after)
    case True
    obtain t where t: "required_codex_client_token runtime (rlp_token prep) = Ok t"
      using w4(3) by (cases "runtime = Codex"; cases "rlp_token prep") (auto simp: required_codex_client_token_def)
    obtain w7 where "run_client h (host_client_runtime_command runtime e (canonical_target ws) []) t w6 = (Ok (Exited 0), w7)"
        "cts w7 = cts w6" using keepsD [OF client [OF True]] by blast
    then show thesis
      using that True t w6(2) by (simp add: finish_managed_server_launch_def run_host_runtime_client_def
          run_host_runtime_client_status_def run_attempt run_map_io)
  qed (use that w6(2) in \<open>simp add: finish_managed_server_launch_def\<close>)
  have "cts (snd (release_lock h (digest64 ws) w7)) = c # cts w" using assms(2) w7(2) by (simp add: undisturbed_def)
  moreover have "run_state (start_run fuel h runtime args connect_after) w
      = (Some (Ok ()), snd (release_lock h (digest64 ws) w7))"
    using w1(1) w2(1) w3(1) w4(1) w5(1) w6(1) w7(1) w(1)
    by (simp add: start_run_def with_locked_workspace_loop_def host_workspace_def with_lock_loop_def
        execute_managed_launch_def run_attempt_loop run_once rq_def limits_def Let_def split: prod.split)
  ultimately show ?thesis using rq(1,3) w4(1) c by blast
qed

section \<open>Starting and stopping\<close>


section \<open>A workspace in use\<close>

lemma existing_session_reported:
  assumes "podman_serves h cts" "c \<in> set (cts w)" "shows_container c s"
  shows "\<exists>e w'. run_state (existing_session_error h ws s) w = (e, w') \<and> cts w' = cts w"
proof -
  obtain w' where "run_state (inspect_one h (sr_container_name s)) w = (Ok (ct_inspect c), w')" "cts w' = cts w"
    using serves_inspect [OF assms(1,2), of "sr_container_name s"] assms(3) by (auto simp: shows_container_def)
  then show ?thesis
    by (auto simp: existing_session_error_def split: session_status.split option.split)
qed

lemma finds_conflict:
  assumes "podman_serves h cts" "undisturbed h cts"
    and "hash_identifies (sha256 (host_build h)) (cts w) (canonical_git_root ws)"
    and "c \<in> set (cts w)" "claims_root (sha256 (host_build h)) (canonical_git_root ws) c"
  shows "\<exists>e w'. run_state (ensure_required_resources_absent h ws (RequireAbsent AgentboxContainers)) w = (Err e, w')
    \<and> cts w' = cts w"
proof -
  let ?root = "canonical_git_root ws"
  obtain w1 ss where ss: "run_state (discover_sessions_of_root h ?root) w = (Ok ss, w1)" "cts w1 = cts w"
      "list_all2 shows_container (filter (claims_root (sha256 (host_build h)) ?root) (cts w)) ss"
    by (rule discover_root_all [OF assms(1-3)])
  obtain s where "s \<in> set ss" using shown_by_some [OF ss(3), of c] assms(4,5) by auto
  then consider "\<exists>e. select_existing_resource ss ws AgentboxContainers = Err e" | "ss = [s]"
    by (cases ss rule: remdups_adj.cases) (auto simp: select_existing_resource_def)
  then show ?thesis
  proof cases
    case 1
    then show ?thesis
      using ss(1,2) by (auto simp: ensure_required_resources_absent_def discover_existing_resources_def
          discover_sessions_of_root_def run_attempt)
  next
    case 2
    obtain d where "d \<in> set (cts w1)" "shows_container d s"
      using shows_some [OF ss(3) \<open>s \<in> set ss\<close>] ss(2) by auto
    from existing_session_reported [OF assms(1) this, of ws] obtain e w2 where
      "run_state (existing_session_error h ws s) w1 = (e, w2)" "cts w2 = cts w1" by blast
    then show ?thesis
      using ss(1,2) 2 by (simp add: ensure_required_resources_absent_def discover_existing_resources_def
          discover_sessions_of_root_def run_attempt select_existing_resource_def run_map_io)
  qed
qed

lemma prepare_refused:
  assumes "podman_serves h cts" "undisturbed h cts" "can_prepare h cts config fs (rq_runtime rq)"
    and "hash_identifies (sha256 (host_build h)) (cts w) (canonical_git_root (rq_workspace rq))"
    and "c \<in> set (cts w)" "claims_root (sha256 (host_build h)) (canonical_git_root (rq_workspace rq)) c"
    and "lp_existing_check (rq_policy rq) = RequireAbsent AgentboxContainers"
  shows "\<exists>e w'. run_state (prepare_runtime_launch h rq) w = (Err e, w') \<and> cts w' = cts w"
proof -
  obtain report w1 where w1: "preflight h (rq_runtime rq) (lp_run_mode (rq_policy rq)) w = (Ok report, w1)" "cts w1 = cts w"
    using can_prepareD(3) [OF assms(3)] by blast
  obtain e w2 where "run_state (ensure_required_resources_absent h (rq_workspace rq)
      (RequireAbsent AgentboxContainers)) w1 = (Err e, w2)" "cts w2 = cts w1"
    using finds_conflict [OF assms(1,2), of w1 "rq_workspace rq" c] assms(4-6) w1(2) by auto
  then show ?thesis
    using w1 assms(7) by (simp add: prepare_runtime_launch_def prepare_container_launch_for_workspace_def
        run_attempt Let_def)
qed


section \<open>An instance\<close>

lemma live_managed_starts:
  assumes "run_state (prepare_runtime_launch (live_podman live_labels) (managed_server_launch_request sample_workspace Opencode
    DevNone connect_after [] (overlay (default_resource_limits empty_config) no_limits))) s = (Ok prep, s')"
  shows "starts (live_podman live_labels) (live_cts live_labels) fst 0 (\<lambda>_. 0) (container_name sample_workspace) (rlp_run_spec prep)"
proof (rule live_starts [OF assms])
  let ?rq = "managed_server_launch_request sample_workspace Opencode DevNone connect_after []
    (overlay (default_resource_limits empty_config) no_limits)"
  obtain inv' where spec: "rlp_run_spec prep = record_managed_resource_limits (rq_policy ?rq)
    (apply_passthrough \<lparr>pt_mounts = [], pt_env = []\<rparr> (extend_create_default_env []
      (run_spec sample_build concat (rq_runtime ?rq) (lp_run_mode (rq_policy ?rq)) (rq_workspace ?rq) [] [] inv'
        (rq_server_args ?rq) (rq_resource_limits ?rq))))" by (rule live_prepared [OF assms])
  have "default_resource_limits empty_config = no_limits" by (simp add: empty_config_def)
  moreover have "stored_or_zero no_limits = \<lparr>stored_cpus = ''0'', stored_memory = ''0''\<rparr>"
    by (simp add: stored_or_zero_def no_limits_def)
  ultimately show "cr_labels (rn_create (rlp_run_spec prep)) = live_labels"
    unfolding spec by (simp add: record_managed_resource_limits_def run_spec_def create_spec_def Let_def live_labels_def)
qed (simp_all add: publishes_attach_endpoint_def)



end
