(* ===== verification/ConnectEffect.thy ===== *)
theory ConnectEffect
  imports StartEffect
begin

text \<open>
  What \<open>agentbox connect\<close> does on a Podman that does what it documents: it runs the client of the session's
  runtime, at the endpoint Podman publishes for the session's container, and ends as the client does.
\<close>

section \<open>A session\<close>

lemma running_connects:
  assumes "status (build_session_record sha probe p i kind) = Running"
  obtains k launch e where "label (insp_labels i) LABEL_RUNTIME = Some (runtime_str k)"
    "label (insp_labels i) LABEL_LAUNCH_DIRECTORY = Some launch" "discover_attach_endpoint_from_inspect i = Ok e"
    "prepare_connect_session w (build_session_record sha probe p i kind)
      = Ok \<lparr>cs_session = build_session_record sha probe p i kind, cs_runtime = k, cs_endpoint = e, cs_launch_directory = launch\<rparr>"
proof -
  obtain k launch t e where labels: "label (insp_labels i) LABEL_RUNTIME = Some (runtime_str k)"
      "label (insp_labels i) LABEL_LAUNCH_DIRECTORY = Some launch"
      "label (insp_labels i) LABEL_ATTACH_SCHEME = Some (as_scheme (runtime_attach_spec k))"
      "label (insp_labels i) LABEL_CONTAINER_PORT = Some t" "parse_u16 t = Some (container_port (runtime_attach_spec k))"
      "label (insp_labels i) LABEL_CONTAINER_LISTEN_IP = Some (container_listen_ip (runtime_attach_spec k))"
    and e: "published_attach_endpoint (insp_network i) (runtime_attach_spec k) = Ok (Some e)"
    using assms unfolding running_session_facts by blast
  have attach: "attach_from_session_labels (insp_labels i) = Inr \<lparr>al_runtime = k, al_attach = runtime_attach_spec k\<rparr>"
    unfolding attach_from_session_labels_Ok using labels by blast
  then have "endpoint_report (label_report_from_metadata sha (insp_labels i)) i = Inr e"
    using e by (auto simp: endpoint_report_Ok)
  moreover have "discover_attach_endpoint_from_inspect i = Ok e"
    using attach e by (simp add: discover_attach_endpoint_from_inspect_def derive_attach_endpoint_def)
  moreover have "ok_of (parse_runtime_kind (runtime_str k)) = Some k" by (simp add: result_simps parse_runtime_kind_iff)
  ultimately show thesis
    using that labels(1,2) assms
    by (simp add: prepare_connect_session_def sr_runtime_kind_def md_runtime_kind_def md_runtime_label_def
        sr_launch_directory_def md_launch_directory_def)
qed

section \<open>Connecting\<close>

text \<open>The containers of managed sessions that have a root, by its name or, without one, by its hash.\<close>

definition sessions_at :: "'w host \<Rightarrow> ('w \<Rightarrow> podman_container list) \<Rightarrow> path \<Rightarrow> 'w \<Rightarrow> podman_container list" where
  "sessions_at h cts root w =
     filter (\<lambda>c. in_scope ManagedSessions c \<and> has_root (sha256 (host_build h)) root c) (cts w)"

text \<open>The token of every workspace can be read, and a client leaves the containers alone.\<close>

definition can_connect :: "'w host \<Rightarrow> ('w \<Rightarrow> podman_container list) \<Rightarrow> target_host \<Rightarrow> bool" where
  "can_connect h cts fs \<longleftrightarrow>
     keeps cts (\<lambda>x. x = fs) (filesystem h)
   \<and> (\<forall>d. keeps cts (\<lambda>r. \<exists>v. r = Ok (Some v) \<and> trim v \<noteq> []) (read_token_file h d))
   \<and> (\<forall>i t. keeps cts (\<lambda>_. True) (run_client h i t))"

lemma token_loaded:
  assumes "can_connect h cts fs"
  shows "\<exists>token w'. run_state (load_codex_attach_token_for_client h k ws) w = (Ok token, w') \<and> cts w' = cts w
    \<and> (k = Codex \<longrightarrow> token \<noteq> None)"
proof -
  have "keeps cts (\<lambda>r. \<exists>v. r = Ok (Some v) \<and> trim v \<noteq> []) (read_token_file h (digest64 ws))"
    using assms by (simp add: can_connect_def)
  from keepsD [OF this, of w] obtain v w' where "read_token_file h (digest64 ws) w = (Ok (Some v), w')"
    "trim v \<noteq> []" "cts w' = cts w" by auto
  then show ?thesis
    by (simp add: load_codex_attach_token_for_client_def load_managed_def run_map_io Let_def)
qed

text \<open>The client's result is that of the command.\<close>

lemma client_decides:
  assumes "can_connect h cts fs" "k = Codex \<longrightarrow> token \<noteq> None"
  shows "\<exists>t r w1 res. run_client h (host_client_runtime_command k e launch args) t w = (r, w1) \<and> cts w1 = cts w
    \<and> run_state (run_host_runtime_client h k e launch token args) w = (res, w1)
    \<and> (res = Ok () \<longleftrightarrow> (\<exists>st. r = Ok st \<and> exit_success st))"
proof -
  obtain t where t: "required_codex_client_token k token = Ok t"
    using assms(2) by (cases "k = Codex"; cases token) (auto simp: required_codex_client_token_def)
  obtain r w1 where r: "run_client h (host_client_runtime_command k e launch args) t w = (r, w1)" by force
  have "cts w1 = cts w" using assms(1) r unfolding can_connect_def keeps_def by (metis snd_conv)
  then show ?thesis
    using t r by (cases r) (auto simp: run_host_runtime_client_def run_host_runtime_client_status_def run_attempt)
qed


section \<open>An instance\<close>

lemma live_running:
  "status (build_session_record (\<lambda>_. 0) sample_probe p (ct_inspect (live_ct live_labels)) kind) = Running"
proof (rule managed_labels_running(1) [OF sample_resolve])
  show "published_attach_endpoint (insp_network (ct_inspect (live_ct live_labels))) (runtime_attach_spec Opencode)
      = Ok (Some (sample_endpoint Opencode))" using sample_published [of Opencode] by (simp add: live_ct_def)
  show "\<forall>n \<in> set identity_label_names. label (ct_labels (live_ct live_labels)) n =
      label (managed_session_labels concat (label_input_from_workspace sample_workspace
        (default_image sample_build Opencode) Opencode [])) n"
    using identity_labels_distinct(1,2) by (auto simp: live_labels_def label_simps)
qed (simp_all add: sample_not_orphaned, simp_all add: live_ct_def sample_server_def has_volume_mount_destination_def)


end
