(* ===== verification/RunEffect.thy ===== *)
theory RunEffect
  imports StartEffect
begin

text \<open>
  What \<open>agentbox run\<close> leaves of itself on a Podman that does what it documents: nothing but the result of its client.
\<close>

section \<open>A transient server\<close>

lemma transient_request_simps [simp]:
  "rq_workspace (transient_server_launch_request w k mode l) = w"
  "rq_runtime (transient_server_launch_request w k mode l) = k"
  "lp_run_mode (rq_policy (transient_server_launch_request w k mode l)) = TransientServer"
  "rq_invocation (transient_server_launch_request w k mode l) = ServerInvocation"
  "lp_existing_check (rq_policy (transient_server_launch_request w k mode l)) = RequireAbsent AgentboxContainers"
  by (simp_all add: transient_server_launch_request_def server_launch_request_def transient_server_policy_def)

lemma transient_endpoint:
  assumes "run_state (prepare_runtime_launch h rq) s = (Ok prep, s')" "lp_run_mode (rq_policy rq) = TransientServer"
    and "runs_spec name (rlp_run_spec prep) c"
  shows "\<exists>e. published_attach_endpoint (insp_network (ct_inspect c)) (runtime_attach_spec (rq_runtime rq)) = Ok (Some e)
    \<and> endpoint_in_context TransientContext (rq_runtime rq) (ct_inspect c) = Ok e"
  using published_port_of_run [OF assms(3) launched_mounts_and_ports(2) [OF assms(1)]] assms(2)
  by (auto simp: publishes_attach_endpoint_def endpoint_in_context_def discover_attach_endpoint_from_runtime_inspect_def)

lemma into_error_after_cleanup: "into_error_with_cleanup_result f (Ok ()) = into_direct_error f"
  by (simp add: into_error_with_cleanup_result_def into_direct_error_def combine_error_with_cleanup_result_def
      split: command_failure_exit.split)

text \<open>The container is stopped and gone after the client, whatever the client did.\<close>

lemma client_run_finished:
  assumes "podman_serves h cts" "c \<in> set (cts w)" "ct_running c" "ct_remove c" "ct_name c = container_name ws"
  shows "\<exists>w'. run_state (finish_host_client_run h ws runtime e r args) w =
      (case r of
         Inl err \<Rightarrow> Err err
       | Inr st \<Rightarrow> (case exit_failure_from_status st (\<lambda>st. host_client_status_error runtime e (canonical_target ws) st args) of
           None \<Rightarrow> Ok () | Some f \<Rightarrow> Err (into_direct_error f)), w')
    \<and> cts w' = filter (\<lambda>d. d \<noteq> c) (cts w)"
proof -
  obtain w' where "run_state (stop_and_verify h (ct_name c)) w = (\<lparr>stop_error = None, verification = CleanupRemoved\<rparr>, w')"
      "cts w' = filter (\<lambda>d. d \<noteq> c) (cts w)" using stop_and_verify_removes [OF assms(1-4)] by blast
  then have "run_state (cleanup_transient_container h ws) w = (Ok (), w')" "cts w' = filter (\<lambda>d. d \<noteq> c) (cts w)"
    using assms(5) by (simp_all add: cleanup_transient_container_def remaining_failure_def remaining_container_issue_def)
  then show ?thesis
    by (auto simp: finish_host_client_run_def into_error_after_cleanup combine_error_with_cleanup_result_def
        split: sum.split option.split)
qed

section \<open>The command\<close>


section \<open>An instance\<close>

definition run_labels :: labels where
  "run_labels = transient_run_labels (label_input_from_workspace sample_workspace (default_image sample_build Opencode) Opencode [])"

lemma live_transient_starts:
  assumes "run_state (prepare_runtime_launch (live_podman run_labels) (transient_server_launch_request sample_workspace Opencode
    DevNone (overlay (default_resource_limits empty_config) no_limits))) s = (Ok prep, s')"
  shows "starts (live_podman run_labels) (live_cts run_labels) fst 0 (\<lambda>_. 0) (container_name sample_workspace) (rlp_run_spec prep)"
proof (rule live_starts [OF assms])
  let ?rq = "transient_server_launch_request sample_workspace Opencode DevNone
    (overlay (default_resource_limits empty_config) no_limits)"
  obtain inv' where spec: "rlp_run_spec prep = record_managed_resource_limits (rq_policy ?rq)
    (apply_passthrough \<lparr>pt_mounts = [], pt_env = []\<rparr> (extend_create_default_env []
      (run_spec sample_build concat (rq_runtime ?rq) (lp_run_mode (rq_policy ?rq)) (rq_workspace ?rq) [] [] inv'
        (rq_server_args ?rq) (rq_resource_limits ?rq))))" by (rule live_prepared [OF assms])
  have "rq_server_args ?rq = []" by (simp add: transient_server_launch_request_def server_launch_request_def)
  then show "cr_labels (rn_create (rlp_run_spec prep)) = run_labels"
    unfolding spec by (simp add: record_managed_resource_limits_def run_spec_def create_spec_def Let_def run_labels_def)
qed (simp_all add: publishes_attach_endpoint_def)


end
