(* ===== verification/BuildContext.thy ===== *)
theory BuildContext
  imports Images
begin

text \<open>
  The build context of the default images: \<open>src/runtime/default_image.rs\<close>. The contents of the embedded files
  are a parameter, and so is the disk they are written to.
\<close>

section \<open>The embedded files\<close>

definition embedded_default_image_paths :: "path list" where
  "embedded_default_image_paths = [''Containerfile'', ''bootstrap'', ''entrypoint'', ''lib/runtime-contract.sh'',
     ''profile.d/agentbox-runtime.sh'', ''runtime-packages.nix'']"

definition embedded_default_image_files :: "(path \<Rightarrow> string) \<Rightarrow> embedded_file list" where
  "embedded_default_image_files assets =
     map (\<lambda>p. \<lparr>relative_path = p, contents = assets p\<rparr>) embedded_default_image_paths"

section \<open>Writing them\<close>

text \<open>What \<open>tempdir\<close> gives: an error, a directory whose path is not UTF-8 with its lossy form, or its path.\<close>

datatype tempdir_result = TempDirError error | NotUtf8Path string | TempDir path

record 'w context_disk =
  cd_tempdir :: "string \<Rightarrow> 'w \<Rightarrow> tempdir_result \<times> 'w"
  cd_create_dir_all :: "path \<Rightarrow> 'w \<Rightarrow> unit res \<times> 'w"
  cd_write :: "path \<Rightarrow> string \<Rightarrow> 'w \<Rightarrow> unit res \<times> 'w"

text \<open>Joining a relative path never gives the root directory, so that there always is a parent.\<close>

fun write_context_files :: "'w context_disk \<Rightarrow> path \<Rightarrow> embedded_file list \<Rightarrow> ('w, unit res) io" where
  "write_context_files D root [] = pure (Ok ())"
| "write_context_files D root (f # fs) =
     (let p = path_join root (relative_path f) in
      attempt (State (cd_create_dir_all D (path_parent p))) (\<lambda>_.
      attempt (State (cd_write D p (contents f))) (\<lambda>_.
        write_context_files D root fs)))"

definition materialize_default_image_context :: "'w context_disk \<Rightarrow> embedded_file list \<Rightarrow> ('w, path res) io" where
  "materialize_default_image_context D files = do {
     t \<leftarrow> State (cd_tempdir D ''agentbox-default-image-'');
     (case t of
        TempDirError e \<Rightarrow> pure (Err e)
      | NotUtf8Path shown \<Rightarrow> pure (Err (msg [''default runtime image build context path is not valid UTF-8: '', shown]))
      | TempDir root \<Rightarrow> attempt (write_context_files D root files) (\<lambda>_. pure (Ok root))) }"

definition context_containerfile :: "path \<Rightarrow> path" where
  "context_containerfile root = path_join root ''Containerfile''"

text \<open>The host whose images are built from this context.\<close>

definition context_image_host :: "'w context_disk \<Rightarrow> build \<Rightarrow> 'w image_host \<Rightarrow> 'w image_host" where
  "context_image_host D b ih = ih\<lparr>ih_materialize :=
     run_state (map_io (map_ok (\<lambda>root. (root, context_containerfile root)))
       (materialize_default_image_context D (image_files b)))\<rparr>"

section \<open>The hash\<close>

lemma cut_at_nul:
  "CHR 0x00 \<notin> set xs \<Longrightarrow> CHR 0x00 \<notin> set ys \<Longrightarrow> xs @ CHR 0x00 # r = ys @ CHR 0x00 # r' \<longleftrightarrow> xs = ys \<and> r = r'"
proof (induction xs arbitrary: ys)
  case Nil
  then show ?case by (cases ys) auto
next
  case (Cons x xs)
  then show ?case by (cases ys) auto
qed

lemma show_nat_no_nul: "CHR 0x00 \<notin> set (show_nat n)"
  using show_nat_digits [of n] by (auto simp: list_all_iff is_ascii_digit_def byte_of_def)

text \<open>What is hashed tells the files apart, as long as no path holds a NUL.\<close>

lemma hasher_input_inject:
  assumes "\<And>f. f \<in> set fs \<union> set gs \<Longrightarrow> CHR 0x00 \<notin> set (relative_path f)"
  shows "hasher_input fs = hasher_input gs \<longleftrightarrow> fs = gs"
  using assms
proof (induction fs arbitrary: gs)
  case Nil
  then show ?case by (cases gs) (auto simp: hasher_input_def)
next
  case (Cons f fs)
  show ?case
  proof (cases gs)
    case Nil
    then show ?thesis by (auto simp: hasher_input_def)
  next
    case gs: (Cons g gs')
    have "hasher_input (f # fs) = hasher_input (g # gs') \<longleftrightarrow>
        relative_path f = relative_path g \<and> show_nat (length (contents f)) = show_nat (length (contents g))
        \<and> contents f @ CHR 0x00 # hasher_input fs = contents g @ CHR 0x00 # hasher_input gs'"
      using Cons.prems gs by (simp add: hasher_input_def cut_at_nul show_nat_no_nul)
    also have "\<dots> \<longleftrightarrow> f = g \<and> hasher_input fs = hasher_input gs'"
      by (cases f; cases g) (auto simp: show_nat_inject)
    finally show ?thesis using Cons.IH [of gs'] Cons.prems gs by simp
  qed
qed


lemma embedded_paths_no_nul: "p \<in> set embedded_default_image_paths \<Longrightarrow> CHR 0x00 \<notin> set p"
  by (auto simp: embedded_default_image_paths_def)

lemma embedded_hash_inject:
  "hasher_input (embedded_default_image_files assets) = hasher_input (embedded_default_image_files assets') \<longleftrightarrow>
     (\<forall>p \<in> set embedded_default_image_paths. assets p = assets' p)"
proof -
  have "hasher_input (embedded_default_image_files assets) = hasher_input (embedded_default_image_files assets') \<longleftrightarrow>
      embedded_default_image_files assets = embedded_default_image_files assets'"
    by (rule hasher_input_inject) (auto simp: embedded_default_image_files_def embedded_paths_no_nul)
  then show ?thesis by (simp add: embedded_default_image_files_def)
qed

section \<open>What is written\<close>

text \<open>A disk that does what it is asked to: \<open>content s p\<close> is what the file \<open>p\<close> holds in \<open>s\<close>.\<close>

definition writes_files :: "'w context_disk \<Rightarrow> ('w \<Rightarrow> path \<Rightarrow> string option) \<Rightarrow> bool" where
  "writes_files D content \<longleftrightarrow>
     (\<forall>pre s t s'. cd_tempdir D pre s = (t, s') \<longrightarrow> content s' = content s)
   \<and> (\<forall>d s r s'. cd_create_dir_all D d s = (r, s') \<longrightarrow> content s' = content s)
   \<and> (\<forall>p v s s'. cd_write D p v s = (Ok (), s') \<longrightarrow> content s' = (content s)(p \<mapsto> v))"

lemma path_join_inject:
  "\<not> is_absolute p \<Longrightarrow> \<not> is_absolute q \<Longrightarrow> path_join root p = path_join root q \<longleftrightarrow> p = q"
  by (simp add: path_join_def)

lemma write_context_files_content:
  assumes "writes_files D content" and "run_state (write_context_files D root fs) s = (Ok (), s')"
  shows "content s' = (content s)(map (\<lambda>f. path_join root (relative_path f)) fs [\<mapsto>] map contents fs)"
  using assms(2)
proof (induction fs arbitrary: s)
  case (Cons f fs)
  let ?p = "path_join root (relative_path f)"
  obtain s1 s2 where s: "cd_create_dir_all D (path_parent ?p) s = (Ok (), s1)"
      "cd_write D ?p (contents f) s1 = (Ok (), s2)" "run_state (write_context_files D root fs) s2 = (Ok (), s')"
    using Cons.prems by (auto simp: result_simps Let_def)
  have "content s1 = content s" "content s2 = (content s1)(?p \<mapsto> contents f)"
    using assms(1) s(1,2) unfolding writes_files_def by blast+
  then show ?case using Cons.IH [OF s(3)] by (simp add: fun_upd_def)
qed simp

lemma map_upds_mapped:
  "distinct (map g ps) \<Longrightarrow> p \<in> set ps \<Longrightarrow> (m(map g ps [\<mapsto>] map a ps)) (g p) = Some (a p)"
proof (induction ps arbitrary: m)
  case (Cons q ps)
  then show ?case
    by (cases "p \<in> set ps") (auto simp: map_upds_apply_nontin image_iff)
qed simp

lemma embedded_paths: "distinct embedded_default_image_paths" "\<forall>p \<in> set embedded_default_image_paths. \<not> is_absolute p"
  by (simp_all add: embedded_default_image_paths_def is_absolute_Cons)

text \<open>C29: the build context is what the tag of the image was computed from. A context that is materialized holds
  each embedded file with its contents, its \<open>Containerfile\<close> among them, and no other file was written; and two
  sets of contents are hashed as the same input exactly when they agree on every file.\<close>

theorem build_context_exact:
  assumes "writes_files D content"
    and "run_state (materialize_default_image_context D (embedded_default_image_files assets)) s = (Ok root, s')"
  shows "(\<forall>p \<in> set embedded_default_image_paths. content s' (path_join root p) = Some (assets p))
    \<and> (\<forall>q. q \<notin> path_join root ` set embedded_default_image_paths \<longrightarrow> content s' q = content s q)
    \<and> content s' (context_containerfile root) = Some (assets ''Containerfile'')
    \<and> (\<forall>assets'. hasher_input (embedded_default_image_files assets) = hasher_input (embedded_default_image_files assets')
         \<longleftrightarrow> (\<forall>p \<in> set embedded_default_image_paths. assets p = assets' p))"
proof -
  let ?ps = embedded_default_image_paths
  obtain s1 where s1: "cd_tempdir D ''agentbox-default-image-'' s = (TempDir root, s1)"
      "run_state (write_context_files D root (embedded_default_image_files assets)) s1 = (Ok (), s')"
    using assms(2) by (auto simp: materialize_default_image_context_def result_simps split: prod.splits tempdir_result.splits)
  have "content s1 = content s" using assms(1) s1(1) unfolding writes_files_def by blast
  then have c: "content s' = (content s)(map (path_join root) ?ps [\<mapsto>] map assets ?ps)"
    using write_context_files_content [OF assms(1) s1(2)] by (simp add: embedded_default_image_files_def comp_def)
  have "inj_on (path_join root) (set ?ps)"
    using embedded_paths(2) by (auto simp: inj_on_def path_join_inject)
  then have "distinct (map (path_join root) ?ps)" using embedded_paths(1) by (simp add: distinct_map)
  then have files: "\<forall>p \<in> set ?ps. content s' (path_join root p) = Some (assets p)"
    unfolding c by (simp add: map_upds_mapped)
  moreover have "''Containerfile'' \<in> set ?ps" by (simp add: embedded_default_image_paths_def)
  ultimately show ?thesis
    using embedded_hash_inject by (auto simp: c map_upds_apply_nontin context_containerfile_def)
qed


section \<open>An instance\<close>

definition memory_disk :: "(path \<Rightarrow> string option) context_disk" where
  "memory_disk = \<lparr>cd_tempdir = (\<lambda>pre m. (TempDir (''/tmp/'' @ pre), m)), cd_create_dir_all = (\<lambda>d m. (Ok (), m)),
     cd_write = (\<lambda>p v m. (Ok (), m(p \<mapsto> v)))\<rparr>"

lemma build_context_exact_witness:
  "\<exists>s' root. run_state (materialize_default_image_context memory_disk
       (embedded_default_image_files (\<lambda>p. ''text of '' @ p))) Map.empty = (Ok root, s')
     \<and> s' (context_containerfile root) = Some ''text of Containerfile''"
proof -
  have disk: "writes_files memory_disk (\<lambda>m. m)" by (simp add: writes_files_def memory_disk_def)
  have "\<exists>s'. run_state (write_context_files memory_disk root fs) s = (Ok (), s')" for root fs s
    by (induction fs arbitrary: s) (simp_all add: memory_disk_def run_attempt Let_def)
  then obtain s' where "run_state (write_context_files memory_disk (''/tmp/agentbox-default-image-'')
      (embedded_default_image_files (\<lambda>p. ''text of '' @ p))) Map.empty = (Ok (), s')" by blast
  then have run: "run_state (materialize_default_image_context memory_disk
      (embedded_default_image_files (\<lambda>p. ''text of '' @ p))) Map.empty = (Ok ''/tmp/agentbox-default-image-'', s')"
    by (simp add: materialize_default_image_context_def run_attempt memory_disk_def)
  then show ?thesis using build_context_exact [OF disk run] by (intro exI [of _ s'] exI conjI) auto
qed

end
