(* ===== verification/Processes.thy ===== *)
theory Processes
  imports Trace
begin

text \<open>
  Capturing a process while its output is forwarded: the streaming half of \<open>src/process.rs\<close>. Two
  threads read the child's standard output and standard error and send what they read over one
  channel; the parent handles the events in the order in which they arrive. The order in which the
  two readers send is any interleaving of what each sends.
\<close>

section \<open>The readers\<close>

datatype process_stream = Stdout | Stderr

fun process_stream_str :: "process_stream \<Rightarrow> string" where
  "process_stream_str Stdout = ''stdout''"
| "process_stream_str Stderr = ''stderr''"

text \<open>What \<open>read_until\<close> gives: bytes up to and including a newline, none at the end, or an error.\<close>

datatype line_read = LineRead string | LineError string

type_synonym stream_event = "(process_stream \<times> string) + (process_stream \<times> string)"

fun reader_events :: "process_stream \<Rightarrow> line_read list \<Rightarrow> stream_event list" where
  "reader_events s [] = []"
| "reader_events s (LineRead bs # rs) = (if bs = [] then [] else Inr (s, bs) # reader_events s rs)"
| "reader_events s (LineError e # rs) = [Inl (s, e)]"

text \<open>The reads of a pipe that delivers these bytes and is then closed.\<close>

fun lines_of :: "string \<Rightarrow> string list" where
  "lines_of [] = []"
| "lines_of (c # cs) =
     (if c = CHR 0x0A then [c] # lines_of cs
      else case lines_of cs of [] \<Rightarrow> [[c]] | l # ls \<Rightarrow> (c # l) # ls)"

definition pipe_reads :: "string \<Rightarrow> line_read list" where
  "pipe_reads bs = map LineRead (lines_of bs @ [[]])"

section \<open>The parent\<close>

text \<open>\<open>lossy\<close> is \<open>String::from_utf8_lossy\<close>. A read error is kept if it is the first.\<close>

fun stream_loop ::
  "(string \<Rightarrow> string) \<Rightarrow> (process_stream \<Rightarrow> string \<Rightarrow> ('w, unit) io) \<Rightarrow> stream_event list
     \<Rightarrow> string \<Rightarrow> string \<Rightarrow> (process_stream \<times> string) option
     \<Rightarrow> ('w, string \<times> string \<times> (process_stream \<times> string) option) io" where
  "stream_loop lossy on_output [] out err failed = pure (out, err, failed)"
| "stream_loop lossy on_output (Inr (s, bs) # es) out err failed = do {
     _ \<leftarrow> on_output s (lossy bs);
     (case s of
        Stdout \<Rightarrow> stream_loop lossy on_output es (out @ bs) err failed
      | Stderr \<Rightarrow> stream_loop lossy on_output es out (err @ bs) failed) }"
| "stream_loop lossy on_output (Inl e # es) out err failed =
     stream_loop lossy on_output es out err (case failed of None \<Rightarrow> Some e | Some f \<Rightarrow> Some f)"

text \<open>\<open>utf8_error\<close> is the text of \<open>FromUtf8Error\<close>.\<close>

definition decoded_output ::
  "(string \<Rightarrow> string) \<Rightarrow> exit_status \<Rightarrow> string \<Rightarrow> string \<Rightarrow> capture_failure + process_status_output" where
  "decoded_output utf8_error st out err =
     (if \<not> valid_utf8 out then Inl (NotUtf8 (utf8_error out))
      else if \<not> valid_utf8 err then Inl (NotUtf8 (utf8_error err))
      else Inr \<lparr>po_stdout = out, po_stderr = err, po_status = st\<rparr>)"

text \<open>Starting a process with pipes: it cannot be started, or its events in the order of their arrival
  and what waiting for it gives.\<close>

record 'w spawner =
  sp_output :: "string list \<Rightarrow> 'w \<Rightarrow> (capture_failure + exit_status \<times> string \<times> string) \<times> 'w"
  sp_spawn :: "string list \<Rightarrow> 'w \<Rightarrow> (capture_failure + stream_event list \<times> (string + exit_status)) \<times> 'w"
  sp_lossy :: "string \<Rightarrow> string"
  sp_utf8_error :: "string \<Rightarrow> string"

definition try_capture_status :: "'w spawner \<Rightarrow> string list \<Rightarrow> ('w, capture_failure + process_status_output) io" where
  "try_capture_status sp argv =
     map_io (\<lambda>r. and_then r (\<lambda>(st, out, err). decoded_output (sp_utf8_error sp) st out err))
       (State (sp_output sp argv))"

definition try_capture_status_streaming ::
  "'w spawner \<Rightarrow> string list \<Rightarrow> (process_stream \<Rightarrow> string \<Rightarrow> ('w, unit) io)
     \<Rightarrow> ('w, capture_failure + process_status_output) io" where
  "try_capture_status_streaming sp argv on_output = do {
     r \<leftarrow> State (sp_spawn sp argv);
     (case r of
        Inl f \<Rightarrow> pure (Inl f)
      | Inr (events, waited) \<Rightarrow> do {
          (out, err, failed) \<leftarrow> stream_loop (sp_lossy sp) on_output events [] [] None;
          pure (case waited of
              Inl e \<Rightarrow> Inl (SpawnFailed e)
            | Inr st \<Rightarrow> (case failed of
                Some (s, e) \<Rightarrow> Inl (ReadStreamFailed (process_stream_str s) e)
              | None \<Rightarrow> decoded_output (sp_utf8_error sp) st out err)) }) }"

text \<open>\<open>run_command\<close> and \<open>run_command_streaming\<close>: any status but success is an error.\<close>

definition successful_output ::
  "(string \<Rightarrow> string) \<Rightarrow> string list \<Rightarrow> capture_failure + process_status_output \<Rightarrow> process_output res" where
  "successful_output debug argv r =
     (case r of
        Inl f \<Rightarrow> Err (spawn_error debug argv f)
      | Inr o' \<Rightarrow>
          if exit_success (po_status o')
          then Ok \<lparr>po_stdout = po_stdout o', po_stderr = po_stderr o'\<rparr>
          else Err (exit_error debug argv o'))"

definition run_command :: "'w spawner \<Rightarrow> (string \<Rightarrow> string) \<Rightarrow> string list \<Rightarrow> ('w, process_output res) io" where
  "run_command sp debug argv = map_io (successful_output debug argv) (try_capture_status sp argv)"

definition run_command_streaming ::
  "'w spawner \<Rightarrow> (string \<Rightarrow> string) \<Rightarrow> string list \<Rightarrow> (process_stream \<Rightarrow> string \<Rightarrow> ('w, unit) io)
     \<Rightarrow> ('w, process_output res) io" where
  "run_command_streaming sp debug argv on_output =
     map_io (successful_output debug argv) (try_capture_status_streaming sp argv on_output)"

text \<open>\<open>PodmanExecutor::run_forwarding_output_when_verbose\<close>.\<close>

definition trim_line_end :: "string \<Rightarrow> string" where
  "trim_line_end s = rev (dropWhile (\<lambda>c. c = CHR 0x0D \<or> c = CHR 0x0A) (rev s))"

definition run_forwarding_output_when_verbose ::
  "'w spawner \<Rightarrow> (string \<Rightarrow> string) \<Rightarrow> bool \<Rightarrow> (string \<Rightarrow> ('w, unit) io) \<Rightarrow> string list \<Rightarrow> ('w, process_output res) io" where
  "run_forwarding_output_when_verbose sp debug verbose report args =
     (let argv = podman_argv args in
      if verbose then do {
        _ \<leftarrow> report (''running '' @ describe_command debug argv);
        run_command_streaming sp debug argv (\<lambda>_ text. report (trim_line_end text)) }
      else run_command sp debug argv)"

section \<open>Streaming gives what capturing gives\<close>

lemma concat_lines_of: "concat (lines_of bs) = bs"
  by (induction bs) (auto split: list.splits)

lemma lines_of_nonempty: "[] \<notin> set (lines_of bs)"
  by (induction bs) (auto split: list.splits)

lemma reader_events_lines: "[] \<notin> set ls \<Longrightarrow> reader_events s (map LineRead (ls @ [[]])) = map (\<lambda>l. Inr (s, l)) ls"
  by (induction ls) auto

lemma reader_events_pipe: "reader_events s (pipe_reads bs) = map (\<lambda>l. Inr (s, l)) (lines_of bs)"
  unfolding pipe_reads_def by (rule reader_events_lines [OF lines_of_nonempty])

text \<open>A callback that also records what it was called with.\<close>

definition noted :: "(process_stream \<Rightarrow> string \<Rightarrow> ('w, unit) io) \<Rightarrow> process_stream \<Rightarrow> string
    \<Rightarrow> ('w \<times> (process_stream \<times> string) list, unit) io" where
  "noted on_output s text =
     State (\<lambda>(w, l). case run_state (on_output s text) w of (u, w') \<Rightarrow> (u, (w', l @ [(s, text)])))"

lemma run_noted: "run_state (noted on_output s text) (w, l) = ((), (snd (run_state (on_output s text) w), l @ [(s, text)]))"
  by (simp add: noted_def split: prod.splits)

lemma stream_loop_shuffle:
  assumes "es \<in> shuffles (map (\<lambda>l. Inr (Stdout, l)) xs) (map (\<lambda>l. Inr (Stderr, l)) ys)"
  shows "\<exists>w' ns. run_state (stream_loop lossy (noted f) es out err None) (w, l) =
      ((out @ concat xs, err @ concat ys, None), (w', l @ ns))
    \<and> map snd (filter (\<lambda>n. fst n = Stdout) ns) = map lossy xs
    \<and> map snd (filter (\<lambda>n. fst n = Stderr) ns) = map lossy ys"
  using assms
proof (induction es arbitrary: xs ys out err w l)
  case Nil
  then show ?case by auto
next
  case (Cons e es)
  from Cons.prems consider
      x xs' where "xs = x # xs'" "e = Inr (Stdout, x)"
        "es \<in> shuffles (map (\<lambda>l. Inr (Stdout, l)) xs') (map (\<lambda>l. Inr (Stderr, l)) ys)"
    | y ys' where "ys = y # ys'" "e = Inr (Stderr, y)"
        "es \<in> shuffles (map (\<lambda>l. Inr (Stdout, l)) xs) (map (\<lambda>l. Inr (Stderr, l)) ys')"
    by (cases xs; cases ys) (auto simp: Cons_in_shuffles_iff)
  then show ?case
  proof cases
    case 1
    obtain w' ns where "run_state (stream_loop lossy (noted f) es (out @ x) err None)
        (snd (run_state (f Stdout (lossy x)) w), l @ [(Stdout, lossy x)]) =
          (((out @ x) @ concat xs', err @ concat ys, None), (w', (l @ [(Stdout, lossy x)]) @ ns))"
        "map snd (filter (\<lambda>n. fst n = Stdout) ns) = map lossy xs'"
        "map snd (filter (\<lambda>n. fst n = Stderr) ns) = map lossy ys"
      using Cons.IH [OF 1(3)] by blast
    then show ?thesis
      using 1 by (intro exI [of _ w'] exI [of _ "(Stdout, lossy x) # ns"]) (simp add: run_noted)
  next
    case 2
    obtain w' ns where "run_state (stream_loop lossy (noted f) es out (err @ y) None)
        (snd (run_state (f Stderr (lossy y)) w), l @ [(Stderr, lossy y)]) =
          ((out @ concat xs, (err @ y) @ concat ys', None), (w', (l @ [(Stderr, lossy y)]) @ ns))"
        "map snd (filter (\<lambda>n. fst n = Stdout) ns) = map lossy xs"
        "map snd (filter (\<lambda>n. fst n = Stderr) ns) = map lossy ys'"
      using Cons.IH [OF 2(3)] by blast
    then show ?thesis
      using 2 by (intro exI [of _ w'] exI [of _ "(Stderr, lossy y) # ns"]) (simp add: run_noted)
  qed
qed

text \<open>C37: however the two readers of a child's output interleave, streaming returns what capturing the
  same bytes returns, an error for bytes that are not UTF-8 included, and the callback gets the lines
  of each stream in their order.\<close>

theorem streaming_refines_capture:
  assumes "es \<in> shuffles (reader_events Stdout (pipe_reads out)) (reader_events Stderr (pipe_reads err))"
    and "sp_spawn sp argv (w, l) = (Inr (es, Inr st), (w1, l))"
  shows "\<exists>w' ns. run_state (try_capture_status_streaming sp argv (noted f)) (w, l)
      = (decoded_output (sp_utf8_error sp) st out err, (w', l @ ns))
    \<and> map snd (filter (\<lambda>n. fst n = Stdout) ns) = map (sp_lossy sp) (lines_of out)
    \<and> map snd (filter (\<lambda>n. fst n = Stderr) ns) = map (sp_lossy sp) (lines_of err)"
proof -
  obtain w' ns where "run_state (stream_loop (sp_lossy sp) (noted f) es [] [] None) (w1, l) =
        ((out, err, None), (w', l @ ns))"
      "map snd (filter (\<lambda>n. fst n = Stdout) ns) = map (sp_lossy sp) (lines_of out)"
      "map snd (filter (\<lambda>n. fst n = Stderr) ns) = map (sp_lossy sp) (lines_of err)"
    using stream_loop_shuffle [OF assms(1) [unfolded reader_events_pipe], of "sp_lossy sp" f "[]" "[]" w1 l]
    by (auto simp: concat_lines_of)
  then show ?thesis
    using assms(2) by (intro exI [of _ w'] exI [of _ ns]) (simp add: try_capture_status_streaming_def)
qed

definition sample_spawner :: "(nat \<times> (process_stream \<times> string) list) spawner" where
  "sample_spawner = \<lparr>sp_output = (\<lambda>argv w. (Inr (Exited 0, ''ab'', ''e''), w)),
     sp_spawn = (\<lambda>argv w. (Inr ([Inr (Stderr, ''e''), Inr (Stdout, ''ab'')], Inr (Exited 0)), w)),
     sp_lossy = (\<lambda>s. s), sp_utf8_error = (\<lambda>s. s)\<rparr>"

lemma streaming_refines_capture_witness:
  "\<exists>w'. run_state (try_capture_status_streaming sample_spawner [''podman''] (noted (\<lambda>_ _. pure ()))) (0, [])
     = (decoded_output (\<lambda>s. s) (Exited 0) ''ab'' ''e'', w')"
proof -
  have "[Inr (Stderr, ''e''), Inr (Stdout, ''ab'')]
      \<in> shuffles (reader_events Stdout (pipe_reads ''ab'')) (reader_events Stderr (pipe_reads ''e''))"
    by (simp add: pipe_reads_def)
  from streaming_refines_capture [OF this, of sample_spawner "[''podman'']" 0 "[]" "Exited 0" 0 "\<lambda>_ _. pure ()"]
  show ?thesis by (auto simp: sample_spawner_def)
qed

end
