(* ===== verification/Runner.thy ===== *)
theory Runner
  imports Processes
begin

text \<open>
  \<open>ProcessRunner\<close> and \<open>ProcessCommand\<close> of \<open>src/process.rs\<close> and the executor of \<open>src/podman/executor.rs\<close>: what
  every process goes through before it is started, with directories searched before \<open>PATH\<close> and with the
  messages of a verbose run.
\<close>

section \<open>The search path\<close>

record process_runner =
  path_prepend :: "path list"

definition new_process_runner :: process_runner where
  "new_process_runner = \<lparr>path_prepend = []\<rparr>"

definition with_path_prepend :: "path \<Rightarrow> process_runner \<Rightarrow> process_runner" where
  "with_path_prepend p r = r\<lparr>path_prepend := path_prepend r @ [p]\<rparr>"

text \<open>\<open>std::env::split_paths\<close> and \<open>std::env::join_paths\<close> on Unix.\<close>

definition split_paths :: "string \<Rightarrow> path list" where
  "split_paths = split_on CHR '':''"

definition join_paths :: "path list \<Rightarrow> string + string" where
  "join_paths ps =
     (if list_ex (\<lambda>p. CHR '':'' \<in> set p) ps then Inl (''path segment contains separator '' @ tick '':'')
      else Inr (join '':'' ps))"

text \<open>The value of \<open>PATH\<close> that a command sets, if any; \<open>current\<close> is that of the program.\<close>

definition path_override :: "process_runner \<Rightarrow> string option \<Rightarrow> string \<Rightarrow> string option res" where
  "path_override r current prog =
     (if path_prepend r = [] then Ok None
      else let paths = path_prepend r @ (case current of None \<Rightarrow> [] | Some p \<Rightarrow> split_paths p)
        in map_ok Some (map_err (\<lambda>e. msg [''failed to construct PATH override for '', tick prog, '': '', e])
             (join_paths paths)))"

section \<open>Commands\<close>

text \<open>The processes the program can start, depending on the \<open>PATH\<close> set for them.\<close>

record 'w process_host =
  ph_spawner :: "string option \<Rightarrow> 'w spawner"
  ph_path :: "string option"
  ph_debug :: "string \<Rightarrow> string"

definition configured_command :: "'w process_host \<Rightarrow> process_runner \<Rightarrow> string list \<Rightarrow> 'w spawner res" where
  "configured_command ph r argv = map_ok (ph_spawner ph) (path_override r (ph_path ph) (hd argv))"

datatype process_capture_error = SetupFailed error | CaptureFailed capture_failure

fun is_not_found :: "process_capture_error \<Rightarrow> bool" where
  "is_not_found (CaptureFailed ProgramNotFound) = True"
| "is_not_found _ = False"

fun capture_into_error :: "(string \<Rightarrow> string) \<Rightarrow> string list \<Rightarrow> process_capture_error \<Rightarrow> error" where
  "capture_into_error debug argv (SetupFailed e) = e"
| "capture_into_error debug argv (CaptureFailed f) = spawn_error debug argv f"

definition runner_try_capture_status ::
  "'w process_host \<Rightarrow> process_runner \<Rightarrow> string list \<Rightarrow> ('w, process_capture_error + process_status_output) io" where
  "runner_try_capture_status ph r argv =
     (case configured_command ph r argv of
        Inl e \<Rightarrow> pure (Inl (SetupFailed e))
      | Inr sp \<Rightarrow> map_io (map_err CaptureFailed) (try_capture_status sp argv))"

definition runner_capture_status ::
  "'w process_host \<Rightarrow> process_runner \<Rightarrow> string list \<Rightarrow> ('w, process_status_output res) io" where
  "runner_capture_status ph r argv =
     map_io (map_err (capture_into_error (ph_debug ph) argv)) (runner_try_capture_status ph r argv)"

definition runner_capture ::
  "'w process_host \<Rightarrow> process_runner \<Rightarrow> string list \<Rightarrow> ('w, process_output res) io" where
  "runner_capture ph r argv =
     attempt (pure (configured_command ph r argv)) (\<lambda>sp. run_command sp (ph_debug ph) argv)"

section \<open>The executor\<close>

record podman_executor =
  ex_runner :: process_runner
  ex_verbose :: bool

definition new_executor :: podman_executor where
  "new_executor = \<lparr>ex_runner = new_process_runner, ex_verbose = False\<rparr>"

definition executor_with_runner :: "process_runner \<Rightarrow> podman_executor" where
  "executor_with_runner r = \<lparr>ex_runner = r, ex_verbose = False\<rparr>"

definition executor_with_verbose :: "bool \<Rightarrow> podman_executor \<Rightarrow> podman_executor" where
  "executor_with_verbose v ex = ex\<lparr>ex_verbose := v\<rparr>"

definition executor_trace ::
  "'w process_host \<Rightarrow> podman_executor \<Rightarrow> (string \<Rightarrow> ('w, unit) io) \<Rightarrow> string list \<Rightarrow> ('w, unit) io" where
  "executor_trace ph ex report argv =
     (if ex_verbose ex then report (''running '' @ describe_command (ph_debug ph) argv) else pure ())"

definition executor_capture ::
  "'w process_host \<Rightarrow> podman_executor \<Rightarrow> (string \<Rightarrow> ('w, unit) io) \<Rightarrow> 'w spawner \<Rightarrow> string list
     \<Rightarrow> ('w, process_output res) io" where
  "executor_capture ph ex report sp argv = do {
     _ \<leftarrow> executor_trace ph ex report argv;
     run_command sp (ph_debug ph) argv }"

definition executor_run_quiet ::
  "'w process_host \<Rightarrow> podman_executor \<Rightarrow> (string \<Rightarrow> ('w, unit) io) \<Rightarrow> string list \<Rightarrow> ('w, process_output res) io" where
  "executor_run_quiet ph ex report args =
     attempt (pure (configured_command ph (ex_runner ex) (podman_argv args))) (\<lambda>sp.
       executor_capture ph ex report sp (podman_argv args))"

definition executor_run_json ::
  "'w process_host \<Rightarrow> podman_executor \<Rightarrow> (string \<Rightarrow> ('w, unit) io) \<Rightarrow> (string \<Rightarrow> string + 'a) \<Rightarrow> string list
     \<Rightarrow> ('w, 'a res) io" where
  "executor_run_json ph ex report of_json args =
     attempt (executor_run_quiet ph ex report args) (\<lambda>o'.
       pure (map_err (\<lambda>e. msg [''failed to parse '', tick (describe_command (ph_debug ph) (podman_argv args)), '': '', e])
         (of_json (po_stdout o'))))"

definition executor_run_forwarding ::
  "'w process_host \<Rightarrow> podman_executor \<Rightarrow> (string \<Rightarrow> ('w, unit) io) \<Rightarrow> string list \<Rightarrow> ('w, process_output res) io" where
  "executor_run_forwarding ph ex report args =
     attempt (pure (configured_command ph (ex_runner ex) (podman_argv args))) (\<lambda>sp.
       run_forwarding_output_when_verbose sp (ph_debug ph) (ex_verbose ex) report args)"

section \<open>What a command's search path is\<close>

lemma path_override_none [simp]: "path_override new_process_runner current prog = Ok None"
  by (simp add: path_override_def new_process_runner_def)

lemma split_paths_pieces: "p \<in> set (split_paths s) \<Longrightarrow> CHR '':'' \<notin> set p"
  unfolding split_paths_def by (rule split_on_pieces)

text \<open>A process searches the prepended directories in the order they were added, then those of \<open>PATH\<close>; a directory
  whose name holds a colon cannot be prepended, whatever \<open>PATH\<close> is.\<close>

lemma path_override_exact:
  assumes "path_prepend r \<noteq> []"
  shows "path_override r current prog = Ok found \<longleftrightarrow>
      (\<forall>p \<in> set (path_prepend r). CHR '':'' \<notin> set p) \<and> (\<exists>text. found = Some text
        \<and> split_paths text = path_prepend r @ (case current of None \<Rightarrow> [] | Some p \<Rightarrow> split_paths p)
        \<and> text = join '':'' (split_paths text))"
proof -
  let ?rest = "case current of None \<Rightarrow> [] | Some p \<Rightarrow> split_paths p"
  have rest: "CHR '':'' \<notin> set p" if "p \<in> set ?rest" for p
    using that split_paths_pieces by (auto split: option.splits)
  then have joined: "split_paths (join '':'' (path_prepend r @ ?rest)) = path_prepend r @ ?rest"
    if "\<forall>p \<in> set (path_prepend r). CHR '':'' \<notin> set p"
    unfolding split_paths_def using that assms by (intro split_on_join) auto
  have "list_ex (\<lambda>p. CHR '':'' \<in> set p) (path_prepend r @ ?rest) \<longleftrightarrow> \<not> (\<forall>p \<in> set (path_prepend r). CHR '':'' \<notin> set p)"
    using rest by (auto simp: list_ex_iff)
  then show ?thesis using assms joined by (auto simp: path_override_def join_paths_def Let_def)
qed

section \<open>What a verbose run adds\<close>

text \<open>\<open>capture\<close> is \<open>capture_status\<close> with any status but success an error.\<close>

lemma runner_capture_status_capture:
  "runner_capture ph r argv =
     map_io (\<lambda>res. and_then res (\<lambda>o'. if exit_success (po_status o')
         then Ok \<lparr>po_stdout = po_stdout o', po_stderr = po_stderr o'\<rparr> else Err (exit_error (ph_debug ph) argv o')))
       (runner_capture_status ph r argv)"
proof (cases "configured_command ph r argv")
  case (Inl e)
  then show ?thesis
    by (intro state_ext) (simp add: runner_capture_def runner_capture_status_def runner_try_capture_status_def run_map_io)
next
  case (Inr sp)
  have "successful_output (ph_debug ph) argv x = and_then (map_err (capture_into_error (ph_debug ph) argv) (map_err CaptureFailed x))
      (\<lambda>o'. if exit_success (po_status o') then Ok \<lparr>po_stdout = po_stdout o', po_stderr = po_stderr o'\<rparr>
         else Err (exit_error (ph_debug ph) argv o'))" for x
    by (cases x) (simp_all add: successful_output_def)
  then show ?thesis using Inr
    by (intro state_ext) (simp add: runner_capture_def runner_capture_status_def runner_try_capture_status_def
        run_command_def run_map_io split: prod.split)
qed

text \<open>With a channel for messages that leaves everything else alone, a verbose executor returns what a quiet one
  does, and leaves the same state.\<close>

lemma verbose_run_quiet:
  assumes "\<And>t w. run_state (report t) w = ((), w)"
  shows "executor_run_quiet ph (executor_with_verbose v ex) report args = executor_run_quiet ph ex report args"
  by (intro state_ext) (simp add: executor_run_quiet_def executor_capture_def executor_with_verbose_def executor_trace_def run_attempt assms
      split: sum.split)

lemma new_executor_quiet:
  "executor_run_quiet ph new_executor report args = run_command (ph_spawner ph None) (ph_debug ph) (podman_argv args)"
  by (intro state_ext) (simp add: executor_run_quiet_def executor_capture_def executor_trace_def new_executor_def configured_command_def)

text \<open>On a host whose processes are these, that is what the client of Podman runs.\<close>

lemma new_executor_run_quiet:
  assumes "run_process h = (\<lambda>argv. run_state (try_capture_status (ph_spawner ph None) argv))" "debug_quote h = ph_debug ph"
  shows "executor_run_quiet ph new_executor report args = run_quiet h args"
    "executor_run_json ph new_executor report of_json args = run_json h of_json args"
proof -
  show quiet: "executor_run_quiet ph new_executor report args = run_quiet h args"
    by (intro state_ext) (simp add: new_executor_quiet run_quiet_def capture_def run_command_def run_map_io assms
        successful_output_def split: prod.split sum.split)
  show "executor_run_json ph new_executor report of_json args = run_json h of_json args"
    by (simp add: executor_run_json_def run_json_def quiet assms(2))
qed

end
