(* ===== verification/Spec2Isabelle.thy ===== *)
theory Spec2Isabelle
  imports ClientEnv HttpLaws PodmanJsonLaws TokenStore Locks RestartLaws CleanEffect CleanTrace Views
    HostWiring HostProbeLaws ProgramLaws ProgramTrace ConnectEffect RunEffect
    BuildContext Runner
begin

text \<open>
  A model of \<open>agentbox\<close>, a command line program that runs coding agents in Podman containers, one
  workspace (git root) at a time. Rust modules are named relative to \<open>src/\<close>.

  \<^bold>\<open>Parts and their theories.\<close>
  \<^item> \<open>Prelude\<close>, \<open>Strings\<close>, \<open>Numbers\<close>, \<open>Containers\<close>: results as sums, ASCII and white space, decimal
    numerals and checked arithmetic, \<open>BTreeMap\<close> as a sorted association list.
  \<^item> \<open>Paths\<close>, \<open>Errors\<close>, \<open>Identity\<close>: \<open>paths.rs\<close>, \<open>error.rs\<close>, \<open>digest.rs\<close>, \<open>workspace.rs\<close>.
  \<^item> \<open>Catalog\<close>, \<open>Metadata\<close>: \<open>runtime/kind.rs\<close>, \<open>profile\<close>, \<open>default_image.rs\<close>; \<open>metadata\<close>.
  \<^item> \<open>PodmanModel\<close>: what the program looks at of \<open>podman/model\<close>. \<open>Limits\<close>, \<open>Config\<close>: \<open>config.rs\<close>.
  \<^item> \<open>Json\<close>, \<open>PodmanJson\<close>, \<open>PodmanJsonLaws\<close>: the structs that are read from JSON and written to it, as codecs over
    JSON values (\<open>podman/model\<close>, image states, the configuration, labels); what is written is what is read.
  \<^item> \<open>Session\<close>, \<open>LabelReport\<close>, \<open>Discovery\<close>, \<open>DiscoveryLaws\<close>: \<open>session/record.rs\<close>, \<open>status\<close>,
    \<open>collection.rs\<close>, \<open>labels\<close>, \<open>endpoint.rs\<close>, \<open>discovery\<close>.
  \<^item> \<open>Selection\<close>, \<open>Targets\<close>, \<open>Eligibility\<close>: \<open>session/selection.rs\<close>, \<open>target_candidate.rs\<close>, \<open>target\<close>,
    \<open>connectable.rs\<close>, \<open>restartable.rs\<close>, \<open>conflict.rs\<close>.
  \<^item> \<open>RunSpec\<close>: \<open>runtime/spec.rs\<close>, \<open>podman/run.rs\<close>, \<open>build.rs\<close>, \<open>dev_env/environment.rs\<close>.
  \<^item> \<open>Http\<close>, \<open>HttpLaws\<close>: \<open>runtime/http_probe\<close>, \<open>runtime/health.rs\<close>.
  \<^item> \<open>Effects\<close>, \<open>World\<close>: a state monad over everything outside the process, and the host a command
    acts on; \<open>process.rs\<close>, \<open>podman/executor.rs\<close>, \<open>podman/client.rs\<close>.
  \<^item> \<open>Trace\<close>, \<open>Order\<close>, \<open>LaunchTrace\<close>: a host that records events, and calculi for them: which events an
    operation may cause (\<open>only\<close>) and which must come before which. \<open>StartRunLaws\<close> adds what the end of a
    trace looks like (\<open>ends\<close>), \<open>StopLaws\<close> what comes right before an event (\<open>adjoins\<close>).
  \<^item> \<open>Cleanup\<close>: \<open>commands/container_cleanup.rs\<close>, \<open>codex_attach_auth.rs\<close>, \<open>exit_status.rs\<close>.
  \<^item> \<open>TokenStore\<close>: the store of \<open>codex_attach_auth.rs\<close> down to its calls on files; what it needs of them is the
    locale \<open>token_disk\<close>.
  \<^item> \<open>Server\<close>, \<open>ServerLaws\<close>: \<open>commands/detached_server.rs\<close>, \<open>server_readiness\<close>.
  \<^item> \<open>HostDiscovery\<close>, \<open>Launch\<close>: discovery on the host; \<open>commands/container_launch\<close>,
    \<open>managed_server.rs\<close>, \<open>runtime_command.rs\<close>. \<open>LaunchLaws\<close>: what a launch leaves is discovered as running.
    \<open>ClientEnv\<close>: the process a host client runs in and its \<open>NO_PROXY\<close>.
  \<^item> \<open>WorkspaceFlow\<close>, \<open>StartRun\<close>, \<open>StartRunLaws\<close>: \<open>commands/workspace_flow.rs\<close>, \<open>start.rs\<close>, \<open>run.rs\<close>,
    \<open>exec.rs\<close>, \<open>connect.rs\<close>.
  \<^item> \<open>Prompts\<close>: \<open>prompt.rs\<close>, \<open>commands/session_targets.rs\<close>. \<open>StopFlow\<close>, \<open>StopLaws\<close>: \<open>commands/stop.rs\<close>,
    \<open>stop/cleanup.rs\<close>. \<open>RestartFlow\<close>, \<open>RestartLaws\<close>: \<open>commands/restart.rs\<close>.
  \<^item> \<open>PodmanService\<close>, \<open>StopEffect\<close>: what Podman documents of the commands that stop and find containers, over the list
    of its containers (\<open>podman_serves\<close>), and what \<open>agentbox stop\<close> does to that list. \<open>LaunchEffect\<close>: the same of
    \<open>podman run\<close> (\<open>starts\<close>), with a host that can prepare a launch and a server that comes up in time; what a
    launch does to the list. \<open>StartEffect\<close>: \<open>agentbox start\<close> adds a container to the list and \<open>stop\<close> takes it
    away, and a workspace in use is left alone. \<open>RunEffect\<close>: \<open>agentbox run\<close> leaves the list as it was.
    \<open>ConnectEffect\<close>: \<open>agentbox connect\<close> reaches the server. \<open>SampleLaunch\<close>: a Podman for their instances.
  \<^item> \<open>Locks\<close>: \<open>lock.rs\<close>, \<open>state.rs\<close>; the operations of one process, and the protocol of several as a step
    relation with its invariant and its race.
  \<^item> \<open>Images\<close>, \<open>ImageLaws\<close>: \<open>commands/runtime.rs\<close> and \<open>commands/runtime/\<close>; the trait of the environment is
    the locale \<open>image_environment\<close>. \<open>BuildContext\<close>: the context of \<open>runtime/default_image.rs\<close>.
  \<^item> \<open>Clean\<close>, \<open>CleanLaws\<close>, \<open>CleanTrace\<close>, \<open>CleanEffect\<close>: \<open>commands/clean/\<close>; the plan, its execution, what is
    removed and what is left. The trait of the removal is the locale \<open>clean_removal\<close>.
  \<^item> \<open>Preflight\<close>, \<open>PreflightLaws\<close>: \<open>preflight\<close>, \<open>runtime/host_state.rs\<close>; the checks of the host and the
    mounts they give, over a file system read at one moment.
  \<^item> \<open>HostProbes\<close>, \<open>HostProbeLaws\<close>: \<open>git.rs\<close>, \<open>dev_env\<close>, \<open>wayland.rs\<close>, \<open>host_socket.rs\<close>.
  \<^item> \<open>KnownHosts\<close>, \<open>GitSsh\<close>, \<open>GitSshLaws\<close>: \<open>ssh_signing\<close>. \<open>HostWiring\<close>: a launch on a host whose preflight,
    development environment and passthrough are these models, and what a container can write of it.
  \<^item> \<open>Processes\<close>: the streaming half of \<open>process.rs\<close>; \<open>Runner\<close>: its \<open>ProcessRunner\<close> and the verbose executor. \<open>Views\<close>: \<open>commands/ps.rs\<close>, \<open>health.rs\<close>,
    \<open>session_output.rs\<close>, \<open>output.rs\<close>.
  \<^item> \<open>Diagnostics\<close>: \<open>diagnostic.rs\<close>, \<open>progress.rs\<close>. \<open>Completion\<close>: \<open>commands/completion\<close>.
  \<^item> \<open>Program\<close>, \<open>ProgramLaws\<close>, \<open>ProgramTrace\<close>: \<open>cli.rs\<close>, \<open>commands/mod.rs\<close>, \<open>lib.rs\<close>, \<open>launch_policy.rs\<close>; the
    commands, their dispatch, the exit status of the program, and what its commands do to the outside.
  \<^item> \<open>Samples\<close>, \<open>SampleHost\<close>: concrete inputs at which conditional properties are instantiated.

  \<^bold>\<open>State and effects.\<close> A command is a function in the state monad. The state \<open>'w\<close> stands for the
  world outside the process and is not interpreted; a record \<open>'w host\<close> gives each outside operation
  (running Podman, the clock, sockets, token files, locks). Errors are the left side of a sum. The
  order of operations is the order of the code, and \<open>logged\<close> makes it visible as a list of events.

  \<^bold>\<open>Bounds and fuel.\<close> The readiness loop takes fuel; 451 steps are enough for its 90 seconds at 200
  milliseconds each (\<open>readiness_returns\<close>). Machine integers keep their width: ports are 16 bits, limits
  64 bits, lengths are checked against the size of \<open>usize\<close>.

  \<^bold>\<open>Not modelled.\<close> What libraries do is a parameter: parsing of arguments (clap), the terminal (dialoguer,
  indicatif), the text syntax of JSON (serde), table layout, manual pages, SHA-256. The messages of \<open>debug\<close>
  level and of progress between the steps of a launch are left out.
\<close>

end
